(* ===== verification/Prelude.thy ===== *)
theory Prelude
  imports Complex_Main "HOL-Library.Word" "HOL-Library.Multiset"
begin

text \<open>
  Shared vocabulary of the development: the fixed-width integers of the code, the part of
  the C and C++ string library the code relies on (character classes, \<^verbatim>\<open>std::getline\<close>
  loops, stream extraction of words, \<^verbatim>\<open>strtoull\<close>, \<^verbatim>\<open>std::to_string\<close>) and the generic
  lemmas on lists and words the components use.

  \<^item> \<open>u8\<close>, \<open>u32\<close>, \<open>u64\<close> are words: sums wrap around as they do in the code.
  \<^item> \<open>double\<close> is the rational field: every finite double is a rational, rounding, the
    infinities and NaN are not modelled.
  \<^item> A \<^verbatim>\<open>std::string\<close> is a HOL \<open>string\<close>, one \<open>char\<close> per byte.
\<close>

type_synonym u8 = "8 word"
type_synonym u32 = "32 word"
type_synonym u64 = "64 word"
type_synonym i32 = int
type_synonym i64 = int
type_synonym double = rat

named_theorems wellformed \<open>facts that establish well-formedness invariants\<close>
named_theorems frame \<open>fields an operation leaves unchanged\<close>
named_theorems unfold_ops \<open>definitions of straight-line operations\<close>

section \<open>Characters and strings\<close>

text \<open>\<^verbatim>\<open>isspace\<close> of the C locale, and the value of a decimal digit.\<close>

definition is_space :: "char \<Rightarrow> bool" where
  "is_space c \<longleftrightarrow> (let n = (of_char c :: nat) in n = 32 \<or> (9 \<le> n \<and> n \<le> 13))"

definition is_digit :: "char \<Rightarrow> bool" where
  "is_digit c \<longleftrightarrow> (let n = (of_char c :: nat) in 48 \<le> n \<and> n \<le> 57)"

definition digit_val :: "char \<Rightarrow> nat" where
  "digit_val c = (of_char c :: nat) - 48"

definition digit_char :: "nat \<Rightarrow> char" where
  "digit_char d = char_of (48 + d)"

text \<open>The code's idiom \<^verbatim>\<open>s.rfind(p, 0) == 0\<close>: the string starts with \<open>p\<close>.\<close>

fun starts_with :: "string \<Rightarrow> string \<Rightarrow> bool" where
  "starts_with [] s = True"
| "starts_with (p # ps) [] = False"
| "starts_with (p # ps) (c # s) = (p = c \<and> starts_with ps s)"

text \<open>\<^verbatim>\<open>s.find(c)\<close>: the index of the first occurrence of a character.\<close>

fun find_char :: "char \<Rightarrow> string \<Rightarrow> nat option" where
  "find_char c [] = None"
| "find_char c (x # xs) = (if x = c then Some 0 else map_option Suc (find_char c xs))"

text \<open>\<^verbatim>\<open>s.find(p)\<close> for a string: the suffix that starts at the first occurrence.\<close>

fun find_sub :: "string \<Rightarrow> string \<Rightarrow> string option" where
  "find_sub p [] = (if p = [] then Some [] else None)"
| "find_sub p (c # s) = (if starts_with p (c # s) then Some (c # s) else find_sub p s)"

text \<open>
  The lines a \<^verbatim>\<open>while (std::getline(is, line))\<close> loop sees: the text cut at newlines, with
  no empty line after a final newline and no line at all for an empty text.
\<close>

fun getlines_aux :: "string \<Rightarrow> string \<Rightarrow> string list" where
  "getlines_aux acc [] = (if acc = [] then [] else [rev acc])"
| "getlines_aux acc (c # s) =
     (if c = CHR 0x0A then rev acc # getlines_aux [] s else getlines_aux (c # acc) s)"

definition getlines :: "string \<Rightarrow> string list" where
  "getlines s = getlines_aux [] s"

text \<open>
  The tokens \<^verbatim>\<open>while (is >> t)\<close> extracts: maximal runs of non-space characters.
\<close>

fun split_ws_aux :: "string \<Rightarrow> string \<Rightarrow> string list" where
  "split_ws_aux acc [] = (if acc = [] then [] else [rev acc])"
| "split_ws_aux acc (c # s) =
     (if is_space c then (if acc = [] then split_ws_aux [] s else rev acc # split_ws_aux [] s)
      else split_ws_aux (c # acc) s)"

definition split_ws :: "string \<Rightarrow> string list" where
  "split_ws s = split_ws_aux [] s"

section \<open>Numbers in text\<close>

text \<open>The decimal digits of a number, as \<^verbatim>\<open>std::to_string\<close> and \<^verbatim>\<open>%llu\<close> print it.\<close>

fun show_nat :: "nat \<Rightarrow> string" where
  "show_nat n = (if n < 10 then [digit_char n]
                 else show_nat (n div 10) @ [digit_char (n mod 10)])"

declare show_nat.simps [simp del]

definition digits_val :: "string \<Rightarrow> nat" where
  "digits_val ds = foldl (\<lambda>a c. 10 * a + digit_val c) 0 ds"

text \<open>
  \<^verbatim>\<open>strtoull(s, &end, 10)\<close>: leading white space, an optional sign, decimal digits; the
  value saturates at \<open>2^64 - 1\<close>, and a minus sign negates it modulo \<open>2^64\<close>. The result
  is \<open>None\<close> when no digit was found (\<^verbatim>\<open>end == s\<close>).
\<close>

definition strtoull_sign :: "string \<Rightarrow> bool \<times> string" where
  "strtoull_sign s =
     (case s of [] \<Rightarrow> (False, [])
      | c # r \<Rightarrow> (if c = CHR ''-'' then (True, r) else if c = CHR ''+'' then (False, r)
                 else (False, s)))"

definition strtoull :: "string \<Rightarrow> u64 option" where
  "strtoull s =
     (let (neg, r) = strtoull_sign (dropWhile is_space s);
          ds = takeWhile is_digit r
      in if ds = [] then None
         else let v = digits_val ds
              in if 2 ^ 64 \<le> v then Some (- 1)
                 else Some (if neg then - of_nat v else of_nat v))"

subsection \<open>Printing and parsing a number are inverse\<close>

lemma of_char_digit_char: "d < 10 \<Longrightarrow> (of_char (digit_char d) :: nat) = 48 + d"
  by (simp add: digit_char_def)

lemma is_digit_digit_char [simp]: "d < 10 \<Longrightarrow> is_digit (digit_char d)"
  by (simp add: is_digit_def of_char_digit_char)

lemma digit_val_digit_char [simp]: "d < 10 \<Longrightarrow> digit_val (digit_char d) = d"
  by (simp add: digit_val_def of_char_digit_char)

lemma is_digit_not_space: "is_digit c \<Longrightarrow> \<not> is_space c"
  by (auto simp: is_digit_def is_space_def Let_def)

lemma is_digit_not_sign: "is_digit c \<Longrightarrow> c \<noteq> CHR ''-'' \<and> c \<noteq> CHR ''+''"
  by (auto simp: is_digit_def Let_def)

lemma is_digit_not_comma: "is_digit c \<Longrightarrow> c \<noteq> CHR '',''"
  by (auto simp: is_digit_def Let_def)

lemma digits_val_append: "digits_val (ds @ [c]) = 10 * digits_val ds + digit_val c"
  by (simp add: digits_val_def)

lemma show_nat_digits: "list_all is_digit (show_nat n)"
  by (induction n rule: show_nat.induct) (subst show_nat.simps, auto)

lemma show_nat_nonempty [simp]: "show_nat n \<noteq> []"
  by (subst show_nat.simps) auto

lemma digits_val_show_nat [simp]: "digits_val (show_nat n) = n"
proof (induction n rule: show_nat.induct)
  case (1 n)
  show ?case
  proof (cases "n < 10")
    case True
    then show ?thesis by (subst show_nat.simps) (simp add: digits_val_def)
  next
    case False
    with "1.IH" have "digits_val (show_nat (n div 10)) = n div 10" by simp
    with False show ?thesis
      by (subst show_nat.simps) (simp add: digits_val_append)
  qed
qed

lemma takeWhile_all: "list_all P xs \<Longrightarrow> takeWhile P xs = xs"
  by (induction xs) auto

lemma show_nat_hd: "\<exists>c r. show_nat n = c # r \<and> is_digit c"
  using show_nat_digits [of n] by (cases "show_nat n") auto

lemma strtoull_show_nat: "n < 2 ^ 64 \<Longrightarrow> strtoull (show_nat n) = Some (of_nat n)"
proof -
  assume n: "n < 2 ^ 64"
  obtain c r where cr: "show_nat n = c # r" and dig: "is_digit c"
    using show_nat_hd by blast
  have drop: "dropWhile is_space (show_nat n) = show_nat n"
    using cr dig is_digit_not_space by auto
  have sign: "strtoull_sign (show_nat n) = (False, show_nat n)"
    using cr is_digit_not_sign [OF dig] by (simp add: strtoull_sign_def)
  show ?thesis
    using n by (simp add: strtoull_def drop sign takeWhile_all show_nat_digits)
qed

lemma show_nat_inj: "show_nat m = show_nat n \<Longrightarrow> m = n"
  by (metis digits_val_show_nat)

section \<open>Strings: prefixes and tokens\<close>

lemma starts_with_iff: "starts_with p s \<longleftrightarrow> (\<exists>t. s = p @ t)"
  by (induction p s rule: starts_with.induct) auto

lemma starts_with_append [simp]: "starts_with p (p @ t)"
  by (simp add: starts_with_iff)

lemma starts_with_length: "starts_with p s \<Longrightarrow> length p \<le> length s"
  by (auto simp: starts_with_iff)

lemma split_ws_aux_tokens:
  assumes "list_all (\<lambda>c. \<not> is_space c) acc" and "t \<in> set (split_ws_aux acc s)"
  shows "list_all (\<lambda>c. \<not> is_space c) t \<and> t \<noteq> []"
  using assms
proof (induction s arbitrary: acc)
  case Nil
  then show ?case by (auto simp: list_all_iff split: if_splits)
next
  case (Cons c s)
  then show ?case
    using Cons.IH [of "[]"] Cons.IH [of "c # acc"]
    by (cases "is_space c"; cases "acc = []") auto
qed

lemma split_ws_tokens: "t \<in> set (split_ws s) \<Longrightarrow> list_all (\<lambda>c. \<not> is_space c) t \<and> t \<noteq> []"
  unfolding split_ws_def by (rule split_ws_aux_tokens [of "[]"]) auto

section \<open>Words\<close>

text \<open>Clamping facts and guarded arithmetic, used by every component with timestamps.\<close>

lemma word_min_max_bounds:
  fixes lo hi v :: "'a::len word"
  assumes "lo \<le> hi"
  shows "lo \<le> (if v < lo then lo else if v > hi then hi else v)"
    and "(if v < lo then lo else if v > hi then hi else v) \<le> hi"
  using assms by (auto simp: not_less)

lemma unat_plus_no_wrap:
  fixes a b :: "'a::len word"
  assumes "unat a + unat b < 2 ^ LENGTH('a)"
  shows "unat (a + b) = unat a + unat b"
  using assms by (simp add: unat_word_ariths)

lemma word_le_plus_no_wrap:
  fixes a b :: "'a::len word"
  assumes "unat a + unat b < 2 ^ LENGTH('a)"
  shows "a \<le> a + b"
  using unat_plus_no_wrap [OF assms] by (simp add: word_le_nat_alt)

section \<open>Lists\<close>

text \<open>
  A stable insertion sort by descending or ascending key stands for \<^verbatim>\<open>std::sort\<close> with a
  key comparator: the library only promises a sorted permutation, and the theorems of the
  components use no more than that.
\<close>

definition sort_desc :: "('a \<Rightarrow> 'b::linorder) \<Rightarrow> 'a list \<Rightarrow> 'a list" where
  "sort_desc f xs = rev (sort_key f (rev xs))"

lemma set_sort_desc [simp]: "set (sort_desc f xs) = set xs"
  by (simp add: sort_desc_def)

lemma length_sort_desc [simp]: "length (sort_desc f xs) = length xs"
  by (simp add: sort_desc_def)

lemma mset_sort_desc [simp]: "mset (sort_desc f xs) = mset xs"
  by (simp add: sort_desc_def mset_rev)

lemma sort_desc_sorted: "sorted_wrt (\<lambda>x y. f y \<le> f x) (sort_desc f xs)"
proof -
  have "sorted_wrt (\<lambda>x y. f x \<le> f y) (sort_key f (rev xs))"
    using sorted_sort_key [of f "rev xs"] by (simp add: sorted_map)
  then show ?thesis by (simp add: sort_desc_def sorted_wrt_rev)
qed

lemma sort_desc_hd_max:
  assumes "sort_desc f xs = y # ys" and "x \<in> set xs"
  shows "f x \<le> f y"
proof -
  have "sorted_wrt (\<lambda>x y. f y \<le> f x) (y # ys)"
    using sort_desc_sorted [of f xs] assms(1) by simp
  moreover have "x \<in> set (y # ys)"
    using assms by (metis set_sort_desc)
  ultimately show ?thesis by auto
qed

text \<open>Association lists with unique keys, the model of the containers of the code.\<close>

fun alist_put :: "'k \<Rightarrow> 'v \<Rightarrow> ('k \<times> 'v) list \<Rightarrow> ('k \<times> 'v) list" where
  "alist_put k v [] = [(k, v)]"
| "alist_put k v ((k', v') # xs) =
     (if k = k' then (k, v) # xs else (k', v') # alist_put k v xs)"

definition alist_del :: "'k \<Rightarrow> ('k \<times> 'v) list \<Rightarrow> ('k \<times> 'v) list" where
  "alist_del k xs = filter (\<lambda>p. fst p \<noteq> k) xs"

lemma map_of_alist_put [simp]: "map_of (alist_put k v xs) = (map_of xs)(k \<mapsto> v)"
  by (induction k v xs rule: alist_put.induct) auto

lemma map_of_alist_del [simp]: "map_of (alist_del k xs) = (map_of xs)(k := None)"
  by (induction xs) (auto simp: alist_del_def fun_eq_iff)

lemma keys_alist_put [simp]: "fst ` set (alist_put k v xs) = insert k (fst ` set xs)"
  by (induction k v xs rule: alist_put.induct) auto

lemma keys_alist_del [simp]: "fst ` set (alist_del k xs) = fst ` set xs - {k}"
  by (auto simp: alist_del_def image_iff)

lemma distinct_alist_put:
  "distinct (map fst xs) \<Longrightarrow> distinct (map fst (alist_put k v xs))"
proof (induction k v xs rule: alist_put.induct)
  case (2 k v k' v' xs)
  then show ?case using keys_alist_put [of k v xs] by (auto simp del: keys_alist_put)
qed simp

lemma distinct_alist_del:
  "distinct (map fst xs) \<Longrightarrow> distinct (map fst (alist_del k xs))"
  by (induction xs) (auto simp: alist_del_def)

end
