(* ===== verification/Json.thy ===== *)
theory Json
  imports Prelude
begin

text \<open>
  JSON values as the code manipulates them through the vendored nlohmann library: the value
  tree, key lookup, the implicit conversions to the field types of the configuration (with
  the library's type errors as values), and RFC 7396 merge patch. An object is an
  association list; the order of its members is not observed by lookups.
\<close>

datatype json =
    JNull
  | JBool bool
  | JInt int
  | JDbl double
  | JStr string
  | JArr "json list"
  | JObj "(string \<times> json) list"

text \<open>
  The errors a conversion can raise: the library's \<^verbatim>\<open>type_error\<close> 302, and the undefined
  behaviour of converting an out-of-range double to an integer.
\<close>

datatype json_error = TypeError | UndefinedCast

definition jmembers :: "json \<Rightarrow> (string \<times> json) list" where
  "jmembers j = (case j of JObj ms \<Rightarrow> ms | _ \<Rightarrow> [])"

definition jcontains :: "json \<Rightarrow> string \<Rightarrow> bool" where
  "jcontains j k \<longleftrightarrow> map_of (jmembers j) k \<noteq> None"

definition jget :: "json \<Rightarrow> string \<Rightarrow> json" where
  "jget j k = (case map_of (jmembers j) k of None \<Rightarrow> JNull | Some v \<Rightarrow> v)"

definition jnum :: "'a::len word \<Rightarrow> json" where
  "jnum w = JInt (uint w)"

section \<open>Conversions\<close>

text \<open>
  \<^verbatim>\<open>static_cast<uintN_t>\<close> of a number: an integer is reduced modulo \<open>2^N\<close>; a double is
  truncated towards zero, which is undefined when the result does not fit.
\<close>

definition cast_double :: "double \<Rightarrow> json_error + 'a::len word" where
  "cast_double q =
     (if - 1 < q \<and> q < 2 ^ LENGTH('a) then Inr (if q \<le> 0 then 0 else word_of_int \<lfloor>q\<rfloor>)
      else Inl UndefinedCast)"

text \<open>\<^verbatim>\<open>uint64_t\<close> is the library's own unsigned type: a boolean is a type error.\<close>

definition get_u64 :: "json \<Rightarrow> json_error + u64" where
  "get_u64 j = (case j of JInt i \<Rightarrow> Inr (word_of_int i) | JDbl q \<Rightarrow> cast_double q
                | _ \<Rightarrow> Inl TypeError)"

text \<open>\<^verbatim>\<open>uint32_t\<close> goes through the generic arithmetic conversion, which takes booleans.\<close>

definition get_u32 :: "json \<Rightarrow> json_error + u32" where
  "get_u32 j = (case j of JInt i \<Rightarrow> Inr (word_of_int i) | JDbl q \<Rightarrow> cast_double q
                | JBool b \<Rightarrow> Inr (if b then 1 else 0) | _ \<Rightarrow> Inl TypeError)"

definition get_double :: "json \<Rightarrow> json_error + double" where
  "get_double j = (case j of JInt i \<Rightarrow> Inr (of_int i) | JDbl q \<Rightarrow> Inr q | _ \<Rightarrow> Inl TypeError)"

definition get_bool :: "json \<Rightarrow> json_error + bool" where
  "get_bool j = (case j of JBool b \<Rightarrow> Inr b | _ \<Rightarrow> Inl TypeError)"

definition get_string :: "json \<Rightarrow> json_error + string" where
  "get_string j = (case j of JStr s \<Rightarrow> Inr s | _ \<Rightarrow> Inl TypeError)"

fun get_all :: "(json \<Rightarrow> json_error + 'a) \<Rightarrow> json list \<Rightarrow> json_error + 'a list" where
  "get_all g [] = Inr []"
| "get_all g (j # js) =
     (case g j of Inl e \<Rightarrow> Inl e
      | Inr x \<Rightarrow> (case get_all g js of Inl e \<Rightarrow> Inl e | Inr xs \<Rightarrow> Inr (x # xs)))"

definition get_u32s :: "json \<Rightarrow> json_error + u32 list" where
  "get_u32s j = (case j of JArr js \<Rightarrow> get_all get_u32 js | _ \<Rightarrow> Inl TypeError)"

definition get_strings :: "json \<Rightarrow> json_error + string list" where
  "get_strings j = (case j of JArr js \<Rightarrow> get_all get_string js | _ \<Rightarrow> Inl TypeError)"

section \<open>Field-by-field reading\<close>

text \<open>
  \<open>jset\<close> is one statement \<^verbatim>\<open>if (s.contains(k)) c.f = s[k];\<close>; \<open>jsub\<close> is one nested block
  \<^verbatim>\<open>if (j.contains(k)) { auto& s = j[k]; ... }\<close>; \<open>jseq\<close> runs such statements in order and
  stops at the first exception.
\<close>

definition jset :: "string \<Rightarrow> (json \<Rightarrow> json_error + 'v) \<Rightarrow> ('v \<Rightarrow> 'c \<Rightarrow> 'c) \<Rightarrow> json
    \<Rightarrow> 'c \<Rightarrow> json_error + 'c" where
  "jset k cv upd j c =
     (if jcontains j k
      then (case cv (jget j k) of Inl e \<Rightarrow> Inl e | Inr v \<Rightarrow> Inr (upd v c))
      else Inr c)"

definition jsub :: "string \<Rightarrow> (json \<Rightarrow> 'v \<Rightarrow> json_error + 'v) \<Rightarrow> ('c \<Rightarrow> 'v) \<Rightarrow> ('v \<Rightarrow> 'c \<Rightarrow> 'c)
    \<Rightarrow> json \<Rightarrow> 'c \<Rightarrow> json_error + 'c" where
  "jsub k f get upd j c =
     (if jcontains j k
      then (case f (jget j k) (get c) of Inl e \<Rightarrow> Inl e | Inr v \<Rightarrow> Inr (upd v c))
      else Inr c)"

fun jseq :: "('c \<Rightarrow> json_error + 'c) list \<Rightarrow> 'c \<Rightarrow> json_error + 'c" where
  "jseq [] c = Inr c"
| "jseq (f # fs) c = (case f c of Inl e \<Rightarrow> Inl e | Inr c' \<Rightarrow> jseq fs c')"

section \<open>Merge patch\<close>

text \<open>
  \<^verbatim>\<open>basic_json::merge_patch\<close>: a patch that is not an object replaces the target; the
  members of an object patch are merged one by one, a null member erases its key.
\<close>

fun merge_patch :: "json \<Rightarrow> json \<Rightarrow> json"
  and merge_members :: "(string \<times> json) list \<Rightarrow> (string \<times> json) list \<Rightarrow> (string \<times> json) list"
where
  "merge_patch t (JObj ps) = JObj (merge_members (jmembers t) ps)"
| "merge_patch t JNull = JNull"
| "merge_patch t (JBool b) = JBool b"
| "merge_patch t (JInt i) = JInt i"
| "merge_patch t (JDbl q) = JDbl q"
| "merge_patch t (JStr s) = JStr s"
| "merge_patch t (JArr js) = JArr js"
| "merge_members m [] = m"
| "merge_members m ((k, v) # ps) =
     merge_members
       (if v = JNull then alist_del k m
        else alist_put k (merge_patch (jget (JObj m) k) v) m) ps"

section \<open>Facts\<close>

lemma jget_obj [simp]: "jget (JObj ms) k = (case map_of ms k of None \<Rightarrow> JNull | Some v \<Rightarrow> v)"
  by (simp add: jget_def jmembers_def)

lemma jcontains_obj [simp]: "jcontains (JObj ms) k \<longleftrightarrow> map_of ms k \<noteq> None"
  by (simp add: jcontains_def jmembers_def)

lemma jcontains_non_object [simp]:
  "\<not> jcontains JNull k" "\<not> jcontains (JBool b) k" "\<not> jcontains (JInt i) k"
  "\<not> jcontains (JDbl q) k" "\<not> jcontains (JStr s) k" "\<not> jcontains (JArr js) k"
  by (simp_all add: jcontains_def jmembers_def)

lemma jmembers_obj [simp]: "jmembers (JObj ms) = ms"
  by (simp add: jmembers_def)

lemma get_u64_jnum [simp]: "get_u64 (jnum w) = Inr w"
  by (simp add: get_u64_def jnum_def)

lemma get_u32_jnum [simp]: "get_u32 (jnum w) = Inr w"
  by (simp add: get_u32_def jnum_def)

lemma get_double_JDbl [simp]: "get_double (JDbl q) = Inr q"
  by (simp add: get_double_def)

lemma get_bool_JBool [simp]: "get_bool (JBool b) = Inr b"
  by (simp add: get_bool_def)

lemma get_string_JStr [simp]: "get_string (JStr s) = Inr s"
  by (simp add: get_string_def)

lemma get_all_map [simp]: "(\<And>x. g (f x) = Inr x) \<Longrightarrow> get_all g (map f xs) = Inr xs"
  by (induction xs) auto

lemma get_u32s_jnums [simp]: "get_u32s (JArr (map jnum ws)) = Inr ws"
  by (simp add: get_u32s_def)

lemma get_strings_JStrs [simp]: "get_strings (JArr (map JStr ss)) = Inr ss"
  by (simp add: get_strings_def)

lemma jset_absent: "\<not> jcontains j k \<Longrightarrow> jset k cv upd j c = Inr c"
  by (simp add: jset_def)

lemma jsub_absent: "\<not> jcontains j k \<Longrightarrow> jsub k f get upd j c = Inr c"
  by (simp add: jsub_def)

lemma merge_patch_empty [simp]: "merge_patch (JObj ms) (JObj []) = JObj ms"
  by simp

text \<open>Keys the patch does not mention keep the target's value; a null erases.\<close>

lemma merge_members_other:
  "k \<notin> fst ` set ps \<Longrightarrow> map_of (merge_members m ps) k = map_of m k"
  by (induction ps arbitrary: m) auto

lemma merge_members_get:
  "distinct (map fst ps) \<Longrightarrow> (k, v) \<in> set ps \<Longrightarrow>
   map_of (merge_members m ps) k =
     (if v = JNull then None else Some (merge_patch (jget (JObj m) k) v))"
proof (induction ps arbitrary: m)
  case Nil
  then show ?case by simp
next
  case (Cons p ps)
  obtain k' v' where p: "p = (k', v')" by fastforce
  show ?case
  proof (cases "k' = k \<and> v' = v")
    case True
    then have "k \<notin> fst ` set ps" using Cons.prems(1) p by simp
    then show ?thesis using True p by (simp add: merge_members_other)
  next
    case False
    with Cons.prems p have mem: "(k, v) \<in> set ps" and ne: "k' \<noteq> k"
      by (auto simp: image_iff)
    let ?m = "if v' = JNull then alist_del k' m else alist_put k' (merge_patch (jget (JObj m) k') v') m"
    have "map_of ?m k = map_of m k" using ne by simp
    then have "jget (JObj ?m) k = jget (JObj m) k" by (simp del: jget_obj add: jget_def)
    then show ?thesis
      using Cons.IH [of ?m] Cons.prems(1) mem p by (simp del: jget_obj)
  qed
qed

end
