(* ===== verification/Config.thy ===== *)
theory Config
  imports Json
begin

text \<open>
  The configuration component (\<^verbatim>\<open>include/etrace_diag/config.h\<close>, \<^verbatim>\<open>src/config.cpp\<close>): the
  tunables as records, the built-in defaults, \<open>Sanitize\<close> (clamping), the JSON form and the
  overlay of a configuration file, and the environment overrides. The precedence of the
  sources (defaults, file, environment, command line) is the composition in
  \<open>load_config\<close>, which \<^verbatim>\<open>main\<close> and the SIGHUP reload perform.
  \<^verbatim>\<open>strtod\<close> and \<^verbatim>\<open>getenv\<close> are arguments of the definitions that call them.
\<close>

section \<open>Data and defaults\<close>

record SampleTunables =
  sm_base_host_interval_ms :: u64
  sm_base_feature_interval_ms :: u64
  sm_fine_interval_ms :: u64
  sm_deep_fine_interval_ms :: u64
  sm_deep_dump_interval_ms :: u64
  sm_profile_freq_hz :: u64
  sm_offcpu_sample_rate :: u32
  sm_iofile_sample_rate :: u32
  sm_overhead_interval_ms :: u64

record WindowTunables =
  wn_pre_anomaly_seconds :: u64
  wn_post_anomaly_seconds :: u64
  wn_ring_backlog_seconds :: u64
  wn_end_debounce_samples :: u32
  wn_end_grace_seconds :: u64

record TargetWeights =
  tw_cpu :: double
  tw_swch :: double
  tw_io :: double
  tw_fault :: double
  tw_lock :: double

record TargetsTunables =
  tg_max_targets :: u32
  tg_auto_scale :: bool
  tg_min_targets :: u32
  tg_per_proc_threads :: u32
  tg_concurrency_factor :: double
  tg_eval_interval_ms :: u64
  tg_window_seconds :: u64
  tg_enter_rank :: u32
  tg_leave_rank :: u32
  tg_hold_periods :: u32
  tg_min_residency_seconds :: u64
  tg_pinned :: "u32 list"
  tg_weights :: TargetWeights

record DeviceTunables =
  dv_network_enabled :: bool
  dv_deep_network_enabled :: bool
  dv_gpu_source :: string
  dv_deep_gpu_enabled :: bool
  dv_deep_gpu_interval_ms :: u64
  dv_net_event_sample_rate :: u32

record ModelTunables =
  md_anomaly_url :: string
  md_anomaly_timeout_ms :: u64
  md_causal_url :: string
  md_causal_timeout_ms :: u64
  md_adapter :: string

record OutputTunables =
  ou_dir :: string
  ou_metrics_format :: string
  ou_profile_format :: string

record MiscTunables =
  mi_log_level :: string
  mi_categories :: "string list"
  mi_pid_filter :: u64
  mi_enable_bpf_stats :: bool

record Config =
  c_sample :: SampleTunables
  c_window :: WindowTunables
  c_targets :: TargetsTunables
  c_model :: ModelTunables
  c_output :: OutputTunables
  c_misc :: MiscTunables
  c_devices :: DeviceTunables

text \<open>The in-class initialisers of the structs.\<close>

definition SampleTunables0 :: SampleTunables where
  "SampleTunables0 = \<lparr>sm_base_host_interval_ms = 1000,
     sm_base_feature_interval_ms = 1000,
     sm_fine_interval_ms = 100,
     sm_deep_fine_interval_ms = 20,
     sm_deep_dump_interval_ms = 1000,
     sm_profile_freq_hz = 99,
     sm_offcpu_sample_rate = 16,
     sm_iofile_sample_rate = 4,
     sm_overhead_interval_ms = 1000\<rparr>"

definition WindowTunables0 :: WindowTunables where
  "WindowTunables0 = \<lparr>wn_pre_anomaly_seconds = 60,
     wn_post_anomaly_seconds = 180,
     wn_ring_backlog_seconds = 90,
     wn_end_debounce_samples = 3,
     wn_end_grace_seconds = 5\<rparr>"

definition TargetWeights0 :: TargetWeights where
  "TargetWeights0 = \<lparr>tw_cpu = 7 / 20,
     tw_swch = 3 / 20,
     tw_io = 1 / 5,
     tw_fault = 3 / 20,
     tw_lock = 3 / 20\<rparr>"

definition TargetsTunables0 :: TargetsTunables where
  "TargetsTunables0 = \<lparr>tg_max_targets = 64,
     tg_auto_scale = True,
     tg_min_targets = 4,
     tg_per_proc_threads = 4,
     tg_concurrency_factor = 2,
     tg_eval_interval_ms = 5000,
     tg_window_seconds = 30,
     tg_enter_rank = 12,
     tg_leave_rank = 20,
     tg_hold_periods = 3,
     tg_min_residency_seconds = 10,
     tg_pinned = [],
     tg_weights = TargetWeights0\<rparr>"

definition DeviceTunables0 :: DeviceTunables where
  "DeviceTunables0 = \<lparr>dv_network_enabled = True,
     dv_deep_network_enabled = True,
     dv_gpu_source = ''auto'',
     dv_deep_gpu_enabled = True,
     dv_deep_gpu_interval_ms = 100,
     dv_net_event_sample_rate = 16\<rparr>"

definition ModelTunables0 :: ModelTunables where
  "ModelTunables0 = \<lparr>md_anomaly_url = ''ws://127.0.0.1:9001/anomaly'',
     md_anomaly_timeout_ms = 5000,
     md_causal_url = ''ws://127.0.0.1:9002/causal'',
     md_causal_timeout_ms = 30000,
     md_adapter = ''ws''\<rparr>"

definition OutputTunables0 :: OutputTunables where
  "OutputTunables0 = \<lparr>ou_dir = [],
     ou_metrics_format = ''jsonl'',
     ou_profile_format = ''folded''\<rparr>"

definition MiscTunables0 :: MiscTunables where
  "MiscTunables0 = \<lparr>mi_log_level = ''info'',
     mi_categories = [''cpu'', ''io'', ''memory'', ''lock'', ''syscall''],
     mi_pid_filter = 0,
     mi_enable_bpf_stats = True\<rparr>"

definition Config0 :: Config where
  "Config0 = \<lparr>c_sample = SampleTunables0, c_window = WindowTunables0, c_targets = TargetsTunables0, c_model = ModelTunables0, c_output = OutputTunables0, c_misc = MiscTunables0, c_devices = DeviceTunables0\<rparr>"

definition DefaultConfig :: Config where
  "DefaultConfig = Config0\<lparr>c_output := OutputTunables0\<lparr>ou_dir := ''out''\<rparr>\<rparr>"

text \<open>The clamp helpers, one per numeric type.\<close>

definition ClampU64 :: "u64 \<Rightarrow> u64 \<Rightarrow> u64 \<Rightarrow> u64" where
  "ClampU64 v lo hi = (if v < lo then lo else if v > hi then hi else v)"

definition ClampU32 :: "u32 \<Rightarrow> u32 \<Rightarrow> u32 \<Rightarrow> u32" where
  "ClampU32 v lo hi = (if v < lo then lo else if v > hi then hi else v)"

definition ClampD :: "double \<Rightarrow> double \<Rightarrow> double \<Rightarrow> double" where
  "ClampD v lo hi = (if v < lo then lo else if v > hi then hi else v)"

definition sanitize_sample :: "SampleTunables \<Rightarrow> SampleTunables" where
  "sanitize_sample x = x\<lparr>sm_base_host_interval_ms := ClampU64 (sm_base_host_interval_ms x) 100 60000,
     sm_base_feature_interval_ms := ClampU64 (sm_base_feature_interval_ms x) 100 60000,
     sm_fine_interval_ms := ClampU64 (sm_fine_interval_ms x) 10 5000,
     sm_deep_fine_interval_ms := ClampU64 (sm_deep_fine_interval_ms x) 5 1000,
     sm_deep_dump_interval_ms := ClampU64 (sm_deep_dump_interval_ms x) 100 60000,
     sm_profile_freq_hz := ClampU64 (sm_profile_freq_hz x) 1 10000,
     sm_offcpu_sample_rate := ClampU32 (sm_offcpu_sample_rate x) 1 100000,
     sm_iofile_sample_rate := ClampU32 (sm_iofile_sample_rate x) 1 1000000,
     sm_overhead_interval_ms := ClampU64 (sm_overhead_interval_ms x) 100 60000\<rparr>"

definition sanitize_window :: "WindowTunables \<Rightarrow> WindowTunables" where
  "sanitize_window x = x\<lparr>wn_pre_anomaly_seconds := ClampU64 (wn_pre_anomaly_seconds x) 1 3600,
     wn_post_anomaly_seconds := ClampU64 (wn_post_anomaly_seconds x) 1 3600,
     wn_ring_backlog_seconds := ClampU64 (wn_ring_backlog_seconds x) 1 3600,
     wn_end_debounce_samples := ClampU32 (wn_end_debounce_samples x) 1 1000,
     wn_end_grace_seconds := ClampU64 (wn_end_grace_seconds x) 0 3600\<rparr>"

definition sanitize_weights :: "TargetWeights \<Rightarrow> TargetWeights" where
  "sanitize_weights x = x\<lparr>tw_cpu := ClampD (tw_cpu x) 0 1,
     tw_swch := ClampD (tw_swch x) 0 1,
     tw_io := ClampD (tw_io x) 0 1,
     tw_fault := ClampD (tw_fault x) 0 1,
     tw_lock := ClampD (tw_lock x) 0 1\<rparr>"

definition sanitize_targets :: "TargetsTunables \<Rightarrow> TargetsTunables" where
  "sanitize_targets x =
     (let mx = ClampU32 (tg_max_targets x) 1 1024;
          er = ClampU32 (tg_enter_rank x) 1 1024
      in x\<lparr>tg_weights := sanitize_weights (tg_weights x),
     tg_max_targets := mx,
     tg_min_targets := ClampU32 (tg_min_targets x) 1 mx,
     tg_per_proc_threads := ClampU32 (tg_per_proc_threads x) 1 256,
     tg_eval_interval_ms := ClampU64 (tg_eval_interval_ms x) 1000 3600000,
     tg_window_seconds := ClampU64 (tg_window_seconds x) 1 3600,
     tg_concurrency_factor := ClampD (tg_concurrency_factor x) (1 / 2) 64,
     tg_enter_rank := er,
     tg_leave_rank := ClampU32 (tg_leave_rank x) er 4096,
     tg_hold_periods := ClampU32 (tg_hold_periods x) 1 1000,
     tg_min_residency_seconds := ClampU64 (tg_min_residency_seconds x) 0 36000\<rparr>)"

definition gpu_source_known :: "string \<Rightarrow> bool" where
  "gpu_source_known s \<longleftrightarrow> s = ''auto'' \<or> s = ''off'' \<or> s = ''nvml'' \<or> s = ''drm''"

definition sanitize_devices :: "DeviceTunables \<Rightarrow> DeviceTunables" where
  "sanitize_devices x = x\<lparr>dv_deep_gpu_interval_ms := ClampU64 (dv_deep_gpu_interval_ms x) 10 5000,
     dv_net_event_sample_rate := ClampU32 (dv_net_event_sample_rate x) 1 100000,
     dv_gpu_source := (if \<not> gpu_source_known (dv_gpu_source x) then ''auto'' else dv_gpu_source x)\<rparr>"

definition sanitize_model :: "ModelTunables \<Rightarrow> ModelTunables" where
  "sanitize_model x =
     (if md_adapter x \<noteq> ''ws'' \<and> md_adapter x \<noteq> ''onnx'' then x\<lparr>md_adapter := ''ws''\<rparr> else x)"

definition sanitize_output :: "OutputTunables \<Rightarrow> OutputTunables" where
  "sanitize_output x = x\<lparr>ou_dir := (if ou_dir x = [] then ''out'' else ou_dir x)\<rparr>"

definition Sanitize :: "Config \<Rightarrow> Config" where
  "Sanitize cfg = cfg\<lparr>
     c_sample := sanitize_sample (c_sample cfg),
     c_window := sanitize_window (c_window cfg),
     c_targets := sanitize_targets (c_targets cfg),
     c_devices := sanitize_devices (c_devices cfg),
     c_model := sanitize_model (c_model cfg),
     c_output := sanitize_output (c_output cfg)\<rparr>"

text \<open>The bounds every running configuration has to respect, section by section.\<close>

definition sample_ok :: "SampleTunables \<Rightarrow> bool" where
  "sample_ok x \<longleftrightarrow>
     100 \<le> sm_base_host_interval_ms x \<and> sm_base_host_interval_ms x \<le> 60000 \<and>
     100 \<le> sm_base_feature_interval_ms x \<and> sm_base_feature_interval_ms x \<le> 60000 \<and>
     10 \<le> sm_fine_interval_ms x \<and> sm_fine_interval_ms x \<le> 5000 \<and>
     5 \<le> sm_deep_fine_interval_ms x \<and> sm_deep_fine_interval_ms x \<le> 1000 \<and>
     100 \<le> sm_deep_dump_interval_ms x \<and> sm_deep_dump_interval_ms x \<le> 60000 \<and>
     1 \<le> sm_profile_freq_hz x \<and> sm_profile_freq_hz x \<le> 10000 \<and>
     1 \<le> sm_offcpu_sample_rate x \<and> sm_offcpu_sample_rate x \<le> 100000 \<and>
     1 \<le> sm_iofile_sample_rate x \<and> sm_iofile_sample_rate x \<le> 1000000 \<and>
     100 \<le> sm_overhead_interval_ms x \<and> sm_overhead_interval_ms x \<le> 60000"

definition window_ok :: "WindowTunables \<Rightarrow> bool" where
  "window_ok x \<longleftrightarrow>
     1 \<le> wn_pre_anomaly_seconds x \<and> wn_pre_anomaly_seconds x \<le> 3600 \<and>
     1 \<le> wn_post_anomaly_seconds x \<and> wn_post_anomaly_seconds x \<le> 3600 \<and>
     1 \<le> wn_ring_backlog_seconds x \<and> wn_ring_backlog_seconds x \<le> 3600 \<and>
     1 \<le> wn_end_debounce_samples x \<and> wn_end_debounce_samples x \<le> 1000 \<and>
     0 \<le> wn_end_grace_seconds x \<and> wn_end_grace_seconds x \<le> 3600"

definition weights_ok :: "TargetWeights \<Rightarrow> bool" where
  "weights_ok x \<longleftrightarrow>
     0 \<le> tw_cpu x \<and> tw_cpu x \<le> 1 \<and>
     0 \<le> tw_swch x \<and> tw_swch x \<le> 1 \<and>
     0 \<le> tw_io x \<and> tw_io x \<le> 1 \<and>
     0 \<le> tw_fault x \<and> tw_fault x \<le> 1 \<and>
     0 \<le> tw_lock x \<and> tw_lock x \<le> 1"

definition targets_ok :: "TargetsTunables \<Rightarrow> bool" where
  "targets_ok x \<longleftrightarrow> weights_ok (tg_weights x) \<and>
     1 \<le> tg_max_targets x \<and> tg_max_targets x \<le> 1024 \<and>
     1 \<le> tg_min_targets x \<and> tg_min_targets x \<le> tg_max_targets x \<and>
     1 \<le> tg_per_proc_threads x \<and> tg_per_proc_threads x \<le> 256 \<and>
     1000 \<le> tg_eval_interval_ms x \<and> tg_eval_interval_ms x \<le> 3600000 \<and>
     1 \<le> tg_window_seconds x \<and> tg_window_seconds x \<le> 3600 \<and>
     (1 / 2) \<le> tg_concurrency_factor x \<and> tg_concurrency_factor x \<le> 64 \<and>
     1 \<le> tg_enter_rank x \<and> tg_enter_rank x \<le> 1024 \<and>
     tg_enter_rank x \<le> tg_leave_rank x \<and> tg_leave_rank x \<le> 4096 \<and>
     1 \<le> tg_hold_periods x \<and> tg_hold_periods x \<le> 1000 \<and>
     0 \<le> tg_min_residency_seconds x \<and> tg_min_residency_seconds x \<le> 36000"

definition devices_ok :: "DeviceTunables \<Rightarrow> bool" where
  "devices_ok x \<longleftrightarrow> gpu_source_known (dv_gpu_source x) \<and>
     10 \<le> dv_deep_gpu_interval_ms x \<and> dv_deep_gpu_interval_ms x \<le> 5000 \<and>
     1 \<le> dv_net_event_sample_rate x \<and> dv_net_event_sample_rate x \<le> 100000"

definition config_ok :: "Config \<Rightarrow> bool" where
  "config_ok c \<longleftrightarrow> sample_ok (c_sample c) \<and> window_ok (c_window c) \<and> targets_ok (c_targets c) \<and>
     devices_ok (c_devices c) \<and> (md_adapter (c_model c) = ''ws'' \<or> md_adapter (c_model c) = ''onnx'') \<and>
     ou_dir (c_output c) \<noteq> []"

section \<open>JSON form\<close>

definition weights_to_json :: "TargetWeights \<Rightarrow> json" where
  "weights_to_json x = JObj
    [(''cpu'', JDbl (tw_cpu x)),
     (''switch'', JDbl (tw_swch x)),
     (''io'', JDbl (tw_io x)),
     (''fault'', JDbl (tw_fault x)),
     (''lock'', JDbl (tw_lock x))]"

definition sample_to_json :: "SampleTunables \<Rightarrow> json" where
  "sample_to_json x = JObj
    [(''base_host_interval_ms'', jnum (sm_base_host_interval_ms x)),
     (''base_feature_interval_ms'', jnum (sm_base_feature_interval_ms x)),
     (''fine_interval_ms'', jnum (sm_fine_interval_ms x)),
     (''deep_fine_interval_ms'', jnum (sm_deep_fine_interval_ms x)),
     (''deep_dump_interval_ms'', jnum (sm_deep_dump_interval_ms x)),
     (''profile_freq_hz'', jnum (sm_profile_freq_hz x)),
     (''offcpu_sample_rate'', jnum (sm_offcpu_sample_rate x)),
     (''iofile_sample_rate'', jnum (sm_iofile_sample_rate x)),
     (''overhead_interval_ms'', jnum (sm_overhead_interval_ms x))]"

definition window_to_json :: "WindowTunables \<Rightarrow> json" where
  "window_to_json x = JObj
    [(''pre_anomaly_seconds'', jnum (wn_pre_anomaly_seconds x)),
     (''post_anomaly_seconds'', jnum (wn_post_anomaly_seconds x)),
     (''ring_backlog_seconds'', jnum (wn_ring_backlog_seconds x)),
     (''end_debounce_samples'', jnum (wn_end_debounce_samples x)),
     (''end_grace_seconds'', jnum (wn_end_grace_seconds x))]"

definition targets_to_json :: "TargetsTunables \<Rightarrow> json" where
  "targets_to_json x = JObj
    [(''max_targets'', jnum (tg_max_targets x)),
     (''auto_scale'', JBool (tg_auto_scale x)),
     (''min_targets'', jnum (tg_min_targets x)),
     (''per_proc_threads'', jnum (tg_per_proc_threads x)),
     (''concurrency_factor'', JDbl (tg_concurrency_factor x)),
     (''eval_interval_ms'', jnum (tg_eval_interval_ms x)),
     (''window_seconds'', jnum (tg_window_seconds x)),
     (''enter_rank'', jnum (tg_enter_rank x)),
     (''leave_rank'', jnum (tg_leave_rank x)),
     (''hold_periods'', jnum (tg_hold_periods x)),
     (''min_residency_seconds'', jnum (tg_min_residency_seconds x)),
     (''pinned'', JArr (map jnum (tg_pinned x))),
     (''weights'', weights_to_json (tg_weights x))]"

definition model_to_json :: "ModelTunables \<Rightarrow> json" where
  "model_to_json x = JObj
    [(''anomaly'', JObj [(''url'', JStr (md_anomaly_url x)), (''timeout_ms'', jnum (md_anomaly_timeout_ms x))]),
     (''causal'', JObj [(''url'', JStr (md_causal_url x)), (''timeout_ms'', jnum (md_causal_timeout_ms x))]),
     (''adapter'', JStr (md_adapter x))]"

definition output_to_json :: "OutputTunables \<Rightarrow> json" where
  "output_to_json x = JObj
    [(''dir'', JStr (ou_dir x)),
     (''metrics_format'', JStr (ou_metrics_format x)),
     (''profile_format'', JStr (ou_profile_format x))]"

definition misc_to_json :: "MiscTunables \<Rightarrow> json" where
  "misc_to_json x = JObj
    [(''log_level'', JStr (mi_log_level x)),
     (''categories'', JArr (map JStr (mi_categories x))),
     (''pid_filter'', jnum (mi_pid_filter x)),
     (''enable_bpf_stats'', JBool (mi_enable_bpf_stats x))]"

definition devices_to_json :: "DeviceTunables \<Rightarrow> json" where
  "devices_to_json x = JObj
    [(''network_enabled'', JBool (dv_network_enabled x)),
     (''deep_network_enabled'', JBool (dv_deep_network_enabled x)),
     (''gpu_source'', JStr (dv_gpu_source x)),
     (''deep_gpu_enabled'', JBool (dv_deep_gpu_enabled x)),
     (''deep_gpu_interval_ms'', jnum (dv_deep_gpu_interval_ms x)),
     (''net_event_sample_rate'', jnum (dv_net_event_sample_rate x))]"

definition config_to_json :: "Config \<Rightarrow> json" where
  "config_to_json c = JObj
    [(''sample'', sample_to_json (c_sample c)),
     (''window'', window_to_json (c_window c)),
     (''targets'', targets_to_json (c_targets c)),
     (''model'', model_to_json (c_model c)),
     (''output'', output_to_json (c_output c)),
     (''misc'', misc_to_json (c_misc c)),
     (''devices'', devices_to_json (c_devices c))]"

definition weights_from_json :: "json \<Rightarrow> TargetWeights \<Rightarrow> json_error + TargetWeights" where
  "weights_from_json j = jseq
    [jset ''cpu'' get_double (\<lambda>v. tw_cpu_update (\<lambda>_. v)) j,
     jset ''switch'' get_double (\<lambda>v. tw_swch_update (\<lambda>_. v)) j,
     jset ''io'' get_double (\<lambda>v. tw_io_update (\<lambda>_. v)) j,
     jset ''fault'' get_double (\<lambda>v. tw_fault_update (\<lambda>_. v)) j,
     jset ''lock'' get_double (\<lambda>v. tw_lock_update (\<lambda>_. v)) j]"

definition sample_from_json :: "json \<Rightarrow> SampleTunables \<Rightarrow> json_error + SampleTunables" where
  "sample_from_json j = jseq
    [jset ''base_host_interval_ms'' get_u64 (\<lambda>v. sm_base_host_interval_ms_update (\<lambda>_. v)) j,
     jset ''base_feature_interval_ms'' get_u64 (\<lambda>v. sm_base_feature_interval_ms_update (\<lambda>_. v)) j,
     jset ''fine_interval_ms'' get_u64 (\<lambda>v. sm_fine_interval_ms_update (\<lambda>_. v)) j,
     jset ''deep_fine_interval_ms'' get_u64 (\<lambda>v. sm_deep_fine_interval_ms_update (\<lambda>_. v)) j,
     jset ''deep_dump_interval_ms'' get_u64 (\<lambda>v. sm_deep_dump_interval_ms_update (\<lambda>_. v)) j,
     jset ''profile_freq_hz'' get_u64 (\<lambda>v. sm_profile_freq_hz_update (\<lambda>_. v)) j,
     jset ''offcpu_sample_rate'' get_u32 (\<lambda>v. sm_offcpu_sample_rate_update (\<lambda>_. v)) j,
     jset ''iofile_sample_rate'' get_u32 (\<lambda>v. sm_iofile_sample_rate_update (\<lambda>_. v)) j,
     jset ''overhead_interval_ms'' get_u64 (\<lambda>v. sm_overhead_interval_ms_update (\<lambda>_. v)) j]"

definition window_from_json :: "json \<Rightarrow> WindowTunables \<Rightarrow> json_error + WindowTunables" where
  "window_from_json j = jseq
    [jset ''pre_anomaly_seconds'' get_u64 (\<lambda>v. wn_pre_anomaly_seconds_update (\<lambda>_. v)) j,
     jset ''post_anomaly_seconds'' get_u64 (\<lambda>v. wn_post_anomaly_seconds_update (\<lambda>_. v)) j,
     jset ''ring_backlog_seconds'' get_u64 (\<lambda>v. wn_ring_backlog_seconds_update (\<lambda>_. v)) j,
     jset ''end_debounce_samples'' get_u32 (\<lambda>v. wn_end_debounce_samples_update (\<lambda>_. v)) j,
     jset ''end_grace_seconds'' get_u64 (\<lambda>v. wn_end_grace_seconds_update (\<lambda>_. v)) j]"

definition targets_from_json :: "json \<Rightarrow> TargetsTunables \<Rightarrow> json_error + TargetsTunables" where
  "targets_from_json j = jseq
    [jset ''max_targets'' get_u32 (\<lambda>v. tg_max_targets_update (\<lambda>_. v)) j,
     jset ''auto_scale'' get_bool (\<lambda>v. tg_auto_scale_update (\<lambda>_. v)) j,
     jset ''min_targets'' get_u32 (\<lambda>v. tg_min_targets_update (\<lambda>_. v)) j,
     jset ''per_proc_threads'' get_u32 (\<lambda>v. tg_per_proc_threads_update (\<lambda>_. v)) j,
     jset ''concurrency_factor'' get_double (\<lambda>v. tg_concurrency_factor_update (\<lambda>_. v)) j,
     jset ''eval_interval_ms'' get_u64 (\<lambda>v. tg_eval_interval_ms_update (\<lambda>_. v)) j,
     jset ''window_seconds'' get_u64 (\<lambda>v. tg_window_seconds_update (\<lambda>_. v)) j,
     jset ''enter_rank'' get_u32 (\<lambda>v. tg_enter_rank_update (\<lambda>_. v)) j,
     jset ''leave_rank'' get_u32 (\<lambda>v. tg_leave_rank_update (\<lambda>_. v)) j,
     jset ''hold_periods'' get_u32 (\<lambda>v. tg_hold_periods_update (\<lambda>_. v)) j,
     jset ''min_residency_seconds'' get_u64 (\<lambda>v. tg_min_residency_seconds_update (\<lambda>_. v)) j,
     jset ''pinned'' get_u32s (\<lambda>v. tg_pinned_update (\<lambda>_. v)) j,
     jsub ''weights'' weights_from_json tg_weights (\<lambda>v. tg_weights_update (\<lambda>_. v)) j]"

definition output_from_json :: "json \<Rightarrow> OutputTunables \<Rightarrow> json_error + OutputTunables" where
  "output_from_json j = jseq
    [jset ''dir'' get_string (\<lambda>v. ou_dir_update (\<lambda>_. v)) j,
     jset ''metrics_format'' get_string (\<lambda>v. ou_metrics_format_update (\<lambda>_. v)) j,
     jset ''profile_format'' get_string (\<lambda>v. ou_profile_format_update (\<lambda>_. v)) j]"

definition misc_from_json :: "json \<Rightarrow> MiscTunables \<Rightarrow> json_error + MiscTunables" where
  "misc_from_json j = jseq
    [jset ''log_level'' get_string (\<lambda>v. mi_log_level_update (\<lambda>_. v)) j,
     jset ''categories'' get_strings (\<lambda>v. mi_categories_update (\<lambda>_. v)) j,
     jset ''pid_filter'' get_u64 (\<lambda>v. mi_pid_filter_update (\<lambda>_. v)) j,
     jset ''enable_bpf_stats'' get_bool (\<lambda>v. mi_enable_bpf_stats_update (\<lambda>_. v)) j]"

definition devices_from_json :: "json \<Rightarrow> DeviceTunables \<Rightarrow> json_error + DeviceTunables" where
  "devices_from_json j = jseq
    [jset ''network_enabled'' get_bool (\<lambda>v. dv_network_enabled_update (\<lambda>_. v)) j,
     jset ''deep_network_enabled'' get_bool (\<lambda>v. dv_deep_network_enabled_update (\<lambda>_. v)) j,
     jset ''gpu_source'' get_string (\<lambda>v. dv_gpu_source_update (\<lambda>_. v)) j,
     jset ''deep_gpu_enabled'' get_bool (\<lambda>v. dv_deep_gpu_enabled_update (\<lambda>_. v)) j,
     jset ''deep_gpu_interval_ms'' get_u64 (\<lambda>v. dv_deep_gpu_interval_ms_update (\<lambda>_. v)) j,
     jset ''net_event_sample_rate'' get_u32 (\<lambda>v. dv_net_event_sample_rate_update (\<lambda>_. v)) j]"

definition model_from_json :: "json \<Rightarrow> ModelTunables \<Rightarrow> json_error + ModelTunables" where
  "model_from_json j = jseq
    [jsub ''anomaly'' (\<lambda>a. jseq
       [jset ''url'' get_string (\<lambda>v. md_anomaly_url_update (\<lambda>_. v)) a,
        jset ''timeout_ms'' get_u64 (\<lambda>v. md_anomaly_timeout_ms_update (\<lambda>_. v)) a]) (\<lambda>c. c) (\<lambda>v _. v) j,
     jsub ''causal'' (\<lambda>a. jseq
       [jset ''url'' get_string (\<lambda>v. md_causal_url_update (\<lambda>_. v)) a,
        jset ''timeout_ms'' get_u64 (\<lambda>v. md_causal_timeout_ms_update (\<lambda>_. v)) a]) (\<lambda>c. c) (\<lambda>v _. v) j,
     jset ''adapter'' get_string (\<lambda>v. md_adapter_update (\<lambda>_. v)) j]"

definition config_from_json :: "json \<Rightarrow> Config \<Rightarrow> json_error + Config" where
  "config_from_json j = jseq
    [jsub ''sample'' sample_from_json c_sample (\<lambda>v. c_sample_update (\<lambda>_. v)) j,
     jsub ''window'' window_from_json c_window (\<lambda>v. c_window_update (\<lambda>_. v)) j,
     jsub ''targets'' targets_from_json c_targets (\<lambda>v. c_targets_update (\<lambda>_. v)) j,
     jsub ''model'' model_from_json c_model (\<lambda>v. c_model_update (\<lambda>_. v)) j,
     jsub ''devices'' devices_from_json c_devices (\<lambda>v. c_devices_update (\<lambda>_. v)) j,
     jsub ''output'' output_from_json c_output (\<lambda>v. c_output_update (\<lambda>_. v)) j,
     jsub ''misc'' misc_from_json c_misc (\<lambda>v. c_misc_update (\<lambda>_. v)) j]"


section \<open>Overlay and environment\<close>

text \<open>
  \<open>MergeConfig\<close>: serialise the base, apply the file as a merge patch, read the result into
  a fresh \<^verbatim>\<open>Config out;\<close>.
\<close>

definition MergeConfig :: "Config \<Rightarrow> json \<Rightarrow> json_error + Config" where
  "MergeConfig base overlay = config_from_json (merge_patch (config_to_json base) overlay) Config0"

definition ParseU64 :: "string \<Rightarrow> u64 \<Rightarrow> u64" where
  "ParseU64 s dflt =
     (if s = [] then dflt else case strtoull s of None \<Rightarrow> dflt | Some v \<Rightarrow> v)"

definition ParseD :: "(string \<Rightarrow> double option) \<Rightarrow> string \<Rightarrow> double \<Rightarrow> double" where
  "ParseD strtod s dflt =
     (if s = [] then dflt else case strtod s of None \<Rightarrow> dflt | Some v \<Rightarrow> v)"

definition ParseBool :: "string \<Rightarrow> bool \<Rightarrow> bool" where
  "ParseBool s dflt =
     (if s = ''1'' \<or> s = ''true'' \<or> s = ''TRUE'' \<or> s = ''on'' \<or> s = ''yes'' then True
      else if s = ''0'' \<or> s = ''false'' \<or> s = ''FALSE'' \<or> s = ''off'' \<or> s = ''no'' then False
      else dflt)"

text \<open>One row of the table of overrides: the variable and the setter it applies.\<close>

type_synonym env_entry = "string \<times> (Config \<Rightarrow> string \<Rightarrow> Config)"

definition env_sample :: "env_entry list" where
  "env_sample =
    [(''ETRACE_DIAG_SAMPLE_BASE_HOST_INTERVAL_MS'', \<lambda>x v. c_sample_update (sm_base_host_interval_ms_update (\<lambda>_. ParseU64 v (sm_base_host_interval_ms (c_sample x)))) x),
     (''ETRACE_DIAG_SAMPLE_BASE_FEATURE_INTERVAL_MS'', \<lambda>x v. c_sample_update (sm_base_feature_interval_ms_update (\<lambda>_. ParseU64 v (sm_base_feature_interval_ms (c_sample x)))) x),
     (''ETRACE_DIAG_SAMPLE_FINE_INTERVAL_MS'', \<lambda>x v. c_sample_update (sm_fine_interval_ms_update (\<lambda>_. ParseU64 v (sm_fine_interval_ms (c_sample x)))) x),
     (''ETRACE_DIAG_SAMPLE_DEEP_FINE_INTERVAL_MS'', \<lambda>x v. c_sample_update (sm_deep_fine_interval_ms_update (\<lambda>_. ParseU64 v (sm_deep_fine_interval_ms (c_sample x)))) x),
     (''ETRACE_DIAG_SAMPLE_DEEP_DUMP_INTERVAL_MS'', \<lambda>x v. c_sample_update (sm_deep_dump_interval_ms_update (\<lambda>_. ParseU64 v (sm_deep_dump_interval_ms (c_sample x)))) x),
     (''ETRACE_DIAG_SAMPLE_PROFILE_FREQ_HZ'', \<lambda>x v. c_sample_update (sm_profile_freq_hz_update (\<lambda>_. ParseU64 v (sm_profile_freq_hz (c_sample x)))) x),
     (''ETRACE_DIAG_SAMPLE_OFFCPU_SAMPLE_RATE'', \<lambda>x v. c_sample_update (sm_offcpu_sample_rate_update (\<lambda>_. ucast (ParseU64 v (ucast (sm_offcpu_sample_rate (c_sample x)))))) x),
     (''ETRACE_DIAG_SAMPLE_IOFILE_SAMPLE_RATE'', \<lambda>x v. c_sample_update (sm_iofile_sample_rate_update (\<lambda>_. ucast (ParseU64 v (ucast (sm_iofile_sample_rate (c_sample x)))))) x),
     (''ETRACE_DIAG_SAMPLE_OVERHEAD_INTERVAL_MS'', \<lambda>x v. c_sample_update (sm_overhead_interval_ms_update (\<lambda>_. ParseU64 v (sm_overhead_interval_ms (c_sample x)))) x)]"

definition env_window :: "env_entry list" where
  "env_window =
    [(''ETRACE_DIAG_WINDOW_PRE_ANOMALY_SECONDS'', \<lambda>x v. c_window_update (wn_pre_anomaly_seconds_update (\<lambda>_. ParseU64 v (wn_pre_anomaly_seconds (c_window x)))) x),
     (''ETRACE_DIAG_WINDOW_POST_ANOMALY_SECONDS'', \<lambda>x v. c_window_update (wn_post_anomaly_seconds_update (\<lambda>_. ParseU64 v (wn_post_anomaly_seconds (c_window x)))) x),
     (''ETRACE_DIAG_WINDOW_RING_BACKLOG_SECONDS'', \<lambda>x v. c_window_update (wn_ring_backlog_seconds_update (\<lambda>_. ParseU64 v (wn_ring_backlog_seconds (c_window x)))) x),
     (''ETRACE_DIAG_WINDOW_END_DEBOUNCE_SAMPLES'', \<lambda>x v. c_window_update (wn_end_debounce_samples_update (\<lambda>_. ucast (ParseU64 v (ucast (wn_end_debounce_samples (c_window x)))))) x),
     (''ETRACE_DIAG_WINDOW_END_GRACE_SECONDS'', \<lambda>x v. c_window_update (wn_end_grace_seconds_update (\<lambda>_. ParseU64 v (wn_end_grace_seconds (c_window x)))) x)]"

definition env_targets :: "(string \<Rightarrow> double option) \<Rightarrow> env_entry list" where
  "env_targets strtod =
    [(''ETRACE_DIAG_TARGETS_MAX_TARGETS'', \<lambda>x v. c_targets_update (tg_max_targets_update (\<lambda>_. ucast (ParseU64 v (ucast (tg_max_targets (c_targets x)))))) x),
     (''ETRACE_DIAG_TARGETS_ENTER_RANK'', \<lambda>x v. c_targets_update (tg_enter_rank_update (\<lambda>_. ucast (ParseU64 v (ucast (tg_enter_rank (c_targets x)))))) x),
     (''ETRACE_DIAG_TARGETS_LEAVE_RANK'', \<lambda>x v. c_targets_update (tg_leave_rank_update (\<lambda>_. ucast (ParseU64 v (ucast (tg_leave_rank (c_targets x)))))) x),
     (''ETRACE_DIAG_TARGETS_HOLD_PERIODS'', \<lambda>x v. c_targets_update (tg_hold_periods_update (\<lambda>_. ucast (ParseU64 v (ucast (tg_hold_periods (c_targets x)))))) x),
     (''ETRACE_DIAG_TARGETS_MIN_RESIDENCY_SECONDS'', \<lambda>x v. c_targets_update (tg_min_residency_seconds_update (\<lambda>_. ParseU64 v (tg_min_residency_seconds (c_targets x)))) x),
     (''ETRACE_DIAG_TARGETS_AUTO_SCALE'', \<lambda>x v. c_targets_update (tg_auto_scale_update (\<lambda>_. ParseBool v (tg_auto_scale (c_targets x)))) x),
     (''ETRACE_DIAG_TARGETS_MIN_TARGETS'', \<lambda>x v. c_targets_update (tg_min_targets_update (\<lambda>_. ucast (ParseU64 v (ucast (tg_min_targets (c_targets x)))))) x),
     (''ETRACE_DIAG_TARGETS_PER_PROC_THREADS'', \<lambda>x v. c_targets_update (tg_per_proc_threads_update (\<lambda>_. ucast (ParseU64 v (ucast (tg_per_proc_threads (c_targets x)))))) x),
     (''ETRACE_DIAG_TARGETS_CONCURRENCY_FACTOR'', \<lambda>x v. c_targets_update (tg_concurrency_factor_update (\<lambda>_. ParseD strtod v (tg_concurrency_factor (c_targets x)))) x),
     (''ETRACE_DIAG_TARGETS_EVAL_INTERVAL_MS'', \<lambda>x v. c_targets_update (tg_eval_interval_ms_update (\<lambda>_. ParseU64 v (tg_eval_interval_ms (c_targets x)))) x),
     (''ETRACE_DIAG_TARGETS_WINDOW_SECONDS'', \<lambda>x v. c_targets_update (tg_window_seconds_update (\<lambda>_. ParseU64 v (tg_window_seconds (c_targets x)))) x),
     (''ETRACE_DIAG_TARGETS_WEIGHT_CPU'', \<lambda>x v. c_targets_update (tg_weights_update (tw_cpu_update (\<lambda>_. ParseD strtod v (tw_cpu (tg_weights (c_targets x)))))) x),
     (''ETRACE_DIAG_TARGETS_WEIGHT_SWITCH'', \<lambda>x v. c_targets_update (tg_weights_update (tw_swch_update (\<lambda>_. ParseD strtod v (tw_swch (tg_weights (c_targets x)))))) x),
     (''ETRACE_DIAG_TARGETS_WEIGHT_IO'', \<lambda>x v. c_targets_update (tg_weights_update (tw_io_update (\<lambda>_. ParseD strtod v (tw_io (tg_weights (c_targets x)))))) x),
     (''ETRACE_DIAG_TARGETS_WEIGHT_FAULT'', \<lambda>x v. c_targets_update (tg_weights_update (tw_fault_update (\<lambda>_. ParseD strtod v (tw_fault (tg_weights (c_targets x)))))) x),
     (''ETRACE_DIAG_TARGETS_WEIGHT_LOCK'', \<lambda>x v. c_targets_update (tg_weights_update (tw_lock_update (\<lambda>_. ParseD strtod v (tw_lock (tg_weights (c_targets x)))))) x)]"

definition env_devices :: "env_entry list" where
  "env_devices =
    [(''ETRACE_DIAG_DEVICES_NETWORK_ENABLED'', \<lambda>x v. c_devices_update (dv_network_enabled_update (\<lambda>_. ParseBool v (dv_network_enabled (c_devices x)))) x),
     (''ETRACE_DIAG_DEVICES_DEEP_NETWORK_ENABLED'', \<lambda>x v. c_devices_update (dv_deep_network_enabled_update (\<lambda>_. ParseBool v (dv_deep_network_enabled (c_devices x)))) x),
     (''ETRACE_DIAG_DEVICES_GPU_SOURCE'', \<lambda>x v. c_devices_update (dv_gpu_source_update (\<lambda>_. v)) x),
     (''ETRACE_DIAG_DEVICES_DEEP_GPU_ENABLED'', \<lambda>x v. c_devices_update (dv_deep_gpu_enabled_update (\<lambda>_. ParseBool v (dv_deep_gpu_enabled (c_devices x)))) x),
     (''ETRACE_DIAG_DEVICES_DEEP_GPU_INTERVAL_MS'', \<lambda>x v. c_devices_update (dv_deep_gpu_interval_ms_update (\<lambda>_. ParseU64 v (dv_deep_gpu_interval_ms (c_devices x)))) x),
     (''ETRACE_DIAG_DEVICES_NET_EVENT_SAMPLE_RATE'', \<lambda>x v. c_devices_update (dv_net_event_sample_rate_update (\<lambda>_. ucast (ParseU64 v (ucast (dv_net_event_sample_rate (c_devices x)))))) x)]"

definition env_model :: "env_entry list" where
  "env_model =
    [(''ETRACE_DIAG_MODEL_ANOMALY_URL'', \<lambda>x v. c_model_update (md_anomaly_url_update (\<lambda>_. v)) x),
     (''ETRACE_DIAG_MODEL_ANOMALY_TIMEOUT_MS'', \<lambda>x v. c_model_update (md_anomaly_timeout_ms_update (\<lambda>_. ParseU64 v (md_anomaly_timeout_ms (c_model x)))) x),
     (''ETRACE_DIAG_MODEL_CAUSAL_URL'', \<lambda>x v. c_model_update (md_causal_url_update (\<lambda>_. v)) x),
     (''ETRACE_DIAG_MODEL_CAUSAL_TIMEOUT_MS'', \<lambda>x v. c_model_update (md_causal_timeout_ms_update (\<lambda>_. ParseU64 v (md_causal_timeout_ms (c_model x)))) x),
     (''ETRACE_DIAG_MODEL_ADAPTER'', \<lambda>x v. c_model_update (md_adapter_update (\<lambda>_. v)) x)]"

definition env_output :: "env_entry list" where
  "env_output =
    [(''ETRACE_DIAG_OUTPUT_DIR'', \<lambda>x v. c_output_update (ou_dir_update (\<lambda>_. v)) x),
     (''ETRACE_DIAG_OUTPUT_METRICS_FORMAT'', \<lambda>x v. c_output_update (ou_metrics_format_update (\<lambda>_. v)) x),
     (''ETRACE_DIAG_OUTPUT_PROFILE_FORMAT'', \<lambda>x v. c_output_update (ou_profile_format_update (\<lambda>_. v)) x)]"

definition env_misc :: "env_entry list" where
  "env_misc =
    [(''ETRACE_DIAG_MISC_LOG_LEVEL'', \<lambda>x v. c_misc_update (mi_log_level_update (\<lambda>_. v)) x),
     (''ETRACE_DIAG_MISC_PID_FILTER'', \<lambda>x v. c_misc_update (mi_pid_filter_update (\<lambda>_. ParseU64 v (mi_pid_filter (c_misc x)))) x),
     (''ETRACE_DIAG_MISC_ENABLE_BPF_STATS'', \<lambda>x v. c_misc_update (mi_enable_bpf_stats_update (\<lambda>_. ParseBool v (mi_enable_bpf_stats (c_misc x)))) x)]"

definition kEntries :: "(string \<Rightarrow> double option) \<Rightarrow> env_entry list" where
  "kEntries strtod = env_sample @ env_window @ env_targets strtod @ env_devices @ env_model
     @ env_output @ env_misc"

text \<open>
  The loop over a comma-separated list: the pieces between commas, empty pieces dropped.
\<close>

function comma_tokens :: "string \<Rightarrow> string list" where
  "comma_tokens s =
     (case find_char CHR '','' s of
        None \<Rightarrow> (if s = [] then [] else [s])
      | Some i \<Rightarrow> (if take i s = [] then [] else [take i s]) @ comma_tokens (drop (Suc i) s))"
  by pat_completeness auto

lemma find_char_less: "find_char c s = Some i \<Longrightarrow> i < length s"
  by (induction s arbitrary: i) (auto split: if_splits)

termination comma_tokens
  by (relation "measure length") (auto dest: find_char_less)

declare comma_tokens.simps [simp del]

text \<open>One pass of the override loop: the flag says whether a variable was found.\<close>

fun apply_entries :: "(string \<Rightarrow> string option) \<Rightarrow> env_entry list \<Rightarrow> bool \<times> Config \<Rightarrow> bool \<times> Config" where
  "apply_entries getenv [] bc = bc"
| "apply_entries getenv ((name, f) # es) (applied, c) =
     (case getenv name of
        None \<Rightarrow> apply_entries getenv es (applied, c)
      | Some v \<Rightarrow> apply_entries getenv es (True, f c v))"

definition env_categories :: "(string \<Rightarrow> string option) \<Rightarrow> bool \<times> Config \<Rightarrow> bool \<times> Config" where
  "env_categories getenv bc =
     (case getenv ''ETRACE_DIAG_MISC_CATEGORIES'' of
        None \<Rightarrow> bc
      | Some v \<Rightarrow> (True, c_misc_update (mi_categories_update (\<lambda>_. comma_tokens v)) (snd bc)))"

definition env_pinned :: "(string \<Rightarrow> string option) \<Rightarrow> bool \<times> Config \<Rightarrow> bool \<times> Config" where
  "env_pinned getenv bc =
     (case getenv ''ETRACE_DIAG_TARGETS_PINNED'' of
        None \<Rightarrow> bc
      | Some v \<Rightarrow> (True, c_targets_update
           (tg_pinned_update (\<lambda>_. map (\<lambda>t. ucast (ParseU64 t 0)) (comma_tokens v))) (snd bc)))"

definition ApplyEnvOverrides ::
    "(string \<Rightarrow> string option) \<Rightarrow> (string \<Rightarrow> double option) \<Rightarrow> Config \<Rightarrow> bool \<times> Config" where
  "ApplyEnvOverrides getenv strtod c =
     env_pinned getenv (env_categories getenv (apply_entries getenv (kEntries strtod) (False, c)))"

text \<open>
  The configuration \<^verbatim>\<open>main\<close> starts the collector with: defaults, then the file (if
  \<^verbatim>\<open>--config\<close> was given and parsed), then the environment, then \<^verbatim>\<open>--output-dir\<close>, then
  \<open>Sanitize\<close>. A conversion error of the file leaves \<^verbatim>\<open>main\<close> as an exception.
\<close>

definition load_config ::
    "(string \<Rightarrow> string option) \<Rightarrow> (string \<Rightarrow> double option) \<Rightarrow> json option \<Rightarrow> string \<Rightarrow> json_error + Config"
where
  "load_config getenv strtod file output_dir =
     (case (case file of None \<Rightarrow> Inr DefaultConfig | Some j \<Rightarrow> MergeConfig DefaultConfig j) of
        Inl e \<Rightarrow> Inl e
      | Inr c \<Rightarrow>
          (let c1 = snd (ApplyEnvOverrides getenv strtod c);
               c2 = (if output_dir \<noteq> []
                     then c_output_update (ou_dir_update (\<lambda>_. output_dir)) c1 else c1)
           in Inr (Sanitize c2)))"

text \<open>
  The SIGHUP reload: the file (if any, and if it parses) is merged over the initial
  configuration; an exception of the merge is logged and the base kept.
\<close>

definition ReloadConfig ::
    "(string \<Rightarrow> string option) \<Rightarrow> (string \<Rightarrow> double option) \<Rightarrow> Config \<Rightarrow> json option \<Rightarrow> Config" where
  "ReloadConfig getenv strtod base file =
     (let c = (case file of None \<Rightarrow> base
               | Some j \<Rightarrow> (case MergeConfig base j of Inl e \<Rightarrow> base | Inr m \<Rightarrow> m))
      in Sanitize (snd (ApplyEnvOverrides getenv strtod c)))"

section \<open>Clamping\<close>

lemma ClampU64_bounds [simp]:
  "lo \<le> hi \<Longrightarrow> lo \<le> ClampU64 v lo hi" "lo \<le> hi \<Longrightarrow> ClampU64 v lo hi \<le> hi"
  by (auto simp: ClampU64_def not_less)

lemma ClampU32_bounds [simp]:
  "lo \<le> hi \<Longrightarrow> lo \<le> ClampU32 v lo hi" "lo \<le> hi \<Longrightarrow> ClampU32 v lo hi \<le> hi"
  by (auto simp: ClampU32_def not_less)

lemma ClampD_bounds [simp]:
  "lo \<le> hi \<Longrightarrow> lo \<le> ClampD v lo hi" "lo \<le> hi \<Longrightarrow> ClampD v lo hi \<le> hi"
  by (auto simp: ClampD_def not_less)

lemma Clamp_id [simp]:
  "lo \<le> v \<Longrightarrow> v \<le> hi \<Longrightarrow> ClampU64 v lo hi = v"
  "lo' \<le> w \<Longrightarrow> w \<le> hi' \<Longrightarrow> ClampU32 w lo' hi' = w"
  "lo'' \<le> q \<Longrightarrow> q \<le> hi'' \<Longrightarrow> ClampD q lo'' hi'' = q"
  by (auto simp: ClampU64_def ClampU32_def ClampD_def)

text \<open>
  What the collector relies on when it reloads a configuration: a sanitizer establishes the
  bounds and leaves a value within bounds alone. Each section and the whole configuration
  provide it.
\<close>

locale sanitizer =
  fixes san :: "'c \<Rightarrow> 'c"
    and ok :: "'c \<Rightarrow> bool"
  assumes san_ok: "ok (san x)"
    and san_id: "ok x \<Longrightarrow> san x = x"
begin

lemma san_idem: "san (san x) = san x"
  by (simp add: san_ok san_id)

lemma san_fixpoint_iff: "san x = x \<longleftrightarrow> ok x"
  using san_ok [of x] san_id [of x] by auto

end

interpretation sample_san: sanitizer sanitize_sample sample_ok
  by unfold_locales (simp_all add: sanitize_sample_def sample_ok_def)

interpretation window_san: sanitizer sanitize_window window_ok
  by unfold_locales (simp_all add: sanitize_window_def window_ok_def)

interpretation weights_san: sanitizer sanitize_weights weights_ok
  by unfold_locales (simp_all add: sanitize_weights_def weights_ok_def)

lemma ClampD_half [simp]: "1 \<le> ClampD q (1 / 2) 64 * 2"
  using ClampD_bounds(1) [of "1 / 2" 64 q] by simp

lemma le_1024_4096: "(x :: u32) \<le> 1024 \<Longrightarrow> x \<le> 4096"
  by (erule order_trans) simp

interpretation targets_san: sanitizer sanitize_targets targets_ok
  by unfold_locales
     (simp_all add: sanitize_targets_def targets_ok_def Let_def weights_san.san_ok
        weights_san.san_id le_1024_4096)

interpretation devices_san: sanitizer sanitize_devices devices_ok
  by unfold_locales (auto simp: sanitize_devices_def devices_ok_def gpu_source_known_def)

interpretation config_san: sanitizer Sanitize config_ok
proof
  show "config_ok (Sanitize c)" for c
    by (simp add: config_ok_def Sanitize_def sample_san.san_ok window_san.san_ok
          targets_san.san_ok devices_san.san_ok sanitize_model_def sanitize_output_def)
  show "config_ok c \<Longrightarrow> Sanitize c = c" for c
    by (auto simp: config_ok_def Sanitize_def sample_san.san_id window_san.san_id
          targets_san.san_id devices_san.san_id sanitize_model_def sanitize_output_def)
qed

lemma Sanitize_dir:
  "ou_dir (c_output (Sanitize c)) = (if ou_dir (c_output c) = [] then ''out'' else ou_dir (c_output c))"
  by (simp add: Sanitize_def sanitize_output_def)

section \<open>Reading back the JSON form\<close>

lemma sample_roundtrip [simp]: "sample_from_json (sample_to_json x) y = Inr x"
  by (simp add: sample_from_json_def sample_to_json_def jset_def)

lemma window_roundtrip [simp]: "window_from_json (window_to_json x) y = Inr x"
  by (simp add: window_from_json_def window_to_json_def jset_def)

lemma weights_roundtrip [simp]: "weights_from_json (weights_to_json x) y = Inr x"
  by (simp add: weights_from_json_def weights_to_json_def jset_def)

lemma targets_roundtrip [simp]: "targets_from_json (targets_to_json x) y = Inr x"
  by (simp add: targets_from_json_def targets_to_json_def jset_def jsub_def)

lemma model_roundtrip [simp]: "model_from_json (model_to_json x) y = Inr x"
  by (simp add: model_from_json_def model_to_json_def jset_def jsub_def)

lemma output_roundtrip [simp]: "output_from_json (output_to_json x) y = Inr x"
  by (simp add: output_from_json_def output_to_json_def jset_def)

lemma misc_roundtrip [simp]: "misc_from_json (misc_to_json x) y = Inr x"
  by (simp add: misc_from_json_def misc_to_json_def jset_def)

lemma devices_roundtrip [simp]: "devices_from_json (devices_to_json x) y = Inr x"
  by (simp add: devices_from_json_def devices_to_json_def jset_def)


lemma config_json_roundtrip: "config_from_json (config_to_json c) d = Inr c"
  by (simp add: config_from_json_def config_to_json_def jsub_def)

text \<open>A block that ran is the section's reader; a block that did not run changes nothing.\<close>

lemma jseq_Cons_Inr:
  "jseq (f # fs) c = Inr d \<longleftrightarrow> (\<exists>c'. f c = Inr c' \<and> jseq fs c' = Inr d)"
  by (auto split: sum.splits)

lemma jsub_Inr:
  "jsub k f get upd j c = Inr d \<longleftrightarrow>
     (if jcontains j k then (\<exists>v. f (jget j k) (get c) = Inr v \<and> d = upd v c) else d = c)"
  by (auto simp: jsub_def split: sum.splits)

lemma merge_section_kept:
  assumes "k \<notin> fst ` set ps"
  shows "jget (merge_patch (config_to_json b) (JObj ps)) k = jget (config_to_json b) k"
    and "jcontains (merge_patch (config_to_json b) (JObj ps)) k = jcontains (config_to_json b) k"
  using merge_members_other [OF assms] by (simp_all add: config_to_json_def)

lemma jsub_frame:
  "jsub k f get upd j c = Inr d \<Longrightarrow> (\<And>v. g (upd v c) = g c) \<Longrightarrow> g d = g c"
  by (auto simp: jsub_Inr split: if_splits)

lemma jsub_merged_kept:
  assumes "jsub k f get upd (merge_patch (config_to_json b) (JObj ps)) c = Inr d"
    and "k \<notin> fst ` set ps" and "jcontains (config_to_json b) k"
    and "f (jget (config_to_json b) k) (get c) = Inr w" and "get (upd w c) = w"
  shows "get d = w"
proof -
  have "f (jget (config_to_json b) k) (get c) = Inr v \<Longrightarrow> v = w" for v
    using assms(4) by simp
  then show ?thesis
    using assms unfolding jsub_Inr merge_section_kept [OF assms(2)] by auto
qed

lemma config_sections:
  "jget (config_to_json b) ''sample'' = sample_to_json (c_sample b)"
  "jget (config_to_json b) ''window'' = window_to_json (c_window b)"
  "jget (config_to_json b) ''targets'' = targets_to_json (c_targets b)"
  "jget (config_to_json b) ''model'' = model_to_json (c_model b)"
  "jget (config_to_json b) ''devices'' = devices_to_json (c_devices b)"
  "jget (config_to_json b) ''output'' = output_to_json (c_output b)"
  "jget (config_to_json b) ''misc'' = misc_to_json (c_misc b)"
  "jcontains (config_to_json b) ''sample''" "jcontains (config_to_json b) ''window''"
  "jcontains (config_to_json b) ''targets''" "jcontains (config_to_json b) ''model''"
  "jcontains (config_to_json b) ''devices''" "jcontains (config_to_json b) ''output''"
  "jcontains (config_to_json b) ''misc''"
  by (simp_all add: config_to_json_def)


lemma apply_entries_flag:
  "fst (apply_entries getenv es (b, c)) \<longleftrightarrow> b \<or> (\<exists>n \<in> fst ` set es. getenv n \<noteq> None)"
proof (induction es arbitrary: b c)
  case (Cons e es)
  obtain n f where "e = (n, f)" by fastforce
  then show ?case using Cons.IH by (cases "getenv n") simp_all
qed simp

lemma apply_entries_none:
  "\<forall>n \<in> fst ` set es. getenv n = None \<Longrightarrow> apply_entries getenv es bc = bc"
  by (induction es arbitrary: bc) auto

lemma apply_entries_append:
  "apply_entries getenv (es @ fs) bc = apply_entries getenv fs (apply_entries getenv es bc)"
  by (induction es arbitrary: bc) (auto split: option.splits)

lemma apply_entries_frame:
  assumes "\<And>n f c v. (n, f) \<in> set es \<Longrightarrow> P (f c v) = P c"
  shows "P (snd (apply_entries getenv es (b, c))) = P c"
  using assms
proof (induction es arbitrary: b c)
  case (Cons e es)
  obtain n f where e: "e = (n, f)" by fastforce
  have IH: "P (snd (apply_entries getenv es (b', c'))) = P c'" for b' c'
    by (rule Cons.IH) (auto intro: Cons.prems)
  have "P (f c v) = P c" for v by (rule Cons.prems [of n]) (simp add: e)
  then show ?case by (cases "getenv n") (simp_all add: e IH)
qed simp

text \<open>The names of all the variables the overrides look at.\<close>

definition env_names :: "string set" where
  "env_names = fst ` set (kEntries (\<lambda>_. None))
     \<union> {''ETRACE_DIAG_MISC_CATEGORIES'', ''ETRACE_DIAG_TARGETS_PINNED''}"

lemma kEntries_names: "map fst (kEntries strtod) = map fst (kEntries (\<lambda>_. None))"
  by (simp add: kEntries_def env_targets_def)

lemma kEntries_name_set: "fst ` set (kEntries strtod) = fst ` set (kEntries (\<lambda>_. None))"
  by (metis kEntries_names set_map)

lemma find_char_append_stop: "CHR '','' \<notin> set x \<Longrightarrow> find_char CHR '','' (x @ CHR '','' # r) = Some (length x)"
  by (induction x) auto

lemma find_char_none: "c \<notin> set x \<Longrightarrow> find_char c x = None"
  by (induction x) auto

text \<open>The text of a comma-separated list.\<close>

fun joined_commas :: "string list \<Rightarrow> string" where
  "joined_commas [] = []"
| "joined_commas [x] = x"
| "joined_commas (x # xs) = x @ CHR '','' # joined_commas xs"

lemma comma_tokens_join:
  "\<forall>x \<in> set xs. x \<noteq> [] \<and> CHR '','' \<notin> set x \<Longrightarrow> comma_tokens (joined_commas xs) = xs"
proof (induction xs rule: joined_commas.induct)
  case 1
  show ?case by (subst comma_tokens.simps) simp
next
  case (2 x)
  then show ?case by (subst comma_tokens.simps) (simp add: find_char_none)
next
  case (3 x y ys)
  then show ?case
    by (subst comma_tokens.simps) (simp add: find_char_append_stop)
qed

text \<open>A member of a section of the file, read as a 64-bit field, or the base's value.\<close>

definition pick_u64 :: "(string \<times> json) list \<Rightarrow> string \<Rightarrow> u64 \<Rightarrow> u64" where
  "pick_u64 ps k d = (case map_of ps k of Some (JInt i) \<Rightarrow> word_of_int i | _ \<Rightarrow> d)"

definition int_members :: "(string \<times> json) list \<Rightarrow> bool" where
  "int_members ps \<longleftrightarrow> distinct (map fst ps) \<and> list_all (\<lambda>(k, v). case v of JInt i \<Rightarrow> True | _ \<Rightarrow> False) ps"

lemma int_members_get:
  assumes "int_members ps"
  shows "map_of (merge_members m ps) k =
    (case map_of ps k of Some (JInt i) \<Rightarrow> Some (JInt i) | _ \<Rightarrow> map_of m k)"
proof (cases "map_of ps k")
  case None
  then have "k \<notin> fst ` set ps" by (simp add: map_of_eq_None_iff)
  with None show ?thesis by (simp add: merge_members_other)
next
  case (Some v)
  then have mem: "(k, v) \<in> set ps" by (rule map_of_SomeD)
  with assms obtain i where v: "v = JInt i"
    by (auto simp: int_members_def list_all_iff split: json.splits)
  from merge_members_get [of ps k v m] assms mem v Some show ?thesis
    by (simp add: int_members_def)
qed

lemma jset_u64_merged:
  assumes "int_members ps" and "map_of m k = Some (jnum w)"
  shows "jset k get_u64 upd (JObj (merge_members m ps)) c = Inr (upd (pick_u64 ps k w) c)"
  using assms
  by (simp add: jset_def int_members_get pick_u64_def jnum_def get_u64_def
        split: option.splits json.splits)

lemma jset_u32_unmentioned:
  assumes "k \<notin> fst ` set ps" and "map_of m k = Some (jnum w)"
  shows "jset k get_u32 upd (JObj (merge_members m ps)) c = Inr (upd w c)"
  using assms by (simp add: jset_def merge_members_other)

section \<open>Properties of the configuration\<close>


text \<open>
  Claim C33: the JSON form loses nothing: reading it back, into any starting configuration,
  gives the configuration that was written; so an empty file changes nothing.
\<close>

theorem config_json_lossless:
  "config_from_json (config_to_json c) d = Inr c \<and> MergeConfig c (JObj []) = Inr c"
proof -
  have "merge_patch (config_to_json c) (JObj []) = config_to_json c"
    by (simp add: config_to_json_def)
  then show ?thesis by (simp add: config_json_roundtrip MergeConfig_def)
qed

text \<open>
  A configuration file that does not mention a section keeps the base's section,
  whatever else the file holds.
\<close>

theorem merge_keeps_unmentioned_sections:
  assumes "MergeConfig b (JObj ps) = Inr c"
  shows "(''sample'' \<notin> fst ` set ps \<longrightarrow> c_sample c = c_sample b) \<and>
    (''window'' \<notin> fst ` set ps \<longrightarrow> c_window c = c_window b) \<and>
    (''targets'' \<notin> fst ` set ps \<longrightarrow> c_targets c = c_targets b) \<and>
    (''model'' \<notin> fst ` set ps \<longrightarrow> c_model c = c_model b) \<and>
    (''devices'' \<notin> fst ` set ps \<longrightarrow> c_devices c = c_devices b) \<and>
    (''output'' \<notin> fst ` set ps \<longrightarrow> c_output c = c_output b) \<and>
    (''misc'' \<notin> fst ` set ps \<longrightarrow> c_misc c = c_misc b)"
proof -
  let ?j = "merge_patch (config_to_json b) (JObj ps)"
  from assms have run: "config_from_json ?j Config0 = Inr c" by (simp add: MergeConfig_def)
  obtain c1 c2 c3 c4 c5 c6 where steps:
      "jsub ''sample'' sample_from_json c_sample (\<lambda>v. c_sample_update (\<lambda>_. v)) ?j Config0 = Inr c1"
      "jsub ''window'' window_from_json c_window (\<lambda>v. c_window_update (\<lambda>_. v)) ?j c1 = Inr c2"
      "jsub ''targets'' targets_from_json c_targets (\<lambda>v. c_targets_update (\<lambda>_. v)) ?j c2 = Inr c3"
      "jsub ''model'' model_from_json c_model (\<lambda>v. c_model_update (\<lambda>_. v)) ?j c3 = Inr c4"
      "jsub ''devices'' devices_from_json c_devices (\<lambda>v. c_devices_update (\<lambda>_. v)) ?j c4 = Inr c5"
      "jsub ''output'' output_from_json c_output (\<lambda>v. c_output_update (\<lambda>_. v)) ?j c5 = Inr c6"
      "jsub ''misc'' misc_from_json c_misc (\<lambda>v. c_misc_update (\<lambda>_. v)) ?j c6 = Inr c"
    using run unfolding config_from_json_def jseq_Cons_Inr by auto
  have k1: "''sample'' \<notin> fst ` set ps \<Longrightarrow> c_sample c1 = c_sample b"
    by (rule jsub_merged_kept [OF steps(1)]) (simp_all add: config_sections)
  have k2: "''window'' \<notin> fst ` set ps \<Longrightarrow> c_window c2 = c_window b"
    by (rule jsub_merged_kept [OF steps(2)]) (simp_all add: config_sections)
  have k3: "''targets'' \<notin> fst ` set ps \<Longrightarrow> c_targets c3 = c_targets b"
    by (rule jsub_merged_kept [OF steps(3)]) (simp_all add: config_sections)
  have k4: "''model'' \<notin> fst ` set ps \<Longrightarrow> c_model c4 = c_model b"
    by (rule jsub_merged_kept [OF steps(4)]) (simp_all add: config_sections)
  have k5: "''devices'' \<notin> fst ` set ps \<Longrightarrow> c_devices c5 = c_devices b"
    by (rule jsub_merged_kept [OF steps(5)]) (simp_all add: config_sections)
  have k6: "''output'' \<notin> fst ` set ps \<Longrightarrow> c_output c6 = c_output b"
    by (rule jsub_merged_kept [OF steps(6)]) (simp_all add: config_sections)
  have k7: "''misc'' \<notin> fst ` set ps \<Longrightarrow> c_misc c = c_misc b"
    by (rule jsub_merged_kept [OF steps(7)]) (simp_all add: config_sections)
  note frames = jsub_frame [OF steps(2)] jsub_frame [OF steps(3)] jsub_frame [OF steps(4)]
    jsub_frame [OF steps(5)] jsub_frame [OF steps(6)] jsub_frame [OF steps(7)]
  have f1: "c_sample c = c_sample c1" using frames(1-6) [of c_sample] by simp
  have f2: "c_window c = c_window c2" using frames(2-6) [of c_window] by simp
  have f3: "c_targets c = c_targets c3" using frames(3-6) [of c_targets] by simp
  have f4: "c_model c = c_model c4" using frames(4-6) [of c_model] by simp
  have f5: "c_devices c = c_devices c5" using frames(5-6) [of c_devices] by simp
  have f6: "c_output c = c_output c6" using frames(6) [of c_output] by simp
  show ?thesis by (simp add: k1 k2 k3 k4 k5 k6 k7 f1 f2 f3 f4 f5 f6)
qed

theorem merge_keeps_unmentioned_sections_witness:
  "\<exists>c. MergeConfig DefaultConfig (JObj [(''sample'', JObj [(''fine_interval_ms'', JInt 50)])]) = Inr c \<and>
     sm_fine_interval_ms (c_sample c) = 50 \<and> c_window c = c_window DefaultConfig \<and>
     c_output c = c_output DefaultConfig"
proof -
  let ?ps = "[(''sample'', JObj [(''fine_interval_ms'', JInt 50)])]"
  let ?c = "DefaultConfig\<lparr>c_sample := (c_sample DefaultConfig)\<lparr>sm_fine_interval_ms := 50\<rparr>\<rparr>"
  have run: "MergeConfig DefaultConfig (JObj ?ps) = Inr ?c"
    by (simp add: MergeConfig_def config_to_json_def sample_to_json_def jget_def get_u64_def
          get_u32_def jnum_def config_from_json_def jsub_def sample_from_json_def jset_def DefaultConfig_def Config0_def)
  with merge_keeps_unmentioned_sections [OF run] show ?thesis by simp
qed

text \<open>
  Within a section the file names field by field: for the sampling section, every
  64-bit interval takes the file's number where the file gives one and keeps the base's value
  where it does not, and nothing else changes.
\<close>

theorem merge_sample_field_by_field:
  assumes "int_members ps"
    and "''offcpu_sample_rate'' \<notin> fst ` set ps" and "''iofile_sample_rate'' \<notin> fst ` set ps"
  shows "MergeConfig b (JObj [(''sample'', JObj ps)]) = Inr (b\<lparr>c_sample := (c_sample b)\<lparr>
    sm_base_host_interval_ms := pick_u64 ps ''base_host_interval_ms'' (sm_base_host_interval_ms (c_sample b)),
    sm_base_feature_interval_ms := pick_u64 ps ''base_feature_interval_ms'' (sm_base_feature_interval_ms (c_sample b)),
    sm_fine_interval_ms := pick_u64 ps ''fine_interval_ms'' (sm_fine_interval_ms (c_sample b)),
    sm_deep_fine_interval_ms := pick_u64 ps ''deep_fine_interval_ms'' (sm_deep_fine_interval_ms (c_sample b)),
    sm_deep_dump_interval_ms := pick_u64 ps ''deep_dump_interval_ms'' (sm_deep_dump_interval_ms (c_sample b)),
    sm_profile_freq_hz := pick_u64 ps ''profile_freq_hz'' (sm_profile_freq_hz (c_sample b)),
    sm_overhead_interval_ms := pick_u64 ps ''overhead_interval_ms'' (sm_overhead_interval_ms (c_sample b))\<rparr>\<rparr>)"
proof -
  let ?m = "jmembers (sample_to_json (c_sample b))"
  have sec: "jget (config_to_json b) ''sample'' = JObj ?m"
    by (simp add: config_to_json_def sample_to_json_def)
  note keep = jset_u32_unmentioned
  have off: "jset ''offcpu_sample_rate'' get_u32 upd (JObj (merge_members ?m ps)) c =
      Inr (upd (sm_offcpu_sample_rate (c_sample b)) c)" for upd and c :: SampleTunables
    by (rule keep [OF assms(2)]) (simp add: sample_to_json_def)
  have iof: "jset ''iofile_sample_rate'' get_u32 upd (JObj (merge_members ?m ps)) c =
      Inr (upd (sm_iofile_sample_rate (c_sample b)) c)" for upd and c :: SampleTunables
    by (rule keep [OF assms(3)]) (simp add: sample_to_json_def)
  have sample: "sample_from_json (JObj (merge_members ?m ps)) SampleTunables0 =
    Inr ((c_sample b)\<lparr>
      sm_base_host_interval_ms := pick_u64 ps ''base_host_interval_ms'' (sm_base_host_interval_ms (c_sample b)),
      sm_base_feature_interval_ms := pick_u64 ps ''base_feature_interval_ms'' (sm_base_feature_interval_ms (c_sample b)),
      sm_fine_interval_ms := pick_u64 ps ''fine_interval_ms'' (sm_fine_interval_ms (c_sample b)),
      sm_deep_fine_interval_ms := pick_u64 ps ''deep_fine_interval_ms'' (sm_deep_fine_interval_ms (c_sample b)),
      sm_deep_dump_interval_ms := pick_u64 ps ''deep_dump_interval_ms'' (sm_deep_dump_interval_ms (c_sample b)),
      sm_profile_freq_hz := pick_u64 ps ''profile_freq_hz'' (sm_profile_freq_hz (c_sample b)),
      sm_overhead_interval_ms := pick_u64 ps ''overhead_interval_ms'' (sm_overhead_interval_ms (c_sample b))\<rparr>)"
    by (simp add: sample_from_json_def jset_u64_merged [OF assms(1)]
          off [unfolded sample_to_json_def jmembers_obj] iof [unfolded sample_to_json_def jmembers_obj]
          sample_to_json_def)
  show ?thesis
    by (simp add: MergeConfig_def config_from_json_def jsub_def config_to_json_def
          sample [unfolded sample_to_json_def jmembers_obj] Config0_def sample_to_json_def)
qed

theorem merge_sample_field_by_field_witness:
  "MergeConfig DefaultConfig (JObj [(''sample'', JObj [(''fine_interval_ms'', JInt 50)])])
   = Inr (DefaultConfig\<lparr>c_sample := (c_sample DefaultConfig)\<lparr>sm_fine_interval_ms := 50\<rparr>\<rparr>)"
proof -
  have "int_members [(''fine_interval_ms'', JInt 50)]" by (simp add: int_members_def)
  from merge_sample_field_by_field [OF this, of DefaultConfig] show ?thesis
    by (simp add: pick_u64_def)
qed

text \<open>
  What a file can do to the base by not being an object of objects: a top-level
  value that is not an object discards the base altogether, and a null section resets that
  section to the built-in values instead of keeping the base's.
\<close>

theorem merge_discards_base:
  "((\<nexists>ps. j = JObj ps) \<longrightarrow> MergeConfig b j = Inr Config0) \<and>
   MergeConfig b (JObj [(''window'', JNull)]) = Inr (b\<lparr>c_window := WindowTunables0\<rparr>)"
proof (intro conjI impI)
  show "MergeConfig b j = Inr Config0" if "\<nexists>ps. j = JObj ps"
    using that by (cases j) (simp_all add: MergeConfig_def config_from_json_def jsub_absent)
  show "MergeConfig b (JObj [(''window'', JNull)]) = Inr (b\<lparr>c_window := WindowTunables0\<rparr>)"
    by (simp add: MergeConfig_def config_from_json_def jsub_def config_to_json_def alist_del_def
          Config0_def)
qed

theorem merge_discards_base_witness:
  "MergeConfig DefaultConfig (JArr []) = Inr Config0 \<and> ou_dir (c_output Config0) = [] \<and>
   ou_dir (c_output DefaultConfig) = ''out''"
proof -
  have "MergeConfig DefaultConfig (JArr []) = Inr Config0"
    using merge_discards_base [of "JArr []"] by simp
  then show ?thesis by (simp add: DefaultConfig_def Config0_def OutputTunables0_def)
qed

text \<open>
  \<open>ApplyEnvOverrides\<close> reports whether one of its variables is set, and without
  any it changes nothing.
\<close>

theorem env_override_flag:
  "(fst (ApplyEnvOverrides getenv strtod c) \<longleftrightarrow> (\<exists>n \<in> env_names. getenv n \<noteq> None)) \<and>
   ((\<forall>n \<in> env_names. getenv n = None) \<longrightarrow> ApplyEnvOverrides getenv strtod c = (False, c))"
proof (intro conjI impI)
  show "fst (ApplyEnvOverrides getenv strtod c) \<longleftrightarrow> (\<exists>n \<in> env_names. getenv n \<noteq> None)"
    by (auto simp: ApplyEnvOverrides_def env_pinned_def env_categories_def env_names_def
          apply_entries_flag kEntries_name_set [of strtod] split: option.splits)
  assume none: "\<forall>n \<in> env_names. getenv n = None"
  then have "apply_entries getenv (kEntries strtod) (False, c) = (False, c)"
    by (intro apply_entries_none) (auto simp: env_names_def kEntries_name_set [of strtod])
  with none show "ApplyEnvOverrides getenv strtod c = (False, c)"
    by (simp add: ApplyEnvOverrides_def env_pinned_def env_categories_def env_names_def)
qed

theorem env_override_flag_witness:
  "ApplyEnvOverrides (\<lambda>_. None) (\<lambda>_. None) DefaultConfig = (False, DefaultConfig)"
  by (rule env_override_flag [THEN conjunct2, THEN mp]) simp

text \<open>
  A list variable holds exactly the entries that were joined with commas to make
  it: the parsed categories are the list itself, provided no entry is empty or holds a comma.
\<close>

theorem env_categories_exact:
  assumes "\<forall>x \<in> set xs. x \<noteq> [] \<and> CHR '','' \<notin> set x"
    and "getenv ''ETRACE_DIAG_MISC_CATEGORIES'' = Some (joined_commas xs)"
  shows "mi_categories (c_misc (snd (ApplyEnvOverrides getenv strtod c))) = xs"
  using assms by (simp add: ApplyEnvOverrides_def env_pinned_def env_categories_def
      comma_tokens_join split: option.splits)

theorem env_categories_exact_witness:
  "mi_categories (c_misc (snd (ApplyEnvOverrides
     [''ETRACE_DIAG_MISC_CATEGORIES'' \<mapsto> ''cpu,io''] (\<lambda>_. None) DefaultConfig))) = [''cpu'', ''io'']"
  by (rule env_categories_exact) simp_all

text \<open>
  Every configuration the collector runs with is within bounds, at startup and
  after every reload, whatever the file and the environment say; and the directory given on
  the command line has the last word at startup.
\<close>

theorem effective_config_ok:
  "(load_config getenv strtod file dir = Inr c \<longrightarrow>
     config_ok c \<and> (dir \<noteq> [] \<longrightarrow> ou_dir (c_output c) = dir)) \<and>
   config_ok (ReloadConfig getenv strtod base file)"
proof (rule conjI)
  show "load_config getenv strtod file dir = Inr c \<longrightarrow>
     config_ok c \<and> (dir \<noteq> [] \<longrightarrow> ou_dir (c_output c) = dir)"
    unfolding load_config_def Let_def
    by (auto simp: config_san.san_ok Sanitize_dir split: sum.splits if_splits)
  show "config_ok (ReloadConfig getenv strtod base file)"
    by (simp add: ReloadConfig_def Let_def config_san.san_ok)
qed

theorem effective_config_ok_witness:
  "\<exists>c. load_config (\<lambda>_. None) (\<lambda>_. None) None ''/tmp/x'' = Inr c \<and> config_ok c \<and>
     ou_dir (c_output c) = ''/tmp/x''"
proof -
  let ?r = "load_config (\<lambda>_. None) (\<lambda>_. None) None ''/tmp/x''"
  obtain c where c: "?r = Inr c" by (simp add: load_config_def Let_def)
  with effective_config_ok [of "\<lambda>_. None" "\<lambda>_. None" None "''/tmp/x''" c] show ?thesis by simp
qed

end
