(* ===== verification/Metrics.thy ===== *)
theory Metrics
  imports Config
begin

text \<open>
  The metric rows of \<^verbatim>\<open>include/etrace_diag/metrics.h\<close>, one record per struct with the
  struct's fields in order and its default member initialisers (the constants ending in 0), and
  their JSON forms, \<^verbatim>\<open>src/metrics.cpp\<close>. A fixed-size array is a list of its length; a
  \<^verbatim>\<open>char comm[16]\<close> is the list of its 16 bytes, read up to the first NUL.
\<close>

text \<open>\<^verbatim>\<open>std::string(r.comm)\<close>: the bytes before the first NUL.\<close>

definition cstr :: "string \<Rightarrow> string" where
  "cstr s = takeWhile (\<lambda>c. c \<noteq> CHR 0x00) s"

section \<open>Host rows\<close>

record ProcessRow =
  pr_pid :: u32
  pr_tgid :: u32
  pr_state :: u8
  pr_start_time :: u64
  pr_utime :: u64
  pr_stime :: u64
  pr_nvcsw :: u64
  pr_nivcsw :: u64
  pr_minflt :: u64
  pr_majflt :: u64
  pr_total_vm :: u64
  pr_rchar :: u64
  pr_wchar :: u64
  pr_syscr :: u64
  pr_syscw :: u64
  pr_read_bytes :: u64
  pr_write_bytes :: u64
  pr_sum_exec_runtime_ns :: u64
  pr_run_delay_ns :: u64
  pr_rss_anon_pages :: u64
  pr_rss_file_pages :: u64
  pr_rss_shmem_pages :: u64
  pr_swap_ents :: u64
  pr_rss_kb :: u64
  pr_rss_valid :: bool
  pr_ioac_valid :: bool
  pr_sched_valid :: bool
  pr_comm :: string

definition ProcessRow0 :: ProcessRow where
  "ProcessRow0 = \<lparr>
     pr_pid = 0,
     pr_tgid = 0,
     pr_state = 0,
     pr_start_time = 0,
     pr_utime = 0,
     pr_stime = 0,
     pr_nvcsw = 0,
     pr_nivcsw = 0,
     pr_minflt = 0,
     pr_majflt = 0,
     pr_total_vm = 0,
     pr_rchar = 0,
     pr_wchar = 0,
     pr_syscr = 0,
     pr_syscw = 0,
     pr_read_bytes = 0,
     pr_write_bytes = 0,
     pr_sum_exec_runtime_ns = 0,
     pr_run_delay_ns = 0,
     pr_rss_anon_pages = 0,
     pr_rss_file_pages = 0,
     pr_rss_shmem_pages = 0,
     pr_swap_ents = 0,
     pr_rss_kb = 0,
     pr_rss_valid = False,
     pr_ioac_valid = False,
     pr_sched_valid = False,
     pr_comm = replicate 16 CHR 0x00\<rparr>"

record CpuStat =
  cs_user :: u64
  cs_nice :: u64
  cs_system :: u64
  cs_idle :: u64
  cs_iowait :: u64
  cs_irq :: u64
  cs_softirq :: u64
  cs_steal :: u64
  cs_guest :: u64
  cs_guest_nice :: u64

definition CpuStat0 :: CpuStat where
  "CpuStat0 = \<lparr>
     cs_user = 0,
     cs_nice = 0,
     cs_system = 0,
     cs_idle = 0,
     cs_iowait = 0,
     cs_irq = 0,
     cs_softirq = 0,
     cs_steal = 0,
     cs_guest = 0,
     cs_guest_nice = 0\<rparr>"

record LoadAvg =
  la_load1 :: double
  la_load5 :: double
  la_load15 :: double
  la_nr_running :: u32
  la_nr_threads :: u32

definition LoadAvg0 :: LoadAvg where
  "LoadAvg0 = \<lparr>
     la_load1 = 0,
     la_load5 = 0,
     la_load15 = 0,
     la_nr_running = 0,
     la_nr_threads = 0\<rparr>"

record MemInfo =
  mm_mem_total_kb :: u64
  mm_mem_available_kb :: u64
  mm_mem_free_kb :: u64
  mm_buffers_kb :: u64
  mm_cached_kb :: u64
  mm_swap_total_kb :: u64
  mm_swap_free_kb :: u64
  mm_anon_pages_kb :: u64
  mm_sreclaimable_kb :: u64
  mm_shmem_kb :: u64
  mm_dirty_kb :: u64
  mm_writeback_kb :: u64
  mm_commit_limit_kb :: u64
  mm_committed_as_kb :: u64
  mm_valid_mask :: u32

definition MemInfo0 :: MemInfo where
  "MemInfo0 = \<lparr>
     mm_mem_total_kb = 0,
     mm_mem_available_kb = 0,
     mm_mem_free_kb = 0,
     mm_buffers_kb = 0,
     mm_cached_kb = 0,
     mm_swap_total_kb = 0,
     mm_swap_free_kb = 0,
     mm_anon_pages_kb = 0,
     mm_sreclaimable_kb = 0,
     mm_shmem_kb = 0,
     mm_dirty_kb = 0,
     mm_writeback_kb = 0,
     mm_commit_limit_kb = 0,
     mm_committed_as_kb = 0,
     mm_valid_mask = 0\<rparr>"

record VmStatSnapshot =
  vm_pgfault :: u64
  vm_pgmajfault :: u64
  vm_pswpin :: u64
  vm_pswpout :: u64
  vm_pgscan_kswapd :: u64
  vm_pgscan_direct :: u64
  vm_pgsteal_kswapd :: u64
  vm_pgsteal_direct :: u64
  vm_workingset_refault :: u64
  vm_nr_dirty :: u64
  vm_nr_writeback :: u64
  vm_valid_mask :: u32

definition VmStatSnapshot0 :: VmStatSnapshot where
  "VmStatSnapshot0 = \<lparr>
     vm_pgfault = 0,
     vm_pgmajfault = 0,
     vm_pswpin = 0,
     vm_pswpout = 0,
     vm_pgscan_kswapd = 0,
     vm_pgscan_direct = 0,
     vm_pgsteal_kswapd = 0,
     vm_pgsteal_direct = 0,
     vm_workingset_refault = 0,
     vm_nr_dirty = 0,
     vm_nr_writeback = 0,
     vm_valid_mask = 0\<rparr>"

record PsiWindow =
  pw_avg10 :: double
  pw_avg60 :: double
  pw_avg300 :: double
  pw_some_valid :: bool
  pw_full_valid :: bool

definition PsiWindow0 :: PsiWindow where
  "PsiWindow0 = \<lparr>
     pw_avg10 = 0,
     pw_avg60 = 0,
     pw_avg300 = 0,
     pw_some_valid = False,
     pw_full_valid = False\<rparr>"

record PsiSnapshot =
  ps_cpu :: PsiWindow
  ps_io :: PsiWindow
  ps_memory :: PsiWindow

definition PsiSnapshot0 :: PsiSnapshot where
  "PsiSnapshot0 = \<lparr>
     ps_cpu = PsiWindow0,
     ps_io = PsiWindow0,
     ps_memory = PsiWindow0\<rparr>"

record DiskStatRow =
  ds_major :: u32
  ds_minor :: u32
  ds_name :: string
  ds_reads_completed :: u64
  ds_reads_merged :: u64
  ds_sectors_read :: u64
  ds_read_ticks_ms :: u64
  ds_writes_completed :: u64
  ds_writes_merged :: u64
  ds_sectors_written :: u64
  ds_write_ticks_ms :: u64
  ds_ios_in_flight :: u64
  ds_io_ticks_ms :: u64
  ds_weighted_ticks_ms :: u64
  ds_valid_mask :: u32

definition DiskStatRow0 :: DiskStatRow where
  "DiskStatRow0 = \<lparr>
     ds_major = 0,
     ds_minor = 0,
     ds_name = replicate 32 CHR 0x00,
     ds_reads_completed = 0,
     ds_reads_merged = 0,
     ds_sectors_read = 0,
     ds_read_ticks_ms = 0,
     ds_writes_completed = 0,
     ds_writes_merged = 0,
     ds_sectors_written = 0,
     ds_write_ticks_ms = 0,
     ds_ios_in_flight = 0,
     ds_io_ticks_ms = 0,
     ds_weighted_ticks_ms = 0,
     ds_valid_mask = 0\<rparr>"

record HostSnapshot =
  hs_ts_ns :: u64
  hs_cpus :: "CpuStat list"
  hs_total :: CpuStat
  hs_load :: LoadAvg
  hs_mem :: MemInfo
  hs_vm :: VmStatSnapshot
  hs_psi :: PsiSnapshot
  hs_disks :: "DiskStatRow list"
  hs_procs :: "ProcessRow list"
  hs_ctxt :: u64
  hs_processes :: u64
  hs_procs_running :: u64
  hs_procs_blocked :: u64

definition HostSnapshot0 :: HostSnapshot where
  "HostSnapshot0 = \<lparr>
     hs_ts_ns = 0,
     hs_cpus = [],
     hs_total = CpuStat0,
     hs_load = LoadAvg0,
     hs_mem = MemInfo0,
     hs_vm = VmStatSnapshot0,
     hs_psi = PsiSnapshot0,
     hs_disks = [],
     hs_procs = [],
     hs_ctxt = 0,
     hs_processes = 0,
     hs_procs_running = 0,
     hs_procs_blocked = 0\<rparr>"

section \<open>Network rows\<close>

record NetInterfaceRow =
  ni_ifindex :: u32
  ni_name :: string
  ni_source :: string
  ni_operstate :: i32
  ni_mtu :: u32
  ni_rx_bytes :: u64
  ni_rx_packets :: u64
  ni_rx_errors :: u64
  ni_rx_dropped :: u64
  ni_tx_bytes :: u64
  ni_tx_packets :: u64
  ni_tx_errors :: u64
  ni_tx_dropped :: u64
  ni_collisions :: u64
  ni_carrier_changes :: u64
  ni_rx_nohandler :: u64
  ni_valid :: bool
  ni_error :: string

definition NetInterfaceRow0 :: NetInterfaceRow where
  "NetInterfaceRow0 = \<lparr>
     ni_ifindex = 0,
     ni_name = [],
     ni_source = [],
     ni_operstate = - 1,
     ni_mtu = 0,
     ni_rx_bytes = 0,
     ni_rx_packets = 0,
     ni_rx_errors = 0,
     ni_rx_dropped = 0,
     ni_tx_bytes = 0,
     ni_tx_packets = 0,
     ni_tx_errors = 0,
     ni_tx_dropped = 0,
     ni_collisions = 0,
     ni_carrier_changes = 0,
     ni_rx_nohandler = 0,
     ni_valid = False,
     ni_error = []\<rparr>"

record NetStackSnapshot =
  ns_ts_ns :: u64
  ns_netns_ino :: u64
  ns_source :: string
  ns_valid :: bool
  ns_error :: string
  ns_active_opens :: u64
  ns_passive_opens :: u64
  ns_attempt_fails :: u64
  ns_estab_resets :: u64
  ns_curr_estab :: u64
  ns_in_segs :: u64
  ns_out_segs :: u64
  ns_retrans_segs :: u64
  ns_in_errs :: u64
  ns_out_rsts :: u64
  ns_listen_overflows :: u64
  ns_listen_drops :: u64
  ns_backlog_drop :: u64
  ns_rcv_q_drop :: u64
  ns_syn_retrans :: u64
  ns_timeouts :: u64
  ns_memory_pressures :: u64
  ns_udp_in_datagrams :: u64
  ns_udp_no_ports :: u64
  ns_udp_in_errors :: u64
  ns_udp_out_datagrams :: u64
  ns_udp_rcvbuf_errors :: u64
  ns_udp_sndbuf_errors :: u64
  ns_tcp_sock_mem :: u64
  ns_udp_sock_mem :: u64
  ns_frag_sock_mem :: u64
  ns_tcp_state_established :: u64
  ns_tcp_state_syn_sent :: u64
  ns_tcp_state_syn_recv :: u64
  ns_tcp_state_fin_wait1 :: u64
  ns_tcp_state_fin_wait2 :: u64
  ns_tcp_state_time_wait :: u64
  ns_tcp_state_close :: u64
  ns_tcp_state_close_wait :: u64
  ns_tcp_state_last_ack :: u64
  ns_tcp_state_listen :: u64
  ns_tcp_state_closing :: u64
  ns_rqueue_bytes :: u64
  ns_wqueue_bytes :: u64
  ns_tcp_states_valid :: bool

definition NetStackSnapshot0 :: NetStackSnapshot where
  "NetStackSnapshot0 = \<lparr>
     ns_ts_ns = 0,
     ns_netns_ino = 0,
     ns_source = [],
     ns_valid = False,
     ns_error = [],
     ns_active_opens = 0,
     ns_passive_opens = 0,
     ns_attempt_fails = 0,
     ns_estab_resets = 0,
     ns_curr_estab = 0,
     ns_in_segs = 0,
     ns_out_segs = 0,
     ns_retrans_segs = 0,
     ns_in_errs = 0,
     ns_out_rsts = 0,
     ns_listen_overflows = 0,
     ns_listen_drops = 0,
     ns_backlog_drop = 0,
     ns_rcv_q_drop = 0,
     ns_syn_retrans = 0,
     ns_timeouts = 0,
     ns_memory_pressures = 0,
     ns_udp_in_datagrams = 0,
     ns_udp_no_ports = 0,
     ns_udp_in_errors = 0,
     ns_udp_out_datagrams = 0,
     ns_udp_rcvbuf_errors = 0,
     ns_udp_sndbuf_errors = 0,
     ns_tcp_sock_mem = 0,
     ns_udp_sock_mem = 0,
     ns_frag_sock_mem = 0,
     ns_tcp_state_established = 0,
     ns_tcp_state_syn_sent = 0,
     ns_tcp_state_syn_recv = 0,
     ns_tcp_state_fin_wait1 = 0,
     ns_tcp_state_fin_wait2 = 0,
     ns_tcp_state_time_wait = 0,
     ns_tcp_state_close = 0,
     ns_tcp_state_close_wait = 0,
     ns_tcp_state_last_ack = 0,
     ns_tcp_state_listen = 0,
     ns_tcp_state_closing = 0,
     ns_rqueue_bytes = 0,
     ns_wqueue_bytes = 0,
     ns_tcp_states_valid = False\<rparr>"

record NetSoftnetRow =
  nq_cpu_idx :: u32
  nq_processed :: u64
  nq_dropped :: u64
  nq_time_squeeze :: u64
  nq_received_rps :: u64
  nq_flow_limit_count :: u64
  nq_backlog_len :: u64
  nq_net_rx_softirq :: u64
  nq_net_tx_softirq :: u64
  nq_valid :: bool
  nq_error :: string

definition NetSoftnetRow0 :: NetSoftnetRow where
  "NetSoftnetRow0 = \<lparr>
     nq_cpu_idx = 0,
     nq_processed = 0,
     nq_dropped = 0,
     nq_time_squeeze = 0,
     nq_received_rps = 0,
     nq_flow_limit_count = 0,
     nq_backlog_len = 0,
     nq_net_rx_softirq = 0,
     nq_net_tx_softirq = 0,
     nq_valid = False,
     nq_error = []\<rparr>"

record NetworkSnapshot =
  nw_ts_ns :: u64
  nw_enabled :: bool
  nw_stack :: NetStackSnapshot
  nw_ifaces :: "NetInterfaceRow list"
  nw_softnets :: "NetSoftnetRow list"

definition NetworkSnapshot0 :: NetworkSnapshot where
  "NetworkSnapshot0 = \<lparr>
     nw_ts_ns = 0,
     nw_enabled = True,
     nw_stack = NetStackSnapshot0,
     nw_ifaces = [],
     nw_softnets = []\<rparr>"

section \<open>Control group rows\<close>

record CgroupIOStat =
  ci_major :: u32
  ci_minor :: u32
  ci_rbytes :: u64
  ci_wbytes :: u64
  ci_rios :: u64
  ci_wios :: u64
  ci_dbytes :: u64
  ci_dios :: u64

definition CgroupIOStat0 :: CgroupIOStat where
  "CgroupIOStat0 = \<lparr>
     ci_major = 0,
     ci_minor = 0,
     ci_rbytes = 0,
     ci_wbytes = 0,
     ci_rios = 0,
     ci_wios = 0,
     ci_dbytes = 0,
     ci_dios = 0\<rparr>"

record CgroupSnapshot =
  cg_ts_ns :: u64
  cg_available :: bool
  cg_cgroup_path :: string
  cg_error :: string
  cg_cpu_usage_usec :: u64
  cg_user_usec :: u64
  cg_system_usec :: u64
  cg_nr_periods :: u64
  cg_nr_throttled :: u64
  cg_throttled_usec :: u64
  cg_cpu_valid :: bool
  cg_memory_current_bytes :: u64
  cg_memory_max_bytes :: u64
  cg_memory_max_unlimited :: bool
  cg_memory_events_low :: u64
  cg_memory_events_high :: u64
  cg_memory_events_max :: u64
  cg_memory_events_oom :: u64
  cg_memory_events_oom_kill :: u64
  cg_memory_valid :: bool
  cg_cpu_psi :: PsiWindow
  cg_memory_psi :: PsiWindow
  cg_io :: "CgroupIOStat list"

definition CgroupSnapshot0 :: CgroupSnapshot where
  "CgroupSnapshot0 = \<lparr>
     cg_ts_ns = 0,
     cg_available = False,
     cg_cgroup_path = [],
     cg_error = [],
     cg_cpu_usage_usec = 0,
     cg_user_usec = 0,
     cg_system_usec = 0,
     cg_nr_periods = 0,
     cg_nr_throttled = 0,
     cg_throttled_usec = 0,
     cg_cpu_valid = False,
     cg_memory_current_bytes = 0,
     cg_memory_max_bytes = 0,
     cg_memory_max_unlimited = False,
     cg_memory_events_low = 0,
     cg_memory_events_high = 0,
     cg_memory_events_max = 0,
     cg_memory_events_oom = 0,
     cg_memory_events_oom_kill = 0,
     cg_memory_valid = False,
     cg_cpu_psi = PsiWindow0,
     cg_memory_psi = PsiWindow0,
     cg_io = []\<rparr>"

section \<open>GPU rows\<close>

record GpuDeviceRow =
  gd_uuid :: string
  gd_pci_bdf :: string
  gd_vendor :: string
  gd_model :: string
  gd_source :: string
  gd_available :: bool
  gd_is_mig :: bool
  gd_util_pct :: double
  gd_mem_util_pct :: double
  gd_mem_used_bytes :: u64
  gd_mem_total_bytes :: u64
  gd_temperature_c :: double
  gd_power_w :: double
  gd_power_limit_w :: double
  gd_energy_mj :: u64
  gd_sm_clock_mhz :: u32
  gd_mem_clock_mhz :: u32
  gd_pcie_rx_kbps :: u64
  gd_pcie_tx_kbps :: u64
  gd_encoder_util_pct :: double
  gd_decoder_util_pct :: double
  gd_throttle_reasons :: u64
  gd_ecc_sbe_total :: u64
  gd_ecc_dbe_total :: u64
  gd_retired_pages :: u64
  gd_error_code :: u32
  gd_error_text :: string
  gd_valid_mask :: u32

definition GpuDeviceRow0 :: GpuDeviceRow where
  "GpuDeviceRow0 = \<lparr>
     gd_uuid = [],
     gd_pci_bdf = [],
     gd_vendor = [],
     gd_model = [],
     gd_source = [],
     gd_available = False,
     gd_is_mig = False,
     gd_util_pct = 0,
     gd_mem_util_pct = 0,
     gd_mem_used_bytes = 0,
     gd_mem_total_bytes = 0,
     gd_temperature_c = 0,
     gd_power_w = 0,
     gd_power_limit_w = 0,
     gd_energy_mj = 0,
     gd_sm_clock_mhz = 0,
     gd_mem_clock_mhz = 0,
     gd_pcie_rx_kbps = 0,
     gd_pcie_tx_kbps = 0,
     gd_encoder_util_pct = 0,
     gd_decoder_util_pct = 0,
     gd_throttle_reasons = 0,
     gd_ecc_sbe_total = 0,
     gd_ecc_dbe_total = 0,
     gd_retired_pages = 0,
     gd_error_code = 0,
     gd_error_text = [],
     gd_valid_mask = 0\<rparr>"

record GpuSnapshot =
  gs_ts_ns :: u64
  gs_devices :: "GpuDeviceRow list"

definition GpuSnapshot0 :: GpuSnapshot where
  "GpuSnapshot0 = \<lparr>
     gs_ts_ns = 0,
     gs_devices = []\<rparr>"

section \<open>Counters of the targets\<close>

record EbpfPerTidStats =
  et_tid :: u32
  et_on_cpu_ns :: u64
  et_nr_sw_vol :: u64
  et_nr_sw_invol :: u64
  et_io_ops :: u64
  et_io_bytes :: u64
  et_pf_minor :: u64
  et_pf_major :: u64
  et_lock_waits :: u64
  et_lock_lat_ns :: u64

definition EbpfPerTidStats0 :: EbpfPerTidStats where
  "EbpfPerTidStats0 = \<lparr>
     et_tid = 0,
     et_on_cpu_ns = 0,
     et_nr_sw_vol = 0,
     et_nr_sw_invol = 0,
     et_io_ops = 0,
     et_io_bytes = 0,
     et_pf_minor = 0,
     et_pf_major = 0,
     et_lock_waits = 0,
     et_lock_lat_ns = 0\<rparr>"

record EbpfCounters =
  ec_ts_ns :: u64
  ec_on_cpu_ns_total :: u64
  ec_switch_total :: u64
  ec_io_ops_total :: u64
  ec_io_bytes_total :: u64
  ec_minor_faults_total :: u64
  ec_major_faults_total :: u64
  ec_lock_waits_total :: u64
  ec_per_tid :: "EbpfPerTidStats list"

definition EbpfCounters0 :: EbpfCounters where
  "EbpfCounters0 = \<lparr>
     ec_ts_ns = 0,
     ec_on_cpu_ns_total = 0,
     ec_switch_total = 0,
     ec_io_ops_total = 0,
     ec_io_bytes_total = 0,
     ec_minor_faults_total = 0,
     ec_major_faults_total = 0,
     ec_lock_waits_total = 0,
     ec_per_tid = []\<rparr>"

section \<open>Deep evidence rows\<close>

record DeepProcessRow =
  dp_ordinal :: i32
  dp_ts_ns :: u64
  dp_tid :: u32
  dp_tgid :: u32
  dp_comm :: string
  dp_vm_rss_kb :: u64
  dp_rss_anon_kb :: u64
  dp_rss_file_kb :: u64
  dp_rss_shmem_kb :: u64
  dp_vm_swap_kb :: u64
  dp_status_valid :: bool
  dp_rchar :: u64
  dp_wchar :: u64
  dp_read_bytes :: u64
  dp_write_bytes :: u64
  dp_syscr :: u64
  dp_syscw :: u64
  dp_io_valid :: bool
  dp_sched_exec_runtime_ns :: u64
  dp_sched_run_delay_ns :: u64
  dp_sched_switch_count :: u64
  dp_sched_valid :: bool
  dp_available :: bool
  dp_error :: string

definition DeepProcessRow0 :: DeepProcessRow where
  "DeepProcessRow0 = \<lparr>
     dp_ordinal = 0,
     dp_ts_ns = 0,
     dp_tid = 0,
     dp_tgid = 0,
     dp_comm = [],
     dp_vm_rss_kb = 0,
     dp_rss_anon_kb = 0,
     dp_rss_file_kb = 0,
     dp_rss_shmem_kb = 0,
     dp_vm_swap_kb = 0,
     dp_status_valid = False,
     dp_rchar = 0,
     dp_wchar = 0,
     dp_read_bytes = 0,
     dp_write_bytes = 0,
     dp_syscr = 0,
     dp_syscw = 0,
     dp_io_valid = False,
     dp_sched_exec_runtime_ns = 0,
     dp_sched_run_delay_ns = 0,
     dp_sched_switch_count = 0,
     dp_sched_valid = False,
     dp_available = False,
     dp_error = []\<rparr>"

record DeepIoDeviceRow =
  di_ordinal :: i32
  di_dev :: u32
  di_ops :: u64
  di_bytes :: u64
  di_lat_sum :: u64
  di_hist :: "u32 list"
  di_p50_us :: double
  di_p99_us :: double

definition DeepIoDeviceRow0 :: DeepIoDeviceRow where
  "DeepIoDeviceRow0 = \<lparr>
     di_ordinal = 0,
     di_dev = 0,
     di_ops = 0,
     di_bytes = 0,
     di_lat_sum = 0,
     di_hist = replicate 13 0,
     di_p50_us = 0,
     di_p99_us = 0\<rparr>"

record DeepOffcpuRow =
  dq_ordinal :: i32
  dq_tid :: u32
  dq_tgid :: u32
  dq_comm :: string
  dq_dwell_ns :: u64
  dq_count :: u64
  dq_stack_available :: i32

definition DeepOffcpuRow0 :: DeepOffcpuRow where
  "DeepOffcpuRow0 = \<lparr>
     dq_ordinal = 0,
     dq_tid = 0,
     dq_tgid = 0,
     dq_comm = [],
     dq_dwell_ns = 0,
     dq_count = 0,
     dq_stack_available = 0\<rparr>"

record DeepNetFlowRow =
  df_ordinal :: i32
  df_cookie :: u64
  df_tgid :: u32
  df_tid :: u32
  df_netns_ino :: u64
  df_family :: u32
  df_local_addr :: u64
  df_local_port :: u32
  df_remote_addr :: u64
  df_remote_port :: u32
  df_final_state :: u32
  df_start_ts_ns :: u64
  df_established_ts_ns :: u64
  df_end_ts_ns :: u64
  df_duration_us :: u64
  df_connect_latency_us :: u64
  df_tx_bytes :: u64
  df_rx_bytes :: u64
  df_retransmits :: u64
  df_rst_reason :: u32
  df_rtt_count :: u64
  df_rtt_avg_us :: u64
  df_rtt_p50_us :: u64
  df_rtt_p99_us :: u64
  df_closed :: bool
  df_owner_available :: bool
  df_error :: string

definition DeepNetFlowRow0 :: DeepNetFlowRow where
  "DeepNetFlowRow0 = \<lparr>
     df_ordinal = 0,
     df_cookie = 0,
     df_tgid = 0,
     df_tid = 0,
     df_netns_ino = 0,
     df_family = 0,
     df_local_addr = 0,
     df_local_port = 0,
     df_remote_addr = 0,
     df_remote_port = 0,
     df_final_state = 0,
     df_start_ts_ns = 0,
     df_established_ts_ns = 0,
     df_end_ts_ns = 0,
     df_duration_us = 0,
     df_connect_latency_us = 0,
     df_tx_bytes = 0,
     df_rx_bytes = 0,
     df_retransmits = 0,
     df_rst_reason = 0,
     df_rtt_count = 0,
     df_rtt_avg_us = 0,
     df_rtt_p50_us = 0,
     df_rtt_p99_us = 0,
     df_closed = False,
     df_owner_available = False,
     df_error = []\<rparr>"

record DeepNetDropRow =
  dd_ordinal :: i32
  dd_netns_ino :: u64
  dd_ifindex :: u32
  dd_reason_id :: u32
  dd_reason :: string
  dd_count :: u64

definition DeepNetDropRow0 :: DeepNetDropRow where
  "DeepNetDropRow0 = \<lparr>
     dd_ordinal = 0,
     dd_netns_ino = 0,
     dd_ifindex = 0,
     dd_reason_id = 0,
     dd_reason = [],
     dd_count = 0\<rparr>"

record DeepNetSoftirqRow =
  dn_ordinal :: i32
  dn_cpu_idx :: u32
  dn_vector :: u32
  dn_vector_name :: string
  dn_count :: u64
  dn_time_ns :: u64
  dn_hist :: string

definition DeepNetSoftirqRow0 :: DeepNetSoftirqRow where
  "DeepNetSoftirqRow0 = \<lparr>
     dn_ordinal = 0,
     dn_cpu_idx = 0,
     dn_vector = 0,
     dn_vector_name = [],
     dn_count = 0,
     dn_time_ns = 0,
     dn_hist = []\<rparr>"

record DeepGpuProcessRow =
  dg_ordinal :: i32
  dg_ts_ns :: u64
  dg_gpu_uuid :: string
  dg_pid :: u32
  dg_tgid :: u32
  dg_comm :: string
  dg_source :: string
  dg_sm_util_pct :: double
  dg_mem_util_pct :: double
  dg_enc_util_pct :: double
  dg_dec_util_pct :: double
  dg_fb_used_bytes :: u64
  dg_source_ts_us :: u64
  dg_valid_mask :: u32
  dg_error :: string

definition DeepGpuProcessRow0 :: DeepGpuProcessRow where
  "DeepGpuProcessRow0 = \<lparr>
     dg_ordinal = 0,
     dg_ts_ns = 0,
     dg_gpu_uuid = [],
     dg_pid = 0,
     dg_tgid = 0,
     dg_comm = [],
     dg_source = [],
     dg_sm_util_pct = 0,
     dg_mem_util_pct = 0,
     dg_enc_util_pct = 0,
     dg_dec_util_pct = 0,
     dg_fb_used_bytes = 0,
     dg_source_ts_us = 0,
     dg_valid_mask = 0,
     dg_error = []\<rparr>"

section \<open>Overhead rows\<close>

record BpfProgStats =
  bp_name :: string
  bp_id :: u32
  bp_run_cnt :: u64
  bp_run_time_ns :: u64

definition BpfProgStats0 :: BpfProgStats where
  "BpfProgStats0 = \<lparr>
     bp_name = [],
     bp_id = 0,
     bp_run_cnt = 0,
     bp_run_time_ns = 0\<rparr>"

record BpfStatsSnapshot =
  bs_ts_ns :: u64
  bs_interval_ns :: u64
  bs_stats_enabled :: bool
  bs_progs :: "BpfProgStats list"

definition BpfStatsSnapshot0 :: BpfStatsSnapshot where
  "BpfStatsSnapshot0 = \<lparr>
     bs_ts_ns = 0,
     bs_interval_ns = 0,
     bs_stats_enabled = False,
     bs_progs = []\<rparr>"

record ProcOverhead =
  po_ts_ns :: u64
  po_utime_ns :: u64
  po_stime_ns :: u64
  po_nvcsw :: u64
  po_nivcsw :: u64
  po_minflt :: u64
  po_majflt :: u64
  po_rss_kb :: u64
  po_vmhwm_kb :: u64

definition ProcOverhead0 :: ProcOverhead where
  "ProcOverhead0 = \<lparr>
     po_ts_ns = 0,
     po_utime_ns = 0,
     po_stime_ns = 0,
     po_nvcsw = 0,
     po_nivcsw = 0,
     po_minflt = 0,
     po_majflt = 0,
     po_rss_kb = 0,
     po_vmhwm_kb = 0\<rparr>"

section \<open>The flight-recorder record\<close>

record CanonicalSnapshot =
  sn_ts_ns :: u64
  sn_tgid :: u32
  sn_tid :: u32
  sn_comm :: string
  sn_on_cpu_ns :: u64
  sn_nr_sw_vol :: u32
  sn_nr_sw_invol :: u32
  sn_io_ops :: u64
  sn_io_bytes :: u64
  sn_io_hist :: "u32 list"
  sn_pf_minor :: u32
  sn_pf_major :: u32
  sn_lock_waits :: u64
  sn_lock_lat_ns :: u64
  sn_lock_hist :: "u32 list"
  sn_syscall_count :: u64
  sn_syscall_lat_ns :: u64
  sn_syscall_hist :: "u32 list"
  sn_futex_waits :: u64
  sn_futex_lat_ns :: u64
  sn_futex_hist :: "u32 list"
  sn_runq_wait_ns :: u64
  sn_runq_wait_count :: u32
  sn_runq_hist :: "u32 list"
  sn_flags :: u32

definition CanonicalSnapshot0 :: CanonicalSnapshot where
  "CanonicalSnapshot0 = \<lparr>
     sn_ts_ns = 0,
     sn_tgid = 0,
     sn_tid = 0,
     sn_comm = replicate 16 CHR 0x00,
     sn_on_cpu_ns = 0,
     sn_nr_sw_vol = 0,
     sn_nr_sw_invol = 0,
     sn_io_ops = 0,
     sn_io_bytes = 0,
     sn_io_hist = replicate 13 0,
     sn_pf_minor = 0,
     sn_pf_major = 0,
     sn_lock_waits = 0,
     sn_lock_lat_ns = 0,
     sn_lock_hist = replicate 13 0,
     sn_syscall_count = 0,
     sn_syscall_lat_ns = 0,
     sn_syscall_hist = replicate 13 0,
     sn_futex_waits = 0,
     sn_futex_lat_ns = 0,
     sn_futex_hist = replicate 13 0,
     sn_runq_wait_ns = 0,
     sn_runq_wait_count = 0,
     sn_runq_hist = replicate 13 0,
     sn_flags = 0\<rparr>"

section \<open>JSON forms\<close>

text \<open>\<^verbatim>\<open>valid ? json(x) : json(nullptr)\<close>.\<close>

definition jopt :: "bool \<Rightarrow> json \<Rightarrow> json" where
  "jopt valid v = (if valid then v else JNull)"

definition hist13 :: "u32 list \<Rightarrow> json" where
  "hist13 h = JArr (map (\<lambda>i. jnum (h ! i)) [0..<13])"

definition psi_window :: "PsiWindow \<Rightarrow> json" where
  "psi_window w = JObj [(''avg10'', JDbl (pw_avg10 w)), (''avg60'', JDbl (pw_avg60 w)),
     (''avg300'', JDbl (pw_avg300 w)), (''some_valid'', JBool (pw_some_valid w)),
     (''full_valid'', JBool (pw_full_valid w))]"

definition processrow_to_json :: "ProcessRow \<Rightarrow> json" where
  "processrow_to_json x = JObj [(''v'', JInt 2),
     (''pid'', jnum (pr_pid x)),
     (''tgid'', jnum (pr_tgid x)),
     (''state'', jnum (pr_state x)),
     (''start_time'', jnum (pr_start_time x)),
     (''utime'', jnum (pr_utime x)),
     (''stime'', jnum (pr_stime x)),
     (''nvcsw'', jnum (pr_nvcsw x)),
     (''nivcsw'', jnum (pr_nivcsw x)),
     (''minflt'', jnum (pr_minflt x)),
     (''majflt'', jnum (pr_majflt x)),
     (''total_vm'', jnum (pr_total_vm x)),
     (''rchar'', jnum (pr_rchar x)),
     (''wchar'', jnum (pr_wchar x)),
     (''syscr'', jnum (pr_syscr x)),
     (''syscw'', jnum (pr_syscw x)),
     (''read_bytes'', jnum (pr_read_bytes x)),
     (''write_bytes'', jnum (pr_write_bytes x)),
     (''sum_exec_runtime_ns'', jnum (pr_sum_exec_runtime_ns x)),
     (''run_delay_ns'', jnum (pr_run_delay_ns x)),
     (''rss_anon_kb'', jnum (pr_rss_anon_pages x * 4)),
     (''rss_file_kb'', jnum (pr_rss_file_pages x * 4)),
     (''rss_shmem_kb'', jnum (pr_rss_shmem_pages x * 4)),
     (''swap_kb'', jnum (pr_swap_ents x * 4)),
     (''rss_kb'', jopt (pr_rss_valid x) (jnum (pr_rss_kb x))),
     (''rss_valid'', JBool (pr_rss_valid x)),
     (''comm'', JStr (cstr (pr_comm x)))]"

definition cpustat_to_json :: "CpuStat \<Rightarrow> json" where
  "cpustat_to_json x = JObj [(''user'', jnum (cs_user x)),
     (''nice'', jnum (cs_nice x)),
     (''system'', jnum (cs_system x)),
     (''idle'', jnum (cs_idle x)),
     (''iowait'', jnum (cs_iowait x)),
     (''irq'', jnum (cs_irq x)),
     (''softirq'', jnum (cs_softirq x)),
     (''steal'', jnum (cs_steal x)),
     (''guest'', jnum (cs_guest x)),
     (''guest_nice'', jnum (cs_guest_nice x))]"

definition diskstat_to_json :: "DiskStatRow \<Rightarrow> json" where
  "diskstat_to_json x = JObj [(''major'', jnum (ds_major x)),
     (''minor'', jnum (ds_minor x)),
     (''name'', JStr (cstr (ds_name x))),
     (''reads_completed'', jnum (ds_reads_completed x)),
     (''reads_merged'', jnum (ds_reads_merged x)),
     (''sectors_read'', jnum (ds_sectors_read x)),
     (''read_ticks_ms'', jnum (ds_read_ticks_ms x)),
     (''writes_completed'', jnum (ds_writes_completed x)),
     (''writes_merged'', jnum (ds_writes_merged x)),
     (''sectors_written'', jnum (ds_sectors_written x)),
     (''write_ticks_ms'', jnum (ds_write_ticks_ms x)),
     (''ios_in_flight'', jnum (ds_ios_in_flight x)),
     (''io_ticks_ms'', jnum (ds_io_ticks_ms x)),
     (''weighted_ticks_ms'', jnum (ds_weighted_ticks_ms x)),
     (''valid_mask'', jnum (ds_valid_mask x))]"

definition host_to_json :: "HostSnapshot \<Rightarrow> json" where
  "host_to_json x = JObj [(''v'', JInt 2),
     (''ts_ns'', jnum (hs_ts_ns x)),
     (''cpus'', JArr (map cpustat_to_json (hs_cpus x))),
     (''total'', JObj [(''user'', jnum (cs_user (hs_total x))),
       (''nice'', jnum (cs_nice (hs_total x))),
       (''system'', jnum (cs_system (hs_total x))),
       (''idle'', jnum (cs_idle (hs_total x))),
       (''iowait'', jnum (cs_iowait (hs_total x))),
       (''irq'', jnum (cs_irq (hs_total x))),
       (''softirq'', jnum (cs_softirq (hs_total x))),
       (''steal'', jnum (cs_steal (hs_total x))),
       (''guest'', jnum (cs_guest (hs_total x))),
       (''guest_nice'', jnum (cs_guest_nice (hs_total x)))]),
     (''load'', JObj [(''load1'', JDbl (la_load1 (hs_load x))),
       (''load5'', JDbl (la_load5 (hs_load x))),
       (''load15'', JDbl (la_load15 (hs_load x))),
       (''nr_running'', jnum (la_nr_running (hs_load x))),
       (''nr_threads'', jnum (la_nr_threads (hs_load x)))]),
     (''mem'', JObj [(''mem_total_kb'', jnum (mm_mem_total_kb (hs_mem x))),
       (''mem_available_kb'', jnum (mm_mem_available_kb (hs_mem x))),
       (''mem_free_kb'', jnum (mm_mem_free_kb (hs_mem x))),
       (''buffers_kb'', jnum (mm_buffers_kb (hs_mem x))),
       (''cached_kb'', jnum (mm_cached_kb (hs_mem x))),
       (''swap_total_kb'', jnum (mm_swap_total_kb (hs_mem x))),
       (''swap_free_kb'', jnum (mm_swap_free_kb (hs_mem x))),
       (''anon_pages_kb'', jnum (mm_anon_pages_kb (hs_mem x))),
       (''sreclaimable_kb'', jnum (mm_sreclaimable_kb (hs_mem x))),
       (''shmem_kb'', jnum (mm_shmem_kb (hs_mem x))),
       (''dirty_kb'', jnum (mm_dirty_kb (hs_mem x))),
       (''writeback_kb'', jnum (mm_writeback_kb (hs_mem x))),
       (''commit_limit_kb'', jnum (mm_commit_limit_kb (hs_mem x))),
       (''committed_as_kb'', jnum (mm_committed_as_kb (hs_mem x))),
       (''valid_mask'', jnum (mm_valid_mask (hs_mem x)))]),
     (''vm'', JObj [(''pgfault'', jnum (vm_pgfault (hs_vm x))),
       (''pgmajfault'', jnum (vm_pgmajfault (hs_vm x))),
       (''pswpin'', jnum (vm_pswpin (hs_vm x))),
       (''pswpout'', jnum (vm_pswpout (hs_vm x))),
       (''pgscan_kswapd'', jnum (vm_pgscan_kswapd (hs_vm x))),
       (''pgscan_direct'', jnum (vm_pgscan_direct (hs_vm x))),
       (''pgsteal_kswapd'', jnum (vm_pgsteal_kswapd (hs_vm x))),
       (''pgsteal_direct'', jnum (vm_pgsteal_direct (hs_vm x))),
       (''workingset_refault'', jnum (vm_workingset_refault (hs_vm x))),
       (''nr_dirty'', jnum (vm_nr_dirty (hs_vm x))),
       (''nr_writeback'', jnum (vm_nr_writeback (hs_vm x))),
       (''valid_mask'', jnum (vm_valid_mask (hs_vm x)))]),
     (''psi'', JObj [(''cpu'', psi_window (ps_cpu (hs_psi x))),
       (''io'', psi_window (ps_io (hs_psi x))),
       (''memory'', psi_window (ps_memory (hs_psi x)))]),
     (''disks'', JArr (map diskstat_to_json (hs_disks x))),
     (''procs'', JArr (map processrow_to_json (hs_procs x))),
     (''ctxt'', jnum (hs_ctxt x)),
     (''processes'', jnum (hs_processes x)),
     (''procs_running'', jnum (hs_procs_running x)),
     (''procs_blocked'', jnum (hs_procs_blocked x))]"

definition netiface_to_json :: "NetInterfaceRow \<Rightarrow> json" where
  "netiface_to_json x = JObj [(''ifindex'', jnum (ni_ifindex x)),
     (''name'', JStr (ni_name x)),
     (''source'', JStr (ni_source x)),
     (''operstate'', JInt (ni_operstate x)),
     (''mtu'', jnum (ni_mtu x)),
     (''rx_bytes'', jnum (ni_rx_bytes x)),
     (''rx_packets'', jnum (ni_rx_packets x)),
     (''rx_errors'', jnum (ni_rx_errors x)),
     (''rx_dropped'', jnum (ni_rx_dropped x)),
     (''tx_bytes'', jnum (ni_tx_bytes x)),
     (''tx_packets'', jnum (ni_tx_packets x)),
     (''tx_errors'', jnum (ni_tx_errors x)),
     (''tx_dropped'', jnum (ni_tx_dropped x)),
     (''collisions'', jnum (ni_collisions x)),
     (''carrier_changes'', jnum (ni_carrier_changes x)),
     (''rx_nohandler'', jnum (ni_rx_nohandler x)),
     (''valid'', JBool (ni_valid x)),
     (''error'', JStr (ni_error x))]"

definition softnet_to_json :: "NetSoftnetRow \<Rightarrow> json" where
  "softnet_to_json x = JObj [(''cpu_idx'', jnum (nq_cpu_idx x)),
     (''processed'', jnum (nq_processed x)),
     (''dropped'', jnum (nq_dropped x)),
     (''time_squeeze'', jnum (nq_time_squeeze x)),
     (''received_rps'', jnum (nq_received_rps x)),
     (''flow_limit_count'', jnum (nq_flow_limit_count x)),
     (''backlog_len'', jnum (nq_backlog_len x)),
     (''net_rx_softirq'', jnum (nq_net_rx_softirq x)),
     (''net_tx_softirq'', jnum (nq_net_tx_softirq x)),
     (''valid'', JBool (nq_valid x)),
     (''error'', JStr (nq_error x))]"

definition network_to_json :: "NetworkSnapshot \<Rightarrow> json" where
  "network_to_json x = JObj [(''v'', JInt 2),
     (''ts_ns'', jnum (nw_ts_ns x)),
     (''enabled'', JBool (nw_enabled x)),
     (''stack'', JObj [(''netns_ino'', jnum (ns_netns_ino (nw_stack x))),
       (''source'', JStr (ns_source (nw_stack x))),
       (''valid'', JBool (ns_valid (nw_stack x))),
       (''error'', JStr (ns_error (nw_stack x))),
       (''active_opens'', jnum (ns_active_opens (nw_stack x))),
       (''passive_opens'', jnum (ns_passive_opens (nw_stack x))),
       (''attempt_fails'', jnum (ns_attempt_fails (nw_stack x))),
       (''estab_resets'', jnum (ns_estab_resets (nw_stack x))),
       (''curr_estab'', jnum (ns_curr_estab (nw_stack x))),
       (''in_segs'', jnum (ns_in_segs (nw_stack x))),
       (''out_segs'', jnum (ns_out_segs (nw_stack x))),
       (''retrans_segs'', jnum (ns_retrans_segs (nw_stack x))),
       (''in_errs'', jnum (ns_in_errs (nw_stack x))),
       (''out_rsts'', jnum (ns_out_rsts (nw_stack x))),
       (''listen_overflows'', jnum (ns_listen_overflows (nw_stack x))),
       (''listen_drops'', jnum (ns_listen_drops (nw_stack x))),
       (''backlog_drop'', jnum (ns_backlog_drop (nw_stack x))),
       (''rcv_q_drop'', jnum (ns_rcv_q_drop (nw_stack x))),
       (''syn_retrans'', jnum (ns_syn_retrans (nw_stack x))),
       (''timeouts'', jnum (ns_timeouts (nw_stack x))),
       (''memory_pressures'', jnum (ns_memory_pressures (nw_stack x))),
       (''udp_in_datagrams'', jnum (ns_udp_in_datagrams (nw_stack x))),
       (''udp_no_ports'', jnum (ns_udp_no_ports (nw_stack x))),
       (''udp_in_errors'', jnum (ns_udp_in_errors (nw_stack x))),
       (''udp_out_datagrams'', jnum (ns_udp_out_datagrams (nw_stack x))),
       (''udp_rcvbuf_errors'', jnum (ns_udp_rcvbuf_errors (nw_stack x))),
       (''udp_sndbuf_errors'', jnum (ns_udp_sndbuf_errors (nw_stack x))),
       (''tcp_sock_mem'', jnum (ns_tcp_sock_mem (nw_stack x))),
       (''udp_sock_mem'', jnum (ns_udp_sock_mem (nw_stack x))),
       (''frag_sock_mem'', jnum (ns_frag_sock_mem (nw_stack x))),
       (''tcp_state_established'', jnum (ns_tcp_state_established (nw_stack x))),
       (''tcp_state_syn_sent'', jnum (ns_tcp_state_syn_sent (nw_stack x))),
       (''tcp_state_syn_recv'', jnum (ns_tcp_state_syn_recv (nw_stack x))),
       (''tcp_state_fin_wait1'', jnum (ns_tcp_state_fin_wait1 (nw_stack x))),
       (''tcp_state_fin_wait2'', jnum (ns_tcp_state_fin_wait2 (nw_stack x))),
       (''tcp_state_time_wait'', jnum (ns_tcp_state_time_wait (nw_stack x))),
       (''tcp_state_close'', jnum (ns_tcp_state_close (nw_stack x))),
       (''tcp_state_close_wait'', jnum (ns_tcp_state_close_wait (nw_stack x))),
       (''tcp_state_last_ack'', jnum (ns_tcp_state_last_ack (nw_stack x))),
       (''tcp_state_listen'', jnum (ns_tcp_state_listen (nw_stack x))),
       (''tcp_state_closing'', jnum (ns_tcp_state_closing (nw_stack x))),
       (''rqueue_bytes'', jnum (ns_rqueue_bytes (nw_stack x))),
       (''wqueue_bytes'', jnum (ns_wqueue_bytes (nw_stack x))),
       (''tcp_states_valid'', JBool (ns_tcp_states_valid (nw_stack x)))]),
     (''ifaces'', JArr (map netiface_to_json (nw_ifaces x))),
     (''softnets'', JArr (map softnet_to_json (nw_softnets x)))]"

definition cgroup_io_to_json :: "CgroupIOStat \<Rightarrow> json" where
  "cgroup_io_to_json x = JObj [(''major'', jnum (ci_major x)),
     (''minor'', jnum (ci_minor x)),
     (''rbytes'', jnum (ci_rbytes x)),
     (''wbytes'', jnum (ci_wbytes x)),
     (''rios'', jnum (ci_rios x)),
     (''wios'', jnum (ci_wios x)),
     (''dbytes'', jnum (ci_dbytes x)),
     (''dios'', jnum (ci_dios x))]"

definition cgroup_to_json :: "CgroupSnapshot \<Rightarrow> json" where
  "cgroup_to_json x = JObj [(''v'', JInt 2),
     (''ts_ns'', jnum (cg_ts_ns x)),
     (''available'', JBool (cg_available x)),
     (''cgroup_path'', JStr (cg_cgroup_path x)),
     (''error'', JStr (cg_error x)),
     (''cpu'', JObj [(''usage_usec'', jnum (cg_cpu_usage_usec x)),
       (''user_usec'', jnum (cg_user_usec x)),
       (''system_usec'', jnum (cg_system_usec x)),
       (''nr_periods'', jnum (cg_nr_periods x)),
       (''nr_throttled'', jnum (cg_nr_throttled x)),
       (''throttled_usec'', jnum (cg_throttled_usec x)),
       (''valid'', JBool (cg_cpu_valid x))]),
     (''memory'', JObj [(''current_bytes'', jnum (cg_memory_current_bytes x)),
       (''max_bytes'', jnum (cg_memory_max_bytes x)),
       (''max_unlimited'', JBool (cg_memory_max_unlimited x)),
       (''events_low'', jnum (cg_memory_events_low x)),
       (''events_high'', jnum (cg_memory_events_high x)),
       (''events_max'', jnum (cg_memory_events_max x)),
       (''events_oom'', jnum (cg_memory_events_oom x)),
       (''events_oom_kill'', jnum (cg_memory_events_oom_kill x)),
       (''valid'', JBool (cg_memory_valid x))]),
     (''cpu_psi'', psi_window (cg_cpu_psi x)),
     (''memory_psi'', psi_window (cg_memory_psi x)),
     (''io'', JArr (map cgroup_io_to_json (cg_io x)))]"

definition gpudevice_to_json :: "GpuDeviceRow \<Rightarrow> json" where
  "gpudevice_to_json x = JObj [(''uuid'', JStr (gd_uuid x)),
     (''pci_bdf'', JStr (gd_pci_bdf x)),
     (''vendor'', JStr (gd_vendor x)),
     (''model'', JStr (gd_model x)),
     (''source'', JStr (gd_source x)),
     (''available'', JBool (gd_available x)),
     (''is_mig'', JBool (gd_is_mig x)),
     (''util_pct'', JDbl (gd_util_pct x)),
     (''mem_util_pct'', JDbl (gd_mem_util_pct x)),
     (''mem_used_bytes'', jnum (gd_mem_used_bytes x)),
     (''mem_total_bytes'', jnum (gd_mem_total_bytes x)),
     (''temperature_c'', JDbl (gd_temperature_c x)),
     (''power_w'', JDbl (gd_power_w x)),
     (''power_limit_w'', JDbl (gd_power_limit_w x)),
     (''energy_mj'', jnum (gd_energy_mj x)),
     (''sm_clock_mhz'', jnum (gd_sm_clock_mhz x)),
     (''mem_clock_mhz'', jnum (gd_mem_clock_mhz x)),
     (''pcie_rx_kbps'', jnum (gd_pcie_rx_kbps x)),
     (''pcie_tx_kbps'', jnum (gd_pcie_tx_kbps x)),
     (''encoder_util_pct'', JDbl (gd_encoder_util_pct x)),
     (''decoder_util_pct'', JDbl (gd_decoder_util_pct x)),
     (''throttle_reasons'', jnum (gd_throttle_reasons x)),
     (''ecc_sbe_total'', jnum (gd_ecc_sbe_total x)),
     (''ecc_dbe_total'', jnum (gd_ecc_dbe_total x)),
     (''retired_pages'', jnum (gd_retired_pages x)),
     (''error_code'', jnum (gd_error_code x)),
     (''error_text'', JStr (gd_error_text x)),
     (''valid_mask'', jnum (gd_valid_mask x))]"

definition gpu_to_json :: "GpuSnapshot \<Rightarrow> json" where
  "gpu_to_json x = JObj [(''v'', JInt 2),
     (''ts_ns'', jnum (gs_ts_ns x)),
     (''devices'', JArr (map gpudevice_to_json (gs_devices x)))]"

definition pertid_to_json :: "EbpfPerTidStats \<Rightarrow> json" where
  "pertid_to_json x = JObj [(''tid'', jnum (et_tid x)),
     (''on_cpu_ns'', jnum (et_on_cpu_ns x)),
     (''nr_sw_vol'', jnum (et_nr_sw_vol x)),
     (''nr_sw_invol'', jnum (et_nr_sw_invol x)),
     (''io_ops'', jnum (et_io_ops x)),
     (''io_bytes'', jnum (et_io_bytes x)),
     (''pf_minor'', jnum (et_pf_minor x)),
     (''pf_major'', jnum (et_pf_major x)),
     (''lock_waits'', jnum (et_lock_waits x)),
     (''lock_lat_ns'', jnum (et_lock_lat_ns x))]"

definition ebpf_to_json :: "EbpfCounters \<Rightarrow> json" where
  "ebpf_to_json x = JObj [(''v'', JInt 2),
     (''ts_ns'', jnum (ec_ts_ns x)),
     (''on_cpu_ns_total'', jnum (ec_on_cpu_ns_total x)),
     (''switch_total'', jnum (ec_switch_total x)),
     (''io_ops_total'', jnum (ec_io_ops_total x)),
     (''io_bytes_total'', jnum (ec_io_bytes_total x)),
     (''minor_faults_total'', jnum (ec_minor_faults_total x)),
     (''major_faults_total'', jnum (ec_major_faults_total x)),
     (''lock_waits_total'', jnum (ec_lock_waits_total x)),
     (''per_tid'', JArr (map pertid_to_json (ec_per_tid x)))]"

definition deepprocess_to_json :: "DeepProcessRow \<Rightarrow> json" where
  "deepprocess_to_json x = JObj [(''v'', JInt 2),
     (''ordinal'', JInt (dp_ordinal x)),
     (''ts_ns'', jnum (dp_ts_ns x)),
     (''tid'', jnum (dp_tid x)),
     (''tgid'', jnum (dp_tgid x)),
     (''comm'', JStr (dp_comm x)),
     (''vm_rss_kb'', jopt (dp_status_valid x) (jnum (dp_vm_rss_kb x))),
     (''rss_anon_kb'', jopt (dp_status_valid x) (jnum (dp_rss_anon_kb x))),
     (''rss_file_kb'', jopt (dp_status_valid x) (jnum (dp_rss_file_kb x))),
     (''rss_shmem_kb'', jopt (dp_status_valid x) (jnum (dp_rss_shmem_kb x))),
     (''vm_swap_kb'', jopt (dp_status_valid x) (jnum (dp_vm_swap_kb x))),
     (''status_valid'', JBool (dp_status_valid x)),
     (''rchar'', jopt (dp_io_valid x) (jnum (dp_rchar x))),
     (''wchar'', jopt (dp_io_valid x) (jnum (dp_wchar x))),
     (''read_bytes'', jopt (dp_io_valid x) (jnum (dp_read_bytes x))),
     (''write_bytes'', jopt (dp_io_valid x) (jnum (dp_write_bytes x))),
     (''syscr'', jopt (dp_io_valid x) (jnum (dp_syscr x))),
     (''syscw'', jopt (dp_io_valid x) (jnum (dp_syscw x))),
     (''io_valid'', JBool (dp_io_valid x)),
     (''sched_exec_runtime_ns'', jopt (dp_sched_valid x) (jnum (dp_sched_exec_runtime_ns x))),
     (''sched_run_delay_ns'', jopt (dp_sched_valid x) (jnum (dp_sched_run_delay_ns x))),
     (''sched_switch_count'', jopt (dp_sched_valid x) (jnum (dp_sched_switch_count x))),
     (''sched_valid'', JBool (dp_sched_valid x)),
     (''available'', JBool (dp_available x)),
     (''error'', JStr (dp_error x))]"

definition deepiodevice_to_json :: "DeepIoDeviceRow \<Rightarrow> json" where
  "deepiodevice_to_json x = JObj [(''v'', JInt 2),
     (''ordinal'', JInt (di_ordinal x)),
     (''dev'', jnum (di_dev x)),
     (''ops'', jnum (di_ops x)),
     (''bytes'', jnum (di_bytes x)),
     (''lat_sum'', jnum (di_lat_sum x)),
     (''hist'', hist13 (di_hist x)),
     (''p50_us'', JDbl (di_p50_us x)),
     (''p99_us'', JDbl (di_p99_us x))]"

definition deepoffcpu_to_json :: "DeepOffcpuRow \<Rightarrow> json" where
  "deepoffcpu_to_json x = JObj [(''v'', JInt 2),
     (''ordinal'', JInt (dq_ordinal x)),
     (''tid'', jnum (dq_tid x)),
     (''tgid'', jnum (dq_tgid x)),
     (''comm'', JStr (dq_comm x)),
     (''dwell_ns'', jnum (dq_dwell_ns x)),
     (''count'', jnum (dq_count x)),
     (''stack_available'', JInt (dq_stack_available x))]"

definition deepnetflow_to_json :: "DeepNetFlowRow \<Rightarrow> json" where
  "deepnetflow_to_json x = JObj [(''v'', JInt 2),
     (''ordinal'', JInt (df_ordinal x)),
     (''cookie'', jnum (df_cookie x)),
     (''tgid'', jnum (df_tgid x)),
     (''tid'', jnum (df_tid x)),
     (''netns_ino'', jnum (df_netns_ino x)),
     (''family'', jnum (df_family x)),
     (''local_addr'', jnum (df_local_addr x)),
     (''local_port'', jnum (df_local_port x)),
     (''remote_addr'', jnum (df_remote_addr x)),
     (''remote_port'', jnum (df_remote_port x)),
     (''final_state'', jnum (df_final_state x)),
     (''start_ts_ns'', jnum (df_start_ts_ns x)),
     (''established_ts_ns'', jnum (df_established_ts_ns x)),
     (''end_ts_ns'', jnum (df_end_ts_ns x)),
     (''duration_us'', jnum (df_duration_us x)),
     (''connect_latency_us'', jnum (df_connect_latency_us x)),
     (''tx_bytes'', jnum (df_tx_bytes x)),
     (''rx_bytes'', jnum (df_rx_bytes x)),
     (''retransmits'', jnum (df_retransmits x)),
     (''rst_reason'', jnum (df_rst_reason x)),
     (''rtt_count'', jnum (df_rtt_count x)),
     (''rtt_avg_us'', jnum (df_rtt_avg_us x)),
     (''rtt_p50_us'', jnum (df_rtt_p50_us x)),
     (''rtt_p99_us'', jnum (df_rtt_p99_us x)),
     (''closed'', JBool (df_closed x)),
     (''owner_available'', JBool (df_owner_available x)),
     (''error'', JStr (df_error x))]"

definition deepnetdrop_to_json :: "DeepNetDropRow \<Rightarrow> json" where
  "deepnetdrop_to_json x = JObj [(''v'', JInt 2),
     (''ordinal'', JInt (dd_ordinal x)),
     (''netns_ino'', jnum (dd_netns_ino x)),
     (''ifindex'', jnum (dd_ifindex x)),
     (''reason_id'', jnum (dd_reason_id x)),
     (''reason'', JStr (dd_reason x)),
     (''count'', jnum (dd_count x))]"

definition deepnetsoftirq_to_json :: "DeepNetSoftirqRow \<Rightarrow> json" where
  "deepnetsoftirq_to_json x = JObj [(''v'', JInt 2),
     (''ordinal'', JInt (dn_ordinal x)),
     (''cpu_idx'', jnum (dn_cpu_idx x)),
     (''vector'', jnum (dn_vector x)),
     (''vector_name'', JStr (dn_vector_name x)),
     (''count'', jnum (dn_count x)),
     (''time_ns'', jnum (dn_time_ns x)),
     (''hist'', JStr (dn_hist x))]"

definition deepgpuprocess_to_json :: "DeepGpuProcessRow \<Rightarrow> json" where
  "deepgpuprocess_to_json x = JObj [(''v'', JInt 2),
     (''ordinal'', JInt (dg_ordinal x)),
     (''ts_ns'', jnum (dg_ts_ns x)),
     (''gpu_uuid'', JStr (dg_gpu_uuid x)),
     (''pid'', jnum (dg_pid x)),
     (''tgid'', jnum (dg_tgid x)),
     (''comm'', JStr (dg_comm x)),
     (''source'', JStr (dg_source x)),
     (''sm_util_pct'', JDbl (dg_sm_util_pct x)),
     (''mem_util_pct'', JDbl (dg_mem_util_pct x)),
     (''enc_util_pct'', JDbl (dg_enc_util_pct x)),
     (''dec_util_pct'', JDbl (dg_dec_util_pct x)),
     (''fb_used_bytes'', jnum (dg_fb_used_bytes x)),
     (''source_ts_us'', jnum (dg_source_ts_us x)),
     (''valid_mask'', jnum (dg_valid_mask x)),
     (''error'', JStr (dg_error x))]"

definition bpfprog_to_json :: "BpfProgStats \<Rightarrow> json" where
  "bpfprog_to_json x = JObj [(''name'', JStr (bp_name x)),
     (''id'', jnum (bp_id x)),
     (''run_cnt'', jnum (bp_run_cnt x)),
     (''run_time_ns'', jnum (bp_run_time_ns x)),
     (''avg_ns'', JDbl (if bp_run_cnt x \<noteq> 0 then of_nat (unat (bp_run_time_ns x)) / of_nat (unat (bp_run_cnt x)) else 0))]"

text \<open>The running sums of the loop over the programs, modulo \<open>2^64\<close>.\<close>

definition total_ns :: "BpfProgStats list \<Rightarrow> u64" where
  "total_ns ps = foldl (\<lambda>a p. a + bp_run_time_ns p) 0 ps"

definition total_cnt :: "BpfProgStats list \<Rightarrow> u64" where
  "total_cnt ps = foldl (\<lambda>a p. a + bp_run_cnt p) 0 ps"

definition bpfstats_to_json :: "BpfStatsSnapshot \<Rightarrow> json" where
  "bpfstats_to_json x = JObj [(''v'', JInt 2),
     (''ts_ns'', jnum (bs_ts_ns x)),
     (''interval_ns'', jnum (bs_interval_ns x)),
     (''stats_enabled'', JBool (bs_stats_enabled x)),
     (''total_run_time_ns'', jnum (total_ns (bs_progs x))),
     (''total_run_cnt'', jnum (total_cnt (bs_progs x))),
     (''progs'', JArr (map bpfprog_to_json (bs_progs x)))]"

definition procoverhead_to_json :: "ProcOverhead \<Rightarrow> json" where
  "procoverhead_to_json x = JObj [(''v'', JInt 2),
     (''ts_ns'', jnum (po_ts_ns x)),
     (''utime_ns'', jnum (po_utime_ns x)),
     (''stime_ns'', jnum (po_stime_ns x)),
     (''cpu_ns'', jnum (po_utime_ns x + po_stime_ns x)),
     (''nvcsw'', jnum (po_nvcsw x)),
     (''nivcsw'', jnum (po_nivcsw x)),
     (''minflt'', jnum (po_minflt x)),
     (''majflt'', jnum (po_majflt x)),
     (''rss_kb'', jnum (po_rss_kb x)),
     (''vmhwm_kb'', jnum (po_vmhwm_kb x))]"

definition canonical_to_json :: "CanonicalSnapshot \<Rightarrow> json" where
  "canonical_to_json x = JObj [(''v'', JInt 2),
     (''ts_ns'', jnum (sn_ts_ns x)),
     (''tgid'', jnum (sn_tgid x)),
     (''tid'', jnum (sn_tid x)),
     (''comm'', JStr (cstr (sn_comm x))),
     (''on_cpu_ns'', jnum (sn_on_cpu_ns x)),
     (''nr_sw_vol'', jnum (sn_nr_sw_vol x)),
     (''nr_sw_invol'', jnum (sn_nr_sw_invol x)),
     (''io_ops'', jnum (sn_io_ops x)),
     (''io_bytes'', jnum (sn_io_bytes x)),
     (''io_hist'', hist13 (sn_io_hist x)),
     (''pf_minor'', jnum (sn_pf_minor x)),
     (''pf_major'', jnum (sn_pf_major x)),
     (''lock_waits'', jnum (sn_lock_waits x)),
     (''lock_lat_ns'', jnum (sn_lock_lat_ns x)),
     (''lock_hist'', hist13 (sn_lock_hist x)),
     (''syscall_count'', jnum (sn_syscall_count x)),
     (''syscall_lat_ns'', jnum (sn_syscall_lat_ns x)),
     (''syscall_hist'', hist13 (sn_syscall_hist x)),
     (''futex_waits'', jnum (sn_futex_waits x)),
     (''futex_lat_ns'', jnum (sn_futex_lat_ns x)),
     (''futex_hist'', hist13 (sn_futex_hist x)),
     (''runq_wait_ns'', jnum (sn_runq_wait_ns x)),
     (''runq_wait_count'', jnum (sn_runq_wait_count x)),
     (''runq_hist'', hist13 (sn_runq_hist x)),
     (''flags'', jnum (sn_flags x))]"

section \<open>Facts\<close>

lemma jnum_inj [simp]: "jnum v = jnum w \<longleftrightarrow> v = w"
  by (simp add: jnum_def word_uint_eq_iff)

lemma jnum_not_null [simp]: "jnum w \<noteq> JNull" "JNull \<noteq> jnum w"
  by (simp_all add: jnum_def)

lemma jopt_null [simp]: "jopt v (jnum w) = JNull \<longleftrightarrow> \<not> v"
  by (simp add: jopt_def)

lemma get_u64_jopt [simp]: "get_u64 (jopt v (jnum w)) = (if v then Inr w else Inl TypeError)"
  by (simp add: jopt_def get_u64_def jnum_def)

text \<open>A histogram of the right length is determined by its JSON array.\<close>

lemma hist13_eq [wellformed]:
  assumes "length h = 13"
  shows "hist13 h = JArr (map jnum h)"
proof -
  have "map (\<lambda>i. jnum (h ! i)) [0..<13] = map jnum h"
    by (rule nth_equalityI) (simp_all add: assms)
  then show ?thesis by (simp add: hist13_def)
qed

lemma hist13_inj:
  assumes "length h = 13" "length k = 13"
  shows "hist13 h = hist13 k \<longleftrightarrow> h = k"
proof
  assume "hist13 h = hist13 k"
  then have "map jnum h = map jnum k" using assms by (simp add: hist13_eq)
  then show "h = k" by (rule map_injective) (simp add: inj_def)
qed simp

definition snapshot_ok :: "CanonicalSnapshot \<Rightarrow> bool" where
  "snapshot_ok s \<longleftrightarrow> length (sn_io_hist s) = 13 \<and> length (sn_lock_hist s) = 13 \<and>
     length (sn_syscall_hist s) = 13 \<and> length (sn_futex_hist s) = 13 \<and> length (sn_runq_hist s) = 13"

lemma cstr_idem [simp]: "cstr (cstr s) = cstr s"
  unfolding cstr_def by (metis takeWhile_idem)

lemma total_foldl: "foldl (\<lambda>a p. a + f p) c ps = c + sum_list (map f ps)" for c :: u64
  by (induction ps arbitrary: c) (auto simp: add.assoc)

lemma total_ns_sum [simp]: "total_ns ps = sum_list (map bp_run_time_ns ps)"
  by (simp add: total_ns_def total_foldl)

lemma total_cnt_sum [simp]: "total_cnt ps = sum_list (map bp_run_cnt ps)"
  by (simp add: total_cnt_def total_foldl)

section \<open>Properties of the metric rows\<close>

text \<open>
  The JSON form of a flight-recorder snapshot loses nothing but the bytes of the name
  behind its terminating NUL: two well-formed snapshots have the same JSON exactly when they
  agree on everything else.
\<close>

theorem canonical_json_lossless:
  assumes "snapshot_ok s" and "snapshot_ok t"
  shows "canonical_to_json s = canonical_to_json t \<longleftrightarrow>
         s\<lparr>sn_comm := cstr (sn_comm s)\<rparr> = t\<lparr>sn_comm := cstr (sn_comm t)\<rparr>"
  using assms by (cases s; cases t) (auto simp: canonical_to_json_def snapshot_ok_def hist13_inj)

theorem canonical_json_lossless_witness:
  "canonical_to_json (CanonicalSnapshot0\<lparr>sn_tid := 7\<rparr>) \<noteq> canonical_to_json CanonicalSnapshot0"
proof -
  have "snapshot_ok (CanonicalSnapshot0\<lparr>sn_tid := 7\<rparr>)" and "snapshot_ok CanonicalSnapshot0"
    by (simp_all add: snapshot_ok_def CanonicalSnapshot0_def)
  from canonical_json_lossless [OF this] show ?thesis by (simp add: CanonicalSnapshot0_def)
qed

text \<open>
  A group of process metrics that could not be read is null in the JSON row, all of
  it, and otherwise every member is the number that was read: absent never reads as zero.
\<close>

theorem deepprocess_absent_is_null:
  "map (jget (deepprocess_to_json r)) [''vm_rss_kb'', ''rss_anon_kb'', ''rss_file_kb'', ''rss_shmem_kb'', ''vm_swap_kb'']
     = (if dp_status_valid r then map jnum [dp_vm_rss_kb r, dp_rss_anon_kb r, dp_rss_file_kb r, dp_rss_shmem_kb r, dp_vm_swap_kb r]
        else replicate 5 JNull) \<and>
   map (jget (deepprocess_to_json r)) [''rchar'', ''wchar'', ''read_bytes'', ''write_bytes'', ''syscr'', ''syscw'']
     = (if dp_io_valid r then map jnum [dp_rchar r, dp_wchar r, dp_read_bytes r, dp_write_bytes r, dp_syscr r, dp_syscw r]
        else replicate 6 JNull) \<and>
   map (jget (deepprocess_to_json r)) [''sched_exec_runtime_ns'', ''sched_run_delay_ns'', ''sched_switch_count'']
     = (if dp_sched_valid r then map jnum [dp_sched_exec_runtime_ns r, dp_sched_run_delay_ns r, dp_sched_switch_count r]
        else replicate 3 JNull)"
  by (simp add: deepprocess_to_json_def jopt_def eval_nat_numeral)

text \<open>
  The process table rows do not keep that promise: a row whose memory counters could
  not be read reports a null total, but zero for the anonymous, file, shared and swap parts of
  a default row.
\<close>

theorem processrow_parts_read_as_zero:
  "jget (processrow_to_json r) ''rss_kb'' = (if pr_rss_valid r then jnum (pr_rss_kb r) else JNull) \<and>
   map (\<lambda>k. jget (processrow_to_json (ProcessRow0\<lparr>pr_pid := p\<rparr>)) k) [''rss_anon_kb'', ''rss_file_kb'', ''rss_shmem_kb'', ''swap_kb'']
     = replicate 4 (jnum (0 :: u64))"
  by (simp add: processrow_to_json_def jopt_def ProcessRow0_def eval_nat_numeral)

text \<open>
  The totals of a program-statistics snapshot are the sums over its programs, exactly
  so as long as the sum fits 64 bits, and no program's average is taken over zero runs.
\<close>

theorem bpfstats_totals:
  "(sum_list (map (\<lambda>p. unat (bp_run_time_ns p)) (bs_progs s)) < 2 ^ 64 \<longrightarrow>
     jget (bpfstats_to_json s) ''total_run_time_ns''
       = JInt (\<Sum>p \<leftarrow> bs_progs s. uint (bp_run_time_ns p))) \<and>
   jget (bpfprog_to_json (BpfProgStats0\<lparr>bp_run_time_ns := t\<rparr>)) ''avg_ns'' = JDbl 0"
proof (intro conjI impI)
  have sum_no_wrap: "unat (sum_list ws) = sum_list (map unat ws)"
    if "sum_list (map unat ws) < 2 ^ 64" for ws :: "u64 list"
    using that
  proof (induction ws)
    case (Cons w ws)
    then have "unat w + unat (sum_list ws) < 2 ^ LENGTH(64)" by simp
    from unat_plus_no_wrap [OF this] Cons show ?case by simp
  qed simp
  assume fits: "sum_list (map (\<lambda>p. unat (bp_run_time_ns p)) (bs_progs s)) < 2 ^ 64"
  let ?ws = "map bp_run_time_ns (bs_progs s)"
  have "unat (sum_list ?ws) = sum_list (map unat ?ws)"
    using fits by (intro sum_no_wrap) (simp add: comp_def)
  then have "uint (sum_list ?ws) = int (\<Sum>p \<leftarrow> bs_progs s. unat (bp_run_time_ns p))"
    by (simp add: uint_nat comp_def)
  also have "\<dots> = (\<Sum>p \<leftarrow> bs_progs s. uint (bp_run_time_ns p))"
    by (induction "bs_progs s" rule: rev_induct) (simp_all add: sum_list_of_nat [symmetric] comp_def)
  finally show "jget (bpfstats_to_json s) ''total_run_time_ns'' = JInt (\<Sum>p \<leftarrow> bs_progs s. uint (bp_run_time_ns p))"
    by (simp add: bpfstats_to_json_def jnum_def)
qed (simp add: bpfprog_to_json_def BpfProgStats0_def)

end
