(* ===== verification/Model.thy ===== *)
theory Model
  imports Metrics
begin

text \<open>
  The model interface: the feature vector and the two result types of
  \<^verbatim>\<open>src/model/features.h\<close>, their JSON forms (\<^verbatim>\<open>features.cpp\<close>), and the clients behind
  \<^verbatim>\<open>IModelClient\<close>: the WebSocket client (\<^verbatim>\<open>ws_model_client.cpp\<close>) with its lazy connection
  and failure counter, and the reserved adapter of \<^verbatim>\<open>onnx_model_client.cpp\<close>. The socket and the
  JSON text functions are parameters here; the socket itself is the theory \<open>Ws\<close>.
\<close>

record AnomalyFeatures =
  af_seq :: u64
  af_ts_ns :: u64
  af_host :: HostSnapshot
  af_ebpf :: EbpfCounters
  af_top_tasks :: "ProcessRow list"
  af_network :: NetworkSnapshot
  af_gpu :: GpuSnapshot
  af_cgroup :: CgroupSnapshot

record AnomalyIndicator =
  ai_type :: string
  ai_confidence :: double

record AnomalyResult =
  ar_seq :: u64
  ar_ts_ns :: u64
  ar_is_anomaly :: bool
  ar_type :: string
  ar_confidence :: double
  ar_indicators :: "AnomalyIndicator list"

definition AnomalyResult0 :: AnomalyResult where
  "AnomalyResult0 = \<lparr>ar_seq = 0, ar_ts_ns = 0, ar_is_anomaly = False, ar_type = [],
     ar_confidence = 0, ar_indicators = []\<rparr>"

record CausalContext =
  cc_seq :: u64
  cc_window_start_ns :: u64
  cc_window_end_ns :: u64
  cc_body :: json

record CausalResult =
  cr_ok :: bool
  cr_raw :: string

definition CausalResult0 :: CausalResult where
  "CausalResult0 = \<lparr>cr_ok = False, cr_raw = []\<rparr>"

section \<open>JSON forms\<close>

definition features_to_json :: "AnomalyFeatures \<Rightarrow> json" where
  "features_to_json f = JObj [(''v'', JInt 2),
     (''seq'', jnum (af_seq f)),
     (''ts_ns'', jnum (af_ts_ns f)),
     (''host'', host_to_json (af_host f)),
     (''ebpf'', ebpf_to_json (af_ebpf f)),
     (''top_tasks'', JArr (map processrow_to_json (af_top_tasks f))),
     (''network'', network_to_json (af_network f)),
     (''gpu'', gpu_to_json (af_gpu f)),
     (''cgroup'', cgroup_to_json (af_cgroup f))]"

definition causal_context_to_json :: "CausalContext \<Rightarrow> json" where
  "causal_context_to_json c = JObj [(''v'', JInt 2),
     (''seq'', jnum (cc_seq c)),
     (''window_start_ns'', jnum (cc_window_start_ns c)),
     (''window_end_ns'', jnum (cc_window_end_ns c)),
     (''evidence'', cc_body c)]"

text \<open>
  \<^verbatim>\<open>from_json(j, r)\<close> assigns through the reference \<open>r\<close>: what was assigned before a type error
  stays. A reader therefore returns the error, if any, together with the value it leaves.
\<close>

type_synonym 'c reader = "'c \<Rightarrow> json_error option \<times> 'c"

definition rset :: "json \<Rightarrow> string \<Rightarrow> (json \<Rightarrow> json_error + 'v) \<Rightarrow> ('v \<Rightarrow> 'c \<Rightarrow> 'c) \<Rightarrow> 'c reader" where
  "rset j k cv upd c =
     (if jcontains j k
      then (case cv (jget j k) of Inl e \<Rightarrow> (Some e, c) | Inr v \<Rightarrow> (None, upd v c))
      else (None, c))"

fun rseq :: "'c reader list \<Rightarrow> 'c reader" where
  "rseq [] c = (None, c)"
| "rseq (f # fs) c = (case f c of (Some e, c') \<Rightarrow> (Some e, c') | (None, c') \<Rightarrow> rseq fs c')"

definition indicator_from_json :: "json \<Rightarrow> AnomalyIndicator reader" where
  "indicator_from_json e = rseq
     [rset e ''type'' get_string (\<lambda>v. ai_type_update (\<lambda>_. v)),
      rset e ''confidence'' get_double (\<lambda>v. ai_confidence_update (\<lambda>_. v))]"

fun push_indicators :: "json list \<Rightarrow> AnomalyResult reader" where
  "push_indicators [] r = (None, r)"
| "push_indicators (e # es) r =
     (case indicator_from_json e \<lparr>ai_type = [], ai_confidence = 0\<rparr> of
        (Some er, _) \<Rightarrow> (Some er, r)
      | (None, ind) \<Rightarrow> push_indicators es (r\<lparr>ar_indicators := ar_indicators r @ [ind]\<rparr>))"

definition read_indicators :: "json \<Rightarrow> AnomalyResult reader" where
  "read_indicators j r =
     (case jget j ''indicators'' of
        JArr es \<Rightarrow> push_indicators es (r\<lparr>ar_indicators := []\<rparr>)
      | _ \<Rightarrow> (None, r))"

definition anomaly_from_json :: "json \<Rightarrow> AnomalyResult reader" where
  "anomaly_from_json j = rseq
     [rset j ''seq'' get_u64 (\<lambda>v. ar_seq_update (\<lambda>_. v)),
      rset j ''ts_ns'' get_u64 (\<lambda>v. ar_ts_ns_update (\<lambda>_. v)),
      rset j ''is_anomaly'' get_bool (\<lambda>v. ar_is_anomaly_update (\<lambda>_. v)),
      rset j ''type'' get_string (\<lambda>v. ar_type_update (\<lambda>_. v)),
      rset j ''confidence'' get_double (\<lambda>v. ar_confidence_update (\<lambda>_. v)),
      read_indicators j]"

text \<open>The reply contract of the causal model; \<^verbatim>\<open>dump\<close> is the library's serialiser.\<close>

definition causal_from_json :: "(json \<Rightarrow> string) \<Rightarrow> json \<Rightarrow> CausalResult \<Rightarrow> json_error + CausalResult" where
  "causal_from_json dump j r =
     (case j of
        JStr s \<Rightarrow> Inr (r\<lparr>cr_raw := s, cr_ok := True\<rparr>)
      | _ \<Rightarrow> (if \<not> jcontains j ''ok'' then Inr (r\<lparr>cr_raw := dump j, cr_ok := True\<rparr>)
             else (case get_bool (jget j ''ok'') of
                     Inl e \<Rightarrow> Inl e
                   | Inr b \<Rightarrow> Inr (r\<lparr>cr_raw := dump j, cr_ok := b\<rparr>))))"

section \<open>The WebSocket client\<close>

text \<open>
  What one call finds outside: whether \<^verbatim>\<open>Connect\<close> and \<^verbatim>\<open>SendText\<close> succeed, what
  \<^verbatim>\<open>RecvText\<close> returns, and the JSON text functions (\<^verbatim>\<open>dump\<close> raises on bytes that are not
  UTF-8, \<^verbatim>\<open>parse\<close> on text that is not JSON).
\<close>

record net_env =
  ne_connect :: "string \<Rightarrow> u64 \<Rightarrow> bool"
  ne_send :: "string \<Rightarrow> bool"
  ne_recv :: "u64 \<Rightarrow> string option"
  ne_dump :: "json \<Rightarrow> string option"
  ne_parse :: "string \<Rightarrow> json option"

record ws_model =
  wm_anomaly_url :: string
  wm_causal_url :: string
  wm_anomaly_timeout :: u64
  wm_causal_timeout :: u64
  wm_anomaly_open :: bool
  wm_causal_open :: bool
  wm_failures :: u64

definition ws_model_init :: "Config \<Rightarrow> ws_model" where
  "ws_model_init cfg = \<lparr>wm_anomaly_url = md_anomaly_url (c_model cfg),
     wm_causal_url = md_causal_url (c_model cfg),
     wm_anomaly_timeout = md_anomaly_timeout_ms (c_model cfg),
     wm_causal_timeout = md_causal_timeout_ms (c_model cfg),
     wm_anomaly_open = False, wm_causal_open = False, wm_failures = 0\<rparr>"

text \<open>
  \<^verbatim>\<open>RoundTrip\<close>: connect when not open, send, receive; every failure closes the socket. The
  result is the reply, no reply, or an exception, with the socket's state after the call.
\<close>

datatype trip = Reply string | NoReply | DumpThrows

definition RoundTrip :: "net_env \<Rightarrow> bool \<Rightarrow> string \<Rightarrow> json \<Rightarrow> u64 \<Rightarrow> trip \<times> bool" where
  "RoundTrip env opened url msg timeout =
     (if \<not> opened \<and> \<not> ne_connect env url timeout then (NoReply, False)
      else case ne_dump env msg of
             None \<Rightarrow> (DumpThrows, True)
           | Some payload \<Rightarrow>
               (if \<not> ne_send env payload then (NoReply, False)
                else case ne_recv env timeout of
                       None \<Rightarrow> (NoReply, False)
                     | Some s \<Rightarrow> (Reply s, True)))"

text \<open>An anomaly verdict: the exception it raises, or the result, and the client after it.\<close>

definition ws_infer_anomaly :: "net_env \<Rightarrow> AnomalyFeatures \<Rightarrow> ws_model \<Rightarrow> (string + AnomalyResult) \<times> ws_model" where
  "ws_infer_anomaly env f m =
     (let r = AnomalyResult0\<lparr>ar_seq := af_seq f, ar_ts_ns := af_ts_ns f\<rparr>;
          (t, opened) = RoundTrip env (wm_anomaly_open m) (wm_anomaly_url m) (features_to_json f)
                        (wm_anomaly_timeout m);
          m1 = m\<lparr>wm_anomaly_open := opened\<rparr>
      in case t of
           DumpThrows \<Rightarrow> (Inl ''dump'', m1)
         | NoReply \<Rightarrow> (Inr r, m1\<lparr>wm_failures := wm_failures m + 1\<rparr>)
         | Reply out \<Rightarrow>
             (let m2 = m1\<lparr>wm_failures := 0\<rparr>
              in case ne_parse env out of
                   None \<Rightarrow> (Inr r, m2)
                 | Some j \<Rightarrow> (Inr (snd (anomaly_from_json j r)), m2)))"

text \<open>\<^verbatim>\<open>NoteFailure\<close>: the first failure of a run and every hundredth are logged.\<close>

definition note_failure_logs :: "u64 \<Rightarrow> bool" where
  "note_failure_logs n \<longleftrightarrow> n = 1 \<or> n mod 100 = 0"

definition ws_infer_causal :: "net_env \<Rightarrow> CausalContext \<Rightarrow> ws_model \<Rightarrow> (string + CausalResult) \<times> ws_model" where
  "ws_infer_causal env c m =
     (let (t, opened) = RoundTrip env (wm_causal_open m) (wm_causal_url m) (causal_context_to_json c)
                        (wm_causal_timeout m);
          m1 = m\<lparr>wm_causal_open := opened\<rparr>
      in case t of
           DumpThrows \<Rightarrow> (Inl ''dump'', m1)
         | NoReply \<Rightarrow> (Inr CausalResult0, m1)
         | Reply out \<Rightarrow> (Inr (CausalResult0\<lparr>cr_raw := out, cr_ok := True\<rparr>), m1))"

section \<open>The client the configuration selects\<close>

datatype model_client = WsModel ws_model | OnnxModel

definition MakeModelClient :: "Config \<Rightarrow> model_client" where
  "MakeModelClient cfg =
     (if md_adapter (c_model cfg) = ''onnx'' then OnnxModel else WsModel (ws_model_init cfg))"

fun InferAnomaly :: "net_env \<Rightarrow> AnomalyFeatures \<Rightarrow> model_client \<Rightarrow> (string + AnomalyResult) \<times> model_client" where
  "InferAnomaly env f (WsModel m) = (let (r, m') = ws_infer_anomaly env f m in (r, WsModel m'))"
| "InferAnomaly env f OnnxModel = (Inl ''ONNX runtime not linked (reserved adapter)'', OnnxModel)"

fun InferCausal :: "net_env \<Rightarrow> CausalContext \<Rightarrow> model_client \<Rightarrow> (string + CausalResult) \<times> model_client" where
  "InferCausal env c (WsModel m) = (let (r, m') = ws_infer_causal env c m in (r, WsModel m'))"
| "InferCausal env c OnnxModel = (Inr CausalResult0, OnnxModel)"

section \<open>Facts\<close>

lemma rset_frame:
  assumes "\<And>v c. g (upd v c) = g c"
  shows "g (snd (rset j k cv upd c)) = g c"
  using assms by (simp add: rset_def split: sum.splits)

lemma push_indicators_frame:
  "ar_is_anomaly (snd (push_indicators es r)) = ar_is_anomaly r"
  by (induction es r rule: push_indicators.induct) (auto split: prod.splits option.splits)

lemma read_indicators_frame: "ar_is_anomaly (snd (read_indicators j r)) = ar_is_anomaly r"
  by (simp add: read_indicators_def push_indicators_frame split: json.splits)

text \<open>
  The verdict a reply leaves behind: its own, if it gives a boolean and the two fields before it
  converted, else what was there.
\<close>

definition reply_verdict :: "json \<Rightarrow> bool option" where
  "reply_verdict j =
     (if (jcontains j ''seq'' \<longrightarrow> (\<exists>w. get_u64 (jget j ''seq'') = Inr w)) \<and>
         (jcontains j ''ts_ns'' \<longrightarrow> (\<exists>w. get_u64 (jget j ''ts_ns'') = Inr w))
      then (case jget j ''is_anomaly'' of JBool b \<Rightarrow> Some b | _ \<Rightarrow> None) else None)"

lemma rseq_frame:
  assumes "\<And>f c. f \<in> set fs \<Longrightarrow> g (snd (f c)) = g c"
  shows "g (snd (rseq fs c)) = g c"
  using assms
proof (induction fs arbitrary: c)
  case (Cons f fs)
  from Cons.prems [of f c] have f: "g (snd (f c)) = g c" by simp
  show ?case
  proof (cases "f c")
    case (Pair e c')
    with f have "g c' = g c" by simp
    with Pair Cons.IH [of c'] Cons.prems show ?thesis by (auto split: option.splits)
  qed
qed simp

lemma rset_ok: "fst (rset j k cv upd c) = None \<longleftrightarrow> (jcontains j k \<longrightarrow> (\<exists>v. cv (jget j k) = Inr v))"
  by (auto simp: rset_def split: sum.splits)

lemma rset_fail:
  "fst (rset j k cv upd c) = Some e \<Longrightarrow> jcontains j k \<and> (\<forall>v. cv (jget j k) \<noteq> Inr v)"
  by (auto simp: rset_def split: if_splits sum.splits)

lemma rseq_Cons: "rseq (f # fs) c = (case fst (f c) of None \<Rightarrow> rseq fs (snd (f c)) | Some e \<Rightarrow> (Some e, snd (f c)))"
  by (cases "f c") (auto split: option.splits)

lemma anomaly_verdict:
  "ar_is_anomaly (snd (anomaly_from_json j r)) = (case reply_verdict j of None \<Rightarrow> ar_is_anomaly r | Some b \<Rightarrow> b)"
proof -
  let ?seq = "rset j ''seq'' get_u64 (\<lambda>v. ar_seq_update (\<lambda>_. v))"
  let ?ts = "rset j ''ts_ns'' get_u64 (\<lambda>v. ar_ts_ns_update (\<lambda>_. v))"
  let ?an = "rset j ''is_anomaly'' get_bool (\<lambda>v. ar_is_anomaly_update (\<lambda>_. v))"
  let ?rest = "[rset j ''type'' get_string (\<lambda>v. ar_type_update (\<lambda>_. v)),
      rset j ''confidence'' get_double (\<lambda>v. ar_confidence_update (\<lambda>_. v)), read_indicators j]"
  have seq: "ar_is_anomaly (snd (?seq c)) = ar_is_anomaly c" and ts: "ar_is_anomaly (snd (?ts c)) = ar_is_anomaly c" for c
    by (rule rset_frame, simp)+
  have rest: "ar_is_anomaly (snd (rseq ?rest c)) = ar_is_anomaly c" for c
    by (rule rseq_frame) (auto simp: read_indicators_frame intro!: rset_frame)
  have an: "ar_is_anomaly (snd (?an c)) = (case jget j ''is_anomaly'' of JBool b \<Rightarrow> b | _ \<Rightarrow> ar_is_anomaly c)" for c
    by (auto simp: rset_def get_bool_def jcontains_def jget_def split: json.splits option.splits)
  have tail: "ar_is_anomaly (snd (rseq (?an # ?rest) c)) =
      (case jget j ''is_anomaly'' of JBool b \<Rightarrow> b | _ \<Rightarrow> ar_is_anomaly c)" for c
    by (simp only: rseq_Cons [of ?an ?rest]) (auto simp: rest an simp del: rseq.simps split: option.splits)
  show ?thesis
    unfolding anomaly_from_json_def reply_verdict_def
    by (simp only: rseq_Cons [of ?seq] rseq_Cons [of ?ts])
       (auto simp: tail seq ts rset_ok simp del: rseq.simps dest: rset_fail split: option.splits json.splits)
qed

section \<open>Properties of the model clients\<close>

text \<open>
  No spurious anomaly: the WebSocket client reports an anomaly only when the peer
  answered with JSON whose \<open>is_anomaly\<close> is true; a failed round trip or an unparsable answer is a
  no-anomaly verdict for this very feature vector, and the failure counter counts exactly the
  failed round trips since the last answer.
\<close>

theorem ws_anomaly_only_on_reply:
  assumes "ws_infer_anomaly env f m = (Inr r, m')"
  shows "(ar_is_anomaly r \<longrightarrow> (\<exists>out j. ne_recv env (wm_anomaly_timeout m) = Some out \<and>
           ne_parse env out = Some j \<and> reply_verdict j = Some True)) \<and>
         wm_failures m' = (if wm_anomaly_open m' then 0 else wm_failures m + 1)"
proof (rule conjI)
  show "ar_is_anomaly r \<longrightarrow> (\<exists>out j. ne_recv env (wm_anomaly_timeout m) = Some out \<and>
           ne_parse env out = Some j \<and> reply_verdict j = Some True)"
    using assms
    by (auto simp: ws_infer_anomaly_def Let_def RoundTrip_def AnomalyResult0_def anomaly_verdict
        split: if_splits option.splits trip.splits prod.splits)
  show "wm_failures m' = (if wm_anomaly_open m' then 0 else wm_failures m + 1)"
    using assms
    by (auto simp: ws_infer_anomaly_def Let_def RoundTrip_def split: if_splits option.splits trip.splits prod.splits)
qed

theorem ws_anomaly_only_on_reply_witness:
  "\<forall>f. \<exists>r m'. ws_infer_anomaly \<lparr>ne_connect = \<lambda>_ _. True, ne_send = \<lambda>_. True, ne_recv = \<lambda>_. Some ''r'',
       ne_dump = \<lambda>_. Some ''f'', ne_parse = \<lambda>_. Some (JObj [(''is_anomaly'', JBool True)])\<rparr> f
       (ws_model_init DefaultConfig) = (Inr r, m') \<and> ar_is_anomaly r \<and> wm_failures m' = 0"
proof (rule allI)
  let ?env = "\<lparr>ne_connect = \<lambda>_ _. True, ne_send = \<lambda>_. True, ne_recv = \<lambda>_. Some ''r'',
       ne_dump = \<lambda>_. Some ''f'', ne_parse = \<lambda>_. Some (JObj [(''is_anomaly'', JBool True)])\<rparr>"
  fix f
  obtain r m' where run: "ws_infer_anomaly ?env f (ws_model_init DefaultConfig) = (Inr r, m')"
    by (simp add: ws_infer_anomaly_def RoundTrip_def Let_def)
  then have "ar_is_anomaly r" and "wm_anomaly_open m'"
    by (auto simp: ws_infer_anomaly_def RoundTrip_def Let_def anomaly_verdict reply_verdict_def jget_def)
  with ws_anomaly_only_on_reply [OF run] run
  show "\<exists>r m'. ws_infer_anomaly ?env f (ws_model_init DefaultConfig) = (Inr r, m') \<and> ar_is_anomaly r \<and> wm_failures m' = 0"
    by auto
qed

text \<open>
  An answer that breaks off at a field of the wrong type still starts the deep phase:
  the verdict assigned before the type error stays in the result.
\<close>

theorem ws_partial_reply_keeps_verdict:
  assumes "ne_connect env (wm_anomaly_url m) (wm_anomaly_timeout m)"
    "ne_dump env (features_to_json f) = Some p" "ne_send env p"
    "ne_recv env (wm_anomaly_timeout m) = Some out"
    "ne_parse env out = Some (JObj [(''is_anomaly'', JBool True), (''type'', v)])"
  shows "\<exists>r m'. ws_infer_anomaly env f m = (Inr r, m') \<and> ar_is_anomaly r"
  using assms
  by (auto simp: ws_infer_anomaly_def RoundTrip_def Let_def anomaly_verdict reply_verdict_def jget_def)

theorem ws_partial_reply_keeps_verdict_witness:
  "\<forall>f. \<exists>r m'. ws_infer_anomaly \<lparr>ne_connect = \<lambda>_ _. True, ne_send = \<lambda>_. True, ne_recv = \<lambda>_. Some ''r'',
       ne_dump = \<lambda>_. Some ''f'',
       ne_parse = \<lambda>_. Some (JObj [(''is_anomaly'', JBool True), (''type'', JInt 5)])\<rparr> f
       (ws_model_init DefaultConfig) = (Inr r, m') \<and> ar_is_anomaly r"
  by (rule allI, rule ws_partial_reply_keeps_verdict) simp_all

end
