(* ===== verification/Phase.thy ===== *)
theory Phase
  imports Model
begin

text \<open>
  The BASE/DEEP state machine, \<^verbatim>\<open>src/phase_manager.cpp\<close>. One function per method of
  \<^verbatim>\<open>PhaseManager\<close>; what the methods call (the deep collector, the writer, the causal model)
  is a record of operations on a world \<open>'w\<close>, with the laws the state machine relies on stated
  as the locale \<open>episode_world\<close>. Two worlds are given: here the trace of the calls, and in
  the theory \<open>Deep\<close> the deep collector itself.
\<close>

datatype Phase = BASE | DEEP

record PhaseManager =
  pm_phase :: Phase
  pm_deep_ordinal :: i32
  pm_anomaly_start_ts :: u64
  pm_anomaly_end_ts :: u64
  pm_post_deadline_ns :: u64
  pm_first_false_ts :: u64
  pm_debounce :: u32
  pm_indicators :: "json list"
  pm_last_summary :: json

definition PhaseManager0 :: PhaseManager where
  "PhaseManager0 = \<lparr>pm_phase = BASE, pm_deep_ordinal = 0, pm_anomaly_start_ts = 0,
     pm_anomaly_end_ts = 0, pm_post_deadline_ns = 0, pm_first_false_ts = 0, pm_debounce = 0,
     pm_indicators = [], pm_last_summary = JNull\<rparr>"

record 'w episode_ops =
  op_enter :: "i32 \<Rightarrow> u64 \<Rightarrow> Config \<Rightarrow> 'w \<Rightarrow> bool \<times> 'w"
  op_finalize :: "Config \<Rightarrow> json \<Rightarrow> 'w \<Rightarrow> json \<times> 'w"
  op_exit :: "'w \<Rightarrow> 'w"
  op_evidence :: "i32 \<Rightarrow> 'w \<Rightarrow> json"
  op_causal :: "CausalContext \<Rightarrow> 'w \<Rightarrow> (string + CausalResult) \<times> 'w"
  op_diagnosis :: "string \<Rightarrow> 'w \<Rightarrow> 'w"
  op_meta :: "json \<Rightarrow> 'w \<Rightarrow> 'w"
  op_summary :: "json \<Rightarrow> 'w \<Rightarrow> 'w"

text \<open>\<^verbatim>\<open>j[k] = v\<close> on an object (or on the null value a fresh \<^verbatim>\<open>json\<close> is).\<close>

definition jput :: "string \<Rightarrow> json \<Rightarrow> json \<Rightarrow> json" where
  "jput k v j = JObj (alist_put k v (jmembers j))"

definition seconds_ns :: "u64 \<Rightarrow> u64" where
  "seconds_ns s = s * 1000000000"

section \<open>The methods\<close>

definition EnterDeep :: "'w episode_ops \<Rightarrow> Config \<Rightarrow> u64 \<Rightarrow> PhaseManager \<times> 'w \<Rightarrow> PhaseManager \<times> 'w" where
  "EnterDeep ops cfg now_ns = (\<lambda>(p, w).
     let p1 = p\<lparr>pm_deep_ordinal := pm_deep_ordinal p + 1,
                pm_anomaly_start_ts := now_ns,
                pm_anomaly_end_ts := 0,
                pm_post_deadline_ns := now_ns + seconds_ns (wn_post_anomaly_seconds (c_window cfg)),
                pm_first_false_ts := 0,
                pm_debounce := 0,
                pm_indicators := []\<rparr>;
         (ok, w1) = op_enter ops (pm_deep_ordinal p1) now_ns cfg w
     in (p1\<lparr>pm_phase := (if ok then DEEP else BASE)\<rparr>, w1))"

definition deep_summary :: "PhaseManager \<Rightarrow> json" where
  "deep_summary p = JObj [(''v'', JInt 2),
     (''anomaly_start_ts'', jnum (pm_anomaly_start_ts p)),
     (''anomaly_end_ts'', jnum (pm_anomaly_end_ts p)),
     (''post_deadline_ts'', jnum (pm_post_deadline_ns p)),
     (''deep_ordinal'', JInt (pm_deep_ordinal p)),
     (''deep_indicators'', JArr (pm_indicators p))]"

definition deep_evidence :: "PhaseManager \<Rightarrow> json \<Rightarrow> json" where
  "deep_evidence p e =
     jput ''post_deadline_ts'' (jnum (pm_post_deadline_ns p))
      (jput ''deep_indicators'' (JArr (pm_indicators p))
       (jput ''deep_ordinal'' (JInt (pm_deep_ordinal p))
        (jput ''anomaly_end_ts'' (jnum (pm_anomaly_end_ts p))
         (jput ''anomaly_start_ts'' (jnum (pm_anomaly_start_ts p)) e))))"

definition causal_context :: "Config \<Rightarrow> u64 \<Rightarrow> PhaseManager \<Rightarrow> json \<Rightarrow> CausalContext" where
  "causal_context cfg now_ns p body =
     (let pre = seconds_ns (wn_pre_anomaly_seconds (c_window cfg))
      in \<lparr>cc_seq = word_of_int (pm_deep_ordinal p),
          cc_window_start_ns = (if pm_anomaly_start_ts p > pre then pm_anomaly_start_ts p - pre else 0),
          cc_window_end_ns = now_ns,
          cc_body = body\<rparr>)"

definition FinalizeDeep :: "'w episode_ops \<Rightarrow> Config \<Rightarrow> u64 \<Rightarrow> PhaseManager \<times> 'w \<Rightarrow> PhaseManager \<times> 'w" where
  "FinalizeDeep ops cfg now_ns = (\<lambda>(p, w).
     let p1 = (if pm_anomaly_end_ts p = 0 then p\<lparr>pm_anomaly_end_ts := now_ns\<rparr> else p);
         (summary, w1) = op_finalize ops cfg (deep_summary p1) w;
         evidence = deep_evidence p1 (op_evidence ops (pm_deep_ordinal p1) w1);
         (r, w2) = op_causal ops (causal_context cfg now_ns p1 evidence) w1;
         (causal, w3) =
           (case r of
              Inl e \<Rightarrow> (JObj [(''ok'', JBool False), (''error'', JStr e)], w2)
            | Inr c \<Rightarrow> (JObj [(''ok'', JBool (cr_ok c)), (''raw'', JStr (cr_raw c))],
                       if cr_ok c \<and> cr_raw c \<noteq> [] then op_diagnosis ops (cr_raw c) w2 else w2));
         summary1 = jput ''causal'' causal summary
     in (p1\<lparr>pm_last_summary := summary1\<rparr>, op_summary ops summary1 (op_meta ops summary1 w3)))"

definition ExitDeep :: "'w episode_ops \<Rightarrow> PhaseManager \<times> 'w \<Rightarrow> PhaseManager \<times> 'w" where
  "ExitDeep ops = (\<lambda>(p, w). (p\<lparr>pm_phase := BASE\<rparr>, op_exit ops w))"

text \<open>
  \<open>verdict\<close> is what \<^verbatim>\<open>InferAnomaly\<close> did: an exception is treated as no anomaly. In DEEP a
  verdict only feeds the indicators and the debounced end of the anomaly.
\<close>

definition verdict :: "string + AnomalyResult \<Rightarrow> AnomalyResult" where
  "verdict reply = (case reply of Inl _ \<Rightarrow> AnomalyResult0 | Inr r \<Rightarrow> r)"

definition deep_verdict :: "Config \<Rightarrow> AnomalyResult \<Rightarrow> u64 \<Rightarrow> PhaseManager \<Rightarrow> PhaseManager" where
  "deep_verdict cfg r now_ns p =
     (if ar_is_anomaly r
      then p\<lparr>pm_indicators := pm_indicators p @
               [JObj [(''type'', JStr (ar_type r)), (''confidence'', JDbl (ar_confidence r))]],
             pm_debounce := 0, pm_first_false_ts := 0\<rparr>
      else
        (let p1 = (if pm_debounce p = 0 then p\<lparr>pm_first_false_ts := now_ns\<rparr> else p);
             p2 = p1\<lparr>pm_debounce := pm_debounce p1 + 1\<rparr>
         in if pm_debounce p2 \<ge> wn_end_debounce_samples (c_window cfg) \<and> pm_anomaly_end_ts p2 = 0
            then p2\<lparr>pm_anomaly_end_ts := pm_first_false_ts p2\<rparr> else p2))"

definition TickAnomaly :: "'w episode_ops \<Rightarrow> Config \<Rightarrow> string + AnomalyResult \<Rightarrow> u64
    \<Rightarrow> PhaseManager \<times> 'w \<Rightarrow> PhaseManager \<times> 'w" where
  "TickAnomaly ops cfg reply now_ns = (\<lambda>(p, w).
     let r = verdict reply
     in if pm_phase p = BASE
        then (if ar_is_anomaly r then EnterDeep ops cfg now_ns (p, w) else (p, w))
        else (deep_verdict cfg r now_ns p, w))"

definition TickDeep :: "'w episode_ops \<Rightarrow> Config \<Rightarrow> u64 \<Rightarrow> PhaseManager \<times> 'w \<Rightarrow> PhaseManager \<times> 'w" where
  "TickDeep ops cfg now_ns = (\<lambda>(p, w).
     if pm_phase p \<noteq> DEEP then (p, w)
     else if now_ns \<ge> pm_post_deadline_ns p then ExitDeep ops (FinalizeDeep ops cfg now_ns (p, w))
     else (p, w))"

definition Shutdown :: "'w episode_ops \<Rightarrow> Config \<Rightarrow> u64 \<Rightarrow> PhaseManager \<times> 'w \<Rightarrow> PhaseManager \<times> 'w" where
  "Shutdown ops cfg now_ns = (\<lambda>(p, w).
     if pm_phase p = DEEP then ExitDeep ops (FinalizeDeep ops cfg now_ns (p, w)) else (p, w))"

definition RequestDeep :: "'w episode_ops \<Rightarrow> Config \<Rightarrow> u64 \<Rightarrow> PhaseManager \<times> 'w \<Rightarrow> PhaseManager \<times> 'w" where
  "RequestDeep ops cfg now_ns = (\<lambda>(p, w).
     if pm_phase p = BASE then EnterDeep ops cfg now_ns (p, w) else (p, w))"

definition RequestBase :: "'w episode_ops \<Rightarrow> Config \<Rightarrow> u64 \<Rightarrow> PhaseManager \<times> 'w \<Rightarrow> PhaseManager \<times> 'w" where
  "RequestBase ops cfg now_ns = (\<lambda>(p, w).
     if pm_phase p = DEEP then ExitDeep ops (FinalizeDeep ops cfg now_ns (p, w)) else (p, w))"

section \<open>Steps and reachable states\<close>

inductive phase_step :: "'w episode_ops \<Rightarrow> PhaseManager \<times> 'w \<Rightarrow> PhaseManager \<times> 'w \<Rightarrow> bool"
  for ops :: "'w episode_ops"
where
  step_anomaly: "phase_step ops s (TickAnomaly ops cfg reply now_ns s)"
| step_deep: "phase_step ops s (TickDeep ops cfg now_ns s)"
| step_shutdown: "phase_step ops s (Shutdown ops cfg now_ns s)"
| step_request_deep: "phase_step ops s (RequestDeep ops cfg now_ns s)"
| step_request_base: "phase_step ops s (RequestBase ops cfg now_ns s)"

inductive_cases phase_stepE: "phase_step ops s s'"

inductive reachable :: "'w episode_ops \<Rightarrow> 'w \<Rightarrow> PhaseManager \<times> 'w \<Rightarrow> bool"
  for ops :: "'w episode_ops" and w0 :: 'w
where
  reach_init: "reachable ops w0 (PhaseManager0, w0)"
| reach_step: "reachable ops w0 s \<Longrightarrow> phase_step ops s s' \<Longrightarrow> reachable ops w0 s'"

text \<open>
  Every step is one of three things: nothing the world sees, the opening of an episode in BASE,
  or its closing in DEEP.
\<close>

inductive phase_act :: "'w episode_ops \<Rightarrow> PhaseManager \<times> 'w \<Rightarrow> PhaseManager \<times> 'w \<Rightarrow> bool"
  for ops :: "'w episode_ops"
where
  act_idle: "pm_phase p' = pm_phase p \<Longrightarrow> pm_deep_ordinal p' = pm_deep_ordinal p \<Longrightarrow>
     phase_act ops (p, w) (p', w)"
| act_enter: "pm_phase p = BASE \<Longrightarrow> phase_act ops (p, w) (EnterDeep ops cfg now_ns (p, w))"
| act_close: "pm_phase p = DEEP \<Longrightarrow>
     phase_act ops (p, w) (ExitDeep ops (FinalizeDeep ops cfg now_ns (p, w)))"

lemma deep_verdict_frame [simp]:
  "pm_phase (deep_verdict cfg r now_ns p) = pm_phase p"
  "pm_deep_ordinal (deep_verdict cfg r now_ns p) = pm_deep_ordinal p"
  "pm_anomaly_start_ts (deep_verdict cfg r now_ns p) = pm_anomaly_start_ts p"
  "pm_post_deadline_ns (deep_verdict cfg r now_ns p) = pm_post_deadline_ns p"
  by (simp_all add: deep_verdict_def Let_def)

lemma phase_step_act: "phase_step ops s s' \<Longrightarrow> phase_act ops s s'"
proof (erule phase_stepE)
  obtain p w where s: "s = (p, w)" by fastforce
  have idle: "phase_act ops (p, w) (p, w)" by (rule act_idle) simp_all
  show "phase_act ops s s'" if "s' = TickAnomaly ops cfg reply now_ns s" for cfg reply now_ns
    unfolding that s TickAnomaly_def
    using idle by (auto simp: Let_def intro: act_idle act_enter)
  show "phase_act ops s s'" if "s' = TickDeep ops cfg now_ns s" for cfg now_ns
    unfolding that s TickDeep_def using idle by (auto intro: act_close)
  show "phase_act ops s s'" if "s' = Shutdown ops cfg now_ns s" for cfg now_ns
    unfolding that s Shutdown_def using idle by (auto intro: act_close)
  show "phase_act ops s s'" if "s' = RequestDeep ops cfg now_ns s" for cfg now_ns
    unfolding that s RequestDeep_def using idle by (auto intro: act_enter)
  show "phase_act ops s s'" if "s' = RequestBase ops cfg now_ns s" for cfg now_ns
    unfolding that s RequestBase_def using idle by (auto intro: act_close)
qed

section \<open>The contract of the world\<close>

text \<open>
  What the state machine relies on: opening an episode makes the collector active exactly when it
  reports success, and leaving it makes it inactive.
\<close>

locale episode_world =
  fixes ops :: "'w episode_ops" and active :: "'w \<Rightarrow> bool"
  assumes enter_active: "\<not> active w \<Longrightarrow>
      active (snd (op_enter ops ordinal t cfg w)) \<longleftrightarrow> fst (op_enter ops ordinal t cfg w)"
    and exit_inactive: "\<not> active (op_exit ops w)"
begin

lemma phase_active_act:
  assumes "phase_act ops s s'" and "pm_phase (fst s) = DEEP \<longleftrightarrow> active (snd s)"
  shows "pm_phase (fst s') = DEEP \<longleftrightarrow> active (snd s')"
  using assms
proof (induction rule: phase_act.induct)
  case (act_enter p w cfg now_ns)
  then have "\<not> active w" by simp
  from enter_active [OF this] show ?case
    by (simp add: EnterDeep_def Let_def split: prod.splits) (metis fst_conv snd_conv)
next
  case (act_close p w cfg now_ns)
  then show ?case by (simp add: ExitDeep_def exit_inactive split: prod.splits)
qed simp

lemma phase_active:
  assumes "reachable ops w0 s" and "\<not> active w0"
  shows "pm_phase (fst s) = DEEP \<longleftrightarrow> active (snd s)"
  using assms
proof (induction rule: reachable.induct)
  case reach_init
  then show ?case by (simp add: PhaseManager0_def)
next
  case (reach_step s s')
  then show ?case using phase_active_act phase_step_act by blast
qed

end

section \<open>The trace of an execution\<close>

text \<open>
  The world that records the calls of the state machine. Whether an entry succeeds and what the
  causal model answers are arbitrary functions of the calls so far.
\<close>

datatype deep_call =
    CallEnter i32 bool
  | CallFinalize json
  | CallCausal CausalContext
  | CallDiagnosis string
  | CallMeta json
  | CallSummary json
  | CallExit

record trace_world =
  tr_calls :: "deep_call list"
  tr_enter_ok :: "deep_call list \<Rightarrow> bool"
  tr_causal :: "deep_call list \<Rightarrow> string + CausalResult"
  tr_evidence :: "deep_call list \<Rightarrow> json"

definition note_call :: "deep_call \<Rightarrow> trace_world \<Rightarrow> trace_world" where
  "note_call c w = w\<lparr>tr_calls := tr_calls w @ [c]\<rparr>"

definition trace_ops :: "trace_world episode_ops" where
  "trace_ops = \<lparr>
     op_enter = (\<lambda>n t cfg w. let ok = tr_enter_ok w (tr_calls w) in (ok, note_call (CallEnter n ok) w)),
     op_finalize = (\<lambda>cfg j w. (j, note_call (CallFinalize j) w)),
     op_exit = note_call CallExit,
     op_evidence = (\<lambda>n w. tr_evidence w (tr_calls w)),
     op_causal = (\<lambda>c w. (tr_causal w (tr_calls w), note_call (CallCausal c) w)),
     op_diagnosis = (\<lambda>s. note_call (CallDiagnosis s)),
     op_meta = (\<lambda>j. note_call (CallMeta j)),
     op_summary = (\<lambda>j. note_call (CallSummary j))\<rparr>"

definition trace_world0 :: trace_world where
  "trace_world0 = \<lparr>tr_calls = [], tr_enter_ok = \<lambda>_. True, tr_causal = \<lambda>_. Inl ''service down'',
     tr_evidence = \<lambda>_. JObj []\<rparr>"

text \<open>The order the calls of one episode must have, as an automaton on the trace.\<close>

datatype stage = Closed | Opened | Finalized | Asked | Diagnosed | MetaWritten json | Summarized

fun stage_step :: "i32 \<times> stage \<Rightarrow> deep_call \<Rightarrow> (i32 \<times> stage) option" where
  "stage_step (n, Closed) (CallEnter m ok) =
     (if m = n + 1 then Some (m, if ok then Opened else Closed) else None)"
| "stage_step (n, Opened) (CallFinalize j) =
     (if jget j ''deep_ordinal'' = JInt n then Some (n, Finalized) else None)"
| "stage_step (n, Finalized) (CallCausal c) = Some (n, Asked)"
| "stage_step (n, Asked) (CallDiagnosis d) = (if d = [] then None else Some (n, Diagnosed))"
| "stage_step (n, Asked) (CallMeta j) = Some (n, MetaWritten j)"
| "stage_step (n, Diagnosed) (CallMeta j) = Some (n, MetaWritten j)"
| "stage_step (n, MetaWritten j) (CallSummary j') = (if j = j' then Some (n, Summarized) else None)"
| "stage_step (n, Summarized) CallExit = Some (n, Closed)"
| "stage_step (n, st) c = None"

fun stages :: "i32 \<times> stage \<Rightarrow> deep_call list \<Rightarrow> (i32 \<times> stage) option" where
  "stages st [] = Some st"
| "stages st (c # cs) = (case stage_step st c of None \<Rightarrow> None | Some st' \<Rightarrow> stages st' cs)"

lemma stages_append: "stages st (cs @ ds) = (case stages st cs of None \<Rightarrow> None | Some st' \<Rightarrow> stages st' ds)"
  by (induction st cs rule: stages.induct) (auto split: option.splits)

definition stage_of :: "Phase \<Rightarrow> stage" where
  "stage_of ph = (case ph of BASE \<Rightarrow> Closed | DEEP \<Rightarrow> Opened)"

lemma trace_act:
  assumes "phase_act trace_ops s s'"
    and "stages (0, Closed) (tr_calls (snd s)) = Some (pm_deep_ordinal (fst s), stage_of (pm_phase (fst s)))"
  shows "stages (0, Closed) (tr_calls (snd s')) = Some (pm_deep_ordinal (fst s'), stage_of (pm_phase (fst s')))"
  using assms
proof (induction rule: phase_act.induct)
  case (act_enter p w cfg now_ns)
  then show ?case
    by (simp add: EnterDeep_def trace_ops_def note_call_def Let_def stages_append stage_of_def)
next
  case (act_close p w cfg now_ns)
  have ord: "pm_deep_ordinal (if c then p\<lparr>pm_anomaly_end_ts := t\<rparr> else p) = pm_deep_ordinal p" for c t
    by simp
  from act_close show ?case
    by (auto simp: FinalizeDeep_def ExitDeep_def trace_ops_def note_call_def Let_def stages_append
        stage_of_def deep_summary_def ord split: sum.splits)
qed simp

text \<open>The trace world keeps the contract: an episode is open after the last successful entry.\<close>

fun trace_open :: "deep_call \<Rightarrow> bool \<Rightarrow> bool" where
  "trace_open (CallEnter n ok) b = ok"
| "trace_open CallExit b = False"
| "trace_open (CallFinalize j) b = b"
| "trace_open (CallCausal c) b = b"
| "trace_open (CallDiagnosis d) b = b"
| "trace_open (CallMeta j) b = b"
| "trace_open (CallSummary j) b = b"

definition trace_active :: "trace_world \<Rightarrow> bool" where
  "trace_active w = fold trace_open (tr_calls w) False"

interpretation trace: episode_world trace_ops trace_active
  by unfold_locales (simp_all add: trace_ops_def note_call_def trace_active_def Let_def)

section \<open>The debounced end of an anomaly\<close>

text \<open>A sequence of verdicts with their times, delivered while the phase is DEEP.\<close>

definition feed :: "'w episode_ops \<Rightarrow> Config \<Rightarrow> (AnomalyResult \<times> u64) list \<Rightarrow> PhaseManager \<times> 'w
    \<Rightarrow> PhaseManager \<times> 'w" where
  "feed ops cfg xs s = fold (\<lambda>(r, t). TickAnomaly ops cfg (Inr r) t) xs s"

text \<open>
  The specification: the first position at which \<open>n\<close> consecutive verdicts are negative.
\<close>

definition calm_at :: "nat \<Rightarrow> bool list \<Rightarrow> nat \<Rightarrow> bool" where
  "calm_at n bs i \<longleftrightarrow> i + n \<le> length bs \<and> list_all Not (take n (drop i bs))"

definition first_calm :: "nat \<Rightarrow> bool list \<Rightarrow> nat option" where
  "first_calm n bs = List.find (calm_at n bs) [0..<length bs]"

definition trailing :: "bool list \<Rightarrow> nat" where
  "trailing bs = length (takeWhile Not (rev bs))"

lemma trailing_le: "trailing bs \<le> length bs"
  unfolding trailing_def by (metis length_rev length_takeWhile_le)

lemma trailing_snoc [simp]: "trailing (bs @ [b]) = (if b then 0 else Suc (trailing bs))"
  by (simp add: trailing_def)

lemma trailing_calm: "n \<le> trailing bs \<Longrightarrow> list_all Not (drop (length bs - n) bs)"
proof -
  assume n: "n \<le> trailing bs"
  have "drop (length bs - n) bs = rev (take n (rev bs))" by (simp add: take_rev)
  moreover have "take n (rev bs) = take n (takeWhile Not (rev bs))"
    using n unfolding trailing_def by (metis takeWhile_dropWhile_id append_eq_conv_conj take_append diff_is_0_eq take0 append_Nil2)
  ultimately show ?thesis
    by (auto simp: list_all_iff dest!: in_set_takeD set_takeWhileD)
qed

lemma calm_trailing:
  assumes "list_all Not (drop (length bs - m) bs)" and "m \<le> length bs"
  shows "m \<le> trailing bs"
proof -
  have "rev bs = rev (drop (length bs - m) bs) @ rev (take (length bs - m) bs)"
    by (metis append_take_drop_id rev_append)
  then have "takeWhile Not (rev bs) = rev (drop (length bs - m) bs) @ takeWhile Not (rev (take (length bs - m) bs))"
    using assms(1) by (auto simp: takeWhile_append list_all_iff)
  then show ?thesis using assms(2) by (simp add: trailing_def)
qed

lemma first_calm_Some:
  assumes "0 < n"
  shows "first_calm n bs = Some i \<longleftrightarrow> calm_at n bs i \<and> (\<forall>j < i. \<not> calm_at n bs j)"
proof -
  have "calm_at n bs i \<Longrightarrow> i < length bs" for i using assms by (simp add: calm_at_def)
  then have "calm_at n bs i \<and> (\<forall>j < i. \<not> calm_at n bs j) \<longleftrightarrow>
      (\<exists>k < length bs. calm_at n bs k \<and> i = k \<and> (\<forall>j < k. \<not> calm_at n bs j))" by blast
  also have "\<dots> \<longleftrightarrow> first_calm n bs = Some i"
    unfolding first_calm_def find_Some_iff by (intro iff_exI) auto
  finally show ?thesis by simp
qed

lemma first_calm_None:
  assumes "0 < n"
  shows "first_calm n bs = None \<longleftrightarrow> (\<forall>i. \<not> calm_at n bs i)"
proof -
  have "calm_at n bs i \<Longrightarrow> i < length bs" for i using assms by (simp add: calm_at_def)
  then show ?thesis by (auto simp: first_calm_def find_None_iff)
qed

lemma calm_snoc:
  assumes "0 < n"
  shows "calm_at n (bs @ [b]) i \<longleftrightarrow>
    calm_at n bs i \<or> (i + n = Suc (length bs) \<and> \<not> b \<and> n \<le> Suc (trailing bs))"
proof (cases "i + n = Suc (length bs)")
  case True
  with assms have i: "i = length bs - (n - 1)" "i \<le> length bs" "n - 1 \<le> length bs" by auto
  have "drop i (bs @ [b]) = drop i bs @ [b]" and "length (drop i bs @ [b]) = n" using True i by simp_all
  then have tk: "take n (drop i (bs @ [b])) = drop i bs @ [b]" by (metis order_refl take_all)
  then have "calm_at n (bs @ [b]) i \<longleftrightarrow> list_all Not (drop i bs) \<and> \<not> b"
    unfolding calm_at_def tk using True by simp
  also have "\<dots> \<longleftrightarrow> n - 1 \<le> trailing bs \<and> \<not> b"
    using trailing_calm [of "n - 1" bs] calm_trailing [of bs "n - 1"] i by auto
  finally show ?thesis using True by (auto simp: calm_at_def)
next
  case False
  then show ?thesis by (auto simp: calm_at_def)
qed

lemma first_calm_snoc:
  assumes "0 < n"
  shows "first_calm n (bs @ [b]) =
    (case first_calm n bs of Some i \<Rightarrow> Some i
     | None \<Rightarrow> if \<not> b \<and> n \<le> Suc (trailing bs) then Some (Suc (length bs) - n) else None)"
proof (cases "first_calm n bs")
  case None
  then have "\<not> calm_at n bs i" for i using first_calm_None [OF assms] by blast
  then have "calm_at n (bs @ [b]) i \<longleftrightarrow> i = Suc (length bs) - n \<and> \<not> b \<and> n \<le> Suc (trailing bs)" for i
    using calm_snoc [OF assms, of bs b i] trailing_le [of bs] by auto
  then have "first_calm n (bs @ [b]) =
      (if \<not> b \<and> n \<le> Suc (trailing bs) then Some (Suc (length bs) - n) else None)"
    by (auto simp: first_calm_Some [OF assms] first_calm_None [OF assms])
  with None show ?thesis by simp
next
  case (Some i)
  then have i: "calm_at n bs i" "\<forall>j < i. \<not> calm_at n bs j" using first_calm_Some [OF assms] by auto
  then have "i + n \<le> length bs" by (simp add: calm_at_def)
  with i have "first_calm n (bs @ [b]) = Some i"
    by (auto simp: first_calm_Some [OF assms] calm_snoc [OF assms])
  with Some show ?thesis by simp
qed

lemma first_calm_none_trailing:
  assumes "0 < n" and "first_calm n bs = None"
  shows "trailing bs < n"
proof (rule ccontr)
  assume "\<not> trailing bs < n"
  then have "n \<le> trailing bs" by simp
  then have "calm_at n bs (length bs - n)"
    using trailing_calm [of n bs] trailing_le [of bs] by (simp add: calm_at_def)
  with assms first_calm_None show False by blast
qed

text \<open>The indicators a sequence of verdicts leaves: one per positive verdict, in order.\<close>

definition indicators_of :: "(AnomalyResult \<times> u64) list \<Rightarrow> json list" where
  "indicators_of xs = map (\<lambda>(r, t). JObj [(''type'', JStr (ar_type r)), (''confidence'', JDbl (ar_confidence r))])
     (filter (\<lambda>(r, t). ar_is_anomaly r) xs)"

abbreviation verdicts :: "(AnomalyResult \<times> u64) list \<Rightarrow> bool list" where
  "verdicts xs \<equiv> map (\<lambda>x. ar_is_anomaly (fst x)) xs"

definition debounce_inv :: "Config \<Rightarrow> PhaseManager \<Rightarrow> (AnomalyResult \<times> u64) list \<Rightarrow> PhaseManager \<Rightarrow> bool" where
  "debounce_inv cfg p xs q \<longleftrightarrow>
     pm_debounce q = of_nat (trailing (verdicts xs)) \<and>
     (0 < trailing (verdicts xs) \<longrightarrow> pm_first_false_ts q = snd (xs ! (length xs - trailing (verdicts xs)))) \<and>
     pm_anomaly_end_ts q = (case first_calm (unat (wn_end_debounce_samples (c_window cfg))) (verdicts xs) of
        None \<Rightarrow> 0 | Some i \<Rightarrow> snd (xs ! i)) \<and>
     pm_indicators q = pm_indicators p @ indicators_of xs \<and> pm_phase q = pm_phase p \<and>
     pm_deep_ordinal q = pm_deep_ordinal p \<and> pm_anomaly_start_ts q = pm_anomaly_start_ts p \<and>
     pm_post_deadline_ns q = pm_post_deadline_ns p"

lemma debounce_inv_snoc:
  assumes inv: "debounce_inv cfg p xs q" and N: "0 < wn_end_debounce_samples (c_window cfg)"
    and small: "Suc (length xs) < 2 ^ 32" and nz: "\<forall>x \<in> set xs. snd x \<noteq> 0"
  shows "debounce_inv cfg p (xs @ [(r, t)]) (deep_verdict cfg r t q)"
proof -
  let ?N = "unat (wn_end_debounce_samples (c_window cfg))" and ?bs = "verdicts xs"
  have N0: "0 < ?N" using N by (simp add: word_gt_0_no unat_gt_0)
  have tl: "trailing ?bs \<le> length xs" using trailing_le [of ?bs] by simp
  have old: "i < length xs \<Longrightarrow> (xs @ [(r, t)]) ! i = xs ! i" for i by (simp add: nth_append)
  have calm_lt: "first_calm ?N ?bs = Some i \<Longrightarrow> i < length xs" for i
    using N0 by (auto simp: first_calm_Some calm_at_def)
  show ?thesis
  proof (cases "ar_is_anomaly r")
    case True
    with inv calm_lt show ?thesis
      by (auto simp: debounce_inv_def deep_verdict_def indicators_of_def first_calm_snoc [OF N0] old
          split: option.splits)
  next
    case False
    let ?k = "Suc (trailing ?bs)"
    have cnt: "pm_debounce q + 1 = of_nat ?k" using inv by (simp add: debounce_inv_def)
    have ge: "wn_end_debounce_samples (c_window cfg) \<le> of_nat ?k \<longleftrightarrow> ?N \<le> ?k"
      using tl small by (simp add: word_le_nat_alt unat_of_nat del: of_nat_Suc)
    have zero: "pm_debounce q = 0 \<longleftrightarrow> trailing ?bs = 0"
      using inv tl small by (auto simp: debounce_inv_def word_of_nat_eq_0_iff dest: nat_dvd_not_less)
    have first: "(if pm_debounce q = 0 then t else pm_first_false_ts q)
        = snd ((xs @ [(r, t)]) ! (length xs - trailing ?bs))"
      using inv zero tl by (auto simp: debounce_inv_def nth_append)
    have dv: "deep_verdict cfg r t q = q\<lparr>
        pm_first_false_ts := (if pm_debounce q = 0 then t else pm_first_false_ts q),
        pm_debounce := of_nat ?k,
        pm_anomaly_end_ts := (if ?N \<le> ?k \<and> pm_anomaly_end_ts q = 0
          then (if pm_debounce q = 0 then t else pm_first_false_ts q) else pm_anomaly_end_ts q)\<rparr>"
    proof (cases "pm_debounce q = 0")
      case True
      with zero have "trailing ?bs = 0" by simp
      with True False ge show ?thesis by (simp add: deep_verdict_def Let_def)
    next
      case nz: False
      then show ?thesis using False by (simp add: deep_verdict_def Let_def cnt ge del: of_nat_Suc)
    qed
    have end_zero: "pm_anomaly_end_ts q = 0 \<longleftrightarrow> first_calm ?N ?bs = None"
      using inv nz calm_lt by (auto simp: debounce_inv_def split: option.splits)
    have "?N \<le> ?k \<Longrightarrow> first_calm ?N ?bs = None \<Longrightarrow> length xs - trailing ?bs = Suc (length xs) - ?N"
      using first_calm_none_trailing [OF N0, of ?bs] by simp
    with inv False first end_zero calm_lt show ?thesis
      unfolding debounce_inv_def dv
      by (auto simp: indicators_of_def first_calm_snoc [OF N0] old split: option.splits)
  qed
qed

lemma feed_snoc: "feed ops cfg (xs @ [(r, t)]) s = TickAnomaly ops cfg (Inr r) t (feed ops cfg xs s)"
  by (simp add: feed_def)

lemma feed_debounce:
  assumes "pm_phase p = DEEP" "pm_debounce p = 0" "pm_anomaly_end_ts p = 0"
    and N: "0 < wn_end_debounce_samples (c_window cfg)"
    and "length xs < 2 ^ 32" and "\<forall>x \<in> set xs. snd x \<noteq> 0"
  shows "debounce_inv cfg p xs (fst (feed ops cfg xs (p, w))) \<and> snd (feed ops cfg xs (p, w)) = w"
  using assms(5,6)
proof (induction xs rule: rev_induct)
  case Nil
  have "0 < unat (wn_end_debounce_samples (c_window cfg))" using N by (simp add: word_gt_0_no unat_gt_0)
  then have "first_calm (unat (wn_end_debounce_samples (c_window cfg))) [] = None"
    by (simp add: first_calm_None calm_at_def)
  with assms(2,3) show ?case
    by (simp add: feed_def debounce_inv_def indicators_of_def trailing_def)
next
  case (snoc x xs)
  obtain r t where x: "x = (r, t)" by fastforce
  obtain q w' where q: "feed ops cfg xs (p, w) = (q, w')" by fastforce
  with snoc have inv: "debounce_inv cfg p xs q" and w': "w' = w" by auto
  then have "pm_phase q = DEEP" using assms(1) by (simp add: debounce_inv_def)
  moreover have "debounce_inv cfg p (xs @ [(r, t)]) (deep_verdict cfg r t q)"
    using snoc.prems by (intro debounce_inv_snoc [OF inv N]) auto
  ultimately show ?case
    by (simp add: x feed_snoc q w' TickAnomaly_def verdict_def Let_def)
qed

lemma EnterDeep_ok:
  assumes "EnterDeep ops cfg t0 s0 = (p, w)" and "pm_phase p = DEEP"
  shows "pm_debounce p = 0 \<and> pm_anomaly_end_ts p = 0 \<and> pm_indicators p = [] \<and>
    pm_anomaly_start_ts p = t0 \<and>
    pm_post_deadline_ns p = t0 + seconds_ns (wn_post_anomaly_seconds (c_window cfg))"
  using assms by (auto simp: EnterDeep_def Let_def split: prod.splits)

text \<open>Within the bounds of the sanitiser the deadline does not wrap around.\<close>

lemma deadline_no_wrap:
  assumes "config_ok cfg" and "unat t0 < 2 ^ 63"
  shows "unat (t0 + seconds_ns (wn_post_anomaly_seconds (c_window cfg)))
       = unat t0 + 1000000000 * unat (wn_post_anomaly_seconds (c_window cfg))"
proof -
  let ?s = "wn_post_anomaly_seconds (c_window cfg)"
  have "?s \<le> 3600" using assms(1) by (simp add: config_ok_def window_ok_def)
  then have s: "unat ?s \<le> 3600" by (simp add: word_le_nat_alt)
  then have m: "unat (seconds_ns ?s) = unat ?s * 1000000000"
    by (simp add: seconds_ns_def unat_mult_lem [THEN iffD1])
  then have "unat t0 + unat (seconds_ns ?s) < 2 ^ LENGTH(64)" using assms(2) s by simp
  from unat_plus_no_wrap [OF this] m show ?thesis by simp
qed

section \<open>Times never run backwards under one clock\<close>

text \<open>
  Executions in which every handler is called with the current time of one monotone clock.
\<close>

inductive clocked :: "'w episode_ops \<Rightarrow> 'w \<Rightarrow> u64 \<Rightarrow> PhaseManager \<times> 'w \<Rightarrow> bool"
  for ops :: "'w episode_ops" and w0 :: 'w
where
  clock_init: "clocked ops w0 0 (PhaseManager0, w0)"
| clock_anomaly: "clocked ops w0 t s \<Longrightarrow> t \<le> t' \<Longrightarrow> clocked ops w0 t' (TickAnomaly ops cfg reply t' s)"
| clock_deep: "clocked ops w0 t s \<Longrightarrow> t \<le> t' \<Longrightarrow> clocked ops w0 t' (TickDeep ops cfg t' s)"
| clock_request_deep: "clocked ops w0 t s \<Longrightarrow> t \<le> t' \<Longrightarrow> clocked ops w0 t' (RequestDeep ops cfg t' s)"
| clock_request_base: "clocked ops w0 t s \<Longrightarrow> t \<le> t' \<Longrightarrow> clocked ops w0 t' (RequestBase ops cfg t' s)"

definition times_ok :: "u64 \<Rightarrow> PhaseManager \<Rightarrow> bool" where
  "times_ok t p \<longleftrightarrow> pm_phase p = DEEP \<longrightarrow>
     pm_anomaly_start_ts p \<le> t \<and>
     (pm_anomaly_end_ts p \<noteq> 0 \<longrightarrow> pm_anomaly_start_ts p \<le> pm_anomaly_end_ts p \<and> pm_anomaly_end_ts p \<le> t) \<and>
     (pm_debounce p \<noteq> 0 \<longrightarrow> pm_anomaly_start_ts p \<le> pm_first_false_ts p \<and> pm_first_false_ts p \<le> t)"

lemma times_later: "times_ok t p \<Longrightarrow> t \<le> t' \<Longrightarrow> times_ok t' p"
  by (auto simp: times_ok_def)

lemma times_enter: "times_ok t (fst (EnterDeep ops cfg t s))"
  by (cases s) (simp add: EnterDeep_def Let_def times_ok_def split: prod.splits)

lemma times_verdict: "times_ok t p \<Longrightarrow> times_ok t (deep_verdict cfg r t p)"
  by (auto simp: times_ok_def deep_verdict_def Let_def)

lemma times_base: "pm_phase p = BASE \<Longrightarrow> times_ok t p"
  by (simp add: times_ok_def)

lemma phase_exit [simp]: "pm_phase (fst (ExitDeep ops s)) = BASE"
  by (simp add: ExitDeep_def split: prod.splits)

lemma clocked_times: "clocked ops w0 t s \<Longrightarrow> times_ok t (fst s)"
proof (induction rule: clocked.induct)
  case clock_init
  show ?case by (simp add: times_ok_def PhaseManager0_def)
next
  case (clock_anomaly t s t' cfg reply)
  from times_later [OF clock_anomaly.IH clock_anomaly.hyps(2)] show ?case
    by (cases s) (auto simp: TickAnomaly_def Let_def times_enter times_verdict)
next
  case (clock_deep t s t' cfg)
  from times_later [OF clock_deep.IH clock_deep.hyps(2)] show ?case
    by (cases s) (auto simp: TickDeep_def times_base)
next
  case (clock_request_deep t s t' cfg)
  from times_later [OF clock_request_deep.IH clock_request_deep.hyps(2)] show ?case
    by (cases s) (auto simp: RequestDeep_def times_enter)
next
  case (clock_request_base t s t' cfg)
  from times_later [OF clock_request_base.IH clock_request_base.hyps(2)] show ?case
    by (cases s) (auto simp: RequestBase_def times_base)
qed

section \<open>Properties of the state machine\<close>

definition episode0 :: "u64 \<Rightarrow> PhaseManager \<times> trace_world" where
  "episode0 t = EnterDeep trace_ops DefaultConfig t (PhaseManager0, trace_world0)"

lemma episode0_deep: "pm_phase (fst (episode0 t)) = DEEP"
  by (simp add: episode0_def EnterDeep_def trace_ops_def trace_world0_def Let_def)

lemma DefaultConfig_ok: "config_ok DefaultConfig"
  by (simp add: DefaultConfig_def Config0_def config_ok_def sample_ok_def window_ok_def targets_ok_def
      weights_ok_def devices_ok_def gpu_source_known_def SampleTunables0_def WindowTunables0_def
      TargetsTunables0_def TargetWeights0_def DeviceTunables0_def ModelTunables0_def OutputTunables0_def)

lemma DefaultConfig_window [simp]: "c_window DefaultConfig = WindowTunables0"
  by (simp add: DefaultConfig_def Config0_def)

text \<open>
  Claim C1: the calls of any execution form a sequence of well-bracketed episodes, numbered
  1, 2, 3 and so on: an entry that fails opens nothing, an opened episode is finalised exactly
  once, with its own number, then the causal model is asked once, a diagnosis is written at most
  once, meta data and summary are written once with the same content, and only then it is left;
  the phase is DEEP exactly between the two.
\<close>

theorem episode_calls_bracketed:
  assumes "reachable trace_ops w0 s" and "tr_calls w0 = []"
  shows "stages (0, Closed) (tr_calls (snd s)) = Some (pm_deep_ordinal (fst s), stage_of (pm_phase (fst s)))"
  using assms
proof (induction rule: reachable.induct)
  case reach_init
  then show ?case by (simp add: PhaseManager0_def stage_of_def)
next
  case (reach_step s s')
  then show ?case using trace_act phase_step_act by blast
qed

theorem episode_calls_bracketed_witness:
  "stages (0, Closed) (tr_calls (snd (RequestDeep trace_ops DefaultConfig 5 (PhaseManager0, trace_world0))))
   = Some (1, Opened)"
proof -
  have "reachable trace_ops trace_world0 (RequestDeep trace_ops DefaultConfig 5 (PhaseManager0, trace_world0))"
    by (rule reach_step [OF reach_init step_request_deep])
  from episode_calls_bracketed [OF this] show ?thesis
    by (simp add: RequestDeep_def EnterDeep_def PhaseManager0_def trace_ops_def note_call_def Let_def
        stage_of_def trace_world0_def)
qed

text \<open>
  Claim C14: the verdicts that arrive while an episode runs never re-time its window: the start
  and the deadline stay, the end of the anomaly is the time of the first of the first
  \<open>end_debounce_samples\<close> consecutive negative verdicts (0 if there is no such run), and the
  indicators are the positive verdicts in order.
\<close>

theorem debounced_anomaly_end:
  assumes "EnterDeep ops cfg t0 s0 = (p, w)" and "pm_phase p = DEEP"
    and "0 < wn_end_debounce_samples (c_window cfg)"
    and "length xs < 2 ^ 32" and "\<forall>x \<in> set xs. snd x \<noteq> 0"
  shows "let q = fst (feed ops cfg xs (p, w))
     in pm_phase q = DEEP \<and> pm_anomaly_start_ts q = t0 \<and>
        pm_post_deadline_ns q = t0 + seconds_ns (wn_post_anomaly_seconds (c_window cfg)) \<and>
        pm_indicators q = indicators_of xs \<and>
        pm_anomaly_end_ts q =
          (case first_calm (unat (wn_end_debounce_samples (c_window cfg))) (verdicts xs) of
             None \<Rightarrow> 0 | Some i \<Rightarrow> snd (xs ! i))"
  using EnterDeep_ok [OF assms(1,2)] feed_debounce [of p cfg xs ops w] assms(2-5)
  by (simp add: Let_def debounce_inv_def)

theorem debounced_anomaly_end_witness:
  "let no = AnomalyResult0; yes = AnomalyResult0\<lparr>ar_is_anomaly := True\<rparr>;
       xs = [(no, 11), (yes, 12), (no, 13), (no, 14), (no, 15), (no, 16)]
   in pm_anomaly_end_ts (fst (feed trace_ops DefaultConfig xs (episode0 5))) = 13"
proof -
  let ?no = "AnomalyResult0" and ?yes = "AnomalyResult0\<lparr>ar_is_anomaly := True\<rparr>"
  let ?xs = "[(?no, 11), (?yes, 12), (?no, 13), (?no, 14), (?no, 15), (?no, 16)]"
  obtain p w where e: "episode0 5 = (p, w)" by fastforce
  then have "pm_phase p = DEEP" using episode0_deep [of 5] by simp
  moreover have "first_calm 3 (verdicts ?xs) = Some 2"
    by (simp add: first_calm_def calm_at_def AnomalyResult0_def upt_rec)
  ultimately show ?thesis
    using debounced_anomaly_end [OF e [unfolded episode0_def], of ?xs]
    by (simp add: e Let_def WindowTunables0_def)
qed

text \<open>
  Claim C30: an episode is closed by the first deep tick at or after its deadline and by no
  earlier one: whatever verdicts came in between, the tick at time \<open>now\<close> returns to BASE exactly
  when \<open>now\<close> is at least the start plus the configured post-anomaly seconds, computed without
  wrap-around.
\<close>

theorem deadline_ends_episode:
  assumes "EnterDeep ops cfg t0 s0 = (p, w)" and "pm_phase p = DEEP" and "config_ok cfg"
    and "unat t0 < 2 ^ 63" and "length xs < 2 ^ 32" and "\<forall>x \<in> set xs. snd x \<noteq> 0"
  shows "pm_phase (fst (TickDeep ops cfg now_ns (feed ops cfg xs (p, w)))) = BASE \<longleftrightarrow>
     unat t0 + 1000000000 * unat (wn_post_anomaly_seconds (c_window cfg)) \<le> unat now_ns"
proof -
  obtain q w' where q: "feed ops cfg xs (p, w) = (q, w')" by fastforce
  have "1 \<le> wn_end_debounce_samples (c_window cfg)" using assms(3) by (simp add: config_ok_def window_ok_def)
  then have N: "0 < wn_end_debounce_samples (c_window cfg)" by (simp add: word_le_nat_alt word_less_nat_alt)
  from feed_debounce [of p cfg xs ops w] q N EnterDeep_ok [OF assms(1,2)] assms(2,5,6)
  have "pm_phase q = DEEP" and "pm_post_deadline_ns q = t0 + seconds_ns (wn_post_anomaly_seconds (c_window cfg))"
    by (simp_all add: debounce_inv_def)
  then show ?thesis
    by (simp add: q TickDeep_def word_le_nat_alt deadline_no_wrap [OF assms(3,4)])
qed

theorem deadline_ends_episode_witness:
  "pm_phase (fst (TickDeep trace_ops DefaultConfig 10000000000000
     (feed trace_ops DefaultConfig [(AnomalyResult0, 6)] (episode0 5)))) = BASE"
proof -
  obtain p w where e: "episode0 5 = (p, w)" by fastforce
  then have "pm_phase p = DEEP" using episode0_deep [of 5] by simp
  moreover note DefaultConfig_ok
  ultimately show ?thesis
    using deadline_ends_episode [OF e [unfolded episode0_def], of "[(AnomalyResult0, 6)]" 10000000000000]
    by (simp add: e WindowTunables0_def)
qed

text \<open>
  When every handler is called with the time of one monotone clock, the interval a
  finalised episode reports is never inverted: its end lies between its start and the time it is
  finalised at, and the evidence window starts no later than the anomaly.
\<close>

theorem reported_interval_ordered:
  assumes "clocked ops w0 t s" and "pm_phase (fst s) = DEEP" and "t \<le> now_ns"
  shows "let q = fst (FinalizeDeep ops cfg now_ns s)
     in pm_anomaly_start_ts q \<le> pm_anomaly_end_ts q \<and> pm_anomaly_end_ts q \<le> now_ns \<and>
        cc_window_start_ns (causal_context cfg now_ns q e) \<le> pm_anomaly_start_ts q"
proof -
  obtain p w where s: "s = (p, w)" by fastforce
  have ok: "times_ok t p" and "pm_phase p = DEEP" using clocked_times [OF assms(1)] assms(2) s by simp_all
  then have "pm_anomaly_start_ts p \<le> t" and
      "pm_anomaly_end_ts p \<noteq> 0 \<Longrightarrow> pm_anomaly_start_ts p \<le> pm_anomaly_end_ts p \<and> pm_anomaly_end_ts p \<le> t"
    by (simp_all add: times_ok_def)
  moreover have "x > y \<Longrightarrow> x - y \<le> x" for x y :: u64 by (simp add: word_sub_le order_less_imp_le)
  ultimately show ?thesis using assms(3)
    by (auto simp: s FinalizeDeep_def causal_context_def Let_def split: prod.splits)
qed

theorem reported_interval_ordered_witness:
  "let q = fst (FinalizeDeep trace_ops DefaultConfig 9 (episode0 5))
   in pm_anomaly_start_ts q \<le> pm_anomaly_end_ts q \<and> pm_anomaly_end_ts q \<le> 9"
proof -
  have "RequestDeep trace_ops DefaultConfig 5 (PhaseManager0, trace_world0) = episode0 5"
    by (simp add: RequestDeep_def episode0_def PhaseManager0_def)
  then have "clocked trace_ops trace_world0 5 (episode0 5)"
    using clock_request_deep [OF clock_init, of 5 trace_ops trace_world0 DefaultConfig] by simp
  from reported_interval_ordered [OF this episode0_deep, of 9] show ?thesis by (simp add: Let_def)
qed

text \<open>
  With a second, lagging clock the interval is inverted: an episode requested by hand
  at \<open>t0\<close> takes the times of its verdicts from the last host snapshot, and \<open>end_debounce_samples\<close>
  negative verdicts stamped before \<open>t0\<close> fix an end before the start, which finalising keeps.
\<close>

theorem manual_episode_ends_before_start:
  assumes "EnterDeep ops cfg t0 s0 = (p, w)" and "pm_phase p = DEEP" and "config_ok cfg"
    and "t < t0" and "t \<noteq> 0" and "\<not> ar_is_anomaly r"
  shows "let n = unat (wn_end_debounce_samples (c_window cfg));
             q = fst (FinalizeDeep ops cfg now_ns (feed ops cfg (replicate n (r, t)) (p, w)))
         in pm_anomaly_end_ts q = t \<and> pm_anomaly_end_ts q < pm_anomaly_start_ts q"
proof -
  let ?n = "unat (wn_end_debounce_samples (c_window cfg))" and ?xs = "replicate (unat (wn_end_debounce_samples (c_window cfg))) (r, t)"
  obtain q w' where q: "feed ops cfg ?xs (p, w) = (q, w')" by fastforce
  have b: "1 \<le> wn_end_debounce_samples (c_window cfg)" "wn_end_debounce_samples (c_window cfg) \<le> 1000"
    using assms(3) by (simp_all add: config_ok_def window_ok_def)
  then have N: "0 < wn_end_debounce_samples (c_window cfg)" and n: "0 < ?n" "?n \<le> 1000"
    by (simp_all add: word_le_nat_alt word_less_nat_alt)
  have "calm_at ?n (verdicts ?xs) 0" using assms(6) by (simp add: calm_at_def list_all_iff)
  then have "first_calm ?n (verdicts ?xs) = Some 0" by (simp add: first_calm_Some [OF n(1)])
  with feed_debounce [of p cfg ?xs ops w] q N EnterDeep_ok [OF assms(1,2)] assms(2,5) n
  have "pm_anomaly_end_ts q = t" and "pm_anomaly_start_ts q = t0"
    by (simp_all add: debounce_inv_def)
  with assms(4,5) show ?thesis
    by (auto simp: q FinalizeDeep_def Let_def split: prod.splits)
qed

theorem manual_episode_ends_before_start_witness:
  "let q = fst (FinalizeDeep trace_ops DefaultConfig 90
             (feed trace_ops DefaultConfig (replicate 3 (AnomalyResult0, 40)) (episode0 50)))
   in pm_anomaly_end_ts q = 40 \<and> pm_anomaly_end_ts q < pm_anomaly_start_ts q"
proof -
  obtain p w where e: "episode0 50 = (p, w)" by fastforce
  then have "pm_phase p = DEEP" using episode0_deep [of 50] by simp
  moreover note DefaultConfig_ok
  ultimately show ?thesis
    using manual_episode_ends_before_start [OF e [unfolded episode0_def], of 40 AnomalyResult0 90]
    by (simp add: e WindowTunables0_def AnomalyResult0_def)
qed

end
