(* ===== verification/MapReader.thy ===== *)
theory MapReader
  imports Metrics
begin

text \<open>
  Access to the kernel's maps, \<^verbatim>\<open>src/collect/map_reader.cpp\<close>. The kernel side is not in the
  repository: the three system calls the code uses (\<^verbatim>\<open>bpf_map_get_next_key\<close>,
  \<^verbatim>\<open>bpf_map_lookup_elem\<close>, \<^verbatim>\<open>bpf_map_delete_elem\<close>) are a record of functions on a map state
  \<open>'m\<close>, and their documented behaviour is the locale \<open>bpf_map\<close>, interpreted on the hash map
  \<open>kmap\<close> the collector's theories use. Keys and values are byte strings, as for the code.
\<close>

type_synonym bytes = "u8 list"

record 'm bpf_calls =
  bpf_next_key :: "'m \<Rightarrow> bytes option \<Rightarrow> bytes option"
  bpf_lookup :: "'m \<Rightarrow> bytes \<Rightarrow> bytes option"
  bpf_delete :: "'m \<Rightarrow> bytes \<Rightarrow> 'm"

record MapSlice =
  ms_fd :: i32
  ms_percpu :: bool
  ms_key_size :: nat
  ms_value_size :: nat
  ms_aligned :: nat
  ms_pcpu_stride :: nat
  ms_ncpus :: i32

definition RoundUp8 :: "u64 \<Rightarrow> u64" where
  "RoundUp8 v = and (v + 7) (not 7)"

text \<open>What libbpf reports of a map; the four per-CPU types are those the code lists.\<close>

datatype map_type = Hash | Array | LruHash | PercpuHash | PercpuArray | LruPercpuHash
  | PercpuCgroupStorage | StackTrace

record bpf_map_info =
  bm_fd :: i32
  bm_key_size :: nat
  bm_value_size :: nat
  bm_type :: map_type

text \<open>What attaching a program by name comes to: it is missing, the kernel refuses it, or it runs.\<close>

datatype attach = NoProgram | AttachFails string | Attaches

definition MapSlice_make :: "bpf_map_info option \<Rightarrow> i32 \<Rightarrow> MapSlice" where
  "MapSlice_make m possible_cpus =
     (case m of
        None \<Rightarrow> \<lparr>ms_fd = - 1, ms_percpu = False, ms_key_size = 0, ms_value_size = 0, ms_aligned = 0,
                 ms_pcpu_stride = 0, ms_ncpus = 1\<rparr>
      | Some i \<Rightarrow>
          (let aligned = unat (RoundUp8 (of_nat (bm_value_size i)))
           in \<lparr>ms_fd = bm_fd i,
               ms_percpu = (bm_type i \<in> {PercpuHash, PercpuArray, LruPercpuHash, PercpuCgroupStorage}),
               ms_key_size = bm_key_size i, ms_value_size = bm_value_size i,
               ms_aligned = aligned,
               ms_pcpu_stride = aligned * (if possible_cpus > 0 then nat possible_cpus else 1),
               ms_ncpus = possible_cpus\<rparr>))"

definition Lookup :: "'m bpf_calls \<Rightarrow> MapSlice \<Rightarrow> 'm \<Rightarrow> bytes \<Rightarrow> bytes option" where
  "Lookup k s m key = (if ms_fd s < 0 then None else bpf_lookup k m key)"

text \<open>
  The sum over the CPUs: \<^verbatim>\<open>dst[i] += src[i]\<close> for every byte of the value, so each byte wraps
  on its own.
\<close>

definition cpu_slice :: "MapSlice \<Rightarrow> bytes \<Rightarrow> nat \<Rightarrow> bytes" where
  "cpu_slice s buf cpu = take (ms_value_size s) (drop (cpu * ms_aligned s) buf)"

definition sum_cpus :: "MapSlice \<Rightarrow> bytes \<Rightarrow> bytes" where
  "sum_cpus s buf = fold (\<lambda>cpu dst. map2 (+) dst (cpu_slice s buf cpu)) [0..<nat (ms_ncpus s)]
     (replicate (ms_value_size s) 0)"

definition LookupPercpuSum :: "'m bpf_calls \<Rightarrow> MapSlice \<Rightarrow> 'm \<Rightarrow> bytes \<Rightarrow> bytes option" where
  "LookupPercpuSum k s m key =
     (if ms_fd s < 0 then None
      else if \<not> ms_percpu s then Lookup k s m key
      else map_option (sum_cpus s) (bpf_lookup k m key))"

text \<open>The value a callback sees: summed for a per-CPU map, as it is otherwise.\<close>

definition seen_value :: "MapSlice \<Rightarrow> bytes \<Rightarrow> bytes" where
  "seen_value s buf = (if ms_percpu s then sum_cpus s buf else buf)"

text \<open>
  \<^verbatim>\<open>ForEach\<close>, as the list of the calls of its callback. The loop has no bound of its own; the
  first argument is fuel, one unit per entry visited.
\<close>

fun each_from :: "nat \<Rightarrow> 'm bpf_calls \<Rightarrow> MapSlice \<Rightarrow> 'm \<Rightarrow> bytes option \<Rightarrow> (bytes \<times> bytes) list option" where
  "each_from 0 k s m prev = None"
| "each_from (Suc n) k s m prev =
     (case bpf_next_key k m prev of
        None \<Rightarrow> Some []
      | Some nxt \<Rightarrow>
          (case bpf_lookup k m nxt of
             None \<Rightarrow> Some []
           | Some buf \<Rightarrow> map_option (\<lambda>r. (nxt, seen_value s buf) # r) (each_from n k s m (Some nxt))))"

definition ForEach :: "nat \<Rightarrow> 'm bpf_calls \<Rightarrow> MapSlice \<Rightarrow> 'm \<Rightarrow> (bytes \<times> bytes) list option" where
  "ForEach fuel k s m = (if ms_fd s < 0 then Some [] else each_from fuel k s m None)"

text \<open>
  \<^verbatim>\<open>Drain\<close> and \<^verbatim>\<open>Wipe\<close>: each step asks for the key after the one just deleted, at most 8192
  times per call. \<open>Drain\<close> returns the callback's arguments and the map left behind.
\<close>

definition kMaxDrainIterations :: nat where
  "kMaxDrainIterations = 8192"

fun drain_from :: "nat \<Rightarrow> 'm bpf_calls \<Rightarrow> MapSlice \<Rightarrow> bytes option \<Rightarrow> 'm \<Rightarrow> (bytes \<times> bytes) list \<times> 'm" where
  "drain_from 0 k s prev m = ([], m)"
| "drain_from (Suc n) k s prev m =
     (case bpf_next_key k m prev of
        None \<Rightarrow> ([], m)
      | Some cur \<Rightarrow>
          (case bpf_lookup k m cur of
             None \<Rightarrow> ([], m)
           | Some buf \<Rightarrow>
               (let (r, m') = drain_from n k s (Some cur) (bpf_delete k m cur)
                in ((cur, seen_value s buf) # r, m'))))"

definition Drain :: "'m bpf_calls \<Rightarrow> MapSlice \<Rightarrow> 'm \<Rightarrow> (bytes \<times> bytes) list \<times> 'm" where
  "Drain k s m = drain_from kMaxDrainIterations k s None m"

fun wipe_from :: "nat \<Rightarrow> 'm bpf_calls \<Rightarrow> bytes option \<Rightarrow> 'm \<Rightarrow> 'm" where
  "wipe_from 0 k prev m = m"
| "wipe_from (Suc n) k prev m =
     (case bpf_next_key k m prev of
        None \<Rightarrow> m
      | Some cur \<Rightarrow> wipe_from n k (Some cur) (bpf_delete k m cur))"

definition Wipe :: "'m bpf_calls \<Rightarrow> 'm \<Rightarrow> 'm" where
  "Wipe k m = wipe_from kMaxDrainIterations k None m"

section \<open>The documented behaviour of the kernel's maps\<close>

text \<open>
  \<open>keys m\<close> is the order of an iteration. Asking for the key after a key that is not in the map
  (in particular after one just deleted) starts again at the first key.
\<close>

fun key_after :: "bytes list \<Rightarrow> bytes option \<Rightarrow> bytes option" where
  "key_after ks None = (case ks of [] \<Rightarrow> None | k # _ \<Rightarrow> Some k)"
| "key_after ks (Some p) =
     (case dropWhile (\<lambda>k. k \<noteq> p) ks of
        [] \<Rightarrow> (case ks of [] \<Rightarrow> None | k # _ \<Rightarrow> Some k)
      | _ # rest \<Rightarrow> (case rest of [] \<Rightarrow> None | k # _ \<Rightarrow> Some k))"

locale bpf_map =
  fixes calls :: "'m bpf_calls" and keys :: "'m \<Rightarrow> bytes list"
  assumes distinct_keys: "distinct (keys m)"
    and next_key: "bpf_next_key calls m prev = key_after (keys m) prev"
    and lookup_present: "k \<in> set (keys m) \<Longrightarrow> \<exists>v. bpf_lookup calls m k = Some v"
    and delete_keys: "keys (bpf_delete calls m k) = removeAll k (keys m)"
    and delete_other: "k' \<noteq> k \<Longrightarrow> bpf_lookup calls (bpf_delete calls m k) k' = bpf_lookup calls m k'"
begin

definition entry :: "MapSlice \<Rightarrow> 'm \<Rightarrow> bytes \<Rightarrow> bytes \<times> bytes" where
  "entry s m k = (k, seen_value s (the (bpf_lookup calls m k)))"

lemma key_after_split: "distinct (xs @ k # ys) \<Longrightarrow> key_after (xs @ k # ys) (Some k) = key_after ys None"
  by (simp add: dropWhile_append)

lemma each_from_suffix:
  assumes "keys m = xs @ k # ys" and "length ys < n"
  shows "each_from n calls s m (Some k) = Some (map (entry s m) ys)"
  using assms
proof (induction ys arbitrary: n xs k)
  case Nil
  then obtain n' where n: "n = Suc n'" by (cases n) auto
  have "key_after (keys m) (Some k) = None"
    using distinct_keys [of m] key_after_split [of xs k "[]"] Nil.prems(1) by simp
  then show ?case by (simp add: n next_key)
next
  case (Cons y ys)
  then obtain n' where n: "n = Suc n'" by (cases n) auto
  have nxt: "key_after (keys m) (Some k) = Some y"
    using distinct_keys [of m] key_after_split [of xs k "y # ys"] Cons.prems(1) by simp
  obtain v where v: "bpf_lookup calls m y = Some v"
    using lookup_present [of y m] Cons.prems(1) by auto
  have "each_from n' calls s m (Some y) = Some (map (entry s m) ys)"
    using Cons.IH [of "xs @ [k]" y n'] Cons.prems n by simp
  then show ?case using n nxt v by (simp add: next_key entry_def)
qed

lemma ForEach_all:
  assumes "0 \<le> ms_fd s" and "length (keys m) < fuel"
  shows "ForEach fuel calls s m = Some (map (entry s m) (keys m))"
proof (cases "keys m")
  case Nil
  with assms show ?thesis by (cases fuel) (simp_all add: ForEach_def next_key)
next
  case (Cons k ks)
  from assms Cons obtain n where n: "fuel = Suc n" "length ks < n" by (cases fuel) auto
  obtain v where v: "bpf_lookup calls m k = Some v"
    using lookup_present [of k m] Cons by auto
  have "each_from n calls s m (Some k) = Some (map (entry s m) ks)"
    using each_from_suffix [of m "[]" k ks n s] Cons n by simp
  with assms n v Cons show ?thesis by (simp add: ForEach_def next_key entry_def)
qed

lemma next_after_deleted:
  assumes "prev = None \<or> (\<exists>k. prev = Some k \<and> k \<notin> set (keys m))"
  shows "bpf_next_key calls m prev = key_after (keys m) None"
proof (cases prev)
  case (Some k)
  with assms have gone: "dropWhile (\<lambda>x. x \<noteq> k) (keys m) = []" by (auto simp: dropWhile_eq_Nil_conv)
  show ?thesis unfolding Some next_key key_after.simps gone by simp
qed (simp add: next_key)

lemma wipe_from_drops:
  assumes "prev = None \<or> (\<exists>k. prev = Some k \<and> k \<notin> set (keys m))"
  shows "keys (wipe_from n calls prev m) = drop n (keys m)"
  using assms
proof (induction n arbitrary: prev m)
  case (Suc n)
  note nxt = next_after_deleted [OF Suc.prems]
  show ?case
  proof (cases "keys m")
    case Nil
    then show ?thesis using nxt by simp
  next
    case (Cons k ks)
    then have del: "keys (bpf_delete calls m k) = ks"
      using distinct_keys [of m] by (simp add: delete_keys)
    have "k \<notin> set ks" using distinct_keys [of m] Cons by simp
    then have "keys (wipe_from n calls (Some k) (bpf_delete calls m k)) = drop n ks"
      using Suc.IH [of "Some k" "bpf_delete calls m k"] del by simp
    then show ?thesis using nxt Cons by simp
  qed
qed simp

lemma Wipe_keys: "keys (Wipe calls m) = drop kMaxDrainIterations (keys m)"
  by (simp add: Wipe_def wipe_from_drops)

lemma drain_from_takes:
  assumes "prev = None \<or> (\<exists>k. prev = Some k \<and> k \<notin> set (keys m))"
    and "\<forall>k \<in> set (keys m). bpf_lookup calls m k = bpf_lookup calls m0 k"
  shows "fst (drain_from n calls s prev m) = map (entry s m0) (take n (keys m)) \<and>
         keys (snd (drain_from n calls s prev m)) = drop n (keys m)"
  using assms
proof (induction n arbitrary: prev m)
  case (Suc n)
  note nxt = next_after_deleted [OF Suc.prems(1)]
  show ?case
  proof (cases "keys m")
    case Nil
    then show ?thesis using nxt by simp
  next
    case (Cons k ks)
    then have del: "keys (bpf_delete calls m k) = ks"
      using distinct_keys [of m] by (simp add: delete_keys)
    obtain v where v: "bpf_lookup calls m k = Some v" using lookup_present [of k m] Cons by auto
    have kn: "k \<notin> set ks" using distinct_keys [of m] Cons by simp
    have "\<forall>k' \<in> set ks. bpf_lookup calls (bpf_delete calls m k) k' = bpf_lookup calls m0 k'"
      using Suc.prems(2) Cons kn by (metis delete_other list.set_intros(2))
    with kn del Suc.IH [of "Some k" "bpf_delete calls m k"]
    have "fst (drain_from n calls s (Some k) (bpf_delete calls m k)) = map (entry s m0) (take n ks) \<and>
          keys (snd (drain_from n calls s (Some k) (bpf_delete calls m k))) = drop n ks" by simp
    moreover have "bpf_lookup calls m0 k = Some v" using Suc.prems(2) Cons v by simp
    ultimately show ?thesis
      using nxt Cons v by (cases "drain_from n calls s (Some k) (bpf_delete calls m k)") (simp add: entry_def)
  qed
qed simp

lemma Drain_takes:
  "fst (Drain calls s m) = map (entry s m) (take kMaxDrainIterations (keys m)) \<and>
   keys (snd (Drain calls s m)) = drop kMaxDrainIterations (keys m)"
  using drain_from_takes [of None m m] by (simp add: Drain_def)

end

section \<open>The kernel map of the development\<close>

text \<open>A hash map: its entries in iteration order, with distinct keys.\<close>

typedef kmap = "{es :: (bytes \<times> bytes) list. distinct (map fst es)}"
  morphisms entries Kmap
proof
  show "[] \<in> {es :: (bytes \<times> bytes) list. distinct (map fst es)}" by simp
qed

definition kmap_empty :: kmap where
  "kmap_empty = Kmap []"

definition kmap_put :: "bytes \<Rightarrow> bytes \<Rightarrow> kmap \<Rightarrow> kmap" where
  "kmap_put k v m = Kmap (alist_put k v (entries m))"

definition kmap_del :: "kmap \<Rightarrow> bytes \<Rightarrow> kmap" where
  "kmap_del m k = Kmap (alist_del k (entries m))"

lemma distinct_entries [simp]: "distinct (map fst (entries m))"
  using entries [of m] by simp

lemma entries_simps [simp]:
  "entries kmap_empty = []"
  "entries (kmap_put k v m) = alist_put k v (entries m)"
  "entries (kmap_del m k) = alist_del k (entries m)"
  by (simp_all add: kmap_empty_def kmap_put_def kmap_del_def Kmap_inverse distinct_alist_put distinct_alist_del)

definition kmap_keys :: "kmap \<Rightarrow> bytes list" where
  "kmap_keys m = map fst (entries m)"

definition kmap_calls :: "kmap bpf_calls" where
  "kmap_calls = \<lparr>bpf_next_key = (\<lambda>m prev. key_after (kmap_keys m) prev),
     bpf_lookup = (\<lambda>m k. map_of (entries m) k), bpf_delete = kmap_del\<rparr>"

lemma map_fst_alist_del: "map fst (alist_del k xs) = removeAll k (map fst xs)"
  by (induction xs) (auto simp: alist_del_def)

interpretation km: bpf_map kmap_calls kmap_keys
proof unfold_locales
  fix m :: kmap and k k' :: bytes and prev
  show "distinct (kmap_keys m)" by (simp add: kmap_keys_def)
  show "bpf_next_key kmap_calls m prev = key_after (kmap_keys m) prev" by (simp add: kmap_calls_def)
  show "k \<in> set (kmap_keys m) \<Longrightarrow> \<exists>v. bpf_lookup kmap_calls m k = Some v"
    by (cases "map_of (entries m) k") (auto simp: kmap_calls_def kmap_keys_def map_of_eq_None_iff)
  show "kmap_keys (bpf_delete kmap_calls m k) = removeAll k (kmap_keys m)"
    by (simp add: kmap_keys_def kmap_calls_def map_fst_alist_del)
  show "k' \<noteq> k \<Longrightarrow> bpf_lookup kmap_calls (bpf_delete kmap_calls m k) k' = bpf_lookup kmap_calls m k'"
    by (simp add: kmap_calls_def)
qed

section \<open>Little-endian values\<close>

definition le_nat :: "bytes \<Rightarrow> nat" where
  "le_nat bs = foldr (\<lambda>b a. unat b + 256 * a) bs 0"

text \<open>The columns of a per-CPU value: what the CPUs hold at each byte, summed as numbers.\<close>

definition columns :: "nat \<Rightarrow> bytes list \<Rightarrow> nat list" where
  "columns n vs = fold (\<lambda>v c. map2 (\<lambda>b a. a + unat b) v c) vs (replicate n 0)"

definition cols_val :: "nat list \<Rightarrow> nat" where
  "cols_val cs = foldr (\<lambda>c a. c + 256 * a) cs 0"

lemma le_nat_simps [simp]: "le_nat [] = 0" "le_nat (b # bs) = unat b + 256 * le_nat bs"
  by (simp_all add: le_nat_def)

lemma cols_val_simps [simp]: "cols_val [] = 0" "cols_val (c # cs) = c + 256 * cols_val cs"
  by (simp_all add: cols_val_def)

lemma cols_val_zero [simp]: "cols_val (replicate n 0) = 0"
  by (induction n) simp_all

lemma cols_val_add:
  "length v = length c \<Longrightarrow> cols_val (map2 (\<lambda>b a. a + unat b) v c) = cols_val c + le_nat v"
  by (induction v c rule: list_induct2) simp_all

lemma columns_val_aux:
  "\<forall>v \<in> set vs. length v = length c \<Longrightarrow>
   cols_val (fold (\<lambda>v c. map2 (\<lambda>b a. a + unat b) v c) vs c) = cols_val c + sum_list (map le_nat vs) \<and>
   length (fold (\<lambda>v c. map2 (\<lambda>b a. a + unat b) v c) vs c) = length c"
proof (induction vs arbitrary: c)
  case (Cons v vs)
  from Cons.IH [of "map2 (\<lambda>b a. a + unat b) v c"] Cons.prems show ?case
    by (simp add: cols_val_add)
qed simp

lemma columns_val:
  assumes "\<forall>v \<in> set vs. length v = n"
  shows "cols_val (columns n vs) = sum_list (map le_nat vs)" and "length (columns n vs) = n"
  using columns_val_aux [of vs "replicate n 0"] assms by (simp_all add: columns_def)

text \<open>The bytes of the code's sum are the columns modulo 256.\<close>

lemma bytes_columns_aux:
  "\<forall>v \<in> set vs. length v = length c \<Longrightarrow>
   fold (\<lambda>v d. map2 (+) d v) vs (map of_nat c :: bytes) =
   map of_nat (fold (\<lambda>v c. map2 (\<lambda>b a. a + unat b) v c) vs c)"
proof (induction vs arbitrary: c)
  case (Cons v vs)
  have "map2 (+) (map of_nat c) v = (map of_nat (map2 (\<lambda>b a. a + unat b) v c) :: bytes)"
    using Cons.prems by (intro nth_equalityI) simp_all
  with Cons.IH [of "map2 (\<lambda>b a. a + unat b) v c"] Cons.prems show ?case by simp
qed simp

lemma le_nat_of_columns:
  "le_nat (map of_nat cs) \<le> cols_val cs \<and> (le_nat (map of_nat cs) = cols_val cs \<longleftrightarrow> (\<forall>c \<in> set cs. c < 256))"
proof (induction cs)
  case (Cons c cs)
  have "unat (of_nat c :: u8) = c mod 256" by (simp add: unat_of_nat)
  moreover have "c mod 256 \<le> c" "c mod 256 = c \<longleftrightarrow> c < 256" by (auto simp: mod_less)
  ultimately show ?case using Cons.IH by (auto simp del: of_nat_mod)
qed simp

text \<open>Kernel maps of the development with given entries.\<close>

definition kmap_of :: "(bytes \<times> bytes) list \<Rightarrow> kmap" where
  "kmap_of es = fold (\<lambda>(k, v) m. kmap_put k v m) es kmap_empty"

definition sum_ok :: "MapSlice \<Rightarrow> bytes \<Rightarrow> bool" where
  "sum_ok s buf \<longleftrightarrow> 0 < ms_ncpus s \<and> ms_value_size s \<le> ms_aligned s \<and>
     length buf = ms_aligned s * nat (ms_ncpus s)"

lemma cpu_slice_length:
  assumes "sum_ok s buf" and "cpu < nat (ms_ncpus s)"
  shows "length (cpu_slice s buf cpu) = ms_value_size s"
proof -
  have "Suc cpu * ms_aligned s \<le> nat (ms_ncpus s) * ms_aligned s" using assms(2) by (intro mult_le_mono1) simp
  then have "cpu * ms_aligned s + ms_value_size s \<le> length buf"
    using assms(1) by (simp add: sum_ok_def mult.commute)
  then show ?thesis by (simp add: cpu_slice_def)
qed

lemma sum_cpus_columns:
  assumes "sum_ok s buf"
  shows "sum_cpus s buf = map of_nat (columns (ms_value_size s) (map (cpu_slice s buf) [0..<nat (ms_ncpus s)]))"
proof -
  let ?vs = "map (cpu_slice s buf) [0..<nat (ms_ncpus s)]"
  have "\<forall>v \<in> set ?vs. length v = length (replicate (ms_value_size s) (0 :: nat))"
    using cpu_slice_length [OF assms] by simp
  from bytes_columns_aux [OF this] show ?thesis
    by (simp add: sum_cpus_def columns_def fold_map comp_def)
qed

text \<open>The slice the code makes for a per-CPU map of 8-byte counters on a given machine.\<close>

definition counter_slice :: "i32 \<Rightarrow> MapSlice" where
  "counter_slice n = MapSlice_make (Some \<lparr>bm_fd = 3, bm_key_size = 4, bm_value_size = 8, bm_type = PercpuHash\<rparr>) n"

lemma counter_slice_simps [simp]:
  "ms_fd (counter_slice n) = 3" "ms_percpu (counter_slice n)" "ms_value_size (counter_slice n) = 8"
  "ms_aligned (counter_slice n) = 8" "ms_ncpus (counter_slice n) = n"
  by (simp_all add: counter_slice_def MapSlice_make_def RoundUp8_def)

section \<open>Properties of the map access\<close>

text \<open>
  Claim C37: what a per-CPU lookup returns, for any kernel and any value: the little-endian number
  in the summed buffer is at most the sum of the numbers the CPUs hold, and equals it exactly when
  no byte position sums to 256 or more over the CPUs. So a counter is exact only while no carry
  between bytes would be needed.
\<close>

theorem percpu_sum_exact_iff_no_carry:
  assumes "ms_percpu s" and "0 \<le> ms_fd s" and "bpf_lookup k m key = Some buf" and "sum_ok s buf"
    and "LookupPercpuSum k s m key = Some v"
  shows "let vs = map (cpu_slice s buf) [0..<nat (ms_ncpus s)]
     in le_nat v \<le> sum_list (map le_nat vs) \<and>
        (le_nat v = sum_list (map le_nat vs) \<longleftrightarrow> (\<forall>c \<in> set (columns (ms_value_size s) vs). c < 256))"
proof -
  let ?vs = "map (cpu_slice s buf) [0..<nat (ms_ncpus s)]"
  have "\<forall>v \<in> set ?vs. length v = ms_value_size s" using cpu_slice_length [OF assms(4)] by simp
  from columns_val [OF this] have "cols_val (columns (ms_value_size s) ?vs) = sum_list (map le_nat ?vs)" by simp
  moreover have "v = map of_nat (columns (ms_value_size s) ?vs)"
    using assms(1-3,5) sum_cpus_columns [OF assms(4)] by (simp add: LookupPercpuSum_def)
  ultimately show ?thesis
    using le_nat_of_columns [of "columns (ms_value_size s) ?vs"] by (simp add: Let_def)
qed

theorem percpu_sum_exact_iff_no_carry_witness:
  "LookupPercpuSum kmap_calls (counter_slice 2)
     (kmap_of [([7, 0, 0, 0], [200, 0, 0, 0, 0, 0, 0, 0, 100, 0, 0, 0, 0, 0, 0, 0])]) [7, 0, 0, 0]
   = Some [44, 0, 0, 0, 0, 0, 0, 0] \<and> le_nat [44, 0, 0, 0, 0, 0, 0, 0] < 200 + 100"
proof -
  let ?buf = "[200, 0, 0, 0, 0, 0, 0, 0, 100, 0, 0, 0, 0, 0, 0, 0] :: bytes"
  let ?m = "kmap_of [([7, 0, 0, 0], ?buf)]"
  have look: "bpf_lookup kmap_calls ?m [7, 0, 0, 0] = Some ?buf"
    by (simp add: kmap_calls_def kmap_of_def)
  have ok: "sum_ok (counter_slice 2) ?buf" by (simp add: sum_ok_def)
  have zeros: "replicate 8 (0 :: u8) = [0, 0, 0, 0, 0, 0, 0, 0]" by (simp add: eval_nat_numeral)
  have val: "LookupPercpuSum kmap_calls (counter_slice 2) ?m [7, 0, 0, 0] = Some [44, 0, 0, 0, 0, 0, 0, 0]"
    by (simp add: LookupPercpuSum_def look sum_cpus_def cpu_slice_def upt_rec zeros)
  from percpu_sum_exact_iff_no_carry [OF _ _ look ok val] val show ?thesis
    by (simp add: cpu_slice_def columns_def upt_rec)
qed

text \<open>
  Claim C28: on a map that does not change, an iteration visits every entry exactly once, in the
  order of the kernel, and ends: one unit of fuel more than there are entries is enough.
\<close>

theorem ForEach_visits_all:
  assumes "0 \<le> ms_fd s" and "length (kmap_keys m) < fuel"
  shows "ForEach fuel kmap_calls s m = Some (map (\<lambda>(k, v). (k, seen_value s v)) (entries m))"
proof -
  have "map (km.entry s m) (kmap_keys m) = map (\<lambda>(k, v). (k, seen_value s v)) (entries m)"
    unfolding kmap_keys_def km.entry_def using entries [of m]
    by (auto simp: kmap_calls_def)
  with km.ForEach_all [OF assms] show ?thesis by simp
qed

theorem ForEach_visits_all_witness:
  "ForEach 3 kmap_calls ((counter_slice 2)\<lparr>ms_percpu := False\<rparr>) (kmap_of [([1], [10]), ([2], [20])])
   = Some [([1], [10]), ([2], [20])]"
proof -
  have es: "entries (kmap_of [([1], [10]), ([2], [20])]) = [([1], [10]), ([2], [20])]"
    by (simp add: kmap_of_def)
  then have "length (kmap_keys (kmap_of [([1], [10]), ([2], [20])])) < 3" by (simp add: kmap_keys_def)
  from ForEach_visits_all [OF _ this, of "(counter_slice 2)\<lparr>ms_percpu := False\<rparr>"] show ?thesis
    by (simp add: es seen_value_def)
qed

text \<open>
  One call of \<open>Wipe\<close> or \<open>Drain\<close> removes the first 8192 entries and no others: maps up to
  that size are emptied, larger ones keep the rest, and a drained entry has been handed to the
  callback.
\<close>

theorem wipe_and_drain_bounded:
  "kmap_keys (Wipe kmap_calls m) = drop 8192 (kmap_keys m) \<and>
   kmap_keys (snd (Drain kmap_calls s m)) = drop 8192 (kmap_keys m) \<and>
   map fst (fst (Drain kmap_calls s m)) = take 8192 (kmap_keys m) \<and>
   (Wipe kmap_calls m = kmap_empty \<longleftrightarrow> length (kmap_keys m) \<le> 8192)"
proof -
  have "m' = kmap_empty \<longleftrightarrow> kmap_keys m' = []" for m'
    by (metis entries_inverse entries_simps(1) kmap_keys_def list.map_disc_iff map_is_Nil_conv)
  moreover note km.Wipe_keys [of m] km.Drain_takes [of s m]
  ultimately show ?thesis
    by (simp add: kMaxDrainIterations_def km.entry_def comp_def)
qed

end
