(* ===== verification/Recorder.thy ===== *)
theory Recorder
  imports MapReader
begin

text \<open>
  The flight recorder: the record of one target at one tick and its decoding
  (\<^verbatim>\<open>src/collect/map_reader.h\<close>, \<^verbatim>\<open>map_reader.cpp\<close>), the producer's commit
  (\<^verbatim>\<open>bpf/etrace_common.h\<close>, \<^verbatim>\<open>rec_commit\<close>), the two readers of the ring
  (\<^verbatim>\<open>ExtractPre\<close> and \<^verbatim>\<open>DrainPost\<close> of \<^verbatim>\<open>src/collect/deep_collector.cpp\<close>) up to the sorted
  list of records they hand on, and the merge of per-CPU records. The last part is the seqlock
  itself, word by word, with producer and reader interleaved.
\<close>

record KernelSnapshotRec =
  kr_seq :: u64
  kr_ts_ns :: u64
  kr_tgid :: u32
  kr_tid :: u32
  kr_comm :: string
  kr_on_cpu_ns :: u64
  kr_nr_sw_vol :: u32
  kr_nr_sw_invol :: u32
  kr_io_ops :: u64
  kr_io_bytes :: u64
  kr_io_hist :: "u32 list"
  kr_pf_minor :: u32
  kr_pf_major :: u32
  kr_lock_waits :: u64
  kr_lock_lat_ns :: u64
  kr_lock_hist :: "u32 list"
  kr_syscall_count :: u64
  kr_syscall_lat_ns :: u64
  kr_syscall_hist :: "u32 list"
  kr_futex_waits :: u64
  kr_futex_lat_ns :: u64
  kr_futex_hist :: "u32 list"
  kr_runq_wait_ns :: u64
  kr_runq_wait_count :: u32
  kr_runq_hist :: "u32 list"
  kr_flags :: u32

definition KernelSnapshotRec0 :: KernelSnapshotRec where
  "KernelSnapshotRec0 = \<lparr>
     kr_seq = 0,
     kr_ts_ns = 0,
     kr_tgid = 0,
     kr_tid = 0,
     kr_comm = replicate 16 CHR 0x00,
     kr_on_cpu_ns = 0,
     kr_nr_sw_vol = 0,
     kr_nr_sw_invol = 0,
     kr_io_ops = 0,
     kr_io_bytes = 0,
     kr_io_hist = replicate 13 0,
     kr_pf_minor = 0,
     kr_pf_major = 0,
     kr_lock_waits = 0,
     kr_lock_lat_ns = 0,
     kr_lock_hist = replicate 13 0,
     kr_syscall_count = 0,
     kr_syscall_lat_ns = 0,
     kr_syscall_hist = replicate 13 0,
     kr_futex_waits = 0,
     kr_futex_lat_ns = 0,
     kr_futex_hist = replicate 13 0,
     kr_runq_wait_ns = 0,
     kr_runq_wait_count = 0,
     kr_runq_hist = replicate 13 0,
     kr_flags = 0\<rparr>"

definition DecodeSnapshot :: "KernelSnapshotRec \<Rightarrow> CanonicalSnapshot" where
  "DecodeSnapshot r = \<lparr>sn_ts_ns = kr_ts_ns r,
     sn_tgid = kr_tgid r,
     sn_tid = kr_tid r,
     sn_comm = kr_comm r,
     sn_on_cpu_ns = kr_on_cpu_ns r,
     sn_nr_sw_vol = kr_nr_sw_vol r,
     sn_nr_sw_invol = kr_nr_sw_invol r,
     sn_io_ops = kr_io_ops r,
     sn_io_bytes = kr_io_bytes r,
     sn_io_hist = kr_io_hist r,
     sn_pf_minor = kr_pf_minor r,
     sn_pf_major = kr_pf_major r,
     sn_lock_waits = kr_lock_waits r,
     sn_lock_lat_ns = kr_lock_lat_ns r,
     sn_lock_hist = kr_lock_hist r,
     sn_syscall_count = kr_syscall_count r,
     sn_syscall_lat_ns = kr_syscall_lat_ns r,
     sn_syscall_hist = kr_syscall_hist r,
     sn_futex_waits = kr_futex_waits r,
     sn_futex_lat_ns = kr_futex_lat_ns r,
     sn_futex_hist = kr_futex_hist r,
     sn_runq_wait_ns = kr_runq_wait_ns r,
     sn_runq_wait_count = kr_runq_wait_count r,
     sn_runq_hist = kr_runq_hist r,
     sn_flags = kr_flags r\<rparr>"

section \<open>The ring and its producer\<close>

text \<open>
  \<open>ETD_RING_CAP\<close> slots, a power of two; the head counts the records ever claimed. Both are
  arrays of the kernel, zero at first.
\<close>

definition ring_cap :: u64 where
  "ring_cap = 32768"

record ring =
  rg_head :: u64
  rg_slots :: "u32 \<Rightarrow> KernelSnapshotRec"

definition ring0 :: ring where
  "ring0 = \<lparr>rg_head = 0, rg_slots = (\<lambda>_. KernelSnapshotRec0)\<rparr>"

definition slot_of :: "u64 \<Rightarrow> u32" where
  "slot_of i = ucast (and i (ring_cap - 1))"

text \<open>\<^verbatim>\<open>rec_commit\<close> as one atomic step: claim an index, fill the slot, mark it committed.\<close>

definition rec_commit :: "KernelSnapshotRec \<Rightarrow> u64 \<Rightarrow> bool \<Rightarrow> ring \<Rightarrow> ring" where
  "rec_commit scr now deep r =
     (let head = rg_head r;
          done = scr\<lparr>kr_ts_ns := now, kr_flags := (if deep then 1 else 0), kr_seq := push_bit 1 head\<rparr>
      in r\<lparr>rg_head := head + 1, rg_slots := (rg_slots r)(slot_of head := done)\<rparr>)"

section \<open>The readers\<close>

text \<open>
  A reader looks a slot up twice; \<open>reads i\<close> is what the two lookups of index \<open>i\<close> return
  (nothing when the lookup fails). The record is the second copy, provided both carry the even
  sequence number of this very index.
\<close>

type_synonym slot_reads = "u64 \<Rightarrow> KernelSnapshotRec option \<times> KernelSnapshotRec option"

definition accept_slot :: "slot_reads \<Rightarrow> u64 \<Rightarrow> KernelSnapshotRec option" where
  "accept_slot reads i =
     (case reads i of
        (Some a, Some b) \<Rightarrow>
          (if and (kr_seq a) 1 \<noteq> 0 then None
           else if kr_seq a \<noteq> kr_seq b \<or> kr_seq a \<noteq> push_bit 1 i then None
           else Some b)
      | _ \<Rightarrow> None)"

text \<open>The loops over an index range; neither wraps around before \<open>2^64 - 1\<close> records.\<close>

definition index_range :: "u64 \<Rightarrow> u64 \<Rightarrow> u64 list" where
  "index_range lo hi = map of_nat [unat lo..<unat hi]"

definition pre_records :: "slot_reads \<Rightarrow> u64 \<Rightarrow> u64 \<Rightarrow> u64 \<Rightarrow> KernelSnapshotRec list" where
  "pre_records reads head cap cutoff =
     (let start = (if head > cap then head - cap else 0)
      in filter (\<lambda>b. kr_ts_ns b \<ge> cutoff) (List.map_filter (accept_slot reads) (index_range start head)))"

definition post_records :: "slot_reads \<Rightarrow> u64 \<Rightarrow> u64 \<Rightarrow> KernelSnapshotRec list" where
  "post_records reads prev_head head =
     List.map_filter (accept_slot reads) (map of_nat [unat (prev_head + 1)..<Suc (unat head)])"

section \<open>Merging per-CPU records\<close>

definition add_hist :: "u32 list \<Rightarrow> u32 list \<Rightarrow> u32 list" where
  "add_hist d s = map2 (+) d s"

definition AddSnap :: "KernelSnapshotRec \<Rightarrow> KernelSnapshotRec \<Rightarrow> KernelSnapshotRec" where
  "AddSnap dst src = dst\<lparr>
     kr_on_cpu_ns := kr_on_cpu_ns dst + kr_on_cpu_ns src,
     kr_nr_sw_vol := kr_nr_sw_vol dst + kr_nr_sw_vol src,
     kr_nr_sw_invol := kr_nr_sw_invol dst + kr_nr_sw_invol src,
     kr_io_ops := kr_io_ops dst + kr_io_ops src,
     kr_io_bytes := kr_io_bytes dst + kr_io_bytes src,
     kr_io_hist := add_hist (kr_io_hist dst) (kr_io_hist src),
     kr_pf_minor := kr_pf_minor dst + kr_pf_minor src,
     kr_pf_major := kr_pf_major dst + kr_pf_major src,
     kr_lock_waits := kr_lock_waits dst + kr_lock_waits src,
     kr_lock_lat_ns := kr_lock_lat_ns dst + kr_lock_lat_ns src,
     kr_lock_hist := add_hist (kr_lock_hist dst) (kr_lock_hist src),
     kr_syscall_count := kr_syscall_count dst + kr_syscall_count src,
     kr_syscall_lat_ns := kr_syscall_lat_ns dst + kr_syscall_lat_ns src,
     kr_syscall_hist := add_hist (kr_syscall_hist dst) (kr_syscall_hist src),
     kr_futex_waits := kr_futex_waits dst + kr_futex_waits src,
     kr_futex_lat_ns := kr_futex_lat_ns dst + kr_futex_lat_ns src,
     kr_futex_hist := add_hist (kr_futex_hist dst) (kr_futex_hist src),
     kr_runq_wait_ns := kr_runq_wait_ns dst + kr_runq_wait_ns src,
     kr_runq_wait_count := kr_runq_wait_count dst + kr_runq_wait_count src,
     kr_runq_hist := add_hist (kr_runq_hist dst) (kr_runq_hist src),
     kr_ts_ns := (if kr_ts_ns src > kr_ts_ns dst then kr_ts_ns src else kr_ts_ns dst),
     kr_flags := or (kr_flags dst) (kr_flags src)\<rparr>"

definition ns_per_tick :: "u64 \<Rightarrow> u64" where
  "ns_per_tick interval_ms =
     (if interval_ms * 1000000 = 0 then 100000000 else interval_ms * 1000000)"

definition snap_key :: "u64 \<Rightarrow> KernelSnapshotRec \<Rightarrow> u32 \<times> u64" where
  "snap_key t r = (kr_tid r, kr_ts_ns r div t)"

text \<open>
  One record into the groups; the groups are a \<^verbatim>\<open>std::map\<close> from (tid, bucket), of which only
  the association matters because the result is sorted by time.
\<close>

definition merge_one :: "u64 \<Rightarrow> KernelSnapshotRec
    \<Rightarrow> ((u32 \<times> u64) \<times> KernelSnapshotRec) list \<Rightarrow> ((u32 \<times> u64) \<times> KernelSnapshotRec) list" where
  "merge_one t r groups =
     (case map_of groups (snap_key t r) of
        None \<Rightarrow> alist_put (snap_key t r) r groups
      | Some g \<Rightarrow> alist_put (snap_key t r) (AddSnap g r) groups)"

definition MergePerCpu :: "u64 \<Rightarrow> KernelSnapshotRec list \<Rightarrow> KernelSnapshotRec list" where
  "MergePerCpu interval_ms recs =
     sort_key kr_ts_ns (map snd (fold (merge_one (ns_per_tick interval_ms)) recs []))"

text \<open>What a reader hands to the writer, in summed and in per-CPU mode.\<close>

definition order_records :: "bool \<Rightarrow> u64 \<Rightarrow> KernelSnapshotRec list \<Rightarrow> KernelSnapshotRec list" where
  "order_records percpu interval_ms recs =
     (if percpu then MergePerCpu interval_ms recs else sort_key kr_ts_ns recs)"

section \<open>The ring after any number of commits\<close>

text \<open>
  Commits of the records \<open>sc 0\<close>, \<open>sc 1\<close>, \<dots> at the times \<open>ts 0\<close>, \<open>ts 1\<close>, \<dots>.
\<close>

fun commits :: "(nat \<Rightarrow> KernelSnapshotRec) \<Rightarrow> (nat \<Rightarrow> u64) \<Rightarrow> bool \<Rightarrow> nat \<Rightarrow> ring" where
  "commits sc ts deep 0 = ring0"
| "commits sc ts deep (Suc n) = rec_commit (sc n) (ts n) deep (commits sc ts deep n)"

definition committed :: "(nat \<Rightarrow> KernelSnapshotRec) \<Rightarrow> (nat \<Rightarrow> u64) \<Rightarrow> bool \<Rightarrow> nat \<Rightarrow> KernelSnapshotRec" where
  "committed sc ts deep i =
     (sc i)\<lparr>kr_ts_ns := ts i, kr_flags := (if deep then 1 else 0), kr_seq := push_bit 1 (of_nat i)\<rparr>"

text \<open>Two lookups of a ring that does not change in between.\<close>

definition quiet_reads :: "ring \<Rightarrow> slot_reads" where
  "quiet_reads r i = (Some (rg_slots r (slot_of i)), Some (rg_slots r (slot_of i)))"

lemma slot_of_nat: "slot_of (of_nat i) = of_nat (i mod 32768)"
proof -
  have "and (of_nat i :: u64) (ring_cap - 1) = and (of_nat i) (mask 15)"
    by (simp add: ring_cap_def mask_eq_exp_minus_1)
  also have "\<dots> = take_bit 15 (of_nat i)" by (simp add: take_bit_eq_mask)
  finally have m: "and (of_nat i :: u64) (ring_cap - 1) = take_bit 15 (of_nat i)" .
  have "unat (take_bit 15 (of_nat i :: u64)) = take_bit 15 (i mod 2 ^ 64)"
    by (simp add: unsigned_take_bit_eq unat_of_nat del: take_bit_of_nat)
  also have "\<dots> = i mod 32768" by (simp add: take_bit_eq_mod mod_mod_cancel)
  finally have "unat (take_bit 15 (of_nat i :: u64)) = i mod 32768" .
  note u = this
  have "i mod 32768 < (2 :: nat) ^ 32" by (rule less_trans [of _ 32768]) simp_all
  then have "unat (of_nat (i mod 32768) :: u32) = i mod 32768" by (simp add: unat_of_nat)
  moreover have "unat (ucast (take_bit 15 (of_nat i :: u64)) :: u32) = i mod 32768"
    unfolding unsigned_ucast_eq u using \<open>i mod 32768 < (2 :: nat) ^ 32\<close> by (simp add: take_bit_eq_mod)
  ultimately show ?thesis unfolding slot_of_def m by (simp only: word_unat_eq_iff)
qed

lemma commits_head [simp]: "rg_head (commits sc ts deep n) = of_nat n"
  by (induction n) (simp_all add: ring0_def rec_commit_def Let_def)

lemma commits_slot:
  assumes "s < 32768"
  shows "rg_slots (commits sc ts deep n) (of_nat s) =
    (if n \<le> s then KernelSnapshotRec0 else committed sc ts deep (s + 32768 * ((n - 1 - s) div 32768)))"
proof (induction n)
  case 0
  then show ?case by (simp add: ring0_def)
next
  case (Suc n)
  have eq: "(of_nat s :: u32) = of_nat (n mod 32768) \<longleftrightarrow> s = n mod 32768"
    using assms by (simp add: word_unat_eq_iff unat_of_nat mod_mod_cancel)
  have slots: "rg_slots (commits sc ts deep (Suc n)) (of_nat s) =
      (if s = n mod 32768 then committed sc ts deep n else rg_slots (commits sc ts deep n) (of_nat s))"
    by (simp add: rec_commit_def Let_def slot_of_nat eq committed_def)
  show ?case
  proof (cases "s = n mod 32768")
    case True
    then have "s \<le> n" "s + 32768 * ((n - s) div 32768) = n"
      by (simp_all add: minus_mod_eq_mult_div [symmetric])
    with True slots show ?thesis by simp
  next
    case False
    have "(n - s) div 32768 = (n - 1 - s) div 32768" if "s < n"
    proof -
      have "n - s = Suc (n - 1 - s)" using that by simp
      moreover have "(n - s) mod 32768 \<noteq> 0"
      proof
        assume "(n - s) mod 32768 = 0"
        then obtain q where "n - s = 32768 * q" by (auto simp: mod_eq_0_iff_dvd dvd_def)
        then have "n = s + 32768 * q" using that by simp
        then have "n mod 32768 = s" using assms by simp
        with False show False by simp
      qed
      ultimately show ?thesis by (metis div_Suc)
    qed
    moreover have "n \<noteq> s" using False assms by auto
    ultimately show ?thesis using Suc.IH False slots by auto
  qed
qed

lemma committed_seq [simp]: "kr_seq (committed sc ts deep i) = push_bit 1 (of_nat i)"
  by (simp add: committed_def)

lemma even_seq [simp]: "and (w * 2 :: u64) 1 = 0"
  by (simp add: and_one_eq mod_2_eq_odd)

lemma seq_inj: "i < 2 ^ 62 \<Longrightarrow> j < 2 ^ 62 \<Longrightarrow> (push_bit 1 (of_nat i) :: u64) = push_bit 1 (of_nat j) \<longleftrightarrow> i = j"
proof -
  assume "i < 2 ^ 62" "j < 2 ^ 62"
  then have "unat (of_nat (2 * i) :: u64) = 2 * i" "unat (of_nat (2 * j) :: u64) = 2 * j"
    by (simp_all add: unat_of_nat del: of_nat_mult)
  moreover have "(push_bit 1 (of_nat k) :: u64) = of_nat (2 * k)" for k
    by (simp add: push_bit_eq_mult)
  ultimately show ?thesis by (metis mult_left_cancel zero_neq_numeral)
qed

text \<open>Which indices a reader accepts in a ring that does not change.\<close>

lemma accept_quiet:
  assumes "n < 2 ^ 62" and "i \<le> n" and "0 < n"
  shows "accept_slot (quiet_reads (commits sc ts deep n)) (of_nat i) =
    (if i < n \<and> n \<le> i + 32768 then Some (committed sc ts deep i) else None)"
proof -
  let ?s = "i mod 32768" and ?r = "commits sc ts deep n"
  have s: "?s < 32768" by simp
  note content = commits_slot [OF s, of sc ts deep n]
  show ?thesis
  proof (cases "n \<le> ?s")
    case True
    then have "i = n" using assms(2) by (metis le_antisym mod_less_eq_dividend order_trans)
    then have "(push_bit 1 (of_nat i) :: u64) \<noteq> 0"
      using seq_inj [of i 0] assms by simp
    moreover have "kr_seq (rg_slots ?r (of_nat ?s)) = 0"
      using content True by (simp add: KernelSnapshotRec0_def)
    ultimately have "accept_slot (quiet_reads ?r) (of_nat i) = None"
      by (simp add: accept_slot_def quiet_reads_def slot_of_nat)
    then show ?thesis using \<open>i = n\<close> by simp
  next
    case False
    define q where "q = (n - 1 - ?s) div 32768"
    define j where "j = ?s + 32768 * q"
    have q: "32768 * q \<le> n - 1 - ?s" "n - 1 - ?s < 32768 * q + 32768"
      unfolding q_def by (simp_all add: mult.commute dividend_less_div_times)
    then have j: "j < n" "n \<le> j + 32768" using False by (simp_all add: j_def)
    have ij: "i = j \<longleftrightarrow> i < n \<and> n \<le> i + 32768"
    proof
      assume "i < n \<and> n \<le> i + 32768"
      moreover obtain p where "i = ?s + 32768 * p" by (metis mult_div_mod_eq add.commute)
      ultimately have "p = q" using j by (simp add: j_def)
      then show "i = j" using \<open>i = ?s + 32768 * p\<close> by (simp add: j_def)
    qed (use j in simp)
    have slot: "rg_slots ?r (of_nat ?s) = committed sc ts deep j"
      using content False by (simp add: j_def q_def)
    have "accept_slot (quiet_reads ?r) (of_nat i) =
        (if (push_bit 1 (of_nat j) :: u64) = push_bit 1 (of_nat i) then Some (committed sc ts deep j) else None)"
      by (simp add: accept_slot_def quiet_reads_def slot_of_nat slot)
    also have "\<dots> = (if i = j then Some (committed sc ts deep i) else None)"
      using seq_inj [of j i] j assms(1,2) by auto
    finally show ?thesis using ij by simp
  qed
qed

lemma map_filter_accept:
  assumes "n < 2 ^ 62" and "0 < n" and "\<forall>i \<in> set is. i \<le> n"
  shows "List.map_filter (accept_slot (quiet_reads (commits sc ts deep n))) (map of_nat is)
       = map (committed sc ts deep) (filter (\<lambda>i. i < n \<and> n \<le> i + 32768) is)"
  using assms(3)
proof (induction "is")
  case (Cons i "is")
  then show ?case using accept_quiet [OF assms(1) _ assms(2), of i sc ts deep]
    by (simp add: List.map_filter_simps)
qed (simp add: List.map_filter_simps)

lemma filter_ge_upt: "filter (\<lambda>i. i < n \<and> n \<le> i + c) [a..<b] = [max a (n - c)..<min b n]"
proof (induction b)
  case (Suc b)
  show ?case using Suc.IH by (cases "b < n \<and> n \<le> b + c \<and> a \<le> b") (auto simp: min_def max_def)
qed simp

section \<open>Merging: facts\<close>

definition groups_inv :: "u64 \<Rightarrow> ((u32 \<times> u64) \<times> KernelSnapshotRec) list \<Rightarrow> bool" where
  "groups_inv t gs \<longleftrightarrow> distinct (map fst gs) \<and> (\<forall>(k, g) \<in> set gs. snap_key t g = k)"

text \<open>The sum of one counter over the records of one key.\<close>

definition key_sum :: "('r \<Rightarrow> u64) \<Rightarrow> ('r \<Rightarrow> 'k) \<Rightarrow> 'k \<Rightarrow> 'r list \<Rightarrow> u64" where
  "key_sum f key k rs = sum_list (map f (filter (\<lambda>r. key r = k) rs))"

lemma snap_key_AddSnap:
  "snap_key t s = snap_key t d \<Longrightarrow> snap_key t (AddSnap d s) = snap_key t d"
  by (auto simp: snap_key_def AddSnap_def)

lemma set_alist_put:
  "distinct (map fst xs) \<Longrightarrow> set (alist_put k v xs) = insert (k, v) {p \<in> set xs. fst p \<noteq> k}"
proof (induction k v xs rule: alist_put.induct)
  case (2 k v k' v' xs)
  then show ?case by (auto simp: image_iff)
qed simp

lemma groups_inv_step:
  assumes "groups_inv t gs"
  shows "groups_inv t (merge_one t r gs)"
proof (cases "map_of gs (snap_key t r)")
  case None
  with assms show ?thesis
    by (auto simp: groups_inv_def merge_one_def distinct_alist_put set_alist_put)
next
  case (Some g)
  then have "snap_key t g = snap_key t r"
    using assms by (auto simp: groups_inv_def dest: map_of_SomeD)
  with Some assms show ?thesis
    by (auto simp: groups_inv_def merge_one_def distinct_alist_put set_alist_put snap_key_AddSnap)
qed

lemma groups_inv_fold: "groups_inv t (fold (merge_one t) rs gs)" if "groups_inv t gs"
  using that by (induction rs arbitrary: gs) (simp_all add: groups_inv_step)

text \<open>A counter that \<open>AddSnap\<close> adds is, per key, the sum over the records of that key.\<close>

lemma merge_counter:
  assumes add: "\<And>d s. f (AddSnap d s) = f d + f s"
  shows "(case map_of (fold (merge_one t) rs gs) k of None \<Rightarrow> 0 | Some g \<Rightarrow> f g) =
         (case map_of gs k of None \<Rightarrow> 0 | Some g \<Rightarrow> f g) + key_sum f (snap_key t) k rs"
proof (induction rs arbitrary: gs)
  case (Cons r rs)
  have "(case map_of (merge_one t r gs) k of None \<Rightarrow> 0 | Some g \<Rightarrow> f g) =
        (case map_of gs k of None \<Rightarrow> 0 | Some g \<Rightarrow> f g) + (if snap_key t r = k then f r else 0)"
    by (auto simp: merge_one_def add split: option.splits)
  with Cons.IH [of "merge_one t r gs"] show ?case by (simp add: key_sum_def add.assoc)
qed (simp add: key_sum_def)

lemma merge_keys: "fst ` set (fold (merge_one t) rs gs) = fst ` set gs \<union> snap_key t ` set rs"
proof (induction rs arbitrary: gs)
  case (Cons r rs)
  have "fst ` set (merge_one t r gs) = insert (snap_key t r) (fst ` set gs)"
    by (auto simp: merge_one_def split: option.splits)
  with Cons.IH [of "merge_one t r gs"] show ?case by simp
qed simp

section \<open>Properties of the ring and of the merge\<close>

text \<open>
  Decoding a record and writing it as JSON loses nothing: two records with complete
  histograms give the same JSON only if they agree in every field but the sequence number and
  the bytes of the name behind its NUL.
\<close>

theorem decode_keeps_everything:
  assumes "snapshot_ok (DecodeSnapshot a)" and "snapshot_ok (DecodeSnapshot b)"
    and "canonical_to_json (DecodeSnapshot a) = canonical_to_json (DecodeSnapshot b)"
  shows "a\<lparr>kr_seq := 0, kr_comm := cstr (kr_comm a)\<rparr> = b\<lparr>kr_seq := 0, kr_comm := cstr (kr_comm b)\<rparr>"
  using assms
  by (cases a; cases b) (auto simp: DecodeSnapshot_def canonical_to_json_def snapshot_ok_def hist13_inj)

theorem decode_keeps_everything_witness:
  "canonical_to_json (DecodeSnapshot (KernelSnapshotRec0\<lparr>kr_io_ops := 5\<rparr>)) \<noteq>
   canonical_to_json (DecodeSnapshot KernelSnapshotRec0)"
proof
  assume eq: "canonical_to_json (DecodeSnapshot (KernelSnapshotRec0\<lparr>kr_io_ops := 5\<rparr>)) =
    canonical_to_json (DecodeSnapshot KernelSnapshotRec0)"
  have "snapshot_ok (DecodeSnapshot (KernelSnapshotRec0\<lparr>kr_io_ops := 5\<rparr>))" "snapshot_ok (DecodeSnapshot KernelSnapshotRec0)"
    by (simp_all add: snapshot_ok_def DecodeSnapshot_def KernelSnapshotRec0_def)
  from decode_keeps_everything [OF this eq] show False by (simp add: KernelSnapshotRec0_def)
qed



text \<open>
  A drain of the post window misses the first record of its interval: between two drains
  at heads \<open>p\<close> and \<open>n\<close> the records \<open>p, ..., n - 1\<close> were committed, and the reader takes
  \<open>p + 1, ..., n - 1\<close> (as far as the ring still holds them). When records arrive one at a time
  between the drains, none is ever taken.
\<close>

theorem drain_misses_first_record:
  assumes "p \<le> n" and "n < 2 ^ 62"
  shows "let r = commits sc ts deep n
     in post_records (quiet_reads r) (of_nat p) (rg_head r) =
          map (committed sc ts deep) [max (p + 1) (n - 32768)..<n] \<and>
        (n = p + 1 \<longrightarrow> post_records (quiet_reads r) (of_nat p) (rg_head r) = [])"
proof -
  have n: "unat (of_nat n :: u64) = n" using assms by (simp add: unat_of_nat)
  have "(of_nat p + 1 :: u64) = of_nat (p + 1)" by simp
  moreover have "unat (of_nat (p + 1) :: u64) = p + 1" using assms by (subst unat_of_nat) simp
  ultimately have p: "unat (of_nat p + 1 :: u64) = p + 1" by (simp only:)
  have "post_records (quiet_reads (commits sc ts deep n)) (of_nat p) (of_nat n) =
      map (committed sc ts deep) [max (p + 1) (n - 32768)..<n]"
  proof (cases "n = 0")
    case False
    then have "List.map_filter (accept_slot (quiet_reads (commits sc ts deep n))) (map of_nat [p + 1..<Suc n]) =
        map (committed sc ts deep) [max (p + 1) (n - 32768)..<n]"
      using map_filter_accept [of n "[p + 1..<Suc n]" sc ts deep] assms(2)
      by (simp add: filter_ge_upt del: upt_Suc)
    then show ?thesis by (simp add: post_records_def p n del: upt_Suc)
  next
    case True
    with assms show ?thesis by (simp add: post_records_def List.map_filter_simps)
  qed
  note post = this
  have "n = p + 1 \<Longrightarrow> post_records (quiet_reads (commits sc ts deep n)) (of_nat p) (of_nat n) = []"
    unfolding post by simp
  with post show ?thesis unfolding Let_def commits_head by blast
qed

theorem drain_misses_first_record_witness:
  "let r = commits (\<lambda>_. KernelSnapshotRec0) (\<lambda>i. of_nat (10 * i)) True 4
   in map kr_ts_ns (post_records (quiet_reads r) 1 (rg_head r)) = [20, 30]"
proof -
  have "(1 :: nat) \<le> 4" "(4 :: nat) < 2 ^ 62" by simp_all
  from drain_misses_first_record [OF this, of "\<lambda>_. KernelSnapshotRec0" "\<lambda>i. of_nat (10 * i)" True]
  show ?thesis by (simp add: Let_def committed_def upt_rec)
qed

text \<open>
  Merging per-CPU records yields one record per thread and tick interval that occurs, and
  its counters are the sums (modulo \<open>2^64\<close>) over the records of that thread and interval: on-CPU
  time, I/O operations and bytes, lock, system-call, futex and run-queue time; the result is
  ordered by time.
\<close>

theorem merge_sums_per_thread_and_tick:
  "let t = ns_per_tick interval_ms; out = MergePerCpu interval_ms recs
   in distinct (map (snap_key t) out) \<and> snap_key t ` set out = snap_key t ` set recs \<and>
      sorted (map kr_ts_ns out) \<and>
      list_all (\<lambda>g. list_all (\<lambda>f. f g = key_sum f (snap_key t) (snap_key t g) recs)
         [kr_on_cpu_ns, kr_io_ops, kr_io_bytes, kr_lock_waits, kr_lock_lat_ns, kr_syscall_count,
          kr_syscall_lat_ns, kr_futex_waits, kr_futex_lat_ns, kr_runq_wait_ns]) out"
proof -
  let ?t = "ns_per_tick interval_ms" and ?out = "MergePerCpu interval_ms recs"
  let ?gs = "fold (merge_one (ns_per_tick interval_ms)) recs []"
  have inv: "groups_inv ?t ?gs" by (rule groups_inv_fold) (simp add: groups_inv_def)
  then have keys: "map (snap_key ?t) (map snd ?gs) = map fst ?gs" by (auto simp: groups_inv_def)
  have d: "distinct (map (snap_key ?t) ?out)"
  proof -
    have "mset (map (snap_key ?t) ?out) = image_mset (snap_key ?t) (mset (map snd ?gs))"
      by (simp add: MergePerCpu_def)
    also have "\<dots> = mset (map fst ?gs)" by (simp only: keys [symmetric] mset_map)
    finally have "mset (map (snap_key ?t) ?out) = mset (map fst ?gs)" .
    with inv show ?thesis by (metis groups_inv_def mset_eq_imp_distinct_iff)
  qed
  have img: "snap_key ?t ` set ?out = snap_key ?t ` set recs"
  proof -
    have "snap_key ?t ` set ?out = set (map (snap_key ?t) (map snd ?gs))"
      by (simp only: MergePerCpu_def set_sort set_map)
    also have "\<dots> = fst ` set ?gs" unfolding keys by simp
    finally show ?thesis by (simp add: merge_keys)
  qed
  have sum: "f g = key_sum f (snap_key ?t) (snap_key ?t g) recs"
    if g: "g \<in> set ?out" and add: "\<And>d s. f (AddSnap d s) = f d + f s" for f g
  proof -
    obtain k where k: "(k, g) \<in> set ?gs" using g by (auto simp: MergePerCpu_def)
    with inv have "map_of ?gs k = Some g" and "snap_key ?t g = k" by (auto simp: groups_inv_def)
    with merge_counter [of f, OF add, of ?t recs "[]" k] show ?thesis by simp
  qed
  have "\<forall>g \<in> set ?out. list_all (\<lambda>f. f g = key_sum f (snap_key ?t) (snap_key ?t g) recs)
         [kr_on_cpu_ns, kr_io_ops, kr_io_bytes, kr_lock_waits, kr_lock_lat_ns, kr_syscall_count,
          kr_syscall_lat_ns, kr_futex_waits, kr_futex_lat_ns, kr_runq_wait_ns]"
    by (intro ballI) (simp add: sum AddSnap_def)
  with d img show ?thesis by (simp add: Let_def MergePerCpu_def list_all_iff)
qed

end
