(* ===== verification/BpfValues.thy ===== *)
theory BpfValues
  imports Recorder
begin

text \<open>
  The values the collector shares with its kernel programs, \<^verbatim>\<open>src/collect/bpf_values.h\<close>: one
  record per struct, and for each the reading of the struct from the bytes of a map entry, at the
  offsets the C layout gives its members (little-endian, naturally aligned).
\<close>

definition rd_u64 :: "bytes \<Rightarrow> nat \<Rightarrow> u64" where
  "rd_u64 b off = of_nat (le_nat (take 8 (drop off b)))"

definition rd_u32 :: "bytes \<Rightarrow> nat \<Rightarrow> u32" where
  "rd_u32 b off = of_nat (le_nat (take 4 (drop off b)))"

definition rd_u32s :: "bytes \<Rightarrow> nat \<Rightarrow> nat \<Rightarrow> u32 list" where
  "rd_u32s b off n = map (\<lambda>i. rd_u32 b (off + 4 * i)) [0..<n]"

definition rd_chars :: "bytes \<Rightarrow> nat \<Rightarrow> nat \<Rightarrow> string" where
  "rd_chars b off n = map (\<lambda>w. char_of (unat w)) (take n (drop off b))"

record SwitchVal =
  sv_vol :: u32
  sv_invol :: u32

definition SwitchVal_of :: "bytes \<Rightarrow> SwitchVal" where
  "SwitchVal_of b = \<lparr>sv_vol = rd_u32 b 0,
     sv_invol = rd_u32 b 4\<rparr>"

record BlockIoVal =
  bi_ops :: u64
  bi_bytes :: u64
  bi_lat_sum :: u64
  bi_hist :: "u32 list"

definition BlockIoVal_of :: "bytes \<Rightarrow> BlockIoVal" where
  "BlockIoVal_of b = \<lparr>bi_ops = rd_u64 b 0,
     bi_bytes = rd_u64 b 8,
     bi_lat_sum = rd_u64 b 16,
     bi_hist = rd_u32s b 24 13\<rparr>"

record FaultsVal =
  fv_minor :: u32
  fv_major :: u32

definition FaultsVal_of :: "bytes \<Rightarrow> FaultsVal" where
  "FaultsVal_of b = \<lparr>fv_minor = rd_u32 b 0,
     fv_major = rd_u32 b 4\<rparr>"

record LatStatVal13 =
  lv_count :: u64
  lv_lat_sum :: u64
  lv_hist :: "u32 list"

definition LatStatVal13_of :: "bytes \<Rightarrow> LatStatVal13" where
  "LatStatVal13_of b = \<lparr>lv_count = rd_u64 b 0,
     lv_lat_sum = rd_u64 b 8,
     lv_hist = rd_u32s b 16 13\<rparr>"

record MemEventsVal =
  me_kswapd_active :: u32
  me_direct_reclaim :: u32
  me_nr_reclaimed :: u64

definition MemEventsVal_of :: "bytes \<Rightarrow> MemEventsVal" where
  "MemEventsVal_of b = \<lparr>me_kswapd_active = rd_u32 b 0,
     me_direct_reclaim = rd_u32 b 4,
     me_nr_reclaimed = rd_u64 b 8\<rparr>"

record OomEventVal =
  oe_ts :: u64
  oe_pid :: u32

definition OomEventVal_of :: "bytes \<Rightarrow> OomEventVal" where
  "OomEventVal_of b = \<lparr>oe_ts = rd_u64 b 0,
     oe_pid = rd_u32 b 8\<rparr>"

record SysLatVal =
  sl_count :: u64
  sl_lat_sum :: u64
  sl_error_count :: u64
  sl_hist :: "u32 list"

definition SysLatVal_of :: "bytes \<Rightarrow> SysLatVal" where
  "SysLatVal_of b = \<lparr>sl_count = rd_u64 b 0,
     sl_lat_sum = rd_u64 b 8,
     sl_error_count = rd_u64 b 16,
     sl_hist = rd_u32s b 24 64\<rparr>"

record SysLatKey =
  sk_tid :: u32
  sk_id :: u32

definition SysLatKey_of :: "bytes \<Rightarrow> SysLatKey" where
  "SysLatKey_of b = \<lparr>sk_tid = rd_u32 b 0,
     sk_id = rd_u32 b 4\<rparr>"

record OncpuKey =
  ok_pid :: u32
  ok_tid :: u32
  ok_user_sid :: u32
  ok_kernel_sid :: u32

definition OncpuKey_of :: "bytes \<Rightarrow> OncpuKey" where
  "OncpuKey_of b = \<lparr>ok_pid = rd_u32 b 0,
     ok_tid = rd_u32 b 4,
     ok_user_sid = rd_u32 b 8,
     ok_kernel_sid = rd_u32 b 12\<rparr>"

record IoFileKey =
  fk_dev :: u32
  fk_ino :: u64
  fk_path :: string

definition IoFileKey_of :: "bytes \<Rightarrow> IoFileKey" where
  "IoFileKey_of b = \<lparr>fk_dev = rd_u32 b 0,
     fk_ino = rd_u64 b 8,
     fk_path = rd_chars b 16 256\<rparr>"

record IoFileVal =
  fw_bytes :: u64
  fw_ops :: u32
  fw_errors :: u64
  fw_lat_sum :: u64
  fw_hist :: "u32 list"

definition IoFileVal_of :: "bytes \<Rightarrow> IoFileVal" where
  "IoFileVal_of b = \<lparr>fw_bytes = rd_u64 b 0,
     fw_ops = rd_u32 b 8,
     fw_errors = rd_u64 b 16,
     fw_lat_sum = rd_u64 b 24,
     fw_hist = rd_u32s b 32 13\<rparr>"

record IoStartVal =
  iv_dev :: u32
  iv_ino :: u64
  iv_path :: string
  iv_ts :: u64

definition IoStartVal_of :: "bytes \<Rightarrow> IoStartVal" where
  "IoStartVal_of b = \<lparr>iv_dev = rd_u32 b 0,
     iv_ino = rd_u64 b 8,
     iv_path = rd_chars b 16 256,
     iv_ts = rd_u64 b 272\<rparr>"

record LockHotVal =
  lh_count :: u64
  lh_lat_sum :: u64

definition LockHotVal_of :: "bytes \<Rightarrow> LockHotVal" where
  "LockHotVal_of b = \<lparr>lh_count = rd_u64 b 0,
     lh_lat_sum = rd_u64 b 8\<rparr>"

record OffcpuStashVal =
  os_out_ts :: u64
  os_ksid :: u32
  os_stack_available :: u32

definition OffcpuStashVal_of :: "bytes \<Rightarrow> OffcpuStashVal" where
  "OffcpuStashVal_of b = \<lparr>os_out_ts = rd_u64 b 0,
     os_ksid = rd_u32 b 8,
     os_stack_available = rd_u32 b 12\<rparr>"

record TaskMetaVal =
  tm_tgid :: u32
  tm_comm :: string

definition TaskMetaVal_of :: "bytes \<Rightarrow> TaskMetaVal" where
  "TaskMetaVal_of b = \<lparr>tm_tgid = rd_u32 b 0,
     tm_comm = rd_chars b 4 16\<rparr>"

record SockOwnerVal =
  so_tgid :: u64
  so_tid :: u32
  so_netns_ino :: u64
  so_family :: u32
  so_local_addr :: "u32 list"
  so_remote_addr :: "u32 list"
  so_local_port :: u32
  so_remote_port :: u32
  so_start_ts :: u64
  so_established_ts :: u64
  so_tx_bytes :: u64
  so_rx_bytes :: u64
  so_retrans :: u64
  so_rst_reason :: u32
  so_rtt_count :: u64
  so_rtt_sum_us :: u64

definition SockOwnerVal_of :: "bytes \<Rightarrow> SockOwnerVal" where
  "SockOwnerVal_of b = \<lparr>so_tgid = rd_u64 b 0,
     so_tid = rd_u32 b 8,
     so_netns_ino = rd_u64 b 16,
     so_family = rd_u32 b 24,
     so_local_addr = rd_u32s b 28 4,
     so_remote_addr = rd_u32s b 44 4,
     so_local_port = rd_u32 b 60,
     so_remote_port = rd_u32 b 64,
     so_start_ts = rd_u64 b 72,
     so_established_ts = rd_u64 b 80,
     so_tx_bytes = rd_u64 b 88,
     so_rx_bytes = rd_u64 b 96,
     so_retrans = rd_u64 b 104,
     so_rst_reason = rd_u32 b 112,
     so_rtt_count = rd_u64 b 120,
     so_rtt_sum_us = rd_u64 b 128\<rparr>"

record NetDropKeyVal =
  nd_netns_ino :: u64
  nd_ifindex :: u32
  nd_reason_id :: u32

definition NetDropKeyVal_of :: "bytes \<Rightarrow> NetDropKeyVal" where
  "NetDropKeyVal_of b = \<lparr>nd_netns_ino = rd_u64 b 0,
     nd_ifindex = rd_u32 b 8,
     nd_reason_id = rd_u32 b 12\<rparr>"

record NetSoftirqKeyVal =
  nk_cpu_idx :: u32
  nk_vector :: u32

definition NetSoftirqKeyVal_of :: "bytes \<Rightarrow> NetSoftirqKeyVal" where
  "NetSoftirqKeyVal_of b = \<lparr>nk_cpu_idx = rd_u32 b 0,
     nk_vector = rd_u32 b 4\<rparr>"

section \<open>Values written as bytes\<close>

text \<open>The bytes of a value, lowest first; reading them back gives the value.\<close>

definition le_bytes :: "nat \<Rightarrow> nat \<Rightarrow> bytes" where
  "le_bytes n v = map (\<lambda>i. of_nat (v div 256 ^ i)) [0..<n]"

lemma le_bytes_length [simp]: "length (le_bytes n v) = n"
  by (simp add: le_bytes_def)

lemma le_bytes_Suc: "le_bytes (Suc n) v = of_nat v # le_bytes n (v div 256)"
proof -
  have "le_bytes (Suc n) v = of_nat v # map (\<lambda>i. of_nat (v div 256 ^ i)) (map Suc [0..<n])"
    by (simp add: le_bytes_def upt_conv_Cons map_Suc_upt del: upt_Suc)
  then show ?thesis by (simp add: le_bytes_def div_mult2_eq)
qed

lemma le_nat_le_bytes: "le_nat (le_bytes n v) = v mod 256 ^ n"
proof (induction n arbitrary: v)
  case (Suc n)
  have "unat (of_nat v :: u8) = v mod 256" by (simp add: unat_of_nat)
  then show ?case
    using Suc.IH [of "v div 256"] by (simp add: le_bytes_Suc mod_mult2_eq add.commute)
qed (simp add: le_bytes_def)

lemma rd_u64_le_bytes:
  assumes "off = length xs"
  shows "rd_u64 (xs @ le_bytes 8 (unat v) @ ys) off = v"
proof -
  have "unat v < 2 ^ 64" using unsigned_less [where 'a = nat, of v] by simp
  then have "unat v mod 256 ^ 8 = unat v" by simp
  then show ?thesis using assms by (simp add: rd_u64_def le_nat_le_bytes)
qed

lemma rd_u32_le_bytes:
  assumes "off = length xs"
  shows "rd_u32 (xs @ le_bytes 4 (unat v) @ ys) off = v"
proof -
  have "unat v < 2 ^ 32" using unsigned_less [where 'a = nat, of v] by simp
  then have "unat v mod 256 ^ 4 = unat v" by simp
  then show ?thesis using assms by (simp add: rd_u32_def le_nat_le_bytes)
qed

end
