(* ===== verification/Deep.thy ===== *)
theory Deep
  imports Phase BpfValues
begin

text \<open>
  The deep collector, \<^verbatim>\<open>src/collect/deep_collector.cpp\<close>: what it keeps between calls
  (\<open>DeepCollector\<close>), the side of the kernel it talks to (\<open>kernel\<close>: program attachment, maps as
  bytes, the flight-recorder ring, stack symbolisation, GPU processes, the clock) and the rows it
  hands to the writer (\<open>row\<close>), with one function per method. The last part gives the collector as
  the world of the state machine of the theory \<open>Phase\<close>.
\<close>

section \<open>State\<close>

record Capability =
  cap_name :: string
  cap_available :: bool
  cap_error :: string

definition cap :: "string \<Rightarrow> bool \<Rightarrow> string \<Rightarrow> Capability" where
  "cap n a e = \<lparr>cap_name = n, cap_available = a, cap_error = e\<rparr>"

record kernel =
  kn_attach :: "string \<Rightarrow> attach"
  kn_perf_open :: "nat \<Rightarrow> bool"
  kn_ncpus :: nat
  kn_deep_enabled :: bool
  kn_offcpu_fallback :: u32
  kn_rates :: "u32 \<times> u32 \<times> u32"
  kn_maps :: "string \<Rightarrow> kmap"
  kn_slice :: "string \<Rightarrow> MapSlice"
  kn_head :: "u64 option"
  kn_reads :: slot_reads
  kn_ring_cap :: u64
  kn_percpu_recorder :: bool
  kn_stack :: "u32 \<Rightarrow> u64 list option"
  kn_resolve :: "u32 \<Rightarrow> u64 list \<Rightarrow> bool \<Rightarrow> string"
  kn_kernel_sym :: "u64 \<Rightarrow> string"
  kn_gpu_rows :: "u32 list \<Rightarrow> u64 \<Rightarrow> DeepGpuProcessRow list"
  kn_now :: u64

datatype row =
    OpenDeepRow i32
  | CloseDeepRow
  | PreSeries CanonicalSnapshot
  | PostSeries CanonicalSnapshot
  | PostGap u64 u64
  | DeepProcess DeepProcessRow
  | DeepGpu DeepGpuProcessRow
  | DeepSyscall u32 u32 u64 double double double u64
  | FoldedLine string string u64
  | DeepOffcpu DeepOffcpuRow
  | DeepLock u64 u64 u64 string
  | DeepIoFile u32 u64 string u64 u32 u64 u64 "u32 list" double double
  | DeepIoDevice DeepIoDeviceRow
  | DeepNetFlow DeepNetFlowRow
  | DeepNetDrop DeepNetDropRow
  | DeepNetSoftirq DeepNetSoftirqRow
  | MetaRow json
  | SummaryRow json
  | DiagnosisFile string

record DeepCollector =
  dc_ordinal :: i32
  dc_active :: bool
  dc_anomaly_start_ns :: u64
  dc_prev_head :: u64
  dc_pre_interval_ms :: u64
  dc_post_interval_ms :: u64
  dc_next_dump_ns :: u64
  dc_next_gpu_ns :: u64
  dc_deep_links :: "string list"
  dc_perf_fds :: "nat list"
  dc_targets :: "u32 list"
  dc_process_table :: "ProcessRow list"
  dc_fold_cache :: "(u64 \<times> string) list"
  dc_lock_hot_base :: "(u64 \<times> u64) list"
  dc_capabilities :: "Capability list"

definition DeepCollector0 :: DeepCollector where
  "DeepCollector0 = \<lparr>dc_ordinal = 0, dc_active = False, dc_anomaly_start_ns = 0, dc_prev_head = 0,
     dc_pre_interval_ms = 100, dc_post_interval_ms = 20, dc_next_dump_ns = 0, dc_next_gpu_ns = 0,
     dc_deep_links = [], dc_perf_fds = [], dc_targets = [], dc_process_table = [],
     dc_fold_cache = [], dc_lock_hot_base = [], dc_capabilities = []\<rparr>"

text \<open>
  The world of the collector: itself, the kernel, the rows written so far, whether the writer's
  \<^verbatim>\<open>OpenDeep\<close> succeeds, and the model client with its network.
\<close>

record deep_world =
  dw_dc :: DeepCollector
  dw_kernel :: kernel
  dw_rows :: "row list"
  dw_open_deep_ok :: bool
  dw_evidence :: "i32 \<Rightarrow> row list \<Rightarrow> json"
  dw_model :: model_client
  dw_net :: net_env

definition emit :: "row list \<Rightarrow> deep_world \<Rightarrow> deep_world" where
  "emit rs w = w\<lparr>dw_rows := dw_rows w @ rs\<rparr>"

definition upd_dc :: "(DeepCollector \<Rightarrow> DeepCollector) \<Rightarrow> deep_world \<Rightarrow> deep_world" where
  "upd_dc f w = w\<lparr>dw_dc := f (dw_dc w)\<rparr>"

definition upd_kernel :: "(kernel \<Rightarrow> kernel) \<Rightarrow> deep_world \<Rightarrow> deep_world" where
  "upd_kernel f w = w\<lparr>dw_kernel := f (dw_kernel w)\<rparr>"

text \<open>The setters the main loop calls before every phase decision.\<close>

definition SetTargetProcesses :: "u32 list \<Rightarrow> deep_world \<Rightarrow> deep_world" where
  "SetTargetProcesses tids = upd_dc (dc_targets_update (\<lambda>_. tids))"

definition SetProcessTable :: "ProcessRow list \<Rightarrow> deep_world \<Rightarrow> deep_world" where
  "SetProcessTable table = upd_dc (dc_process_table_update (\<lambda>_. table))"

section \<open>Attaching the deep programs\<close>

text \<open>
  The loop over a primary set: it stops at the first program that does not attach and keeps the
  links made until then.
\<close>

fun try_primary :: "(string \<Rightarrow> attach) \<Rightarrow> string list \<Rightarrow> string list \<Rightarrow> bool \<times> string list" where
  "try_primary att [] ls = (True, ls)"
| "try_primary att (n # ns) ls =
     (case att n of Attaches \<Rightarrow> try_primary att ns (ls @ [n]) | _ \<Rightarrow> (False, ls))"

text \<open>The required fallback pair: it gives up at the first failure.\<close>

fun attach_required :: "(string \<Rightarrow> attach) \<Rightarrow> string list \<Rightarrow> string list \<times> Capability list
    \<Rightarrow> bool \<times> string list \<times> Capability list" where
  "attach_required att [] (ls, caps) = (True, ls, caps)"
| "attach_required att (n # ns) (ls, caps) =
     (case att n of
        NoProgram \<Rightarrow> (False, ls, caps @ [cap n False ''missing program''])
      | AttachFails e \<Rightarrow> (False, ls, caps @ [cap n False e])
      | Attaches \<Rightarrow> attach_required att ns (ls @ [n], caps @ [cap n True ''fallback'']))"

text \<open>Optional programs: each failure is a capability record; \<open>ok\<close> is the remark on success.\<close>

fun attach_optional :: "(string \<Rightarrow> attach) \<Rightarrow> string \<Rightarrow> string list \<Rightarrow> string list \<times> Capability list
    \<Rightarrow> string list \<times> Capability list" where
  "attach_optional att ok [] (ls, caps) = (ls, caps)"
| "attach_optional att ok (n # ns) (ls, caps) =
     attach_optional att ok ns
       (case att n of
          NoProgram \<Rightarrow> (ls, caps @ [cap n False ''missing program''])
        | AttachFails e \<Rightarrow> (ls, caps @ [cap n False e])
        | Attaches \<Rightarrow> (ls @ [n], caps @ [cap n True ok]))"

definition attach_syscalls :: "(string \<Rightarrow> attach) \<Rightarrow> string list \<times> Capability list
    \<Rightarrow> bool \<times> string list \<times> Capability list" where
  "attach_syscalls att = (\<lambda>(ls, caps).
     case try_primary att [''fentry_sys'', ''fexit_sys''] ls of
       (True, ls1) \<Rightarrow> (True, ls1, caps @ [cap ''fentry_sys'' True [], cap ''fexit_sys'' True []])
     | (False, ls1) \<Rightarrow>
         attach_required att [''on_sys_enter'', ''on_sys_exit'']
           (ls1, caps @ [cap ''fentry_sys'' False ''fallback raw_syscalls tp'',
                         cap ''fexit_sys'' False ''fallback raw_syscalls tp'']))"

definition vfs_primary :: "string list" where
  "vfs_primary = [''fentry_vfs_read'', ''fexit_vfs_read'', ''fentry_vfs_write'', ''fexit_vfs_write'']"

definition vfs_fallback :: "string list" where
  "vfs_fallback = [''kprobe_vfs_read'', ''kretprobe_vfs_read'', ''kprobe_vfs_write'', ''kretprobe_vfs_write'']"

definition attach_vfs :: "(string \<Rightarrow> attach) \<Rightarrow> string list \<times> Capability list
    \<Rightarrow> string list \<times> Capability list" where
  "attach_vfs att = (\<lambda>(ls, caps).
     case try_primary att vfs_primary ls of
       (True, ls1) \<Rightarrow> (ls1, caps @ map (\<lambda>n. cap n True []) vfs_primary)
     | (False, ls1) \<Rightarrow>
         attach_optional att ''fallback'' vfs_fallback
           (ls1, caps @ map (\<lambda>n. cap n False ''5.15 verifier (fallback used)'') vfs_primary))"

definition net_optional :: "string list" where
  "net_optional = [''net_sock_state'', ''net_tcp_retransmit'', ''net_kfree_skb'', ''net_tcp_send_reset'',
     ''net_softirq_entry'', ''net_softirq_exit'', ''kprobe_tcp_v4_connect'', ''kretprobe_tcp_v4_connect'',
     ''kprobe_tcp_v6_connect'', ''kretprobe_tcp_v6_connect'', ''kretprobe_inet_csk_accept'',
     ''kprobe_tcp_rcv_established'']"

definition AttachDeepLinks :: "deep_world \<Rightarrow> bool \<times> deep_world" where
  "AttachDeepLinks w =
     (let att = kn_attach (dw_kernel w);
          (ok, ls1, caps1) = attach_syscalls att (dc_deep_links (dw_dc w), dc_capabilities (dw_dc w))
      in if \<not> ok
         then (False, upd_dc (\<lambda>d. d\<lparr>dc_deep_links := ls1, dc_capabilities := caps1\<rparr>) w)
         else
           let (ls2, caps2) = attach_optional att [] [''offcpu_schedule'', ''on_process_exit''] (ls1, caps1);
               offcpu_ok = list_ex (\<lambda>c. cap_name c = ''offcpu_schedule'' \<and> cap_available c) caps2;
               (ls3, caps3) = attach_vfs att (ls2, caps2);
               (ls4, caps4) = attach_optional att [] net_optional (ls3, caps3)
           in (True,
               upd_kernel (kn_offcpu_fallback_update (\<lambda>_. if offcpu_ok then 0 else 1))
                 (upd_dc (\<lambda>d. d\<lparr>dc_deep_links := ls4, dc_capabilities := caps4\<rparr>) w)))"

definition CloseDeepLinks :: "deep_world \<Rightarrow> deep_world" where
  "CloseDeepLinks = upd_dc (dc_deep_links_update (\<lambda>_. []))"

definition CloseProfiler :: "deep_world \<Rightarrow> deep_world" where
  "CloseProfiler = upd_dc (dc_perf_fds_update (\<lambda>_. []))"

fun open_perf :: "(nat \<Rightarrow> bool) \<Rightarrow> nat list \<Rightarrow> nat list \<Rightarrow> bool \<times> nat list" where
  "open_perf ok [] fds = (True, fds)"
| "open_perf ok (c # cs) fds = (if ok c then open_perf ok cs (fds @ [c]) else (False, []))"

definition OpenProfiler :: "u64 \<Rightarrow> deep_world \<Rightarrow> bool \<times> deep_world" where
  "OpenProfiler freq_hz w =
     (if freq_hz = 0 \<or> kn_attach (dw_kernel w) ''oncpu'' = NoProgram then (False, w)
      else let (ok, fds) = open_perf (kn_perf_open (dw_kernel w)) [0..<kn_ncpus (dw_kernel w)]
                             (dc_perf_fds (dw_dc w))
           in (ok, upd_dc (dc_perf_fds_update (\<lambda>_. fds)) w))"

definition SetDeep :: "bool \<Rightarrow> deep_world \<Rightarrow> deep_world" where
  "SetDeep on = upd_kernel (kn_deep_enabled_update (\<lambda>_. on))"

text \<open>The sampling rates as the kernel stores them: the file rate as a threshold.\<close>

definition WriteSampleRateCfg :: "u32 \<Rightarrow> u32 \<Rightarrow> u32 \<Rightarrow> deep_world \<Rightarrow> deep_world" where
  "WriteSampleRateCfg offcpu iofile net_rate =
     (let thresh = (if iofile \<noteq> 0 then ucast ((0xFFFFFFFF :: u64) div ucast iofile) else 0)
      in upd_kernel (kn_rates_update (\<lambda>_. (offcpu, thresh, net_rate))))"

definition Exit :: "deep_world \<Rightarrow> deep_world" where
  "Exit w =
     (let w1 = CloseDeepLinks (CloseProfiler (SetDeep False w));
          w2 = (if dc_active (dw_dc w1) then emit [CloseDeepRow] w1 else w1)
      in upd_dc (\<lambda>d. d\<lparr>dc_active := False, dc_targets := []\<rparr>) w2)"

section \<open>Reading kernel maps\<close>

text \<open>The calls of the callback, on a map that stands still during the iteration.\<close>

definition for_each :: "string \<Rightarrow> deep_world \<Rightarrow> (bytes \<times> bytes) list" where
  "for_each name w =
     (let m = kn_maps (dw_kernel w) name
      in case ForEach (Suc (length (kmap_keys m))) kmap_calls (kn_slice (dw_kernel w) name) m of
           None \<Rightarrow> [] | Some es \<Rightarrow> es)"

definition episode_maps :: "string list" where
  "episode_maps = [''sys_lat'', ''sys_st'', ''futex_st'', ''runq_st'', ''oncpu_count'', ''offcpu_time'',
     ''offcpu_stat'', ''io_file'', ''io_start'', ''dev_io'', ''wakeup_ts'', ''offcpu_stash'',
     ''offcpu_last_ts'', ''sock_owner'', ''connect_start'', ''net_flow'', ''net_drop'', ''net_softirq'',
     ''rtt_last'']"

definition ResetEpisodeMaps :: "deep_world \<Rightarrow> deep_world" where
  "ResetEpisodeMaps = upd_kernel (\<lambda>k. k\<lparr>kn_maps := (\<lambda>n. if n \<in> set episode_maps
     then Wipe kmap_calls (kn_maps k n) else kn_maps k n)\<rparr>)"

definition SaveLockHotBaseline :: "deep_world \<Rightarrow> deep_world" where
  "SaveLockHotBaseline w = upd_dc (dc_lock_hot_base_update (\<lambda>_.
     fold (\<lambda>(k, v). alist_put (rd_u64 k 0) (lh_count (LockHotVal_of v))) (for_each ''lock_hot'' w) [])) w"

section \<open>Percentiles\<close>

definition hist_total :: "u32 list \<Rightarrow> u64" where
  "hist_total hist = foldl (\<lambda>a h. a + ucast h) 0 hist"

text \<open>The first bin at which the running sum reaches the target rank.\<close>

fun find_bin :: "u64 \<Rightarrow> u64 \<Rightarrow> u32 list \<Rightarrow> nat option" where
  "find_bin target acc [] = None"
| "find_bin target acc (h # hs) =
     (if acc + ucast h \<ge> target then Some 0 else map_option Suc (find_bin target (acc + ucast h) hs))"

definition rank_target :: "u64 \<Rightarrow> double \<Rightarrow> u64" where
  "rank_target n q =
     (let t = (of_nat (nat \<lfloor>of_nat (unat n) * q\<rfloor>) :: u64) in if t = 0 then 1 else t)"

definition PercentileUs :: "u32 list \<Rightarrow> nat \<Rightarrow> u64 \<Rightarrow> u64 \<Rightarrow> double \<Rightarrow> double" where
  "PercentileUs hist bins base_ns factor q =
     (let tot = hist_total (take bins hist)
      in if tot = 0 then 0
         else case find_bin (rank_target tot q) 0 (take bins hist) of
                None \<Rightarrow> 0
              | Some i \<Rightarrow> of_nat (unat (base_ns * factor ^ i)) / 1000)"

section \<open>Folded stacks\<close>

text \<open>The cache key as the code computes it, and the lookup through the cache.\<close>

definition fold_key :: "u32 \<Rightarrow> bool \<Rightarrow> u64" where
  "fold_key sid user = or (push_bit 2 (ucast sid)) (if user then 2 else 0)"

definition Folded :: "u32 \<Rightarrow> u32 \<Rightarrow> bool \<Rightarrow> deep_world \<Rightarrow> string \<times> deep_world" where
  "Folded sid pid user w =
     (case map_of (dc_fold_cache (dw_dc w)) (fold_key sid user) of
        Some s \<Rightarrow> (s, w)
      | None \<Rightarrow>
          (let out = (case kn_stack (dw_kernel w) sid of
                        None \<Rightarrow> []
                      | Some ips \<Rightarrow> kn_resolve (dw_kernel w) pid (takeWhile (\<lambda>ip. ip \<noteq> 0) (take 127 ips)) user)
           in (out, upd_dc (\<lambda>d. d\<lparr>dc_fold_cache := alist_put (fold_key sid user) out (dc_fold_cache d)\<rparr>) w)))"

definition SanitizeCommStr :: "string \<Rightarrow> string" where
  "SanitizeCommStr comm = map (\<lambda>c. if c \<in> {CHR '';'', CHR ''/'', CHR '' '', CHR 0x09} then CHR ''_'' else c) (cstr comm)"

section \<open>Draining the ring\<close>

definition ExtractPre :: "u64 \<Rightarrow> Config \<Rightarrow> deep_world \<Rightarrow> deep_world" where
  "ExtractPre anomaly_start_ns cfg w =
     (let pre_ns = seconds_ns (wn_pre_anomaly_seconds (c_window cfg));
          cutoff = (if anomaly_start_ns > pre_ns then anomaly_start_ns - pre_ns else 0);
          k = dw_kernel w
      in case kn_head k of
           None \<Rightarrow> w
         | Some head \<Rightarrow>
             (let recs = order_records (kn_percpu_recorder k) (dc_pre_interval_ms (dw_dc w))
                           (pre_records (kn_reads k) head (kn_ring_cap k) cutoff)
              in emit (map (\<lambda>r. PreSeries (DecodeSnapshot r)) recs) w))"

definition DrainPost :: "deep_world \<Rightarrow> deep_world" where
  "DrainPost w =
     (let k = dw_kernel w; prev_head = dc_prev_head (dw_dc w)
      in case kn_head k of
           None \<Rightarrow> w
         | Some head \<Rightarrow>
             (let gap = (if head - prev_head \<ge> kn_ring_cap k - 64 then [PostGap prev_head head] else []);
                  recs = order_records (kn_percpu_recorder k) (dc_post_interval_ms (dw_dc w))
                           (post_records (kn_reads k) prev_head head)
              in emit (map (\<lambda>r. PostSeries (DecodeSnapshot r)) recs)
                   (upd_dc (dc_prev_head_update (\<lambda>_. head)) (emit gap w))))"

section \<open>Process and GPU evidence\<close>

text \<open>The row of one target from the process table (the last row of its thread id counts).\<close>

definition deep_process_row :: "i32 \<Rightarrow> u64 \<Rightarrow> ProcessRow list \<Rightarrow> u32 \<Rightarrow> DeepProcessRow" where
  "deep_process_row ordinal now_ns table tid =
     (let r = DeepProcessRow0\<lparr>dp_ordinal := ordinal, dp_ts_ns := now_ns, dp_tid := tid\<rparr>
      in case map_of (rev (map (\<lambda>p. (pr_pid p, p)) table)) tid of
           None \<Rightarrow> r\<lparr>dp_tgid := tid, dp_available := False, dp_error := ''tid not in process table''\<rparr>
         | Some p \<Rightarrow>
             (let r1 = r\<lparr>dp_tgid := (if pr_tgid p \<noteq> 0 then pr_tgid p else tid), dp_comm := cstr (pr_comm p),
                         dp_available := True\<rparr>;
                  r2 = (if pr_rss_valid p
                        then r1\<lparr>dp_vm_rss_kb := pr_rss_kb p, dp_rss_anon_kb := pr_rss_anon_pages p * 4,
                                dp_rss_file_kb := pr_rss_file_pages p * 4,
                                dp_rss_shmem_kb := pr_rss_shmem_pages p * 4,
                                dp_vm_swap_kb := pr_swap_ents p * 4, dp_status_valid := True\<rparr> else r1);
                  r3 = (if pr_ioac_valid p
                        then r2\<lparr>dp_rchar := pr_rchar p, dp_wchar := pr_wchar p,
                                dp_read_bytes := pr_read_bytes p, dp_write_bytes := pr_write_bytes p,
                                dp_syscr := pr_syscr p, dp_syscw := pr_syscw p, dp_io_valid := True\<rparr> else r2)
              in if pr_sched_valid p
                 then r3\<lparr>dp_sched_exec_runtime_ns := pr_sum_exec_runtime_ns p,
                         dp_sched_run_delay_ns := pr_run_delay_ns p,
                         dp_sched_switch_count := pr_nvcsw p + pr_nivcsw p, dp_sched_valid := True\<rparr> else r3))"

definition DrainProcesses :: "u64 \<Rightarrow> deep_world \<Rightarrow> deep_world" where
  "DrainProcesses now_ns w =
     (let d = dw_dc w
      in emit (map (\<lambda>tid. DeepProcess (deep_process_row (dc_ordinal d) now_ns (dc_process_table d) tid))
                (dc_targets d)) w)"

definition target_tgid :: "ProcessRow list \<Rightarrow> u32 \<Rightarrow> u32" where
  "target_tgid table tid =
     (case map_of (rev (map (\<lambda>p. (pr_pid p, if pr_tgid p \<noteq> 0 then pr_tgid p else pr_pid p)) table)) tid of
        None \<Rightarrow> tid | Some g \<Rightarrow> if g \<noteq> 0 then g else tid)"

definition DrainGpu :: "u64 \<Rightarrow> deep_world \<Rightarrow> deep_world" where
  "DrainGpu now_ns w =
     (let d = dw_dc w
      in if dc_targets d = [] then w
         else let tgids = remdups (map (target_tgid (dc_process_table d)) (dc_targets d));
                  rows = kn_gpu_rows (dw_kernel w) tgids now_ns
              in emit (map (\<lambda>r. DeepGpu (r\<lparr>dg_ordinal := dc_ordinal d\<rparr>)) rows) w)"

section \<open>Dumping the deep maps\<close>

definition p50 :: double where "p50 = 1 / 2"
definition p99 :: double where "p99 = 99 / 100"

definition tid_tgid :: "deep_world \<Rightarrow> (u32 \<times> u32) list" where
  "tid_tgid w = fold (\<lambda>(k, v). alist_put (rd_u32 k 0) (tm_tgid (TaskMetaVal_of v))) (for_each ''task_meta'' w) []"

definition tid_comm :: "deep_world \<Rightarrow> (u32 \<times> string) list" where
  "tid_comm w = fold (\<lambda>(k, v). alist_put (rd_u32 k 0) (SanitizeCommStr (tm_comm (TaskMetaVal_of v))))
     (for_each ''task_meta'' w) []"

definition comm_of :: "(u32 \<times> string) list \<Rightarrow> u32 \<Rightarrow> string" where
  "comm_of comms tid = (case map_of comms tid of None \<Rightarrow> [] | Some c \<Rightarrow> c)"

definition syscall_row :: "bytes \<times> bytes \<Rightarrow> row" where
  "syscall_row = (\<lambda>(key, val).
     let k = SysLatKey_of key; v = SysLatVal_of val
     in DeepSyscall (sk_tid k) (sk_id k) (sl_count v)
          (if sl_count v \<noteq> 0 then of_nat (unat (sl_lat_sum v)) / of_nat (unat (sl_count v)) / 1000 else 0)
          (PercentileUs (sl_hist v) 64 1 2 p50) (PercentileUs (sl_hist v) 64 1 2 p99)
          (sl_error_count v))"

definition show_u32 :: "u32 \<Rightarrow> string" where
  "show_u32 x = show_nat (unat x)"

text \<open>One on-CPU sample: kernel frames first, then user frames; both go through the cache.\<close>

definition oncpu_row :: "(u32 \<times> string) list \<Rightarrow> bytes \<times> bytes \<Rightarrow> deep_world \<Rightarrow> deep_world" where
  "oncpu_row comms = (\<lambda>(key, val) w.
     let k = OncpuKey_of key;
         (us, w1) = Folded (ok_user_sid k) (ok_pid k) True w;
         (ks, w2) = Folded (ok_kernel_sid k) (ok_pid k) False w1;
         line = ''p:'' @ show_u32 (ok_pid k) @ ''/'' @ comm_of comms (ok_pid k) @ '';t:'' @
                show_u32 (ok_tid k) @ ''/'' @ comm_of comms (ok_tid k) @
                (if ks \<noteq> [] then '';'' @ ks else []) @ (if us \<noteq> [] then '';'' @ us else [])
     in emit [FoldedLine ''on_cpu'' line (rd_u64 val 0)] w2)"

definition offcpu_row :: "(u32 \<times> u32) list \<Rightarrow> (u32 \<times> string) list \<Rightarrow> bytes \<times> bytes \<Rightarrow> deep_world \<Rightarrow> deep_world" where
  "offcpu_row tgids comms = (\<lambda>(key, val) w.
     let tid = rd_u32 key 0;
         (ks, w1) = Folded (rd_u32 key 4) tid False w;
         line = (case map_of tgids tid of
                   Some g \<Rightarrow> ''p:'' @ show_u32 g @ ''/'' @ comm_of comms tid @ '';t:'' @ show_u32 tid @ ''/'' @ comm_of comms tid
                 | None \<Rightarrow> ''t:'' @ show_u32 tid @ ''/'')
     in emit [FoldedLine ''off_cpu'' (line @ '';'' @ ks) (rd_u64 val 0)] w1)"

definition offstat_row :: "i32 \<Rightarrow> (u32 \<times> u32) list \<Rightarrow> (u32 \<times> string) list \<Rightarrow> bytes \<times> bytes \<Rightarrow> row" where
  "offstat_row ordinal tgids comms = (\<lambda>(key, val).
     let tid = rd_u32 key 0; v = LatStatVal13_of val
     in DeepOffcpu (DeepOffcpuRow0\<lparr>dq_ordinal := ordinal, dq_tid := tid,
          dq_tgid := (case map_of tgids tid of None \<Rightarrow> 0 | Some g \<Rightarrow> g), dq_comm := comm_of comms tid,
          dq_dwell_ns := lv_lat_sum v, dq_count := lv_count v, dq_stack_available := 0\<rparr>))"

definition lock_row :: "(u64 \<times> u64) list \<Rightarrow> (u64 \<Rightarrow> string) \<Rightarrow> bytes \<times> bytes \<Rightarrow> row list" where
  "lock_row base resolve = (\<lambda>(key, val).
     let addr = rd_u64 key 0; v = LockHotVal_of val;
         b = (case map_of base addr of None \<Rightarrow> 0 | Some c \<Rightarrow> c);
         cnt = (if lh_count v > b then lh_count v - b else 0)
     in if cnt = 0 then [] else [DeepLock addr cnt (lh_lat_sum v) (resolve addr)])"

definition iofile_row :: "bytes \<times> bytes \<Rightarrow> row" where
  "iofile_row = (\<lambda>(key, val).
     let k = IoFileKey_of key; v = IoFileVal_of val
     in DeepIoFile (fk_dev k) (fk_ino k) (cstr (fk_path k)) (fw_bytes v) (fw_ops v) (fw_errors v) (fw_lat_sum v)
          (fw_hist v) (PercentileUs (fw_hist v) 13 256 4 p50) (PercentileUs (fw_hist v) 13 256 4 p99))"

definition iodevice_row :: "i32 \<Rightarrow> bytes \<times> bytes \<Rightarrow> row" where
  "iodevice_row ordinal = (\<lambda>(key, val).
     let v = BlockIoVal_of val
     in DeepIoDevice \<lparr>di_ordinal = ordinal, di_dev = rd_u32 key 0, di_ops = bi_ops v, di_bytes = bi_bytes v,
          di_lat_sum = bi_lat_sum v, di_hist = bi_hist v, di_p50_us = PercentileUs (bi_hist v) 13 256 4 p50,
          di_p99_us = PercentileUs (bi_hist v) 13 256 4 p99\<rparr>)"

definition addr64 :: "u32 list \<Rightarrow> u64" where
  "addr64 a = or (ucast (a ! 0)) (push_bit 32 (ucast (a ! 1)))"

definition flow_row :: "i32 \<Rightarrow> bool \<Rightarrow> bytes \<times> bytes \<Rightarrow> row" where
  "flow_row ordinal is_closed = (\<lambda>(key, val).
     let v = SockOwnerVal_of val
     in DeepNetFlow (DeepNetFlowRow0\<lparr>df_ordinal := ordinal, df_cookie := rd_u64 key 0,
          df_tgid := ucast (so_tgid v), df_tid := so_tid v, df_netns_ino := so_netns_ino v,
          df_family := so_family v, df_local_addr := addr64 (so_local_addr v),
          df_local_port := so_local_port v, df_remote_addr := addr64 (so_remote_addr v),
          df_remote_port := so_remote_port v, df_start_ts_ns := so_start_ts v,
          df_established_ts_ns := so_established_ts v, df_end_ts_ns := 0, df_duration_us := 0,
          df_connect_latency_us := (if so_established_ts v > so_start_ts v
             then (so_established_ts v - so_start_ts v) div 1000 else 0),
          df_tx_bytes := so_tx_bytes v, df_rx_bytes := so_rx_bytes v, df_retransmits := so_retrans v,
          df_rst_reason := so_rst_reason v, df_rtt_count := so_rtt_count v,
          df_rtt_avg_us := (if so_rtt_count v \<noteq> 0 then so_rtt_sum_us v div so_rtt_count v else 0),
          df_closed := is_closed, df_owner_available := (so_tid v \<noteq> 0)\<rparr>))"

definition drop_row :: "i32 \<Rightarrow> bytes \<times> bytes \<Rightarrow> row" where
  "drop_row ordinal = (\<lambda>(key, val).
     let k = NetDropKeyVal_of key
     in DeepNetDrop (DeepNetDropRow0\<lparr>dd_ordinal := ordinal, dd_netns_ino := nd_netns_ino k,
          dd_ifindex := nd_ifindex k, dd_reason_id := nd_reason_id k, dd_count := rd_u64 val 0\<rparr>))"

fun join_nats :: "u32 list \<Rightarrow> string" where
  "join_nats [] = []"
| "join_nats [h] = show_u32 h"
| "join_nats (h # k # hs) = show_u32 h @ '','' @ join_nats (k # hs)"

definition softirq_row :: "i32 \<Rightarrow> bytes \<times> bytes \<Rightarrow> row" where
  "softirq_row ordinal = (\<lambda>(key, val).
     let k = NetSoftirqKeyVal_of key; v = LatStatVal13_of val
     in DeepNetSoftirq (DeepNetSoftirqRow0\<lparr>dn_ordinal := ordinal, dn_cpu_idx := nk_cpu_idx k,
          dn_vector := nk_vector k,
          dn_vector_name := (if nk_vector k = 3 then ''NET_RX'' else if nk_vector k = 2 then ''NET_TX'' else ''other''),
          dn_count := lv_count v, dn_time_ns := lv_lat_sum v,
          dn_hist := ''['' @ join_nats (lv_hist v) @ '']''\<rparr>))"

definition DumpDeepMaps :: "deep_world \<Rightarrow> deep_world" where
  "DumpDeepMaps w =
     (let d = dw_dc w; n = dc_ordinal d; tgids = tid_tgid w; comms = tid_comm w;
          w1 = emit (map syscall_row (for_each ''sys_lat'' w)) w;
          w2 = fold (oncpu_row comms) (for_each ''oncpu_count'' w) w1;
          w3 = fold (offcpu_row tgids comms) (for_each ''offcpu_time'' w) w2
      in emit (map (offstat_row n tgids comms) (for_each ''offcpu_stat'' w) @
               concat (map (lock_row (dc_lock_hot_base d) (kn_kernel_sym (dw_kernel w))) (for_each ''lock_hot'' w)) @
               map iofile_row (for_each ''io_file'' w) @
               map (iodevice_row n) (for_each ''dev_io'' w) @
               map (flow_row n True) (for_each ''net_flow'' w) @
               map (flow_row n False) (for_each ''sock_owner'' w) @
               map (drop_row n) (for_each ''net_drop'' w) @
               map (softirq_row n) (for_each ''net_softirq'' w)) w3)"

section \<open>The episode\<close>

definition Tick :: "u64 \<Rightarrow> Config \<Rightarrow> deep_world \<Rightarrow> deep_world" where
  "Tick now_ns cfg w =
     (if \<not> dc_active (dw_dc w) then w
      else
        let w1 = DrainPost w;
            w2 = (if now_ns \<ge> dc_next_dump_ns (dw_dc w1)
                  then upd_dc (dc_next_dump_ns_update (\<lambda>_. now_ns + sm_deep_dump_interval_ms (c_sample cfg) * 1000000))
                         (DrainProcesses now_ns w1)
                  else w1)
        in if dv_deep_gpu_enabled (c_devices cfg) \<and> now_ns \<ge> dc_next_gpu_ns (dw_dc w2)
           then upd_dc (dc_next_gpu_ns_update (\<lambda>_. now_ns + dv_deep_gpu_interval_ms (c_devices cfg) * 1000000))
                  (DrainGpu now_ns w2)
           else w2)"

definition cap_to_json :: "Capability \<Rightarrow> json" where
  "cap_to_json c = JObj [(''name'', JStr (cap_name c)), (''available'', JBool (cap_available c)),
     (''error'', JStr (cap_error c))]"

definition Finalize :: "Config \<Rightarrow> json \<Rightarrow> deep_world \<Rightarrow> json \<times> deep_world" where
  "Finalize cfg summary w =
     (let now = kn_now (dw_kernel w);
          w1 = DrainProcesses now (DrainPost w);
          w2 = (if dv_deep_gpu_enabled (c_devices cfg) then DrainGpu now w1 else w1);
          w3 = DumpDeepMaps w2
      in (jput ''capabilities'' (JArr (map cap_to_json (dc_capabilities (dw_dc w3))))
            (jput ''post_series_records'' (jnum (dc_prev_head (dw_dc w3))) summary), w3))"

definition Enter :: "i32 \<Rightarrow> u64 \<Rightarrow> Config \<Rightarrow> deep_world \<Rightarrow> bool \<times> deep_world" where
  "Enter ordinal anomaly_start_ns cfg w =
     (let w1 = upd_dc (\<lambda>d. d\<lparr>dc_ordinal := ordinal, dc_anomaly_start_ns := anomaly_start_ns,
                 dc_pre_interval_ms := sm_fine_interval_ms (c_sample cfg),
                 dc_post_interval_ms := sm_deep_fine_interval_ms (c_sample cfg),
                 dc_next_dump_ns := 0, dc_next_gpu_ns := 0, dc_fold_cache := [], dc_capabilities := []\<rparr>) w;
          w2 = WriteSampleRateCfg (sm_offcpu_sample_rate (c_sample cfg)) (sm_iofile_sample_rate (c_sample cfg))
                 (dv_net_event_sample_rate (c_devices cfg)) (SetDeep True w1);
          (attached, w3) = AttachDeepLinks w2
      in if \<not> attached then (False, SetDeep False w3)
         else
           let (profiling, w4) = OpenProfiler (sm_profile_freq_hz (c_sample cfg)) w3;
               w5 = (if profiling then w4
                     else upd_dc (\<lambda>d. d\<lparr>dc_capabilities := dc_capabilities d @
                            [cap ''oncpu'' False ''perf_event_open failed'']\<rparr>) w4)
           in if \<not> dw_open_deep_ok w5 then (False, Exit w5)
              else
                let w6 = upd_dc (dc_active_update (\<lambda>_. True)) (emit [OpenDeepRow ordinal] w5);
                    w7 = SaveLockHotBaseline (ResetEpisodeMaps w6);
                    w8 = (case kn_head (dw_kernel w7) of
                            Some head \<Rightarrow> upd_dc (dc_prev_head_update (\<lambda>_. head)) w7
                          | None \<Rightarrow> w7)
                in (True, ExtractPre anomaly_start_ns cfg w8))"

section \<open>The collector as the world of the state machine\<close>

definition deep_ops :: "deep_world episode_ops" where
  "deep_ops = \<lparr>
     op_enter = Enter,
     op_finalize = Finalize,
     op_exit = Exit,
     op_evidence = (\<lambda>n w. dw_evidence w n (dw_rows w)),
     op_causal = (\<lambda>c w. let (r, m) = InferCausal (dw_net w) c (dw_model w) in (r, w\<lparr>dw_model := m\<rparr>)),
     op_diagnosis = (\<lambda>s. emit [DiagnosisFile s]),
     op_meta = (\<lambda>j. emit [MetaRow j]),
     op_summary = (\<lambda>j. emit [SummaryRow j])\<rparr>"

section \<open>Frames\<close>

text \<open>What the straight-line parts leave alone.\<close>

lemma emit_simps [simp]:
  "dw_dc (emit rs w) = dw_dc w" "dw_kernel (emit rs w) = dw_kernel w"
  "dw_rows (emit rs w) = dw_rows w @ rs" "dw_open_deep_ok (emit rs w) = dw_open_deep_ok w"
  by (simp_all add: emit_def)

lemma upd_dc_simps [simp]:
  "dw_dc (upd_dc f w) = f (dw_dc w)" "dw_kernel (upd_dc f w) = dw_kernel w"
  "dw_rows (upd_dc f w) = dw_rows w" "dw_open_deep_ok (upd_dc f w) = dw_open_deep_ok w"
  by (simp_all add: upd_dc_def)

lemma upd_kernel_simps [simp]:
  "dw_dc (upd_kernel f w) = dw_dc w" "dw_kernel (upd_kernel f w) = f (dw_kernel w)"
  "dw_rows (upd_kernel f w) = dw_rows w" "dw_open_deep_ok (upd_kernel f w) = dw_open_deep_ok w"
  by (simp_all add: upd_kernel_def)

lemma attach_frame [simp]:
  "dc_active (dw_dc (snd (AttachDeepLinks w))) = dc_active (dw_dc w)"
  "kn_deep_enabled (dw_kernel (snd (AttachDeepLinks w))) = kn_deep_enabled (dw_kernel w)"
  "dc_perf_fds (dw_dc (snd (AttachDeepLinks w))) = dc_perf_fds (dw_dc w)"
  "dw_rows (snd (AttachDeepLinks w)) = dw_rows w"
  by (simp_all add: AttachDeepLinks_def Let_def split: prod.splits)

lemma profiler_frame [simp]:
  "dc_active (dw_dc (snd (OpenProfiler f w))) = dc_active (dw_dc w)"
  "kn_deep_enabled (dw_kernel (snd (OpenProfiler f w))) = kn_deep_enabled (dw_kernel w)"
  "dw_rows (snd (OpenProfiler f w)) = dw_rows w"
  by (simp_all add: OpenProfiler_def Let_def split: prod.splits)

lemma sample_rate_frame [simp]:
  "dw_dc (WriteSampleRateCfg a b c w) = dw_dc w"
  "kn_deep_enabled (dw_kernel (WriteSampleRateCfg a b c w)) = kn_deep_enabled (dw_kernel w)"
  by (simp_all add: WriteSampleRateCfg_def Let_def)

lemma exit_simps [simp]:
  "dc_active (dw_dc (Exit w)) = False" "dc_deep_links (dw_dc (Exit w)) = []"
  "dc_perf_fds (dw_dc (Exit w)) = []" "dc_targets (dw_dc (Exit w)) = []"
  "kn_deep_enabled (dw_kernel (Exit w)) = False"
  by (simp_all add: Exit_def Let_def CloseDeepLinks_def CloseProfiler_def SetDeep_def)

lemma extract_frame [simp]:
  "dw_dc (ExtractPre t cfg w) = dw_dc w" "dw_kernel (ExtractPre t cfg w) = dw_kernel w"
  by (simp_all add: ExtractPre_def Let_def split: option.splits)

lemma reset_frame [simp]:
  "dw_dc (ResetEpisodeMaps w) = dw_dc w"
  "kn_deep_enabled (dw_kernel (ResetEpisodeMaps w)) = kn_deep_enabled (dw_kernel w)"
  "kn_head (dw_kernel (ResetEpisodeMaps w)) = kn_head (dw_kernel w)"
  by (simp_all add: ResetEpisodeMaps_def)

lemma baseline_frame [simp]:
  "dc_active (dw_dc (SaveLockHotBaseline w)) = dc_active (dw_dc w)"
  "dw_kernel (SaveLockHotBaseline w) = dw_kernel w"
  by (simp_all add: SaveLockHotBaseline_def)

text \<open>A successful entry, and the two ways to fail.\<close>

lemma Enter_active:
  assumes "\<not> dc_active (dw_dc w)" and "Enter n t cfg w = (ok, w')"
  shows "dc_active (dw_dc w') = ok \<and> kn_deep_enabled (dw_kernel w') = ok"
proof -
  let ?w2 = "WriteSampleRateCfg (sm_offcpu_sample_rate (c_sample cfg)) (sm_iofile_sample_rate (c_sample cfg))
      (dv_net_event_sample_rate (c_devices cfg)) (SetDeep True
        (upd_dc (\<lambda>d. d\<lparr>dc_ordinal := n, dc_anomaly_start_ns := t,
                 dc_pre_interval_ms := sm_fine_interval_ms (c_sample cfg),
                 dc_post_interval_ms := sm_deep_fine_interval_ms (c_sample cfg),
                 dc_next_dump_ns := 0, dc_next_gpu_ns := 0, dc_fold_cache := [], dc_capabilities := []\<rparr>) w))"
  obtain att w3 where att: "AttachDeepLinks ?w2 = (att, w3)" by fastforce
  then have w3: "dc_active (dw_dc w3) = False" "kn_deep_enabled (dw_kernel w3) = True"
    using attach_frame(1,2) [of ?w2] assms(1) by (simp_all add: SetDeep_def)
  obtain pr w4 where pr: "OpenProfiler (sm_profile_freq_hz (c_sample cfg)) w3 = (pr, w4)" by fastforce
  then have w4: "dc_active (dw_dc w4) = False" "kn_deep_enabled (dw_kernel w4) = True"
    using profiler_frame(1,2) [of "sm_profile_freq_hz (c_sample cfg)" w3] w3 by simp_all
  from assms(2) att pr w3 w4 show ?thesis
    by (auto simp: Enter_def Let_def SetDeep_def split: if_splits option.splits)
qed

interpretation deep: episode_world deep_ops "\<lambda>w. dc_active (dw_dc w)"
proof unfold_locales
  show "\<not> dc_active (dw_dc w) \<Longrightarrow>
      dc_active (dw_dc (snd (op_enter deep_ops n t cfg w))) \<longleftrightarrow> fst (op_enter deep_ops n t cfg w)" for w n t cfg
    using Enter_active [of w n t cfg] by (cases "Enter n t cfg w") (simp add: deep_ops_def)
  show "\<not> dc_active (dw_dc (op_exit deep_ops w))" for w by (simp add: deep_ops_def)
qed

section \<open>Attachment: facts\<close>

lemma try_primary_ok: "fst (try_primary att ns ls) \<longleftrightarrow> (\<forall>n \<in> set ns. att n = Attaches)"
  by (induction att ns ls rule: try_primary.induct) (auto split: attach.splits)

lemma attach_required_ok: "fst (attach_required att ns s) \<longleftrightarrow> (\<forall>n \<in> set ns. att n = Attaches)"
  by (induction att ns s rule: attach_required.induct) (auto split: attach.splits)

definition records :: "(string \<Rightarrow> attach) \<Rightarrow> Capability list \<Rightarrow> string \<Rightarrow> bool" where
  "records att caps n \<longleftrightarrow> (\<exists>c \<in> set caps. cap_name c = n \<and> (cap_available c \<longleftrightarrow> att n = Attaches))"

lemma attach_optional_grows: "set caps \<subseteq> set (snd (attach_optional att ok ns (ls, caps)))"
proof (induction ns arbitrary: ls caps)
  case (Cons n ns)
  have "set caps \<subseteq> set (snd (attach_optional att ok ns (ls', caps @ [c])))" for ls' c
    using Cons.IH [of "caps @ [c]" ls'] by auto
  then show ?case by (cases "att n") simp_all
qed simp

lemma attach_optional_records:
  "n \<in> set ns \<Longrightarrow> records att (snd (attach_optional att ok ns (ls, caps))) n"
proof (induction ns arbitrary: ls caps)
  case (Cons m ns)
  show ?case
  proof (cases "n \<in> set ns")
    case True
    with Cons.IH show ?thesis by (auto split: attach.splits)
  next
    case False
    with Cons.prems have m: "n = m" by simp
    obtain ls' c where step: "attach_optional att ok (m # ns) (ls, caps) = attach_optional att ok ns (ls', caps @ [c])"
      and c: "cap_name c = m" "cap_available c \<longleftrightarrow> att m = Attaches"
      by (cases "att m") (auto simp: cap_def)
    have "c \<in> set (snd (attach_optional att ok ns (ls', caps @ [c])))"
      using attach_optional_grows [of "caps @ [c]" att ok ns ls'] by auto
    with step c m show ?thesis by (auto simp: records_def)
  qed
qed simp

lemma attach_vfs_grows: "set caps \<subseteq> set (snd (attach_vfs att (ls, caps)))"
proof (cases "try_primary att vfs_primary ls")
  case (Pair b ls1)
  have "set caps \<subseteq> set (caps @ map (\<lambda>n. cap n False ''5.15 verifier (fallback used)'') vfs_primary)" by simp
  also note attach_optional_grows [of _ att "''fallback''" vfs_fallback ls1]
  finally show ?thesis using Pair by (cases b) (simp_all add: attach_vfs_def)
qed

lemma records_mono: "records att caps n \<Longrightarrow> set caps \<subseteq> set caps' \<Longrightarrow> records att caps' n"
  by (auto simp: records_def)

section \<open>Percentiles: facts\<close>

lemma find_bin_Some:
  assumes "find_bin t acc hs = Some i" and "unat acc + sum_list (map unat hs) < 2 ^ 64" and "unat acc < unat t"
  shows "i < length hs \<and> unat acc + sum_list (map unat (take i hs)) < unat t \<and>
         unat t \<le> unat acc + sum_list (map unat (take (Suc i) hs))"
  using assms
proof (induction hs arbitrary: acc i)
  case (Cons h hs)
  have "unat (ucast h :: u64) = unat h" by (simp add: unsigned_ucast_eq take_bit_nat_eq_self unsigned_less order_less_trans [OF unsigned_less])
  with Cons.prems(2) have acc: "unat (acc + ucast h) = unat acc + unat h" 
    by (subst unat_plus_no_wrap) simp_all
  show ?case
  proof (cases "acc + ucast h \<ge> t")
    case True
    with Cons.prems acc show ?thesis by (auto simp: word_le_nat_alt)
  next
    case False
    then obtain j where j: "find_bin t (acc + ucast h) hs = Some j" "i = Suc j"
      using Cons.prems(1) by auto
    from Cons.IH [OF j(1)] Cons.prems(2) acc False j(2) show ?thesis by (simp add: word_le_nat_alt not_le)
  qed
qed simp

lemma find_bin_exists:
  assumes "unat acc + sum_list (map unat hs) < 2 ^ 64" and "unat t \<le> unat acc + sum_list (map unat hs)" and "unat acc < unat t"
  shows "\<exists>i. find_bin t acc hs = Some i"
  using assms
proof (induction hs arbitrary: acc)
  case (Cons h hs)
  have "unat (ucast h :: u64) = unat h" by (simp add: unsigned_ucast_eq take_bit_nat_eq_self unsigned_less order_less_trans [OF unsigned_less])
  with Cons.prems(1) have acc: "unat (acc + ucast h) = unat acc + unat h"
    by (subst unat_plus_no_wrap) simp_all
  show ?case
  proof (cases "acc + ucast h \<ge> t")
    case False
    then have "unat (acc + ucast h) < unat t" by (simp add: word_le_nat_alt)
    with Cons.IH [of "acc + ucast h"] Cons.prems acc show ?thesis by auto
  qed simp
qed simp

lemma hist_total_unat:
  assumes "sum_list (map unat hs) < 2 ^ 64"
  shows "unat (hist_total hs) = sum_list (map unat hs)"
proof -
  have "unat (foldl (\<lambda>a h. a + ucast h) acc hs) = unat acc + sum_list (map unat hs)"
    if "unat acc + sum_list (map unat hs) < 2 ^ 64" for acc :: u64
    using that
  proof (induction hs arbitrary: acc)
    case (Cons h hs)
    have "unat (ucast h :: u64) = unat h" by (simp add: unsigned_ucast_eq take_bit_nat_eq_self unsigned_less order_less_trans [OF unsigned_less])
    with Cons.prems have acc: "unat (acc + ucast h) = unat acc + unat h" by (subst unat_plus_no_wrap) simp_all
    with Cons.IH [of "acc + ucast h"] Cons.prems show ?case by simp
  qed simp
  from this [of 0] assms show ?thesis by (simp add: hist_total_def)
qed

end
