(* ===== verification/Seqlock.thy ===== *)
theory Seqlock
  imports Prelude
begin

text \<open>
  The seqlock of the flight recorder, with the producer (\<^verbatim>\<open>rec_commit\<close> in
  \<^verbatim>\<open>bpf/etrace_common.h\<close>) and one reader (the double lookup in \<^verbatim>\<open>ExtractPre\<close> and
  \<^verbatim>\<open>DrainPost\<close>, \<^verbatim>\<open>src/collect/deep_collector.cpp\<close>) running at the same time. A slot is
  \<open>W\<close> words, word 0 the sequence number; the producer's copy, and each lookup of the reader, moves
  one word per step, in ascending order. The producer is the single timer of the summed mode.
  Sequence numbers are natural numbers: they wrap around only after \<open>2^63\<close> records.
\<close>

datatype writer = WIdle | Writing nat nat

text \<open>
  \<open>sq_na\<close> and \<open>sq_nb\<close> count the words of the first and of the second lookup read so far, of the
  slot of index \<open>sq_j\<close>; the copies are \<open>sq_a\<close> and \<open>sq_b\<close>.
\<close>

record seqlock =
  sq_head :: nat
  sq_mem :: "nat \<Rightarrow> nat \<Rightarrow> nat"
  sq_writer :: writer
  sq_j :: nat
  sq_na :: nat
  sq_nb :: nat
  sq_a :: "nat \<Rightarrow> nat"
  sq_b :: "nat \<Rightarrow> nat"

definition seqlock0 :: seqlock where
  "seqlock0 = \<lparr>sq_head = 0, sq_mem = (\<lambda>_ _. 0), sq_writer = WIdle, sq_j = 0, sq_na = 0, sq_nb = 0,
     sq_a = (\<lambda>_. 0), sq_b = (\<lambda>_. 0)\<rparr>"

definition store :: "nat \<Rightarrow> nat \<Rightarrow> nat \<Rightarrow> seqlock \<Rightarrow> seqlock" where
  "store slot k v s = s\<lparr>sq_mem := (sq_mem s)(slot := (sq_mem s slot)(k := v))\<rparr>"

text \<open>\<open>C\<close> slots of \<open>W\<close> words; \<open>data i k\<close> is word \<open>k\<close> of the record with index \<open>i\<close>.\<close>

inductive sq_step :: "nat \<Rightarrow> nat \<Rightarrow> (nat \<Rightarrow> nat \<Rightarrow> nat) \<Rightarrow> seqlock \<Rightarrow> seqlock \<Rightarrow> bool"
  for C :: nat and W :: nat and data :: "nat \<Rightarrow> nat \<Rightarrow> nat"
where
  claim: "sq_writer s = WIdle \<Longrightarrow>
     sq_step C W data s (s\<lparr>sq_head := sq_head s + 1, sq_writer := Writing (sq_head s) 0\<rparr>)"
| copy_seq: "sq_writer s = Writing i 0 \<Longrightarrow>
     sq_step C W data s (store (i mod C) 0 (2 * i + 1) s\<lparr>sq_writer := Writing i 1\<rparr>)"
| copy_word: "sq_writer s = Writing i k \<Longrightarrow> 0 < k \<Longrightarrow> k < W \<Longrightarrow>
     sq_step C W data s (store (i mod C) k (data i k) s\<lparr>sq_writer := Writing i (k + 1)\<rparr>)"
| commit: "sq_writer s = Writing i W \<Longrightarrow>
     sq_step C W data s (store (i mod C) 0 (2 * i) s\<lparr>sq_writer := WIdle\<rparr>)"
| look: "sq_step C W data s (s\<lparr>sq_j := j, sq_na := 0, sq_nb := 0\<rparr>)"
| read_a: "sq_na s < W \<Longrightarrow> sq_nb s = 0 \<Longrightarrow>
     sq_step C W data s (s\<lparr>sq_a := (sq_a s)(sq_na s := sq_mem s (sq_j s mod C) (sq_na s)), sq_na := sq_na s + 1\<rparr>)"
| read_b: "sq_na s = W \<Longrightarrow> sq_nb s < W \<Longrightarrow>
     sq_step C W data s (s\<lparr>sq_b := (sq_b s)(sq_nb s := sq_mem s (sq_j s mod C) (sq_nb s)), sq_nb := sq_nb s + 1\<rparr>)"

inductive_cases sq_stepE: "sq_step C W data s s'"

inductive sq_reach :: "nat \<Rightarrow> nat \<Rightarrow> (nat \<Rightarrow> nat \<Rightarrow> nat) \<Rightarrow> seqlock \<Rightarrow> bool"
  for C :: nat and W :: nat and data :: "nat \<Rightarrow> nat \<Rightarrow> nat"
where
  sq_init: "sq_reach C W data seqlock0"
| sq_next: "sq_reach C W data s \<Longrightarrow> sq_step C W data s s' \<Longrightarrow> sq_reach C W data s'"

text \<open>The reader's test, once both lookups are done.\<close>

definition accepts :: "nat \<Rightarrow> seqlock \<Rightarrow> bool" where
  "accepts W s \<longleftrightarrow> sq_na s = W \<and> sq_nb s = W \<and> even (sq_a s 0) \<and> sq_a s 0 = sq_b s 0 \<and> sq_a s 0 = 2 * sq_j s"

section \<open>The invariant\<close>

definition mem_inv :: "nat \<Rightarrow> nat \<Rightarrow> (nat \<Rightarrow> nat \<Rightarrow> nat) \<Rightarrow> seqlock \<Rightarrow> bool" where
  "mem_inv C W data s \<longleftrightarrow> (\<forall>slot i. 0 < i \<longrightarrow> sq_mem s slot 0 = 2 * i \<longrightarrow>
     i < sq_head s \<and> slot = i mod C \<and> (\<forall>k. sq_writer s \<noteq> Writing i k) \<and>
     (\<forall>k. 0 < k \<longrightarrow> k < W \<longrightarrow> sq_mem s slot k = data i k))"

definition writer_inv :: "nat \<Rightarrow> nat \<Rightarrow> (nat \<Rightarrow> nat \<Rightarrow> nat) \<Rightarrow> seqlock \<Rightarrow> bool" where
  "writer_inv C W data s \<longleftrightarrow> (\<forall>i k. sq_writer s = Writing i k \<longrightarrow>
     i < sq_head s \<and> (0 < k \<longrightarrow> sq_mem s (i mod C) 0 = 2 * i + 1) \<and>
     (\<forall>k'. 0 < k' \<longrightarrow> k' < k \<longrightarrow> k' < W \<longrightarrow> sq_mem s (i mod C) k' = data i k'))"

definition reader_inv :: "nat \<Rightarrow> nat \<Rightarrow> (nat \<Rightarrow> nat \<Rightarrow> nat) \<Rightarrow> seqlock \<Rightarrow> bool" where
  "reader_inv C W data s \<longleftrightarrow> (0 < sq_j s \<longrightarrow> 0 < sq_na s \<longrightarrow> sq_a s 0 = 2 * sq_j s \<longrightarrow>
     sq_j s < sq_head s \<and> (\<forall>k. sq_writer s \<noteq> Writing (sq_j s) k) \<and>
     ((if sq_nb s = 0 then sq_mem s (sq_j s mod C) 0 else sq_b s 0) = 2 * sq_j s \<longrightarrow>
        (\<forall>k. 0 < k \<longrightarrow> k < sq_na s \<longrightarrow> k < W \<longrightarrow> sq_a s k = data (sq_j s) k)))"

lemmas sq_invs = mem_inv_def writer_inv_def reader_inv_def

lemma seqlock0_simps [simp]: "sq_head seqlock0 = 0" "sq_writer seqlock0 = WIdle"
  by (simp_all add: seqlock0_def)

lemma store_simps [simp]:
  "sq_head (store x k v s) = sq_head s" "sq_writer (store x k v s) = sq_writer s"
  "sq_j (store x k v s) = sq_j s" "sq_na (store x k v s) = sq_na s" "sq_nb (store x k v s) = sq_nb s"
  "sq_a (store x k v s) = sq_a s" "sq_b (store x k v s) = sq_b s"
  "sq_mem (store x k v s) y l = (if y = x \<and> l = k then v else sq_mem s y l)"
  by (simp_all add: store_def)

lemma odd_not_even [simp]: "Suc (2 * i) \<noteq> 2 * j" "2 * j \<noteq> Suc (2 * i)"
  by presburger+

text \<open>The invariants at one slot and index, for use with explicit instances.\<close>

lemma mem_invD:
  "mem_inv C W data s \<Longrightarrow> 0 < i \<Longrightarrow> sq_mem s x 0 = 2 * i \<Longrightarrow>
   i < sq_head s \<and> x = i mod C \<and> (\<forall>k. sq_writer s \<noteq> Writing i k) \<and>
   (\<forall>k. 0 < k \<longrightarrow> k < W \<longrightarrow> sq_mem s x k = data i k)"
  unfolding mem_inv_def by blast

lemma writer_invD:
  "writer_inv C W data s \<Longrightarrow> sq_writer s = Writing i k \<Longrightarrow>
   i < sq_head s \<and> (0 < k \<longrightarrow> sq_mem s (i mod C) 0 = 2 * i + 1) \<and>
   (\<forall>k'. 0 < k' \<longrightarrow> k' < k \<longrightarrow> k' < W \<longrightarrow> sq_mem s (i mod C) k' = data i k')"
  unfolding writer_inv_def by blast

lemma reader_invD:
  "reader_inv C W data s \<Longrightarrow> 0 < sq_j s \<Longrightarrow> 0 < sq_na s \<Longrightarrow> sq_a s 0 = 2 * sq_j s \<Longrightarrow>
   sq_j s < sq_head s \<and> (\<forall>k. sq_writer s \<noteq> Writing (sq_j s) k) \<and>
   ((if sq_nb s = 0 then sq_mem s (sq_j s mod C) 0 else sq_b s 0) = 2 * sq_j s \<longrightarrow>
      (\<forall>k. 0 < k \<longrightarrow> k < sq_na s \<longrightarrow> k < W \<longrightarrow> sq_a s k = data (sq_j s) k))"
  unfolding reader_inv_def by blast

lemma claim_inv:
  assumes "sq_writer s = WIdle" and M: "mem_inv C W data s" and R: "reader_inv C W data s"
  defines "s' \<equiv> s\<lparr>sq_head := sq_head s + 1, sq_writer := Writing (sq_head s) 0\<rparr>"
  shows "mem_inv C W data s' \<and> writer_inv C W data s' \<and> reader_inv C W data s'"
proof (intro conjI)
  show "mem_inv C W data s'" unfolding mem_inv_def
  proof (intro allI impI)
    fix x i assume "0 < i" "sq_mem s' x 0 = 2 * i"
    then show "i < sq_head s' \<and> x = i mod C \<and> (\<forall>k. sq_writer s' \<noteq> Writing i k) \<and>
        (\<forall>k. 0 < k \<longrightarrow> k < W \<longrightarrow> sq_mem s' x k = data i k)"
      using mem_invD [OF M, of i x] by (auto simp: s'_def)
  qed
  show "writer_inv C W data s'" by (simp add: writer_inv_def s'_def)
  show "reader_inv C W data s'" unfolding reader_inv_def
  proof (intro impI)
    assume "0 < sq_j s'" "0 < sq_na s'" "sq_a s' 0 = 2 * sq_j s'"
    then show "sq_j s' < sq_head s' \<and> (\<forall>k. sq_writer s' \<noteq> Writing (sq_j s') k) \<and>
     ((if sq_nb s' = 0 then sq_mem s' (sq_j s' mod C) 0 else sq_b s' 0) = 2 * sq_j s' \<longrightarrow>
        (\<forall>k. 0 < k \<longrightarrow> k < sq_na s' \<longrightarrow> k < W \<longrightarrow> sq_a s' k = data (sq_j s') k))"
      using reader_invD [OF R] by (simp add: s'_def)
  qed
qed

text \<open>
  A write to word \<open>k\<close> of the slot the producer owns, with the new state of the producer: the slot's
  sequence number is odd before and after, or becomes the committed one.
\<close>

lemma write_inv:
  assumes w: "sq_writer s = Writing i k" and M: "mem_inv C W data s" and Wr: "writer_inv C W data s"
    and R: "reader_inv C W data s"
    and step: "(k = 0 \<and> l = 0 \<and> v = 2 * i + 1 \<and> w' = Writing i 1) \<or>
      (0 < k \<and> k < W \<and> l = k \<and> v = data i k \<and> w' = Writing i (k + 1)) \<or>
      (k = W \<and> 0 < k \<and> l = 0 \<and> v = 2 * i \<and> w' = WIdle)"
  defines "s' \<equiv> store (i mod C) l v s\<lparr>sq_writer := w'\<rparr>"
  shows "mem_inv C W data s' \<and> writer_inv C W data s' \<and> reader_inv C W data s'"
proof (intro conjI)
  note own = writer_invD [OF Wr w]
  show "mem_inv C W data s'" unfolding mem_inv_def
  proof (intro allI impI)
    fix x i' assume i': "0 < i'" "sq_mem s' x 0 = 2 * i'"
    show "i' < sq_head s' \<and> x = i' mod C \<and> (\<forall>k. sq_writer s' \<noteq> Writing i' k) \<and>
        (\<forall>k. 0 < k \<longrightarrow> k < W \<longrightarrow> sq_mem s' x k = data i' k)"
    proof (cases "x = i mod C")
      case True
      with i' step own have "k = W \<and> 0 < k \<and> l = 0 \<and> v = 2 * i \<and> w' = WIdle \<and> i' = i"
        by (auto simp: s'_def)
      with own True show ?thesis by (simp add: s'_def)
    next
      case False
      with i' have old: "sq_mem s x 0 = 2 * i'" by (simp add: s'_def)
      from mem_invD [OF M i'(1) old] w False step show ?thesis by (auto simp: s'_def)
    qed
  qed
  show "writer_inv C W data s'" unfolding writer_inv_def
  proof (intro allI impI)
    fix i' k' assume w': "sq_writer s' = Writing i' k'"
    with step have "i' = i" "(k = 0 \<and> l = 0 \<and> v = 2 * i + 1 \<and> k' = 1) \<or> (0 < k \<and> k < W \<and> l = k \<and> v = data i k \<and> k' = k + 1)"
      by (auto simp: s'_def)
    with own show "i' < sq_head s' \<and> (0 < k' \<longrightarrow> sq_mem s' (i' mod C) 0 = 2 * i' + 1) \<and>
       (\<forall>l'. 0 < l' \<longrightarrow> l' < k' \<longrightarrow> l' < W \<longrightarrow> sq_mem s' (i' mod C) l' = data i' l')"
      by (elim disjE) (auto simp: s'_def less_Suc_eq)
  qed
  show "reader_inv C W data s'" unfolding reader_inv_def
  proof (intro impI)
    assume r: "0 < sq_j s'" "0 < sq_na s'" "sq_a s' 0 = 2 * sq_j s'"
    then have old: "sq_j s < sq_head s" "\<forall>k. sq_writer s \<noteq> Writing (sq_j s) k"
      "(if sq_nb s = 0 then sq_mem s (sq_j s mod C) 0 else sq_b s 0) = 2 * sq_j s \<Longrightarrow>
        \<forall>k. 0 < k \<longrightarrow> k < sq_na s \<longrightarrow> k < W \<longrightarrow> sq_a s k = data (sq_j s) k"
      using reader_invD [OF R] by (simp_all add: s'_def)
    then have ij: "sq_j s \<noteq> i" using w by auto
    have "sq_mem s' (sq_j s mod C) 0 = 2 * sq_j s \<Longrightarrow> sq_mem s (sq_j s mod C) 0 = 2 * sq_j s"
      using step ij by (auto simp: s'_def split: if_splits)
    with old ij step show "sq_j s' < sq_head s' \<and> (\<forall>k. sq_writer s' \<noteq> Writing (sq_j s') k) \<and>
     ((if sq_nb s' = 0 then sq_mem s' (sq_j s' mod C) 0 else sq_b s' 0) = 2 * sq_j s' \<longrightarrow>
        (\<forall>k. 0 < k \<longrightarrow> k < sq_na s' \<longrightarrow> k < W \<longrightarrow> sq_a s' k = data (sq_j s') k))"
      unfolding s'_def by (cases "sq_nb s = 0") auto
  qed
qed

lemma read_a_inv:
  assumes "sq_na s < W" and nb: "sq_nb s = 0" and M: "mem_inv C W data s" and R: "reader_inv C W data s"
  defines "s' \<equiv> s\<lparr>sq_a := (sq_a s)(sq_na s := sq_mem s (sq_j s mod C) (sq_na s)), sq_na := sq_na s + 1\<rparr>"
  shows "reader_inv C W data s'"
  unfolding reader_inv_def
proof (intro impI)
  let ?j = "sq_j s"
  assume r: "0 < sq_j s'" "0 < sq_na s'" "sq_a s' 0 = 2 * sq_j s'"
  then have j: "0 < ?j" by (simp add: s'_def)
  have mem: "?j < sq_head s \<and> (\<forall>k. sq_writer s \<noteq> Writing ?j k) \<and>
      (\<forall>k. 0 < k \<longrightarrow> k < W \<longrightarrow> sq_mem s (?j mod C) k = data ?j k)"
    if "sq_mem s (?j mod C) 0 = 2 * ?j"
    using mem_invD [OF M j that] by blast
  show "sq_j s' < sq_head s' \<and> (\<forall>k. sq_writer s' \<noteq> Writing (sq_j s') k) \<and>
     ((if sq_nb s' = 0 then sq_mem s' (sq_j s' mod C) 0 else sq_b s' 0) = 2 * sq_j s' \<longrightarrow>
        (\<forall>k. 0 < k \<longrightarrow> k < sq_na s' \<longrightarrow> k < W \<longrightarrow> sq_a s' k = data (sq_j s') k))"
  proof (cases "sq_na s = 0")
    case True
    with r mem show ?thesis by (simp add: s'_def)
  next
    case False
    then have "sq_a s 0 = 2 * ?j" using r by (simp add: s'_def)
    from reader_invD [OF R j _ this] False nb mem show ?thesis by (auto simp: s'_def less_Suc_eq)
  qed
qed

lemma read_b_inv:
  assumes "sq_na s = W" and "sq_nb s < W" and M: "mem_inv C W data s" and R: "reader_inv C W data s"
  defines "s' \<equiv> s\<lparr>sq_b := (sq_b s)(sq_nb s := sq_mem s (sq_j s mod C) (sq_nb s)), sq_nb := sq_nb s + 1\<rparr>"
  shows "reader_inv C W data s'"
  unfolding reader_inv_def
proof (intro impI)
  assume r: "0 < sq_j s'" "0 < sq_na s'" "sq_a s' 0 = 2 * sq_j s'"
  then have "0 < sq_j s" "0 < sq_na s" "sq_a s 0 = 2 * sq_j s" by (simp_all add: s'_def)
  from reader_invD [OF R this]
  show "sq_j s' < sq_head s' \<and> (\<forall>k. sq_writer s' \<noteq> Writing (sq_j s') k) \<and>
     ((if sq_nb s' = 0 then sq_mem s' (sq_j s' mod C) 0 else sq_b s' 0) = 2 * sq_j s' \<longrightarrow>
        (\<forall>k. 0 < k \<longrightarrow> k < sq_na s' \<longrightarrow> k < W \<longrightarrow> sq_a s' k = data (sq_j s') k))"
    unfolding s'_def by (cases "sq_nb s = 0") auto
qed

lemma mem_writer_frame:
  assumes "mem_inv C W data s" "writer_inv C W data s"
    and "sq_mem s' = sq_mem s" "sq_head s' = sq_head s" "sq_writer s' = sq_writer s"
  shows "mem_inv C W data s' \<and> writer_inv C W data s'"
  using assms unfolding mem_inv_def writer_inv_def by simp

lemma sq_inv_step:
  assumes "sq_step C W data s s'" and "0 < W"
    and M: "mem_inv C W data s" and Wr: "writer_inv C W data s" and R: "reader_inv C W data s"
  shows "mem_inv C W data s' \<and> writer_inv C W data s' \<and> reader_inv C W data s'"
  using assms(1)
proof (cases rule: sq_step.cases)
  case claim
  with claim_inv M R show ?thesis by blast
next
  case (copy_seq i)
  with write_inv [OF _ M Wr R, of i 0 0 "2 * i + 1" "Writing i 1"] show ?thesis by simp
next
  case (copy_word i k)
  with write_inv [OF _ M Wr R, of i k k "data i k" "Writing i (k + 1)"] show ?thesis by simp
next
  case (commit i)
  with write_inv [OF _ M Wr R, of i W 0 "2 * i" WIdle] assms(2) show ?thesis by simp
next
  case (look j)
  with mem_writer_frame [OF M Wr, of s'] show ?thesis by (simp add: reader_inv_def)
next
  case read_a
  with mem_writer_frame [OF M Wr, of s'] read_a_inv [OF _ _ M R] show ?thesis by simp
next
  case read_b
  with mem_writer_frame [OF M Wr, of s'] read_b_inv [OF _ _ M R] show ?thesis by simp
qed

lemma sq_invariant:
  assumes "sq_reach C W data s" and "0 < W"
  shows "mem_inv C W data s \<and> writer_inv C W data s \<and> reader_inv C W data s"
  using assms
proof (induction rule: sq_reach.induct)
  case sq_init
  show ?case by (simp add: sq_invs seqlock0_def)
next
  case (sq_next s s')
  then show ?case using sq_inv_step by blast
qed

section \<open>Executions with a reader that pauses\<close>

text \<open>A whole commit, from an idle producer, while the reader stands still.\<close>

lemma copy_words:
  assumes "sq_reach C W data s" and "sq_writer s = Writing i 1" and "0 < n" and "n \<le> W"
  shows "\<exists>m. sq_reach C W data (s\<lparr>sq_mem := m, sq_writer := Writing i n\<rparr>) \<and>
     (\<forall>k. 0 < k \<longrightarrow> k < n \<longrightarrow> m (i mod C) k = data i k)"
  using assms(3,4)
proof (induction n)
  case (Suc n)
  show ?case
  proof (cases "n = 0")
    case True
    have "s\<lparr>sq_mem := sq_mem s, sq_writer := Writing i 1\<rparr> = s" using assms(2) by simp
    with True assms(1) show ?thesis by (intro exI [of _ "sq_mem s"]) simp
  next
    case False
    with Suc obtain m where m: "sq_reach C W data (s\<lparr>sq_mem := m, sq_writer := Writing i n\<rparr>)"
      "\<forall>k. 0 < k \<longrightarrow> k < n \<longrightarrow> m (i mod C) k = data i k" by auto
    have "sq_step C W data (s\<lparr>sq_mem := m, sq_writer := Writing i n\<rparr>)
        (store (i mod C) n (data i n) (s\<lparr>sq_mem := m, sq_writer := Writing i n\<rparr>)\<lparr>sq_writer := Writing i (n + 1)\<rparr>)"
      using False Suc.prems by (intro copy_word) simp_all
    from sq_next [OF m(1) this]
    have "sq_reach C W data (s\<lparr>sq_mem := m(i mod C := (m (i mod C))(n := data i n)), sq_writer := Writing i (Suc n)\<rparr>)"
      by (simp add: store_def)
    moreover have "\<forall>k. 0 < k \<longrightarrow> k < Suc n \<longrightarrow> (m(i mod C := (m (i mod C))(n := data i n))) (i mod C) k = data i k"
      using m(2) by (auto simp: less_Suc_eq)
    ultimately show ?thesis by blast
  qed
qed simp

lemma whole_commit:
  assumes "sq_reach C W data s" and "sq_writer s = WIdle" and "0 < W"
  shows "\<exists>m. sq_reach C W data (s\<lparr>sq_head := sq_head s + 1, sq_mem := m\<rparr>) \<and>
     m (sq_head s mod C) 0 = 2 * sq_head s \<and>
     (\<forall>k. 0 < k \<longrightarrow> k < W \<longrightarrow> m (sq_head s mod C) k = data (sq_head s) k)"
proof -
  let ?i = "sq_head s"
  let ?s1 = "s\<lparr>sq_head := ?i + 1, sq_writer := Writing ?i 0\<rparr>"
  have "sq_reach C W data ?s1" by (rule sq_next [OF assms(1) claim [OF assms(2)]])
  then have r2: "sq_reach C W data (store (?i mod C) 0 (2 * ?i + 1) ?s1\<lparr>sq_writer := Writing ?i 1\<rparr>)"
    by (rule sq_next) (rule copy_seq, simp)
  from copy_words [OF r2, of ?i W] assms(3) obtain m where
    m: "sq_reach C W data (store (?i mod C) 0 (2 * ?i + 1) ?s1\<lparr>sq_writer := Writing ?i 1, sq_mem := m, sq_writer := Writing ?i W\<rparr>)"
      "\<forall>k. 0 < k \<longrightarrow> k < W \<longrightarrow> m (?i mod C) k = data ?i k"
    by auto
  let ?m = "m(?i mod C := (m (?i mod C))(0 := 2 * ?i))"
  from sq_next [OF m(1) commit] have "sq_reach C W data (s\<lparr>sq_head := ?i + 1, sq_mem := ?m, sq_writer := WIdle\<rparr>)"
    by (simp add: store_def)
  then have "sq_reach C W data (s\<lparr>sq_head := ?i + 1, sq_mem := ?m\<rparr>)" using assms(2) by (cases s) simp
  with m(2) show ?thesis by (intro exI [of _ ?m]) auto
qed

lemma many_commits:
  assumes "sq_reach C W data s" and "sq_writer s = WIdle" and "0 < W"
  shows "\<exists>m. sq_reach C W data (s\<lparr>sq_head := sq_head s + Suc n, sq_mem := m\<rparr>) \<and>
     m ((sq_head s + n) mod C) 0 = 2 * (sq_head s + n) \<and>
     (\<forall>k. 0 < k \<longrightarrow> k < W \<longrightarrow> m ((sq_head s + n) mod C) k = data (sq_head s + n) k)"
proof (induction n)
  case 0
  from whole_commit [OF assms] show ?case by simp
next
  case (Suc n)
  then obtain m where "sq_reach C W data (s\<lparr>sq_head := sq_head s + Suc n, sq_mem := m\<rparr>)" by blast
  from whole_commit [OF this _ assms(3)] assms(2) show ?case by simp
qed

text \<open>The reader's lookups, while the producer stands still.\<close>

lemma first_lookup:
  assumes "sq_reach C W data s" and "n \<le> W"
  shows "\<exists>a. sq_reach C W data (s\<lparr>sq_j := j, sq_na := n, sq_nb := 0, sq_a := a\<rparr>) \<and>
     (\<forall>k < n. a k = sq_mem s (j mod C) k)"
  using assms(2)
proof (induction n)
  case 0
  have "sq_reach C W data (s\<lparr>sq_j := j, sq_na := 0, sq_nb := 0\<rparr>)" by (rule sq_next [OF assms(1) look])
  then have "sq_reach C W data (s\<lparr>sq_j := j, sq_na := 0, sq_nb := 0, sq_a := sq_a s\<rparr>)" by simp
  then show ?case by (intro exI [of _ "sq_a s"]) simp
next
  case (Suc n)
  then obtain a where a: "sq_reach C W data (s\<lparr>sq_j := j, sq_na := n, sq_nb := 0, sq_a := a\<rparr>)"
    "\<forall>k < n. a k = sq_mem s (j mod C) k" by auto
  from sq_next [OF a(1) read_a] Suc.prems
  have "sq_reach C W data (s\<lparr>sq_j := j, sq_na := Suc n, sq_nb := 0, sq_a := a(n := sq_mem s (j mod C) n)\<rparr>)"
    by (cases s) simp
  moreover have "\<forall>k < Suc n. (a(n := sq_mem s (j mod C) n)) k = sq_mem s (j mod C) k"
    using a(2) by (simp add: less_Suc_eq)
  ultimately show ?case by blast
qed

lemma second_lookup:
  assumes "sq_reach C W data s" and "sq_na s = W" and "sq_nb s \<le> n" and "n \<le> W"
  shows "\<exists>b. sq_reach C W data (s\<lparr>sq_nb := n, sq_b := b\<rparr>) \<and>
     (\<forall>k < sq_nb s. b k = sq_b s k) \<and> (\<forall>k. sq_nb s \<le> k \<longrightarrow> k < n \<longrightarrow> b k = sq_mem s (sq_j s mod C) k)"
  using assms(3,4)
proof (induction n rule: dec_induct)
  case base
  have "s\<lparr>sq_nb := sq_nb s, sq_b := sq_b s\<rparr> = s" by simp
  with assms(1) show ?case by (intro exI [of _ "sq_b s"]) simp
next
  case (step n)
  then obtain b where b: "sq_reach C W data (s\<lparr>sq_nb := n, sq_b := b\<rparr>)"
    "\<forall>k < sq_nb s. b k = sq_b s k" "\<forall>k. sq_nb s \<le> k \<longrightarrow> k < n \<longrightarrow> b k = sq_mem s (sq_j s mod C) k" by auto
  from sq_next [OF b(1) read_b] step assms(2)
  have "sq_reach C W data (s\<lparr>sq_nb := Suc n, sq_b := b(n := sq_mem s (sq_j s mod C) n)\<rparr>)"
    by (cases s) simp
  moreover have "\<forall>k < sq_nb s. (b(n := sq_mem s (sq_j s mod C) n)) k = sq_b s k"
    "\<forall>k. sq_nb s \<le> k \<longrightarrow> k < Suc n \<longrightarrow> (b(n := sq_mem s (sq_j s mod C) n)) k = sq_mem s (sq_j s mod C) k"
    using b(2,3) step(1) by (simp_all add: less_Suc_eq)
  ultimately show ?case by blast
qed

lemma torn_run:
  assumes "0 < C" and "1 < W"
  shows "\<exists>s. sq_reach C W data s \<and> accepts W s \<and> sq_j s = 1 \<and>
           (\<forall>k. 0 < k \<longrightarrow> k < W \<longrightarrow> sq_b s k = data (1 + C) k)"
proof -
  have W: "0 < W" "1 \<le> W" using assms(2) by simp_all
  obtain m where s1: "sq_reach C W data (seqlock0\<lparr>sq_head := 2, sq_mem := m\<rparr>)" and m: "m (1 mod C) 0 = 2"
    using many_commits [OF sq_init [of C W data] _ W(1), of 1] by (auto simp: numeral_2_eq_2)
  obtain a where s2: "sq_reach C W data (seqlock0\<lparr>sq_head := 2, sq_mem := m, sq_j := 1, sq_na := W, sq_nb := 0, sq_a := a\<rparr>)"
    and a: "\<forall>k < W. a k = m (1 mod C) k"
    using first_lookup [OF s1 order_refl, of 1] by auto
  obtain b where s3: "sq_reach C W data (seqlock0\<lparr>sq_head := 2, sq_mem := m, sq_j := 1, sq_na := W, sq_a := a, sq_nb := 1, sq_b := b\<rparr>)"
    and b: "b 0 = m (1 mod C) 0"
    using second_lookup [OF s2, of 1] W by auto
  let ?s3 = "seqlock0\<lparr>sq_head := 2, sq_mem := m, sq_j := 1, sq_na := W, sq_a := a, sq_nb := 1, sq_b := b\<rparr>"
  have "2 + (C - 1) = 1 + C" using assms(1) by simp
  then have slot: "(2 + (C - 1)) mod C = 1 mod C" by (simp only: mod_add_self2)
  obtain m' where s4: "sq_reach C W data (?s3\<lparr>sq_head := sq_head ?s3 + Suc (C - 1), sq_mem := m'\<rparr>)"
    and m': "\<forall>k. 0 < k \<longrightarrow> k < W \<longrightarrow> m' (1 mod C) k = data (2 + (C - 1)) k"
    using many_commits [OF s3 _ W(1), of "C - 1"] slot by auto
  let ?s4 = "?s3\<lparr>sq_head := sq_head ?s3 + Suc (C - 1), sq_mem := m'\<rparr>"
  obtain b' where s5: "sq_reach C W data (?s4\<lparr>sq_nb := W, sq_b := b'\<rparr>)"
    and b': "b' 0 = b 0" "\<forall>k. 1 \<le> k \<longrightarrow> k < W \<longrightarrow> b' k = m' (1 mod C) k"
    using second_lookup [OF s4 _ _ order_refl] W by auto
  have "accepts W (?s4\<lparr>sq_nb := W, sq_b := b'\<rparr>)"
    using a b b'(1) m W by (simp add: accepts_def)
  moreover have "\<forall>k. 0 < k \<longrightarrow> k < W \<longrightarrow> b' k = data (1 + C) k"
    using b'(2) m' assms(1) by simp
  ultimately show ?thesis using s5 by (intro exI [of _ "?s4\<lparr>sq_nb := W, sq_b := b'\<rparr>"]) simp
qed

section \<open>Properties of the seqlock\<close>

text \<open>
  Claim C23: the first of the two copies is sound: whatever the interleaving of producer and reader,
  when the reader's test succeeds for an index \<open>j > 0\<close>, the record \<open>j\<close> was committed and every
  word of the first copy is the word of that record.
\<close>

theorem first_copy_never_torn:
  assumes "sq_reach C W data s" and "accepts W s" and "0 < sq_j s" and "0 < W"
  shows "sq_j s < sq_head s \<and> (\<forall>k. 0 < k \<longrightarrow> k < W \<longrightarrow> sq_a s k = data (sq_j s) k)"
proof -
  have "reader_inv C W data s" using sq_invariant [OF assms(1,4)] by blast
  from reader_invD [OF this assms(3)] assms(2,4) show ?thesis by (auto simp: accepts_def)
qed

theorem first_copy_never_torn_witness:
  "\<exists>s. sq_reach 32768 3 (\<lambda>i k. 10 * i + k) s \<and> accepts 3 s \<and> sq_a s 1 = 11 \<and> sq_a s 2 = 12"
proof -
  obtain s where "sq_reach 32768 3 (\<lambda>i k. 10 * i + k) s" "accepts 3 s" "sq_j s = 1"
    using torn_run [of 32768 3 "\<lambda>i k. 10 * i + k"] by auto
  with first_copy_never_torn [of 32768 3 "\<lambda>i k. 10 * i + k" s] show ?thesis by auto
qed

text \<open>
  Claim C40: the second copy, the one the collector keeps, is not: for every capacity, record size
  and data there is an interleaving in which the test for index 1 succeeds and the second copy
  holds the sequence number of record 1 with the words of record \<open>1 + C\<close>.
\<close>

theorem second_copy_can_be_torn:
  assumes "0 < C" and "1 < W"
  shows "\<exists>s. sq_reach C W data s \<and> accepts W s \<and> sq_j s = 1 \<and>
           (\<forall>k. 0 < k \<longrightarrow> k < W \<longrightarrow> sq_b s k = data (1 + C) k)"
  using torn_run [OF assms] .

theorem second_copy_can_be_torn_witness:
  "\<exists>s. sq_reach 32768 3 (\<lambda>i k. 10 * i + k) s \<and> accepts 3 s \<and> sq_j s = 1 \<and> sq_b s 1 = 327691"
proof -
  have "(0 :: nat) < 32768" "(1 :: nat) < 3" by simp_all
  from second_copy_can_be_torn [OF this, of "\<lambda>i k. 10 * i + k"] show ?thesis by auto
qed

end
