(* ===== verification/DeepProps.thy ===== *)
theory DeepProps
  imports Deep Seqlock
begin

text \<open>
  Properties of the deep collector: how it follows the phase, what attaching and failing to attach
  leave behind, percentiles, the cache of folded stacks and the rows of contended locks, each at a
  concrete world.
\<close>

section \<open>A concrete world\<close>

text \<open>An idle collector on a machine with two CPUs where every program attaches and all maps are empty.\<close>

definition kernel0 :: kernel where
  "kernel0 = \<lparr>kn_attach = \<lambda>_. Attaches, kn_perf_open = \<lambda>_. True, kn_ncpus = 2, kn_deep_enabled = False,
     kn_offcpu_fallback = 0, kn_rates = (1, 1, 1), kn_maps = \<lambda>_. kmap_empty,
     kn_slice = \<lambda>_. (counter_slice 2)\<lparr>ms_percpu := False\<rparr>, kn_head = Some 0,
     kn_reads = \<lambda>_. (None, None), kn_ring_cap = ring_cap, kn_percpu_recorder = False,
     kn_stack = \<lambda>_. None, kn_resolve = \<lambda>_ _ _. [], kn_kernel_sym = \<lambda>_. ''sym'',
     kn_gpu_rows = \<lambda>_ _. [], kn_now = 0\<rparr>"

definition deep_world0 :: deep_world where
  "deep_world0 = \<lparr>dw_dc = DeepCollector0, dw_kernel = kernel0, dw_rows = [], dw_open_deep_ok = True,
     dw_evidence = \<lambda>_ _. JObj [], dw_model = OnnxModel,
     dw_net = \<lparr>ne_connect = \<lambda>_ _. False, ne_send = \<lambda>_. False, ne_recv = \<lambda>_. None,
               ne_dump = \<lambda>_. None, ne_parse = \<lambda>_. None\<rparr>\<rparr>"

section \<open>Properties of the deep collector\<close>

text \<open>
  Claim C8: the deep collector follows the phase through every execution of the state machine: it is
  active exactly while the phase is DEEP, and so is the flag that makes the kernel programs collect
  deep data; entries that fail leave both off.
\<close>

theorem collector_follows_phase:
  assumes "reachable deep_ops w0 s" and "\<not> dc_active (dw_dc w0)" and "\<not> kn_deep_enabled (dw_kernel w0)"
  shows "(dc_active (dw_dc (snd s)) \<longleftrightarrow> pm_phase (fst s) = DEEP) \<and>
         (kn_deep_enabled (dw_kernel (snd s)) \<longleftrightarrow> pm_phase (fst s) = DEEP)"
proof (rule conjI)
  show "dc_active (dw_dc (snd s)) \<longleftrightarrow> pm_phase (fst s) = DEEP"
    using deep.phase_active [OF assms(1,2)] by simp
  show "kn_deep_enabled (dw_kernel (snd s)) \<longleftrightarrow> pm_phase (fst s) = DEEP"
    using assms
  proof (induction rule: reachable.induct)
    case reach_init
    then show ?case by (simp add: PhaseManager0_def)
  next
    case (reach_step s s')
    have act: "pm_phase (fst s) = DEEP \<longleftrightarrow> dc_active (dw_dc (snd s))"
      using deep.phase_active [OF reach_step.hyps(1) reach_step.prems(1)] .
    from phase_step_act [OF reach_step.hyps(2)] reach_step.IH [OF reach_step.prems] act show ?case
    proof (induction rule: phase_act.induct)
      case (act_enter p w cfg now_ns)
      then have "\<not> dc_active (dw_dc w)" by simp
      from Enter_active [OF this] show ?case
        by (simp add: EnterDeep_def Let_def deep_ops_def split: prod.splits)
    next
      case (act_close p w cfg now_ns)
      then show ?case by (simp add: ExitDeep_def deep_ops_def split: prod.splits)
    qed simp
  qed
qed

theorem collector_follows_phase_witness:
  "let s = RequestDeep deep_ops DefaultConfig 5 (PhaseManager0, deep_world0)
   in kn_deep_enabled (dw_kernel (snd s)) \<longleftrightarrow> pm_phase (fst s) = DEEP"
proof -
  have "reachable deep_ops deep_world0 (RequestDeep deep_ops DefaultConfig 5 (PhaseManager0, deep_world0))"
    by (rule reach_step [OF reach_init step_request_deep])
  from collector_follows_phase [OF this] show ?thesis
    by (simp add: deep_world0_def DeepCollector0_def kernel0_def)
qed

text \<open>
  Attaching succeeds exactly when one of the two system-call pairs attaches completely;
  every other program is optional, and after a success each optional program has a capability record
  that says whether it attached.
\<close>

theorem attach_degrades:
  "(fst (AttachDeepLinks w) \<longleftrightarrow>
      (kn_attach (dw_kernel w) ''fentry_sys'' = Attaches \<and> kn_attach (dw_kernel w) ''fexit_sys'' = Attaches) \<or>
      (kn_attach (dw_kernel w) ''on_sys_enter'' = Attaches \<and> kn_attach (dw_kernel w) ''on_sys_exit'' = Attaches)) \<and>
   (fst (AttachDeepLinks w) \<longrightarrow>
      (\<forall>n \<in> set ([''offcpu_schedule'', ''on_process_exit''] @ net_optional).
         records (kn_attach (dw_kernel w)) (dc_capabilities (dw_dc (snd (AttachDeepLinks w)))) n))"
proof -
  let ?att = "kn_attach (dw_kernel w)" and ?s0 = "(dc_deep_links (dw_dc w), dc_capabilities (dw_dc w))"
  have sys: "fst (attach_syscalls ?att s) \<longleftrightarrow> (?att ''fentry_sys'' = Attaches \<and> ?att ''fexit_sys'' = Attaches) \<or>
      (?att ''on_sys_enter'' = Attaches \<and> ?att ''on_sys_exit'' = Attaches)" for s
    using try_primary_ok [of ?att "[''fentry_sys'', ''fexit_sys'']" "fst s"]
      attach_required_ok [of ?att "[''on_sys_enter'', ''on_sys_exit'']"]
    by (cases s) (auto simp: attach_syscalls_def split: prod.splits bool.splits)
  obtain ok ls1 caps1 where a1: "attach_syscalls ?att ?s0 = (ok, ls1, caps1)" by (cases "attach_syscalls ?att ?s0") auto
  obtain ls2 caps2 where a2: "attach_optional ?att [] [''offcpu_schedule'', ''on_process_exit''] (ls1, caps1) = (ls2, caps2)"
    by fastforce
  obtain ls3 caps3 where a3: "attach_vfs ?att (ls2, caps2) = (ls3, caps3)" by fastforce
  obtain ls4 caps4 where a4: "attach_optional ?att [] net_optional (ls3, caps3) = (ls4, caps4)" by fastforce
  have m: "set caps2 \<subseteq> set caps4"
    using attach_vfs_grows [of caps2 ?att ls2] attach_optional_grows [of caps3 ?att "[]" net_optional ls3] a3 a4 by simp
  have r2: "records ?att caps2 n" if "n \<in> {''offcpu_schedule'', ''on_process_exit''}" for n
    using attach_optional_records [of n "[''offcpu_schedule'', ''on_process_exit'']" ?att "[]" ls1 caps1] that a2 by auto
  have r4: "records ?att caps4 n" if "n \<in> set net_optional" for n
    using attach_optional_records [OF that, of ?att "[]" ls3 caps3] a4 by simp
  have "records ?att caps4 n" if "n \<in> set ([''offcpu_schedule'', ''on_process_exit''] @ net_optional)" for n
    using that r4 records_mono [OF r2 m] by auto
  then show ?thesis
    using sys [of ?s0] by (simp add: AttachDeepLinks_def Let_def a1 a2 a3 a4 del: attach_optional.simps)
qed

theorem attach_degrades_witness:
  "\<exists>c \<in> set (dc_capabilities (dw_dc (snd (AttachDeepLinks deep_world0)))).
     cap_name c = ''net_kfree_skb'' \<and> cap_available c"
proof -
  have "fst (AttachDeepLinks deep_world0)"
    using attach_degrades [of deep_world0] by (simp add: deep_world0_def kernel0_def)
  with attach_degrades [of deep_world0]
  have "records (kn_attach (dw_kernel deep_world0)) (dc_capabilities (dw_dc (snd (AttachDeepLinks deep_world0)))) ''net_kfree_skb''"
    by (simp add: net_optional_def)
  then show ?thesis by (auto simp: records_def deep_world0_def kernel0_def)
qed

lemma failed_entry:
  assumes "kn_attach (dw_kernel v) ''fentry_sys'' = Attaches" and "kn_attach (dw_kernel v) ''fexit_sys'' \<noteq> Attaches"
    and "kn_attach (dw_kernel v) ''on_sys_enter'' \<noteq> Attaches"
  shows "\<not> fst (Enter n t cfg v)"
    and "dc_deep_links (dw_dc (snd (Enter n t cfg v))) = dc_deep_links (dw_dc v) @ [''fentry_sys'']"
    and "kn_attach (dw_kernel (snd (Enter n t cfg v))) = kn_attach (dw_kernel v)"
proof -
  have sys: "\<exists>caps'. attach_syscalls (kn_attach (dw_kernel v)) (ls, caps) = (False, ls @ [''fentry_sys''], caps')" for ls caps
    using assms by (simp add: attach_syscalls_def split: attach.splits)
  have att: "\<exists>caps'. AttachDeepLinks u = (False, upd_dc (\<lambda>d. d\<lparr>dc_deep_links := dc_deep_links (dw_dc u) @ [''fentry_sys''],
      dc_capabilities := caps'\<rparr>) u)" if "kn_attach (dw_kernel u) = kn_attach (dw_kernel v)" for u
    using sys [of "dc_deep_links (dw_dc u)" "dc_capabilities (dw_dc u)"] that
    by (auto simp: AttachDeepLinks_def Let_def)
  let ?w2 = "WriteSampleRateCfg (sm_offcpu_sample_rate (c_sample cfg)) (sm_iofile_sample_rate (c_sample cfg))
      (dv_net_event_sample_rate (c_devices cfg)) (SetDeep True
        (upd_dc (\<lambda>d. d\<lparr>dc_ordinal := n, dc_anomaly_start_ns := t,
                 dc_pre_interval_ms := sm_fine_interval_ms (c_sample cfg),
                 dc_post_interval_ms := sm_deep_fine_interval_ms (c_sample cfg),
                 dc_next_dump_ns := 0, dc_next_gpu_ns := 0, dc_fold_cache := [], dc_capabilities := []\<rparr>) v))"
  have same: "kn_attach (dw_kernel ?w2) = kn_attach (dw_kernel v)" "dc_deep_links (dw_dc ?w2) = dc_deep_links (dw_dc v)"
    by (simp_all add: WriteSampleRateCfg_def SetDeep_def Let_def)
  from att [OF same(1)] obtain caps' where
    a: "AttachDeepLinks ?w2 = (False, upd_dc (\<lambda>d. d\<lparr>dc_deep_links := dc_deep_links (dw_dc ?w2) @ [''fentry_sys''],
      dc_capabilities := caps'\<rparr>) ?w2)" by blast
  show "\<not> fst (Enter n t cfg v)"
    and "dc_deep_links (dw_dc (snd (Enter n t cfg v))) = dc_deep_links (dw_dc v) @ [''fentry_sys'']"
    and "kn_attach (dw_kernel (snd (Enter n t cfg v))) = kn_attach (dw_kernel v)"
    unfolding Enter_def Let_def a using same by (simp_all add: SetDeep_def)
qed

text \<open>
  A failed entry leaks what it attached: where the first fentry program attaches and no
  pair does, every failed entry returns to BASE with one more link kept, so \<open>k\<close> entries leave \<open>k\<close>
  of them attached.
\<close>

theorem failed_entries_leak_links:
  assumes "kn_attach (dw_kernel w) ''fentry_sys'' = Attaches" and "kn_attach (dw_kernel w) ''fexit_sys'' \<noteq> Attaches"
    and "kn_attach (dw_kernel w) ''on_sys_enter'' \<noteq> Attaches"
  shows "let w' = ((\<lambda>v. snd (Enter n t cfg v)) ^^ k) w
     in dc_deep_links (dw_dc w') = dc_deep_links (dw_dc w) @ replicate k ''fentry_sys'' \<and> \<not> fst (Enter n t cfg w')"
proof -
  have same: "kn_attach (dw_kernel (((\<lambda>v. snd (Enter n t cfg v)) ^^ k) w)) = kn_attach (dw_kernel w)" for k
    by (induction k) (simp_all add: failed_entry(3) assms)
  have "dc_deep_links (dw_dc (((\<lambda>v. snd (Enter n t cfg v)) ^^ k) w)) = dc_deep_links (dw_dc w) @ replicate k ''fentry_sys''"
    by (induction k) (simp_all add: failed_entry(2) same assms replicate_append_same)
  then show ?thesis by (simp add: Let_def failed_entry(1) same assms)
qed

theorem failed_entries_leak_links_witness:
  "dc_deep_links (dw_dc (((\<lambda>v. snd (Enter 1 0 DefaultConfig v)) ^^ 3)
     (upd_kernel (kn_attach_update (\<lambda>_ n. if n = ''fentry_sys'' then Attaches else NoProgram)) deep_world0)))
   = [''fentry_sys'', ''fentry_sys'', ''fentry_sys'']"
proof -
  let ?w = "upd_kernel (kn_attach_update (\<lambda>_ n. if n = ''fentry_sys'' then Attaches else NoProgram)) deep_world0"
  have "kn_attach (dw_kernel ?w) ''fentry_sys'' = Attaches" "kn_attach (dw_kernel ?w) ''fexit_sys'' \<noteq> Attaches"
    "kn_attach (dw_kernel ?w) ''on_sys_enter'' \<noteq> Attaches" by simp_all
  note l = failed_entries_leak_links [OF this, where n = 1 and t = 0 and cfg = DefaultConfig and k = 3]
  have "dc_deep_links (dw_dc ?w) = []" by (simp add: deep_world0_def DeepCollector0_def)
  with l show ?thesis by (simp add: Let_def numeral_3_eq_3)
qed

lemma nat_floor_part:
  assumes "0 \<le> (q :: double)" and "q \<le> 1"
  shows "nat \<lfloor>of_nat n * q\<rfloor> \<le> n"
proof -
  have "of_nat n * q \<le> of_nat n" using assms by (simp add: mult_left_le)
  then have "\<lfloor>of_nat n * q\<rfloor> \<le> int n" by (metis floor_mono floor_of_nat of_int_of_nat_eq)
  then show ?thesis by simp
qed

lemma rank_target_unat:
  assumes "0 \<le> q" and "q \<le> 1"
  shows "unat (rank_target n q) = max 1 (nat \<lfloor>of_nat (unat n) * q\<rfloor>)"
proof -
  define r where "r = nat \<lfloor>of_nat (unat n) * q\<rfloor>"
  have "r \<le> unat n" unfolding r_def by (rule nat_floor_part [OF assms])
  moreover have "unat n < 2 ^ 64" using unsigned_less [of n, where ?'a = nat] by simp
  ultimately have "r < 2 ^ 64" by (rule le_less_trans)
  then have u: "unat (of_nat r :: u64) = r" by (simp add: unat_of_nat take_bit_nat_eq_self)
  have "rank_target n q = (if (of_nat r :: u64) = 0 then 1 else of_nat r)"
    by (simp only: rank_target_def Let_def r_def)
  then show ?thesis using u unfolding r_def [symmetric] by (cases "r = 0") (auto simp: max_def)
qed

lemma find_bin_rank:
  assumes "sum_list (map unat hs) < 2 ^ 64" and "unat t = r" and "0 < r" and "r \<le> sum_list (map unat hs)"
  shows "\<exists>i < length hs. find_bin t 0 hs = Some i \<and> sum_list (map unat (take i hs)) < r \<and>
    r \<le> sum_list (map unat (take (Suc i) hs))"
proof -
  have z: "unat (0 :: u64) = 0" by simp
  have b: "unat (0 :: u64) + sum_list (map unat hs) < 2 ^ 64" "unat (0 :: u64) < unat t"
    "unat t \<le> unat (0 :: u64) + sum_list (map unat hs)"
    unfolding z using assms by (simp_all only: add_0)
  from find_bin_exists [OF b(1) b(3) b(2)] obtain i where i: "find_bin t 0 hs = Some i" by blast
  from find_bin_Some [OF i b(1,2)] i show ?thesis unfolding z assms(2) add_0 by blast
qed

text \<open>
  A percentile is the lower edge of the bin that holds the wanted rank: with the target rank
  \<open>max 1 (total * q)\<close>, the bins below hold fewer samples and the bins up to it at least as many. An
  empty histogram gives 0.
\<close>

theorem percentile_finds_rank:
  assumes "sum_list (map unat hist) < 2 ^ 64" and "0 \<le> q" and "q \<le> 1"
  shows "if sum_list (map unat hist) = 0 then PercentileUs hist (length hist) base factor q = 0
     else \<exists>i < length hist. PercentileUs hist (length hist) base factor q = of_nat (unat (base * factor ^ i)) / 1000 \<and>
       sum_list (map unat (take i hist)) < max 1 (nat \<lfloor>of_nat (sum_list (map unat hist)) * q\<rfloor>) \<and>
       max 1 (nat \<lfloor>of_nat (sum_list (map unat hist)) * q\<rfloor>) \<le> sum_list (map unat (take (Suc i) hist))"
proof -
  have tot: "unat (hist_total hist) = sum_list (map unat hist)" by (rule hist_total_unat [OF assms(1)])
  define n where "n = sum_list (map unat hist)"
  define r where "r = max 1 (nat \<lfloor>of_nat n * q\<rfloor>)"
  have t: "unat (rank_target (hist_total hist) q) = r"
    by (simp only: rank_target_unat [OF assms(2,3)] tot r_def n_def)
  show ?thesis
  proof (cases "n = 0")
    case True
    then have "hist_total hist = 0" using tot by (simp only: n_def unat_eq_zero)
    with True show ?thesis by (simp add: n_def PercentileUs_def)
  next
    case False
    then have nz: "hist_total hist \<noteq> 0" using tot by (auto simp: n_def unat_eq_zero)
    have "0 < r" by (simp only: r_def max.strict_coboundedI1 zero_less_one)
    moreover have "r \<le> sum_list (map unat hist)"
      using False nat_floor_part [OF assms(2,3), of n] unfolding r_def n_def [symmetric] by simp
    ultimately have "0 < r" "r \<le> sum_list (map unat hist)" by blast+
    from find_bin_rank [OF assms(1) t this] obtain i where
      i: "i < length hist" "find_bin (rank_target (hist_total hist) q) 0 hist = Some i"
        "sum_list (map unat (take i hist)) < r" "r \<le> sum_list (map unat (take (Suc i) hist))" by blast
    have "PercentileUs hist (length hist) base factor q = of_nat (unat (base * factor ^ i)) / 1000"
      using i(2) nz by (simp add: PercentileUs_def)
    with i False show ?thesis unfolding r_def n_def by (simp only: if_False) blast
  qed
qed

theorem percentile_finds_rank_witness:
  "\<exists>i < 4. PercentileUs [0, 5, 4, 1] 4 256 4 (1 / 2) = of_nat (unat (256 * 4 ^ i :: u64)) / 1000 \<and> i = 1"
proof -
  let ?h = "[0, 5, 4, 1] :: u32 list"
  have h: "sum_list (map unat ?h) = 10" and f: "nat \<lfloor>of_nat 10 * (1 / 2 :: double)\<rfloor> = 5" by simp_all
  then have "sum_list (map unat ?h) < 2 ^ 64" by simp
  moreover have "0 \<le> (1 / 2 :: double)" "(1 / 2 :: double) \<le> 1" by simp_all
  ultimately have "if sum_list (map unat ?h) = 0 then PercentileUs ?h (length ?h) 256 4 (1 / 2) = 0
     else \<exists>i < length ?h. PercentileUs ?h (length ?h) 256 4 (1 / 2) = of_nat (unat (256 * 4 ^ i :: u64)) / 1000 \<and>
       sum_list (map unat (take i ?h)) < max 1 (nat \<lfloor>of_nat (sum_list (map unat ?h)) * (1 / 2 :: double)\<rfloor>) \<and>
       max 1 (nat \<lfloor>of_nat (sum_list (map unat ?h)) * (1 / 2 :: double)\<rfloor>) \<le> sum_list (map unat (take (Suc i) ?h))"
    by (rule percentile_finds_rank)
  then have "\<exists>i < length ?h. PercentileUs ?h (length ?h) 256 4 (1 / 2) = of_nat (unat (256 * 4 ^ i :: u64)) / 1000 \<and>
       sum_list (map unat (take i ?h)) < max 1 5 \<and> max 1 5 \<le> sum_list (map unat (take (Suc i) ?h))"
    unfolding h f by (simp only: if_False zero_neq_numeral [symmetric])
  then obtain i where
    i: "i < length ?h" "PercentileUs ?h (length ?h) 256 4 (1 / 2) = of_nat (unat (256 * 4 ^ i :: u64)) / 1000"
      "sum_list (map unat (take i ?h)) < max 1 5" "max 1 5 \<le> sum_list (map unat (take (Suc i) ?h))" by blast
  from i(1) consider "i = 0" | "i = 1" | "i = 2" | "i = 3" by (simp add: numeral_eq_Suc) linarith
  then have "i = 1"
  proof cases
    assume "i = 0" then show ?thesis using i(4) by simp
  next
    have "sum_list (map unat (take 2 ?h)) = 5" by simp
    moreover assume "i = 2"
    ultimately show ?thesis using i(3) by (simp only: max_def split: if_splits)
  next
    have "sum_list (map unat (take 3 ?h)) = 9" by simp
    moreover assume "i = 3"
    ultimately show ?thesis using i(3) by (simp only: max_def split: if_splits)
  qed
  moreover have "length ?h = 4" by simp
  ultimately show ?thesis using i(1,2) by (intro exI [of _ i]) (simp only:)
qed

text \<open>
  The folded-stack cache answers for the wrong process: its key is made of the stack id and
  the side only, so the same user stack id seen for a second process returns the frames that were
  resolved in the memory map of the first.
\<close>

theorem fold_cache_ignores_process:
  assumes "map_of (dc_fold_cache (dw_dc w)) (fold_key sid user) = None"
  shows "let (s, w') = Folded sid pid user w in Folded sid pid' user w' = (s, w')"
  using assms by (simp add: Folded_def Let_def split: prod.splits)

theorem fold_cache_ignores_process_witness:
  "let w = upd_kernel (\<lambda>k. k\<lparr>kn_stack := (\<lambda>_. Some [4096]),
         kn_resolve := (\<lambda>pid _ _. if pid = 10 then ''alpha'' else ''beta'')\<rparr>) deep_world0
   in fst (Folded 3 20 True (snd (Folded 3 10 True w))) = ''alpha''"
proof -
  let ?w = "upd_kernel (\<lambda>k. k\<lparr>kn_stack := (\<lambda>_. Some [4096]),
         kn_resolve := (\<lambda>pid _ _. if pid = 10 then ''alpha'' else ''beta'')\<rparr>) deep_world0"
  have none: "map_of (dc_fold_cache (dw_dc ?w)) (fold_key 3 True) = None"
    by (simp add: deep_world0_def DeepCollector0_def)
  have "fst (Folded 3 10 True ?w) = ''alpha''"
    using none by (simp add: Folded_def Let_def)
  with fold_cache_ignores_process [OF none, of 10 20] show ?thesis
    by (simp add: Let_def split: prod.splits)
qed

text \<open>
  The lock rows of an episode: a lock whose counter did not move since the baseline gives no
  row; one that moved from \<open>b\<close> to \<open>c\<close> gives one row with the difference of the counts, but with the
  latency sum since the lock was first seen, not since the baseline.
\<close>

theorem lock_rows_delta_count_total_latency:
  assumes "map_of base (rd_u64 key 0) = Some b" and "b \<le> lh_count (LockHotVal_of val)"
  shows "lock_row base resolve (key, val) =
     (if lh_count (LockHotVal_of val) = b then []
      else [DeepLock (rd_u64 key 0) (lh_count (LockHotVal_of val) - b) (lh_lat_sum (LockHotVal_of val))
              (resolve (rd_u64 key 0))])"
  using assms by (auto simp: lock_row_def Let_def)

theorem lock_rows_delta_count_total_latency_witness:
  "lock_row [(0, 5)] (\<lambda>_. ''lk'') (le_bytes 8 0, le_bytes 8 (unat (7 :: u64)) @ le_bytes 8 (unat (900 :: u64)) @ [])
   = [DeepLock 0 2 900 ''lk'']"
proof -
  let ?key = "le_bytes 8 0" and ?val = "le_bytes 8 (unat (7 :: u64)) @ le_bytes 8 (unat (900 :: u64)) @ []"
  have k: "rd_u64 ?key 0 = 0" using rd_u64_le_bytes [of 0 "[]" 0 "[]"] by simp
  have c: "lh_count (LockHotVal_of ?val) = 7"
    using rd_u64_le_bytes [of 0 "[]" 7 "le_bytes 8 (unat (900 :: u64))"] by (simp add: LockHotVal_of_def)
  have l: "lh_lat_sum (LockHotVal_of ?val) = 900"
    using rd_u64_le_bytes [of 8 "le_bytes 8 (unat (7 :: u64))" 900 "[]"] by (simp add: LockHotVal_of_def)
  have "map_of [(0, 5)] (rd_u64 ?key 0) = Some (5 :: u64)" "5 \<le> lh_count (LockHotVal_of ?val)"
    by (simp_all only: k c) simp_all
  from lock_rows_delta_count_total_latency [OF this, of "\<lambda>_. ''lk''"] k c l show ?thesis by simp
qed

end
