(* ===== verification/Symbols.thy ===== *)
theory Symbols
  imports Metrics
begin

text \<open>
  The text scanners of the collector (stream extraction and \<^verbatim>\<open>sscanf\<close> conversions of the
  C and C++ library, as far as the code uses them) and the stack symboliser,
  \<^verbatim>\<open>StackSymbolizer\<close> in \<^verbatim>\<open>src/collect/ebpf_manager.cpp\<close>: kernel symbols by binary
  search over \<^verbatim>\<open>/proc/kallsyms\<close>, user addresses through a cache of \<^verbatim>\<open>/proc/<pid>/maps\<close>.
\<close>

section \<open>Scanners\<close>

definition is_hex :: "char \<Rightarrow> bool" where
  "is_hex c \<longleftrightarrow> is_digit c \<or> (let n = (of_char c :: nat) in (97 \<le> n \<and> n \<le> 102) \<or> (65 \<le> n \<and> n \<le> 70))"

definition hex_digit :: "char \<Rightarrow> nat" where
  "hex_digit c =
     (if is_digit c then digit_val c
      else let n = (of_char c :: nat) in if 97 \<le> n then n - 87 else n - 55)"

definition hex_val :: "string \<Rightarrow> nat" where
  "hex_val ds = foldl (\<lambda>a c. 16 * a + hex_digit c) 0 ds"

text \<open>
  \<^verbatim>\<open>is >> std::hex >> v\<close> for an unsigned 64-bit \<open>v\<close>: whether it succeeded, the value stored
  (0 without digits, all ones on overflow) and the text left.
\<close>

definition scan_hex :: "string \<Rightarrow> bool \<times> u64 \<times> string" where
  "scan_hex s =
     (let (neg, r0) = strtoull_sign (dropWhile is_space s);
          r = (if starts_with ''0x'' r0 \<or> starts_with ''0X'' r0 then drop 2 r0 else r0);
          ds = takeWhile is_hex r; rest = dropWhile is_hex r; v = hex_val ds
      in if ds = [] then (False, 0, rest)
         else if 2 ^ 64 \<le> v then (False, - 1, rest)
         else (True, if neg then - of_nat v else of_nat v, rest))"

text \<open>\<^verbatim>\<open>is >> c\<close> for a character, and \<^verbatim>\<open>is >> w\<close> for a word of at most \<open>n\<close> characters.\<close>

definition scan_char :: "string \<Rightarrow> (char \<times> string) option" where
  "scan_char s = (case dropWhile is_space s of [] \<Rightarrow> None | c # r \<Rightarrow> Some (c, r))"

definition scan_word :: "nat \<Rightarrow> string \<Rightarrow> (string \<times> string) option" where
  "scan_word n s =
     (let r = dropWhile is_space s; w = take n (takeWhile (\<lambda>c. \<not> is_space c) r)
      in if w = [] then None else Some (w, drop (length w) r))"

text \<open>
  The conversions \<^verbatim>\<open>%u\<close>, \<^verbatim>\<open>%hhu\<close> and \<^verbatim>\<open>%llu\<close> of \<^verbatim>\<open>sscanf\<close>: white space, an optional
  sign, decimal digits; the value is read as 64 bits and truncated by the caller.
\<close>

definition scan_dec :: "string \<Rightarrow> (u64 \<times> string) option" where
  "scan_dec s =
     (case strtoull s of
        None \<Rightarrow> None
      | Some v \<Rightarrow> Some (v, dropWhile is_digit (snd (strtoull_sign (dropWhile is_space s)))))"

text \<open>A number of conversions \<^verbatim>\<open>" %llu"\<close> in a row; fewer than wanted is a failure.\<close>

fun scan_decs :: "nat \<Rightarrow> string \<Rightarrow> (u64 list \<times> string) option" where
  "scan_decs 0 s = Some ([], s)"
| "scan_decs (Suc n) s =
     (case scan_dec s of
        None \<Rightarrow> None
      | Some (v, r) \<Rightarrow> map_option (\<lambda>(vs, t). (v # vs, t)) (scan_decs n r))"

section \<open>Hexadecimal output\<close>

definition hex_char :: "nat \<Rightarrow> char" where
  "hex_char d = (if d < 10 then digit_char d else char_of (d + 87))"

fun show_hex :: "nat \<Rightarrow> string" where
  "show_hex n = (if n < 16 then [hex_char n] else show_hex (n div 16) @ [hex_char (n mod 16)])"

declare show_hex.simps [simp del]

lemma of_char_hex_char: "d < 16 \<Longrightarrow> (of_char (hex_char d) :: nat) = (if d < 10 then 48 + d else d + 87)"
  by (simp add: hex_char_def of_char_digit_char)

lemma is_hex_char [simp]: "d < 16 \<Longrightarrow> is_hex (hex_char d)"
  using of_char_hex_char [of d] by (auto simp: is_hex_def is_digit_def Let_def split: if_splits)

lemma hex_digit_char [simp]: "d < 16 \<Longrightarrow> hex_digit (hex_char d) = d"
  using of_char_hex_char [of d]
  by (auto simp: hex_digit_def is_digit_def digit_val_def Let_def split: if_splits)

lemma hex_val_append: "hex_val (ds @ [c]) = 16 * hex_val ds + hex_digit c"
  by (simp add: hex_val_def)

lemma show_hex_all: "list_all is_hex (show_hex n)"
  by (induction n rule: show_hex.induct) (subst show_hex.simps, auto)

lemma show_hex_nonempty [simp]: "show_hex n \<noteq> []"
  by (subst show_hex.simps) auto

lemma hex_val_show_hex [simp]: "hex_val (show_hex n) = n"
proof (induction n rule: show_hex.induct)
  case (1 n)
  show ?case
  proof (cases "n < 16")
    case True
    then show ?thesis by (subst show_hex.simps) (simp add: hex_val_def)
  next
    case False
    with "1.IH" have "hex_val (show_hex (n div 16)) = n div 16" by simp
    with False show ?thesis by (subst show_hex.simps) (simp add: hex_val_append)
  qed
qed

lemma is_hex_not_space: "is_hex c \<Longrightarrow> \<not> is_space c"
  by (auto simp: is_hex_def is_digit_def is_space_def Let_def)

lemma is_hex_not_sign: "is_hex c \<Longrightarrow> c \<noteq> CHR ''-'' \<and> c \<noteq> CHR ''+'' \<and> c \<noteq> CHR ''x'' \<and> c \<noteq> CHR ''X''"
  by (auto simp: is_hex_def is_digit_def Let_def)

lemma show_hex_Cons: "\<exists>c r. show_hex n = c # r \<and> is_hex c \<and> list_all is_hex r"
  using show_hex_all [of n] by (cases "show_hex n") auto

text \<open>Reading back a printed number, with any text behind it that does not start with a digit.\<close>

lemma scan_hex_digits:
  assumes "ds \<noteq> []" and "list_all is_hex ds" and "hex_val ds < 2 ^ 64"
    and "t = [] \<or> \<not> is_hex (hd t) \<and> hd t \<notin> {CHR ''x'', CHR ''X''}"
  shows "scan_hex (ds @ t) = (True, of_nat (hex_val ds), t)"
proof -
  obtain c r where cr: "ds = c # r" "is_hex c" "list_all is_hex r" using assms(1,2) by (cases ds) auto
  have sp: "dropWhile is_space (ds @ t) = ds @ t"
    using cr is_hex_not_space by simp
  have sg: "strtoull_sign (ds @ t) = (False, ds @ t)"
    using cr is_hex_not_sign [OF cr(2)] by (simp add: strtoull_sign_def)
  have pre: "\<not> starts_with ''0x'' (ds @ t)" "\<not> starts_with ''0X'' (ds @ t)"
    using cr(1,3) is_hex_not_sign assms(4) by (cases r; cases t; auto)+
  have tw: "takeWhile is_hex (ds @ t) = ds" "dropWhile is_hex (ds @ t) = t"
    using assms(2,4) by (auto simp: list_all_iff takeWhile_append dropWhile_append; cases t; auto)+
  show ?thesis using assms(1,3) by (simp add: scan_hex_def sp sg pre tw Let_def)
qed

section \<open>Kernel symbols\<close>

text \<open>One line of \<^verbatim>\<open>/proc/kallsyms\<close>: address, type, name; other lines are skipped.\<close>

definition ksym_line :: "string \<Rightarrow> (u64 \<times> string) option" where
  "ksym_line line =
     (case scan_hex line of
        (False, _, _) \<Rightarrow> None
      | (True, addr, r) \<Rightarrow>
          (case scan_char r of
             None \<Rightarrow> None
           | Some (_, r2) \<Rightarrow>
               (case scan_word (length r2) r2 of
                  None \<Rightarrow> None
                | Some (name, _) \<Rightarrow> Some (addr, name))))"

definition LoadKallsyms :: "string \<Rightarrow> (u64 \<times> string) list" where
  "LoadKallsyms file = List.map_filter ksym_line (getlines file)"

text \<open>The binary search for the first symbol above an address.\<close>

function ksym_search :: "(u64 \<times> string) list \<Rightarrow> u64 \<Rightarrow> nat \<Rightarrow> nat \<Rightarrow> nat" where
  "ksym_search ks ip lo hi =
     (if lo < hi then
        let mid = lo + (hi - lo) div 2
        in if fst (ks ! mid) \<le> ip then ksym_search ks ip (mid + 1) hi else ksym_search ks ip lo mid
      else lo)"
  by pat_completeness auto
termination
proof (relation "measure (\<lambda>(ks, ip, lo, hi). hi - lo)")
  show "wf (measure (\<lambda>(ks, ip, lo, hi). hi - lo))" by simp
next
  fix ks :: "(u64 \<times> string) list" and ip :: u64 and lo hi mid :: nat
  assume "lo < hi" and "mid = lo + (hi - lo) div 2"
  then show "((ks, ip, mid + 1, hi), ks, ip, lo, hi) \<in> measure (\<lambda>(ks, ip, lo, hi). hi - lo)" by simp
next
  fix ks :: "(u64 \<times> string) list" and ip :: u64 and lo hi mid :: nat
  assume lt: "lo < hi" and mid: "mid = lo + (hi - lo) div 2"
  then have "(hi - lo) div 2 < hi - lo" by simp
  with lt mid show "((ks, ip, lo, mid), ks, ip, lo, hi) \<in> measure (\<lambda>(ks, ip, lo, hi). hi - lo)" by simp
qed

declare ksym_search.simps [simp del]

text \<open>\<^verbatim>\<open>snprintf\<close> into a buffer of \<open>n\<close> bytes keeps \<open>n - 1\<close> characters.\<close>

definition snprintf :: "nat \<Rightarrow> string \<Rightarrow> string" where
  "snprintf n s = take (n - 1) s"

definition KernelSym :: "(u64 \<times> string) list \<Rightarrow> u64 \<Rightarrow> string" where
  "KernelSym ks ip =
     (if ks = [] then ''<kernel>''
      else
        let lo = ksym_search ks ip 0 (length ks)
        in if lo = 0 then snprintf 32 (show_hex (unat ip))
           else
             let (addr, name) = ks ! (lo - 1); off = ip - addr
             in if off \<noteq> 0 then snprintf 64 (name @ ''+0x'' @ show_hex (unat off)) else name)"

section \<open>User addresses\<close>

record Mapping =
  mp_start :: u64
  mp_end :: u64
  mp_offset :: u64
  mp_path :: string
  mp_exec :: bool

text \<open>
  One line of \<^verbatim>\<open>/proc/<pid>/maps\<close>. Nothing is returned when the dash is missing, which ends
  the loop. A later failure leaves the stream failed, so the fields behind it keep what they have.
\<close>

definition mapping_of :: "u64 \<Rightarrow> u64 \<Rightarrow> u64 \<Rightarrow> string \<Rightarrow> string \<Rightarrow> Mapping" where
  "mapping_of start stop offset perms rest =
     (let path = dropWhile (\<lambda>c. c = CHR '' '') rest
      in \<lparr>mp_start = start, mp_end = stop, mp_offset = offset,
          mp_path = (if path = [] then ''[anon]'' else path),
          mp_exec = (2 < length perms \<and> perms ! 2 = CHR ''x'')\<rparr>)"

definition parse_mapping :: "string \<Rightarrow> Mapping option" where
  "parse_mapping line =
     (case scan_hex line of
        (False, _, _) \<Rightarrow> None
      | (True, start, r1) \<Rightarrow>
          (case scan_char r1 of
             None \<Rightarrow> None
           | Some (dash, r2) \<Rightarrow>
               (let (ok, stop, r3) = scan_hex r2
                in if dash \<noteq> CHR ''-'' then None
                   else if \<not> ok then Some (mapping_of start stop 0 [] [])
                   else
                     case scan_word 4 r3 of
                       None \<Rightarrow> Some (mapping_of start stop 0 [] [])
                     | Some (perms, r4) \<Rightarrow>
                         (let (ok2, offset, r5) = scan_hex r4
                          in Some (mapping_of start stop offset perms (if ok2 then r5 else []))))))"

text \<open>The loop over the lines of the file: it ends at the first line without a dash.\<close>

fun parse_mappings :: "string list \<Rightarrow> Mapping list" where
  "parse_mappings [] = []"
| "parse_mappings (l # ls) =
     (case parse_mapping l of None \<Rightarrow> [] | Some m \<Rightarrow> m # parse_mappings ls)"

text \<open>
  What the symboliser asks the system: its own process id, \<^verbatim>\<open>dladdr\<close>, and the text of
  \<^verbatim>\<open>/proc/<pid>/maps\<close> at the time of the call.
\<close>

record sym_env =
  se_self :: u32
  se_dladdr :: "u64 \<Rightarrow> string option"
  se_maps :: "u32 \<Rightarrow> string"

type_synonym maps_cache = "(u32 \<times> Mapping list) list"

definition cached_maps :: "sym_env \<Rightarrow> u32 \<Rightarrow> maps_cache \<Rightarrow> Mapping list \<times> maps_cache" where
  "cached_maps env pid cache =
     (case map_of cache pid of
        Some ms \<Rightarrow> (ms, cache)
      | None \<Rightarrow> (let ms = parse_mappings (getlines (se_maps env pid)) in (ms, alist_put pid ms cache)))"

definition in_mapping :: "u64 \<Rightarrow> Mapping \<Rightarrow> bool" where
  "in_mapping ip m \<longleftrightarrow> mp_start m \<le> ip \<and> ip < mp_end m"

definition address_in_maps :: "Mapping list \<Rightarrow> u64 \<Rightarrow> string" where
  "address_in_maps ms ip =
     (case find (in_mapping ip) ms of
        Some m \<Rightarrow> snprintf 512 (mp_path m @ ''+0x'' @ show_hex (unat (ip - mp_start m + mp_offset m)))
      | None \<Rightarrow> snprintf 32 (show_hex (unat ip)))"

definition UserSym :: "sym_env \<Rightarrow> u32 \<Rightarrow> u64 \<Rightarrow> maps_cache \<Rightarrow> string \<times> maps_cache" where
  "UserSym env pid ip cache =
     (case if pid = se_self env then se_dladdr env ip else None of
        Some name \<Rightarrow> (name, cache)
      | None \<Rightarrow> (let (ms, cache') = cached_maps env pid cache in (address_in_maps ms ip, cache')))"

section \<open>Folded frames\<close>

definition sanitize_frame :: "string \<Rightarrow> string" where
  "sanitize_frame = map (\<lambda>c. if c = CHR '';'' \<or> c = CHR '' '' \<or> c = CHR 0x09 then CHR ''_'' else c)"

definition frame_sym :: "sym_env \<Rightarrow> (u64 \<times> string) list \<Rightarrow> u32 \<Rightarrow> bool \<Rightarrow> u64 \<Rightarrow> maps_cache \<Rightarrow> string \<times> maps_cache" where
  "frame_sym env ks pid user ip cache =
     (if user then UserSym env pid ip cache else (KernelSym ks ip, cache))"

fun resolve_frames :: "sym_env \<Rightarrow> (u64 \<times> string) list \<Rightarrow> u32 \<Rightarrow> bool \<Rightarrow> u64 list \<Rightarrow> string \<Rightarrow> maps_cache
    \<Rightarrow> string \<times> maps_cache" where
  "resolve_frames env ks pid user [] out cache = (out, cache)"
| "resolve_frames env ks pid user (ip # ips) out cache =
     (if ip = 0 then resolve_frames env ks pid user ips out cache
      else
        let out1 = (if out \<noteq> [] then out @ '';'' else out);
            (sym, cache1) = frame_sym env ks pid user ip cache
        in resolve_frames env ks pid user ips (out1 @ sanitize_frame sym) cache1)"

definition Resolve :: "sym_env \<Rightarrow> (u64 \<times> string) list \<Rightarrow> u32 \<Rightarrow> u64 list \<Rightarrow> bool \<Rightarrow> maps_cache \<Rightarrow> string \<times> maps_cache" where
  "Resolve env ks pid ips user cache = resolve_frames env ks pid user (rev ips) [] cache"

section \<open>The search finds the last symbol at or below the address\<close>

lemma ksym_search_bounds:
  assumes "sorted (map fst ks)" and "lo \<le> hi" and "hi \<le> length ks"
    and "\<forall>i < lo. fst (ks ! i) \<le> ip" and "\<forall>i. hi \<le> i \<longrightarrow> i < length ks \<longrightarrow> ip < fst (ks ! i)"
  shows "ksym_search ks ip lo hi \<le> length ks \<and> (\<forall>i < ksym_search ks ip lo hi. fst (ks ! i) \<le> ip) \<and>
         (\<forall>i. ksym_search ks ip lo hi \<le> i \<longrightarrow> i < length ks \<longrightarrow> ip < fst (ks ! i))"
  using assms
proof (induction ks ip lo hi rule: ksym_search.induct)
  case (1 ks ip lo hi)
  show ?case
  proof (cases "lo < hi")
    case False
    then have "ksym_search ks ip lo hi = lo" by (simp add: ksym_search.simps)
    with False "1.prems" show ?thesis by simp
  next
    case True
    define mid where "mid = lo + (hi - lo) div 2"
    have mid: "lo \<le> mid" "mid < hi" "mid < length ks" using True "1.prems"(3) by (auto simp: mid_def)
    have mono: "fst (ks ! i) \<le> fst (ks ! j)" if "i \<le> j" "j < length ks" for i j
      using "1.prems"(1) that sorted_nth_mono [of "map fst ks" i j] by simp
    have unf: "ksym_search ks ip lo hi =
        (if fst (ks ! mid) \<le> ip then ksym_search ks ip (mid + 1) hi else ksym_search ks ip lo mid)"
      using True by (subst ksym_search.simps) (simp add: mid_def Let_def)
    show ?thesis
    proof (cases "fst (ks ! mid) \<le> ip")
      case le: True
      have below: "\<forall>i < mid + 1. fst (ks ! i) \<le> ip"
      proof (intro allI impI)
        fix i assume "i < mid + 1"
        then have "fst (ks ! i) \<le> fst (ks ! mid)" using mono mid(3) by simp
        with le show "fst (ks ! i) \<le> ip" by (rule order_trans [rotated])
      qed
      have "mid + 1 \<le> hi" using mid(2) by simp
      note ih = "1.IH"(1) [OF True mid_def le "1.prems"(1) this "1.prems"(3) below "1.prems"(5)]
      have eq: "ksym_search ks ip lo hi = ksym_search ks ip (mid + 1) hi" using unf le by simp
      show ?thesis unfolding eq by (rule ih)
    next
      case gt: False
      have above: "\<forall>i. mid \<le> i \<longrightarrow> i < length ks \<longrightarrow> ip < fst (ks ! i)"
      proof (intro allI impI)
        fix i assume "mid \<le> i" "i < length ks"
        then have "fst (ks ! mid) \<le> fst (ks ! i)" using mono by simp
        with gt show "ip < fst (ks ! i)" by simp
      qed
      have "mid \<le> length ks" using mid(3) by simp
      note ih = "1.IH"(2) [OF True mid_def gt "1.prems"(1) mid(1) this "1.prems"(4) above]
      have eq: "ksym_search ks ip lo hi = ksym_search ks ip lo mid" using unf gt by simp
      show ?thesis unfolding eq by (rule ih)
    qed
  qed
qed

lemma filter_prefix:
  assumes "n \<le> length xs" and "\<forall>i < n. P (xs ! i)" and "\<forall>i. n \<le> i \<longrightarrow> i < length xs \<longrightarrow> \<not> P (xs ! i)"
  shows "filter P xs = take n xs"
proof -
  have "filter P (take n xs) = take n xs"
    using assms(1,2) by (intro filter_True) (auto simp: in_set_conv_nth)
  moreover have "filter P (drop n xs) = []"
    using assms(1,3) by (auto simp: filter_empty_conv in_set_conv_nth)
  moreover have "filter P xs = filter P (take n xs) @ filter P (drop n xs)"
    by (metis append_take_drop_id filter_append)
  ultimately show ?thesis by simp
qed

lemma KernelSym_last_hit:
  assumes "sorted (map fst ks)" and "ks \<noteq> []"
  shows "KernelSym ks ip =
     (case filter (\<lambda>k. fst k \<le> ip) ks of
        [] \<Rightarrow> snprintf 32 (show_hex (unat ip))
      | h # hs \<Rightarrow>
          (let (addr, name) = last (h # hs)
           in if ip = addr then name else snprintf 64 (name @ ''+0x'' @ show_hex (unat (ip - addr)))))"
proof -
  let ?n = "ksym_search ks ip 0 (length ks)"
  have b: "?n \<le> length ks" "\<forall>i < ?n. fst (ks ! i) \<le> ip" "\<forall>i. ?n \<le> i \<longrightarrow> i < length ks \<longrightarrow> ip < fst (ks ! i)"
    using ksym_search_bounds [OF assms(1), of 0 "length ks" ip] by auto
  have f: "filter (\<lambda>k. fst k \<le> ip) ks = take ?n ks"
    by (rule filter_prefix) (use b in \<open>auto simp: not_le\<close>)
  show ?thesis
  proof (cases "?n = 0")
    case True
    then show ?thesis using f assms(2) by (simp add: KernelSym_def)
  next
    case False
    then have ne: "take ?n ks \<noteq> []" using assms(2) by simp
    have "last (take ?n ks) = ks ! (?n - 1)"
      using False b(1) ne by (simp add: last_conv_nth min_def)
    with f ne False assms(2) show ?thesis
      by (cases "take ?n ks") (auto simp: KernelSym_def Let_def split: prod.splits)
  qed
qed

section \<open>Properties of the symboliser\<close>

text \<open>
  A kernel address is shown as the nearest symbol at or below it, with the distance: the
  binary search returns the last symbol of the sorted table that is not above the address; below
  the first symbol the address itself is shown. Long names are cut to the 63 characters of the buffer.
\<close>

theorem kernel_symbol_is_nearest:
  assumes "sorted (map fst ks)" and "ks \<noteq> []"
  shows "KernelSym ks ip =
     (case filter (\<lambda>k. fst k \<le> ip) ks of
        [] \<Rightarrow> snprintf 32 (show_hex (unat ip))
      | h # hs \<Rightarrow>
          (let (addr, name) = last (h # hs)
           in if ip = addr then name else snprintf 64 (name @ ''+0x'' @ show_hex (unat (ip - addr)))))"
  by (rule KernelSym_last_hit [OF assms])

theorem kernel_symbol_is_nearest_witness:
  "KernelSym [(16, ''a''), (32, ''b''), (64, ''c'')] 37 = ''b+0x5''"
proof -
  let ?ks = "[(16, ''a''), (32, ''b''), (64, ''c'')] :: (u64 \<times> string) list"
  have "sorted (map fst ?ks)" "?ks \<noteq> []" by (simp_all add: word_le_nat_alt)
  note n = kernel_symbol_is_nearest [OF this, of 37]
  have "filter (\<lambda>k. fst k \<le> 37) ?ks = [(16, ''a''), (32, ''b'')]" by (simp add: word_le_nat_alt)
  moreover have "show_hex 5 = ''5''" by code_simp
  ultimately show ?thesis using n by (simp add: snprintf_def)
qed

lemma hex_then:
  assumes "h \<noteq> []" "list_all is_hex h" "hex_val h < 2 ^ 64" "\<not> is_hex c \<and> c \<notin> {CHR ''x'', CHR ''X''}"
  shows "scan_hex (h @ c # t) = (True, of_nat (hex_val h), c # t)"
  using scan_hex_digits [OF assms(1-3), of "c # t"] assms(4) by simp

text \<open>
  The path of a mapping carries the device and the inode in front of the file name, and
  an anonymous mapping is never recognised: for a line of \<^verbatim>\<open>/proc/<pid>/maps\<close> in the format of
  the kernel, the remembered path is everything behind the offset.
\<close>

theorem mapping_path_has_device:
  assumes "h1 \<noteq> []" "list_all is_hex h1" "hex_val h1 < 2 ^ 64" and "h2 \<noteq> []" "list_all is_hex h2" "hex_val h2 < 2 ^ 64"
    and "h3 \<noteq> []" "list_all is_hex h3" "hex_val h3 < 2 ^ 64"
    and "length perms = 4" and "list_all (\<lambda>c. \<not> is_space c) perms" and "\<not> is_space d"
  shows "parse_mapping (h1 @ ''-'' @ h2 @ '' '' @ perms @ '' '' @ h3 @ '' '' @ (d # dev) @ '' '' @ inode @ '' '' @ path) =
    Some \<lparr>mp_start = of_nat (hex_val h1), mp_end = of_nat (hex_val h2), mp_offset = of_nat (hex_val h3),
      mp_path = (d # dev) @ '' '' @ inode @ '' '' @ path, mp_exec = (perms ! 2 = CHR ''x'')\<rparr>"
proof -
  have sp: "is_space CHR '' ''" "\<not> is_hex CHR '' ''" "\<not> is_hex CHR ''-''" "\<not> is_space CHR ''-''"
    by (simp_all add: is_space_def is_hex_def is_digit_def)
  obtain c cs where perms: "perms = c # cs" "\<not> is_space c" using assms(10,11) by (cases perms) auto
  have tw: "takeWhile (\<lambda>c. \<not> is_space c) (perms @ CHR '' '' # t) = perms" for t
    using assms(11) sp by (auto simp: list_all_iff takeWhile_append)
  have w: "scan_word 4 (CHR '' '' # perms @ CHR '' '' # t) = Some (perms, CHR '' '' # t)" for t
    using tw [of t] assms(10) perms sp(1) by (simp add: scan_word_def Let_def)
  have h3: "scan_hex (CHR '' '' # h3 @ CHR '' '' # t) = scan_hex (h3 @ CHR '' '' # t)" for t
    using sp(1) by (simp add: scan_hex_def)
  have nd: "d \<noteq> CHR '' ''" using assms(12) sp(1) by auto
  show ?thesis
    using hex_then [OF assms(1-3), of "CHR ''-''"] hex_then [OF assms(4-6), of "CHR '' ''"]
      hex_then [OF assms(7-9), of "CHR '' ''"] sp assms(10)
    by (simp add: parse_mapping_def scan_char_def w h3 mapping_of_def Let_def nd dropWhile_eq_Nil_conv) (use nd in blast)
qed

theorem mapping_path_has_device_witness:
  "map_option mp_path (parse_mapping ''7f00-7f10 r-xp 0000 08:01 42  /lib/c.so'') = Some ''08:01 42  /lib/c.so''"
proof -
  have "list_all is_hex ''7f00''" "list_all is_hex ''7f10''" "list_all is_hex ''0000''"
    "hex_val ''7f00'' < 2 ^ 64" "hex_val ''7f10'' < 2 ^ 64" "hex_val ''0000'' < 2 ^ 64"
    "list_all (\<lambda>c. \<not> is_space c) ''r-xp''" "\<not> is_space CHR ''0''"
    by (simp_all add: is_hex_def is_digit_def hex_val_def hex_digit_def digit_val_def is_space_def)
  from mapping_path_has_device [OF _ this(1,4) _ this(2,5) _ this(3,6) _ this(7,8), of "''8:01''" "''42''" "'' /lib/c.so''"]
  show ?thesis by simp
qed

section \<open>Folded lines list the frames from the root to the leaf\<close>

definition frame_name :: "sym_env \<Rightarrow> (u64 \<times> string) list \<Rightarrow> u32 \<Rightarrow> bool \<Rightarrow> Mapping list \<Rightarrow> u64 \<Rightarrow> string" where
  "frame_name env ks pid user ms ip =
     (if user then (case if pid = se_self env then se_dladdr env ip else None of
                      Some name \<Rightarrow> name | None \<Rightarrow> address_in_maps ms ip)
      else KernelSym ks ip)"

fun join_frames :: "string list \<Rightarrow> string" where
  "join_frames [] = []"
| "join_frames [f] = f"
| "join_frames (f # g # fs) = f @ '';'' @ join_frames (g # fs)"

lemma cached_maps_again: "fst (cached_maps env pid (snd (cached_maps env pid cache))) = fst (cached_maps env pid cache)"
  by (simp add: cached_maps_def Let_def split: option.splits)

lemma frame_sym_name:
  "frame_sym env ks pid user ip cache = (nm, cache') \<Longrightarrow>
     nm = frame_name env ks pid user (fst (cached_maps env pid cache)) ip \<and>
     fst (cached_maps env pid cache') = fst (cached_maps env pid cache)"
  using cached_maps_again [of env pid cache]
  by (cases "cached_maps env pid cache") (auto simp: frame_sym_def UserSym_def frame_name_def split: if_splits option.splits)

lemma join_frames_Cons: "fs \<noteq> [] \<Longrightarrow> join_frames (f # fs) = f @ '';'' @ join_frames fs"
  by (cases fs) auto

lemma resolve_frames_join:
  assumes "ms = fst (cached_maps env pid cache)"
    and "list_all (\<lambda>ip. frame_name env ks pid user ms ip \<noteq> []) (filter (\<lambda>ip. ip \<noteq> 0) ips)"
  shows "fst (resolve_frames env ks pid user ips out cache) =
     (let fs = map (\<lambda>ip. sanitize_frame (frame_name env ks pid user ms ip)) (filter (\<lambda>ip. ip \<noteq> 0) ips)
      in if out = [] then join_frames fs else if fs = [] then out else out @ '';'' @ join_frames fs)"
  using assms
proof (induction ips arbitrary: out cache)
  case (Cons ip ips)
  show ?case
  proof (cases "ip = 0")
    case True
    with Cons show ?thesis by simp
  next
    case False
    obtain nm cache' where s: "frame_sym env ks pid user ip cache = (nm, cache')" by fastforce
    note n = frame_sym_name [OF s]
    have ne: "sanitize_frame nm \<noteq> []" using n Cons.prems False by (simp add: sanitize_frame_def)
    from Cons.IH [of cache' "(if out \<noteq> [] then out @ '';'' else out) @ sanitize_frame nm"] n Cons.prems False ne
    show ?thesis
      by (auto simp: s Let_def join_frames_Cons)
  qed
qed simp

text \<open>
  A resolved stack is the frames from the root to the leaf, separated by semicolons, with
  the empty slots left out; each frame is the name of its address with separators replaced.
\<close>

theorem resolve_root_first:
  assumes "list_all (\<lambda>ip. frame_name env ks pid user (fst (cached_maps env pid cache)) ip \<noteq> []) (filter (\<lambda>ip. ip \<noteq> 0) ips)"
  shows "fst (Resolve env ks pid ips user cache) =
     join_frames (map (\<lambda>ip. sanitize_frame (frame_name env ks pid user (fst (cached_maps env pid cache)) ip))
       (rev (filter (\<lambda>ip. ip \<noteq> 0) ips)))"
proof -
  have "list_all (\<lambda>ip. frame_name env ks pid user (fst (cached_maps env pid cache)) ip \<noteq> []) (filter (\<lambda>ip. ip \<noteq> 0) (rev ips))"
    using assms by (simp add: rev_filter [symmetric])
  from resolve_frames_join [OF refl this, of "[]"] show ?thesis
    by (simp add: Resolve_def Let_def rev_filter)
qed

theorem resolve_root_first_witness:
  "fst (Resolve \<lparr>se_self = 1, se_dladdr = \<lambda>_. None, se_maps = \<lambda>_. []\<rparr> [(16, ''a b''), (32, ''c'')] 7 [16, 0, 32] False [])
   = ''c;a_b''"
proof -
  let ?e = "\<lparr>se_self = 1, se_dladdr = \<lambda>_. None, se_maps = \<lambda>_. []\<rparr> :: sym_env"
  let ?ks = "[(16, ''a b''), (32, ''c'')] :: (u64 \<times> string) list"
  have k: "KernelSym ?ks 16 = ''a b''" "KernelSym ?ks 32 = ''c''"
    by (simp_all add: KernelSym_def ksym_search.simps Let_def)
  then have "list_all (\<lambda>ip. frame_name ?e ?ks 7 False (fst (cached_maps ?e 7 [])) ip \<noteq> []) (filter (\<lambda>ip. ip \<noteq> 0) [16, 0, 32])"
    by (simp add: frame_name_def)
  from resolve_root_first [OF this] k show ?thesis
    by (simp add: frame_name_def sanitize_frame_def)
qed

end
