(* ===== verification/Host.thy ===== *)
theory Host
  imports Symbols
begin

text \<open>
  The host metrics read from \<^verbatim>\<open>/proc\<close> and the cgroup file system,
  \<^verbatim>\<open>src/collect/host_metrics.cpp\<close>. A file system is a function from paths to texts
  (nothing for a file that cannot be opened); reading a floating-point number
  (\<^verbatim>\<open>%lf\<close>) is an argument of the definitions that do it.
\<close>

type_synonym files = "string \<Rightarrow> string option"

type_synonym scan_lf = "string \<Rightarrow> (double \<times> string) option"

definition ReadFile :: "files \<Rightarrow> string \<Rightarrow> string" where
  "ReadFile fs path = (case fs path of None \<Rightarrow> [] | Some t \<Rightarrow> t)"

section \<open>Streams of numbers\<close>

text \<open>
  \<^verbatim>\<open>is >> v\<close> for an unsigned \<open>v\<close> of at most \<open>max\<close>: success, the value stored (0 without digits, the
  maximum on overflow) and the text left.
\<close>

definition scan_num :: "nat \<Rightarrow> string \<Rightarrow> bool \<times> u64 \<times> string" where
  "scan_num bound s =
     (let (neg, r) = strtoull_sign (dropWhile is_space s);
          ds = takeWhile is_digit r; rest = dropWhile is_digit r; v = digits_val ds
      in if ds = [] then (False, 0, rest)
         else if bound < v then (False, of_nat bound, rest)
         else (True, if neg then - of_nat v else of_nat v, rest))"

definition scan_u64 :: "string \<Rightarrow> bool \<times> u64 \<times> string" where
  "scan_u64 = scan_num (2 ^ 64 - 1)"

text \<open>A chain \<^verbatim>\<open>is >> a >> b >> ...\<close> that must succeed as a whole.\<close>

fun scan_chain :: "nat \<Rightarrow> string \<Rightarrow> (u64 list \<times> string) option" where
  "scan_chain 0 s = Some ([], s)"
| "scan_chain (Suc n) s =
     (case scan_u64 s of
        (False, _, _) \<Rightarrow> None
      | (True, v, r) \<Rightarrow> map_option (\<lambda>(vs, t). (v # vs, t)) (scan_chain n r))"

text \<open>
  A sequence of \<^verbatim>\<open>if (is >> v)\<close> on one stream, each stored value with its success: once it fails
  it stays failed, and nothing behind the first failure is stored.
\<close>

fun scan_prefix :: "nat \<Rightarrow> string \<Rightarrow> (bool \<times> u64) list" where
  "scan_prefix 0 s = []"
| "scan_prefix (Suc n) s =
     (case scan_u64 s of (False, v, _) \<Rightarrow> [(False, v)] | (True, v, r) \<Rightarrow> (True, v) # scan_prefix n r)"

section \<open>CPU lines\<close>

text \<open>\<^verbatim>\<open>is >> guest >> guest_nice\<close>: a failed extraction stores 0 or the maximum and ends the chain.\<close>

definition scan_guests :: "string \<Rightarrow> CpuStat \<Rightarrow> CpuStat" where
  "scan_guests r c =
     (case scan_u64 r of
        (False, g, _) \<Rightarrow> c\<lparr>cs_guest := g\<rparr>
      | (True, g, r2) \<Rightarrow> c\<lparr>cs_guest := g, cs_guest_nice := fst (snd (scan_u64 r2))\<rparr>)"

definition cpu_fields :: "string \<Rightarrow> (CpuStat \<times> string) option" where
  "cpu_fields r =
     (case scan_chain 8 r of
        Some ([a, b, c, d, e, f, g, h], r2) \<Rightarrow>
          Some (CpuStat0\<lparr>cs_user := a, cs_nice := b, cs_system := c, cs_idle := d, cs_iowait := e,
            cs_irq := f, cs_softirq := g, cs_steal := h\<rparr>, r2)
      | _ \<Rightarrow> None)"

definition first_word :: "string \<Rightarrow> string \<times> string" where
  "first_word s = (let r = dropWhile is_space s in (takeWhile (\<lambda>c. \<not> is_space c) r, dropWhile (\<lambda>c. \<not> is_space c) r))"

definition ParseCpuLine :: "string \<Rightarrow> CpuStat option" where
  "ParseCpuLine line =
     (let (label, r) = first_word line
      in if \<not> starts_with ''cpu'' label then None
         else case cpu_fields r of None \<Rightarrow> None | Some (c, r2) \<Rightarrow> Some (scan_guests r2 c))"

text \<open>\<^verbatim>\<open>sscanf(line + n, "%llu", &field)\<close>: a field keeps its value when nothing can be read.\<close>

definition sscan_u64 :: "string \<Rightarrow> u64 \<Rightarrow> u64" where
  "sscan_u64 s old = (case scan_dec s of None \<Rightarrow> old | Some (v, _) \<Rightarrow> v)"

definition stat_line :: "string \<Rightarrow> HostSnapshot \<Rightarrow> HostSnapshot" where
  "stat_line line s =
     (if starts_with ''cpu '' line then
        (case cpu_fields (snd (first_word line)) of
           None \<Rightarrow> s
         | Some (t, r2) \<Rightarrow> s\<lparr>hs_total := scan_guests r2 t\<rparr>)
      else if starts_with ''cpu'' line then
        (case ParseCpuLine line of None \<Rightarrow> s | Some c \<Rightarrow> s\<lparr>hs_cpus := hs_cpus s @ [c]\<rparr>)
      else if starts_with ''ctxt '' line then s\<lparr>hs_ctxt := sscan_u64 (drop 5 line) (hs_ctxt s)\<rparr>
      else if starts_with ''processes '' line then s\<lparr>hs_processes := sscan_u64 (drop 10 line) (hs_processes s)\<rparr>
      else if starts_with ''procs_running '' line then
        s\<lparr>hs_procs_running := sscan_u64 (drop 14 line) (hs_procs_running s)\<rparr>
      else if starts_with ''procs_blocked '' line then
        s\<lparr>hs_procs_blocked := sscan_u64 (drop 14 line) (hs_procs_blocked s)\<rparr>
      else s)"

section \<open>Load, memory and virtual memory\<close>

text \<open>Running and total threads are taken only when all five conversions succeed.\<close>

definition parse_loadavg :: "scan_lf \<Rightarrow> string \<Rightarrow> LoadAvg \<Rightarrow> LoadAvg" where
  "parse_loadavg lf text l =
     (case lf text of
        None \<Rightarrow> l
      | Some (a, r1) \<Rightarrow>
          (let l1 = l\<lparr>la_load1 := a\<rparr>
           in case lf r1 of
                None \<Rightarrow> l1
              | Some (b, r2) \<Rightarrow>
                  (let l2 = l1\<lparr>la_load5 := b\<rparr>
                   in case lf r2 of
                        None \<Rightarrow> l2
                      | Some (c, r3) \<Rightarrow>
                          (let l3 = l2\<lparr>la_load15 := c\<rparr>
                           in case scan_dec r3 of
                                Some (running, CHR ''/'' # r4) \<Rightarrow>
                                  (case scan_dec r4 of
                                     Some (threads, _) \<Rightarrow>
                                       l3\<lparr>la_nr_running := ucast running, la_nr_threads := ucast threads\<rparr>
                                   | None \<Rightarrow> l3)
                              | _ \<Rightarrow> l3))))"

definition MeminfoValue :: "string \<Rightarrow> string \<Rightarrow> u64 option" where
  "MeminfoValue text key =
     (case find_sub key text of
        None \<Rightarrow> None
      | Some s \<Rightarrow>
          (case find_char CHR '':'' s of
             None \<Rightarrow> None
           | Some i \<Rightarrow> map_option fst (scan_dec (drop (i + 1) s))))"

definition set_mask :: "nat \<Rightarrow> u32 \<Rightarrow> u32" where
  "set_mask b m = or m (push_bit b 1)"

definition mem_get :: "string \<Rightarrow> string \<Rightarrow> (u64 \<Rightarrow> MemInfo \<Rightarrow> MemInfo) \<Rightarrow> nat \<Rightarrow> MemInfo \<Rightarrow> MemInfo" where
  "mem_get text key put b m =
     (case MeminfoValue text key of
        None \<Rightarrow> m
      | Some v \<Rightarrow> mm_valid_mask_update (set_mask b) (put v m))"

definition mem_fields :: "(string \<times> (u64 \<Rightarrow> MemInfo \<Rightarrow> MemInfo)) list" where
  "mem_fields =
     [(''MemTotal'', \<lambda>v. mm_mem_total_kb_update (\<lambda>_. v)),
      (''MemAvailable'', \<lambda>v. mm_mem_available_kb_update (\<lambda>_. v)),
      (''MemFree'', \<lambda>v. mm_mem_free_kb_update (\<lambda>_. v)),
      (''Buffers'', \<lambda>v. mm_buffers_kb_update (\<lambda>_. v)),
      (''Cached'', \<lambda>v. mm_cached_kb_update (\<lambda>_. v)),
      (''SwapTotal'', \<lambda>v. mm_swap_total_kb_update (\<lambda>_. v)),
      (''SwapFree'', \<lambda>v. mm_swap_free_kb_update (\<lambda>_. v)),
      (''AnonPages'', \<lambda>v. mm_anon_pages_kb_update (\<lambda>_. v)),
      (''SReclaimable'', \<lambda>v. mm_sreclaimable_kb_update (\<lambda>_. v)),
      (''Shmem'', \<lambda>v. mm_shmem_kb_update (\<lambda>_. v)),
      (''Dirty'', \<lambda>v. mm_dirty_kb_update (\<lambda>_. v)),
      (''Writeback'', \<lambda>v. mm_writeback_kb_update (\<lambda>_. v)),
      (''CommitLimit'', \<lambda>v. mm_commit_limit_kb_update (\<lambda>_. v)),
      (''Committed_AS'', \<lambda>v. mm_committed_as_kb_update (\<lambda>_. v))]"

definition parse_meminfo :: "string \<Rightarrow> MemInfo \<Rightarrow> MemInfo" where
  "parse_meminfo text m = fold (\<lambda>(b, key, put). mem_get text key put b) (enumerate 0 mem_fields) m"

text \<open>
  The search for a key at the start of a line with a number behind it. \<open>skip\<close> counts the characters
  of an occurrence that was no match, which the code steps over.
\<close>

definition scan_lld :: "string \<Rightarrow> int option" where
  "scan_lld s =
     (let (neg, r) = strtoull_sign (dropWhile is_space s); ds = takeWhile is_digit r; v = int (digits_val ds)
      in if ds = [] then None
         else Some (if neg then max (- (2 ^ 63)) (- v) else min (2 ^ 63 - 1) v))"

definition line_start :: "char option \<Rightarrow> bool" where
  "line_start prev \<longleftrightarrow> prev = None \<or> prev = Some CHR 0x0A"

fun vmstat_scan :: "string \<Rightarrow> nat \<Rightarrow> char option \<Rightarrow> string \<Rightarrow> int option" where
  "vmstat_scan key skip prev [] = None"
| "vmstat_scan key skip prev (c # s) =
     (if skip > 0 then vmstat_scan key (skip - 1) (Some c) s
      else if starts_with key (c # s) then
        (case (if line_start prev then scan_lld (drop (length key) (c # s)) else None) of
           Some v \<Rightarrow> Some v
         | None \<Rightarrow> vmstat_scan key (length key - 1) (Some c) s)
      else vmstat_scan key 0 (Some c) s)"

definition VmstatValue :: "string \<Rightarrow> string \<Rightarrow> int option" where
  "VmstatValue text key = vmstat_scan key 0 None text"

definition vm_get :: "string \<Rightarrow> string \<Rightarrow> (u64 \<Rightarrow> VmStatSnapshot \<Rightarrow> VmStatSnapshot) \<Rightarrow> nat
    \<Rightarrow> VmStatSnapshot \<Rightarrow> VmStatSnapshot" where
  "vm_get text key put b m =
     (case VmstatValue text key of
        None \<Rightarrow> m
      | Some v \<Rightarrow> vm_valid_mask_update (set_mask b) (put (of_int (if v > 0 then v else 0)) m))"

definition vm_fields :: "(string \<times> (u64 \<Rightarrow> VmStatSnapshot \<Rightarrow> VmStatSnapshot)) list" where
  "vm_fields =
     [(''pgfault'', \<lambda>v. vm_pgfault_update (\<lambda>_. v)),
      (''pgmajfault'', \<lambda>v. vm_pgmajfault_update (\<lambda>_. v)),
      (''pswpin'', \<lambda>v. vm_pswpin_update (\<lambda>_. v)),
      (''pswpout'', \<lambda>v. vm_pswpout_update (\<lambda>_. v)),
      (''pgscan_kswapd'', \<lambda>v. vm_pgscan_kswapd_update (\<lambda>_. v)),
      (''pgscan_direct'', \<lambda>v. vm_pgscan_direct_update (\<lambda>_. v)),
      (''pgsteal_kswapd'', \<lambda>v. vm_pgsteal_kswapd_update (\<lambda>_. v)),
      (''pgsteal_direct'', \<lambda>v. vm_pgsteal_direct_update (\<lambda>_. v)),
      (''workingset_refault'', \<lambda>v. vm_workingset_refault_update (\<lambda>_. v)),
      (''nr_dirty'', \<lambda>v. vm_nr_dirty_update (\<lambda>_. v)),
      (''nr_writeback'', \<lambda>v. vm_nr_writeback_update (\<lambda>_. v))]"

definition parse_vmstat :: "string \<Rightarrow> VmStatSnapshot \<Rightarrow> VmStatSnapshot" where
  "parse_vmstat text m = fold (\<lambda>(b, key, put). vm_get text key put b) (enumerate 0 vm_fields) m"

section \<open>Pressure\<close>

definition read_key :: "scan_lf \<Rightarrow> string \<Rightarrow> string \<Rightarrow> double" where
  "read_key lf line k =
     (case find_sub k line of
        None \<Rightarrow> 0
      | Some s \<Rightarrow> (case lf (drop (length k) s) of None \<Rightarrow> 0 | Some (v, _) \<Rightarrow> v))"

definition psi_averages :: "scan_lf \<Rightarrow> string \<Rightarrow> PsiWindow \<Rightarrow> PsiWindow" where
  "psi_averages lf line w = w\<lparr>pw_avg10 := read_key lf line ''avg10='', pw_avg60 := read_key lf line ''avg60='',
     pw_avg300 := read_key lf line ''avg300=''\<rparr>"

definition psi_line :: "scan_lf \<Rightarrow> string \<Rightarrow> PsiWindow \<Rightarrow> PsiWindow" where
  "psi_line lf line w =
     (if starts_with ''some '' line then (psi_averages lf line w)\<lparr>pw_some_valid := True\<rparr>
      else if starts_with ''full '' line then (psi_averages lf line w)\<lparr>pw_full_valid := True\<rparr>
      else w)"

definition ParsePsi :: "scan_lf \<Rightarrow> string \<Rightarrow> PsiWindow" where
  "ParsePsi lf text = fold (psi_line lf) (getlines text) PsiWindow0"

section \<open>Disks\<close>

text \<open>Each value that could be read goes into its field and sets its presence bit.\<close>

definition disk_fields :: "(u64 \<Rightarrow> DiskStatRow \<Rightarrow> DiskStatRow) list" where
  "disk_fields =
     [\<lambda>v. ds_reads_completed_update (\<lambda>_. v), \<lambda>v. ds_reads_merged_update (\<lambda>_. v),
      \<lambda>v. ds_sectors_read_update (\<lambda>_. v), \<lambda>v. ds_read_ticks_ms_update (\<lambda>_. v),
      \<lambda>v. ds_writes_completed_update (\<lambda>_. v), \<lambda>v. ds_writes_merged_update (\<lambda>_. v),
      \<lambda>v. ds_sectors_written_update (\<lambda>_. v), \<lambda>v. ds_write_ticks_ms_update (\<lambda>_. v),
      \<lambda>v. ds_ios_in_flight_update (\<lambda>_. v), \<lambda>v. ds_io_ticks_ms_update (\<lambda>_. v),
      \<lambda>v. ds_weighted_ticks_ms_update (\<lambda>_. v)]"

definition disk_row :: "u32 \<Rightarrow> u32 \<Rightarrow> string \<Rightarrow> (bool \<times> u64) list \<Rightarrow> DiskStatRow" where
  "disk_row major minor name vs =
     fold (\<lambda>(b, (ok, v), put) d. if ok then ds_valid_mask_update (set_mask b) (put v d) else put v d)
       (enumerate 0 (zip vs disk_fields))
       (DiskStatRow0\<lparr>ds_major := major, ds_minor := minor, ds_name := snprintf 32 name\<rparr>)"

definition disk_line :: "string \<Rightarrow> DiskStatRow list" where
  "disk_line line =
     (case scan_num (2 ^ 32 - 1) line of
        (False, _, _) \<Rightarrow> []
      | (True, major, r1) \<Rightarrow>
          (case scan_num (2 ^ 32 - 1) r1 of
             (False, _, _) \<Rightarrow> []
           | (True, minor, r2) \<Rightarrow>
               (case scan_word (length r2) r2 of
                  None \<Rightarrow> []
                | Some (name, r3) \<Rightarrow>
                    (let d = disk_row (ucast major) (ucast minor) name (scan_prefix 11 r3)
                     in if and (ds_valid_mask d) 17 = 0 then [] else [d]))))"

definition parse_diskstats :: "string \<Rightarrow> DiskStatRow list" where
  "parse_diskstats text = concat (map disk_line (getlines text))"

section \<open>The host snapshot\<close>

definition Snapshot :: "scan_lf \<Rightarrow> files \<Rightarrow> u64 \<Rightarrow> HostSnapshot" where
  "Snapshot lf fs now =
     (let s1 = fold stat_line (getlines (ReadFile fs ''/proc/stat'')) (HostSnapshot0\<lparr>hs_ts_ns := now\<rparr>)
      in s1\<lparr>hs_load := parse_loadavg lf (ReadFile fs ''/proc/loadavg'') (hs_load s1),
            hs_mem := parse_meminfo (ReadFile fs ''/proc/meminfo'') (hs_mem s1),
            hs_vm := parse_vmstat (ReadFile fs ''/proc/vmstat'') (hs_vm s1),
            hs_psi := \<lparr>ps_cpu = ParsePsi lf (ReadFile fs ''/proc/pressure/cpu''),
                       ps_io = ParsePsi lf (ReadFile fs ''/proc/pressure/io''),
                       ps_memory = ParsePsi lf (ReadFile fs ''/proc/pressure/memory'')\<rparr>,
            hs_disks := parse_diskstats (ReadFile fs ''/proc/diskstats'')\<rparr>)"

section \<open>The cgroup of the collector\<close>

text \<open>The line of the unified hierarchy and the mount point of \<^verbatim>\<open>cgroup2\<close>, its fifth field.\<close>

definition cgroup_path_of :: "string \<Rightarrow> string" where
  "cgroup_path_of text =
     (case find (starts_with ''0::'') (getlines text) of None \<Rightarrow> [] | Some l \<Rightarrow> drop 3 l)"

fun nth_word :: "nat \<Rightarrow> string \<Rightarrow> string" where
  "nth_word n s =
     (case scan_word (length s) s of
        None \<Rightarrow> []
      | Some (w, r) \<Rightarrow> if n = 0 then w else nth_word (n - 1) r)"

declare nth_word.simps [simp del]

definition before_sub :: "string \<Rightarrow> string \<Rightarrow> string option" where
  "before_sub p s = map_option (\<lambda>t. take (length s - length t) s) (find_sub p s)"

definition cgroup2_mount :: "string \<Rightarrow> string option" where
  "cgroup2_mount line =
     (case find_sub '' - '' line of
        None \<Rightarrow> None
      | Some t \<Rightarrow>
          (let fs = drop 3 t
           in if \<not> starts_with ''cgroup2 '' fs \<and> \<not> starts_with (''cgroup2'' @ [CHR 0x09]) fs then None
              else if fst (first_word fs) \<noteq> ''cgroup2'' then None
              else Some (nth_word 4 (case before_sub '' - '' line of None \<Rightarrow> [] | Some b \<Rightarrow> b))))"

definition cgroup_root_of :: "string \<Rightarrow> string" where
  "cgroup_root_of text =
     (case List.map_filter cgroup2_mount (getlines text) of [] \<Rightarrow> [] | r # _ \<Rightarrow> r)"

definition FindCgroup :: "files \<Rightarrow> string \<times> string" where
  "FindCgroup fs = (cgroup_root_of (ReadFile fs ''/proc/self/mountinfo''),
     cgroup_path_of (ReadFile fs ''/proc/self/cgroup''))"

lemma scan_word_shorter: "scan_word n s = Some (w, r) \<Longrightarrow> length r < length s"
proof -
  assume a: "scan_word n s = Some (w, r)"
  have "length (dropWhile is_space s) \<le> length s" by (rule length_dropWhile_le)
  moreover from a have "r = drop (length w) (dropWhile is_space s)" "w \<noteq> []" "length w \<le> length (dropWhile is_space s)"
    by (auto simp: scan_word_def Let_def min_le_iff_disj length_takeWhile_le split: if_splits)
  ultimately show ?thesis by (cases w) auto
qed

function ReadStatU64 :: "string \<Rightarrow> string \<Rightarrow> u64 option" where
  "ReadStatU64 s key =
     (case scan_word (length s) s of
        None \<Rightarrow> None
      | Some (w, r) \<Rightarrow>
          (if w = key then (case scan_u64 r of (True, v, _) \<Rightarrow> Some v | _ \<Rightarrow> None) else ReadStatU64 r key))"
  by pat_completeness auto
termination by (relation "measure (\<lambda>(s, key). length s)") (auto dest: scan_word_shorter)

declare ReadStatU64.simps [simp del]

text \<open>One value of a statistics file: stored, and remembered as seen.\<close>

definition cg_get :: "string \<Rightarrow> string \<Rightarrow> (u64 \<Rightarrow> CgroupSnapshot \<Rightarrow> CgroupSnapshot)
    \<Rightarrow> bool \<times> CgroupSnapshot \<Rightarrow> bool \<times> CgroupSnapshot" where
  "cg_get text key put = (\<lambda>(seen, s).
     case ReadStatU64 text key of None \<Rightarrow> (seen, s) | Some v \<Rightarrow> (True, put v s))"

definition cg_cpu :: "string \<Rightarrow> CgroupSnapshot \<Rightarrow> CgroupSnapshot" where
  "cg_cpu t s =
     (let (any, s1) =
        (cg_get t ''throttled_usec'' (\<lambda>v. cg_throttled_usec_update (\<lambda>_. v)) \<circ>
         cg_get t ''nr_throttled'' (\<lambda>v. cg_nr_throttled_update (\<lambda>_. v)) \<circ>
         cg_get t ''nr_periods'' (\<lambda>v. cg_nr_periods_update (\<lambda>_. v)) \<circ>
         cg_get t ''system_usec'' (\<lambda>v. cg_system_usec_update (\<lambda>_. v)) \<circ>
         cg_get t ''user_usec'' (\<lambda>v. cg_user_usec_update (\<lambda>_. v)) \<circ>
         cg_get t ''usage_usec'' (\<lambda>v. cg_cpu_usage_usec_update (\<lambda>_. v))) (False, s)
      in s1\<lparr>cg_cpu_valid := any\<rparr>)"

definition cg_memory :: "string \<Rightarrow> string \<Rightarrow> string \<Rightarrow> CgroupSnapshot \<Rightarrow> CgroupSnapshot" where
  "cg_memory cur mx ev s =
     (let s1 = (case scan_dec cur of None \<Rightarrow> (False, s) | Some (v, _) \<Rightarrow> (True, s\<lparr>cg_memory_current_bytes := v\<rparr>));
          s2 = (if find_sub ''max'' mx \<noteq> None then (True, (snd s1)\<lparr>cg_memory_max_unlimited := True\<rparr>)
                else case scan_dec mx of None \<Rightarrow> s1 | Some (v, _) \<Rightarrow> (True, (snd s1)\<lparr>cg_memory_max_bytes := v\<rparr>));
          (any, s3) =
            (cg_get ev ''oom_kill'' (\<lambda>v. cg_memory_events_oom_kill_update (\<lambda>_. v)) \<circ>
             cg_get ev ''oom'' (\<lambda>v. cg_memory_events_oom_update (\<lambda>_. v)) \<circ>
             cg_get ev ''max'' (\<lambda>v. cg_memory_events_max_update (\<lambda>_. v)) \<circ>
             cg_get ev ''high'' (\<lambda>v. cg_memory_events_high_update (\<lambda>_. v)) \<circ>
             cg_get ev ''low'' (\<lambda>v. cg_memory_events_low_update (\<lambda>_. v))) s2
      in s3\<lparr>cg_memory_valid := any\<rparr>)"

text \<open>\<^verbatim>\<open>strtoull\<close> with 0 where there is no number.\<close>

definition strtoull0 :: "string \<Rightarrow> u64" where
  "strtoull0 s = (case strtoull s of None \<Rightarrow> 0 | Some v \<Rightarrow> v)"

definition io_token :: "string \<Rightarrow> CgroupIOStat \<Rightarrow> CgroupIOStat" where
  "io_token tok io =
     (let num = (case find_char CHR ''='' tok of None \<Rightarrow> 0 | Some i \<Rightarrow> strtoull0 (drop (i + 1) tok))
      in if starts_with ''rbytes='' tok then io\<lparr>ci_rbytes := num\<rparr>
         else if starts_with ''wbytes='' tok then io\<lparr>ci_wbytes := num\<rparr>
         else if starts_with ''rios='' tok then io\<lparr>ci_rios := num\<rparr>
         else if starts_with ''wios='' tok then io\<lparr>ci_wios := num\<rparr>
         else if starts_with ''dbytes='' tok then io\<lparr>ci_dbytes := num\<rparr>
         else if starts_with ''dios='' tok then io\<lparr>ci_dios := num\<rparr>
         else io)"

definition io_line :: "string \<Rightarrow> CgroupIOStat list" where
  "io_line line =
     (case split_ws line of
        [] \<Rightarrow> []
      | dev # toks \<Rightarrow>
          (case find_char CHR '':'' dev of
             None \<Rightarrow> []
           | Some i \<Rightarrow> [fold io_token toks
               (CgroupIOStat0\<lparr>ci_major := ucast (strtoull0 dev), ci_minor := ucast (strtoull0 (drop (i + 1) dev))\<rparr>)]))"

definition ReadCgroup :: "scan_lf \<Rightarrow> files \<Rightarrow> u64 \<Rightarrow> CgroupSnapshot" where
  "ReadCgroup lf fs ts_ns =
     (let (root, path) = FindCgroup fs; s = CgroupSnapshot0\<lparr>cg_ts_ns := ts_ns\<rparr>
      in if root = [] then s\<lparr>cg_available := False, cg_error := ''no unified cgroup v2 mount''\<rparr>
         else
           let base = root @ path;
               s1 = s\<lparr>cg_cgroup_path := base, cg_available := True\<rparr>;
               s2 = cg_cpu (ReadFile fs (base @ ''/cpu.stat'')) s1;
               s3 = cg_memory (ReadFile fs (base @ ''/memory.current'')) (ReadFile fs (base @ ''/memory.max''))
                      (ReadFile fs (base @ ''/memory.events'')) s2
           in s3\<lparr>cg_cpu_psi := ParsePsi lf (ReadFile fs (base @ ''/cpu.pressure'')),
                 cg_memory_psi := ParsePsi lf (ReadFile fs (base @ ''/memory.pressure'')),
                 cg_io := concat (map io_line (getlines (ReadFile fs (base @ ''/io.stat''))))\<rparr>)"

section \<open>One process\<close>

definition proc_file :: "u32 \<Rightarrow> string \<Rightarrow> string" where
  "proc_file pid name = ''/proc/'' @ show_nat (unat pid) @ ''/'' @ name"

definition ReadVmRss :: "files \<Rightarrow> u32 \<Rightarrow> u64 option" where
  "ReadVmRss fs pid =
     (if pid = 0 then None
      else case find_sub ''VmRSS:'' (ReadFile fs (proc_file pid ''status'')) of
             None \<Rightarrow> None
           | Some s \<Rightarrow> map_option fst (scan_dec (drop 6 s)))"

definition trim_end :: "(char \<Rightarrow> bool) \<Rightarrow> string \<Rightarrow> string" where
  "trim_end P s = rev (dropWhile P (rev s))"

definition ReadComm :: "files \<Rightarrow> u32 \<Rightarrow> string" where
  "ReadComm fs pid =
     (if pid = 0 then []
      else trim_end (\<lambda>c. c = CHR 0x0A \<or> c = CHR 0x0D) (ReadFile fs (proc_file pid ''comm'')))"

end
