(* ===== verification/Gpu.thy ===== *)
theory Gpu
  imports Deep Host
begin

text \<open>
  The GPU provider, \<^verbatim>\<open>src/collect/gpu_metrics.cpp\<close>: NVML loaded at run time, the DRM files of
  \<^verbatim>\<open>/sys\<close>, or nothing. The library is an argument: which entry points it has, and what each
  answers for a device (nothing for every return code other than \<^verbatim>\<open>NVML_SUCCESS\<close>). The file
  system, the symbolic links and \<^verbatim>\<open>strtod\<close> are arguments as well. The provider's own state is a
  record with the log of the calls that take or give up the library.
\<close>

section \<open>Reading files\<close>

definition gpu_ReadFileTrim :: "files \<Rightarrow> string \<Rightarrow> string" where
  "gpu_ReadFileTrim fs path =
     (case fs path of
        None \<Rightarrow> []
      | Some t \<Rightarrow>
          (case getlines t of
             [] \<Rightarrow> []
           | s # _ \<Rightarrow> trim_end (\<lambda>c. c = CHR 0x0A \<or> c = CHR 0x0D \<or> c = CHR '' '') s))"

definition TgidOf :: "files \<Rightarrow> u32 \<Rightarrow> u32" where
  "TgidOf fs pid =
     (case List.find (starts_with ''Tgid:'') (getlines (ReadFile fs (proc_file pid ''status''))) of
        None \<Rightarrow> pid
      | Some line \<Rightarrow> ucast (ParseU64 (drop 5 line) 0))"

definition CommOf :: "files \<Rightarrow> u32 \<Rightarrow> string" where
  "CommOf fs pid = gpu_ReadFileTrim fs (proc_file pid ''comm'')"

section \<open>The NVML library\<close>

text \<open>
  An entry point of the library: absent, or its answer for a device handle (and for further
  arguments). The four constants are the arguments the source passes.
\<close>

type_synonym 'a nv_entry = "(u64 \<Rightarrow> 'a option) option"
type_synonym 'a entry_of = "(u64 \<Rightarrow> int \<Rightarrow> 'a option) option"

record NvmlPciInfo =
  pci_domain :: u32
  pci_bus :: u32
  pci_device :: u32
  pci_busId :: string

record NvmlApi =
  nv_lib :: bool
  nv_Init :: "bool option"
  nv_Shutdown :: bool
  nv_Count :: "u32 option option"
  nv_HandleByIndex :: "(u32 \<Rightarrow> u64 option) option"
  nv_Uuid :: "string nv_entry"
  nv_Name :: "string nv_entry"
  nv_PciInfo :: "NvmlPciInfo nv_entry"
  nv_Utilization :: "(u32 \<times> u32) nv_entry"
  nv_MemoryInfo :: "(u64 \<times> u64 \<times> u64) nv_entry"
  nv_Temperature :: "u32 entry_of"
  nv_PowerUsage :: "u32 nv_entry"
  nv_PowerLimit :: "u32 nv_entry"
  nv_Energy :: "u64 nv_entry"
  nv_ClockInfo :: "u32 entry_of"
  nv_PcieThroughput :: "u32 entry_of"
  nv_EncoderUtil :: "(u32 \<times> u32) nv_entry"
  nv_DecoderUtil :: "(u32 \<times> u32) nv_entry"
  nv_ThrottleReasons :: "u64 nv_entry"
  nv_EccErrors :: "(u64 \<Rightarrow> int \<Rightarrow> int \<Rightarrow> u64 option) option"
  nv_RetiredPages :: "u64 entry_of"
  nv_MigMode :: "(u32 \<times> u32) nv_entry"
  nv_ProcInfo :: "(u64 \<Rightarrow> nat \<Rightarrow> (u32 \<times> u64) list option) option"

definition ask :: "'a nv_entry \<Rightarrow> u64 \<Rightarrow> 'a option" where
  "ask f dev = (case f of None \<Rightarrow> None | Some g \<Rightarrow> g dev)"

definition ask_of :: "'a entry_of \<Rightarrow> u64 \<Rightarrow> int \<Rightarrow> 'a option" where
  "ask_of f dev x = (case f of None \<Rightarrow> None | Some g \<Rightarrow> g dev x)"

definition NVML_TEMPERATURE_GPU :: int where "NVML_TEMPERATURE_GPU = 0"
definition NVML_CLOCK_SM :: int where "NVML_CLOCK_SM = 0"
definition NVML_CLOCK_MEM :: int where "NVML_CLOCK_MEM = 2"
definition NVML_PCIE_UTIL_TX_BYTES :: int where "NVML_PCIE_UTIL_TX_BYTES = 1"
definition NVML_PCIE_UTIL_RX_BYTES :: int where "NVML_PCIE_UTIL_RX_BYTES = 2"
definition NVML_VOLATILE_ECC :: int where "NVML_VOLATILE_ECC = 0"
definition NVML_SINGLE_BIT_ECC :: int where "NVML_SINGLE_BIT_ECC = 1"
definition NVML_DOUBLE_BIT_ECC :: int where "NVML_DOUBLE_BIT_ECC = 2"
definition NVML_PAGE_RETIREMENT_CAUSES :: int where "NVML_PAGE_RETIREMENT_CAUSES = 3"

section \<open>Opening and closing the backends\<close>

datatype nv_event = NvOpen | NvClose | NvInit | NvShutdown

record GpuMetrics =
  gm_source :: string
  gm_active :: string
  gm_fail_reason :: string
  gm_nvml :: bool
  gm_drm_cards :: "string list"
  gm_nvml_count :: u32
  gm_log :: "nv_event list"

definition GpuMetrics0 :: GpuMetrics where
  "GpuMetrics0 = \<lparr>gm_source = [], gm_active = [], gm_fail_reason = [], gm_nvml = False, gm_drm_cards = [],
     gm_nvml_count = 0, gm_log = []\<rparr>"

definition nv_log :: "nv_event list \<Rightarrow> GpuMetrics \<Rightarrow> GpuMetrics" where
  "nv_log es g = g\<lparr>gm_log := gm_log g @ es\<rparr>"

definition NvmlApi_Load :: "NvmlApi \<Rightarrow> GpuMetrics \<Rightarrow> bool \<times> GpuMetrics" where
  "NvmlApi_Load nv g =
     (if \<not> nv_lib nv then (False, g)
      else if nv_Init nv = None \<or> nv_Count nv = None \<or> nv_HandleByIndex nv = None
           then (False, nv_log [NvOpen, NvClose] g)
      else (True, nv_log [NvOpen] g))"

definition NvmlApi_Close :: "NvmlApi \<Rightarrow> GpuMetrics \<Rightarrow> GpuMetrics" where
  "NvmlApi_Close nv g = nv_log ((if nv_Shutdown nv then [NvShutdown] else []) @ [NvClose]) g"

definition InitNvml :: "NvmlApi \<Rightarrow> GpuMetrics \<Rightarrow> bool \<times> GpuMetrics" where
  "InitNvml nv g =
     (case NvmlApi_Load nv g of
        (False, g1) \<Rightarrow> (False, g1\<lparr>gm_fail_reason := ''libnvidia-ml.so.1 not loadable''\<rparr>)
      | (True, g1) \<Rightarrow>
          (if nv_Init nv \<noteq> Some True then
             (False, NvmlApi_Close nv (nv_log [NvInit] g1\<lparr>gm_fail_reason := ''nvmlInit failed (driver/permission)''\<rparr>))
           else
             let g2 = nv_log [NvInit] g1;
                 count = (case nv_Count nv of Some (Some n) \<Rightarrow> n | _ \<Rightarrow> 0)
             in if count = 0 then (False, NvmlApi_Close nv (g2\<lparr>gm_fail_reason := ''no NVML devices''\<rparr>))
                else (True, g2\<lparr>gm_nvml := True, gm_nvml_count := count, gm_active := ''nvml''\<rparr>)))"

definition drm_path :: "nat \<Rightarrow> string" where
  "drm_path i = ''/sys/class/drm/card'' @ show_nat i @ ''/device''"

definition InitDrm :: "files \<Rightarrow> GpuMetrics \<Rightarrow> bool \<times> GpuMetrics" where
  "InitDrm fs g =
     (let cards = gm_drm_cards g @ filter (\<lambda>p. fs (p @ ''/vendor'') \<noteq> None) (map drm_path [0..<64])
      in if cards = [] then (False, g\<lparr>gm_drm_cards := cards, gm_fail_reason := ''no DRM card devices''\<rparr>)
         else (True, g\<lparr>gm_drm_cards := cards, gm_active := ''drm''\<rparr>))"

definition GpuClose :: "NvmlApi \<Rightarrow> GpuMetrics \<Rightarrow> GpuMetrics" where
  "GpuClose nv g =
     (let g1 = (if gm_nvml g then (NvmlApi_Close nv g)\<lparr>gm_nvml := False\<rparr> else g)
      in g1\<lparr>gm_nvml_count := 0, gm_drm_cards := [], gm_active := [], gm_fail_reason := []\<rparr>)"

definition GpuInit :: "NvmlApi \<Rightarrow> files \<Rightarrow> string \<Rightarrow> GpuMetrics \<Rightarrow> bool \<times> GpuMetrics" where
  "GpuInit nv fs source g0 =
     (let g = (GpuClose nv g0)\<lparr>gm_source := source\<rparr>
      in if source = ''off'' then (True, g\<lparr>gm_active := ''off''\<rparr>)
         else if source = ''nvml'' then InitNvml nv g
         else if source = ''drm'' then InitDrm fs g
         else case InitNvml nv g of
                (True, g1) \<Rightarrow> (True, g1)
              | (False, g1) \<Rightarrow>
                  (case InitDrm fs g1 of
                     (True, g2) \<Rightarrow> (True, g2)
                   | (False, g2) \<Rightarrow>
                       (False, g2\<lparr>gm_fail_reason :=
                          ''nvml: '' @ gm_fail_reason g1 @ ''; drm: '' @ gm_fail_reason g2\<rparr>)))"

section \<open>One NVML device\<close>

text \<open>An optional call: its value is stored and its bit set when it succeeded.\<close>

definition opt_field :: "nat \<Rightarrow> 'a option \<Rightarrow> ('a \<Rightarrow> GpuDeviceRow \<Rightarrow> GpuDeviceRow) \<Rightarrow> GpuDeviceRow \<Rightarrow> GpuDeviceRow" where
  "opt_field b r put d = (case r of None \<Rightarrow> d | Some v \<Rightarrow> gd_valid_mask_update (set_mask b) (put v d))"

definition uuid_of :: "NvmlApi \<Rightarrow> u64 \<Rightarrow> u32 \<Rightarrow> string" where
  "uuid_of nv dev index =
     (let u = (case ask (nv_Uuid nv) dev of None \<Rightarrow> [] | Some b \<Rightarrow> cstr b)
      in if u = [] then ''nvml-'' @ show_nat (unat index) else u)"

definition zero_pad :: "nat \<Rightarrow> string \<Rightarrow> string" where
  "zero_pad n s = replicate (n - length s) (CHR ''0'') @ s"

definition pci_text :: "NvmlPciInfo \<Rightarrow> string" where
  "pci_text p =
     (if cstr (pci_busId p) \<noteq> [] then cstr (pci_busId p)
      else zero_pad 4 (show_hex (unat (pci_domain p))) @ '':'' @ zero_pad 2 (show_hex (unat (pci_bus p))) @ '':'' @
           zero_pad 2 (show_hex (unat (pci_device p))) @ ''.0'')"

definition percent_of :: "u64 \<Rightarrow> u64 \<Rightarrow> double" where
  "percent_of used mem_size = 100 * of_nat (unat used) / of_nat (unat mem_size)"

definition memory_fields :: "u64 \<Rightarrow> u64 \<Rightarrow> GpuDeviceRow \<Rightarrow> GpuDeviceRow" where
  "memory_fields used mem_size d =
     gd_valid_mask_update (set_mask 3 \<circ> set_mask 2) (d\<lparr>gd_mem_used_bytes := used, gd_mem_total_bytes := mem_size\<rparr>)"

definition memory_share :: "u64 \<Rightarrow> u64 \<Rightarrow> GpuDeviceRow \<Rightarrow> GpuDeviceRow" where
  "memory_share used mem_size d =
     gd_valid_mask_update (set_mask 1) (d\<lparr>gd_mem_util_pct := percent_of used mem_size\<rparr>)"

definition nvml_memory :: "(u64 \<times> u64 \<times> u64) option \<Rightarrow> GpuDeviceRow \<Rightarrow> GpuDeviceRow" where
  "nvml_memory r d =
     (case r of
        None \<Rightarrow> d
      | Some (mem_size, free, used) \<Rightarrow>
          (let d1 = memory_fields used mem_size d in if mem_size \<noteq> 0 then memory_share used mem_size d1 else d1))"

text \<open>The optional calls in the source's order: the board, the links, the errors.\<close>

definition nvml_board :: "NvmlApi \<Rightarrow> u64 \<Rightarrow> GpuDeviceRow \<Rightarrow> GpuDeviceRow" where
  "nvml_board nv dev =
     opt_field 9 (ask_of (nv_ClockInfo nv) dev NVML_CLOCK_MEM) (\<lambda>v. gd_mem_clock_mhz_update (\<lambda>_. v))
     \<circ> opt_field 8 (ask_of (nv_ClockInfo nv) dev NVML_CLOCK_SM) (\<lambda>v. gd_sm_clock_mhz_update (\<lambda>_. v))
     \<circ> opt_field 7 (ask (nv_Energy nv) dev) (\<lambda>v. gd_energy_mj_update (\<lambda>_. v))
     \<circ> opt_field 6 (ask (nv_PowerLimit nv) dev) (\<lambda>v. gd_power_limit_w_update (\<lambda>_. of_nat (unat v) / 1000))
     \<circ> opt_field 5 (ask (nv_PowerUsage nv) dev) (\<lambda>v. gd_power_w_update (\<lambda>_. of_nat (unat v) / 1000))
     \<circ> opt_field 4 (ask_of (nv_Temperature nv) dev NVML_TEMPERATURE_GPU)
         (\<lambda>v. gd_temperature_c_update (\<lambda>_. of_nat (unat v)))
     \<circ> nvml_memory (ask (nv_MemoryInfo nv) dev)
     \<circ> opt_field 0 (ask (nv_Utilization nv) dev) (\<lambda>v. gd_util_pct_update (\<lambda>_. of_nat (unat (fst v))))"

definition ask_ecc :: "NvmlApi \<Rightarrow> u64 \<Rightarrow> int \<Rightarrow> u64 option" where
  "ask_ecc nv dev kind = (case nv_EccErrors nv of None \<Rightarrow> None | Some f \<Rightarrow> f dev kind NVML_VOLATILE_ECC)"

definition nvml_links :: "NvmlApi \<Rightarrow> u64 \<Rightarrow> GpuDeviceRow \<Rightarrow> GpuDeviceRow" where
  "nvml_links nv dev =
     opt_field 17 (ask_of (nv_RetiredPages nv) dev NVML_PAGE_RETIREMENT_CAUSES)
         (\<lambda>v. gd_retired_pages_update (\<lambda>_. v))
     \<circ> opt_field 16 (ask_ecc nv dev NVML_DOUBLE_BIT_ECC) (\<lambda>v. gd_ecc_dbe_total_update (\<lambda>_. v))
     \<circ> opt_field 15 (ask_ecc nv dev NVML_SINGLE_BIT_ECC) (\<lambda>v. gd_ecc_sbe_total_update (\<lambda>_. v))
     \<circ> opt_field 14 (ask (nv_ThrottleReasons nv) dev) (\<lambda>v. gd_throttle_reasons_update (\<lambda>_. v))
     \<circ> opt_field 13 (ask (nv_DecoderUtil nv) dev) (\<lambda>v. gd_decoder_util_pct_update (\<lambda>_. of_nat (unat (fst v))))
     \<circ> opt_field 12 (ask (nv_EncoderUtil nv) dev) (\<lambda>v. gd_encoder_util_pct_update (\<lambda>_. of_nat (unat (fst v))))
     \<circ> opt_field 10 (ask_of (nv_PcieThroughput nv) dev NVML_PCIE_UTIL_RX_BYTES)
         (\<lambda>v. gd_pcie_rx_kbps_update (\<lambda>_. ucast v))
     \<circ> opt_field 11 (ask_of (nv_PcieThroughput nv) dev NVML_PCIE_UTIL_TX_BYTES)
         (\<lambda>v. gd_pcie_tx_kbps_update (\<lambda>_. ucast v))"

definition nvml_identity :: "NvmlApi \<Rightarrow> u64 \<Rightarrow> u32 \<Rightarrow> GpuDeviceRow \<Rightarrow> GpuDeviceRow" where
  "nvml_identity nv dev index d =
     (let d1 = d\<lparr>gd_available := True, gd_uuid := uuid_of nv dev index\<rparr>;
          d2 = (case ask (nv_Name nv) dev of None \<Rightarrow> d1 | Some b \<Rightarrow> d1\<lparr>gd_model := cstr b\<rparr>)
      in case ask (nv_PciInfo nv) dev of None \<Rightarrow> d2 | Some p \<Rightarrow> d2\<lparr>gd_pci_bdf := pci_text p\<rparr>)"

definition handle_of :: "NvmlApi \<Rightarrow> u32 \<Rightarrow> u64 option" where
  "handle_of nv index =
     (case nv_HandleByIndex nv of
        None \<Rightarrow> None
      | Some f \<Rightarrow> (case f index of Some dev \<Rightarrow> if dev = 0 then None else Some dev | None \<Rightarrow> None))"

definition NvmlDevice :: "NvmlApi \<Rightarrow> GpuMetrics \<Rightarrow> u32 \<Rightarrow> GpuDeviceRow" where
  "NvmlDevice nv g index =
     (let d = GpuDeviceRow0\<lparr>gd_source := ''nvml''\<rparr>
      in case (if gm_nvml g then handle_of nv index else None) of
           None \<Rightarrow> d\<lparr>gd_available := False, gd_error_text := ''nvmlDeviceGetHandleByIndex failed''\<rparr>
         | Some dev \<Rightarrow>
             (let e = nvml_links nv dev (nvml_board nv dev (nvml_identity nv dev index d))
              in case ask (nv_MigMode nv) dev of
                   None \<Rightarrow> e
                 | Some (mode, pending) \<Rightarrow> e\<lparr>gd_is_mig := (mode \<noteq> 0)\<rparr>))"

section \<open>One DRM card\<close>

type_synonym strtod = "string \<Rightarrow> double option"

definition drm_vendor :: "string \<Rightarrow> string" where
  "drm_vendor text =
     (let vid = fst (snd (scan_hex text))
      in if vid = 0x10de then ''nvidia'' else if vid = 0x1002 then ''amd''
         else if vid = 0x8086 then ''intel'' else ''unknown'')"

text \<open>\<^verbatim>\<open>readlink\<close> into 511 bytes; the address is what follows the last slash.\<close>

definition drm_address :: "(string \<Rightarrow> string option) \<Rightarrow> string \<Rightarrow> GpuDeviceRow \<Rightarrow> GpuDeviceRow" where
  "drm_address link path d =
     (case link path of
        Some (c # cs) \<Rightarrow>
          (let target = cstr (take 511 (c # cs));
               bdf = rev (takeWhile (\<lambda>c. c \<noteq> CHR ''/'') (rev target))
           in d\<lparr>gd_pci_bdf := bdf, gd_uuid := bdf\<rparr>)
      | _ \<Rightarrow> d\<lparr>gd_uuid := path\<rparr>)"

definition nonneg :: "double \<Rightarrow> double option" where
  "nonneg v = (if v \<ge> 0 then Some v else None)"

definition drm_number :: "files \<Rightarrow> strtod \<Rightarrow> string \<Rightarrow> double option" where
  "drm_number fs strtod path = nonneg (ParseD strtod (gpu_ReadFileTrim fs path) (- 1))"

definition drm_memory :: "files \<Rightarrow> string \<Rightarrow> GpuDeviceRow \<Rightarrow> GpuDeviceRow" where
  "drm_memory fs path d =
     (let used = ParseU64 (gpu_ReadFileTrim fs (path @ ''/mem_info_vram_used'')) 0;
          mem_size = ParseU64 (gpu_ReadFileTrim fs (path @ ''/mem_info_vram_total'')) 0
      in if mem_size \<noteq> 0 then memory_share used mem_size (memory_fields used mem_size d) else d)"

definition drm_sensors :: "files \<Rightarrow> strtod \<Rightarrow> string \<Rightarrow> GpuDeviceRow \<Rightarrow> GpuDeviceRow" where
  "drm_sensors fs strtod path d =
     (case List.find (\<lambda>hw. fs (hw @ ''/temp1_input'') \<noteq> None)
             (map (\<lambda>h. path @ ''/hwmon/hwmon'' @ show_nat h) [0..<8]) of
        None \<Rightarrow> d
      | Some hw \<Rightarrow>
          opt_field 6 (drm_number fs strtod (hw @ ''/power1_cap'')) (\<lambda>v. gd_power_limit_w_update (\<lambda>_. v / 1000000))
            (opt_field 5 (drm_number fs strtod (hw @ ''/power1_average'')) (\<lambda>v. gd_power_w_update (\<lambda>_. v / 1000000))
              (opt_field 4 (drm_number fs strtod (hw @ ''/temp1_input'')) (\<lambda>v. gd_temperature_c_update (\<lambda>_. v / 1000)) d)))"

text \<open>\<^verbatim>\<open>sscanf(line, "%*d: %lu %c", &v, &unit) == 2\<close>.\<close>

definition sclk_value :: "string \<Rightarrow> u32 option" where
  "sclk_value line =
     (case scan_dec line of
        Some (_, CHR '':'' # r) \<Rightarrow>
          (case scan_dec r of
             Some (v, r2) \<Rightarrow>
               (case dropWhile is_space r2 of
                  [] \<Rightarrow> None
                | unit # _ \<Rightarrow> Some (ucast (if unit = CHR ''G'' then v * 1000 else v)))
           | None \<Rightarrow> None)
      | _ \<Rightarrow> None)"

definition drm_clock :: "files \<Rightarrow> string \<Rightarrow> GpuDeviceRow \<Rightarrow> GpuDeviceRow" where
  "drm_clock fs path d =
     (let sclk = gpu_ReadFileTrim fs (path @ ''/pp_dpm_sclk'')
      in case List.find (\<lambda>line. CHR ''*'' \<in> set line) (getlines sclk) of
           None \<Rightarrow> d
         | Some line \<Rightarrow> opt_field 8 (sclk_value line) (\<lambda>v. gd_sm_clock_mhz_update (\<lambda>_. v)) d)"

definition DrmDevice :: "files \<Rightarrow> (string \<Rightarrow> string option) \<Rightarrow> strtod \<Rightarrow> string \<Rightarrow> GpuDeviceRow" where
  "DrmDevice fs link strtod path =
     (let d0 = GpuDeviceRow0\<lparr>gd_source := ''drm'', gd_available := True,
            gd_vendor := drm_vendor (gpu_ReadFileTrim fs (path @ ''/vendor''))\<rparr>;
          name = gpu_ReadFileTrim fs (path @ ''/product_name'');
          model = (if name = [] then gpu_ReadFileTrim fs (path @ ''/model'') else name);
          d1 = (drm_address link path d0)\<lparr>gd_model := model\<rparr>;
          d2 = opt_field 0 (drm_number fs strtod (path @ ''/gpu_busy_percent'')) (\<lambda>v. gd_util_pct_update (\<lambda>_. v)) d1
      in drm_clock fs path (drm_sensors fs strtod path (drm_memory fs path d2)))"

section \<open>Snapshots\<close>

definition GpuSnapshot_take :: "NvmlApi \<Rightarrow> files \<Rightarrow> (string \<Rightarrow> string option) \<Rightarrow> strtod \<Rightarrow> u64 \<Rightarrow> GpuMetrics \<Rightarrow> GpuSnapshot" where
  "GpuSnapshot_take nv fs link strtod ts_ns g =
     (let s = GpuSnapshot0\<lparr>gs_ts_ns := ts_ns\<rparr>
      in if gm_active g = ''off'' then
           s\<lparr>gs_devices := [GpuDeviceRow0\<lparr>gd_uuid := ''disabled'', gd_source := ''off'', gd_available := False,
                              gd_error_text := ''disabled''\<rparr>]\<rparr>
         else if gm_active g = ''nvml'' then
           s\<lparr>gs_devices := map (\<lambda>i. NvmlDevice nv g (of_nat i)) [0..<unat (gm_nvml_count g)]\<rparr>
         else if gm_active g = ''drm'' then
           s\<lparr>gs_devices := map (DrmDevice fs link strtod) (gm_drm_cards g)\<rparr>
         else
           s\<lparr>gs_devices := [GpuDeviceRow0\<lparr>gd_uuid := ''unavailable'', gd_source := gm_source g,
                              gd_available := False, gd_error_text := gm_fail_reason g\<rparr>]\<rparr>)"

definition process_row :: "files \<Rightarrow> u32 list \<Rightarrow> u64 \<Rightarrow> string \<Rightarrow> u64 \<Rightarrow> u32 \<times> u64 \<Rightarrow> DeepGpuProcessRow option" where
  "process_row fs tgids ts uuid mem_total p =
     (let (pid, used) = p; tgid = TgidOf fs pid
      in if pid = 0 \<or> tgid \<notin> set tgids then None
         else let r = DeepGpuProcessRow0\<lparr>dg_ts_ns := ts, dg_gpu_uuid := uuid, dg_pid := pid, dg_tgid := tgid,
                        dg_comm := CommOf fs pid, dg_source := ''nvml'', dg_fb_used_bytes := used,
                        dg_valid_mask := set_mask 4 0\<rparr>
              in Some (if mem_total \<noteq> 0 \<and> used \<noteq> 0
                       then r\<lparr>dg_mem_util_pct := percent_of used mem_total,
                              dg_valid_mask := set_mask 1 (dg_valid_mask r)\<rparr>
                       else r))"

definition device_processes :: "NvmlApi \<Rightarrow> files \<Rightarrow> u32 list \<Rightarrow> u64 \<Rightarrow> u32 \<Rightarrow> DeepGpuProcessRow list" where
  "device_processes nv fs tgids ts i =
     (case handle_of nv i of
        None \<Rightarrow> []
      | Some dev \<Rightarrow>
          (let mem_total = (case ask (nv_MemoryInfo nv) dev of None \<Rightarrow> 0 | Some (mem_size, _) \<Rightarrow> mem_size);
               procs = (case nv_ProcInfo nv of None \<Rightarrow> [] | Some f \<Rightarrow> (case f dev 128 of None \<Rightarrow> [] | Some ps \<Rightarrow> ps))
           in List.map_filter (process_row fs tgids ts (uuid_of nv dev i) mem_total) (take 128 procs)))"

definition NvmlProcesses :: "NvmlApi \<Rightarrow> files \<Rightarrow> u32 list \<Rightarrow> u64 \<Rightarrow> GpuMetrics \<Rightarrow> DeepGpuProcessRow list" where
  "NvmlProcesses nv fs tgids ts g =
     (if \<not> gm_nvml g then []
      else concat (map (\<lambda>i. device_processes nv fs tgids ts (of_nat i)) [0..<unat (gm_nvml_count g)]))"

definition SnapshotProcesses :: "NvmlApi \<Rightarrow> files \<Rightarrow> GpuMetrics \<Rightarrow> u32 list \<Rightarrow> u64 \<Rightarrow> DeepGpuProcessRow list" where
  "SnapshotProcesses nv fs g tgids ts = (if gm_active g \<noteq> ''nvml'' then [] else NvmlProcesses nv fs tgids ts g)"

end
