(* ===== verification/GpuProps.thy ===== *)
theory GpuProps
  imports Gpu DeepProps
begin

text \<open>
  What the GPU provider promises: the library is taken and given up in order whatever the sequence
  of calls, a snapshot always has a row, a field whose bit is clear is zero, and the processes
  reported to an episode are those of its targets.
\<close>

section \<open>The library is taken and given up in order\<close>

datatype nv_state = Closed | Loaded | Started

fun nv_step :: "nv_event \<Rightarrow> nv_state option \<Rightarrow> nv_state option" where
  "nv_step NvOpen (Some Closed) = Some Loaded"
| "nv_step NvInit (Some Loaded) = Some Started"
| "nv_step NvShutdown (Some Started) = Some Loaded"
| "nv_step NvClose (Some Loaded) = Some Closed"
| "nv_step NvClose (Some Started) = Some Closed"
| "nv_step _ _ = None"

definition nv_run :: "nv_event list \<Rightarrow> nv_state option" where
  "nv_run es = fold nv_step es (Some Closed)"

lemma nv_run_append: "nv_run (es @ fs) = fold nv_step fs (nv_run es)"
  by (simp add: nv_run_def)

lemma nv_log_simps [simp]:
  "gm_log (nv_log es g) = gm_log g @ es"
  "gm_nvml (nv_log es g) = gm_nvml g"
  "gm_source (nv_log es g) = gm_source g"
  "gm_active (nv_log es g) = gm_active g"
  "gm_fail_reason (nv_log es g) = gm_fail_reason g"
  "gm_drm_cards (nv_log es g) = gm_drm_cards g"
  "gm_nvml_count (nv_log es g) = gm_nvml_count g"
  by (simp_all add: nv_log_def)

lemma NvmlApi_Close_simps [simp]:
  "gm_log (NvmlApi_Close nv g) = gm_log g @ (if nv_Shutdown nv then [NvShutdown] else []) @ [NvClose]"
  "gm_nvml (NvmlApi_Close nv g) = gm_nvml g"
  "gm_source (NvmlApi_Close nv g) = gm_source g"
  "gm_active (NvmlApi_Close nv g) = gm_active g"
  "gm_fail_reason (NvmlApi_Close nv g) = gm_fail_reason g"
  "gm_drm_cards (NvmlApi_Close nv g) = gm_drm_cards g"
  "gm_nvml_count (NvmlApi_Close nv g) = gm_nvml_count g"
  by (simp_all add: NvmlApi_Close_def)

text \<open>The state of the provider, and what each of its public operations keeps.\<close>

datatype gpu_op = OpInit NvmlApi files string | OpClose NvmlApi

fun gpu_run :: "gpu_op \<Rightarrow> GpuMetrics \<Rightarrow> GpuMetrics" where
  "gpu_run (OpInit nv fs source) g = snd (GpuInit nv fs source g)"
| "gpu_run (OpClose nv) g = GpuClose nv g"

definition gpu_inv :: "GpuMetrics \<Rightarrow> bool" where
  "gpu_inv g \<longleftrightarrow>
     nv_run (gm_log g) = Some (if gm_nvml g then Started else Closed) \<and>
     (gm_active g = ''nvml'' \<longleftrightarrow> gm_nvml g) \<and> (gm_nvml g \<longrightarrow> gm_nvml_count g \<noteq> 0) \<and>
     (gm_active g = ''drm'' \<longleftrightarrow> gm_drm_cards g \<noteq> [])"

definition gpu_idle :: "GpuMetrics \<Rightarrow> bool" where
  "gpu_idle g \<longleftrightarrow> nv_run (gm_log g) = Some Closed \<and> \<not> gm_nvml g \<and> gm_drm_cards g = [] \<and> gm_active g = []"

lemma GpuClose_idle: "gpu_inv g \<Longrightarrow> gpu_idle (GpuClose nv g)"
  by (auto simp: gpu_inv_def gpu_idle_def GpuClose_def Let_def nv_run_append)

lemma idle_inv: "gpu_idle g \<Longrightarrow> gpu_inv g"
  by (simp add: gpu_idle_def gpu_inv_def)

text \<open>What \<^verbatim>\<open>InitNvml\<close> leaves behind: the backend in use, or a balanced log and a reason.\<close>

lemma InitNvml_started:
  assumes "InitNvml nv g = (True, g')"
  shows "gm_log g' = gm_log g @ [NvOpen, NvInit] \<and> gm_nvml g' \<and> gm_nvml_count g' \<noteq> 0 \<and> gm_active g' = ''nvml'' \<and>
         gm_drm_cards g' = gm_drm_cards g"
  using assms
  by (auto simp: InitNvml_def NvmlApi_Load_def Let_def split: if_splits option.splits)

lemma InitNvml_failed:
  assumes "InitNvml nv g = (False, g')"
  shows "gm_nvml g' = gm_nvml g \<and> gm_active g' = gm_active g \<and> gm_drm_cards g' = gm_drm_cards g \<and>
         (nv_run (gm_log g) = Some Closed \<longrightarrow> nv_run (gm_log g') = Some Closed)"
  using assms
  by (auto simp: InitNvml_def NvmlApi_Load_def Let_def nv_run_append split: if_splits option.splits)

lemma InitNvml_cases:
  assumes "gpu_idle g"
  shows "fst (InitNvml nv g) \<Longrightarrow> gpu_inv (snd (InitNvml nv g))"
    and "\<not> fst (InitNvml nv g) \<Longrightarrow> gpu_idle (snd (InitNvml nv g))"
proof -
  obtain b g' where e: "InitNvml nv g = (b, g')" by fastforce
  show "fst (InitNvml nv g) \<Longrightarrow> gpu_inv (snd (InitNvml nv g))"
    using InitNvml_started [of nv g g'] assms by (simp add: e gpu_inv_def gpu_idle_def nv_run_append)
  show "\<not> fst (InitNvml nv g) \<Longrightarrow> gpu_idle (snd (InitNvml nv g))"
    using InitNvml_failed [of nv g g'] assms by (simp add: e gpu_idle_def)
qed

lemma InitDrm_inv: "gpu_idle g \<Longrightarrow> gpu_inv (snd (InitDrm fs g))"
  by (auto simp: InitDrm_def gpu_idle_def gpu_inv_def Let_def)

lemma gpu_idle_update: "gpu_idle (g\<lparr>gm_fail_reason := r\<rparr>) = gpu_idle g" "gpu_idle (g\<lparr>gm_source := r\<rparr>) = gpu_idle g"
  "gpu_inv (g\<lparr>gm_fail_reason := r\<rparr>) = gpu_inv g"
  by (simp_all add: gpu_idle_def gpu_inv_def)

lemma GpuInit_inv:
  assumes "gpu_inv g"
  shows "gpu_inv (snd (GpuInit nv fs source g))"
proof -
  let ?g = "(GpuClose nv g)\<lparr>gm_source := source\<rparr>"
  have idle: "gpu_idle ?g" using GpuClose_idle [OF assms] by (simp add: gpu_idle_update)
  have off: "gpu_inv (?g\<lparr>gm_active := ''off''\<rparr>)" using idle by (simp add: gpu_idle_def gpu_inv_def)
  have nvml: "gpu_inv (snd (InitNvml nv ?g))" using InitNvml_cases [OF idle] idle_inv by blast
  have auto: "gpu_inv (snd (case InitNvml nv ?g of
                (True, g1) \<Rightarrow> (True, g1)
              | (False, g1) \<Rightarrow>
                  (case InitDrm fs g1 of
                     (True, g2) \<Rightarrow> (True, g2)
                   | (False, g2) \<Rightarrow>
                       (False, g2\<lparr>gm_fail_reason :=
                          ''nvml: '' @ gm_fail_reason g1 @ ''; drm: '' @ gm_fail_reason g2\<rparr>))))"
    using nvml InitNvml_cases(2) [OF idle, of nv] InitDrm_inv [of "snd (InitNvml nv ?g)" fs]
    by (auto simp: gpu_idle_update split: prod.splits bool.splits)
  show ?thesis
    unfolding GpuInit_def Let_def using off nvml InitDrm_inv [OF idle, of fs] auto
    by (simp only: snd_conv split: if_split) simp
qed

lemma gpu_inv_run: "gpu_inv g \<Longrightarrow> gpu_inv (fold gpu_run ops g)"
proof (induction ops arbitrary: g)
  case (Cons op ops)
  have "gpu_inv (gpu_run op g)"
    using Cons.prems GpuInit_inv idle_inv [OF GpuClose_idle] by (cases op) auto
  then show ?case using Cons.IH by simp
qed simp

lemma gpu_inv0: "gpu_inv GpuMetrics0"
  by (simp add: gpu_inv_def GpuMetrics0_def nv_run_def)

text \<open>
  Claim C24: Whatever the sequence of initialisations and closings, with whatever library and files at each
  of them, the library is loaded, started, shut down and unloaded in that order, never twice; it is
  held exactly while the NVML backend is active, and a snapshot always has at least one device row.
\<close>

theorem gpu_library_protocol:
  "let g = fold gpu_run ops GpuMetrics0
   in nv_run (gm_log g) = Some (if gm_active g = ''nvml'' then Started else Closed) \<and>
      gs_devices (GpuSnapshot_take nv fs link strtod ts g) \<noteq> []"
proof -
  define g where "g = fold gpu_run ops GpuMetrics0"
  have i: "gpu_inv g" unfolding g_def by (rule gpu_inv_run [OF gpu_inv0])
  moreover have "gs_devices (GpuSnapshot_take nv fs link strtod ts g) \<noteq> []"
    using i by (auto simp: gpu_inv_def GpuSnapshot_take_def Let_def unat_eq_zero)
  ultimately show ?thesis by (simp add: gpu_inv_def Let_def flip: g_def)
qed

section \<open>A clear bit is a zero field\<close>

definition gpu_fields :: "GpuDeviceRow \<Rightarrow> (nat \<times> bool) list" where
  "gpu_fields d =
     [(0, gd_util_pct d = 0), (1, gd_mem_util_pct d = 0), (2, gd_mem_used_bytes d = 0),
      (3, gd_mem_total_bytes d = 0), (4, gd_temperature_c d = 0), (5, gd_power_w d = 0),
      (6, gd_power_limit_w d = 0), (7, gd_energy_mj d = 0), (8, gd_sm_clock_mhz d = 0),
      (9, gd_mem_clock_mhz d = 0), (10, gd_pcie_rx_kbps d = 0), (11, gd_pcie_tx_kbps d = 0),
      (12, gd_encoder_util_pct d = 0), (13, gd_decoder_util_pct d = 0), (14, gd_throttle_reasons d = 0),
      (15, gd_ecc_sbe_total d = 0), (16, gd_ecc_dbe_total d = 0), (17, gd_retired_pages d = 0)]"

definition masked :: "GpuDeviceRow \<Rightarrow> bool" where
  "masked d \<longleftrightarrow> list_all (\<lambda>(b, zero). bit (gd_valid_mask d) b \<or> zero) (gpu_fields d)"

lemma bit_set_mask [simp]: "bit (set_mask b m) k \<longleftrightarrow> bit m k \<or> b = k \<and> k < 32"
  by (auto simp: set_mask_def bit_simps)

lemma masked_identity: "masked d \<Longrightarrow> gd_valid_mask d = 0 \<Longrightarrow> masked (nvml_identity nv dev i d) \<and> gd_valid_mask (nvml_identity nv dev i d) = 0"
  by (auto simp: nvml_identity_def masked_def gpu_fields_def Let_def split: option.splits)

lemma masked_memory: "masked d \<Longrightarrow> masked (nvml_memory r d)"
  by (auto simp: nvml_memory_def memory_fields_def memory_share_def masked_def gpu_fields_def Let_def split: option.splits)

text \<open>A step that sets one field and its bit keeps the row masked.\<close>

definition only_field :: "nat \<Rightarrow> ('a \<Rightarrow> GpuDeviceRow \<Rightarrow> GpuDeviceRow) \<Rightarrow> bool" where
  "only_field b put \<longleftrightarrow> b < 32 \<and>
     (\<forall>v d. gd_valid_mask (put v d) = gd_valid_mask d \<and> filter (\<lambda>f. fst f \<noteq> b) (gpu_fields (put v d)) =
        filter (\<lambda>f. fst f \<noteq> b) (gpu_fields d))"

lemma masked_filter:
  "masked d \<longleftrightarrow> list_all (\<lambda>(k, zero). bit (gd_valid_mask d) k \<or> zero) (filter (\<lambda>f. fst f \<noteq> b) (gpu_fields d)) \<and>
     list_all (\<lambda>(k, zero). bit (gd_valid_mask d) k \<or> zero) (filter (\<lambda>f. fst f = b) (gpu_fields d))"
  by (auto simp: masked_def list_all_iff)

lemma gpu_fields_mask [simp]: "gpu_fields (gd_valid_mask_update f d) = gpu_fields d"
  by (simp add: gpu_fields_def)

lemma masked_opt_field:
  assumes "only_field b put" and "masked d"
  shows "masked (opt_field b r put d)"
proof (cases r)
  case (Some v)
  have "list_all (\<lambda>(k, zero). bit (gd_valid_mask d) k \<or> zero) (filter (\<lambda>f. fst f \<noteq> b) (gpu_fields d))"
    using assms masked_filter [of d b] by simp
  then have "masked (gd_valid_mask_update (set_mask b) (put v d))"
    using assms(1) unfolding masked_filter [of "gd_valid_mask_update (set_mask b) (put v d)" b]
    by (simp add: only_field_def) (auto simp: list_all_iff)
  then show ?thesis by (simp add: Some opt_field_def)
qed (simp add: opt_field_def assms)

lemma only_fields:
  "only_field 0 (\<lambda>v. gd_util_pct_update (\<lambda>_. f0 v))" "only_field 4 (\<lambda>v. gd_temperature_c_update (\<lambda>_. f1 v))"
  "only_field 5 (\<lambda>v. gd_power_w_update (\<lambda>_. f2 v))" "only_field 6 (\<lambda>v. gd_power_limit_w_update (\<lambda>_. f3 v))"
  "only_field 7 (\<lambda>v. gd_energy_mj_update (\<lambda>_. f4 v))" "only_field 8 (\<lambda>v. gd_sm_clock_mhz_update (\<lambda>_. f5 v))"
  "only_field 9 (\<lambda>v. gd_mem_clock_mhz_update (\<lambda>_. f6 v))" "only_field 10 (\<lambda>v. gd_pcie_rx_kbps_update (\<lambda>_. f7 v))"
  "only_field 11 (\<lambda>v. gd_pcie_tx_kbps_update (\<lambda>_. f8 v))" "only_field 12 (\<lambda>v. gd_encoder_util_pct_update (\<lambda>_. f9 v))"
  "only_field 13 (\<lambda>v. gd_decoder_util_pct_update (\<lambda>_. f10 v))" "only_field 14 (\<lambda>v. gd_throttle_reasons_update (\<lambda>_. f11 v))"
  "only_field 15 (\<lambda>v. gd_ecc_sbe_total_update (\<lambda>_. f12 v))" "only_field 16 (\<lambda>v. gd_ecc_dbe_total_update (\<lambda>_. f13 v))"
  "only_field 17 (\<lambda>v. gd_retired_pages_update (\<lambda>_. f14 v))"
  by (simp_all add: only_field_def gpu_fields_def)

lemmas masked_steps = masked_opt_field [OF only_fields(1)] masked_opt_field [OF only_fields(2)]
  masked_opt_field [OF only_fields(3)] masked_opt_field [OF only_fields(4)] masked_opt_field [OF only_fields(5)]
  masked_opt_field [OF only_fields(6)] masked_opt_field [OF only_fields(7)] masked_opt_field [OF only_fields(8)]
  masked_opt_field [OF only_fields(9)] masked_opt_field [OF only_fields(10)] masked_opt_field [OF only_fields(11)]
  masked_opt_field [OF only_fields(12)] masked_opt_field [OF only_fields(13)] masked_opt_field [OF only_fields(14)]
  masked_opt_field [OF only_fields(15)]

lemma masked_board: "masked d \<Longrightarrow> masked (nvml_board nv dev d)"
  by (simp add: nvml_board_def masked_steps masked_memory)

lemma masked_links: "masked d \<Longrightarrow> masked (nvml_links nv dev d)"
  by (simp add: nvml_links_def masked_steps)

lemma masked_plain: "gpu_fields d = gpu_fields e \<Longrightarrow> gd_valid_mask d = gd_valid_mask e \<Longrightarrow> masked d = masked e"
  by (simp add: masked_def)

lemma masked0: "masked GpuDeviceRow0"
  by (simp add: masked_def gpu_fields_def GpuDeviceRow0_def)

lemma mask0: "gd_valid_mask GpuDeviceRow0 = 0"
  by (simp add: GpuDeviceRow0_def)

lemma masked_mig: "masked (d\<lparr>gd_is_mig := b\<rparr>) = masked d"
  by (rule masked_plain) (simp_all add: gpu_fields_def)

lemma masked_nvml: "masked (NvmlDevice nv g i)"
proof -
  have z: "masked (GpuDeviceRow0\<lparr>gd_source := ''nvml''\<rparr>)" "gd_valid_mask (GpuDeviceRow0\<lparr>gd_source := ''nvml''\<rparr>) = 0"
    by (simp_all add: masked_def gpu_fields_def GpuDeviceRow0_def)
  have f: "masked (GpuDeviceRow0\<lparr>gd_source := ''nvml'', gd_available := False, gd_error_text := e\<rparr>)" for e
    by (simp add: masked_def gpu_fields_def GpuDeviceRow0_def)
  show ?thesis
    using masked_identity [OF z]
    by (auto simp: NvmlDevice_def Let_def masked_mig masked_links masked_board f split: option.split)
qed

lemma masked_drm_memory: "masked d \<Longrightarrow> masked (drm_memory fs path d)"
  by (auto simp: drm_memory_def memory_fields_def memory_share_def masked_def gpu_fields_def Let_def)

lemma masked_drm: "masked (DrmDevice fs link strtod path)"
proof -
  have a: "masked (drm_address link path d\<lparr>gd_model := m\<rparr>) = masked d" for d m
    by (rule masked_plain) (auto simp: drm_address_def gpu_fields_def Let_def split: option.split list.split)
  have z: "masked (GpuDeviceRow0\<lparr>gd_source := ''drm'', gd_available := True, gd_vendor := v\<rparr>)" for v
    by (simp add: masked_def gpu_fields_def GpuDeviceRow0_def)
  show ?thesis
    by (simp add: DrmDevice_def Let_def drm_clock_def drm_sensors_def masked_steps masked_drm_memory a z split: option.split)
qed

lemma opt_field_available: "(\<And>v d. gd_available (put v d) = gd_available d) \<Longrightarrow> gd_available (opt_field b r put d) = gd_available d"
  by (simp add: opt_field_def split: option.split)

lemma nvml_available: "gd_available (nvml_links nv dev (nvml_board nv dev d)) = gd_available d"
  by (simp add: nvml_links_def nvml_board_def opt_field_available nvml_memory_def memory_fields_def memory_share_def
      Let_def split: option.split)

lemma identity_available: "gd_available (nvml_identity nv dev i d)"
  by (simp add: nvml_identity_def Let_def split: option.split)

lemma drm_available: "gd_available (DrmDevice fs link strtod path)"
  by (simp add: DrmDevice_def Let_def drm_clock_def drm_sensors_def opt_field_available drm_memory_def drm_address_def
      memory_fields_def memory_share_def split: option.split list.split)

text \<open>
  Claim C32: In every row of a GPU snapshot, whatever the library, the files and the backend, a metric whose
  bit of the mask is clear is zero, and a row that is not available has an empty mask.
\<close>

theorem gpu_clear_bit_zero_field:
  "list_all (\<lambda>d. masked d \<and> (gd_available d \<or> gd_valid_mask d = 0)) (gs_devices (GpuSnapshot_take nv fs link strtod ts g))"
proof -
  have off: "masked (GpuDeviceRow0\<lparr>gd_uuid := u, gd_source := s, gd_available := False, gd_error_text := e\<rparr>)" for u s e
    by (simp add: masked_def gpu_fields_def GpuDeviceRow0_def)
  have n: "gd_available (NvmlDevice nv g i) \<or> gd_valid_mask (NvmlDevice nv g i) = 0" for i
    by (auto simp: NvmlDevice_def GpuDeviceRow0_def Let_def nvml_available identity_available split: option.split)
  have d: "gd_available (DrmDevice fs link strtod p)" for p
    by (simp add: drm_available)
  show ?thesis
    by (simp add: GpuSnapshot_take_def Let_def list_all_iff masked_nvml masked_drm off n d mask0)
qed

section \<open>The processes of an episode\<close>

lemma map_filter_length: "length (List.map_filter f xs) \<le> length xs"
  by (simp add: List.map_filter_def)

lemma map_filter_take: "length (List.map_filter f (take n xs)) \<le> n"
  using map_filter_length [of f "take n xs"] by simp

definition process_ok :: "NvmlApi \<Rightarrow> files \<Rightarrow> u32 list \<Rightarrow> u64 \<Rightarrow> DeepGpuProcessRow \<Rightarrow> bool" where
  "process_ok nv fs tgids ts r \<longleftrightarrow>
     dg_ts_ns r = ts \<and> dg_pid r \<noteq> 0 \<and> dg_tgid r = TgidOf fs (dg_pid r) \<and> dg_tgid r \<in> set tgids \<and>
     bit (dg_valid_mask r) 4 \<and> (bit (dg_valid_mask r) 1 \<or> dg_mem_util_pct r = 0)"

lemma process_row_ok: "process_row fs tgids ts uuid m p = Some r \<Longrightarrow> process_ok nv fs tgids ts r"
  by (auto simp: process_row_def process_ok_def DeepGpuProcessRow0_def Let_def split: if_splits prod.splits)

lemma rows_ok: "list_all (process_ok nv fs tgids ts) (List.map_filter (process_row fs tgids ts uuid m) ps)"
proof (induction ps)
  case (Cons p ps)
  then show ?case
    using process_row_ok [of fs tgids ts uuid m p] by (cases "process_row fs tgids ts uuid m p") simp_all
qed simp

lemma device_processes_ok: "list_all (process_ok nv fs tgids ts) (device_processes nv fs tgids ts i)"
  by (simp add: device_processes_def Let_def rows_ok split: option.split)

lemma device_processes_length: "length (device_processes nv fs tgids ts i) \<le> 128"
  by (simp add: device_processes_def Let_def map_filter_take split: option.split)

lemma NvmlProcesses_length: "length (NvmlProcesses nv fs tgids ts g) \<le> 128 * unat (gm_nvml_count g)"
proof -
  have "sum_list (map (\<lambda>i. length (device_processes nv fs tgids ts (of_nat i))) xs) \<le> 128 * length xs" for xs :: "nat list"
    using device_processes_length by (induction xs) (auto intro: add_mono)
  from this [of "[0..<unat (gm_nvml_count g)]"] show ?thesis
    by (simp add: NvmlProcesses_def length_concat comp_def)
qed

lemma SnapshotProcesses_ok: "list_all (process_ok nv fs tgids ts) (SnapshotProcesses nv fs g tgids ts)"
  using device_processes_ok by (auto simp: SnapshotProcesses_def NvmlProcesses_def list_all_iff)

lemma SnapshotProcesses_length:
  "length (SnapshotProcesses nv fs g tgids ts) \<le> (if gm_active g = ''nvml'' then 128 * unat (gm_nvml_count g) else 0)"
  using NvmlProcesses_length by (simp add: SnapshotProcesses_def)

lemma process_ok_ordinal: "process_ok nv fs tgids ts (r\<lparr>dg_ordinal := n\<rparr>) = process_ok nv fs tgids ts r"
  by (simp add: process_ok_def)

text \<open>
  The GPU rows the deep collector writes for an episode are rows of its open episode and of
  this drain, each of a process one of the targets belongs to, at most 128 for each device; with any
  backend other than NVML there are none.
\<close>

theorem gpu_rows_of_targets:
  assumes "kn_gpu_rows (dw_kernel w) = SnapshotProcesses nv fs g"
  shows "\<exists>rows. dw_rows (DrainGpu now w) = dw_rows w @ map DeepGpu rows \<and>
    list_all (\<lambda>r. dg_ordinal r = dc_ordinal (dw_dc w) \<and>
      process_ok nv fs (map (target_tgid (dc_process_table (dw_dc w))) (dc_targets (dw_dc w))) now r) rows \<and>
    length rows \<le> (if gm_active g = ''nvml'' then 128 * unat (gm_nvml_count g) else 0)"
proof (cases "dc_targets (dw_dc w) = []")
  case True
  then show ?thesis by (intro exI [of _ "[]"]) (simp add: DrainGpu_def Let_def)
next
  case False
  let ?t = "remdups (map (target_tgid (dc_process_table (dw_dc w))) (dc_targets (dw_dc w)))"
  let ?rows = "map (\<lambda>r. r\<lparr>dg_ordinal := dc_ordinal (dw_dc w)\<rparr>) (SnapshotProcesses nv fs g ?t now)"
  have "dw_rows (DrainGpu now w) = dw_rows w @ map DeepGpu ?rows"
    using False by (simp add: DrainGpu_def Let_def assms comp_def)
  moreover have "process_ok nv fs ?t now r =
      process_ok nv fs (map (target_tgid (dc_process_table (dw_dc w))) (dc_targets (dw_dc w))) now r" for r
    by (simp only: process_ok_def set_remdups)
  then have "list_all (\<lambda>r. dg_ordinal r = dc_ordinal (dw_dc w) \<and>
      process_ok nv fs (map (target_tgid (dc_process_table (dw_dc w))) (dc_targets (dw_dc w))) now r) ?rows"
    using SnapshotProcesses_ok [of nv fs ?t now g] by (auto simp: list_all_iff process_ok_ordinal)
  ultimately show ?thesis using SnapshotProcesses_length [of nv fs g ?t now] by (intro exI [of _ ?rows]) simp
qed

definition NvmlApi1 :: NvmlApi where
  "NvmlApi1 = \<lparr>nv_lib = True, nv_Init = Some True, nv_Shutdown = True, nv_Count = Some (Some 1),
     nv_HandleByIndex = Some (\<lambda>i. Some (ucast i + 4096)), nv_Uuid = Some (\<lambda>_. Some ''GPU-1''), nv_Name = None,
     nv_PciInfo = None, nv_Utilization = None, nv_MemoryInfo = Some (\<lambda>_. Some (8000, 6000, 2000)),
     nv_Temperature = None, nv_PowerUsage = None, nv_PowerLimit = None, nv_Energy = None, nv_ClockInfo = None,
     nv_PcieThroughput = None, nv_EncoderUtil = None, nv_DecoderUtil = None, nv_ThrottleReasons = None,
     nv_EccErrors = None, nv_RetiredPages = None, nv_MigMode = None,
     nv_ProcInfo = Some (\<lambda>_ _. Some [(42, 2000), (43, 5), (0, 1)])\<rparr>"

definition gpu_world1 :: deep_world where
  "gpu_world1 = deep_world0\<lparr>dw_dc := DeepCollector0\<lparr>dc_targets := [42]\<rparr>,
     dw_kernel := kernel0\<lparr>kn_gpu_rows :=
       SnapshotProcesses NvmlApi1 (\<lambda>_. None) (GpuMetrics0\<lparr>gm_active := ''nvml'', gm_nvml := True, gm_nvml_count := 1\<rparr>)\<rparr>\<rparr>"

lemma gpu_rows_of_targets_witness:
  "map (\<lambda>r. case r of DeepGpu g \<Rightarrow> (dg_pid g, dg_mem_util_pct g) | _ \<Rightarrow> (0, 0)) (dw_rows (DrainGpu 7 gpu_world1)) = [(42, 25)] \<and>
   (\<exists>rows. dw_rows (DrainGpu 7 gpu_world1) = map DeepGpu rows \<and> length rows \<le> 128)"
proof
  let ?g = "GpuMetrics0\<lparr>gm_active := ''nvml'', gm_nvml := True, gm_nvml_count := 1\<rparr>"
  have k: "kn_gpu_rows (dw_kernel gpu_world1) = SnapshotProcesses NvmlApi1 (\<lambda>_. None) ?g"
    by (simp add: gpu_world1_def)
  have r: "dw_rows gpu_world1 = []" by (simp add: gpu_world1_def deep_world0_def)
  show "\<exists>rows. dw_rows (DrainGpu 7 gpu_world1) = map DeepGpu rows \<and> length rows \<le> 128"
    using gpu_rows_of_targets [OF k, of 7] by (auto simp: r)
  have p: "device_processes NvmlApi1 (\<lambda>_. None) [42] 7 0 =
      [DeepGpuProcessRow0\<lparr>dg_ts_ns := 7, dg_gpu_uuid := ''GPU-1'', dg_pid := 42, dg_tgid := 42, dg_source := ''nvml'',
         dg_fb_used_bytes := 2000, dg_valid_mask := set_mask 1 (set_mask 4 0), dg_mem_util_pct := 25\<rparr>]"
    by (simp add: device_processes_def handle_of_def NvmlApi1_def ask_def uuid_of_def cstr_def process_row_def TgidOf_def
        CommOf_def gpu_ReadFileTrim_def ReadFile_def getlines_def percent_of_def List.map_filter_def DeepGpuProcessRow0_def Let_def)
  show "map (\<lambda>r. case r of DeepGpu g \<Rightarrow> (dg_pid g, dg_mem_util_pct g) | _ \<Rightarrow> (0, 0)) (dw_rows (DrainGpu 7 gpu_world1)) = [(42, 25)]"
    by (simp add: DrainGpu_def gpu_world1_def deep_world0_def DeepCollector0_def SnapshotProcesses_def NvmlProcesses_def
        target_tgid_def p Let_def)
qed

end
