(* ===== verification/Ebpf.thy ===== *)
theory Ebpf
  imports BpfValues Symbols
begin

text \<open>
  The owner of the kernel programs and maps, \<^verbatim>\<open>EbpfManager\<close> in
  \<^verbatim>\<open>src/collect/ebpf_manager.cpp\<close>: loading and attaching, the flags and rates written for the
  programs, the membership of the \<^verbatim>\<open>targets\<close> map and the recorder's producer. What libbpf and the kernel answer is the record
  \<open>bpf_env\<close>; the two build variants are its flags.
\<close>

section \<open>State\<close>

datatype skeleton = NoSkeleton | Opened | Loaded

record bpf_env =
  be_open_ok :: bool
  be_load_ok :: bool
  be_recorder_size_ok :: bool
  be_attach :: "string \<Rightarrow> attach"
  be_update_ok :: "string \<Rightarrow> kmap \<Rightarrow> bytes \<Rightarrow> bool"
  be_perf_open :: "nat \<Rightarrow> bool"
  be_ncpus :: nat
  be_run_ok :: bool
  be_link_ok :: bool
  be_autoload_ok :: "string \<Rightarrow> bool"
  be_maps :: "(string \<times> kmap) list"
  be_percpu_lookup :: bool
  be_contention_tp :: bool
  be_junk :: bytes

record ebpf =
  eb_skel :: skeleton
  eb_links :: "string list"
  eb_recorder_fds :: "nat list"
  eb_maps :: "(string \<times> kmap) list"
  eb_period :: u64

definition ebpf0 :: ebpf where
  "ebpf0 = \<lparr>eb_skel = NoSkeleton, eb_links = [], eb_recorder_fds = [], eb_maps = [], eb_period = 0\<rparr>"

section \<open>Loading and attaching\<close>

definition CloseRecorderPerf :: "ebpf \<Rightarrow> ebpf" where
  "CloseRecorderPerf = eb_recorder_fds_update (\<lambda>_. [])"

definition EbpfManager_Close :: "ebpf \<Rightarrow> ebpf" where
  "EbpfManager_Close s = (CloseRecorderPerf s)\<lparr>eb_links := [], eb_skel := NoSkeleton, eb_maps := []\<rparr>"

text \<open>A program can be found once the skeleton is open.\<close>

definition Prog :: "bpf_env \<Rightarrow> ebpf \<Rightarrow> string \<Rightarrow> attach" where
  "Prog env s n = (if eb_skel s = NoSkeleton then NoProgram else be_attach env n)"

definition Attach :: "bpf_env \<Rightarrow> string \<Rightarrow> ebpf \<Rightarrow> bool \<times> ebpf" where
  "Attach env n s =
     (case Prog env s n of
        Attaches \<Rightarrow> (True, s\<lparr>eb_links := eb_links s @ [n]\<rparr>)
      | _ \<Rightarrow> (False, s))"

definition always_on :: "bpf_env \<Rightarrow> string list" where
  "always_on env =
     [''on_switch'', ''on_wakeup'', ''on_wakeup_new'', ''on_rq_insert'', ''on_rq_issue'', ''on_rq_complete'',
      ''fault_ret'', ''on_kswapd_wake'', ''on_kswapd_sleep'', ''on_direct_reclaim_begin'',
      ''on_direct_reclaim_end'', ''on_mark_victim''] @
     (if be_contention_tp env then [''on_contention_begin'', ''on_contention_end'']
      else [''mutex_lock_slow'', ''mutex_lock_slow_ret''])"

fun attach_all :: "bpf_env \<Rightarrow> string list \<Rightarrow> ebpf \<Rightarrow> bool \<times> ebpf" where
  "attach_all env [] s = (True, s)"
| "attach_all env (n # ns) s =
     (let (ok, s') = Attach env n s in if ok then attach_all env ns s' else (False, s'))"

definition AttachAlwaysOn :: "bpf_env \<Rightarrow> ebpf \<Rightarrow> bool \<times> ebpf" where
  "AttachAlwaysOn env = attach_all env (always_on env)"

definition Open :: "bpf_env \<Rightarrow> ebpf \<Rightarrow> bool \<times> ebpf" where
  "Open env s =
     (if eb_skel s \<noteq> NoSkeleton then (True, s)
      else if be_open_ok env then (True, s\<lparr>eb_skel := Opened\<rparr>) else (False, s))"

definition Load :: "bpf_env \<Rightarrow> ebpf \<Rightarrow> bool \<times> ebpf" where
  "Load env s =
     (let (ok, s1) = Open env s
      in if \<not> ok then (False, s1)
         else if \<not> be_load_ok env then (False, s1\<lparr>eb_skel := NoSkeleton\<rparr>)
         else
           let s2 = s1\<lparr>eb_skel := Loaded, eb_maps := be_maps env\<rparr>
           in if map_of (eb_maps s2) ''recorder'' = None \<or> \<not> be_recorder_size_ok env then (False, EbpfManager_Close s2)
              else let (attached, s3) = AttachAlwaysOn env s2
                   in if attached then (True, s3) else (False, EbpfManager_Close s3))"

text \<open>Optional programs are kept from loading; those that cannot be are noted with the reason.\<close>

definition SetOptionalAutoload :: "bpf_env \<Rightarrow> ebpf \<Rightarrow> string list \<Rightarrow> string list" where
  "SetOptionalAutoload env s names =
     (if eb_skel s = NoSkeleton then []
      else concat (map (\<lambda>n. if Prog env s n = NoProgram then [n @ '':missing-program'']
                            else if \<not> be_autoload_ok env n then [n @ '':set-autoload-failed''] else []) names))"

section \<open>Maps\<close>

definition Map :: "ebpf \<Rightarrow> string \<Rightarrow> kmap option" where
  "Map s n = (if eb_skel s = Loaded then map_of (eb_maps s) n else None)"

definition put_map :: "string \<Rightarrow> kmap \<Rightarrow> ebpf \<Rightarrow> ebpf" where
  "put_map n m s = s\<lparr>eb_maps := alist_put n m (eb_maps s)\<rparr>"

definition update_elem :: "bpf_env \<Rightarrow> string \<Rightarrow> bytes \<Rightarrow> bytes \<Rightarrow> ebpf \<Rightarrow> bool \<times> ebpf" where
  "update_elem env n k v s =
     (case Map s n of
        None \<Rightarrow> (False, s)
      | Some m \<Rightarrow> if be_update_ok env n m k then (True, put_map n (kmap_put k v m) s) else (False, s))"

definition delete_elem :: "string \<Rightarrow> bytes \<Rightarrow> ebpf \<Rightarrow> ebpf" where
  "delete_elem n k s = (case Map s n of None \<Rightarrow> s | Some m \<Rightarrow> put_map n (kmap_del m k) s)"

definition u32_bytes :: "u32 \<Rightarrow> bytes" where
  "u32_bytes v = le_bytes 4 (unat v)"

definition u64_bytes :: "u64 \<Rightarrow> bytes" where
  "u64_bytes v = le_bytes 8 (unat v)"

definition write_cell :: "bpf_env \<Rightarrow> string \<Rightarrow> bytes \<Rightarrow> ebpf \<Rightarrow> bool \<times> ebpf" where
  "write_cell env n v = update_elem env n (u32_bytes 0) v"

definition EbpfManager_SetDeep :: "bpf_env \<Rightarrow> bool \<Rightarrow> ebpf \<Rightarrow> bool \<times> ebpf" where
  "EbpfManager_SetDeep env on = write_cell env ''deep_enabled'' (u32_bytes (if on then 1 else 0))"

definition WriteSnapshotCfg :: "bpf_env \<Rightarrow> u32 \<Rightarrow> ebpf \<Rightarrow> bool \<times> ebpf" where
  "WriteSnapshotCfg env interval_ms = write_cell env ''snapshot_cfg'' (u32_bytes interval_ms)"

definition iofile_threshold :: "u32 \<Rightarrow> u32" where
  "iofile_threshold rate = (if rate \<noteq> 0 then ucast ((0xFFFFFFFF :: u64) div ucast rate) else 0)"

definition EbpfManager_WriteSampleRateCfg :: "bpf_env \<Rightarrow> u32 \<Rightarrow> u32 \<Rightarrow> u32 \<Rightarrow> ebpf \<Rightarrow> bool \<times> ebpf" where
  "EbpfManager_WriteSampleRateCfg env offcpu iofile net_rate =
     write_cell env ''sample_rate_cfg''
       (u32_bytes offcpu @ u32_bytes (iofile_threshold iofile) @ u32_bytes net_rate)"

definition WriteIntFlag :: "bpf_env \<Rightarrow> string \<Rightarrow> u32 \<Rightarrow> ebpf \<Rightarrow> bool \<times> ebpf" where
  "WriteIntFlag env n v = write_cell env n (u32_bytes v)"

definition WriteNcpus :: "bpf_env \<Rightarrow> i32 \<Rightarrow> ebpf \<Rightarrow> bool \<times> ebpf" where
  "WriteNcpus env n = write_cell env ''ncpus'' (u32_bytes (of_int (if n > 0 then n else 1)))"

section \<open>The producer of the flight recorder\<close>

text \<open>The timer is armed by running a program once, or by a link where that is refused.\<close>

definition ArmTimer :: "bpf_env \<Rightarrow> u64 \<Rightarrow> bool \<Rightarrow> ebpf \<Rightarrow> bool \<times> ebpf" where
  "ArmTimer env interval_ms cancel s =
     (let (ok, s1) = write_cell env ''arm_cmd''
            (u64_bytes (interval_ms * 1000000) @ u64_bytes (if cancel then 1 else 0)) s
      in if \<not> ok \<or> Prog env s1 ''arm_snapshotter'' = NoProgram then (False, s1)
         else (be_run_ok env \<or> be_link_ok env, s1))"

definition RecorderPerCpu :: "bpf_env \<Rightarrow> bool" where
  "RecorderPerCpu env = (\<not> be_percpu_lookup env)"

fun open_fds :: "(nat \<Rightarrow> bool) \<Rightarrow> nat list \<Rightarrow> nat list \<Rightarrow> nat list option" where
  "open_fds ok [] fds = Some fds"
| "open_fds ok (c # cs) fds = (if ok c then open_fds ok cs (fds @ [c]) else None)"

definition OpenRecorderPerf :: "bpf_env \<Rightarrow> u64 \<Rightarrow> ebpf \<Rightarrow> bool \<times> ebpf" where
  "OpenRecorderPerf env interval_ms s =
     (if Prog env s ''snapshotter'' = NoProgram then (False, s)
      else case open_fds (be_perf_open env) [0..<be_ncpus env] (eb_recorder_fds s) of
             None \<Rightarrow> (False, CloseRecorderPerf s)
           | Some fds \<Rightarrow> (True, s\<lparr>eb_recorder_fds := fds, eb_period := interval_ms * 1000000\<rparr>))"

definition StartSnapshotter :: "bpf_env \<Rightarrow> u64 \<Rightarrow> ebpf \<Rightarrow> bool \<times> ebpf" where
  "StartSnapshotter env interval_ms s =
     (let (ok, s1) = WriteSnapshotCfg env (ucast interval_ms) s
      in if \<not> ok then (False, s1)
         else if be_percpu_lookup env then ArmTimer env interval_ms False s1
         else OpenRecorderPerf env interval_ms s1)"

definition SetSnapshotInterval :: "bpf_env \<Rightarrow> u64 \<Rightarrow> ebpf \<Rightarrow> bool \<times> ebpf" where
  "SetSnapshotInterval env interval_ms s =
     (if be_percpu_lookup env then WriteSnapshotCfg env (ucast interval_ms) s
      else (eb_recorder_fds s \<noteq> [], if eb_recorder_fds s = [] then s else s\<lparr>eb_period := interval_ms * 1000000\<rparr>))"

definition StopSnapshotter :: "bpf_env \<Rightarrow> ebpf \<Rightarrow> ebpf" where
  "StopSnapshotter env s =
     (if be_percpu_lookup env then snd (ArmTimer env 0 True s) else CloseRecorderPerf s)"

section \<open>Targets\<close>

text \<open>The bytes of a \<^verbatim>\<open>task_meta\<close> value: the process and at most 15 bytes of the name.\<close>

definition meta_bytes :: "u32 \<Rightarrow> string \<Rightarrow> bytes" where
  "meta_bytes tgid comm =
     (let name = take 15 (cstr comm)
      in u32_bytes tgid @ map (\<lambda>c. of_nat (of_char c)) name @ replicate (16 - length name) 0)"

definition AddTarget :: "bpf_env \<Rightarrow> u32 \<Rightarrow> u32 \<Rightarrow> u32 \<Rightarrow> string \<Rightarrow> ebpf \<Rightarrow> bool \<times> ebpf" where
  "AddTarget env tid flags tgid comm s =
     (let (ok, s1) = update_elem env ''targets'' (u32_bytes tid) (u32_bytes flags) s
      in if \<not> ok then (False, s1)
         else (True, snd (update_elem env ''task_meta'' (u32_bytes tid) (meta_bytes tgid comm) s1)))"

definition RemoveTarget :: "u32 \<Rightarrow> ebpf \<Rightarrow> bool \<times> ebpf" where
  "RemoveTarget tid s =
     (case Map s ''targets'' of
        None \<Rightarrow> (False, s)
      | Some _ \<Rightarrow> (True, delete_elem ''task_meta'' (u32_bytes tid) (delete_elem ''targets'' (u32_bytes tid) s)))"

definition tid_maps :: "string list" where
  "tid_maps = [''on_cpu_ns'', ''switches'', ''block_io'', ''faults'', ''lock_st'', ''sys_st'', ''futex_st'',
     ''runq_st'', ''wakeup_ts'', ''offcpu_stash'', ''offcpu_last_ts'', ''sys_start'', ''io_start'',
     ''connect_start'', ''sock_owner'']"

text \<open>
  The key the kernel reads for a deletion: the four bytes of the thread id and, for the map whose
  keys have eight, the four bytes behind it in memory.
\<close>

definition tid_key :: "bpf_env \<Rightarrow> u32 \<Rightarrow> string \<Rightarrow> bytes" where
  "tid_key env tid n = (if n = ''sock_owner'' then u32_bytes tid @ be_junk env else u32_bytes tid)"

definition ResetTidCounters :: "bpf_env \<Rightarrow> u32 \<Rightarrow> ebpf \<Rightarrow> ebpf" where
  "ResetTidCounters env tid = fold (\<lambda>n. delete_elem n (tid_key env tid n)) tid_maps"

section \<open>Features of the running kernel\<close>

text \<open>Whether the members of \<^verbatim>\<open>task_struct\<close> carry fault counters; nothing without BTF.\<close>

definition HasTaskFaultFields :: "string list option \<Rightarrow> bool" where
  "HasTaskFaultFields members =
     (case members of None \<Rightarrow> False | Some ns \<Rightarrow> list_ex (\<lambda>n. n = ''min_flt'') ns)"

text \<open>The statistics of the programs that are loaded and answer.\<close>

definition CollectProgramStats :: "ebpf \<Rightarrow> BpfProgStats option list \<Rightarrow> bool \<times> BpfProgStats list" where
  "CollectProgramStats s infos =
     (if eb_skel s = NoSkeleton then (False, [])
      else let out = List.map_filter (\<lambda>x. x) infos in (out \<noteq> [], out))"

section \<open>Maps after an operation\<close>

lemma put_map_skel [simp]: "eb_skel (put_map n m s) = eb_skel s"
  by (simp add: put_map_def)

lemma Map_put_map: "eb_skel s = Loaded \<Longrightarrow> Map (put_map n m s) n' = (if n' = n then Some m else Map s n')"
  by (simp add: Map_def put_map_def)

lemma Map_loaded: "Map s n = Some m \<Longrightarrow> eb_skel s = Loaded"
  by (simp add: Map_def split: if_splits)

lemma delete_elem_skel [simp]: "eb_skel (delete_elem n k s) = eb_skel s"
  by (simp add: delete_elem_def split: option.splits)

lemma Map_delete_elem:
  "Map (delete_elem n k s) n' = (if n' = n then map_option (\<lambda>m. kmap_del m k) (Map s n) else Map s n')"
  by (auto simp: delete_elem_def Map_put_map Map_loaded split: option.splits)

lemma update_elem_skel [simp]: "eb_skel (snd (update_elem env n k v s)) = eb_skel s"
  by (simp add: update_elem_def split: option.splits)

lemma Map_update_elem:
  "Map (snd (update_elem env n k v s)) n' =
     (if n' = n then map_option (\<lambda>m. if be_update_ok env n m k then kmap_put k v m else m) (Map s n) else Map s n')"
  by (auto simp: update_elem_def Map_put_map Map_loaded split: option.splits)

lemma fst_update_elem:
  "fst (update_elem env n k v s) \<longleftrightarrow> (\<exists>m. Map s n = Some m \<and> be_update_ok env n m k)"
  by (auto simp: update_elem_def split: option.splits)

lemma fold_delete_skel [simp]: "eb_skel (fold (\<lambda>n. delete_elem n (f n)) ns s) = eb_skel s"
  by (induction ns arbitrary: s) simp_all

lemma Map_fold_delete:
  "distinct ns \<Longrightarrow> Map (fold (\<lambda>n. delete_elem n (f n)) ns s) n =
     (if n \<in> set ns then map_option (\<lambda>m. kmap_del m (f n)) (Map s n) else Map s n)"
  by (induction ns arbitrary: s) (auto simp: Map_delete_elem)

lemma distinct_tid_maps: "distinct tid_maps"
  by (simp add: tid_maps_def)

lemma Map_ResetTidCounters:
  "Map (ResetTidCounters env tid s) n =
     (if n \<in> set tid_maps then map_option (\<lambda>m. kmap_del m (tid_key env tid n)) (Map s n) else Map s n)"
  unfolding ResetTidCounters_def by (rule Map_fold_delete [OF distinct_tid_maps])

lemma u32_bytes_inj: "u32_bytes a = u32_bytes b \<Longrightarrow> a = b"
  using rd_u32_le_bytes [of 0 "[]" a "[]"] rd_u32_le_bytes [of 0 "[]" b "[]"] by (simp add: u32_bytes_def)

lemma u32_bytes_length [simp]: "length (u32_bytes a) = 4"
  by (simp add: u32_bytes_def)

lemma le_bytes_mod: "le_bytes n (v mod 256 ^ n) = le_bytes n v"
proof (induction n arbitrary: v)
  case (Suc n)
  have "v mod 256 ^ Suc n div 256 = v div 256 mod 256 ^ n" by (simp add: mod_mult2_eq)
  moreover have "(of_nat (v mod 256 ^ Suc n) :: u8) = of_nat v"
    by (simp add: word_of_nat_eq_iff take_bit_eq_mod mod_mod_cancel)
  ultimately show ?case using Suc.IH [of "v div 256"] by (simp only: le_bytes_Suc)
qed (simp add: le_bytes_def)

lemma take_le_bytes: "m \<le> n \<Longrightarrow> take m (le_bytes n v) = le_bytes m v"
  by (simp add: le_bytes_def take_map)

text \<open>The first four bytes of a 64-bit key are those of its low half.\<close>

lemma u64_bytes_low: "take 4 (u64_bytes c) = u32_bytes (ucast c)"
proof -
  have "unat (ucast c :: u32) = unat c mod 256 ^ 4" by (simp add: unsigned_ucast_eq take_bit_eq_mod)
  then show ?thesis using le_bytes_mod [of 4 "unat c"] by (simp add: u64_bytes_def u32_bytes_def take_le_bytes)
qed

section \<open>The targets map as a set\<close>

text \<open>
  What a client needs of a membership that lives elsewhere: members come and go one at a time,
  with some information the owner keeps. Removing what is not wanted and adding what is missing
  gives exactly what is wanted.
\<close>

locale membership =
  fixes add :: "'i \<Rightarrow> 'a \<Rightarrow> 's \<Rightarrow> 's" and remove :: "'a \<Rightarrow> 's \<Rightarrow> 's"
    and members :: "'s \<Rightarrow> 'a set" and ready :: "'s \<Rightarrow> bool"
  assumes members_add: "ready s \<Longrightarrow> members (add i x s) = insert x (members s)"
    and members_remove: "ready s \<Longrightarrow> members (remove x s) = members s - {x}"
    and ready_add: "ready s \<Longrightarrow> ready (add i x s)"
    and ready_remove: "ready s \<Longrightarrow> ready (remove x s)"
begin

lemma ready_removes: "ready s \<Longrightarrow> ready (fold remove xs s)"
  by (induction xs arbitrary: s) (simp_all add: ready_remove)

lemma members_removes: "ready s \<Longrightarrow> members (fold remove xs s) = members s - set xs"
  by (induction xs arbitrary: s) (auto simp: members_remove ready_remove)

lemma members_adds:
  "ready s \<Longrightarrow> ready (fold (\<lambda>x. add (f x) x) xs s) \<and> members (fold (\<lambda>x. add (f x) x) xs s) = members s \<union> set xs"
  by (induction xs arbitrary: s) (auto simp: members_add ready_add)

lemma diff_reaches_wanted:
  assumes "ready s" and "members s = set cur"
  shows "members (fold (\<lambda>x. add (f x) x) (filter (\<lambda>x. x \<notin> set cur) want)
           (fold remove (filter (\<lambda>x. x \<notin> set want) cur) s)) = set want"
    and "ready (fold (\<lambda>x. add (f x) x) (filter (\<lambda>x. x \<notin> set cur) want)
           (fold remove (filter (\<lambda>x. x \<notin> set want) cur) s))"
  using members_adds [OF ready_removes [OF assms(1)], of f "filter (\<lambda>x. x \<notin> set cur) want"
      "filter (\<lambda>x. x \<notin> set want) cur"] members_removes [OF assms(1), of "filter (\<lambda>x. x \<notin> set want) cur"] assms(2)
  by auto

end

definition target_tids :: "ebpf \<Rightarrow> u32 set" where
  "target_tids s = (case Map s ''targets'' of None \<Rightarrow> {} | Some m \<Rightarrow> {t. map_of (entries m) (u32_bytes t) \<noteq> None})"

text \<open>The kernel has the map and takes every entry.\<close>

definition targets_ready :: "bpf_env \<Rightarrow> ebpf \<Rightarrow> bool" where
  "targets_ready env s \<longleftrightarrow> Map s ''targets'' \<noteq> None \<and> (\<forall>m k. be_update_ok env ''targets'' m k)"

definition leave_kernel :: "bpf_env \<Rightarrow> u32 \<Rightarrow> ebpf \<Rightarrow> ebpf" where
  "leave_kernel env tid s = ResetTidCounters env tid (snd (RemoveTarget tid s))"

definition join_kernel :: "bpf_env \<Rightarrow> u32 \<times> u32 \<times> string \<Rightarrow> u32 \<Rightarrow> ebpf \<Rightarrow> ebpf" where
  "join_kernel env i tid s = (case i of (flags, tgid, comm) \<Rightarrow> snd (AddTarget env tid flags tgid comm s))"

lemma Map_AddTarget:
  "fst (AddTarget env tid flags tgid comm s) \<Longrightarrow> Map (snd (AddTarget env tid flags tgid comm s)) n =
     (if n = ''targets'' then map_option (kmap_put (u32_bytes tid) (u32_bytes flags)) (Map s n)
      else if n = ''task_meta'' then map_option (\<lambda>m. if be_update_ok env n m (u32_bytes tid)
             then kmap_put (u32_bytes tid) (meta_bytes tgid comm) m else m) (Map s n)
      else Map s n)"
  using fst_update_elem [of env "''targets''" "u32_bytes tid" "u32_bytes flags" s]
  by (auto simp: AddTarget_def Let_def Map_update_elem split: prod.splits if_splits)
     (auto simp: update_elem_def Map_update_elem Map_put_map Map_loaded split: option.splits if_splits)

lemma Map_RemoveTarget:
  "Map (snd (RemoveTarget tid s)) n =
     (if n \<in> {''targets'', ''task_meta''} \<and> Map s ''targets'' \<noteq> None
      then map_option (\<lambda>m. kmap_del m (u32_bytes tid)) (Map s n) else Map s n)"
  by (auto simp: RemoveTarget_def Map_delete_elem split: option.splits)

interpretation tm: membership "join_kernel env" "leave_kernel env" target_tids "targets_ready env" for env
proof unfold_locales
  fix s :: ebpf and i :: "u32 \<times> u32 \<times> string" and x :: u32
  assume r: "targets_ready env s"
  then obtain m where m: "Map s ''targets'' = Some m" by (auto simp: targets_ready_def)
  obtain fl tg cm where i: "i = (fl, tg, cm)" by (cases i)
  have ok: "fst (AddTarget env x fl tg cm s)"
    using r m fst_update_elem [of env "''targets''" "u32_bytes x" "u32_bytes fl" s]
    by (auto simp: AddTarget_def Let_def targets_ready_def split: prod.splits)
  have add: "Map (join_kernel env i x s) ''targets'' = Some (kmap_put (u32_bytes x) (u32_bytes fl) m)"
    by (simp add: join_kernel_def i Map_AddTarget [OF ok] m)
  have rem: "Map (leave_kernel env x s) ''targets'' = Some (kmap_del m (u32_bytes x))"
    by (simp add: leave_kernel_def Map_ResetTidCounters Map_RemoveTarget m tid_maps_def)
  show "target_tids (join_kernel env i x s) = insert x (target_tids s)"
    by (auto simp: target_tids_def add m dest: u32_bytes_inj)
  show "target_tids (leave_kernel env x s) = target_tids s - {x}"
    by (auto simp: target_tids_def rem m dest: u32_bytes_inj)
  show "targets_ready env (join_kernel env i x s)" "targets_ready env (leave_kernel env x s)"
    using r by (simp_all add: targets_ready_def add rem)
qed

section \<open>Properties of the manager\<close>

text \<open>An environment in which everything succeeds.\<close>

definition bpf_env0 :: bpf_env where
  "bpf_env0 = \<lparr>be_open_ok = True, be_load_ok = True, be_recorder_size_ok = True, be_attach = \<lambda>_. Attaches,
     be_update_ok = \<lambda>_ _ _. True, be_perf_open = \<lambda>_. True, be_ncpus = 2, be_run_ok = True, be_link_ok = True,
     be_autoload_ok = \<lambda>_. True,
     be_maps = map (\<lambda>n. (n, kmap_empty)) ([''recorder'', ''targets'', ''task_meta'', ''deep_enabled''] @ tid_maps),
     be_percpu_lookup = True, be_contention_tp = True, be_junk = [1, 0, 0, 0]\<rparr>"

lemma attach_all_result:
  assumes "eb_skel s = Loaded"
  shows "fst (attach_all env ns s) \<longleftrightarrow> (\<forall>n \<in> set ns. be_attach env n = Attaches)"
    and "fst (attach_all env ns s) \<Longrightarrow> eb_links (snd (attach_all env ns s)) = eb_links s @ ns"
    and "eb_skel (snd (attach_all env ns s)) = Loaded"
  using assms by (induction ns arbitrary: s) (auto simp: Attach_def Prog_def Let_def split: attach.splits)

lemma EbpfManager_Close_simps [simp]: "eb_skel (EbpfManager_Close s) = NoSkeleton" "eb_links (EbpfManager_Close s) = []" "eb_recorder_fds (EbpfManager_Close s) = []"
  "eb_maps (EbpfManager_Close s) = []"
  by (simp_all add: EbpfManager_Close_def CloseRecorderPerf_def)

text \<open>
  Claim C25: loading is all or nothing: it succeeds exactly when the object opens and loads, the
  recorder has the size of the host's record and every always-on program attaches, and then all
  of them are attached; otherwise nothing is left loaded or attached.
\<close>

theorem load_all_or_nothing:
  "let (ok, s) = Load env ebpf0
   in (ok \<longleftrightarrow> be_open_ok env \<and> be_load_ok env \<and> map_of (be_maps env) ''recorder'' \<noteq> None \<and>
        be_recorder_size_ok env \<and> list_all (\<lambda>n. be_attach env n = Attaches) (always_on env)) \<and>
      (if ok then eb_skel s = Loaded \<and> eb_links s = always_on env
       else eb_skel s = NoSkeleton \<and> eb_links s = [])"
proof -
  let ?s2 = "ebpf0\<lparr>eb_skel := Loaded, eb_maps := be_maps env\<rparr>"
  obtain att s3 where a: "attach_all env (always_on env) ?s2 = (att, s3)" by fastforce
  have "eb_skel ?s2 = Loaded" by simp
  from attach_all_result [OF this, of env "always_on env"] a
  have r: "att \<longleftrightarrow> list_all (\<lambda>n. be_attach env n = Attaches) (always_on env)"
    "att \<Longrightarrow> eb_links s3 = always_on env" "eb_skel s3 = Loaded"
    by (auto simp: list_all_iff ebpf0_def)
  have a': "AttachAlwaysOn env ?s2 = (att, s3)" using a by (simp add: AttachAlwaysOn_def)
  have L: "Load env ebpf0 =
     (if \<not> be_open_ok env then (False, ebpf0)
      else if \<not> be_load_ok env then (False, ebpf0\<lparr>eb_skel := NoSkeleton\<rparr>)
      else if map_of (be_maps env) ''recorder'' = None \<or> \<not> be_recorder_size_ok env then (False, EbpfManager_Close ?s2)
      else if att then (True, s3) else (False, EbpfManager_Close s3))"
    using a' by (simp add: Load_def Open_def Let_def ebpf0_def)
  show ?thesis unfolding L using r by (simp add: ebpf0_def)
qed

text \<open>
  Forgetting a thread removes its entry from every map keyed by thread and touches no
  other key or map, but its sockets stay: the map of socket owners is keyed by 64-bit cookies, so
  every entry whose cookie does not happen to have the thread id as its low half survives.
\<close>

theorem reset_keeps_sockets:
  assumes "Map s n = Some m"
  shows "\<exists>m'. Map (ResetTidCounters env tid s) n = Some m' \<and>
     (if n \<in> set tid_maps \<and> n \<noteq> ''sock_owner''
      then map_of (entries m') = (map_of (entries m))(u32_bytes tid := None)
      else if n = ''sock_owner''
      then \<forall>cookie. ucast cookie \<noteq> tid \<longrightarrow> map_of (entries m') (u64_bytes cookie) = map_of (entries m) (u64_bytes cookie)
      else m' = m)"
proof (cases "n = ''sock_owner''")
  case True
  have "u64_bytes c \<noteq> u32_bytes tid @ be_junk env" if "ucast c \<noteq> tid" for c
  proof
    assume "u64_bytes c = u32_bytes tid @ be_junk env"
    then have "take 4 (u64_bytes c) = u32_bytes tid" by simp
    with that show False using u32_bytes_inj by (simp add: u64_bytes_low)
  qed
  with True assms show ?thesis by (simp add: Map_ResetTidCounters tid_maps_def tid_key_def)
next
  case False
  with assms show ?thesis by (simp add: Map_ResetTidCounters tid_key_def)
qed

theorem reset_keeps_sockets_witness:
  "\<exists>m'. Map (ResetTidCounters bpf_env0 7 (put_map ''sock_owner'' (kmap_put (u64_bytes 99) [1] kmap_empty)
        (snd (Load bpf_env0 ebpf0)))) ''sock_owner'' = Some m' \<and> map_of (entries m') (u64_bytes 99) = Some [1]"
proof -
  let ?s = "snd (Load bpf_env0 ebpf0)" and ?m = "kmap_put (u64_bytes 99) [1] kmap_empty"
  have "eb_skel ?s = Loaded"
    using load_all_or_nothing [of bpf_env0] by (auto simp: bpf_env0_def list_all_iff split: prod.splits)
  then have "Map (put_map ''sock_owner'' ?m ?s) ''sock_owner'' = Some ?m" by (simp add: Map_put_map)
  from reset_keeps_sockets [OF this, of bpf_env0 7]
  have "\<exists>m'. Map (ResetTidCounters bpf_env0 7 (put_map ''sock_owner'' ?m ?s)) ''sock_owner'' = Some m' \<and>
     (\<forall>cookie. ucast cookie \<noteq> (7 :: u32) \<longrightarrow> map_of (entries m') (u64_bytes cookie) = map_of (entries ?m) (u64_bytes cookie))"
    by (simp del: map_of_eq_Some_iff)
  then obtain m' where
    m': "Map (ResetTidCounters bpf_env0 7 (put_map ''sock_owner'' ?m ?s)) ''sock_owner'' = Some m'"
      "ucast (99 :: u64) \<noteq> (7 :: u32) \<longrightarrow> map_of (entries m') (u64_bytes 99) = map_of (entries ?m) (u64_bytes 99)"
    by blast
  have "map_of (entries ?m) (u64_bytes 99) = Some [1]" by simp
  with m' show ?thesis by simp
qed

lemma rd_chars_name:
  assumes "list_all (\<lambda>c. c \<noteq> CHR 0x00) name" and "length name \<le> 15" and "length pre = 4"
  shows "cstr (rd_chars (pre @ map (\<lambda>c. of_nat (of_char c)) name @ replicate (16 - length name) 0) 4 16) = name"
proof -
  have c: "char_of (unat (of_nat (of_char c) :: u8)) = c" for c
    by (simp add: unat_of_nat take_bit_eq_mod of_char_mod_256)
  have z: "char_of (0 :: nat) = CHR 0x00" by (simp add: char_of_def)
  have "rd_chars (pre @ map (\<lambda>c. of_nat (of_char c)) name @ replicate (16 - length name) 0) 4 16 =
      name @ replicate (16 - length name) CHR 0x00"
    using assms(2,3) z by (simp add: rd_chars_def c comp_def)
  moreover have "cstr (name @ replicate k CHR 0x00) = name" for k
    using assms(1) by (cases k) (auto simp: cstr_def list_all_iff takeWhile_append)
  ultimately show ?thesis by simp
qed

text \<open>
  A joined target can be read back: after a successful \<open>AddTarget\<close> the targets map holds
  the flags, and the metadata decodes to the process and the first 15 bytes of the name; every
  other thread's entries are as before.
\<close>

theorem joined_target_reads_back:
  assumes "fst (AddTarget env tid flags tgid comm s)" and "Map s ''task_meta'' = Some tm"
    and "be_update_ok env ''task_meta'' tm (u32_bytes tid)"
  shows "\<exists>t' m' v. Map (snd (AddTarget env tid flags tgid comm s)) ''targets'' = Some t' \<and>
     map_of (entries t') (u32_bytes tid) = Some (u32_bytes flags) \<and>
     Map (snd (AddTarget env tid flags tgid comm s)) ''task_meta'' = Some m' \<and>
     map_of (entries m') (u32_bytes tid) = Some v \<and>
     tm_tgid (TaskMetaVal_of v) = tgid \<and> cstr (tm_comm (TaskMetaVal_of v)) = take 15 (cstr comm) \<and>
     map_of (entries m') = (map_of (entries tm))(u32_bytes tid \<mapsto> v)"
proof -
  obtain m where m: "Map s ''targets'' = Some m"
    using assms(1) fst_update_elem [of env "''targets''" "u32_bytes tid" "u32_bytes flags" s]
    by (auto simp: AddTarget_def Let_def split: prod.splits if_splits)
  have name: "list_all (\<lambda>c. c \<noteq> CHR 0x00) (take 15 (cstr comm))"
    by (auto simp: list_all_iff cstr_def dest!: in_set_takeD set_takeWhileD)
  have "tm_tgid (TaskMetaVal_of (meta_bytes tgid comm)) = tgid"
    using rd_u32_le_bytes [of 0 "[]" tgid] by (simp add: TaskMetaVal_of_def meta_bytes_def Let_def u32_bytes_def)
  moreover have "cstr (tm_comm (TaskMetaVal_of (meta_bytes tgid comm))) = take 15 (cstr comm)"
    using rd_chars_name [OF name, of "u32_bytes tgid"]
    by (simp add: TaskMetaVal_of_def meta_bytes_def Let_def)
  ultimately show ?thesis
    by (simp add: Map_AddTarget [OF assms(1)] m assms(2,3) del: map_of_eq_Some_iff)
qed

theorem joined_target_reads_back_witness:
  "\<exists>m' v. Map (snd (AddTarget bpf_env0 7 2 5 ''a long program name'' (snd (Load bpf_env0 ebpf0)))) ''task_meta'' = Some m' \<and>
     map_of (entries m') (u32_bytes 7) = Some v \<and> tm_tgid (TaskMetaVal_of v) = 5 \<and>
     cstr (tm_comm (TaskMetaVal_of v)) = ''a long program ''"
proof -
  let ?s = "snd (Load bpf_env0 ebpf0)"
  have L: "Load bpf_env0 ebpf0 = (True, ?s)" "eb_skel ?s = Loaded" "eb_maps ?s = be_maps bpf_env0"
    by (simp_all add: Load_def Open_def ebpf0_def bpf_env0_def AttachAlwaysOn_def always_on_def Attach_def Prog_def)
  have "Map ?s ''targets'' = Some kmap_empty" "Map ?s ''task_meta'' = Some kmap_empty"
    using L(2,3) by (simp_all add: Map_def bpf_env0_def)
  moreover from this have "fst (AddTarget bpf_env0 7 2 5 ''a long program name'' ?s)"
    using fst_update_elem [of bpf_env0 "''targets''" "u32_bytes 7" "u32_bytes 2" ?s]
    by (auto simp: AddTarget_def Let_def bpf_env0_def split: prod.splits)
  moreover have "be_update_ok bpf_env0 ''task_meta'' kmap_empty (u32_bytes 7)" by (simp add: bpf_env0_def)
  moreover have "take 15 (cstr ''a long program name'') = ''a long program ''" by (simp add: cstr_def)
  ultimately show ?thesis
    using joined_target_reads_back [of bpf_env0 7 2 5 "''a long program name''" ?s kmap_empty] by metis
qed

end
