(* ===== verification/ProcTable.thy ===== *)
theory ProcTable
  imports Ebpf
begin

text \<open>
  The process table, \<^verbatim>\<open>EbpfManager::ReadProcessTable\<close> in
  \<^verbatim>\<open>src/collect/ebpf_manager.cpp\<close>: the text of the \<^verbatim>\<open>iter/task\<close> program, read in chunks, cut
  into lines and scanned into rows, with the printer on the kernel side
  (\<^verbatim>\<open>bpf/etrace_common.h\<close>) as the other half of the round trip.
\<close>

section \<open>The process table\<close>

text \<open>The three kinds of lines the \<^verbatim>\<open>iter/task\<close> program prints for every task.\<close>

definition scan_A :: "string \<Rightarrow> ProcessRow option" where
  "scan_A r0 =
     (case scan_decs 2 r0 of
        Some ([pid, tgid], r1) \<Rightarrow>
          (case scan_word 15 r1 of
             None \<Rightarrow> None
           | Some (comm, r2) \<Rightarrow>
               (case scan_decs 8 r2 of
                  Some ([state, start_time, utime, stime, nvcsw, nivcsw, minflt, majflt], _) \<Rightarrow>
                    Some (ProcessRow0\<lparr>pr_pid := ucast pid, pr_tgid := ucast tgid, pr_comm := comm,
                      pr_state := ucast state, pr_start_time := start_time, pr_utime := utime,
                      pr_stime := stime, pr_nvcsw := nvcsw, pr_nivcsw := nivcsw, pr_minflt := minflt,
                      pr_majflt := majflt, pr_ioac_valid := True, pr_sched_valid := True\<rparr>)
                | _ \<Rightarrow> None))
      | _ \<Rightarrow> None)"

definition scan_B :: "string \<Rightarrow> ProcessRow \<Rightarrow> ProcessRow option" where
  "scan_B r0 row =
     (case scan_decs 10 r0 of
        Some ([pid, total_vm, rchar, wchar, syscr, syscw, read_bytes, write_bytes, sum_exec, run_delay], _) \<Rightarrow>
          Some (row\<lparr>pr_pid := ucast pid, pr_total_vm := total_vm, pr_rchar := rchar, pr_wchar := wchar,
            pr_syscr := syscr, pr_syscw := syscw, pr_read_bytes := read_bytes, pr_write_bytes := write_bytes,
            pr_sum_exec_runtime_ns := sum_exec, pr_run_delay_ns := run_delay\<rparr>)
      | _ \<Rightarrow> None)"

definition scan_C :: "string \<Rightarrow> ProcessRow \<Rightarrow> ProcessRow option" where
  "scan_C r0 row =
     (case scan_decs 5 r0 of
        Some ([pid, anon, file, shmem, swap], _) \<Rightarrow>
          Some (row\<lparr>pr_pid := ucast pid, pr_rss_anon_pages := anon, pr_rss_file_pages := file,
            pr_rss_shmem_pages := shmem, pr_swap_ents := swap,
            pr_rss_kb := (anon + file + shmem) * 4, pr_rss_valid := (anon + file + shmem > 0)\<rparr>)
      | _ \<Rightarrow> None)"

text \<open>A B or C line changes the last row, or removes it when it cannot be read.\<close>

definition on_last :: "(ProcessRow \<Rightarrow> ProcessRow option) \<Rightarrow> ProcessRow list \<Rightarrow> ProcessRow list" where
  "on_last f out =
     (if out = [] then []
      else case f (last out) of None \<Rightarrow> butlast out | Some r \<Rightarrow> butlast out @ [r])"

definition table_line :: "string \<Rightarrow> ProcessRow list \<Rightarrow> ProcessRow list" where
  "table_line line out =
     (case cstr line of
        [] \<Rightarrow> out
      | tag # rest \<Rightarrow>
          (if tag = CHR ''A'' then (case scan_A rest of None \<Rightarrow> out | Some r \<Rightarrow> out @ [r])
           else if tag = CHR ''B'' then on_last (scan_B rest) out
           else if tag = CHR ''C'' then on_last (scan_C rest) out
           else out))"

text \<open>The complete lines of a text and what is left behind the last newline.\<close>

fun cut_lines :: "string \<Rightarrow> string \<Rightarrow> string list \<times> string" where
  "cut_lines acc [] = ([], rev acc)"
| "cut_lines acc (c # s) =
     (if c = CHR 0x0A then (let (ls, r) = cut_lines [] s in (rev acc # ls, r)) else cut_lines (c # acc) s)"

text \<open>One \<^verbatim>\<open>read\<close>: the buffer counts up to its first NUL.\<close>

definition read_chunk :: "string \<times> ProcessRow list \<Rightarrow> string \<Rightarrow> string \<times> ProcessRow list" where
  "read_chunk = (\<lambda>(leftover, out) chunk.
     let (ls, r) = cut_lines [] (leftover @ cstr chunk) in (r, fold table_line ls out))"

definition ReadProcessTable :: "bpf_env \<Rightarrow> ebpf \<Rightarrow> string list \<Rightarrow> bool \<times> ProcessRow list" where
  "ReadProcessTable env s chunks =
     (if Prog env s ''task_iter'' \<noteq> Attaches then (False, [])
      else let out = snd (foldl read_chunk ([], []) chunks) in (out \<noteq> [], out))"

section \<open>The text the kernel side prints\<close>

definition nums :: "u64 list \<Rightarrow> string" where
  "nums vs = concat (map (\<lambda>v. '' '' @ show_nat (unat v)) vs)"

text \<open>
  What the program reads of a task. Fields the running kernel does not have (\<^verbatim>\<open>bpf_core_field_exists\<close>)
  and the memory of a kernel thread are absent; both fault counters have to exist.
\<close>

record task_struct =
  tk_pid :: u32
  tk_tgid :: u32
  tk_comm :: string
  tk_state :: u32
  tk_start_time :: u64
  tk_utime :: u64
  tk_stime :: u64
  tk_nvcsw :: u64
  tk_nivcsw :: u64
  tk_faults :: "(u64 \<times> u64) option"
  tk_ioac :: "(u64 \<times> u64 \<times> u64 \<times> u64 \<times> u64 \<times> u64) option"
  tk_sum_exec :: "u64 option"
  tk_run_delay :: "u64 option"
  tk_total_vm :: "u64 option"

definition or_zero :: "u64 option \<Rightarrow> u64" where
  "or_zero x = (case x of None \<Rightarrow> 0 | Some v \<Rightarrow> v)"

definition line_A :: "task_struct \<Rightarrow> string" where
  "line_A t =
     (let (min_flt, maj_flt) = (case tk_faults t of None \<Rightarrow> (0, 0) | Some f \<Rightarrow> f)
      in ''A'' @ nums [ucast (tk_pid t), ucast (tk_tgid t)] @ '' '' @ tk_comm t @
         nums [ucast (tk_state t), tk_start_time t, tk_utime t, tk_stime t, tk_nvcsw t, tk_nivcsw t, min_flt, maj_flt])"

definition line_B :: "task_struct \<Rightarrow> string" where
  "line_B t =
     (let (rchar, wchar, syscr, syscw, rd_bytes, wr_bytes) =
        (case tk_ioac t of None \<Rightarrow> (0, 0, 0, 0, 0, 0) | Some io \<Rightarrow> io)
      in ''B'' @ nums [ucast (tk_pid t), or_zero (tk_total_vm t), rchar, wchar, syscr, syscw, rd_bytes, wr_bytes,
           or_zero (tk_sum_exec t), or_zero (tk_run_delay t)])"

text \<open>The counters of the resident set are declared with 0 and never assigned.\<close>

definition line_C :: "task_struct \<Rightarrow> string" where
  "line_C t = ''C'' @ nums [ucast (tk_pid t), 0, 0, 0, 0]"

text \<open>The iterator calls the program once more without a task at the end.\<close>

definition task_iter :: "task_struct option \<Rightarrow> string" where
  "task_iter task =
     (case task of
        None \<Rightarrow> []
      | Some t \<Rightarrow> line_A t @ [CHR 0x0A] @ line_B t @ [CHR 0x0A] @ line_C t @ [CHR 0x0A])"

text \<open>A name \<^verbatim>\<open>%15s\<close> reads whole, and the row the collector should see for a task.\<close>

definition plain_name :: "string \<Rightarrow> bool" where
  "plain_name n \<longleftrightarrow> n \<noteq> [] \<and> length n \<le> 15 \<and> list_all (\<lambda>c. \<not> is_space c \<and> c \<noteq> CHR 0x00) n"

definition first_row :: "task_struct \<Rightarrow> ProcessRow" where
  "first_row t = ProcessRow0\<lparr>pr_pid := tk_pid t, pr_tgid := tk_tgid t, pr_comm := tk_comm t,
     pr_state := ucast (tk_state t), pr_start_time := tk_start_time t, pr_utime := tk_utime t, pr_stime := tk_stime t,
     pr_nvcsw := tk_nvcsw t, pr_nivcsw := tk_nivcsw t,
     pr_minflt := (case tk_faults t of None \<Rightarrow> 0 | Some f \<Rightarrow> fst f),
     pr_majflt := (case tk_faults t of None \<Rightarrow> 0 | Some f \<Rightarrow> snd f),
     pr_ioac_valid := True, pr_sched_valid := True\<rparr>"

definition with_io :: "task_struct \<Rightarrow> ProcessRow \<Rightarrow> ProcessRow" where
  "with_io t r =
     (let (rchar, wchar, syscr, syscw, rd_bytes, wr_bytes) =
        (case tk_ioac t of None \<Rightarrow> (0, 0, 0, 0, 0, 0) | Some io \<Rightarrow> io)
      in r\<lparr>pr_pid := tk_pid t, pr_total_vm := or_zero (tk_total_vm t), pr_rchar := rchar, pr_wchar := wchar,
           pr_syscr := syscr, pr_syscw := syscw, pr_read_bytes := rd_bytes, pr_write_bytes := wr_bytes,
           pr_sum_exec_runtime_ns := or_zero (tk_sum_exec t), pr_run_delay_ns := or_zero (tk_run_delay t)\<rparr>)"

definition without_rss :: "task_struct \<Rightarrow> ProcessRow \<Rightarrow> ProcessRow" where
  "without_rss t r = r\<lparr>pr_pid := tk_pid t, pr_rss_anon_pages := 0, pr_rss_file_pages := 0, pr_rss_shmem_pages := 0,
     pr_swap_ents := 0, pr_rss_kb := 0, pr_rss_valid := False\<rparr>"

definition seen_row :: "task_struct \<Rightarrow> ProcessRow" where
  "seen_row t = without_rss t (with_io t (first_row t))"

section \<open>Lines and chunks\<close>

lemma cut_lines_plain:
  "CHR 0x0A \<notin> set xs \<Longrightarrow> cut_lines acc (xs @ b) = cut_lines (rev xs @ acc) b"
  by (induction xs arbitrary: acc) auto

lemma cut_lines_line: "CHR 0x0A \<notin> set xs \<Longrightarrow>
  cut_lines [] (xs @ CHR 0x0A # b) = (let (ls, r) = cut_lines [] b in (xs # ls, r))"
  using cut_lines_plain [of xs "[]" "CHR 0x0A # b"] by simp

lemma cut_lines_append:
  "cut_lines [] (a @ b) =
     (let (l1, r1) = cut_lines [] a; (l2, r2) = cut_lines [] (r1 @ b) in (l1 @ l2, r2))"
proof -
  have "CHR 0x0A \<notin> set acc \<Longrightarrow> cut_lines acc (a @ b) =
     (let (l1, r1) = cut_lines acc a; (l2, r2) = cut_lines [] (r1 @ b) in (l1 @ l2, r2))" for acc
  proof (induction a arbitrary: acc)
    case Nil
    then show ?case using cut_lines_plain [of "rev acc" "[]" b] by (simp split: prod.splits)
  next
    case (Cons c a)
    show ?case
    proof (cases "c = CHR 0x0A")
      case True
      then show ?thesis using Cons.IH [of "[]"] by (simp split: prod.splits)
    next
      case False
      with Cons show ?thesis by simp
    qed
  qed
  from this [of "[]"] show ?thesis by simp
qed

lemma read_chunks_join:
  assumes "list_all (\<lambda>c. CHR 0x00 \<notin> set c) cs" and "cut_lines [] left = ([], left)"
  shows "foldl read_chunk (left, out) cs =
     (let (ls, r) = cut_lines [] (left @ concat cs) in (r, fold table_line ls out))"
  using assms
proof (induction cs arbitrary: left out)
  case (Cons c cs)
  have c: "cstr c = c" using Cons.prems(1) by (auto simp: cstr_def intro: takeWhile_all simp: list_all_iff)
  obtain l1 r1 where 1: "cut_lines [] (left @ c) = (l1, r1)" by fastforce
  have left: "cut_lines [] r1 = ([], r1)"
    using cut_lines_append [of "left @ c" "[]"] 1 by (auto split: prod.splits)
  show ?case
    using Cons.IH [of r1 "fold table_line l1 out"] Cons.prems(1) left
      cut_lines_append [of "left @ c" "concat cs"] 1
    by (auto simp: read_chunk_def c split: prod.splits)
qed simp

section \<open>Scanning what was printed\<close>

definition stops :: "string \<Rightarrow> bool" where
  "stops t \<longleftrightarrow> t = [] \<or> \<not> is_digit (hd t)"

lemma scan_dec_printed:
  assumes "stops t"
  shows "scan_dec (CHR '' '' # show_nat (unat (v :: u64)) @ t) = Some (v, t)"
proof -
  obtain c r where cr: "show_nat (unat v) = c # r" "is_digit c" using show_nat_hd by blast
  have d: "dropWhile is_space (show_nat (unat v) @ t) = show_nat (unat v) @ t" and sp: "is_space CHR '' ''"
    using cr is_digit_not_space by (simp_all add: is_space_def)
  have g: "strtoull_sign (show_nat (unat v) @ t) = (False, show_nat (unat v) @ t)"
    using cr is_digit_not_sign [OF cr(2)] by (simp add: strtoull_sign_def)
  have w: "takeWhile is_digit (show_nat (unat v) @ t) = show_nat (unat v)"
    "dropWhile is_digit (show_nat (unat v) @ t) = t"
    using show_nat_digits [of "unat v"] assms
    by (cases t; auto simp: list_all_iff stops_def takeWhile_append dropWhile_append)+
  have "unat v < 2 ^ 64" using unsigned_less [of v, where ?'a = nat] by simp
  then show ?thesis by (simp add: scan_dec_def strtoull_def d sp g w)
qed

lemma nums_Cons: "nums (v # vs) = CHR '' '' # show_nat (unat v) @ nums vs"
  by (simp add: nums_def)

lemma stops_nums: "stops t \<Longrightarrow> stops (nums vs @ t)"
  by (cases vs) (auto simp: stops_def nums_def is_digit_def)

lemma scan_decs_printed: "stops t \<Longrightarrow> scan_decs (length vs) (nums vs @ t) = Some (vs, t)"
proof (induction vs)
  case (Cons v vs)
  then show ?case by (simp add: nums_Cons scan_dec_printed stops_nums)
qed (simp add: nums_def)

lemma scan_decs_nums:
  "stops t \<Longrightarrow> scan_decs 2 (nums [a, b] @ t) = Some ([a, b], t)"
  "scan_decs 8 (nums [a, b, c, d, e, f, g, h]) = Some ([a, b, c, d, e, f, g, h], [])"
  "scan_decs 10 (nums [a, b, c, d, e, f, g, h, i, j]) = Some ([a, b, c, d, e, f, g, h, i, j], [])"
  "scan_decs 5 (nums [a, b, c, d, e]) = Some ([a, b, c, d, e], [])"
  using scan_decs_printed [of t "[a, b]"] scan_decs_printed [of "[]" "[a, b, c, d, e, f, g, h]"]
    scan_decs_printed [of "[]" "[a, b, c, d, e, f, g, h, i, j]"] scan_decs_printed [of "[]" "[a, b, c, d, e]"]
  by (simp_all add: stops_def eval_nat_numeral)

lemma scan_name:
  assumes "plain_name n" and "stops t" and "t = [] \<or> is_space (hd t)"
  shows "scan_word 15 (CHR '' '' # n @ t) = Some (n, t)"
proof -
  have ns: "\<forall>c \<in> set n. \<not> is_space c" using assms(1) by (simp add: plain_name_def list_all_iff)
  have "dropWhile is_space (CHR '' '' # n @ t) = n @ t"
    using ns assms(1) by (cases n) (auto simp: is_space_def plain_name_def)
  moreover have "takeWhile (\<lambda>c. \<not> is_space c) (n @ t) = n"
    using ns assms(3) by (cases t) (auto simp: takeWhile_append)
  ultimately show ?thesis using assms(1) by (simp add: scan_word_def plain_name_def Let_def)
qed

lemma nums_plain: "\<forall>c \<in> set (nums vs). is_digit c \<or> c = CHR '' ''"
  using show_nat_digits by (auto simp: nums_def list_all_iff)

lemma nums_no_nul: "CHR 0x00 \<notin> set (nums vs)" "CHR 0x0A \<notin> set (nums vs)"
  using nums_plain [of vs] by (auto simp: is_digit_def)

section \<open>Properties of the process table\<close>

lemma ucast_widen: "ucast (ucast (x :: u32) :: u64) = x" "ucast (ucast (x :: u32) :: u64) = (ucast x :: u8)"
proof -
  show "ucast (ucast (x :: u32) :: u64) = x" by (transfer, simp)
  show "ucast (ucast (x :: u32) :: u64) = (ucast x :: u8)" by (transfer, simp add: take_bit_take_bit)
qed

lemma scan_A_printed:
  assumes "plain_name (tk_comm t)"
  shows "table_line (line_A t) out = out @ [first_row t]"
proof -
  obtain f g where fg: "(case tk_faults t of None \<Rightarrow> (0, 0) | Some x \<Rightarrow> x) = (f, g)" by fastforce
  have fg': "(case tk_faults t of None \<Rightarrow> 0 | Some x \<Rightarrow> fst x) = f" "(case tk_faults t of None \<Rightarrow> 0 | Some x \<Rightarrow> snd x) = g"
    using fg by (auto split: option.splits)
  let ?ns = "nums [ucast (tk_state t), tk_start_time t, tk_utime t, tk_stime t, tk_nvcsw t, tk_nivcsw t, f, g]"
  have line: "line_A t = ''A'' @ nums [ucast (tk_pid t), ucast (tk_tgid t)] @ '' '' @ tk_comm t @ ?ns"
    by (simp add: line_A_def fg)
  have nul: "cstr (line_A t) = line_A t"
    using assms nums_no_nul unfolding cstr_def line
    by (intro takeWhile_all) (auto simp: list_all_iff plain_name_def)
  have st: "stops (CHR '' '' # tk_comm t @ ?ns)" by (simp add: stops_def is_digit_def)
  have "stops ?ns" "?ns = [] \<or> is_space (hd ?ns)"
    by (simp_all add: nums_Cons stops_def is_digit_def is_space_def)
  note n = scan_name [OF assms this]
  have "table_line (line_A t) out = (case scan_A (nums [ucast (tk_pid t), ucast (tk_tgid t)] @ '' '' @ tk_comm t @ ?ns)
     of None \<Rightarrow> out | Some r \<Rightarrow> out @ [r])"
    by (simp add: table_line_def nul) (simp add: line)
  then show ?thesis
    by (simp add: scan_A_def scan_decs_nums(1) [OF st] n scan_decs_nums(2) ucast_widen first_row_def fg')
qed

lemma scan_BC_printed:
  assumes "out \<noteq> []"
  shows "table_line (line_B t) out = butlast out @ [with_io t (last out)]"
    and "table_line (line_C t) out = butlast out @ [without_rss t (last out)]"
proof -
  obtain a b c d e f where io: "(case tk_ioac t of None \<Rightarrow> (0, 0, 0, 0, 0, 0) | Some io \<Rightarrow> io) = (a, b, c, d, e, f)"
    by (cases "case tk_ioac t of None \<Rightarrow> (0, 0, 0, 0, 0, 0) | Some io \<Rightarrow> io") auto
  have line: "line_B t = ''B'' @ nums [ucast (tk_pid t), or_zero (tk_total_vm t), a, b, c, d, e, f,
      or_zero (tk_sum_exec t), or_zero (tk_run_delay t)]"
    by (simp add: line_B_def io)
  have nul: "cstr (line_B t) = line_B t" "cstr (line_C t) = line_C t"
    using nums_no_nul unfolding cstr_def line line_C_def
    by (auto intro!: takeWhile_all simp: list_all_iff)
  show "table_line (line_B t) out = butlast out @ [with_io t (last out)]"
    using assms by (simp add: table_line_def nul)
      (simp add: line on_last_def scan_B_def scan_decs_nums ucast_widen with_io_def io)
  show "table_line (line_C t) out = butlast out @ [without_rss t (last out)]"
    using assms by (simp add: table_line_def nul)
      (simp add: line_C_def on_last_def scan_C_def scan_decs_nums ucast_widen without_rss_def)
qed

lemma line_nums:
  obtains ns ms where "line_A t = ''A'' @ nums [ucast (tk_pid t), ucast (tk_tgid t)] @ '' '' @ tk_comm t @ nums ns"
    and "line_B t = ''B'' @ nums ms" and "line_C t = ''C'' @ nums [ucast (tk_pid t), 0, 0, 0, 0]"
    and "length ns = 8"
  by (auto simp: line_A_def line_B_def line_C_def split_def Let_def)

lemma task_lines:
  assumes "CHR 0x0A \<notin> set (tk_comm t)"
  shows "cut_lines [] (task_iter (Some t) @ u) =
    (let (ls, r) = cut_lines [] u in (line_A t # line_B t # line_C t # ls, r))"
proof -
  have "CHR 0x0A \<notin> set (line_A t)" "CHR 0x0A \<notin> set (line_B t)" "CHR 0x0A \<notin> set (line_C t)"
    using assms nums_no_nul(2) by (rule_tac line_nums [of t]; auto)+
  then show ?thesis by (simp add: task_iter_def cut_lines_line split: prod.splits)
qed

lemma task_fold:
  assumes "plain_name (tk_comm t)"
  shows "fold table_line [line_A t, line_B t, line_C t] out = out @ [seen_row t]"
  by (simp only: fold.simps o_apply id_apply scan_A_printed [OF assms] scan_BC_printed append_is_Nil_conv
      not_Cons_self2 last_snoc butlast_snoc list.distinct simp_thms not_False_eq_True seen_row_def)

lemma plain_name_newline: "plain_name n \<Longrightarrow> CHR 0x0A \<notin> set n"
proof
  assume "plain_name n" and "CHR 0x0A \<in> set n"
  then have "\<not> is_space CHR 0x0A" unfolding plain_name_def list_all_iff by blast
  then show False by (simp add: is_space_def)
qed

lemma tasks_parsed:
  assumes "list_all (\<lambda>p. plain_name (tk_comm p)) ps"
  shows "let (ls, r) = cut_lines [] (concat (map (\<lambda>t. task_iter (Some t)) ps)) in r = [] \<and> fold table_line ls out = out @ map seen_row ps"
  using assms
proof (induction ps arbitrary: out)
  case (Cons p ps)
  have plain: "plain_name (tk_comm p)" "list_all (\<lambda>p. plain_name (tk_comm p)) ps"
    using Cons.prems by simp_all
  note tl = task_lines [OF plain_name_newline [OF plain(1)], of "concat (map (\<lambda>t. task_iter (Some t)) ps)"]
  obtain ls r where c: "cut_lines [] (concat (map (\<lambda>t. task_iter (Some t)) ps)) = (ls, r)" by fastforce
  have tf: "fold table_line [line_A p, line_B p, line_C p] out = out @ [seen_row p]"
    by (rule task_fold [OF plain(1)])
  have IH: "r = [] \<and> fold table_line ls (out @ [seen_row p]) = (out @ [seen_row p]) @ map seen_row ps"
    using Cons.IH [OF plain(2), of "out @ [seen_row p]"] unfolding c by (simp only: Let_def prod.case)
  have "fold table_line (line_A p # line_B p # line_C p # ls) out = fold table_line ls (out @ [seen_row p])"
    using tf by (simp only: fold_simps fold.simps o_apply id_apply)
  with IH show ?case
    by (simp only: list.map concat.simps tl c Let_def prod.case simp_thms append.simps append_assoc)
qed simp

lemma task_iter_no_nul: "plain_name (tk_comm p) \<Longrightarrow> CHR 0x00 \<notin> set (task_iter (Some p))"
  using nums_no_nul(1) by (rule_tac line_nums [of p]) (auto simp: task_iter_def plain_name_def list_all_iff)


text \<open>Two tasks: the first is idle (a state above 255), the second has a space in its name.\<close>

definition task1 :: task_struct where
  "task1 = \<lparr>tk_pid = 7, tk_tgid = 7, tk_comm = ''init'', tk_state = 0x402, tk_start_time = 1, tk_utime = 11, tk_stime = 2,
     tk_nvcsw = 3, tk_nivcsw = 4, tk_faults = None, tk_ioac = Some (1, 2, 3, 4, 5, 6), tk_sum_exec = Some 9,
     tk_run_delay = None, tk_total_vm = Some 100\<rparr>"

definition task2 :: task_struct where
  "task2 = \<lparr>tk_pid = 9, tk_tgid = 9, tk_comm = ''tmux: server'', tk_state = 1, tk_start_time = 1, tk_utime = 5, tk_stime = 2,
     tk_nvcsw = 3, tk_nivcsw = 4, tk_faults = Some (8, 9), tk_ioac = Some (1, 2, 3, 4, 50, 6), tk_sum_exec = Some 9,
     tk_run_delay = Some 70, tk_total_vm = None\<rparr>"


lemma scan_A_fails:
  assumes "plain_name u" and "tk_comm q = u @ '' '' @ d # v" and "\<not> is_digit d" "\<not> is_space d"
    and "d \<notin> {CHR ''-'', CHR ''+'', CHR 0x00}" and "CHR 0x00 \<notin> set v"
  shows "table_line (line_A q) out = out"
proof -
  obtain ns where line: "line_A q = ''A'' @ nums [ucast (tk_pid q), ucast (tk_tgid q)] @ '' '' @ tk_comm q @ nums ns"
    and len: "length ns = 8" by (rule line_nums [of q])
  let ?t = "CHR '' '' # d # v @ nums ns"
  have sp: "is_space CHR '' ''" "\<not> is_digit CHR '' ''" by (simp_all add: is_space_def is_digit_def)
  have u0: "CHR 0x00 \<notin> set u" using assms(1) by (auto simp: plain_name_def list_all_iff)
  have split: "line_A q = CHR ''A'' # nums [ucast (tk_pid q), ucast (tk_tgid q)] @ CHR '' '' # u @ ?t"
    by (simp add: line assms(2))
  have "CHR 0x00 \<notin> set (line_A q)" unfolding split using u0 assms(5,6) nums_no_nul(1) by auto
  then have nul: "cstr (line_A q) = line_A q" unfolding cstr_def by (auto intro!: takeWhile_all simp: list_all_iff)
  have "stops ?t" "?t = [] \<or> is_space (hd ?t)" by (simp_all add: stops_def sp)
  note w = scan_name [OF assms(1) this]
  have st: "stops (CHR '' '' # u @ ?t)" by (simp add: stops_def sp)
  have "scan_dec ?t = None"
    using assms(3,4,5) sp by (simp add: scan_dec_def strtoull_def strtoull_sign_def)
  then have "scan_decs 8 ?t = None" by (simp add: eval_nat_numeral)
  then have "scan_A (nums [ucast (tk_pid q), ucast (tk_tgid q)] @ CHR '' '' # u @ ?t) = None"
    by (simp only: scan_A_def scan_decs_nums(1) [OF st] w option.case prod.case list.case)
  moreover have "table_line (line_A q) out =
      (case scan_A (nums [ucast (tk_pid q), ucast (tk_tgid q)] @ CHR '' '' # u @ ?t) of None \<Rightarrow> out | Some r \<Rightarrow> out @ [r])"
    unfolding table_line_def nul by (simp only: split list.case if_True simp_thms)
  ultimately show ?thesis by simp
qed

text \<open>
  A task whose name has a space corrupts the row before it: its own row is lost, and the
  preceding row takes over its thread id and its I/O and scheduler counters, next to the
  name and the processor times of its own.
\<close>

theorem name_with_space_corrupts_previous_row:
  assumes "Prog env s ''task_iter'' = Attaches" and "plain_name (tk_comm p)"
    and "plain_name u" and "tk_comm q = u @ '' '' @ d # v" and "\<not> is_digit d" "\<not> is_space d"
    and "d \<notin> {CHR ''-'', CHR ''+'', CHR 0x00}" and "CHR 0x00 \<notin> set v" and "CHR 0x0A \<notin> set v"
    and "concat chunks = task_iter (Some p) @ task_iter (Some q)"
  shows "ReadProcessTable env s chunks = (True, [without_rss q (with_io q (seen_row p))])"
proof -
  have nl: "CHR 0x0A \<notin> set (tk_comm p)" "CHR 0x0A \<notin> set (tk_comm q)"
    using plain_name_newline [OF assms(2)] plain_name_newline [OF assms(3)] assms(6,9)
    by (auto simp: assms(4) is_space_def)
  have u0: "CHR 0x00 \<notin> set u" using assms(3) by (auto simp: plain_name_def list_all_iff)
  have "CHR 0x00 \<notin> set (task_iter (Some q))"
    using nums_no_nul(1) u0 assms(7,8) by (rule_tac line_nums [of q]) (auto simp: task_iter_def assms(4))
  then have "CHR 0x00 \<notin> set (concat chunks)" using task_iter_no_nul [OF assms(2)] by (simp add: assms(10))
  then have "list_all (\<lambda>c. CHR 0x00 \<notin> set c) chunks" by (simp only: set_concat list_all_iff) blast
  note rd = read_chunks_join [OF this, of "[]" "[]"]
  have "cut_lines [] (concat chunks) =
      ([line_A p, line_B p, line_C p, line_A q, line_B q, line_C q], [])"
    using task_lines [OF nl(1), of "task_iter (Some q)"] task_lines [OF nl(2), of "[]"] by (simp add: assms(10))
  then have "snd (foldl read_chunk ([], []) chunks) =
      fold table_line [line_A p, line_B p, line_C p, line_A q, line_B q, line_C q] []"
    using rd by simp
  also have "\<dots> = table_line (line_C q) (table_line (line_B q) (table_line (line_A q)
      (fold table_line [line_A p, line_B p, line_C p] [])))" by simp
  also have "\<dots> = table_line (line_C q) (table_line (line_B q) [seen_row p])"
    by (simp only: task_fold [OF assms(2)] append_Nil scan_A_fails [OF assms(3-8)])
  finally have tab: "snd (foldl read_chunk ([], []) chunks) = table_line (line_C q) (table_line (line_B q) [seen_row p])" .
  show ?thesis using assms(1)
    by (simp add: ReadProcessTable_def Let_def tab scan_BC_printed)
qed

theorem name_with_space_corrupts_previous_row_witness:
  "\<exists>r. ReadProcessTable bpf_env0 (ebpf0\<lparr>eb_skel := Loaded\<rparr>) [task_iter (Some task1) @ task_iter (Some task2)] = (True, [r]) \<and>
     pr_pid r = 9 \<and> pr_comm r = ''init'' \<and> pr_read_bytes r = 50 \<and> pr_utime r = 11"
proof -
  have "Prog bpf_env0 (ebpf0\<lparr>eb_skel := Loaded\<rparr>) ''task_iter'' = Attaches" by (simp add: Prog_def bpf_env0_def)
  moreover have "plain_name (tk_comm task1)" "plain_name ''tmux:''" "tk_comm task2 = ''tmux:'' @ '' '' @ CHR ''s'' # ''erver''"
    by (simp_all add: task1_def task2_def plain_name_def is_space_def)
  moreover have "\<not> is_digit CHR ''s''" "\<not> is_space CHR ''s''" by (simp_all add: is_digit_def is_space_def)
  ultimately have "ReadProcessTable bpf_env0 (ebpf0\<lparr>eb_skel := Loaded\<rparr>) [task_iter (Some task1) @ task_iter (Some task2)] =
      (True, [without_rss task2 (with_io task2 (seen_row task1))])"
    using name_with_space_corrupts_previous_row [of bpf_env0 "ebpf0\<lparr>eb_skel := Loaded\<rparr>" task1 "''tmux:''" task2
        "CHR ''s''" "''erver''" "[task_iter (Some task1) @ task_iter (Some task2)]"] by force
  then show ?thesis
    by (simp add: seen_row_def without_rss_def with_io_def first_row_def task1_def task2_def)
qed

end
