(* ===== verification/Selector.thy ===== *)
theory Selector
  imports ProcTable Host Config
begin

text \<open>
  The target selector, \<^verbatim>\<open>src/collect/target_selector.cpp\<close>: the hardware probe and the thread
  budget, the sliding window of counters, scoring and ranking, the hysteresis per process, and the
  membership of the kernel's targets map. The order in which an unordered container is iterated is
  an argument: a function that permutes the keys.
\<close>

section \<open>State\<close>

record Counters =
  ct_on_cpu_ns :: u64
  ct_sw_vol :: u64
  ct_sw_invol :: u64
  ct_io_ops :: u64
  ct_io_bytes :: u64
  ct_pf_minor :: u64
  ct_pf_major :: u64
  ct_lock_waits :: u64

definition Counters0 :: Counters where
  "Counters0 = \<lparr>ct_on_cpu_ns = 0, ct_sw_vol = 0, ct_sw_invol = 0, ct_io_ops = 0, ct_io_bytes = 0,
     ct_pf_minor = 0, ct_pf_major = 0, ct_lock_waits = 0\<rparr>"

record ProcAgg =
  ag_on_cpu_ns :: u64
  ag_sw :: u64
  ag_io_ops :: u64
  ag_io_bytes :: u64
  ag_faults :: u64
  ag_lock :: u64

definition ProcAgg0 :: ProcAgg where
  "ProcAgg0 = \<lparr>ag_on_cpu_ns = 0, ag_sw = 0, ag_io_ops = 0, ag_io_bytes = 0, ag_faults = 0, ag_lock = 0\<rparr>"

record ProcState =
  st_tgid :: u32
  st_member :: bool
  st_pinned_proc :: bool
  st_good_streak :: u32
  st_bad_streak :: u32
  st_joined_ns :: u64

definition ProcState0 :: "u32 \<Rightarrow> ProcState" where
  "ProcState0 tgid = \<lparr>st_tgid = tgid, st_member = False, st_pinned_proc = False, st_good_streak = 0,
     st_bad_streak = 0, st_joined_ns = 0\<rparr>"

record window_snap =
  ws_ts_ns :: u64
  ws_c :: "(u32 \<times> Counters) list"

record HardwareProbe =
  hp_online_cpus :: u32
  hp_quota_cpus :: u32
  hp_cpuset_cpus :: u32
  hp_eff_cpus :: u32
  hp_mem_total_kb :: u64
  hp_ring_slots :: u32

definition HardwareProbe0 :: HardwareProbe where
  "HardwareProbe0 = \<lparr>hp_online_cpus = 0, hp_quota_cpus = 0, hp_cpuset_cpus = 0, hp_eff_cpus = 0,
     hp_mem_total_kb = 0, hp_ring_slots = 0\<rparr>"

text \<open>The sets are lists without repetition, the maps association lists with unique keys.\<close>

record TargetSelector =
  sl_hw :: HardwareProbe
  sl_thread_budget :: u32
  sl_pstate :: "(u32 \<times> ProcState) list"
  sl_pinned :: "u32 list"
  sl_members :: "u32 list"
  sl_procs :: "u32 list"
  sl_history :: "window_snap list"
  sl_start_time :: "(u32 \<times> u64) list"

definition TargetSelector0 :: TargetSelector where
  "TargetSelector0 = \<lparr>sl_hw = HardwareProbe0, sl_thread_budget = 16, sl_pstate = [], sl_pinned = [],
     sl_members = [], sl_procs = [], sl_history = [], sl_start_time = []\<rparr>"

text \<open>What the selector asks the system, and the world it changes.\<close>

record sel_env =
  sv_files :: files
  sv_strtod :: "string \<Rightarrow> double"
  sv_online :: u32
  sv_ring_slots :: "u32 option"
  sv_clk_tck :: int
  sv_steady :: u64
  sv_slice :: "string \<Rightarrow> MapSlice"
  sv_iter :: "u32 list \<Rightarrow> u32 list"
  sv_bpf :: bpf_env

record sel_world =
  sw_sel :: TargetSelector
  sw_ebpf :: ebpf
  sw_events :: "json list"

section \<open>The hardware probe\<close>

definition ReadFileTrim :: "files \<Rightarrow> string \<Rightarrow> string" where
  "ReadFileTrim fs path =
     (case getlines (ReadFile fs path) of
        [] \<Rightarrow> []
      | l # _ \<Rightarrow> trim_end (\<lambda>c. c = CHR 0x0A \<or> c = CHR 0x0D \<or> c = CHR '' '') l)"

definition strtol :: "string \<Rightarrow> int" where
  "strtol s = (case scan_lld s of None \<Rightarrow> 0 | Some v \<Rightarrow> v)"

definition cpu_token :: "string \<Rightarrow> u32" where
  "cpu_token tok =
     (case find_char CHR ''-'' tok of
        None \<Rightarrow> (if tok \<noteq> [] then 1 else 0)
      | Some d \<Rightarrow>
          (let a = strtol (take d tok); b = strtol (drop (d + 1) tok)
           in if b \<ge> a then of_int (b - a + 1) else 0))"

definition ParseCpuListCount :: "string \<Rightarrow> u32" where
  "ParseCpuListCount s = sum_list (map cpu_token (comma_tokens s))"

definition ReadQuotaCpus :: "sel_env \<Rightarrow> u32" where
  "ReadQuotaCpus env =
     (let s = ReadFileTrim (sv_files env) ''/sys/fs/cgroup/cpu.max''
      in if s \<noteq> [] then
           (let (quota, r) = first_word s; (period, _) = first_word r
            in if quota = ''max'' then 0
               else let q = sv_strtod env quota; p = sv_strtod env period
                    in if p > 0 \<and> q \<ge> 0 then (if q = 0 then 0 else of_int \<lceil>q / p\<rceil>) else 0)
         else
           let q = ReadFileTrim (sv_files env) ''/sys/fs/cgroup/cpu/cpu.cfs_quota_us'';
               p = ReadFileTrim (sv_files env) ''/sys/fs/cgroup/cpu/cpu.cfs_period_us''
           in if q \<noteq> [] \<and> p \<noteq> [] then
                (let qd = sv_strtod env q; pd = sv_strtod env p
                 in if qd < 0 then 0 else if pd > 0 \<and> qd > 0 then of_int \<lceil>qd / pd\<rceil> else 0)
              else 0)"

definition ReadCpusetCpus :: "files \<Rightarrow> u32" where
  "ReadCpusetCpus fs =
     (let s = ReadFileTrim fs ''/sys/fs/cgroup/cpuset.cpus.effective'';
          t = (if s = [] then ReadFileTrim fs ''/sys/fs/cgroup/cpuset/cpuset.cpus'' else s)
      in if t = [] then 0 else ParseCpuListCount t)"

definition ReadMemTotalKb :: "files \<Rightarrow> u64" where
  "ReadMemTotalKb fs =
     (case List.map_filter (\<lambda>l. if starts_with ''MemTotal:'' l then map_option fst (scan_dec (drop 9 l)) else None)
             (getlines (ReadFile fs ''/proc/meminfo'')) of
        [] \<Rightarrow> 0
      | kb # _ \<Rightarrow> kb)"

definition effective_cpus :: "u32 \<Rightarrow> u32 \<Rightarrow> u32 \<Rightarrow> u32" where
  "effective_cpus online quota cpuset =
     (let e0 = (if online \<noteq> 0 then online else 1);
          e1 = (if quota \<noteq> 0 \<and> quota < e0 then quota else e0)
      in if cpuset \<noteq> 0 \<and> cpuset < e1 then cpuset else e1)"

definition thread_budget :: "Config \<Rightarrow> u32 \<Rightarrow> u32 \<Rightarrow> u32" where
  "thread_budget cfg eff_cpus ring_slots =
     (let t = c_targets cfg;
          budget =
            (if tg_auto_scale t then
               let by_concurrency = (of_int \<lceil>of_nat (unat eff_cpus) * tg_concurrency_factor t\<rceil> :: u32);
                   fine_ms = (if sm_fine_interval_ms (c_sample cfg) \<noteq> 0 then sm_fine_interval_ms (c_sample cfg) else 100);
                   backlog_s = (if wn_ring_backlog_seconds (c_window cfg) \<noteq> 0
                                then wn_ring_backlog_seconds (c_window cfg) else 90);
                   ticks = backlog_s * 1000 div fine_ms;
                   by_ring = ring_slots div (if ticks \<noteq> 0 then ucast ticks else 1);
                   b1 = min (min by_concurrency by_ring) (tg_max_targets t);
                   b2 = (if b1 < tg_min_targets t then tg_min_targets t else b1)
               in if b2 > tg_max_targets t then tg_max_targets t else b2
             else tg_max_targets t)
      in if budget \<noteq> 0 then budget else 1)"

definition Probe :: "sel_env \<Rightarrow> Config \<Rightarrow> TargetSelector \<Rightarrow> TargetSelector" where
  "Probe env cfg s =
     (let quota = ReadQuotaCpus env; cpuset = ReadCpusetCpus (sv_files env);
          ring = (case sv_ring_slots env of None \<Rightarrow> 32768 | Some n \<Rightarrow> n);
          eff = effective_cpus (sv_online env) quota cpuset
      in s\<lparr>sl_hw := \<lparr>hp_online_cpus = sv_online env, hp_quota_cpus = quota, hp_cpuset_cpus = cpuset,
             hp_eff_cpus = eff, hp_mem_total_kb = ReadMemTotalKb (sv_files env), hp_ring_slots = ring\<rparr>,
           sl_thread_budget := thread_budget cfg eff ring\<rparr>)"

section \<open>Scores\<close>

definition sat :: "double \<Rightarrow> double" where
  "sat v = (if v < 0 then 0 else if v > 1 then 1 else v)"

definition u64d :: "u64 \<Rightarrow> double" where
  "u64d v = of_nat (unat v)"

definition ComputeScore :: "Config \<Rightarrow> double \<Rightarrow> u64 \<Rightarrow> u64 \<Rightarrow> u64 \<Rightarrow> u64 \<Rightarrow> u64 \<Rightarrow> u64 \<Rightarrow> double" where
  "ComputeScore cfg window_s cpu_ns sum_sw io_ops io_bytes faults lock_waits =
     (let w = tg_weights (c_targets cfg);
          u = u64d cpu_ns / (window_s * 1000000000);
          cpu_util = (if u < 0 then 0 else if u > 1 then 1 else u)
      in tw_cpu w * cpu_util +
         tw_swch w * sat (u64d sum_sw / window_s / 10000) +
         tw_io w * ((sat (u64d io_ops / window_s / 10000) + sat (u64d io_bytes / window_s / 1073741824)) / 2) +
         tw_fault w * sat (u64d faults / window_s / 10000) +
         tw_lock w * sat (u64d lock_waits / window_s / 1000))"

section \<open>Counters of a thread\<close>

definition read_percpu :: "sel_env \<Rightarrow> ebpf \<Rightarrow> string \<Rightarrow> u32 \<Rightarrow> bytes option" where
  "read_percpu env e n tid =
     (case Map e n of
        None \<Rightarrow> None
      | Some m \<Rightarrow> LookupPercpuSum kmap_calls (sv_slice env n) m (u32_bytes tid))"

definition ReadTid :: "sel_env \<Rightarrow> ebpf \<Rightarrow> u32 \<Rightarrow> ProcessRow \<Rightarrow> Counters" where
  "ReadTid env e tid proc =
     (let c0 = Counters0\<lparr>ct_on_cpu_ns := pr_utime proc + pr_stime proc, ct_sw_vol := pr_nvcsw proc,
                 ct_sw_invol := pr_nivcsw proc, ct_pf_minor := pr_minflt proc, ct_pf_major := pr_majflt proc\<rparr>;
          c1 = (case read_percpu env e ''block_io'' tid of
                  None \<Rightarrow> c0
                | Some b \<Rightarrow> c0\<lparr>ct_io_ops := bi_ops (BlockIoVal_of b), ct_io_bytes := bi_bytes (BlockIoVal_of b)\<rparr>)
      in case read_percpu env e ''lock_st'' tid of
           None \<Rightarrow> c1
         | Some b \<Rightarrow> c1\<lparr>ct_lock_waits := lv_count (LatStatVal13_of b)\<rparr>)"

definition sub_sat :: "u64 \<Rightarrow> u64 \<Rightarrow> u64" where
  "sub_sat c b = (if c \<ge> b then c - b else 0)"

definition counter_delta :: "Counters \<Rightarrow> Counters option \<Rightarrow> Counters" where
  "counter_delta c base =
     (case base of
        None \<Rightarrow> c
      | Some b \<Rightarrow>
          \<lparr>ct_on_cpu_ns = sub_sat (ct_on_cpu_ns c) (ct_on_cpu_ns b),
           ct_sw_vol = sub_sat (ct_sw_vol c) (ct_sw_vol b), ct_sw_invol = sub_sat (ct_sw_invol c) (ct_sw_invol b),
           ct_io_ops = sub_sat (ct_io_ops c) (ct_io_ops b), ct_io_bytes = sub_sat (ct_io_bytes c) (ct_io_bytes b),
           ct_pf_minor = sub_sat (ct_pf_minor c) (ct_pf_minor b), ct_pf_major = sub_sat (ct_pf_major c) (ct_pf_major b),
           ct_lock_waits = sub_sat (ct_lock_waits c) (ct_lock_waits b)\<rparr>)"

definition cpu_ns_of :: "sel_env \<Rightarrow> Counters \<Rightarrow> u64" where
  "cpu_ns_of env d =
     (if sv_clk_tck env > 0
      then of_int \<lfloor>u64d (ct_on_cpu_ns d) * 1000000000 / of_int (sv_clk_tck env)\<rfloor> else 0)"

section \<open>Pinned targets, joining and leaving\<close>

definition status_tgid :: "files \<Rightarrow> u32 \<Rightarrow> u32" where
  "status_tgid fs tid =
     (let g = (case find (starts_with ''Tgid:'') (getlines (ReadFile fs (proc_file tid ''status''))) of
                 None \<Rightarrow> 0 | Some l \<Rightarrow> ucast (strtoull0 (drop 5 l)))
      in if g = 0 then tid else g)"

definition pin_one :: "sel_env \<Rightarrow> u32 \<Rightarrow> sel_world \<Rightarrow> sel_world" where
  "pin_one env tid w =
     (let s = sw_sel w
      in if tid = 0 \<or> tid \<in> set (sl_pinned s) then w
         else
           let tgid = status_tgid (sv_files env) tid;
               st = (case map_of (sl_pstate s) tgid of None \<Rightarrow> ProcState0 0 | Some st \<Rightarrow> st)
           in w\<lparr>sw_sel := s\<lparr>sl_pinned := sl_pinned s @ [tid], sl_members := List.insert tid (sl_members s),
                  sl_procs := List.insert tgid (sl_procs s),
                  sl_pstate := alist_put tgid (st\<lparr>st_tgid := tgid, st_member := True, st_pinned_proc := True,
                    st_joined_ns := sv_steady env\<rparr>) (sl_pstate s)\<rparr>,
                sw_ebpf := join_kernel (sv_bpf env) (1, tgid, ReadComm (sv_files env) tid) tid (sw_ebpf w)\<rparr>)"

definition ApplyPinned :: "sel_env \<Rightarrow> Config \<Rightarrow> sel_world \<Rightarrow> sel_world" where
  "ApplyPinned env cfg = fold (pin_one env) (tg_pinned (c_targets cfg))"

definition join_event :: "sel_env \<Rightarrow> u32 \<Rightarrow> u32 \<Rightarrow> double \<Rightarrow> u32 \<Rightarrow> json" where
  "join_event env tid tgid score rank =
     JObj [(''v'', JInt 2), (''ts_ns'', jnum (sv_steady env)), (''action'', JStr ''join''), (''tid'', jnum tid),
       (''tgid'', jnum tgid), (''comm'', JStr (ReadComm (sv_files env) tid)), (''score'', JDbl score),
       (''rank'', jnum rank)]"

definition leave_event :: "sel_env \<Rightarrow> u32 \<Rightarrow> u32 \<Rightarrow> json" where
  "leave_event env tid rank =
     JObj [(''v'', JInt 2), (''ts_ns'', jnum (sv_steady env)), (''action'', JStr ''leave''), (''tid'', jnum tid),
       (''comm'', JStr (ReadComm (sv_files env) tid)), (''rank'', jnum rank)]"

definition Join :: "sel_env \<Rightarrow> u32 \<Rightarrow> u32 \<Rightarrow> double \<Rightarrow> u32 \<Rightarrow> sel_world \<Rightarrow> sel_world" where
  "Join env tid tgid score rank w =
     w\<lparr>sw_ebpf := join_kernel (sv_bpf env) (2, tgid, ReadComm (sv_files env) tid) tid (sw_ebpf w),
       sw_events := sw_events w @ [join_event env tid tgid score rank]\<rparr>"

definition Leave :: "sel_env \<Rightarrow> u32 \<Rightarrow> u32 \<Rightarrow> sel_world \<Rightarrow> sel_world" where
  "Leave env tid rank w =
     w\<lparr>sw_ebpf := leave_kernel (sv_bpf env) tid (sw_ebpf w),
       sw_events := sw_events w @ [leave_event env tid rank]\<rparr>"

section \<open>The evaluation\<close>

text \<open>Steps 1 and 2: the process of every thread, and the counters of all threads at this moment.\<close>

definition tid2tgid_of :: "ProcessRow list \<Rightarrow> (u32 \<times> u32) list" where
  "tid2tgid_of table =
     fold (\<lambda>r. alist_put (pr_pid r) (if pr_tgid r \<noteq> 0 then pr_tgid r else pr_pid r)) table []"

definition tgid_of :: "(u32 \<times> u32) list \<Rightarrow> u32 \<Rightarrow> u32" where
  "tgid_of t2g tid = (case map_of t2g tid of None \<Rightarrow> tid | Some g \<Rightarrow> g)"

definition take_snapshot :: "sel_env \<Rightarrow> ebpf \<Rightarrow> ProcessRow list \<Rightarrow> u64 \<Rightarrow> window_snap" where
  "take_snapshot env e table now_ns =
     \<lparr>ws_ts_ns = now_ns, ws_c = fold (\<lambda>r. alist_put (pr_pid r) (ReadTid env e (pr_pid r) r)) table []\<rparr>"

definition start_times :: "ProcessRow list \<Rightarrow> (u32 \<times> u64) list" where
  "start_times table = fold (\<lambda>r. alist_put (pr_pid r) (pr_start_time r)) table []"

text \<open>Step 3: snapshots that are too old leave the window, but two always stay.\<close>

fun slide :: "u64 \<Rightarrow> u64 \<Rightarrow> window_snap list \<Rightarrow> window_snap list" where
  "slide window_ns now_ns (a # b # c # hs) =
     (if now_ns - ws_ts_ns a > window_ns then slide window_ns now_ns (b # c # hs) else a # b # c # hs)"
| "slide window_ns now_ns hs = hs"

text \<open>
  Step 4: the window between the oldest and the newest snapshot, with the score of every thread
  and the sums per process.
\<close>

record eval_window =
  ew_tids :: "u32 list"
  ew_delta :: "u32 \<Rightarrow> Counters"
  ew_seconds :: double
  ew_t2g :: "(u32 \<times> u32) list"

definition window_seconds :: "window_snap \<Rightarrow> window_snap \<Rightarrow> double" where
  "window_seconds base cur =
     (let s = u64d (ws_ts_ns cur - ws_ts_ns base) / 1000000000 in if s \<le> 0 then 1 else s)"

definition make_window :: "sel_env \<Rightarrow> (u32 \<times> u32) list \<Rightarrow> window_snap \<Rightarrow> window_snap \<Rightarrow> eval_window" where
  "make_window env t2g base cur =
     \<lparr>ew_tids = sv_iter env (map fst (ws_c cur)),
      ew_delta = (\<lambda>tid. case map_of (ws_c cur) tid of None \<Rightarrow> Counters0
                        | Some c \<Rightarrow> counter_delta c (map_of (ws_c base) tid)),
      ew_seconds = window_seconds base cur, ew_t2g = t2g\<rparr>"

definition thread_score :: "sel_env \<Rightarrow> Config \<Rightarrow> eval_window \<Rightarrow> u32 \<Rightarrow> double" where
  "thread_score env cfg ew tid =
     (let d = ew_delta ew tid
      in ComputeScore cfg (ew_seconds ew) (cpu_ns_of env d) (ct_sw_vol d + ct_sw_invol d) (ct_io_ops d)
           (ct_io_bytes d) (ct_pf_minor d + ct_pf_major d) (ct_lock_waits d))"

definition add_agg :: "sel_env \<Rightarrow> Counters \<Rightarrow> ProcAgg \<Rightarrow> ProcAgg" where
  "add_agg env d a =
     \<lparr>ag_on_cpu_ns = ag_on_cpu_ns a + cpu_ns_of env d, ag_sw = ag_sw a + (ct_sw_vol d + ct_sw_invol d),
      ag_io_ops = ag_io_ops a + ct_io_ops d, ag_io_bytes = ag_io_bytes a + ct_io_bytes d,
      ag_faults = ag_faults a + (ct_pf_minor d + ct_pf_major d), ag_lock = ag_lock a + ct_lock_waits d\<rparr>"

definition agg_thread :: "sel_env \<Rightarrow> eval_window \<Rightarrow> u32 \<Rightarrow> (u32 \<times> ProcAgg) list \<Rightarrow> (u32 \<times> ProcAgg) list" where
  "agg_thread env ew tid pacc =
     (let g = tgid_of (ew_t2g ew) tid
      in alist_put g (add_agg env (ew_delta ew tid)
           (case map_of pacc g of None \<Rightarrow> ProcAgg0 | Some a \<Rightarrow> a)) pacc)"

definition process_sums :: "sel_env \<Rightarrow> eval_window \<Rightarrow> (u32 \<times> ProcAgg) list" where
  "process_sums env ew = fold (agg_thread env ew) (ew_tids ew) []"

text \<open>Step 5: processes by descending score; the rank is the position, from 1.\<close>

definition process_score :: "Config \<Rightarrow> double \<Rightarrow> ProcAgg \<Rightarrow> double" where
  "process_score cfg secs a =
     ComputeScore cfg secs (ag_on_cpu_ns a) (ag_sw a) (ag_io_ops a) (ag_io_bytes a) (ag_faults a) (ag_lock a)"

definition scored_processes :: "sel_env \<Rightarrow> Config \<Rightarrow> double \<Rightarrow> (u32 \<times> ProcAgg) list \<Rightarrow> (u32 \<times> double) list" where
  "scored_processes env cfg secs pacc =
     sort_desc snd (map (\<lambda>g. (g, case map_of pacc g of None \<Rightarrow> 0 | Some a \<Rightarrow> process_score cfg secs a))
       (sv_iter env (map fst pacc)))"

definition ranks :: "(u32 \<times> double) list \<Rightarrow> (u32 \<times> u32) list" where
  "ranks scored = map (\<lambda>(i, g, _). (g, of_nat (i + 1))) (enumerate 0 scored)"

text \<open>Steps 6 and 7: a state for every process, and the hysteresis.\<close>

definition ensure_states :: "u32 list \<Rightarrow> (u32 \<times> ProcState) list \<Rightarrow> (u32 \<times> ProcState) list" where
  "ensure_states gs ps = fold (\<lambda>g p. if map_of p g = None then alist_put g (ProcState0 g) p else p) gs ps"

datatype rank_step = Stay | Leaves | Joins

definition hysteresis :: "TargetsTunables \<Rightarrow> u64 \<Rightarrow> u32 \<Rightarrow> ProcState \<Rightarrow> ProcState \<times> rank_step" where
  "hysteresis t now_ns r st =
     (if st_pinned_proc st then (st, Stay)
      else if st_member st then
        (let st' = st\<lparr>st_bad_streak := (if r > tg_leave_rank t then st_bad_streak st + 1 else 0)\<rparr>
         in (st', if st_bad_streak st' \<ge> tg_hold_periods t \<and>
                     now_ns - st_joined_ns st \<ge> tg_min_residency_seconds t * 1000000000 then Leaves else Stay))
      else
        (let st' = st\<lparr>st_good_streak := (if r \<le> tg_enter_rank t then st_good_streak st + 1 else 0)\<rparr>
         in (st', if st_good_streak st' \<ge> tg_hold_periods t then Joins else Stay)))"

definition rank_or_last :: "(u32 \<times> u32) list \<Rightarrow> u32 \<Rightarrow> u32" where
  "rank_or_last rk g = (case map_of rk g of None \<Rightarrow> 0xFFFFFFFF | Some r \<Rightarrow> r)"

definition with_verdict :: "sel_env \<Rightarrow> TargetsTunables \<Rightarrow> u64 \<Rightarrow> (u32 \<times> u32) list \<Rightarrow> (u32 \<times> ProcState) list
    \<Rightarrow> rank_step \<Rightarrow> u32 list" where
  "with_verdict env t now_ns rk ps v =
     filter (\<lambda>g. case map_of ps g of None \<Rightarrow> False | Some st \<Rightarrow> snd (hysteresis t now_ns (rank_or_last rk g) st) = v)
       (sv_iter env (map fst ps))"

definition hysteresis_states :: "TargetsTunables \<Rightarrow> u64 \<Rightarrow> (u32 \<times> u32) list \<Rightarrow> (u32 \<times> ProcState) list
    \<Rightarrow> (u32 \<times> ProcState) list" where
  "hysteresis_states t now_ns rk ps =
     map (\<lambda>(g, st). (g, fst (hysteresis t now_ns (rank_or_last rk g) st))) ps"

definition upd_state :: "u32 \<Rightarrow> (ProcState \<Rightarrow> ProcState) \<Rightarrow> (u32 \<times> ProcState) list \<Rightarrow> (u32 \<times> ProcState) list" where
  "upd_state g f ps = map (\<lambda>(h, st). if h = g then (h, f st) else (h, st)) ps"

definition leave_states :: "u32 list \<Rightarrow> (u32 \<times> ProcState) list \<Rightarrow> (u32 \<times> ProcState) list" where
  "leave_states gs ps = fold (\<lambda>g. upd_state g (\<lambda>st. st\<lparr>st_member := False, st_bad_streak := 0\<rparr>)) gs ps"

text \<open>Step 8: processes join by rank while the process budget lasts.\<close>

definition process_budget :: "u32 \<Rightarrow> u32 \<Rightarrow> u32" where
  "process_budget budget per_proc =
     (let b = budget div (if per_proc \<noteq> 0 then per_proc else 1) in if b < 1 then 1 else b)"

definition selected :: "ProcState \<Rightarrow> bool" where
  "selected st \<longleftrightarrow> st_member st \<or> st_pinned_proc st"

definition member_count :: "(u32 \<times> ProcState) list \<Rightarrow> u32" where
  "member_count ps = of_nat (length (filter (\<lambda>(g, st). selected st) ps))"

fun join_states :: "u64 \<Rightarrow> u32 \<Rightarrow> u32 list \<Rightarrow> u32 \<Rightarrow> (u32 \<times> ProcState) list \<Rightarrow> (u32 \<times> ProcState) list" where
  "join_states now_ns budget [] n ps = ps"
| "join_states now_ns budget (g # gs) n ps =
     (if n \<ge> budget then ps
      else join_states now_ns budget gs (n + 1)
             (upd_state g (\<lambda>st. st\<lparr>st_member := True, st_good_streak := 0, st_joined_ns := now_ns\<rparr>) ps))"

text \<open>
  Step 9: the wanted threads. A process takes its best threads as long as it has turns left and the
  budget holds; a thread that is wanted already costs a turn but no budget.
\<close>

fun pick_threads :: "u32 \<Rightarrow> nat \<Rightarrow> u32 list \<Rightarrow> u32 list \<Rightarrow> u32 list" where
  "pick_threads budget turns desired [] = desired"
| "pick_threads budget turns desired (t # ts) =
     (if turns = 0 then desired
      else if unat budget \<le> length desired \<and> t \<notin> set desired then desired
      else pick_threads budget (turns - 1) (List.insert t desired) ts)"

definition threads_of :: "sel_env \<Rightarrow> Config \<Rightarrow> eval_window \<Rightarrow> u32 \<Rightarrow> u32 list" where
  "threads_of env cfg ew g =
     sort_desc (thread_score env cfg ew) (filter (\<lambda>tid. tgid_of (ew_t2g ew) tid = g) (ew_tids ew))"

definition wanted :: "sel_env \<Rightarrow> Config \<Rightarrow> eval_window \<Rightarrow> u32 \<Rightarrow> u32 list \<Rightarrow> (u32 \<times> ProcState) list \<Rightarrow> u32 list" where
  "wanted env cfg ew budget pinned ps =
     fold (\<lambda>g desired. case map_of ps g of
             None \<Rightarrow> desired
           | Some st \<Rightarrow> if selected st
               then pick_threads budget (unat (tg_per_proc_threads (c_targets cfg))) desired (threads_of env cfg ew g)
               else desired)
       (sv_iter env (map fst ps)) pinned"

text \<open>
  The fallback: when nothing is wanted the best process becomes a member, whatever the hysteresis
  said.
\<close>

definition fallback :: "sel_env \<Rightarrow> Config \<Rightarrow> eval_window \<Rightarrow> u32 \<Rightarrow> u64 \<Rightarrow> (u32 \<times> double) list
    \<Rightarrow> u32 list \<times> (u32 \<times> ProcState) list \<Rightarrow> u32 list \<times> (u32 \<times> ProcState) list" where
  "fallback env cfg ew budget now_ns scored = (\<lambda>(desired, ps).
     case scored of
       [] \<Rightarrow> (desired, ps)
     | (best, _) # _ \<Rightarrow>
         (if desired \<noteq> [] then (desired, ps)
          else (pick_threads budget (unat (tg_per_proc_threads (c_targets cfg))) [] (threads_of env cfg ew best),
                upd_state best (\<lambda>st. st\<lparr>st_member := True, st_joined_ns := now_ns\<rparr>) ps)))"

text \<open>Step 10: the kernel's map and the events follow the difference.\<close>

definition rank_or_0 :: "(u32 \<times> u32) list \<Rightarrow> u32 \<Rightarrow> u32" where
  "rank_or_0 rk g = (case map_of rk g of None \<Rightarrow> 0 | Some r \<Rightarrow> r)"

definition apply_diff :: "sel_env \<Rightarrow> Config \<Rightarrow> eval_window \<Rightarrow> (u32 \<times> u32) list \<Rightarrow> u32 list \<Rightarrow> sel_world \<Rightarrow> bool \<times> sel_world" where
  "apply_diff env cfg ew rk desired w =
     (let cur = sl_members (sw_sel w);
          leaves = filter (\<lambda>t. t \<notin> set desired) (sv_iter env cur);
          joins = filter (\<lambda>t. t \<notin> set cur) (sv_iter env desired);
          g = tgid_of (ew_t2g ew);
          w1 = fold (\<lambda>t. Leave env t (rank_or_0 rk (g t))) leaves w;
          w2 = fold (\<lambda>t. Join env t (g t) (if t \<in> set (ew_tids ew) then thread_score env cfg ew t else 0)
                           (rank_or_0 rk (g t))) joins w1
      in (leaves \<noteq> [] \<or> joins \<noteq> [],
          w2\<lparr>sw_sel := (sw_sel w2)\<lparr>sl_members := desired, sl_procs := remdups (map g desired)\<rparr>\<rparr>))"

definition Evaluate :: "sel_env \<Rightarrow> Config \<Rightarrow> ProcessRow list \<Rightarrow> u64 \<Rightarrow> sel_world \<Rightarrow> bool \<times> sel_world" where
  "Evaluate env cfg table now_ns w =
     (let t = c_targets cfg; s = sw_sel w; budget = sl_thread_budget s; t2g = tid2tgid_of table;
          hist = slide (tg_window_seconds t * 1000000000) now_ns
                   (sl_history s @ [take_snapshot env (sw_ebpf w) table now_ns]);
          s1 = s\<lparr>sl_history := hist, sl_start_time := start_times table\<rparr>
      in if length hist < 2 then (False, w\<lparr>sw_sel := s1\<rparr>)
         else
           let ew = make_window env t2g (hd hist) (last hist);
               pacc = process_sums env ew;
               scored = scored_processes env cfg (ew_seconds ew) pacc;
               rk = ranks scored;
               p1 = ensure_states (sv_iter env (map fst pacc)) (sl_pstate s);
               leave_list = with_verdict env t now_ns rk p1 Leaves;
               join_list = sort_key (rank_or_0 rk) (with_verdict env t now_ns rk p1 Joins);
               p2 = leave_states leave_list (hysteresis_states t now_ns rk p1);
               p3 = join_states now_ns (process_budget budget (tg_per_proc_threads t)) join_list (member_count p2) p2;
               (desired, p4) = fallback env cfg ew budget now_ns scored
                                 (wanted env cfg ew budget (sl_pinned s) p3, p3)
           in apply_diff env cfg ew rk desired (w\<lparr>sw_sel := s1\<lparr>sl_pstate := p4\<rparr>\<rparr>))"

end
