(* ===== verification/SelectorProps.thy ===== *)
theory SelectorProps
  imports Selector
begin

text \<open>
  Properties of the target selector: the thread budget and the scores stay within their bounds,
  pinned threads are always wanted and the budget holds, the kernel's map follows the members, and
  a process joins only after enough consecutive good ranks.
\<close>

section \<open>Iteration orders\<close>

definition permutes :: "(u32 list \<Rightarrow> u32 list) \<Rightarrow> bool" where
  "permutes f \<longleftrightarrow> (\<forall>xs. mset (f xs) = mset xs)"

lemma permutes_set: "permutes f \<Longrightarrow> set (f xs) = set xs"
  unfolding permutes_def by (metis set_mset_mset)

lemma permutes_distinct: "permutes f \<Longrightarrow> distinct (f xs) \<longleftrightarrow> distinct xs"
  unfolding permutes_def by (metis mset_eq_imp_distinct_iff)

section \<open>The wanted threads\<close>

lemma pick_threads_keeps: "set desired \<subseteq> set (pick_threads b n desired ts)"
  by (induction b n desired ts rule: pick_threads.induct) (auto simp del: pick_threads.simps simp: pick_threads.simps)

lemma pick_threads_distinct: "distinct desired \<Longrightarrow> distinct (pick_threads b n desired ts)"
  by (induction b n desired ts rule: pick_threads.induct) (auto simp: distinct_insert)

lemma pick_threads_length: "length (pick_threads b n desired ts) \<le> max (unat b) (length desired)"
proof (induction b n desired ts rule: pick_threads.induct)
  case (2 b n desired t ts)
  show ?case
  proof (cases "n = 0 \<or> (unat b \<le> length desired \<and> t \<notin> set desired)")
    case False
    then have "length (List.insert t desired) \<le> max (unat b) (length desired)"
      by (auto simp: List.insert_def)
    with 2 False show ?thesis by auto
  qed auto
qed simp

definition wanted_ok :: "u32 \<Rightarrow> u32 list \<Rightarrow> u32 list \<Rightarrow> bool" where
  "wanted_ok budget pinned desired \<longleftrightarrow> distinct desired \<and> set pinned \<subseteq> set desired \<and>
     length desired \<le> max (unat budget) (length pinned)"

lemma wanted_ok_pick: "wanted_ok b pinned d \<Longrightarrow> wanted_ok b pinned (pick_threads b n d ts)"
  using pick_threads_keeps [of d b n ts] pick_threads_length [of b n d ts]
  by (auto simp: wanted_ok_def pick_threads_distinct)

lemma fold_preserves:
  assumes "\<And>x a. I a \<Longrightarrow> I (f x a)" and "I a"
  shows "I (fold f xs a)"
  using assms(2) by (induction xs arbitrary: a) (simp_all add: assms(1))

lemma wanted_ok_wanted: "distinct pinned \<Longrightarrow> wanted_ok b pinned (wanted env cfg ew b pinned ps)"
  unfolding wanted_def
  by (rule fold_preserves) (auto simp: wanted_ok_pick wanted_ok_def [of b pinned pinned] split: option.splits)

lemma wanted_ok_fallback:
  assumes "wanted_ok b pinned d"
  shows "wanted_ok b pinned (fst (fallback env cfg ew b now scored (d, ps)))"
proof (cases "d = []")
  case True
  with assms have "pinned = []" by (simp add: wanted_ok_def)
  then have "wanted_ok b pinned []" by (simp add: wanted_ok_def)
  with True wanted_ok_pick show ?thesis by (auto simp: fallback_def split: list.splits)
next
  case False
  with assms show ?thesis by (auto simp: fallback_def split: list.splits)
qed

section \<open>What an evaluation does to the world\<close>

text \<open>The members an evaluation wants, and the rest of its result.\<close>

lemma leave_fold:
  "sw_ebpf (fold (\<lambda>t. Leave env t (f t)) ls w) = fold (leave_kernel (sv_bpf env)) ls (sw_ebpf w) \<and>
   sw_sel (fold (\<lambda>t. Leave env t (f t)) ls w) = sw_sel w"
  by (induction ls arbitrary: w) (simp_all add: Leave_def)

lemma join_fold:
  "sw_ebpf (fold (\<lambda>t. Join env t (g t) (s t) (f t)) js w) =
     fold (\<lambda>t. join_kernel (sv_bpf env) (2, g t, ReadComm (sv_files env) t) t) js (sw_ebpf w) \<and>
   sw_sel (fold (\<lambda>t. Join env t (g t) (s t) (f t)) js w) = sw_sel w"
  by (induction js arbitrary: w) (simp_all add: Join_def)

definition leaving :: "sel_env \<Rightarrow> u32 list \<Rightarrow> u32 list \<Rightarrow> u32 list" where
  "leaving env cur desired = filter (\<lambda>t. t \<notin> set desired) (sv_iter env cur)"

definition joining :: "sel_env \<Rightarrow> u32 list \<Rightarrow> u32 list \<Rightarrow> u32 list" where
  "joining env cur desired = filter (\<lambda>t. t \<notin> set cur) (sv_iter env desired)"

lemma apply_diff_result:
  assumes "apply_diff env cfg ew rk desired w = (changed, w')"
  shows "sl_members (sw_sel w') = desired" and "sl_history (sw_sel w') = sl_history (sw_sel w)"
    and "sl_pinned (sw_sel w') = sl_pinned (sw_sel w)" and "sl_thread_budget (sw_sel w') = sl_thread_budget (sw_sel w)"
    and "changed \<longleftrightarrow> leaving env (sl_members (sw_sel w)) desired \<noteq> [] \<or> joining env (sl_members (sw_sel w)) desired \<noteq> []"
    and "\<exists>i. sw_ebpf w' = fold (\<lambda>t. join_kernel (sv_bpf env) (i t) t) (joining env (sl_members (sw_sel w)) desired)
           (fold (leave_kernel (sv_bpf env)) (leaving env (sl_members (sw_sel w)) desired) (sw_ebpf w))"
  using assms leave_fold join_fold
  by (auto simp: apply_diff_def Let_def leaving_def joining_def)

lemma changed_iff:
  assumes "permutes (sv_iter env)"
  shows "leaving env cur desired \<noteq> [] \<or> joining env cur desired \<noteq> [] \<longleftrightarrow> set desired \<noteq> set cur"
  using permutes_set [OF assms] by (auto simp: leaving_def joining_def filter_empty_conv)

lemma kernel_follows:
  assumes "permutes (sv_iter env)" and "targets_ready (sv_bpf env) e" and "target_tids e = set cur"
  shows "target_tids (fold (\<lambda>t. join_kernel (sv_bpf env) (i t) t) (joining env cur desired)
           (fold (leave_kernel (sv_bpf env)) (leaving env cur desired) e)) = set desired"
    and "targets_ready (sv_bpf env) (fold (\<lambda>t. join_kernel (sv_bpf env) (i t) t) (joining env cur desired)
           (fold (leave_kernel (sv_bpf env)) (leaving env cur desired) e))"
  using tm.members_adds [OF tm.ready_removes [OF assms(2)], of i "joining env cur desired" "leaving env cur desired"]
    tm.members_removes [OF assms(2), of "leaving env cur desired"] permutes_set [OF assms(1)] assms(3)
  by (auto simp: leaving_def joining_def)

text \<open>The world after the first steps: the window has moved and the states are those given.\<close>

definition new_history :: "sel_env \<Rightarrow> Config \<Rightarrow> ProcessRow list \<Rightarrow> u64 \<Rightarrow> sel_world \<Rightarrow> window_snap list" where
  "new_history env cfg table now w =
     slide (tg_window_seconds (c_targets cfg) * 1000000000) now
       (sl_history (sw_sel w) @ [take_snapshot env (sw_ebpf w) table now])"

definition windowed :: "window_snap list \<Rightarrow> ProcessRow list \<Rightarrow> (u32 \<times> ProcState) list \<Rightarrow> sel_world \<Rightarrow> sel_world" where
  "windowed hist table ps w =
     w\<lparr>sw_sel := (sw_sel w)\<lparr>sl_history := hist, sl_start_time := start_times table, sl_pstate := ps\<rparr>\<rparr>"

lemma windowed_simps [simp]:
  "sl_members (sw_sel (windowed hist table ps w)) = sl_members (sw_sel w)"
  "sl_pinned (sw_sel (windowed hist table ps w)) = sl_pinned (sw_sel w)"
  "sl_history (sw_sel (windowed hist table ps w)) = hist"
  "sw_ebpf (windowed hist table ps w) = sw_ebpf w"
  by (simp_all add: windowed_def)

text \<open>Either an evaluation only records its baseline, or it ends in the difference to what it wants.\<close>

lemma Evaluate_baseline:
  assumes "length (new_history env cfg table now w) < 2"
  shows "Evaluate env cfg table now w = (False, windowed (new_history env cfg table now w) table (sl_pstate (sw_sel w)) w)"
  using assms by (simp add: Evaluate_def windowed_def new_history_def Let_def)

lemma Evaluate_diff:
  assumes "distinct (sl_pinned (sw_sel w))" and "length (new_history env cfg table now w) \<ge> 2"
  obtains ew rk desired ps where
    "wanted_ok (sl_thread_budget (sw_sel w)) (sl_pinned (sw_sel w)) desired"
    "Evaluate env cfg table now w = apply_diff env cfg ew rk desired (windowed (new_history env cfg table now w) table ps w)"
proof -
  let ?budget = "sl_thread_budget (sw_sel w)" and ?pinned = "sl_pinned (sw_sel w)"
  define hist where "hist = new_history env cfg table now w"
  define ew where "ew = make_window env (tid2tgid_of table) (hd hist) (last hist)"
  define scored where "scored = scored_processes env cfg (ew_seconds ew) (process_sums env ew)"
  define p1 where "p1 = ensure_states (sv_iter env (map fst (process_sums env ew))) (sl_pstate (sw_sel w))"
  define p2 where "p2 = leave_states (with_verdict env (c_targets cfg) now (ranks scored) p1 Leaves)
      (hysteresis_states (c_targets cfg) now (ranks scored) p1)"
  define p3 where "p3 = join_states now (process_budget ?budget (tg_per_proc_threads (c_targets cfg)))
      (sort_key (rank_or_0 (ranks scored)) (with_verdict env (c_targets cfg) now (ranks scored) p1 Joins)) (member_count p2) p2"
  define fb where "fb = fallback env cfg ew ?budget now scored (wanted env cfg ew ?budget ?pinned p3, p3)"
  have "wanted_ok ?budget ?pinned (fst fb)"
    unfolding fb_def by (intro wanted_ok_fallback wanted_ok_wanted assms)
  moreover have "Evaluate env cfg table now w = apply_diff env cfg ew (ranks scored) (fst fb) (windowed hist table (snd fb) w)"
    using assms(2)
    by (simp add: Evaluate_def Let_def hist_def [symmetric] new_history_def [symmetric] ew_def [symmetric] scored_def [symmetric]
        p1_def [symmetric] p2_def [symmetric] p3_def [symmetric] fb_def [symmetric] split_def windowed_def)
  ultimately show thesis unfolding hist_def by (rule that)
qed

text \<open>What an evaluation leaves of the world, in both cases.\<close>

lemma Evaluate_result:
  assumes "permutes (sv_iter env)" and "distinct (sl_pinned (sw_sel w))"
    and "Evaluate env cfg table now w = (changed, w')" and "length (new_history env cfg table now w) \<ge> 2"
  shows "wanted_ok (sl_thread_budget (sw_sel w)) (sl_pinned (sw_sel w)) (sl_members (sw_sel w'))"
    and "sl_pinned (sw_sel w') = sl_pinned (sw_sel w)"
    and "changed \<longleftrightarrow> set (sl_members (sw_sel w')) \<noteq> set (sl_members (sw_sel w))"
    and "sl_history (sw_sel w') = new_history env cfg table now w"
    and "targets_ready (sv_bpf env) (sw_ebpf w) \<Longrightarrow> target_tids (sw_ebpf w) = set (sl_members (sw_sel w)) \<Longrightarrow>
      targets_ready (sv_bpf env) (sw_ebpf w') \<and> target_tids (sw_ebpf w') = set (sl_members (sw_sel w'))"
proof -
  obtain ew rk desired ps where ok: "wanted_ok (sl_thread_budget (sw_sel w)) (sl_pinned (sw_sel w)) desired"
    and d: "apply_diff env cfg ew rk desired (windowed (new_history env cfg table now w) table ps w) = (changed, w')"
    by (metis Evaluate_diff [OF assms(2,4)] assms(3))
  note res = apply_diff_result [OF d, unfolded windowed_simps]
  show "wanted_ok (sl_thread_budget (sw_sel w)) (sl_pinned (sw_sel w)) (sl_members (sw_sel w'))"
    using ok unfolding res(1) .
  show "sl_pinned (sw_sel w') = sl_pinned (sw_sel w)" by (rule res(3))
  show "changed \<longleftrightarrow> set (sl_members (sw_sel w')) \<noteq> set (sl_members (sw_sel w))"
    unfolding res(5) res(1) by (rule changed_iff [OF assms(1)])
  show "sl_history (sw_sel w') = new_history env cfg table now w" by (rule res(2))
  assume m: "targets_ready (sv_bpf env) (sw_ebpf w)" "target_tids (sw_ebpf w) = set (sl_members (sw_sel w))"
  obtain i where i: "sw_ebpf w' = fold (\<lambda>t. join_kernel (sv_bpf env) (i t) t) (joining env (sl_members (sw_sel w)) desired)
           (fold (leave_kernel (sv_bpf env)) (leaving env (sl_members (sw_sel w)) desired) (sw_ebpf w))"
    using res(6) by blast
  show "targets_ready (sv_bpf env) (sw_ebpf w') \<and> target_tids (sw_ebpf w') = set (sl_members (sw_sel w'))"
    unfolding i res(1) by (intro conjI kernel_follows [OF assms(1) m])
qed

section \<open>Properties of the membership\<close>

text \<open>The worlds a selector reaches from an empty one.\<close>

inductive sel_reach :: "sel_env \<Rightarrow> ebpf \<Rightarrow> sel_world \<Rightarrow> bool" for env :: sel_env and e :: ebpf where
  sel_start: "sel_reach env e \<lparr>sw_sel = TargetSelector0, sw_ebpf = e, sw_events = []\<rparr>"
| sel_pin: "sel_reach env e w \<Longrightarrow> sel_reach env e (ApplyPinned env cfg w)"
| sel_probe: "sel_reach env e w \<Longrightarrow> sel_reach env e (w\<lparr>sw_sel := Probe env cfg (sw_sel w)\<rparr>)"
| sel_eval: "sel_reach env e w \<Longrightarrow> sel_reach env e (snd (Evaluate env cfg table now w))"

definition members_inv :: "sel_env \<Rightarrow> sel_world \<Rightarrow> bool" where
  "members_inv env w \<longleftrightarrow> targets_ready (sv_bpf env) (sw_ebpf w) \<and> target_tids (sw_ebpf w) = set (sl_members (sw_sel w)) \<and>
     distinct (sl_members (sw_sel w)) \<and> distinct (sl_pinned (sw_sel w)) \<and> set (sl_pinned (sw_sel w)) \<subseteq> set (sl_members (sw_sel w))"

lemma members_inv_pin: "members_inv env w \<Longrightarrow> members_inv env (pin_one env tid w)"
  by (auto simp: members_inv_def pin_one_def Let_def tm.members_add tm.ready_add distinct_insert)

lemma members_inv_eval:
  assumes "permutes (sv_iter env)" and "members_inv env w"
  shows "members_inv env (snd (Evaluate env cfg table now w))"
proof (cases "length (new_history env cfg table now w) < 2")
  case True
  from Evaluate_baseline [OF this] assms(2) show ?thesis by (simp add: members_inv_def)
next
  case False
  obtain ch w' where ev: "Evaluate env cfg table now w = (ch, w')" by fastforce
  from assms(2) have m: "targets_ready (sv_bpf env) (sw_ebpf w)" "target_tids (sw_ebpf w) = set (sl_members (sw_sel w))"
    "distinct (sl_pinned (sw_sel w))" by (simp_all add: members_inv_def)
  note res = Evaluate_result [OF assms(1) m(3) ev False [unfolded not_less]]
  show ?thesis using res(1,2) res(5) [OF m(1,2)] m(3) by (simp add: members_inv_def wanted_ok_def ev)
qed


text \<open>A system without files, on which the containers are iterated in the order of the lists.\<close>

definition sel_env0 :: sel_env where
  "sel_env0 = \<lparr>sv_files = (\<lambda>_. None), sv_strtod = (\<lambda>_. 0), sv_online = 4, sv_ring_slots = None, sv_clk_tck = 100,
     sv_steady = 1, sv_slice = (\<lambda>_. MapSlice_make None 1), sv_iter = (\<lambda>xs. xs), sv_bpf = bpf_env0\<rparr>"

lemma permutes0: "permutes (sv_iter sel_env0)"
  by (simp add: permutes_def sel_env0_def)

definition pin7 :: Config where
  "pin7 = Config0\<lparr>c_targets := TargetsTunables0\<lparr>tg_pinned := [7]\<rparr>\<rparr>"

definition loaded0 :: ebpf where
  "loaded0 = ebpf0\<lparr>eb_skel := Loaded, eb_maps := be_maps bpf_env0\<rparr>"

lemma loaded0: "targets_ready bpf_env0 loaded0" "target_tids loaded0 = {}"
  by (simp_all add: targets_ready_def target_tids_def loaded0_def bpf_env0_def Map_def ebpf0_def tid_maps_def)

definition pinned_world :: sel_world where
  "pinned_world = ApplyPinned sel_env0 pin7 \<lparr>sw_sel = TargetSelector0, sw_ebpf = loaded0, sw_events = []\<rparr>"

lemma pinned_world: "sl_pinned (sw_sel pinned_world) = [7]" "sl_history (sw_sel pinned_world) = []"
  "sl_thread_budget (sw_sel pinned_world) = 16"
  by (simp_all add: pinned_world_def ApplyPinned_def pin_one_def pin7_def TargetSelector0_def Let_def)


text \<open>
  Claim C27: an evaluation that looks at a window leaves at most as many members as the thread
  budget allows, or as many as are pinned if that is more; it reports a change exactly when the
  set of members changed.
\<close>

theorem membership_bounded:
  assumes "permutes (sv_iter env)" and "distinct (sl_pinned (sw_sel w))"
    and "Evaluate env cfg table now w = (changed, w')"
  shows "(2 \<le> length (sl_history (sw_sel w')) \<longrightarrow>
       length (sl_members (sw_sel w')) \<le> max (unat (sl_thread_budget (sw_sel w))) (length (sl_pinned (sw_sel w)))) \<and>
     (changed \<longleftrightarrow> set (sl_members (sw_sel w')) \<noteq> set (sl_members (sw_sel w)))"
proof (cases "length (new_history env cfg table now w) < 2")
  case True
  from Evaluate_baseline [OF this] assms(3) True show ?thesis by auto
next
  case False
  note res = Evaluate_result [OF assms False [unfolded not_less]]
  from res(1,3) show ?thesis by (simp add: wanted_ok_def)
qed

lemma membership_bounded_witness:
  "length (sl_members (sw_sel (snd (Evaluate sel_env0 pin7 [] 5 (snd (Evaluate sel_env0 pin7 [] 4 pinned_world)))))) \<le> 16"
proof -
  define w1 where "w1 = snd (Evaluate sel_env0 pin7 [] 4 pinned_world)"
  obtain ch w2 where w2: "Evaluate sel_env0 pin7 [] 5 w1 = (ch, w2)" by fastforce
  have w1: "w1 = windowed (new_history sel_env0 pin7 [] 4 pinned_world) [] (sl_pstate (sw_sel pinned_world)) pinned_world"
    unfolding w1_def by (simp add: Evaluate_baseline new_history_def pinned_world)
  have l: "length (new_history sel_env0 pin7 [] 5 w1) = 2"
    by (simp add: w1 new_history_def pinned_world)
  have d: "distinct (sl_pinned (sw_sel w1))" and b: "sl_thread_budget (sw_sel w1) = 16" "sl_pinned (sw_sel w1) = [7]"
    by (simp_all add: w1 windowed_def pinned_world)
  have "sl_history (sw_sel w2) = new_history sel_env0 pin7 [] 5 w1"
    by (rule Evaluate_result(4) [OF permutes0 d w2]) (simp add: l)
  with membership_bounded [OF permutes0 d w2] l b have "length (sl_members (sw_sel w2)) \<le> 16" by simp
  then show ?thesis using w2 by (simp add: w1_def)
qed

section \<open>Budget and scores\<close>

lemma probe_budget:
  "sl_thread_budget (Probe env cfg s) = thread_budget cfg
      (effective_cpus (sv_online env) (ReadQuotaCpus env) (ReadCpusetCpus (sv_files env)))
      (case sv_ring_slots env of None \<Rightarrow> 32768 | Some n \<Rightarrow> n)"
  by (simp add: Probe_def Let_def)

lemma clamp_between:
  fixes b lo hi :: u32
  assumes "lo \<le> hi"
  shows "lo \<le> (let c = if b < lo then lo else b in if hi < c then hi else c) \<and>
    (let c = if b < lo then lo else b in if hi < c then hi else c) \<le> hi"
  using assms by (auto simp: Let_def)

text \<open>The samples a ring has to hold for the configured backlog.\<close>

definition by_ring_ticks :: "Config \<Rightarrow> u32" where
  "by_ring_ticks cfg =
     (let fine_ms = (if sm_fine_interval_ms (c_sample cfg) \<noteq> 0 then sm_fine_interval_ms (c_sample cfg) else 100);
          backlog_s = (if wn_ring_backlog_seconds (c_window cfg) \<noteq> 0 then wn_ring_backlog_seconds (c_window cfg) else 90);
          ticks = backlog_s * 1000 div fine_ms
      in if ticks \<noteq> 0 then ucast ticks else 1)"

text \<open>
  With any configuration the program can run with, the thread budget is positive and at most
  the configured maximum, and with automatic scaling at least the configured minimum, whatever the
  probe finds.
\<close>

theorem budget_within_config:
  "let cfg = Sanitize c; b = sl_thread_budget (Probe env cfg s)
   in 1 \<le> b \<and> b \<le> tg_max_targets (c_targets cfg) \<and>
      (if tg_auto_scale (c_targets cfg) then tg_min_targets (c_targets cfg) \<le> b else b = tg_max_targets (c_targets cfg))"
proof -
  let ?t = "c_targets (Sanitize c)"
  have "config_ok (Sanitize c)" by (rule config_san.san_ok)
  then have b: "1 \<le> tg_max_targets ?t" "1 \<le> tg_min_targets ?t" "tg_min_targets ?t \<le> tg_max_targets ?t"
    by (simp_all add: config_ok_def targets_ok_def)
  have nz: "x \<noteq> 0" if "1 \<le> x" for x :: u32 using that by auto
  define b1 where "b1 = (\<lambda>(eff :: u32) (ring :: u32). min (min (of_int \<lceil>of_nat (unat eff) * tg_concurrency_factor ?t\<rceil>)
      (ring div by_ring_ticks (Sanitize c))) (tg_max_targets ?t))"
  have T: "thread_budget (Sanitize c) eff ring =
      (let budget = if tg_auto_scale ?t
             then (let c = if b1 eff ring < tg_min_targets ?t then tg_min_targets ?t else b1 eff ring
                   in if tg_max_targets ?t < c then tg_max_targets ?t else c)
             else tg_max_targets ?t
       in if budget \<noteq> 0 then budget else 1)" for eff ring
    unfolding thread_budget_def b1_def by_ring_ticks_def Let_def by (rule refl)
  define d where "d = (\<lambda>eff ring. let x = if b1 eff ring < tg_min_targets ?t then tg_min_targets ?t else b1 eff ring
                   in if tg_max_targets ?t < x then tg_max_targets ?t else x)"
  have d: "tg_min_targets ?t \<le> d eff ring" "d eff ring \<le> tg_max_targets ?t" for eff ring
    using clamp_between [OF b(3)] by (simp_all add: d_def)
  then have d1: "1 \<le> d eff ring" for eff ring using b(2) order_trans by blast
  have T': "thread_budget (Sanitize c) eff ring =
      (let budget = if tg_auto_scale ?t then d eff ring else tg_max_targets ?t in if budget \<noteq> 0 then budget else 1)" for eff ring
    unfolding T d_def by (rule refl)
  have B: "thread_budget (Sanitize c) eff ring = (if tg_auto_scale ?t then d eff ring else tg_max_targets ?t)" for eff ring
    using nz [OF d1 [of eff ring]] nz [OF b(1)] by (simp add: T' Let_def)
  show ?thesis using b d d1 by (simp add: probe_budget B Let_def)
qed

lemma sat_bounds: "0 \<le> sat v \<and> sat v \<le> 1"
  by (simp add: sat_def)

text \<open>
  A score lies between 0 and the sum of the weights, for every configuration the program
  can run with and whatever the counters are.
\<close>

theorem score_bounded:
  "let w = tg_weights (c_targets (Sanitize c)); s = ComputeScore (Sanitize c) secs cpu sw ops bytes faults lock
   in 0 \<le> s \<and> s \<le> tw_cpu w + tw_swch w + tw_io w + tw_fault w + tw_lock w"
proof -
  let ?w = "tg_weights (c_targets (Sanitize c))"
  have "weights_ok ?w" using config_san.san_ok [of c] by (simp add: config_ok_def targets_ok_def)
  then have w: "0 \<le> tw_cpu ?w" "0 \<le> tw_swch ?w" "0 \<le> tw_io ?w" "0 \<le> tw_fault ?w" "0 \<le> tw_lock ?w"
    by (simp_all add: weights_ok_def)
  have m: "0 \<le> a * x \<and> a * x \<le> a" if "0 \<le> a" "0 \<le> x \<and> x \<le> 1" for a x :: double
    using that by (simp add: mult_left_le)
  have half: "0 \<le> (x + y) / 2 \<and> (x + y) / 2 \<le> 1" if "0 \<le> x \<and> x \<le> 1" "0 \<le> y \<and> y \<le> 1" for x y :: double
    using that by simp
  have cl: "0 \<le> (if u < 0 then 0 else if u > 1 then 1 else u) \<and> (if u < 0 then 0 else if u > 1 then 1 else u) \<le> 1" for u :: double
    by simp
  note parts = m [OF w(1) cl] m [OF w(2) sat_bounds] m [OF w(3) half [OF sat_bounds sat_bounds]]
    m [OF w(4) sat_bounds] m [OF w(5) sat_bounds]
  show ?thesis
    unfolding ComputeScore_def Let_def
    using parts(1) [of "u64d cpu / (secs * 1000000000)"] parts(2) [of "u64d sw / secs / 10000"]
      parts(3) [of "u64d ops / secs / 10000" "u64d bytes / secs / 1073741824"]
      parts(4) [of "u64d faults / secs / 10000"] parts(5) [of "u64d lock / secs / 1000"]
    by (intro conjI add_nonneg_nonneg add_mono) blast+
qed

section \<open>Hysteresis\<close>

text \<open>The state of a process that keeps its membership while its rank takes the given values.\<close>

fun hold_run :: "TargetsTunables \<Rightarrow> (u64 \<times> u32) list \<Rightarrow> ProcState \<Rightarrow> ProcState" where
  "hold_run t [] st = st"
| "hold_run t ((now, r) # xs) st = hold_run t xs (fst (hysteresis t now r st))"

lemma hold_run_snoc: "hold_run t (xs @ [(now, r)]) st = fst (hysteresis t now r (hold_run t xs st))"
  by (induction t xs st rule: hold_run.induct) simp_all

definition good_tail :: "TargetsTunables \<Rightarrow> (u64 \<times> u32) list \<Rightarrow> nat" where
  "good_tail t xs = length (takeWhile (\<lambda>(now, r). r \<le> tg_enter_rank t) (rev xs))"

lemma hold_run_streak:
  assumes "\<not> st_member st" and "\<not> st_pinned_proc st" and "st_good_streak st = 0"
  shows "\<not> st_member (hold_run t xs st) \<and> \<not> st_pinned_proc (hold_run t xs st) \<and>
    st_good_streak (hold_run t xs st) = of_nat (good_tail t xs)"
proof (induction xs rule: rev_induct)
  case Nil
  with assms show ?case by (simp add: good_tail_def)
next
  case (snoc x xs)
  obtain now r where x: "x = (now, r)" by (cases x)
  from snoc show ?case
    by (simp add: x hold_run_snoc hysteresis_def Let_def good_tail_def)
qed

lemma takeWhile_length_ge:
  "n \<le> length (takeWhile P xs) \<longleftrightarrow> n \<le> length xs \<and> list_all P (take n xs)"
proof (induction xs arbitrary: n)
  case (Cons x xs)
  then show ?case by (cases n) auto
qed auto

text \<open>
  A process that is no member is proposed for joining exactly when its last ranks, as many
  as the hold periods, were all within the enter rank: one bad rank starts the count again.
\<close>

theorem join_after_consecutive_good_ranks:
  assumes "\<not> st_member st" and "\<not> st_pinned_proc st" and "st_good_streak st = 0" and "length xs < 2 ^ 32 - 1"
  shows "snd (hysteresis t now r (hold_run t xs st)) = Joins \<longleftrightarrow>
    (let ys = xs @ [(now, r)]; n = unat (tg_hold_periods t)
     in n \<le> length ys \<and> list_all (\<lambda>(now, r). r \<le> tg_enter_rank t) (drop (length ys - n) ys))"
proof -
  let ?ys = "xs @ [(now, r)]" and ?n = "unat (tg_hold_periods t)"
  note s = hold_run_streak [OF assms(1-3), of t ?ys] hold_run_streak [OF assms(1-3), of t xs]
  have "good_tail t ?ys \<le> length ?ys" unfolding good_tail_def by (metis length_rev length_takeWhile_le)
  then have "good_tail t ?ys < 2 ^ 32" using assms(4) by simp
  then have u: "unat (of_nat (good_tail t ?ys) :: u32) = good_tail t ?ys" by (simp add: unat_of_nat take_bit_nat_eq_self)
  have "snd (hysteresis t now r (hold_run t xs st)) = Joins \<longleftrightarrow>
      st_good_streak (hold_run t ?ys st) \<ge> tg_hold_periods t"
    using s(2) by (simp add: hysteresis_def hold_run_snoc Let_def)
  also have "\<dots> \<longleftrightarrow> ?n \<le> good_tail t ?ys" using s(1) u by (simp add: word_le_nat_alt)
  also have "\<dots> \<longleftrightarrow> ?n \<le> length (rev ?ys) \<and> list_all (\<lambda>(now, r). r \<le> tg_enter_rank t) (take ?n (rev ?ys))"
    unfolding good_tail_def by (rule takeWhile_length_ge)
  also have "take ?n (rev ?ys) = rev (drop (length ?ys - ?n) ?ys)" by (rule take_rev)
  finally show ?thesis by (simp only: Let_def list_all_rev length_rev)
qed


lemma join_after_consecutive_good_ranks_witness:
  "snd (hysteresis TargetsTunables0 9 3 (hold_run TargetsTunables0 [(1, 2), (2, 500), (3, 1), (4, 5)] (ProcState0 4))) = Joins"
  using join_after_consecutive_good_ranks [of "ProcState0 4" "[(1, 2), (2, 500), (3, 1), (4, 5)]" TargetsTunables0 9 3]
  by (simp add: ProcState0_def TargetsTunables0_def)

end
