(* ===== verification/HostProps.thy ===== *)
theory HostProps
  imports Host
begin

text \<open>
  Properties of the host metrics: searching keys in \<^verbatim>\<open>/proc/vmstat\<close> and in key-value files,
  pressure files, and the presence bits of disk rows.
\<close>

section \<open>Lines\<close>

lemma getlines_aux_line: "CHR 0x0A \<notin> set l \<Longrightarrow>
  getlines_aux acc (l @ CHR 0x0A # t) = (rev acc @ l) # getlines_aux [] t"
  by (induction l arbitrary: acc) auto

lemma getlines_line: "CHR 0x0A \<notin> set l \<Longrightarrow> getlines (l @ CHR 0x0A # t) = l # getlines t"
  by (simp add: getlines_def getlines_aux_line)

lemma getlines_nil [simp]: "getlines [] = []"
  by (simp add: getlines_def)

lemma starts_with_fits:
  "starts_with key (l @ CHR 0x0A # t) \<Longrightarrow> CHR 0x0A \<notin> set key \<Longrightarrow> length key \<le> length l \<and> starts_with key l"
proof (induction key arbitrary: l)
  case (Cons k key)
  then show ?case by (cases l) auto
qed simp

section \<open>Searching a key at the start of a line\<close>

lemma vmstat_rest_of_line:
  assumes "CHR 0x0A \<notin> set l" and "c \<noteq> CHR 0x0A" and "skip \<le> length l" and "CHR 0x0A \<notin> set key" and "key \<noteq> []"
  shows "vmstat_scan key skip (Some c) (l @ CHR 0x0A # t) = vmstat_scan key 0 (Some CHR 0x0A) t"
  using assms
proof (induction l arbitrary: skip c)
  case Nil
  then show ?case by (cases key) auto
next
  case (Cons x l)
  have x: "x \<noteq> CHR 0x0A" using Cons.prems(1) by auto
  show ?case
  proof (cases "skip > 0")
    case True
    with Cons x show ?thesis by simp
  next
    case False
    show ?thesis
    proof (cases "starts_with key ((x # l) @ CHR 0x0A # t)")
      case True
      from starts_with_fits [OF this Cons.prems(4)] have "length key \<le> Suc (length l)" by simp
      then have "length key - 1 \<le> length l" by arith
      with True False Cons x show ?thesis by (simp add: line_start_def)
    next
      case False
      with \<open>\<not> skip > 0\<close> Cons x show ?thesis by simp
    qed
  qed
qed

lemma vmstat_other_line:
  assumes "CHR 0x0A \<notin> set l" and "\<not> starts_with key l" and "CHR 0x0A \<notin> set key" and "key \<noteq> []"
  shows "vmstat_scan key 0 prev (l @ CHR 0x0A # t) = vmstat_scan key 0 (Some CHR 0x0A) t"
proof -
  have n: "\<not> starts_with key (l @ CHR 0x0A # t)" using starts_with_fits assms(2,3) by blast
  show ?thesis
  proof (cases l)
    case Nil
    with n show ?thesis by simp
  next
    case (Cons x l')
    moreover from this have "x \<noteq> CHR 0x0A" using assms(1) by auto
    ultimately show ?thesis using n vmstat_rest_of_line [of l' x 0 key t] assms by simp
  qed
qed

lemma vmstat_other_lines:
  assumes "list_all (\<lambda>l. CHR 0x0A \<notin> set l \<and> \<not> starts_with key l) ls" and "CHR 0x0A \<notin> set key" and "key \<noteq> []"
    and "line_start prev"
  shows "\<exists>prev'. line_start prev' \<and>
    vmstat_scan key 0 prev (concat (map (\<lambda>l. l @ [CHR 0x0A]) ls) @ t) = vmstat_scan key 0 prev' t"
  using assms
proof (induction ls arbitrary: prev)
  case (Cons l ls)
  have "line_start (Some CHR 0x0A)" by (simp add: line_start_def)
  with Cons.IH Cons.prems vmstat_other_line [of l key prev "concat (map (\<lambda>l. l @ [CHR 0x0A]) ls) @ t"]
  show ?case by simp
qed auto

lemma scan_lld_printed:
  assumes "n < 2 ^ 63" and "t = [] \<or> \<not> is_digit (hd t)"
  shows "scan_lld (CHR '' '' # show_nat n @ t) = Some (int n)"
proof -
  obtain c r where cr: "show_nat n = c # r" "is_digit c" using show_nat_hd by blast
  have d: "dropWhile is_space (show_nat n @ t) = show_nat n @ t" and sp: "is_space CHR '' ''"
    using cr is_digit_not_space by (simp_all add: is_space_def)
  have g: "strtoull_sign (show_nat n @ t) = (False, show_nat n @ t)"
    using cr is_digit_not_sign [OF cr(2)] by (simp add: strtoull_sign_def)
  have w: "takeWhile is_digit (show_nat n @ t) = show_nat n"
    using show_nat_digits [of n] assms(2) by (cases t; auto simp: list_all_iff takeWhile_append)
  have "int n < 2 ^ 63" using assms(1) by simp
  then show ?thesis by (simp add: scan_lld_def sp d g w)
qed

text \<open>
  A counter of \<^verbatim>\<open>/proc/vmstat\<close> is read from its own line: with complete lines before it none
  of which starts with the key, the value behind the key at the start of the next line is found, even
  where the key occurs inside other lines.
\<close>

theorem vmstat_own_line:
  assumes "list_all (\<lambda>l. CHR 0x0A \<notin> set l \<and> \<not> starts_with key l) ls" and "CHR 0x0A \<notin> set key" and "key \<noteq> []"
    and "n < 2 ^ 63" and "t = [] \<or> \<not> is_digit (hd t)"
  shows "VmstatValue (concat (map (\<lambda>l. l @ [CHR 0x0A]) ls) @ key @ '' '' @ show_nat n @ t) key = Some (int n)"
proof -
  let ?rest = "key @ CHR '' '' # show_nat n @ t"
  have "line_start None" by (simp add: line_start_def)
  from vmstat_other_lines [OF assms(1-3) this, of ?rest] obtain prev where
    p: "line_start prev" "VmstatValue (concat (map (\<lambda>l. l @ [CHR 0x0A]) ls) @ ?rest) key = vmstat_scan key 0 prev ?rest"
    by (auto simp: VmstatValue_def)
  obtain k ks where k: "key = k # ks" using assms(3) by (cases key) auto
  have "starts_with key ?rest" by simp
  then have "vmstat_scan key 0 prev ?rest = Some (int n)"
    using p(1) scan_lld_printed [OF assms(4,5)] by (simp add: k)
  with p(2) show ?thesis by simp
qed

theorem vmstat_own_line_witness:
  "VmstatValue (''xpgfault 1'' @ [CHR 0x0A] @ ''pgfault 27'' @ [CHR 0x0A]) ''pgfault'' = Some 27"
proof -
  have "list_all (\<lambda>l. CHR 0x0A \<notin> set l \<and> \<not> starts_with ''pgfault'' l) [''xpgfault 1'']"
    "CHR 0x0A \<notin> set ''pgfault''" "''pgfault'' \<noteq> ([] :: string)" "(27 :: nat) < 2 ^ 63"
    "[CHR 0x0A] = ([] :: string) \<or> \<not> is_digit (hd [CHR 0x0A])" by (simp_all add: is_digit_def)
  from vmstat_own_line [OF this] have "VmstatValue (''xpgfault 1'' @ [CHR 0x0A] @ ''pgfault '' @ show_nat 27 @ [CHR 0x0A]) ''pgfault'' = Some 27"
    by simp
  moreover have "show_nat 27 = ''27''" by code_simp
  ultimately show ?thesis by simp
qed

text \<open>
  In a pressure file the averages of the \<^verbatim>\<open>full\<close> line replace those of the \<^verbatim>\<open>some\<close> line, while
  the flags say that both are valid: the averages of the first line are lost.
\<close>

theorem psi_full_line_wins:
  assumes "CHR 0x0A \<notin> set a" and "CHR 0x0A \<notin> set b"
  shows "ParsePsi lf ((''some '' @ a) @ [CHR 0x0A] @ (''full '' @ b) @ [CHR 0x0A]) =
    \<lparr>pw_avg10 = read_key lf (''full '' @ b) ''avg10='', pw_avg60 = read_key lf (''full '' @ b) ''avg60='',
     pw_avg300 = read_key lf (''full '' @ b) ''avg300='', pw_some_valid = True, pw_full_valid = True\<rparr>"
proof -
  have "getlines ((''some '' @ a) @ [CHR 0x0A] @ (''full '' @ b) @ [CHR 0x0A]) = [''some '' @ a, ''full '' @ b]"
    using getlines_line [of "''some '' @ a" "(''full '' @ b) @ [CHR 0x0A]"] getlines_line [of "''full '' @ b" "[]"] assms
    by simp
  then show ?thesis by (simp add: ParsePsi_def psi_line_def psi_averages_def PsiWindow0_def)
qed

theorem psi_full_line_wins_witness:
  "pw_avg10 (ParsePsi (\<lambda>s. if starts_with ''7'' s then Some (7, []) else Some (1, []))
     (''some avg10=7'' @ [CHR 0x0A] @ ''full avg10=1'' @ [CHR 0x0A])) = 1"
proof -
  have "CHR 0x0A \<notin> set ''avg10=7''" "CHR 0x0A \<notin> set ''avg10=1''" by simp_all
  from psi_full_line_wins [OF this, of "\<lambda>s. if starts_with ''7'' s then Some (7, []) else Some (1, [])"]
  show ?thesis by (simp add: read_key_def)
qed

section \<open>Key-value files\<close>

lemma first_word_scan:
  assumes "w \<noteq> []" "list_all (\<lambda>c. \<not> is_space c) w" "is_space d" "length w \<le> n"
  shows "scan_word n (w @ d # t) = Some (w, d # t)"
proof -
  have "dropWhile is_space (w @ d # t) = w @ d # t" using assms(1,2) by (cases w) auto
  moreover have "takeWhile (\<lambda>c. \<not> is_space c) (w @ d # t) = w"
    using assms(2,3) by (auto simp: list_all_iff takeWhile_append)
  ultimately show ?thesis using assms(1,4) by (cases w) (simp_all add: scan_word_def Let_def)
qed

lemma scan_word_space: "is_space c \<Longrightarrow> n \<noteq> 0 \<Longrightarrow> scan_word n (c # s) = scan_word n s"
  by (simp add: scan_word_def)

lemma scan_word_more:
  "length s \<le> n \<Longrightarrow> scan_word n s = scan_word (length s) s"
proof -
  assume n: "length s \<le> n"
  have "length (takeWhile (\<lambda>c. \<not> is_space c) (dropWhile is_space s)) \<le> length s"
    by (meson length_dropWhile_le length_takeWhile_le order_trans)
  with n show ?thesis by (auto simp: scan_word_def Let_def)
qed

lemma ReadStatU64_space: "is_space c \<Longrightarrow> ReadStatU64 (c # s) key = ReadStatU64 s key"
  using scan_word_more [of s "Suc (length s)"]
  by (subst (1 2) ReadStatU64.simps) (simp add: scan_word_space)

lemma scan_u64_printed:
  assumes "t = [] \<or> \<not> is_digit (hd t)"
  shows "scan_u64 (CHR '' '' # show_nat (unat v) @ t) = (True, v, t)"
proof -
  obtain c r where cr: "show_nat (unat v) = c # r" "is_digit c" using show_nat_hd by blast
  have d: "dropWhile is_space (show_nat (unat v) @ t) = show_nat (unat v) @ t" and sp: "is_space CHR '' ''"
    using cr is_digit_not_space by (simp_all add: is_space_def)
  have g: "strtoull_sign (show_nat (unat v) @ t) = (False, show_nat (unat v) @ t)"
    using cr is_digit_not_sign [OF cr(2)] by (simp add: strtoull_sign_def)
  have w: "takeWhile is_digit (show_nat (unat v) @ t) = show_nat (unat v)" "dropWhile is_digit (show_nat (unat v) @ t) = t"
    using show_nat_digits [of "unat v"] assms by (cases t; auto simp: list_all_iff takeWhile_append dropWhile_append)+
  have "unat v \<le> 2 ^ 64 - 1" using unsigned_less [of v, where ?'a = nat] by simp
  then show ?thesis by (simp add: scan_u64_def scan_num_def sp d g w)
qed

definition stat_text :: "(string \<times> u64) list \<Rightarrow> string" where
  "stat_text kvs = concat (map (\<lambda>(k, v). k @ '' '' @ show_nat (unat v) @ [CHR 0x0A]) kvs)"

definition key_word :: "string \<Rightarrow> bool" where
  "key_word k \<longleftrightarrow> k \<noteq> [] \<and> list_all (\<lambda>c. \<not> is_space c) k \<and> \<not> list_all is_digit k"

lemma ReadStatU64_Cons:
  assumes "key_word k" and "key_word key"
  shows "ReadStatU64 (k @ '' '' @ show_nat (unat v) @ [CHR 0x0A] @ t) key =
    (if k = key then Some v else ReadStatU64 t key)"
proof -
  let ?n = "show_nat (unat v)" and ?t = "CHR 0x0A # t"
  have sp: "is_space CHR '' ''" "is_space CHR 0x0A" "\<not> is_digit CHR 0x0A" by (simp_all add: is_space_def is_digit_def)
  have k: "k \<noteq> []" "list_all (\<lambda>c. \<not> is_space c) k" using assms(1) by (simp_all add: key_word_def)
  have w1: "scan_word (length (k @ CHR '' '' # ?n @ ?t)) (k @ CHR '' '' # ?n @ ?t) = Some (k, CHR '' '' # ?n @ ?t)"
    by (rule first_word_scan [OF k sp(1)]) simp
  have n: "?n \<noteq> []" "list_all (\<lambda>c. \<not> is_space c) ?n"
    using show_nat_digits [of "unat v"] is_digit_not_space by (auto simp: list_all_iff)
  have w2: "scan_word (length (?n @ ?t)) (?n @ ?t) = Some (?n, ?t)"
    by (rule first_word_scan [OF n sp(2)]) simp
  have "?n \<noteq> key" using show_nat_digits [of "unat v"] assms(2) by (auto simp: key_word_def)
  then have skip: "ReadStatU64 (?n @ ?t) key = ReadStatU64 t key"
    using w2 by (subst ReadStatU64.simps) (simp add: ReadStatU64_space sp(2))
  show ?thesis
  proof (cases "k = key")
    case True
    have "scan_u64 (CHR '' '' # ?n @ ?t) = (True, v, ?t)" by (rule scan_u64_printed) (simp add: sp(3))
    with True w1 show ?thesis by (subst ReadStatU64.simps) simp
  next
    case False
    with w1 show ?thesis by (subst ReadStatU64.simps) (simp add: ReadStatU64_space sp(1) skip)
  qed
qed

text \<open>
  Reading a key from a key-value file is a lookup: on the text of any list of pairs whose
  keys are words, the value found is the one of the first pair with that key, and nothing is found
  exactly when no pair has it.
\<close>

theorem stat_file_lookup:
  assumes "list_all key_word (map fst kvs)" and "key_word key"
  shows "ReadStatU64 (stat_text kvs) key = map_of kvs key"
  using assms
proof (induction kvs)
  case Nil
  have "scan_word 0 [] = None" by (simp add: scan_word_def)
  then show ?case by (subst ReadStatU64.simps) (simp add: stat_text_def)
next
  case (Cons kv kvs)
  obtain k v where kv: "kv = (k, v)" by (cases kv)
  have "stat_text ((k, v) # kvs) = k @ '' '' @ show_nat (unat v) @ [CHR 0x0A] @ stat_text kvs"
    by (simp add: stat_text_def)
  with ReadStatU64_Cons [of k key v "stat_text kvs"] Cons kv show ?case by simp
qed

theorem stat_file_lookup_witness:
  "ReadStatU64 (stat_text [(''oom'', 3), (''oom_kill'', 5)]) ''oom_kill'' = Some 5"
proof -
  have "list_all key_word (map fst [(''oom'', 3 :: u64), (''oom_kill'', 5)])" "key_word ''oom_kill''"
    by (simp_all add: key_word_def is_space_def is_digit_def)
  from stat_file_lookup [OF this] show ?thesis by simp
qed

section \<open>Presence bits\<close>

lemma set_mask_next: "set_mask n (mask n) = (mask (Suc n) :: u32)"
  by (simp add: set_mask_def mask_Suc_exp push_bit_eq_mult or.commute)

definition keeps_mask :: "(u64 \<Rightarrow> DiskStatRow \<Rightarrow> DiskStatRow) \<Rightarrow> bool" where
  "keeps_mask put \<longleftrightarrow> (\<forall>v d. ds_valid_mask (put v d) = ds_valid_mask d)"

lemma disk_mask:
  assumes "list_all keeps_mask fs" and "ds_valid_mask d = mask n" and "length xs \<le> length fs"
    and "ys = [] \<or> (\<exists>v. ys = [(False, v)])"
  shows "ds_valid_mask (fold (\<lambda>(b, (ok, v), put) d. if ok then ds_valid_mask_update (set_mask b) (put v d) else put v d)
     (enumerate n (zip (map (Pair True) xs @ ys) fs)) d) = mask (n + length xs)"
  using assms
proof (induction xs arbitrary: fs n d)
  case Nil
  then show ?case by (cases fs) (auto simp: keeps_mask_def)
next
  case (Cons x xs)
  obtain f fs' where fs: "fs = f # fs'" using Cons.prems(3) by (cases fs) auto
  have m: "ds_valid_mask (ds_valid_mask_update (set_mask n) (f x d)) = mask (Suc n)"
    using Cons.prems(1,2) by (simp add: fs keeps_mask_def set_mask_next)
  from Cons.IH [of fs' "ds_valid_mask_update (set_mask n) (f x d)" "Suc n"] m Cons.prems fs
  show ?case by simp
qed

lemma scan_prefix_shape:
  "\<exists>xs ys. scan_prefix n r = map (Pair True) xs @ ys \<and> length xs \<le> n \<and> (ys = [] \<or> (\<exists>v. ys = [(False, v)]))"
proof (induction n arbitrary: r)
  case (Suc n)
  obtain ok v r' where s: "scan_u64 r = (ok, v, r')" by (cases "scan_u64 r")
  show ?case
  proof (cases ok)
    case True
    from Suc.IH [of r'] obtain xs ys where
      "scan_prefix n r' = map (Pair True) xs @ ys" "length xs \<le> n" "ys = [] \<or> (\<exists>v. ys = [(False, v)])" by blast
    with s True show ?thesis by (intro exI [of _ "v # xs"] exI [of _ ys]) simp
  next
    case False
    with s show ?thesis by (intro exI [of _ "[]"] exI [of _ "[(False, v)]"]) simp
  qed
qed simp

lemma disk_fields_keep: "list_all keeps_mask disk_fields"
  by (simp add: disk_fields_def keeps_mask_def)

text \<open>
  The presence bits of a disk row are the fields that could be read, from the first on: a
  row with \<open>k\<close> readable values has exactly the bits \<open>0, ..., k - 1\<close>, whatever follows on the line.
\<close>

theorem disk_presence_bits:
  "ds_valid_mask (disk_row major minor name (scan_prefix 11 r)) = mask (length (filter fst (scan_prefix 11 r)))"
proof -
  obtain xs ys where sh: "scan_prefix 11 r = map (Pair True) xs @ ys" "length xs \<le> 11" "ys = [] \<or> (\<exists>v. ys = [(False, v)])"
    using scan_prefix_shape by blast
  have "length (filter fst (map (Pair True) xs)) = length xs" by (induction xs) simp_all
  then have "length (filter fst (scan_prefix 11 r)) = length xs" using sh(1,3) by auto
  moreover have "length xs \<le> length disk_fields" using sh(2) by (simp add: disk_fields_def)
  moreover have "ds_valid_mask (DiskStatRow0\<lparr>ds_major := major, ds_minor := minor, ds_name := snprintf 32 name\<rparr>) = mask 0"
    by (simp add: DiskStatRow0_def)
  ultimately show ?thesis
    using disk_mask [OF disk_fields_keep _ _ sh(3), of _ 0 xs] by (simp add: disk_row_def sh(1))
qed

end
