(* ===== verification/Ws.thy ===== *)
theory Ws
  imports MapReader
begin

unbundle bit_operations_syntax

text \<open>
  The WebSocket client of the model services, \<^verbatim>\<open>src/model/ws_client.cpp\<close>: connecting with the
  upgrade handshake, writing masked text frames, reading frames, and the receive loop that answers
  pings. A connection is what the socket calls give: the segments \<^verbatim>\<open>recv\<close> hands over, in order (an
  empty segment is a time-out, an error or the end), and the sizes \<^verbatim>\<open>send\<close> accepts (zero is an
  error; when the list is used up everything is accepted).
\<close>

section \<open>The socket\<close>

record ws_sock =
  wk_open :: bool
  wk_mask :: u32
  wk_rx :: "bytes list"
  wk_tx :: "nat list"
  wk_sent :: bytes

definition WsClose :: "ws_sock \<Rightarrow> ws_sock" where
  "WsClose s = s\<lparr>wk_open := False\<rparr>"

text \<open>\<^verbatim>\<open>ReadExact\<close>: calls \<^verbatim>\<open>recv\<close> until the buffer is full.\<close>

fun read_exact :: "nat \<Rightarrow> bytes list \<Rightarrow> bytes option \<times> bytes list" where
  "read_exact n [] = (if n = 0 then Some [] else None, [])"
| "read_exact n (seg # rx) =
     (if n = 0 then (Some [], seg # rx)
      else if seg = [] then (None, rx)
      else if n < length seg then (Some (take n seg), drop n seg # rx)
      else case read_exact (n - length seg) rx of
             (None, rx') \<Rightarrow> (None, rx')
           | (Some bs, rx') \<Rightarrow> (Some (seg @ bs), rx'))"

definition ReadExact :: "nat \<Rightarrow> ws_sock \<Rightarrow> bytes option \<times> ws_sock" where
  "ReadExact n s = (case read_exact n (wk_rx s) of (r, rx) \<Rightarrow> (r, s\<lparr>wk_rx := rx\<rparr>))"

text \<open>The loop around \<^verbatim>\<open>send\<close>: whether all was sent, what was sent, what the socket does next.\<close>

fun send_all :: "bytes \<Rightarrow> nat list \<Rightarrow> bool \<times> bytes \<times> nat list" where
  "send_all fr [] = (True, fr, [])"
| "send_all fr (k # tx) =
     (if fr = [] then (True, [], k # tx)
      else if k = 0 then (False, [], tx)
      else case send_all (drop k fr) tx of (ok, out, tx') \<Rightarrow> (ok, take k fr @ out, tx'))"

definition SendAll :: "bytes \<Rightarrow> ws_sock \<Rightarrow> bool \<times> ws_sock" where
  "SendAll fr s =
     (case send_all fr (wk_tx s) of (ok, out, tx) \<Rightarrow> (ok, s\<lparr>wk_tx := tx, wk_sent := wk_sent s @ out\<rparr>))"

section \<open>Base64\<close>

definition b64_table :: string where
  "b64_table = ''ABCDEFGHIJKLMNOPQRSTUVWXYZabcdefghijklmnopqrstuvwxyz0123456789+/''"

definition b64_char :: "u32 \<Rightarrow> char" where
  "b64_char v = b64_table ! unat (v AND 63)"

fun Base64 :: "bytes \<Rightarrow> string" where
  "Base64 [] = []"
| "Base64 [a] =
     (let n = push_bit 16 (ucast a) :: u32
      in [b64_char (drop_bit 18 n), b64_char (drop_bit 12 n), CHR ''='', CHR ''=''])"
| "Base64 [a, b] =
     (let n = push_bit 16 (ucast a) OR push_bit 8 (ucast b) :: u32
      in [b64_char (drop_bit 18 n), b64_char (drop_bit 12 n), b64_char (drop_bit 6 n), CHR ''=''])"
| "Base64 (a # b # c # ds) =
     (let n = push_bit 16 (ucast a) OR push_bit 8 (ucast b) OR ucast c :: u32
      in [b64_char (drop_bit 18 n), b64_char (drop_bit 12 n), b64_char (drop_bit 6 n), b64_char n] @ Base64 ds)"

section \<open>Connecting\<close>

text \<open>The host, the port and the path of a \<^verbatim>\<open>ws://\<close> address.\<close>

definition rfind_char :: "char \<Rightarrow> string \<Rightarrow> nat option" where
  "rfind_char c s = map_option (\<lambda>i. length s - 1 - i) (find_char c (rev s))"

definition parse_url :: "string \<Rightarrow> (string \<times> string \<times> string) option" where
  "parse_url url =
     (if \<not> starts_with ''ws://'' url then None
      else
        let rest = drop 5 url;
            (path, auth) = (case find_char CHR ''/'' rest of
                              None \<Rightarrow> (''/'', rest) | Some i \<Rightarrow> (drop i rest, take i rest));
            (host, port) = (case rfind_char CHR '':'' auth of
                              None \<Rightarrow> (auth, ''80'') | Some i \<Rightarrow> (take i auth, drop (i + 1) auth))
        in Some (host, port, path))"

definition crlf :: string where
  "crlf = [CHR 0x0D, CHR 0x0A]"

definition upgrade_request :: "string \<Rightarrow> string \<Rightarrow> string \<Rightarrow> bytes \<Rightarrow> string" where
  "upgrade_request host port path keybytes =
     ''GET '' @ path @ '' HTTP/1.1'' @ crlf @ ''Host: '' @ host @ '':'' @ port @ crlf @
     ''Upgrade: websocket'' @ crlf @ ''Connection: Upgrade'' @ crlf @
     ''Sec-WebSocket-Key: '' @ Base64 keybytes @ crlf @ ''Sec-WebSocket-Version: 13'' @ crlf @ crlf"

definition text_bytes :: "string \<Rightarrow> bytes" where
  "text_bytes s = map (\<lambda>c. of_nat (of_char c)) s"

definition bytes_text :: "bytes \<Rightarrow> string" where
  "bytes_text bs = map (\<lambda>b. char_of (unat b)) bs"

text \<open>
  The answer is read one byte at a time until the empty line, at most 16384 bytes; the value is the
  header with its empty line, or nothing when reading fails or the limit is reached.
\<close>

fun ends_header :: "string \<Rightarrow> bool" where
  "ends_header (d # c # b # a # _) = (a = CHR 0x0D \<and> b = CHR 0x0A \<and> c = CHR 0x0D \<and> d = CHR 0x0A)"
| "ends_header _ = False"

fun read_header :: "nat \<Rightarrow> string \<Rightarrow> bytes list \<Rightarrow> string option \<times> bytes list" where
  "read_header 0 acc rx = (None, rx)"
| "read_header (Suc n) acc rx =
     (case read_exact 1 rx of
        (Some [b], rx') \<Rightarrow>
          (let acc' = char_of (unat b) # acc
           in if ends_header acc' then (Some (rev acc'), rx') else read_header n acc' rx')
      | (_, rx') \<Rightarrow> (None, rx'))"

text \<open>What the system calls of one \<^verbatim>\<open>Connect\<close> do, and the random numbers it draws.\<close>

record conn_env =
  ce_resolves :: "string \<Rightarrow> string \<Rightarrow> bool"
  ce_socket :: bool
  ce_connects :: bool
  ce_writable :: bool
  ce_so_error :: bool
  ce_rx :: "bytes list"
  ce_tx :: "nat list"
  ce_key :: bytes
  ce_mask :: u32

definition upgrade :: "conn_env \<Rightarrow> ws_sock \<Rightarrow> bool \<times> ws_sock" where
  "upgrade env s =
     (case read_header 16384 [] (wk_rx s) of
        (None, rx) \<Rightarrow> (False, WsClose (s\<lparr>wk_rx := rx\<rparr>))
      | (Some resp, rx) \<Rightarrow>
          (if starts_with ''HTTP/1.1 101'' resp then (True, s\<lparr>wk_rx := rx, wk_mask := ce_mask env\<rparr>)
           else (False, WsClose (s\<lparr>wk_rx := rx\<rparr>))))"

definition Connect :: "conn_env \<Rightarrow> string \<Rightarrow> ws_sock \<Rightarrow> bool \<times> ws_sock" where
  "Connect env url s =
     (case parse_url url of
        None \<Rightarrow> (False, s)
      | Some (host, port, path) \<Rightarrow>
          (if \<not> ce_resolves env host port \<or> \<not> ce_socket env \<or> \<not> ce_connects env \<or> \<not> ce_writable env \<or> ce_so_error env
           then (False, s)
           else
             let s1 = s\<lparr>wk_open := True, wk_rx := ce_rx env, wk_tx := [], wk_sent := []\<rparr>;
                 req = text_bytes (upgrade_request host port path (ce_key env))
             in case ce_tx env of
                  k # tx \<Rightarrow>
                    (if k < length req then (False, WsClose (s1\<lparr>wk_tx := tx, wk_sent := take k req\<rparr>))
                     else upgrade env (s1\<lparr>wk_tx := tx, wk_sent := req\<rparr>))
                | [] \<Rightarrow> upgrade env (s1\<lparr>wk_sent := req\<rparr>)))"

section \<open>Frames\<close>

definition mask_bytes :: "u32 \<Rightarrow> bytes" where
  "mask_bytes m = [ucast (drop_bit 24 m), ucast (drop_bit 16 m), ucast (drop_bit 8 m), ucast (m AND 0xFF)]"

definition xor_mask :: "bytes \<Rightarrow> bytes \<Rightarrow> bytes" where
  "xor_mask mk payload = map (\<lambda>(i, b). b XOR mk ! (i mod 4)) (enumerate 0 payload)"

definition text_frame :: "u32 \<Rightarrow> bytes \<Rightarrow> bytes" where
  "text_frame m msg =
     (let n = length msg
      in [0x81] @
         (if n < 126 then [0x80 OR of_nat n]
          else if n < 65536 then [0x80 OR 126, of_nat (n div 2 ^ 8), of_nat n AND 0xFF]
          else [0x80 OR 127] @ map (\<lambda>i. of_nat (n div 2 ^ (i * 8)) AND 0xFF) [7, 6, 5, 4, 3, 2, 1, 0]) @
         mask_bytes m @
         map (\<lambda>(i, b). b XOR ucast (drop_bit ((3 - i mod 4) * 8) m AND 0xFF)) (enumerate 0 msg))"

definition SendText :: "bytes \<Rightarrow> ws_sock \<Rightarrow> bool \<times> ws_sock" where
  "SendText msg s = (if \<not> wk_open s then (False, s) else SendAll (text_frame (wk_mask s) msg) s)"

definition be_len :: "bytes \<Rightarrow> u64" where
  "be_len ext = foldl (\<lambda>l b. push_bit 8 l OR ucast b) 0 ext"

text \<open>The opcode and the payload of the next frame; the final-fragment bit is read and ignored.\<close>

definition ReadFrame :: "bytes list \<Rightarrow> (u8 \<times> bytes) option \<times> bytes list" where
  "ReadFrame rx =
     (case read_exact 2 rx of
        (Some [h0, h1], rx1) \<Rightarrow>
          (let masked = (h1 AND 0x80 \<noteq> 0); opcode = h0 AND 0x0F; l7 = h1 AND 0x7F
           in case (if l7 = 126 then
                      (case read_exact 2 rx1 of (Some ext, rx2) \<Rightarrow> (Some (be_len ext), rx2) | (None, rx2) \<Rightarrow> (None, rx2))
                    else if l7 = 127 then
                      (case read_exact 8 rx1 of (Some ext, rx2) \<Rightarrow> (Some (be_len ext), rx2) | (None, rx2) \<Rightarrow> (None, rx2))
                    else (Some (ucast l7), rx1)) of
                (None, rx2) \<Rightarrow> (None, rx2)
              | (Some len, rx2) \<Rightarrow>
                  (if len > 64 * 1024 * 1024 then (None, rx2)
                   else case (if masked then read_exact 4 rx2 else (Some [0, 0, 0, 0], rx2)) of
                          (None, rx3) \<Rightarrow> (None, rx3)
                        | (Some mk, rx3) \<Rightarrow>
                            (case read_exact (unat len) rx3 of
                               (None, rx4) \<Rightarrow> (None, rx4)
                             | (Some payload, rx4) \<Rightarrow>
                                 (Some (opcode, if masked then xor_mask mk payload else payload), rx4))))
      | (_, rx1) \<Rightarrow> (None, rx1))"

definition pong_frame :: "u32 \<Rightarrow> bytes \<Rightarrow> bytes" where
  "pong_frame m payload = [0x8A, 0x80 OR of_nat (length payload)] @ mask_bytes m @ xor_mask (mask_bytes m) payload"

text \<open>Every pass of the receive loop takes at least two bytes off the connection.\<close>

lemma read_exact_bytes: "read_exact n rx = (Some bs, rx') \<Longrightarrow> length bs = n \<and> concat rx = bs @ concat rx'"
proof (induction n rx arbitrary: bs rx' rule: read_exact.induct)
  case (2 n seg rx)
  show ?case
  proof (cases "n = 0 \<or> seg = [] \<or> n < length seg")
    case True
    with "2.prems" show ?thesis by (auto simp: append_eq_conv_conj split: if_splits)
  next
    case False
    then obtain bs1 where "read_exact (n - length seg) rx = (Some bs1, rx')" "bs = seg @ bs1"
      using "2.prems" by (auto split: prod.splits option.splits)
    with "2.IH" False show ?thesis by fastforce
  qed
qed (auto split: if_splits)

lemma ReadFrame_shrinks:
  assumes "ReadFrame rx = (Some f, rx')"
  shows "length (concat rx') + 2 \<le> length (concat rx)"
proof -
  have le: "length (concat r') \<le> length (concat r)" if "read_exact n r = (Some bs, r')" for n r bs r'
    using read_exact_bytes [OF that] by simp
  obtain h rx1 where h: "read_exact 2 rx = (Some h, rx1)"
    using assms by (auto simp: ReadFrame_def split: prod.splits option.splits)
  have "length (concat rx') \<le> length (concat rx1)"
    using assms le h unfolding ReadFrame_def Let_def
    by (auto split: prod.splits option.splits list.splits if_splits dest!: le intro: order_trans)
  with read_exact_bytes [OF h] show ?thesis by simp
qed

lemma SendAll_frame:
  "SendAll fr s = (ok, s') \<Longrightarrow> wk_rx s' = wk_rx s"
  by (auto simp: SendAll_def split: prod.splits)

function RecvText :: "ws_sock \<Rightarrow> bytes option \<times> ws_sock" where
  "RecvText s =
     (case ReadFrame (wk_rx s) of
        (None, rx) \<Rightarrow> (None, s\<lparr>wk_rx := rx\<rparr>)
      | (Some (opcode, payload), rx) \<Rightarrow>
          (let s1 = s\<lparr>wk_rx := rx\<rparr>
           in if opcode = 0x1 then (Some payload, s1)
              else if opcode = 0x0 then (Some [], s1)
              else if opcode = 0x8 then (None, WsClose s1)
              else if opcode = 0x9 then
                (case SendAll (pong_frame (wk_mask s1) payload) s1 of
                   (False, s2) \<Rightarrow> (None, s2)
                 | (True, s2) \<Rightarrow> RecvText s2)
              else if opcode = 0xA then RecvText s1
              else (None, s1)))"
  by pat_completeness auto

termination
  by (relation "measure (\<lambda>s. length (concat (wk_rx s)))")
     (auto dest!: ReadFrame_shrinks [OF sym] SendAll_frame [OF sym])

declare RecvText.simps [simp del]

end
