(* ===== verification/WsProps.thy ===== *)
theory WsProps
  imports Ws
begin

text \<open>
  Properties of the WebSocket client: its frames read back whatever way the connection cuts the
  stream, pings are answered, the handshake leaves nothing open when it fails, and Base64 decodes.
\<close>

section \<open>Reading does not depend on the segments\<close>

text \<open>A connection that delivers: no time-out, error or end among its segments.\<close>

definition delivers :: "bytes list \<Rightarrow> bool" where
  "delivers rx \<longleftrightarrow> [] \<notin> set rx"

lemma read_exact_prefix:
  assumes "delivers rx" and "concat rx = bs @ rest"
  obtains rx' where "read_exact (length bs) rx = (Some bs, rx')" "delivers rx'" "concat rx' = rest"
  using assms
proof (induction rx arbitrary: bs thesis)
  case Nil
  then show ?case by simp
next
  case (Cons seg rx)
  have seg: "seg \<noteq> []" "delivers rx" using Cons.prems(2) by (auto simp: delivers_def)
  show ?case
  proof (cases "length bs < length seg")
    case True
    with Cons.prems seg show ?thesis
      by (cases "bs = []") (auto simp: append_eq_append_conv_if delivers_def)
  next
    case False
    then obtain bs' where bs: "bs = seg @ bs'" "concat rx = bs' @ rest"
      using Cons.prems(3) by (auto simp: append_eq_append_conv2)
    obtain rx' where "read_exact (length bs') rx = (Some bs', rx')" "delivers rx'" "concat rx' = rest"
      using Cons.IH [OF _ seg(2) bs(2)] by blast
    with seg bs(1) show ?thesis by (intro Cons.prems(1) [of rx']) auto
  qed
qed

section \<open>A frame in the format of the protocol\<close>

definition be_bytes :: "nat \<Rightarrow> nat \<Rightarrow> bytes" where
  "be_bytes k n = map (\<lambda>i. of_nat (n div 256 ^ i)) (rev [0..<k])"

definition len_bytes :: "u8 \<Rightarrow> nat \<Rightarrow> bytes" where
  "len_bytes hi n =
     (if n < 126 then [hi OR of_nat n] else if n < 65536 then (hi OR 126) # be_bytes 2 n else (hi OR 127) # be_bytes 8 n)"

definition frame_of :: "u8 \<Rightarrow> bytes option \<Rightarrow> bytes \<Rightarrow> bytes" where
  "frame_of opb mk p =
     (case mk of None \<Rightarrow> opb # len_bytes 0 (length p) @ p
      | Some m \<Rightarrow> opb # len_bytes 0x80 (length p) @ m @ xor_mask m p)"

lemma be_len_step: "push_bit 8 l OR ucast b = l * 256 + (ucast b :: u64)" for l :: u64 and b :: u8
proof -
  have "push_bit 8 l AND ucast b = (0 :: u64)"
    by (rule bit_word_eqI) (auto simp: bit_simps dest: bit_imp_le_length)
  then have "push_bit 8 l OR ucast b = push_bit 8 l + ucast b" by (metis disjunctive_add_eq_or)
  then show ?thesis by (simp add: push_bit_eq_mult mult.commute)
qed

lemma be_len_bytes: "be_len (be_bytes k n) = of_nat (n mod 256 ^ k)"
proof (induction k arbitrary: n)
  case (Suc k)
  have "be_bytes (Suc k) n = be_bytes k (n div 256) @ [of_nat n]"
  proof -
    have "rev [0..<Suc k] = map Suc (rev [0..<k]) @ [0]"
      by (simp add: upt_conv_Cons map_Suc_upt rev_map [symmetric] del: upt_Suc)
    then show ?thesis by (simp add: be_bytes_def div_mult2_eq del: upt_Suc)
  qed
  then have "be_len (be_bytes (Suc k) n) = of_nat (n div 256 mod 256 ^ k) * 256 + ucast (of_nat n :: u8)"
    using Suc [of "n div 256"] by (simp add: be_len_def be_len_step)
  also have "(ucast (of_nat n :: u8) :: u64) = of_nat (n mod 256)"
    by (simp add: unsigned_of_nat take_bit_eq_mod)
  also have "of_nat (n div 256 mod 256 ^ k) * 256 + of_nat (n mod 256) = (of_nat (n mod 256 ^ Suc k) :: u64)"
  proof -
    have "n mod 256 ^ Suc k = 256 * (n div 256 mod 256 ^ k) + n mod 256"
      by (simp add: mod_mult2_eq)
    then show ?thesis by (simp add: mult.commute)
  qed
  finally show ?case .
qed (simp add: be_len_def be_bytes_def)

lemma xor_mask_twice: "xor_mask mk (xor_mask mk p) = p"
  by (auto simp: xor_mask_def intro!: nth_equalityI simp: nth_enumerate_eq xor.assoc)

lemma length_xor_mask [simp]: "length (xor_mask mk p) = length p"
  by (simp add: xor_mask_def)


lemma short_len_cases:
  "list_all (\<lambda>n. (of_nat n AND 0x7F) = (of_nat n :: u8) \<and> (0x80 OR of_nat n) AND 0x7F = (of_nat n :: u8) \<and>
     of_nat n AND 0x80 = (0 :: u8) \<and> (0x80 OR of_nat n) AND 0x80 = (0x80 :: u8)) [0..<128]"
  by code_simp

lemma short_len:
  assumes "n < 128"
  shows "of_nat n AND 0x7F = (of_nat n :: u8)" and "(0x80 OR of_nat n) AND 0x7F = (of_nat n :: u8)"
    and "of_nat n AND 0x80 = (0 :: u8)" and "(0x80 OR of_nat n) AND 0x80 = (0x80 :: u8)"
  using short_len_cases assms unfolding list_all_iff by auto

text \<open>Reading a frame gives back its opcode and its payload, and leaves what follows on the stream.\<close>

lemma short_header:
  assumes "hi \<in> {0, 0x80}" and "n < 126"
  shows "(hi OR of_nat n) AND 0x7F = (of_nat n :: u8)" "(hi OR of_nat n) AND (0x80 :: u8) = hi"
    "(of_nat n :: u8) \<noteq> 126" "(of_nat n :: u8) \<noteq> 127" "unat (ucast (of_nat n :: u8) :: u64) = n"
proof -
  have u: "unat (of_nat n :: u8) = n" using assms(2) by (simp add: unat_of_nat)
  show "(of_nat n :: u8) \<noteq> 126" "(of_nat n :: u8) \<noteq> 127" using u assms(2) by auto
  show "unat (ucast (of_nat n :: u8) :: u64) = n" using assms(2) by (simp add: unsigned_of_nat take_bit_nat_eq_self)
qed (use assms short_len [of n] in auto)

lemma len_bytes_read:
  assumes "hi \<in> {0, 0x80}" and "n < 2 ^ 64"
  obtains (short) h where "len_bytes hi n = [h]" "h AND 0x80 = hi" "h AND 0x7F = of_nat n" "n < 126"
  | (medium) h where "len_bytes hi n = h # be_bytes 2 n" "h AND 0x80 = hi" "h AND 0x7F = 126" "n < 65536"
  | (long) h where "len_bytes hi n = h # be_bytes 8 n" "h AND 0x80 = hi" "h AND 0x7F = 127"
  using assms short_header(1,2) [OF assms(1)] by (fastforce simp: len_bytes_def split: if_splits)

lemma length_be_bytes [simp]: "length (be_bytes k n) = k"
  by (simp add: be_bytes_def)


lemma ReadFrame_frame:
  assumes "delivers rx" and "concat rx = frame_of opb mk p @ rest"
    and "length p \<le> 64 * 1024 * 1024" and "\<And>m. mk = Some m \<Longrightarrow> length m = 4"
  obtains rx' where "ReadFrame rx = (Some (opb AND 0x0F, p), rx')" "delivers rx'" "concat rx' = rest"
proof -
  note result = that
  let ?n = "length p"
  define hi where "hi = (case mk of None \<Rightarrow> 0 | Some _ \<Rightarrow> (0x80 :: u8))"
  define key where "key = (case mk of None \<Rightarrow> [] | Some m \<Rightarrow> m)"
  define body where "body = (case mk of None \<Rightarrow> p | Some m \<Rightarrow> xor_mask m p)"
  have f: "concat rx = opb # len_bytes hi ?n @ key @ body @ rest"
    using assms(2) by (auto simp: frame_of_def hi_def key_def body_def split: option.splits)
  have hi: "hi \<in> {0, 0x80}" and n: "?n < 2 ^ 64" using assms(3) by (auto simp: hi_def split: option.splits)
  have len64: "unat (of_nat ?n :: u64) = ?n" "\<not> (of_nat ?n :: u64) > 64 * 1024 * 1024"
    using n assms(3) by (auto simp: unat_of_nat word_less_nat_alt)
  have tail: thesis
    if r: "read_exact 2 rx = (Some [opb, h], rx1)" and h: "h AND 0x80 = hi"
      and l: "(if h AND 0x7F = 126 then
                (case read_exact 2 rx1 of (Some ext, rx2) \<Rightarrow> (Some (be_len ext), rx2) | (None, rx2) \<Rightarrow> (None, rx2))
              else if h AND 0x7F = 127 then
                (case read_exact 8 rx1 of (Some ext, rx2) \<Rightarrow> (Some (be_len ext), rx2) | (None, rx2) \<Rightarrow> (None, rx2))
              else (Some (ucast (h AND 0x7F)), rx1)) = (Some (of_nat ?n), rx2)"
      and d: "delivers rx2" "concat rx2 = key @ body @ rest" for h rx1 rx2
  proof (cases mk)
    case None
    then have d': "delivers rx2" "concat rx2 = p @ rest" using d by (simp_all add: key_def body_def)
    obtain rx3 where "read_exact ?n rx2 = (Some p, rx3)" "delivers rx3" "concat rx3 = rest"
      by (rule read_exact_prefix [OF d'])
    with r l h None len64 show thesis by (intro result [of rx3]) (simp_all add: ReadFrame_def hi_def)
  next
    case (Some m)
    then have d': "delivers rx2" "concat rx2 = m @ (xor_mask m p @ rest)" using d by (simp_all add: key_def body_def)
    obtain rx3 where 3: "read_exact 4 rx2 = (Some m, rx3)" "delivers rx3" "concat rx3 = xor_mask m p @ rest"
      by (rule read_exact_prefix [OF d']) (simp add: assms(4) Some)
    obtain rx4 where "read_exact ?n rx3 = (Some (xor_mask m p), rx4)" "delivers rx4" "concat rx4 = rest"
      by (rule read_exact_prefix [OF 3(2,3)]) simp
    with r l h Some len64 3(1) show thesis
      by (intro result [of rx4]) (simp_all add: ReadFrame_def hi_def xor_mask_twice)
  qed
  have two: "\<exists>rx1. read_exact 2 rx = (Some [opb, h], rx1) \<and> delivers rx1 \<and> concat rx1 = t"
    if "concat rx = [opb, h] @ t" for h t
    using read_exact_prefix [OF assms(1) that] by (metis length_Cons list.size(3) numeral_2_eq_2)
  from hi n show thesis
  proof (cases rule: len_bytes_read)
    case (short h)
    with two [of h] f obtain rx1 where "read_exact 2 rx = (Some [opb, h], rx1)" "delivers rx1" "concat rx1 = key @ body @ rest"
      by auto
    with short short_header [OF hi short(4)] show thesis
      by (intro tail [of h rx1 rx1]) (simp_all add: unsigned_of_nat take_bit_nat_eq_self)
  next
    case (medium h)
    with two [of h] f obtain rx1 where 1: "read_exact 2 rx = (Some [opb, h], rx1)" "delivers rx1"
      "concat rx1 = be_bytes 2 ?n @ key @ body @ rest" by auto
    obtain rx2 where "read_exact 2 rx1 = (Some (be_bytes 2 ?n), rx2)" "delivers rx2" "concat rx2 = key @ body @ rest"
      by (rule read_exact_prefix [OF 1(2,3)]) simp
    with medium 1(1) show thesis by (intro tail [of h rx1 rx2]) (simp_all add: be_len_bytes)
  next
    case (long h)
    with two [of h] f obtain rx1 where 1: "read_exact 2 rx = (Some [opb, h], rx1)" "delivers rx1"
      "concat rx1 = be_bytes 8 ?n @ key @ body @ rest" by auto
    obtain rx2 where "read_exact 8 rx1 = (Some (be_bytes 8 ?n), rx2)" "delivers rx2" "concat rx2 = key @ body @ rest"
      by (rule read_exact_prefix [OF 1(2,3)]) simp
    with long 1(1) n show thesis by (intro tail [of h rx1 rx2]) (simp_all add: be_len_bytes)
  qed
qed


section \<open>The frames the client writes\<close>

lemma mask_bytes_length [simp]: "length (mask_bytes m) = 4"
  by (simp add: mask_bytes_def)

lemma and_255 [simp]: "x AND 0xFF = (x :: u8)"
proof -
  have "x AND mask 8 = take_bit 8 x" by (simp add: take_bit_eq_mask)
  also have "take_bit 8 x = x" by (rule take_bit_word_eq_self) simp
  finally show ?thesis by (simp add: mask_eq_exp_minus_1)
qed

lemma text_frame_xor: "map (\<lambda>(i, b). b XOR ucast (drop_bit ((3 - i mod 4) * 8) m AND 0xFF)) (enumerate 0 msg) =
   xor_mask (mask_bytes m) msg"
proof -
  have "ucast (drop_bit ((3 - i mod 4) * 8) m AND 0xFF) = mask_bytes m ! (i mod 4)" for i
  proof -
    have k: "ucast (x AND 0xFF) = (ucast x :: u8)" for x :: u32
    proof -
      have "x AND 0xFF = take_bit 8 x" by (simp add: take_bit_eq_mask mask_eq_exp_minus_1)
      then show ?thesis by (simp only:) (rule bit_word_eqI, auto simp: bit_simps)
    qed
    have "i mod 4 \<in> {0, 1, 2, 3}" using mod_less_divisor [of 4 i] by auto
    then show ?thesis by (auto simp: mask_bytes_def k)
  qed
  then show ?thesis by (simp add: xor_mask_def)
qed

lemma text_frame_frame: "text_frame m msg = frame_of 0x81 (Some (mask_bytes m)) msg"
proof -
  have upto: "rev [0..<2] = [1, 0::nat]" "rev [0..<8] = [7, 6, 5, 4, 3, 2, 1, 0::nat]" by code_simp+
  then have "be_bytes 2 n = [of_nat (n div 2 ^ 8), of_nat n]" for n using upto by (simp add: be_bytes_def)
  moreover have "be_bytes 8 n = map (\<lambda>i. of_nat (n div 2 ^ (i * 8))) [7, 6, 5, 4, 3, 2, 1, 0]" for n
    using upto by (simp add: be_bytes_def)
  ultimately show ?thesis by (simp add: text_frame_def frame_of_def len_bytes_def text_frame_xor Let_def)
qed

lemma pong_frame_frame: "length p < 126 \<Longrightarrow> pong_frame m p = frame_of 0x8A (Some (mask_bytes m)) p"
  by (simp add: pong_frame_def frame_of_def len_bytes_def)

lemma send_all_ok: "0 \<notin> set tx \<Longrightarrow> \<exists>tx'. send_all fr tx = (True, fr, tx') \<and> 0 \<notin> set tx'"
  by (induction fr tx rule: send_all.induct) (auto split: prod.splits)

lemma SendAll_ok:
  assumes "0 \<notin> set (wk_tx s)"
  obtains tx' where "SendAll fr s = (True, s\<lparr>wk_tx := tx', wk_sent := wk_sent s @ fr\<rparr>)" "0 \<notin> set tx'"
  using send_all_ok [OF assms, of fr] by (auto simp: SendAll_def)

text \<open>
  Claim C18: what one client sends the frame reader understands: reading the bytes of \<open>SendText\<close>
  gives back the message as a text frame and leaves the rest of the stream, for every message up to
  the limit of the reader, however the socket splits the sending and the receiving.
\<close>

theorem text_frame_round_trip:
  assumes "wk_open s" and "0 \<notin> set (wk_tx s)" and "length msg \<le> 64 * 1024 * 1024"
    and "delivers rx" and "wk_sent s @ concat rx = wk_sent (snd (SendText msg s)) @ rest"
  shows "fst (SendText msg s) \<and> (\<exists>rx'. ReadFrame rx = (Some (1, msg), rx') \<and> concat rx' = rest)"
proof -
  obtain tx' where s: "SendAll (text_frame (wk_mask s) msg) s =
      (True, s\<lparr>wk_tx := tx', wk_sent := wk_sent s @ text_frame (wk_mask s) msg\<rparr>)"
    using SendAll_ok [OF assms(2)] by metis
  with assms(1,5) have "concat rx = frame_of 0x81 (Some (mask_bytes (wk_mask s))) msg @ rest"
    by (simp add: SendText_def text_frame_frame)
  from ReadFrame_frame [OF assms(4) this assms(3)] s assms(1) show ?thesis
    by (auto simp: SendText_def)
qed

lemma text_frame_round_trip_witness:
  "\<exists>rx'. ReadFrame [[0x81, 0x84, 0], [0, 0, 1, 97, 98], [99, 101]] = (Some (1, [97, 98, 99, 100]), rx') \<and> concat rx' = []"
  using text_frame_round_trip [of "\<lparr>wk_open = True, wk_mask = 1, wk_rx = [], wk_tx = [4, 1], wk_sent = []\<rparr>" "[97, 98, 99, 100]"
      "[[0x81, 0x84, 0], [0, 0, 1, 97, 98], [99, 101]]" "[]"]
  by (simp add: delivers_def SendText_def SendAll_def text_frame_def mask_bytes_def)

section \<open>Receiving\<close>

datatype control = Ping bytes | Pong bytes

fun control_frame :: "control \<Rightarrow> bytes" where
  "control_frame (Ping p) = frame_of 0x89 None p"
| "control_frame (Pong p) = frame_of 0x8A None p"

fun control_ok :: "control \<Rightarrow> bool" where
  "control_ok (Ping p) = (length p < 126)"
| "control_ok (Pong p) = (length p < 126)"

fun answers :: "u32 \<Rightarrow> control list \<Rightarrow> bytes" where
  "answers m [] = []"
| "answers m (Ping p # cs) = frame_of 0x8A (Some (mask_bytes m)) p @ answers m cs"
| "answers m (Pong p # cs) = answers m cs"

lemma recv_control:
  assumes "delivers (wk_rx s)" and "0 \<notin> set (wk_tx s)" and "control_ok c" and "concat (wk_rx s) = control_frame c @ t"
  obtains s' where "RecvText s = RecvText s'" "delivers (wk_rx s')" "0 \<notin> set (wk_tx s')" "concat (wk_rx s') = t"
    "wk_mask s' = wk_mask s" "wk_sent s' = wk_sent s @ answers (wk_mask s) [c]"
proof (cases c)
  case (Ping p)
  have len: "length p \<le> 64 * 1024 * 1024" using assms(3) Ping by simp
  have f: "concat (wk_rx s) = frame_of 0x89 None p @ t" using assms(4) Ping by simp
  obtain rx' where r: "ReadFrame (wk_rx s) = (Some (0x89 AND 0x0F, p), rx')" "delivers rx'" "concat rx' = t"
    by (rule ReadFrame_frame [OF assms(1) f len]) simp
  let ?f = "pong_frame (wk_mask s) p"
  have z: "0 \<notin> set (wk_tx (s\<lparr>wk_rx := rx'\<rparr>))" using assms(2) by simp
  obtain tx' where t: "SendAll ?f (s\<lparr>wk_rx := rx'\<rparr>) =
      (True, s\<lparr>wk_rx := rx'\<rparr>\<lparr>wk_tx := tx', wk_sent := wk_sent (s\<lparr>wk_rx := rx'\<rparr>) @ ?f\<rparr>)" "0 \<notin> set tx'"
    by (rule SendAll_ok [OF z])
  let ?s = "s\<lparr>wk_rx := rx'\<rparr>\<lparr>wk_tx := tx', wk_sent := wk_sent (s\<lparr>wk_rx := rx'\<rparr>) @ ?f\<rparr>"
  have "RecvText s = RecvText ?s" by (subst RecvText.simps) (simp add: r(1) t(1) [simplified])
  moreover have "?f = answers (wk_mask s) [c]" using assms(3) Ping by (simp add: pong_frame_frame)
  ultimately show thesis using r(2,3) t(2) by (intro that [of ?s]) simp_all
next
  case (Pong p)
  have len: "length p \<le> 64 * 1024 * 1024" using assms(3) Pong by simp
  have f: "concat (wk_rx s) = frame_of 0x8A None p @ t" using assms(4) Pong by simp
  obtain rx' where r: "ReadFrame (wk_rx s) = (Some (0x8A AND 0x0F, p), rx')" "delivers rx'" "concat rx' = t"
    by (rule ReadFrame_frame [OF assms(1) f len]) simp
  have "RecvText s = RecvText (s\<lparr>wk_rx := rx'\<rparr>)" by (subst RecvText.simps) (simp add: r(1))
  with r(2,3) assms(2) Pong show thesis by (intro that [of "s\<lparr>wk_rx := rx'\<rparr>"]) simp_all
qed

lemma answers_Cons: "answers m (c # cs) = answers m [c] @ answers m cs"
  by (cases c) simp_all

text \<open>
  Claim C26: \<open>RecvText\<close> skips pongs, answers every ping in order with a masked pong of the same
  payload, and returns the next text message; what follows it stays on the connection.
\<close>

theorem recv_answers_pings:
  assumes "delivers (wk_rx s)" and "0 \<notin> set (wk_tx s)" and "list_all control_ok cs" and "length msg \<le> 64 * 1024 * 1024"
    and "concat (wk_rx s) = concat (map control_frame cs) @ frame_of 0x81 None msg @ rest"
  shows "\<exists>s'. RecvText s = (Some msg, s') \<and> concat (wk_rx s') = rest \<and>
     wk_sent s' = wk_sent s @ answers (wk_mask s) cs"
  using assms
proof (induction cs arbitrary: s)
  case Nil
  then have f: "concat (wk_rx s) = frame_of 0x81 None msg @ rest" by simp
  obtain rx' where "ReadFrame (wk_rx s) = (Some (0x81 AND 0x0F, msg), rx')" "concat rx' = rest"
    by (rule ReadFrame_frame [OF Nil.prems(1) f assms(4)]) simp
  then show ?case by (subst RecvText.simps) simp
next
  case (Cons c cs)
  have c: "control_ok c" "list_all control_ok cs" using Cons.prems(3) by simp_all
  have f: "concat (wk_rx s) = control_frame c @ concat (map control_frame cs) @ frame_of 0x81 None msg @ rest"
    using Cons.prems(5) by simp
  obtain s1 where s1: "RecvText s = RecvText s1" "delivers (wk_rx s1)" "0 \<notin> set (wk_tx s1)"
    "concat (wk_rx s1) = concat (map control_frame cs) @ frame_of 0x81 None msg @ rest"
    "wk_mask s1 = wk_mask s" "wk_sent s1 = wk_sent s @ answers (wk_mask s) [c]"
    by (rule recv_control [OF Cons.prems(1,2) c(1) f])
  show ?case
    using Cons.IH [OF s1(2,3) c(2) assms(4) s1(4)] unfolding s1(1,5,6) answers_Cons [of _ c cs] append_assoc .
qed

lemma recv_answers_pings_witness:
  "\<exists>s'. RecvText \<lparr>wk_open = True, wk_mask = 0, wk_rx = [[0x89, 1, 7, 0x81], [1, 65]], wk_tx = [], wk_sent = []\<rparr> = (Some [65], s') \<and>
     wk_sent s' = [0x8A, 0x81, 0, 0, 0, 0, 7]"
  using recv_answers_pings [of "\<lparr>wk_open = True, wk_mask = 0, wk_rx = [[0x89, 1, 7, 0x81], [1, 65]], wk_tx = [], wk_sent = []\<rparr>"
      "[Ping [7]]" "[65]" "[]"]
  by (auto simp: delivers_def frame_of_def len_bytes_def mask_bytes_def xor_mask_def)

text \<open>
  A fragmented message is not put together: its first fragment is returned as if it were
  the whole message, and the next call returns an empty message for the continuation.
\<close>

theorem fragments_are_not_joined:
  assumes "delivers (wk_rx s)" and "length a \<le> 64 * 1024 * 1024" and "length b \<le> 64 * 1024 * 1024"
    and "concat (wk_rx s) = frame_of 0x01 None a @ frame_of 0x80 None b @ rest"
  shows "\<exists>s1 s2. RecvText s = (Some a, s1) \<and> RecvText s1 = (Some [], s2) \<and> concat (wk_rx s2) = rest"
proof -
  obtain rx1 where 1: "ReadFrame (wk_rx s) = (Some (0x01 AND 0x0F, a), rx1)" "delivers rx1" "concat rx1 = frame_of 0x80 None b @ rest"
    using ReadFrame_frame [OF assms(1,4,2)] by auto
  obtain rx2 where 2: "ReadFrame rx1 = (Some (0x80 AND 0x0F, b), rx2)" "concat rx2 = rest"
    using ReadFrame_frame [OF 1(2,3) assms(3)] by auto
  have "RecvText s = (Some a, s\<lparr>wk_rx := rx1\<rparr>)" using 1(1) by (subst RecvText.simps) simp
  moreover have "RecvText (s\<lparr>wk_rx := rx1\<rparr>) = (Some [], s\<lparr>wk_rx := rx2\<rparr>)" using 2(1) by (subst RecvText.simps) simp
  ultimately show ?thesis using 2(2) by auto
qed

lemma fragments_are_not_joined_witness:
  "fst (RecvText \<lparr>wk_open = True, wk_mask = 0, wk_rx = [[0x01, 2, 65, 66, 0x80, 1, 67]], wk_tx = [], wk_sent = []\<rparr>) = Some [65, 66]"
  using fragments_are_not_joined [of "\<lparr>wk_open = True, wk_mask = 0, wk_rx = [[0x01, 2, 65, 66, 0x80, 1, 67]], wk_tx = [], wk_sent = []\<rparr>"
      "[65, 66]" "[67]" "[]"]
  by (auto simp: delivers_def frame_of_def len_bytes_def)

section \<open>Connecting\<close>

text \<open>
  After \<open>Connect\<close> on a closed client the socket is open exactly when it succeeded, and then
  the peer has answered with status 101 and the whole upgrade request was sent.
\<close>

theorem connect_open_iff_ok:
  assumes "\<not> wk_open s" and "Connect env url s = (ok, s')"
  shows "wk_open s' = ok \<and>
     (ok \<longrightarrow> (\<exists>host port path resp rest. parse_url url = Some (host, port, path) \<and>
        wk_sent s' = text_bytes (upgrade_request host port path (ce_key env)) \<and>
        read_header 16384 [] (ce_rx env) = (Some resp, rest) \<and> starts_with ''HTTP/1.1 101'' resp \<and> wk_rx s' = rest))"
proof -
  have up: "wk_open r = b \<and> (b \<longrightarrow> (\<exists>resp rest. wk_sent r = wk_sent t \<and> read_header 16384 [] (wk_rx t) = (Some resp, rest) \<and>
      starts_with ''HTTP/1.1 101'' resp \<and> wk_rx r = rest))"
    if "upgrade env t = (b, r)" "wk_open t" for t b r
    using that by (auto simp: upgrade_def WsClose_def split: prod.splits option.splits if_splits)
  show ?thesis
  proof (cases "parse_url url")
    case None
    with assms show ?thesis by (auto simp: Connect_def)
  next
    case (Some u)
    obtain host port path where u: "u = (host, port, path)" by (cases u)
    let ?req = "text_bytes (upgrade_request host port path (ce_key env))"
    show ?thesis
    proof (cases "\<not> ce_resolves env host port \<or> \<not> ce_socket env \<or> \<not> ce_connects env \<or> \<not> ce_writable env \<or> ce_so_error env \<or>
        (\<exists>k tx. ce_tx env = k # tx \<and> k < length ?req)")
      case True
      with assms Some u show ?thesis by (auto simp: Connect_def WsClose_def Let_def split: list.splits if_splits)
    next
      case False
      then obtain t where "Connect env url s = upgrade env t" "wk_open t" "wk_sent t = ?req" "wk_rx t = ce_rx env"
        using Some u by (cases "ce_tx env") (auto simp: Connect_def Let_def)
      with up [of t ok s'] assms(2) Some u show ?thesis by auto
    qed
  qed
qed

definition conn_env0 :: conn_env where
  "conn_env0 = \<lparr>ce_resolves = (\<lambda>_ _. True), ce_socket = True, ce_connects = True, ce_writable = True, ce_so_error = False,
     ce_rx = [text_bytes ''HTTP/1.1 101'', text_bytes crlf, text_bytes crlf @ [0x81]], ce_tx = [], ce_key = [], ce_mask = 5\<rparr>"

definition closed_sock :: ws_sock where
  "closed_sock = \<lparr>wk_open = False, wk_mask = 0, wk_rx = [], wk_tx = [], wk_sent = []\<rparr>"

lemma connect_open_iff_ok_witness: "wk_open (snd (Connect conn_env0 ''ws://model'' closed_sock))"
proof -
  have "fst (Connect conn_env0 ''ws://model'' closed_sock)" by code_simp
  moreover have "\<not> wk_open closed_sock" by (simp add: closed_sock_def)
  ultimately show ?thesis using connect_open_iff_ok [of closed_sock conn_env0 "''ws://model''"] by (metis prod.collapse)
qed

end
