(* ===== verification/Schema.thy ===== *)
theory Schema
  imports Metrics Symbols "HOL-Library.AList"
begin

text \<open>
  The database of a session, \<^verbatim>\<open>src/output/writer.cpp\<close>: the part of SQLite the writer relies on
  (typed columns, NOT NULL, primary keys, one statement at a time), the tables of \<^verbatim>\<open>kDdl\<close>, the
  statements of \<^verbatim>\<open>kSql\<close> and the table of system call names.
\<close>

section \<open>Values, tables and statements\<close>

datatype sqltype = TInteger | TReal | TText

datatype sqlval = SNull | SInt int | SReal double | SText string

record column =
  cl_name :: string
  cl_type :: sqltype
  cl_notnull :: bool

record sqltable =
  tb_name :: string
  tb_cols :: "column list"
  tb_key :: "string list"
  tb_auto :: bool

definition col :: "string \<Rightarrow> sqltype \<Rightarrow> column" where
  "col n t = \<lparr>cl_name = n, cl_type = t, cl_notnull = False\<rparr>"

definition req :: "string \<Rightarrow> sqltype \<Rightarrow> column" where
  "req n t = \<lparr>cl_name = n, cl_type = t, cl_notnull = True\<rparr>"

definition table :: "string \<Rightarrow> column list \<Rightarrow> string list \<Rightarrow> bool \<Rightarrow> sqltable" where
  "table n cs key auto = \<lparr>tb_name = n, tb_cols = cs, tb_key = key, tb_auto = auto\<rparr>"

text \<open>
  An insert names its table, its columns and the number of its parameters; an update sets one column
  of the rows one column of which has a given value.
\<close>

datatype sqlstmt =
    Insert string "string list" nat
  | Update string string string
  | SelectLast string string string string

type_synonym sqlrow = "(string \<times> sqlval) list"
type_synonym tables = "(string \<times> sqlrow list) list"

definition val :: "sqlrow \<Rightarrow> string \<Rightarrow> sqlval" where
  "val r c = (case map_of r c of None \<Rightarrow> SNull | Some v \<Rightarrow> v)"

definition rows :: "tables \<Rightarrow> string \<Rightarrow> sqlrow list" where
  "rows db t = (case map_of db t of None \<Rightarrow> [] | Some rs \<Rightarrow> rs)"

text \<open>
  Inserting fails on a missing value and on a key that is there already; an automatic \<^verbatim>\<open>seq\<close> is one
  more than the largest so far.
\<close>

definition next_seq :: "sqlrow list \<Rightarrow> int" where
  "next_seq rs = fold (\<lambda>r m. case val r ''seq'' of SInt i \<Rightarrow> max m i | _ \<Rightarrow> m) rs 0 + 1"

definition same_key :: "sqltable \<Rightarrow> sqlrow \<Rightarrow> sqlrow \<Rightarrow> bool" where
  "same_key tb r r' \<longleftrightarrow> list_all (\<lambda>k. val r k = val r' k) (tb_key tb)"

definition insert_row :: "sqltable \<Rightarrow> sqlrow \<Rightarrow> sqlrow list \<Rightarrow> sqlrow list option" where
  "insert_row tb r rs =
     (let r' = (if tb_auto tb then (''seq'', SInt (next_seq rs)) # r else r)
      in if list_ex (\<lambda>c. cl_notnull c \<and> val r' (cl_name c) = SNull) (tb_cols tb) then None
         else if tb_key tb \<noteq> [] \<and> list_ex (same_key tb r') rs then None
         else Some (rs @ [r']))"

definition find_table :: "sqltable list \<Rightarrow> string \<Rightarrow> sqltable option" where
  "find_table ts n = find (\<lambda>t. tb_name t = n) ts"

text \<open>Parameters that were not bound are null; the effect of a statement on the tables.\<close>

definition bound :: "nat \<Rightarrow> sqlval list \<Rightarrow> sqlval list" where
  "bound n vs = take n (vs @ replicate n SNull)"

definition update_rows :: "string \<Rightarrow> string \<Rightarrow> sqlval list \<Rightarrow> sqlrow list \<Rightarrow> sqlrow list" where
  "update_rows c k vs = map (\<lambda>r. if val r k = bound 2 vs ! 1 then AList.update c (bound 2 vs ! 0) r else r)"

definition set_rows :: "string \<Rightarrow> sqlrow list \<Rightarrow> tables \<Rightarrow> tables" where
  "set_rows t rs db = AList.update t rs db"

fun run_stmt :: "sqltable list \<Rightarrow> sqlstmt \<Rightarrow> sqlval list \<Rightarrow> tables \<Rightarrow> tables option" where
  "run_stmt ts (Insert t cs n) vs db =
     (case find_table ts t of
        None \<Rightarrow> None
      | Some tb \<Rightarrow> map_option (\<lambda>rs. set_rows t rs db) (insert_row tb (zip cs (bound n vs)) (rows db t)))"
| "run_stmt ts (Update t c k) vs db = Some (set_rows t (update_rows c k vs (rows db t)) db)"
| "run_stmt ts (SelectLast c t k by) vs db = Some db"

section \<open>The tables\<close>

definition ddl_meta :: sqltable where
  "ddl_meta = table ''meta''
     [col ''key'' TText, req ''value'' TText]
     [''key''] False"

definition ddl_host :: sqltable where
  "ddl_host = table ''host''
     [col ''ts_ns'' TInteger, req ''cu_user'' TInteger, req ''cu_nice'' TInteger, req ''cu_sys'' TInteger,
      req ''cu_idle'' TInteger, req ''cu_iowait'' TInteger, req ''cu_irq'' TInteger, req ''cu_softirq'' TInteger,
      req ''cu_steal'' TInteger, col ''cu_guest'' TInteger, col ''cu_guest_nice'' TInteger, col ''load1'' TReal,
      col ''load5'' TReal, col ''load15'' TReal, col ''nr_running'' TInteger, col ''nr_threads'' TInteger,
      col ''mem_total_kb'' TInteger, col ''mem_avail_kb'' TInteger, col ''mem_free_kb'' TInteger,
      col ''buffers_kb'' TInteger, col ''cached_kb'' TInteger, col ''swap_total_kb'' TInteger,
      col ''swap_free_kb'' TInteger, col ''anon_pages_kb'' TInteger, col ''sreclaimable_kb'' TInteger,
      col ''shmem_kb'' TInteger, col ''dirty_kb'' TInteger, col ''writeback_kb'' TInteger,
      col ''commit_limit_kb'' TInteger, col ''committed_as_kb'' TInteger, col ''mem_valid_mask'' TInteger,
      col ''vm_pgfault'' TInteger, col ''vm_pgmajfault'' TInteger, col ''vm_pswpin'' TInteger,
      col ''vm_pswpout'' TInteger, col ''vm_pgscan_kswapd'' TInteger, col ''vm_pgscan_direct'' TInteger,
      col ''vm_pgsteal_kswapd'' TInteger, col ''vm_pgsteal_direct'' TInteger,
      col ''vm_workingset_refault'' TInteger, col ''vm_nr_dirty'' TInteger, col ''vm_nr_writeback'' TInteger,
      col ''vm_valid_mask'' TInteger, col ''psi_cpu_s10'' TReal, col ''psi_cpu_s60'' TReal,
      col ''psi_cpu_s300'' TReal, col ''psi_cpu_s_valid'' TInteger, col ''psi_cpu_f10'' TReal,
      col ''psi_cpu_f60'' TReal, col ''psi_cpu_f300'' TReal, col ''psi_cpu_f_valid'' TInteger,
      col ''psi_io_s10'' TReal, col ''psi_io_s60'' TReal, col ''psi_io_s300'' TReal,
      col ''psi_io_s_valid'' TInteger, col ''psi_io_f10'' TReal, col ''psi_io_f60'' TReal,
      col ''psi_io_f300'' TReal, col ''psi_io_f_valid'' TInteger, col ''psi_mem_s10'' TReal,
      col ''psi_mem_s60'' TReal, col ''psi_mem_s300'' TReal, col ''psi_mem_s_valid'' TInteger,
      col ''psi_mem_f10'' TReal, col ''psi_mem_f60'' TReal, col ''psi_mem_f300'' TReal,
      col ''psi_mem_f_valid'' TInteger, col ''ctxt'' TInteger, col ''processes'' TInteger,
      col ''procs_running'' TInteger, col ''procs_blocked'' TInteger]
     [''ts_ns''] False"

definition ddl_host_cpu :: sqltable where
  "ddl_host_cpu = table ''host_cpu''
     [req ''ts_ns'' TInteger, req ''cpu_idx'' TInteger, col ''usr'' TInteger, col ''nice'' TInteger,
      col ''sys'' TInteger, col ''idle'' TInteger, col ''iowait'' TInteger, col ''irq'' TInteger,
      col ''softirq'' TInteger, col ''steal'' TInteger, col ''guest'' TInteger, col ''guest_nice'' TInteger]
     [''ts_ns'', ''cpu_idx''] False"

definition ddl_host_disk :: sqltable where
  "ddl_host_disk = table ''host_disk''
     [req ''ts_ns'' TInteger, req ''name'' TText, col ''major'' TInteger, col ''minor'' TInteger,
      col ''reads_completed'' TInteger, col ''writes_completed'' TInteger, col ''sectors_read'' TInteger,
      col ''sectors_written'' TInteger, col ''io_ticks_ms'' TInteger, col ''read_ticks_ms'' TInteger,
      col ''write_ticks_ms'' TInteger, col ''reads_merged'' TInteger, col ''writes_merged'' TInteger,
      col ''in_flight'' TInteger, col ''weighted_ticks_ms'' TInteger, col ''valid_mask'' TInteger]
     [''ts_ns'', ''name''] False"

definition ddl_host_proc :: sqltable where
  "ddl_host_proc = table ''host_proc''
     [req ''ts_ns'' TInteger, req ''pid'' TInteger, col ''tgid'' TInteger, col ''state'' TInteger,
      col ''start_time'' TInteger, col ''utime'' TInteger, col ''stime'' TInteger, col ''nvcsw'' TInteger,
      col ''nivcsw'' TInteger, col ''minflt'' TInteger, col ''majflt'' TInteger, col ''total_vm'' TInteger,
      col ''rss_kb'' TInteger, col ''comm'' TText]
     [''ts_ns'', ''pid''] False"

definition ddl_net_stack :: sqltable where
  "ddl_net_stack = table ''net_stack''
     [col ''ts_ns'' TInteger, col ''netns_ino'' TInteger, col ''source'' TText, col ''valid'' TInteger,
      col ''error'' TText, col ''active_opens'' TInteger, col ''passive_opens'' TInteger,
      col ''attempt_fails'' TInteger, col ''estab_resets'' TInteger, col ''curr_estab'' TInteger,
      col ''in_segs'' TInteger, col ''out_segs'' TInteger, col ''retrans_segs'' TInteger,
      col ''in_errs'' TInteger, col ''out_rsts'' TInteger, col ''listen_overflows'' TInteger,
      col ''listen_drops'' TInteger, col ''backlog_drop'' TInteger, col ''rcv_q_drop'' TInteger,
      col ''syn_retrans'' TInteger, col ''timeouts'' TInteger, col ''memory_pressures'' TInteger,
      col ''udp_in_datagrams'' TInteger, col ''udp_no_ports'' TInteger, col ''udp_in_errors'' TInteger,
      col ''udp_out_datagrams'' TInteger, col ''udp_rcvbuf_errors'' TInteger, col ''udp_sndbuf_errors'' TInteger,
      col ''tcp_sock_mem'' TInteger, col ''udp_sock_mem'' TInteger, col ''frag_sock_mem'' TInteger,
      col ''tcp_state_established'' TInteger, col ''tcp_state_syn_sent'' TInteger,
      col ''tcp_state_syn_recv'' TInteger, col ''tcp_state_fin_wait1'' TInteger,
      col ''tcp_state_fin_wait2'' TInteger, col ''tcp_state_time_wait'' TInteger,
      col ''tcp_state_close'' TInteger, col ''tcp_state_close_wait'' TInteger,
      col ''tcp_state_last_ack'' TInteger, col ''tcp_state_listen'' TInteger, col ''tcp_state_closing'' TInteger,
      col ''rqueue_bytes'' TInteger, col ''wqueue_bytes'' TInteger, col ''tcp_states_valid'' TInteger]
     [''ts_ns''] False"

definition ddl_net_iface :: sqltable where
  "ddl_net_iface = table ''net_iface''
     [req ''ts_ns'' TInteger, req ''ifindex'' TInteger, col ''name'' TText, col ''operstate'' TInteger,
      col ''mtu'' TInteger, col ''source'' TText, col ''valid'' TInteger, col ''error'' TText,
      col ''rx_bytes'' TInteger, col ''rx_packets'' TInteger, col ''rx_errors'' TInteger,
      col ''rx_dropped'' TInteger, col ''tx_bytes'' TInteger, col ''tx_packets'' TInteger,
      col ''tx_errors'' TInteger, col ''tx_dropped'' TInteger, col ''collisions'' TInteger,
      col ''carrier_changes'' TInteger, col ''rx_nohandler'' TInteger]
     [''ts_ns'', ''ifindex''] False"

definition ddl_net_softnet :: sqltable where
  "ddl_net_softnet = table ''net_softnet''
     [req ''ts_ns'' TInteger, req ''cpu_idx'' TInteger, col ''processed'' TInteger, col ''dropped'' TInteger,
      col ''time_squeeze'' TInteger, col ''received_rps'' TInteger, col ''flow_limit_count'' TInteger,
      col ''backlog_len'' TInteger, col ''net_rx_softirq'' TInteger, col ''net_tx_softirq'' TInteger,
      col ''valid'' TInteger, col ''error'' TText]
     [''ts_ns'', ''cpu_idx''] False"

definition ddl_gpu_device :: sqltable where
  "ddl_gpu_device = table ''gpu_device''
     [req ''ts_ns'' TInteger, req ''uuid'' TText, col ''pci_bdf'' TText, col ''vendor'' TText,
      col ''model'' TText, col ''source'' TText, col ''available'' TInteger, col ''is_mig'' TInteger,
      col ''util_pct'' TReal, col ''mem_util_pct'' TReal, col ''mem_used_bytes'' TInteger,
      col ''mem_total_bytes'' TInteger, col ''temperature_c'' TReal, col ''power_w'' TReal,
      col ''power_limit_w'' TReal, col ''energy_mj'' TInteger, col ''sm_clock_mhz'' TInteger,
      col ''mem_clock_mhz'' TInteger, col ''pcie_rx_kbps'' TInteger, col ''pcie_tx_kbps'' TInteger,
      col ''encoder_util_pct'' TReal, col ''decoder_util_pct'' TReal, col ''throttle_reasons'' TInteger,
      col ''ecc_sbe_total'' TInteger, col ''ecc_dbe_total'' TInteger, col ''retired_pages'' TInteger,
      col ''valid_mask'' TInteger, col ''error_code'' TInteger, col ''error_text'' TText]
     [''ts_ns'', ''uuid''] False"

definition ddl_cgroup :: sqltable where
  "ddl_cgroup = table ''cgroup''
     [col ''ts_ns'' TInteger, col ''available'' TInteger, col ''cgroup_path'' TText, col ''error'' TText,
      col ''cpu_usage_usec'' TInteger, col ''user_usec'' TInteger, col ''system_usec'' TInteger,
      col ''nr_periods'' TInteger, col ''nr_throttled'' TInteger, col ''throttled_usec'' TInteger,
      col ''cpu_valid'' TInteger, col ''memory_current_bytes'' TInteger, col ''memory_max_bytes'' TInteger,
      col ''memory_max_unlimited'' TInteger, col ''memory_events_low'' TInteger,
      col ''memory_events_high'' TInteger, col ''memory_events_max'' TInteger,
      col ''memory_events_oom'' TInteger, col ''memory_events_oom_kill'' TInteger, col ''memory_valid'' TInteger,
      col ''cpu_psi_s10'' TReal, col ''cpu_psi_s60'' TReal, col ''cpu_psi_s300'' TReal,
      col ''cpu_psi_s_valid'' TInteger, col ''cpu_psi_f10'' TReal, col ''cpu_psi_f60'' TReal,
      col ''cpu_psi_f300'' TReal, col ''cpu_psi_f_valid'' TInteger, col ''memory_psi_s10'' TReal,
      col ''memory_psi_s60'' TReal, col ''memory_psi_s300'' TReal, col ''memory_psi_s_valid'' TInteger,
      col ''memory_psi_f10'' TReal, col ''memory_psi_f60'' TReal, col ''memory_psi_f300'' TReal,
      col ''memory_psi_f_valid'' TInteger]
     [''ts_ns''] False"

definition ddl_cgroup_io :: sqltable where
  "ddl_cgroup_io = table ''cgroup_io''
     [req ''ts_ns'' TInteger, req ''major'' TInteger, req ''minor'' TInteger, col ''rbytes'' TInteger,
      col ''wbytes'' TInteger, col ''rios'' TInteger, col ''wios'' TInteger, col ''dbytes'' TInteger,
      col ''dios'' TInteger]
     [''ts_ns'', ''major'', ''minor''] False"

definition ddl_anomaly :: sqltable where
  "ddl_anomaly = table ''anomaly''
     [col ''ts_ns'' TInteger, col ''seq'' TInteger, col ''on_cpu_ns_total'' TInteger,
      col ''switch_total'' TInteger, col ''io_ops_total'' TInteger, col ''io_bytes_total'' TInteger,
      col ''minor_faults_total'' TInteger, col ''major_faults_total'' TInteger, col ''lock_waits_total'' TInteger]
     [''ts_ns''] False"

definition ddl_anomaly_tid :: sqltable where
  "ddl_anomaly_tid = table ''anomaly_tid''
     [req ''ts_ns'' TInteger, req ''tid'' TInteger, col ''comm'' TText, col ''on_cpu_ns'' TInteger,
      col ''nr_sw_vol'' TInteger, col ''nr_sw_invol'' TInteger, col ''io_ops'' TInteger,
      col ''io_bytes'' TInteger, col ''pf_minor'' TInteger, col ''pf_major'' TInteger,
      col ''lock_waits'' TInteger, col ''lock_lat_ns'' TInteger]
     [''ts_ns'', ''tid''] False"

definition ddl_proc_overhead :: sqltable where
  "ddl_proc_overhead = table ''proc_overhead''
     [col ''ts_ns'' TInteger, col ''utime_ns'' TInteger, col ''stime_ns'' TInteger, col ''nvcsw'' TInteger,
      col ''nivcsw'' TInteger, col ''minflt'' TInteger, col ''majflt'' TInteger, col ''rss_kb'' TInteger,
      col ''vmhwm_kb'' TInteger]
     [''ts_ns''] False"

definition ddl_bpf_stats :: sqltable where
  "ddl_bpf_stats = table ''bpf_stats''
     [req ''ts_ns'' TInteger, req ''prog_name'' TText, col ''prog_id'' TInteger, col ''run_cnt'' TInteger,
      col ''run_time_ns'' TInteger, col ''avg_ns'' TReal, col ''interval_ns'' TInteger]
     [''ts_ns'', ''prog_name''] False"

definition ddl_memory_events :: sqltable where
  "ddl_memory_events = table ''memory_events''
     [col ''ts_ns'' TInteger, col ''kswapd_active'' TInteger, col ''direct_reclaim'' TInteger,
      col ''nr_reclaimed'' TInteger]
     [''ts_ns''] False"

definition ddl_oom_events :: sqltable where
  "ddl_oom_events = table ''oom_events''
     [col ''ts_ns'' TInteger, col ''pid'' TInteger, col ''comm'' TText]
     [''ts_ns''] False"

definition ddl_targets_log :: sqltable where
  "ddl_targets_log = table ''targets_log''
     [col ''seq'' TInteger, req ''ts_ns'' TInteger, req ''action'' TText, col ''tgid'' TInteger,
      col ''tid'' TInteger, col ''comm'' TText, col ''score'' TReal, col ''rank'' TInteger]
     [''seq''] True"

definition ddl_logs :: sqltable where
  "ddl_logs = table ''logs''
     [col ''seq'' TInteger, req ''line'' TText]
     [''seq''] True"

definition ddl_deep_episodes :: sqltable where
  "ddl_deep_episodes = table ''deep_episodes''
     [col ''ordinal'' TInteger, col ''meta_json'' TText, col ''summary_text'' TText]
     [''ordinal''] False"

definition ddl_deep_series :: sqltable where
  "ddl_deep_series = table ''deep_series''
     [req ''ordinal'' TInteger, req ''phase'' TInteger, req ''ts_ns'' TInteger, req ''tid'' TInteger,
      col ''tgid'' TInteger, col ''comm'' TText, col ''flags'' TInteger, col ''on_cpu_ns'' TInteger,
      col ''nr_sw_vol'' TInteger, col ''nr_sw_invol'' TInteger, col ''io_ops'' TInteger,
      col ''io_bytes'' TInteger, col ''io_hist'' TText, col ''pf_minor'' TInteger, col ''pf_major'' TInteger,
      col ''lock_waits'' TInteger, col ''lock_lat_ns'' TInteger, col ''lock_hist'' TText,
      col ''syscall_count'' TInteger, col ''syscall_lat_ns'' TInteger, col ''syscall_hist'' TText,
      col ''futex_waits'' TInteger, col ''futex_lat_ns'' TInteger, col ''futex_hist'' TText,
      col ''runq_wait_count'' TInteger, col ''runq_wait_ns'' TInteger, col ''runq_hist'' TText]
     [''ordinal'', ''phase'', ''ts_ns'', ''tid''] False"

definition ddl_deep_gap :: sqltable where
  "ddl_deep_gap = table ''deep_gap''
     [req ''ordinal'' TInteger, req ''ts_ns'' TInteger, col ''from_head'' TInteger, col ''to_head'' TInteger]
     [] False"

definition ddl_deep_folded :: sqltable where
  "ddl_deep_folded = table ''deep_folded''
     [req ''ordinal'' TInteger, req ''kind'' TText, req ''frames'' TText, req ''value'' TInteger]
     [] False"

definition ddl_deep_syscall :: sqltable where
  "ddl_deep_syscall = table ''deep_syscall''
     [req ''ordinal'' TInteger, col ''tid'' TInteger, col ''syscall'' TInteger, col ''name'' TText,
      col ''count'' TInteger, col ''avg_us'' TReal, col ''p50_us'' TReal, col ''p99_us'' TReal,
      col ''error_count'' TInteger]
     [] False"

definition ddl_deep_lock :: sqltable where
  "ddl_deep_lock = table ''deep_lock''
     [req ''ordinal'' TInteger, col ''addr'' TText, col ''sym'' TText, col ''count'' TInteger,
      col ''total_wait_ns'' TInteger, col ''avg_wait_ns'' TInteger]
     [] False"

definition ddl_deep_runq :: sqltable where
  "ddl_deep_runq = table ''deep_runq''
     [req ''ordinal'' TInteger, col ''tid'' TInteger, col ''count'' TInteger, col ''avg_us'' TReal,
      col ''p50_us'' TReal, col ''p99_us'' TReal]
     [] False"

definition ddl_deep_iofile :: sqltable where
  "ddl_deep_iofile = table ''deep_iofile''
     [req ''ordinal'' TInteger, col ''dev'' TInteger, col ''ino'' TInteger, col ''path'' TText,
      col ''bytes'' TInteger, col ''ops'' TInteger, col ''errors'' TInteger, col ''lat_sum'' TInteger,
      col ''hist'' TText, col ''p50_us'' TReal, col ''p99_us'' TReal]
     [] False"

definition ddl_deep_proc :: sqltable where
  "ddl_deep_proc = table ''deep_proc''
     [req ''ordinal'' TInteger, req ''ts_ns'' TInteger, req ''tid'' TInteger, col ''tgid'' TInteger,
      col ''comm'' TText, col ''vm_rss_kb'' TInteger, col ''rss_anon_kb'' TInteger, col ''rss_file_kb'' TInteger,
      col ''rss_shmem_kb'' TInteger, col ''vm_swap_kb'' TInteger, col ''status_valid'' TInteger,
      col ''rchar'' TInteger, col ''wchar'' TInteger, col ''read_bytes'' TInteger, col ''write_bytes'' TInteger,
      col ''syscr'' TInteger, col ''syscw'' TInteger, col ''io_valid'' TInteger,
      col ''sched_exec_runtime_ns'' TInteger, col ''sched_run_delay_ns'' TInteger,
      col ''sched_switch_count'' TInteger, col ''sched_valid'' TInteger, col ''available'' TInteger,
      col ''error'' TText]
     [''ordinal'', ''ts_ns'', ''tid''] False"

definition ddl_deep_io_device :: sqltable where
  "ddl_deep_io_device = table ''deep_io_device''
     [req ''ordinal'' TInteger, req ''dev'' TInteger, col ''ops'' TInteger, col ''bytes'' TInteger,
      col ''lat_sum'' TInteger, col ''hist'' TText, col ''p50_us'' TReal, col ''p99_us'' TReal]
     [''ordinal'', ''dev''] False"

definition ddl_deep_net_flow :: sqltable where
  "ddl_deep_net_flow = table ''deep_net_flow''
     [req ''ordinal'' TInteger, req ''cookie'' TInteger, col ''tgid'' TInteger, col ''tid'' TInteger,
      col ''netns_ino'' TInteger, col ''family'' TInteger, col ''local_addr'' TInteger,
      col ''local_port'' TInteger, col ''remote_addr'' TInteger, col ''remote_port'' TInteger,
      col ''final_state'' TInteger, col ''start_ts_ns'' TInteger, col ''established_ts_ns'' TInteger,
      col ''end_ts_ns'' TInteger, col ''duration_us'' TInteger, col ''connect_latency_us'' TInteger,
      col ''tx_bytes'' TInteger, col ''rx_bytes'' TInteger, col ''retransmits'' TInteger,
      col ''rst_reason'' TInteger, col ''rtt_count'' TInteger, col ''rtt_avg_us'' TInteger,
      col ''rtt_p50_us'' TInteger, col ''rtt_p99_us'' TInteger, col ''closed'' TInteger,
      col ''owner_available'' TInteger, col ''error'' TText]
     [''ordinal'', ''cookie''] False"

definition ddl_deep_net_drop :: sqltable where
  "ddl_deep_net_drop = table ''deep_net_drop''
     [req ''ordinal'' TInteger, req ''netns_ino'' TInteger, req ''ifindex'' TInteger, req ''reason_id'' TInteger,
      col ''reason'' TText, col ''count'' TInteger]
     [''ordinal'', ''netns_ino'', ''ifindex'', ''reason_id''] False"

definition ddl_deep_net_softirq :: sqltable where
  "ddl_deep_net_softirq = table ''deep_net_softirq''
     [req ''ordinal'' TInteger, req ''cpu_idx'' TInteger, req ''vector'' TInteger, col ''vector_name'' TText,
      col ''count'' TInteger, col ''time_ns'' TInteger, col ''hist'' TText]
     [''ordinal'', ''cpu_idx'', ''vector''] False"

definition ddl_deep_gpu_process :: sqltable where
  "ddl_deep_gpu_process = table ''deep_gpu_process''
     [req ''ordinal'' TInteger, req ''ts_ns'' TInteger, req ''gpu_uuid'' TText, req ''pid'' TInteger,
      col ''tgid'' TInteger, col ''comm'' TText, col ''source'' TText, col ''sm_util_pct'' TReal,
      col ''mem_util_pct'' TReal, col ''enc_util_pct'' TReal, col ''dec_util_pct'' TReal,
      col ''fb_used_bytes'' TInteger, col ''source_ts_us'' TInteger, col ''valid_mask'' TInteger,
      col ''error'' TText]
     [''ordinal'', ''ts_ns'', ''gpu_uuid'', ''pid''] False"

definition ddl_deep_offcpu :: sqltable where
  "ddl_deep_offcpu = table ''deep_offcpu''
     [req ''ordinal'' TInteger, req ''tid'' TInteger, col ''tgid'' TInteger, col ''comm'' TText,
      col ''dwell_ns'' TInteger, col ''count'' TInteger, col ''stack_available'' TInteger]
     [''ordinal'', ''tid''] False"

definition kDdl :: "sqltable list" where
  "kDdl =
     [ddl_meta, ddl_host, ddl_host_cpu, ddl_host_disk, ddl_host_proc, ddl_net_stack, ddl_net_iface,
      ddl_net_softnet, ddl_gpu_device, ddl_cgroup, ddl_cgroup_io, ddl_anomaly, ddl_anomaly_tid,
      ddl_proc_overhead, ddl_bpf_stats, ddl_memory_events, ddl_oom_events, ddl_targets_log, ddl_logs,
      ddl_deep_episodes, ddl_deep_series, ddl_deep_gap, ddl_deep_folded, ddl_deep_syscall, ddl_deep_lock,
      ddl_deep_runq, ddl_deep_iofile, ddl_deep_proc, ddl_deep_io_device, ddl_deep_net_flow, ddl_deep_net_drop,
      ddl_deep_net_softirq, ddl_deep_gpu_process, ddl_deep_offcpu]"

section \<open>The statements\<close>

datatype Stmt =
    S_META_INS | S_HOST_INS | S_HOST_CPU_INS | S_HOST_DISK_INS | S_HOST_PROC_INS | S_NET_STACK_INS | S_NET_IFACE_INS |
    S_NET_SOFTNET_INS | S_GPU_DEV_INS | S_CGROUP_INS | S_CGROUP_IO_INS | S_ANOMALY_INS | S_ANOMALY_TID_INS |
    S_TARGETS_INS | S_OOM_INS | S_MEMEV_INS | S_BPF_INS | S_OVERHEAD_INS | S_LOGS_INS | S_EPISODE_INS |
    S_EPISODE_META | S_EPISODE_SUMMARY | S_SERIES_INS | S_GAP_INS | S_FOLDED_INS | S_SYSCALL_INS | S_LOCK_INS |
    S_RUNQ_INS | S_IOFILE_INS | S_DEEP_PROC_INS | S_DEEP_IODEV_INS | S_NET_FLOW_INS | S_NET_DROP_INS |
    S_NET_SOFTIRQ_INS | S_DEEP_GPU_PROC_INS | S_OFFCPU_INS | S_TID_COMM_LOOKUP

definition sql_meta_ins :: sqlstmt where
  "sql_meta_ins = Insert ''meta''
     [''key'', ''value'']
     2"

definition sql_host_ins :: sqlstmt where
  "sql_host_ins = Insert ''host''
     [''ts_ns'', ''cu_user'', ''cu_nice'', ''cu_sys'', ''cu_idle'', ''cu_iowait'', ''cu_irq'', ''cu_softirq'',
      ''cu_steal'', ''cu_guest'', ''cu_guest_nice'', ''load1'', ''load5'', ''load15'', ''nr_running'',
      ''nr_threads'', ''mem_total_kb'', ''mem_avail_kb'', ''mem_free_kb'', ''buffers_kb'', ''cached_kb'',
      ''swap_total_kb'', ''swap_free_kb'', ''anon_pages_kb'', ''sreclaimable_kb'', ''shmem_kb'', ''dirty_kb'',
      ''writeback_kb'', ''commit_limit_kb'', ''committed_as_kb'', ''mem_valid_mask'', ''vm_pgfault'',
      ''vm_pgmajfault'', ''vm_pswpin'', ''vm_pswpout'', ''vm_pgscan_kswapd'', ''vm_pgscan_direct'',
      ''vm_pgsteal_kswapd'', ''vm_pgsteal_direct'', ''vm_workingset_refault'', ''vm_nr_dirty'',
      ''vm_nr_writeback'', ''vm_valid_mask'', ''psi_cpu_s10'', ''psi_cpu_s60'', ''psi_cpu_s300'',
      ''psi_cpu_s_valid'', ''psi_cpu_f10'', ''psi_cpu_f60'', ''psi_cpu_f300'', ''psi_cpu_f_valid'',
      ''psi_io_s10'', ''psi_io_s60'', ''psi_io_s300'', ''psi_io_s_valid'', ''psi_io_f10'', ''psi_io_f60'',
      ''psi_io_f300'', ''psi_io_f_valid'', ''psi_mem_s10'', ''psi_mem_s60'', ''psi_mem_s300'',
      ''psi_mem_s_valid'', ''psi_mem_f10'', ''psi_mem_f60'', ''psi_mem_f300'', ''psi_mem_f_valid'', ''ctxt'',
      ''processes'', ''procs_running'', ''procs_blocked'']
     71"

definition sql_host_cpu_ins :: sqlstmt where
  "sql_host_cpu_ins = Insert ''host_cpu''
     [''ts_ns'', ''cpu_idx'', ''usr'', ''nice'', ''sys'', ''idle'', ''iowait'', ''irq'', ''softirq'', ''steal'',
      ''guest'', ''guest_nice'']
     12"

definition sql_host_disk_ins :: sqlstmt where
  "sql_host_disk_ins = Insert ''host_disk''
     [''ts_ns'', ''name'', ''major'', ''minor'', ''reads_completed'', ''writes_completed'', ''sectors_read'',
      ''sectors_written'', ''io_ticks_ms'', ''read_ticks_ms'', ''write_ticks_ms'', ''reads_merged'',
      ''writes_merged'', ''in_flight'', ''weighted_ticks_ms'', ''valid_mask'']
     16"

definition sql_host_proc_ins :: sqlstmt where
  "sql_host_proc_ins = Insert ''host_proc''
     [''ts_ns'', ''pid'', ''tgid'', ''state'', ''start_time'', ''utime'', ''stime'', ''nvcsw'', ''nivcsw'',
      ''minflt'', ''majflt'', ''total_vm'', ''rss_kb'', ''comm'']
     14"

definition sql_net_stack_ins :: sqlstmt where
  "sql_net_stack_ins = Insert ''net_stack''
     [''ts_ns'', ''netns_ino'', ''source'', ''valid'', ''error'', ''active_opens'', ''passive_opens'',
      ''attempt_fails'', ''estab_resets'', ''curr_estab'', ''in_segs'', ''out_segs'', ''retrans_segs'',
      ''in_errs'', ''out_rsts'', ''listen_overflows'', ''listen_drops'', ''backlog_drop'', ''rcv_q_drop'',
      ''syn_retrans'', ''timeouts'', ''memory_pressures'', ''udp_in_datagrams'', ''udp_no_ports'',
      ''udp_in_errors'', ''udp_out_datagrams'', ''udp_rcvbuf_errors'', ''udp_sndbuf_errors'', ''tcp_sock_mem'',
      ''udp_sock_mem'', ''frag_sock_mem'', ''tcp_state_established'', ''tcp_state_syn_sent'',
      ''tcp_state_syn_recv'', ''tcp_state_fin_wait1'', ''tcp_state_fin_wait2'', ''tcp_state_time_wait'',
      ''tcp_state_close'', ''tcp_state_close_wait'', ''tcp_state_last_ack'', ''tcp_state_listen'',
      ''tcp_state_closing'', ''rqueue_bytes'', ''wqueue_bytes'', ''tcp_states_valid'']
     45"

definition sql_net_iface_ins :: sqlstmt where
  "sql_net_iface_ins = Insert ''net_iface''
     [''ts_ns'', ''ifindex'', ''name'', ''operstate'', ''mtu'', ''source'', ''valid'', ''error'', ''rx_bytes'',
      ''rx_packets'', ''rx_errors'', ''rx_dropped'', ''tx_bytes'', ''tx_packets'', ''tx_errors'', ''tx_dropped'',
      ''collisions'', ''carrier_changes'', ''rx_nohandler'']
     19"

definition sql_net_softnet_ins :: sqlstmt where
  "sql_net_softnet_ins = Insert ''net_softnet''
     [''ts_ns'', ''cpu_idx'', ''processed'', ''dropped'', ''time_squeeze'', ''received_rps'',
      ''flow_limit_count'', ''backlog_len'', ''net_rx_softirq'', ''net_tx_softirq'', ''valid'', ''error'']
     12"

definition sql_gpu_dev_ins :: sqlstmt where
  "sql_gpu_dev_ins = Insert ''gpu_device''
     [''ts_ns'', ''uuid'', ''pci_bdf'', ''vendor'', ''model'', ''source'', ''available'', ''is_mig'',
      ''util_pct'', ''mem_util_pct'', ''mem_used_bytes'', ''mem_total_bytes'', ''temperature_c'', ''power_w'',
      ''power_limit_w'', ''energy_mj'', ''sm_clock_mhz'', ''mem_clock_mhz'', ''pcie_rx_kbps'', ''pcie_tx_kbps'',
      ''encoder_util_pct'', ''decoder_util_pct'', ''throttle_reasons'', ''ecc_sbe_total'', ''ecc_dbe_total'',
      ''retired_pages'', ''valid_mask'', ''error_code'', ''error_text'']
     29"

definition sql_cgroup_ins :: sqlstmt where
  "sql_cgroup_ins = Insert ''cgroup''
     [''ts_ns'', ''available'', ''cgroup_path'', ''error'', ''cpu_usage_usec'', ''user_usec'', ''system_usec'',
      ''nr_periods'', ''nr_throttled'', ''throttled_usec'', ''cpu_valid'', ''memory_current_bytes'',
      ''memory_max_bytes'', ''memory_max_unlimited'', ''memory_events_low'', ''memory_events_high'',
      ''memory_events_max'', ''memory_events_oom'', ''memory_events_oom_kill'', ''memory_valid'',
      ''cpu_psi_s10'', ''cpu_psi_s60'', ''cpu_psi_s300'', ''cpu_psi_s_valid'', ''cpu_psi_f10'', ''cpu_psi_f60'',
      ''cpu_psi_f300'', ''cpu_psi_f_valid'', ''memory_psi_s10'', ''memory_psi_s60'', ''memory_psi_s300'',
      ''memory_psi_s_valid'', ''memory_psi_f10'', ''memory_psi_f60'', ''memory_psi_f300'', ''memory_psi_f_valid'']
     36"

definition sql_cgroup_io_ins :: sqlstmt where
  "sql_cgroup_io_ins = Insert ''cgroup_io''
     [''ts_ns'', ''major'', ''minor'', ''rbytes'', ''wbytes'', ''rios'', ''wios'', ''dbytes'', ''dios'']
     9"

definition sql_anomaly_ins :: sqlstmt where
  "sql_anomaly_ins = Insert ''anomaly''
     [''ts_ns'', ''seq'', ''on_cpu_ns_total'', ''switch_total'', ''io_ops_total'', ''io_bytes_total'',
      ''minor_faults_total'', ''major_faults_total'', ''lock_waits_total'']
     9"

definition sql_anomaly_tid_ins :: sqlstmt where
  "sql_anomaly_tid_ins = Insert ''anomaly_tid''
     [''ts_ns'', ''tid'', ''comm'', ''on_cpu_ns'', ''nr_sw_vol'', ''nr_sw_invol'', ''io_ops'', ''io_bytes'',
      ''pf_minor'', ''pf_major'', ''lock_waits'', ''lock_lat_ns'']
     12"

definition sql_targets_ins :: sqlstmt where
  "sql_targets_ins = Insert ''targets_log''
     [''ts_ns'', ''action'', ''tgid'', ''tid'', ''comm'', ''score'', ''rank'']
     7"

definition sql_oom_ins :: sqlstmt where
  "sql_oom_ins = Insert ''oom_events''
     [''ts_ns'', ''pid'', ''comm'']
     3"

definition sql_memev_ins :: sqlstmt where
  "sql_memev_ins = Insert ''memory_events''
     [''ts_ns'', ''kswapd_active'', ''direct_reclaim'', ''nr_reclaimed'']
     4"

definition sql_bpf_ins :: sqlstmt where
  "sql_bpf_ins = Insert ''bpf_stats''
     [''ts_ns'', ''prog_name'', ''prog_id'', ''run_cnt'', ''run_time_ns'', ''avg_ns'', ''interval_ns'']
     7"

definition sql_overhead_ins :: sqlstmt where
  "sql_overhead_ins = Insert ''proc_overhead''
     [''ts_ns'', ''utime_ns'', ''stime_ns'', ''nvcsw'', ''nivcsw'', ''minflt'', ''majflt'', ''rss_kb'',
      ''vmhwm_kb'']
     9"

definition sql_logs_ins :: sqlstmt where
  "sql_logs_ins = Insert ''logs''
     [''line'']
     1"

definition sql_episode_ins :: sqlstmt where
  "sql_episode_ins = Insert ''deep_episodes''
     [''ordinal'']
     1"

definition sql_episode_meta :: sqlstmt where
  "sql_episode_meta = Update ''deep_episodes'' ''meta_json'' ''ordinal''"

definition sql_episode_summary :: sqlstmt where
  "sql_episode_summary = Update ''deep_episodes'' ''summary_text'' ''ordinal''"

definition sql_series_ins :: sqlstmt where
  "sql_series_ins = Insert ''deep_series''
     [''ordinal'', ''phase'', ''ts_ns'', ''tid'', ''tgid'', ''comm'', ''flags'', ''on_cpu_ns'', ''nr_sw_vol'',
      ''nr_sw_invol'', ''io_ops'', ''io_bytes'', ''io_hist'', ''pf_minor'', ''pf_major'', ''lock_waits'',
      ''lock_lat_ns'', ''lock_hist'', ''syscall_count'', ''syscall_lat_ns'', ''syscall_hist'', ''futex_waits'',
      ''futex_lat_ns'', ''futex_hist'', ''runq_wait_count'', ''runq_wait_ns'', ''runq_hist'']
     27"

definition sql_gap_ins :: sqlstmt where
  "sql_gap_ins = Insert ''deep_gap''
     [''ordinal'', ''ts_ns'', ''from_head'', ''to_head'']
     4"

definition sql_folded_ins :: sqlstmt where
  "sql_folded_ins = Insert ''deep_folded''
     [''ordinal'', ''kind'', ''frames'', ''value'']
     4"

definition sql_syscall_ins :: sqlstmt where
  "sql_syscall_ins = Insert ''deep_syscall''
     [''ordinal'', ''tid'', ''syscall'', ''name'', ''count'', ''avg_us'', ''p50_us'', ''p99_us'', ''error_count'']
     9"

definition sql_lock_ins :: sqlstmt where
  "sql_lock_ins = Insert ''deep_lock''
     [''ordinal'', ''addr'', ''sym'', ''count'', ''total_wait_ns'', ''avg_wait_ns'']
     6"

definition sql_runq_ins :: sqlstmt where
  "sql_runq_ins = Insert ''deep_runq''
     [''ordinal'', ''tid'', ''count'', ''avg_us'', ''p50_us'', ''p99_us'']
     6"

definition sql_iofile_ins :: sqlstmt where
  "sql_iofile_ins = Insert ''deep_iofile''
     [''ordinal'', ''dev'', ''ino'', ''path'', ''bytes'', ''ops'', ''errors'', ''lat_sum'', ''hist'', ''p50_us'',
      ''p99_us'']
     11"

definition sql_deep_proc_ins :: sqlstmt where
  "sql_deep_proc_ins = Insert ''deep_proc''
     [''ordinal'', ''ts_ns'', ''tid'', ''tgid'', ''comm'', ''vm_rss_kb'', ''rss_anon_kb'', ''rss_file_kb'',
      ''rss_shmem_kb'', ''vm_swap_kb'', ''status_valid'', ''rchar'', ''wchar'', ''read_bytes'', ''write_bytes'',
      ''syscr'', ''syscw'', ''io_valid'', ''sched_exec_runtime_ns'', ''sched_run_delay_ns'',
      ''sched_switch_count'', ''sched_valid'', ''available'', ''error'']
     24"

definition sql_deep_iodev_ins :: sqlstmt where
  "sql_deep_iodev_ins = Insert ''deep_io_device''
     [''ordinal'', ''dev'', ''ops'', ''bytes'', ''lat_sum'', ''hist'', ''p50_us'', ''p99_us'']
     8"

definition sql_net_flow_ins :: sqlstmt where
  "sql_net_flow_ins = Insert ''deep_net_flow''
     [''ordinal'', ''cookie'', ''tgid'', ''tid'', ''netns_ino'', ''family'', ''local_addr'', ''local_port'',
      ''remote_addr'', ''remote_port'', ''final_state'', ''start_ts_ns'', ''established_ts_ns'', ''end_ts_ns'',
      ''duration_us'', ''connect_latency_us'', ''tx_bytes'', ''rx_bytes'', ''retransmits'', ''rst_reason'',
      ''rtt_count'', ''rtt_avg_us'', ''rtt_p50_us'', ''rtt_p99_us'', ''closed'', ''owner_available'', ''error'']
     27"

definition sql_net_drop_ins :: sqlstmt where
  "sql_net_drop_ins = Insert ''deep_net_drop''
     [''ordinal'', ''netns_ino'', ''ifindex'', ''reason_id'', ''reason'', ''count'']
     6"

definition sql_net_softirq_ins :: sqlstmt where
  "sql_net_softirq_ins = Insert ''deep_net_softirq''
     [''ordinal'', ''cpu_idx'', ''vector'', ''vector_name'', ''count'', ''time_ns'', ''hist'']
     7"

definition sql_deep_gpu_proc_ins :: sqlstmt where
  "sql_deep_gpu_proc_ins = Insert ''deep_gpu_process''
     [''ordinal'', ''ts_ns'', ''gpu_uuid'', ''pid'', ''tgid'', ''comm'', ''source'', ''sm_util_pct'',
      ''mem_util_pct'', ''enc_util_pct'', ''dec_util_pct'', ''fb_used_bytes'', ''source_ts_us'', ''valid_mask'',
      ''error'']
     15"

definition sql_offcpu_ins :: sqlstmt where
  "sql_offcpu_ins = Insert ''deep_offcpu''
     [''ordinal'', ''tid'', ''tgid'', ''comm'', ''dwell_ns'', ''count'', ''stack_available'']
     7"

definition sql_tid_comm_lookup :: sqlstmt where
  "sql_tid_comm_lookup = SelectLast ''comm'' ''targets_log'' ''tid'' ''seq''"

fun kSql :: "Stmt \<Rightarrow> sqlstmt" where
  "kSql S_META_INS = sql_meta_ins"
| "kSql S_HOST_INS = sql_host_ins"
| "kSql S_HOST_CPU_INS = sql_host_cpu_ins"
| "kSql S_HOST_DISK_INS = sql_host_disk_ins"
| "kSql S_HOST_PROC_INS = sql_host_proc_ins"
| "kSql S_NET_STACK_INS = sql_net_stack_ins"
| "kSql S_NET_IFACE_INS = sql_net_iface_ins"
| "kSql S_NET_SOFTNET_INS = sql_net_softnet_ins"
| "kSql S_GPU_DEV_INS = sql_gpu_dev_ins"
| "kSql S_CGROUP_INS = sql_cgroup_ins"
| "kSql S_CGROUP_IO_INS = sql_cgroup_io_ins"
| "kSql S_ANOMALY_INS = sql_anomaly_ins"
| "kSql S_ANOMALY_TID_INS = sql_anomaly_tid_ins"
| "kSql S_TARGETS_INS = sql_targets_ins"
| "kSql S_OOM_INS = sql_oom_ins"
| "kSql S_MEMEV_INS = sql_memev_ins"
| "kSql S_BPF_INS = sql_bpf_ins"
| "kSql S_OVERHEAD_INS = sql_overhead_ins"
| "kSql S_LOGS_INS = sql_logs_ins"
| "kSql S_EPISODE_INS = sql_episode_ins"
| "kSql S_EPISODE_META = sql_episode_meta"
| "kSql S_EPISODE_SUMMARY = sql_episode_summary"
| "kSql S_SERIES_INS = sql_series_ins"
| "kSql S_GAP_INS = sql_gap_ins"
| "kSql S_FOLDED_INS = sql_folded_ins"
| "kSql S_SYSCALL_INS = sql_syscall_ins"
| "kSql S_LOCK_INS = sql_lock_ins"
| "kSql S_RUNQ_INS = sql_runq_ins"
| "kSql S_IOFILE_INS = sql_iofile_ins"
| "kSql S_DEEP_PROC_INS = sql_deep_proc_ins"
| "kSql S_DEEP_IODEV_INS = sql_deep_iodev_ins"
| "kSql S_NET_FLOW_INS = sql_net_flow_ins"
| "kSql S_NET_DROP_INS = sql_net_drop_ins"
| "kSql S_NET_SOFTIRQ_INS = sql_net_softirq_ins"
| "kSql S_DEEP_GPU_PROC_INS = sql_deep_gpu_proc_ins"
| "kSql S_OFFCPU_INS = sql_offcpu_ins"
| "kSql S_TID_COMM_LOOKUP = sql_tid_comm_lookup"

section \<open>System call names\<close>

definition kNames :: "string list" where
  "kNames =
     [''read'', ''write'', ''open'', ''close'', ''stat'', ''fstat'', ''lstat'', ''poll'',
      ''lseek'', ''mmap'', ''mprotect'', ''munmap'', ''brk'', ''rt_sigaction'', ''rt_sigprocmask'', ''rt_sigreturn'',
      ''ioctl'', ''pread64'', ''pwrite64'', ''readv'', ''writev'', ''access'', ''pipe'', ''select'',
      ''sched_yield'', ''mremap'', ''msync'', ''mincore'', ''madvise'', ''shmget'', ''shmat'', ''shmctl'',
      ''dup'', ''dup2'', ''pause'', ''nanosleep'', ''getitimer'', ''alarm'', ''setitimer'', ''getpid'',
      ''sendfile'', ''socket'', ''connect'', ''accept'', ''sendto'', ''recvfrom'', ''sendmsg'', ''recvmsg'',
      ''shutdown'', ''bind'', ''listen'', ''getsockname'', ''getpeername'', ''socketpair'', ''setsockopt'', ''getsockopt'',
      ''clone'', ''fork'', ''vfork'', ''execve'', ''exit'', ''wait4'', ''kill'', ''uname'',
      ''semget'', ''semop'', ''semctl'', ''shmdt'', ''msgget'', ''msgsnd'', ''msgrcv'', ''msgctl'',
      ''fcntl'', ''flock'', ''fsync'', ''fdatasync'', ''truncate'', ''ftruncate'', ''getdents'', ''getcwd'',
      ''chdir'', ''fchdir'', ''rename'', ''mkdir'', ''rmdir'', ''creat'', ''link'', ''unlink'',
      ''symlink'', ''readlink'', ''chmod'', ''fchmod'', ''chown'', ''fchown'', ''lchown'', ''umask'',
      ''gettimeofday'', ''getrlimit'', ''getrusage'', ''sysinfo'', ''times'', ''ptrace'', ''getuid'', ''syslog'',
      ''getgid'', ''setuid'', ''setgid'', ''geteuid'', ''getegid'', ''setpgid'', ''getppid'', ''getpgrp'',
      ''setsid'', ''setreuid'', ''setregid'', ''getgroups'', ''setgroups'', ''setresuid'', ''getresgid'',
      ''getresgid'', ''getpgid'', ''setfsuid'', ''setfsgid'', ''getsid'', ''capget'', ''capset'', ''rt_sigpending'',
      ''rt_sigtimedwait'', ''rt_sigqueueinfo'', ''rt_sigsuspend'', ''sigaltstack'', ''utime'', ''mknod'', ''uselib'', ''personality'',
      ''ustat'', ''statfs'', ''fstatfs'', ''sysfs'', ''getpriority'', ''setpriority'', ''sched_setparam'', ''sched_getparam'',
      ''sched_setscheduler'', ''sched_getscheduler'', ''sched_get_priority_max'', ''sched_get_priority_min'', ''sched_rr_get_interval'', ''mlock'', ''munlock'', ''mlockall'',
      ''munlockall'', ''vhangup'', ''modify_ldt'', ''pivot_root'', ''_sysctl'', ''prctl'', ''arch_prctl'', ''adjtimex'',
      ''setrlimit'', ''chroot'', ''sync'', ''acct'', ''settimeofday'', ''mount'', ''umount2'', ''swapon'',
      ''swapoff'', ''reboot'', ''sethostname'', ''setdomainname'', ''iopl'', ''ioperm'', ''create_module'', ''init_module'',
      ''delete_module'', ''get_kernel_syms'', ''query_module'', ''quotactl'', ''nfsservctl'', ''getpmsg'', ''putpmsg'', ''afs_syscall'',
      ''tuxcall'', ''security'', ''gettid'', ''readahead'', ''setxattr'', ''lsetxattr'', ''fsetxattr'', ''getxattr'',
      ''lgetxattr'', ''fgetxattr'', ''listxattr'', ''llistxattr'', ''flistxattr'', ''removexattr'', ''lremovexattr'', ''fremovexattr'',
      ''tkill'', ''time'', ''futex'', ''sched_setaffinity'', ''sched_getaffinity'', ''set_thread_area'', ''io_setup'', ''io_destroy'',
      ''io_getevents'', ''io_submit'', ''io_cancel'', ''get_thread_area'', ''lookup_dcookie'', ''epoll_create'', ''epoll_ctl_old'', ''epoll_wait_old'',
      ''remap_file_pages'', ''getdents64'', ''set_tid_address'', ''restart_syscall'', ''semtimedop'', ''fadvise64'', ''timer_create'', ''timer_settime'',
      ''timer_gettime'', ''timer_getoverrun'', ''timer_delete'', ''clock_settime'', ''clock_gettime'', ''clock_getres'', ''clock_nanosleep'', ''exit_group'',
      ''epoll_wait'', ''epoll_ctl'', ''tgkill'', ''utimes'', ''vserver'', ''mbind'', ''set_mempolicy'', ''get_mempolicy'',
      ''mq_open'', ''mq_unlink'', ''mq_timedsend'', ''mq_timedreceive'', ''mq_notify'', ''mq_getsetattr'', ''kexec_load'', ''waitid'',
      ''add_key'', ''request_key'', ''keyctl'', ''ioprio_set'', ''ioprio_get'', ''inotify_init'', ''inotify_add_watch'', ''inotify_rm_watch'',
      ''migrate_pages'', ''openat'', ''mkdirat'', ''mknodat'', ''fchownat'', ''futimesat'', ''newfstatat'', ''unlinkat'',
      ''renameat'', ''linkat'', ''symlinkat'', ''readlinkat'', ''fchmodat'', ''faccessat'', ''pselect6'', ''ppoll'',
      ''unshare'', ''set_robust_list'', ''get_robust_list'', ''splice'', ''tee'', ''sync_file_range'', ''vmsplice'', ''move_pages'',
      ''utimensat'', ''epoll_pwait'', ''signalfd'', ''timerfd_create'', ''eventfd'', ''fallocate'', ''timerfd_settime'', ''timerfd_gettime'',
      ''accept4'', ''signalfd4'', ''eventfd2'', ''epoll_create1'', ''dup3'', ''pipe2'', ''inotify_init1'', ''preadv'',
      ''pwritev'', ''rt_tgsigqueueinfo'', ''perf_event_open'', ''recvmmsg'', ''fanotify_init'', ''fanotify_mark'', ''prlimit64'', ''name_to_handle_at'',
      ''open_by_handle_at'', ''clock_adjtime'', ''syncfs'', ''sendmmsg'', ''setns'', ''getcpu'', ''process_vm_readv'', ''process_vm_writev'',
      ''kcmp'', ''finit_module'', ''sched_setattr'', ''sched_getattr'', ''renameat2'', ''seccomp'', ''getrandom'', ''memfd_create'',
      ''kexec_file_load'', ''bpf'', ''execveat'', ''userfaultfd'', ''membarrier'', ''mlock2'', ''copy_file_range'', ''preadv2'',
      ''pwritev2'', ''pkey_mprotect'', ''pkey_alloc'', ''pkey_free'', ''statx'', ''io_pgetevents'', ''rseq'', ''pidfd_send_signal'',
      ''io_uring_setup'', ''io_uring_enter'', ''io_uring_register'', ''open_tree'', ''move_mount'', ''fsopen'', ''fsconfig'', ''fsmount'',
      ''fspick'', ''pidfd_open'', ''clone3'', ''close_range'', ''openat2'', ''pidfd_getfd'', ''faccessat2'', ''process_madvise'',
      ''epoll_pwait2'', ''mount_setattr'', ''quotactl_fd'', ''landlock_create_ruleset'', ''landlock_add_rule'', ''landlock_restrict_self'', ''memfd_secret'', ''set_mempolicy_home_node'']"

definition SyscallName :: "u32 \<Rightarrow> string" where
  "SyscallName nr =
     (if nr < 360 \<and> unat nr < length kNames then kNames ! unat nr
      else ''syscall_'' @ show_nat (unat nr))"

end
