(* ===== verification/Writer.thy ===== *)
theory Writer
  imports Schema Host Config
begin

text \<open>
  The output writer, \<^verbatim>\<open>src/output/writer.cpp\<close> and \<^verbatim>\<open>output_writer.h\<close>, with the part of the logger it
  interacts with (\<^verbatim>\<open>src/logging.cpp\<close>): every message goes to the sink, the sink writes it into the
  \<^verbatim>\<open>logs\<close> table, and a write that fails is itself a message. The logger holds a mutex that is not
  recursive while it calls the sink, so a message from within the sink locks it a second time: the
  thread never comes back. From then on nothing happens any more, which \<open>ow_hung\<close> records.
\<close>

section \<open>The logger\<close>

datatype LogLevel = kDebug | kInfo | kWarn | kError

fun LevelName :: "LogLevel \<Rightarrow> string" where
  "LevelName kDebug = ''DEBUG''"
| "LevelName kInfo = ''INFO''"
| "LevelName kWarn = ''WARN''"
| "LevelName kError = ''ERROR''"

fun level_num :: "LogLevel \<Rightarrow> nat" where
  "level_num kDebug = 0"
| "level_num kInfo = 1"
| "level_num kWarn = 2"
| "level_num kError = 3"

definition ParseLogLevel :: "string \<Rightarrow> LogLevel" where
  "ParseLogLevel s =
     (if s = ''debug'' then kDebug
      else if s = ''warn'' \<or> s = ''warning'' then kWarn
      else if s = ''error'' then kError else kInfo)"

text \<open>
  The line of a message: \<^verbatim>\<open>vsnprintf\<close> into 2048 bytes, then the time, the level and a newline into
  2200 bytes; the sink gets the line without the newline, and nothing when the level is too low.
\<close>

definition pad3 :: "nat \<Rightarrow> string" where
  "pad3 n = replicate (3 - length (show_nat n)) CHR ''0'' @ show_nat n"

definition log_line :: "string \<Rightarrow> nat \<Rightarrow> LogLevel \<Rightarrow> string \<Rightarrow> string" where
  "log_line ts usec lvl msg =
     ''['' @ ts @ ''.'' @ pad3 (usec div 1000) @ ''Z] ['' @ LevelName lvl @ ''] '' @ take 2047 msg @ [CHR 0x0A]"

definition sink_line :: "LogLevel \<Rightarrow> string \<Rightarrow> nat \<Rightarrow> LogLevel \<Rightarrow> string \<Rightarrow> string option" where
  "sink_line level ts usec lvl msg =
     (if level_num lvl < level_num level then None else Some (butlast (log_line ts usec lvl msg)))"

section \<open>State\<close>

record dbase =
  db_tables :: tables
  db_saved :: "tables option"

record OutputWriter =
  ow_db :: "dbase option"
  ow_ordinal :: int
  ow_last_deep_ts :: u64
  ow_depth :: int
  ow_session_dir :: string
  ow_prepared :: "Stmt list"
  ow_sink :: bool
  ow_hung :: bool
  ow_file :: tables

definition OutputWriter0 :: OutputWriter where
  "OutputWriter0 = \<lparr>ow_db = None, ow_ordinal = - 1, ow_last_deep_ts = 0, ow_depth = 0, ow_session_dir = [],
     ow_prepared = [], ow_sink = False, ow_hung = False, ow_file = []\<rparr>"

text \<open>
  What the system does: whether a statement can be prepared, whether a step or a command meets no
  error of the disk or of another connection, the text a message becomes, and the calls of \<^verbatim>\<open>Init\<close>.
\<close>

datatype mkdir_result = Made | Exists | MkdirFails

datatype sqlcmd =
    BeginImmediate
  | CommitCmd
  | Rollback
  | Pragma string
  | CreateTable sqltable
  | CreateIndex

record writer_env =
  we_prep :: "Stmt \<Rightarrow> bool"
  we_step :: "Stmt \<Rightarrow> sqlval list \<Rightarrow> bool"
  we_exec :: "sqlcmd \<Rightarrow> bool"
  we_line :: "string \<Rightarrow> string"
  we_dir_name :: string
  we_iso :: string
  we_pid :: nat
  we_mkdir :: "string \<Rightarrow> mkdir_result"
  we_open :: bool

section \<open>Statements\<close>

definition relock :: "string \<Rightarrow> OutputWriter \<Rightarrow> OutputWriter" where
  "relock msg w = w\<lparr>ow_hung := True\<rparr>"

text \<open>\<^verbatim>\<open>Prep\<close> and \<^verbatim>\<open>Step\<close>, with what happens to an error message.\<close>

definition prep_or :: "(string \<Rightarrow> OutputWriter \<Rightarrow> OutputWriter) \<Rightarrow> writer_env \<Rightarrow> Stmt \<Rightarrow> OutputWriter
    \<Rightarrow> bool \<times> OutputWriter" where
  "prep_or err env idx w =
     (if ow_db w = None \<or> ow_hung w then (False, w)
      else if idx \<in> set (ow_prepared w) then (True, w)
      else if we_prep env idx then (True, w\<lparr>ow_prepared := ow_prepared w @ [idx]\<rparr>)
      else (False, err ''sqlite prepare'' w))"

definition step_or :: "(string \<Rightarrow> OutputWriter \<Rightarrow> OutputWriter) \<Rightarrow> writer_env \<Rightarrow> Stmt \<Rightarrow> sqlval list
    \<Rightarrow> OutputWriter \<Rightarrow> bool \<times> OutputWriter" where
  "step_or err env idx vs w =
     (case prep_or err env idx w of
        (False, w1) \<Rightarrow> (False, w1)
      | (True, w1) \<Rightarrow>
          (case ow_db w1 of
             None \<Rightarrow> (False, w1)
           | Some d \<Rightarrow>
               (case (if we_step env idx vs then run_stmt kDdl (kSql idx) vs (db_tables d) else None) of
                  None \<Rightarrow> (False, err ''sqlite write failed'' w1)
                | Some t \<Rightarrow> (True, w1\<lparr>ow_db := Some (d\<lparr>db_tables := t\<rparr>)\<rparr>))))"

text \<open>A string is bound up to its first NUL; the bindings of numbers, flags and histograms.\<close>

definition stext :: "string \<Rightarrow> sqlval" where
  "stext s = SText (cstr s)"

definition i64 :: "u64 \<Rightarrow> sqlval" where
  "i64 v = SInt (sint v)"

definition u32i :: "'a::len word \<Rightarrow> sqlval" where
  "u32i v = SInt (uint v)"

definition opt64 :: "bool \<Rightarrow> u64 \<Rightarrow> sqlval" where
  "opt64 valid v = (if valid then i64 v else SNull)"

definition flag :: "bool \<Rightarrow> sqlval" where
  "flag b = SInt (if b then 1 else 0)"

fun join_commas :: "string list \<Rightarrow> string" where
  "join_commas [] = []"
| "join_commas [x] = x"
| "join_commas (x # y # xs) = x @ '','' @ join_commas (y # xs)"

definition HistJson :: "u32 list \<Rightarrow> string" where
  "HistJson h = ''['' @ join_commas (map (\<lambda>v. show_nat (unat v)) h) @ '']''"

definition hist_json :: "u32 list \<Rightarrow> sqlval" where
  "hist_json h = stext (HistJson h)"

definition psi_vals :: "PsiWindow \<Rightarrow> sqlval list" where
  "psi_vals p =
     (if pw_some_valid p then [SReal (pw_avg10 p), SReal (pw_avg60 p), SReal (pw_avg300 p)] else [SNull, SNull, SNull]) @
     [flag (pw_some_valid p)] @
     (if pw_full_valid p then [SReal (pw_avg10 p), SReal (pw_avg60 p), SReal (pw_avg300 p)] else [SNull, SNull, SNull]) @
     [flag (pw_full_valid p)]"

text \<open>The sink: it runs under the lock of the logger, so every error in it locks twice.\<close>

definition WriteLogLine :: "writer_env \<Rightarrow> string \<Rightarrow> OutputWriter \<Rightarrow> OutputWriter" where
  "WriteLogLine env line w =
     (if ow_db w = None then w
      else case prep_or relock env S_LOGS_INS w of
             (False, w1) \<Rightarrow> w1
           | (True, w1) \<Rightarrow> snd (step_or relock env S_LOGS_INS [stext line] w1))"

definition LogError :: "writer_env \<Rightarrow> string \<Rightarrow> OutputWriter \<Rightarrow> OutputWriter" where
  "LogError env msg w = (if ow_sink w then WriteLogLine env (we_line env msg) w else w)"

definition Prep :: "writer_env \<Rightarrow> Stmt \<Rightarrow> OutputWriter \<Rightarrow> bool \<times> OutputWriter" where
  "Prep env = prep_or (LogError env) env"

definition Step :: "writer_env \<Rightarrow> Stmt \<Rightarrow> sqlval list \<Rightarrow> OutputWriter \<Rightarrow> bool \<times> OutputWriter" where
  "Step env = step_or (LogError env) env"

fun exec_cmd :: "sqlcmd \<Rightarrow> dbase \<Rightarrow> dbase option" where
  "exec_cmd BeginImmediate d = (if db_saved d = None then Some (d\<lparr>db_saved := Some (db_tables d)\<rparr>) else None)"
| "exec_cmd CommitCmd d = (if db_saved d = None then None else Some (d\<lparr>db_saved := None\<rparr>))"
| "exec_cmd Rollback d =
     (case db_saved d of None \<Rightarrow> None | Some t \<Rightarrow> Some (d\<lparr>db_tables := t, db_saved := None\<rparr>))"
| "exec_cmd (Pragma p) d = Some d"
| "exec_cmd (CreateTable tb) d =
     Some (if map_of (db_tables d) (tb_name tb) = None
           then d\<lparr>db_tables := db_tables d @ [(tb_name tb, [])]\<rparr> else d)"
| "exec_cmd CreateIndex d = Some d"

definition Exec :: "writer_env \<Rightarrow> sqlcmd \<Rightarrow> OutputWriter \<Rightarrow> bool \<times> OutputWriter" where
  "Exec env c w =
     (case ow_db w of
        None \<Rightarrow> (False, w)
      | Some d \<Rightarrow>
          (if ow_hung w then (False, w)
           else case (if we_exec env c then exec_cmd c d else None) of
                  None \<Rightarrow> (False, LogError env ''sqlite exec failed'' w)
                | Some d' \<Rightarrow> (True, w\<lparr>ow_db := Some d'\<rparr>)))"

section \<open>Opening and closing\<close>

fun exec_all :: "writer_env \<Rightarrow> sqlcmd list \<Rightarrow> OutputWriter \<Rightarrow> bool \<times> OutputWriter" where
  "exec_all env [] w = (True, w)"
| "exec_all env (c # cs) w =
     (case Exec env c w of (False, w1) \<Rightarrow> (False, w1) | (True, w1) \<Rightarrow> exec_all env cs w1)"

definition durable :: "dbase \<Rightarrow> tables" where
  "durable d = (case db_saved d of None \<Rightarrow> db_tables d | Some t \<Rightarrow> t)"

definition close_db :: "OutputWriter \<Rightarrow> OutputWriter" where
  "close_db w = (case ow_db w of None \<Rightarrow> w | Some d \<Rightarrow> w\<lparr>ow_db := None, ow_file := durable d\<rparr>)"

definition meta_rows :: "writer_env \<Rightarrow> (string \<times> string) list" where
  "meta_rows env = [(''schema_version'', ''2''), (''created_wall'', we_iso env), (''collector_pid'', show_nat (we_pid env))]"

definition Init :: "writer_env \<Rightarrow> string \<Rightarrow> OutputWriter \<Rightarrow> bool \<times> OutputWriter" where
  "Init env dir w =
     (let base = (if dir = [] then ''out'' else dir);
          w1 = w\<lparr>ow_session_dir := base @ ''/'' @ we_dir_name env @ ''_'' @ show_nat (we_pid env)\<rparr>
      in if we_mkdir env dir = MkdirFails then (False, w1)
         else if we_mkdir env (ow_session_dir w1) \<noteq> Made then (False, w1)
         else if \<not> we_open env then (False, w1)
         else
           let w2 = w1\<lparr>ow_db := Some \<lparr>db_tables = [], db_saved = None\<rparr>\<rparr>
           in case exec_all env [Pragma ''journal_mode=WAL'', Pragma ''synchronous=NORMAL'', Pragma ''temp_store=MEMORY'',
                     Pragma ''user_version=2''] w2 of
                (False, w3) \<Rightarrow> (False, close_db w3)
              | (True, w3) \<Rightarrow>
                  (case exec_all env (map CreateTable kDdl @ [CreateIndex, BeginImmediate]) (w3\<lparr>ow_prepared := []\<rparr>) of
                     (False, w4) \<Rightarrow> (False, close_db w4)
                   | (True, w4) \<Rightarrow>
                       (case Prep env S_META_INS w4 of
                          (ok, w5) \<Rightarrow>
                            (let w6 = (if ok then fold (\<lambda>(k, v) w. snd (Step env S_META_INS [stext k, stext v] w)) (meta_rows env) w5
                                       else w5)
                             in (True, snd (Exec env CommitCmd w6))))))"

definition OutputWriter_Close :: "writer_env \<Rightarrow> OutputWriter \<Rightarrow> OutputWriter" where
  "OutputWriter_Close env w =
     (if ow_db w = None \<or> ow_hung w then w
      else
        let w1 = (if ow_depth w > 0 then (snd (Exec env Rollback w))\<lparr>ow_depth := 0\<rparr> else w);
            w2 = snd (Exec env (Pragma ''wal_checkpoint(TRUNCATE)'') w1)
        in if ow_hung w2 then w2 else close_db (w2\<lparr>ow_prepared := []\<rparr>))"

definition BeginBatch :: "writer_env \<Rightarrow> OutputWriter \<Rightarrow> OutputWriter" where
  "BeginBatch env w =
     (if ow_db w = None then w
      else let w1 = w\<lparr>ow_depth := ow_depth w + 1\<rparr>
           in if ow_depth w = 0 then snd (Exec env BeginImmediate w1) else w1)"

definition CommitBatch :: "writer_env \<Rightarrow> OutputWriter \<Rightarrow> OutputWriter" where
  "CommitBatch env w =
     (if ow_db w = None \<or> ow_depth w \<le> 0 then w
      else let w1 = w\<lparr>ow_depth := ow_depth w - 1\<rparr>
           in if ow_depth w1 = 0 then snd (Exec env CommitCmd w1) else w1)"

section \<open>Rows\<close>

text \<open>One insert: the statement is prepared or the caller returns; whether the step succeeds is only logged.\<close>

definition put :: "writer_env \<Rightarrow> Stmt \<Rightarrow> sqlval list \<Rightarrow> OutputWriter \<Rightarrow> bool \<times> OutputWriter" where
  "put env st vs w = (case Prep env st w of (False, w1) \<Rightarrow> (False, w1) | (True, w1) \<Rightarrow> (True, snd (Step env st vs w1)))"

fun put_all :: "writer_env \<Rightarrow> Stmt \<Rightarrow> sqlval list list \<Rightarrow> OutputWriter \<Rightarrow> bool \<times> OutputWriter" where
  "put_all env st [] w = (True, w)"
| "put_all env st (vs # vss) w =
     (case put env st vs w of (False, w1) \<Rightarrow> (False, w1) | (True, w1) \<Rightarrow> put_all env st vss w1)"

text \<open>The sections of \<^verbatim>\<open>WriteHostRow\<close>: the loops return from the whole function when they cannot prepare.\<close>

datatype write_block = Once Stmt "sqlval list" | Loop Stmt "sqlval list list"

fun run_blocks :: "writer_env \<Rightarrow> write_block list \<Rightarrow> OutputWriter \<Rightarrow> OutputWriter" where
  "run_blocks env [] w = w"
| "run_blocks env (Once st vs # bs) w = run_blocks env bs (snd (put env st vs w))"
| "run_blocks env (Loop st vss # bs) w =
     (case put_all env st vss w of (False, w1) \<Rightarrow> w1 | (True, w1) \<Rightarrow> run_blocks env bs w1)"

definition host_vals :: "HostSnapshot \<Rightarrow> sqlval list" where
  "host_vals s =
     (let mv = mm_valid_mask (hs_mem s); vv = vm_valid_mask (hs_vm s) in
     [i64 (hs_ts_ns s), i64 (cs_user (hs_total s)), i64 (cs_nice (hs_total s)), i64 (cs_system (hs_total s)),
      i64 (cs_idle (hs_total s)), i64 (cs_iowait (hs_total s)), i64 (cs_irq (hs_total s)),
      i64 (cs_softirq (hs_total s)), i64 (cs_steal (hs_total s)), i64 (cs_guest (hs_total s)),
      i64 (cs_guest_nice (hs_total s)), SReal (la_load1 (hs_load s)), SReal (la_load5 (hs_load s)),
      SReal (la_load15 (hs_load s)), u32i (la_nr_running (hs_load s)), u32i (la_nr_threads (hs_load s)),
      opt64 (bit mv 0) (mm_mem_total_kb (hs_mem s)), opt64 (bit mv 1) (mm_mem_available_kb (hs_mem s)),
      opt64 (bit mv 2) (mm_mem_free_kb (hs_mem s)), opt64 (bit mv 3) (mm_buffers_kb (hs_mem s)),
      opt64 (bit mv 4) (mm_cached_kb (hs_mem s)), opt64 (bit mv 5) (mm_swap_total_kb (hs_mem s)),
      opt64 (bit mv 6) (mm_swap_free_kb (hs_mem s)), opt64 (bit mv 7) (mm_anon_pages_kb (hs_mem s)),
      opt64 (bit mv 8) (mm_sreclaimable_kb (hs_mem s)), opt64 (bit mv 9) (mm_shmem_kb (hs_mem s)),
      opt64 (bit mv 10) (mm_dirty_kb (hs_mem s)), opt64 (bit mv 11) (mm_writeback_kb (hs_mem s)),
      opt64 (bit mv 12) (mm_commit_limit_kb (hs_mem s)), opt64 (bit mv 13) (mm_committed_as_kb (hs_mem s)),
      u32i mv, opt64 (bit vv 0) (vm_pgfault (hs_vm s)), opt64 (bit vv 1) (vm_pgmajfault (hs_vm s)),
      opt64 (bit vv 2) (vm_pswpin (hs_vm s)), opt64 (bit vv 3) (vm_pswpout (hs_vm s)),
      opt64 (bit vv 4) (vm_pgscan_kswapd (hs_vm s)), opt64 (bit vv 5) (vm_pgscan_direct (hs_vm s)),
      opt64 (bit vv 6) (vm_pgsteal_kswapd (hs_vm s)), opt64 (bit vv 7) (vm_pgsteal_direct (hs_vm s)),
      opt64 (bit vv 8) (vm_workingset_refault (hs_vm s)), opt64 (bit vv 9) (vm_nr_dirty (hs_vm s)),
      opt64 (bit vv 10) (vm_nr_writeback (hs_vm s)), u32i vv] @
     psi_vals (ps_cpu (hs_psi s)) @ psi_vals (ps_io (hs_psi s)) @ psi_vals (ps_memory (hs_psi s)) @
     [i64 (hs_ctxt s), i64 (hs_processes s), i64 (hs_procs_running s),
      i64 (hs_procs_blocked s)])"

definition host_cpu_vals :: "HostSnapshot \<Rightarrow> nat \<Rightarrow> CpuStat \<Rightarrow> sqlval list" where
  "host_cpu_vals s ci cpu =
     [i64 (hs_ts_ns s), SInt (int ci), i64 (cs_user cpu), i64 (cs_nice cpu), i64 (cs_system cpu),
      i64 (cs_idle cpu), i64 (cs_iowait cpu), i64 (cs_irq cpu), i64 (cs_softirq cpu), i64 (cs_steal cpu),
      i64 (cs_guest cpu), i64 (cs_guest_nice cpu)]"

definition host_disk_vals :: "HostSnapshot \<Rightarrow> DiskStatRow \<Rightarrow> sqlval list" where
  "host_disk_vals s d =
     (let dv = ds_valid_mask d in
     [i64 (hs_ts_ns s), stext (ds_name d), u32i (ds_major d), u32i (ds_minor d),
      opt64 (bit dv 0) (ds_reads_completed d), opt64 (bit dv 4) (ds_writes_completed d),
      opt64 (bit dv 2) (ds_sectors_read d), opt64 (bit dv 6) (ds_sectors_written d),
      opt64 (bit dv 3) (ds_read_ticks_ms d), opt64 (bit dv 7) (ds_write_ticks_ms d),
      opt64 (bit dv 1) (ds_reads_merged d), opt64 (bit dv 5) (ds_writes_merged d),
      opt64 (bit dv 8) (ds_ios_in_flight d), opt64 (bit dv 10) (ds_weighted_ticks_ms d), u32i dv])"

definition host_proc_vals :: "HostSnapshot \<Rightarrow> ProcessRow \<Rightarrow> sqlval list" where
  "host_proc_vals s p =
     [i64 (hs_ts_ns s), u32i (pr_pid p), u32i (pr_tgid p), u32i (pr_state p), i64 (pr_start_time p),
      i64 (pr_utime p), i64 (pr_stime p), i64 (pr_nvcsw p), i64 (pr_nivcsw p), i64 (pr_minflt p),
      i64 (pr_majflt p), i64 (pr_total_vm p), opt64 (pr_rss_valid p) (pr_rss_kb p), stext (pr_comm p)]"

definition net_stack_vals :: "NetworkSnapshot \<Rightarrow> sqlval list" where
  "net_stack_vals net =
     (let t = nw_stack net in
     [i64 (nw_ts_ns net), i64 (ns_netns_ino t), stext (ns_source t), flag (ns_valid t), stext (ns_error t),
      i64 (ns_active_opens t), i64 (ns_passive_opens t), i64 (ns_attempt_fails t), i64 (ns_estab_resets t),
      i64 (ns_curr_estab t), i64 (ns_in_segs t), i64 (ns_out_segs t), i64 (ns_retrans_segs t), i64 (ns_in_errs t),
      i64 (ns_out_rsts t), i64 (ns_listen_overflows t), i64 (ns_listen_drops t), i64 (ns_backlog_drop t),
      i64 (ns_rcv_q_drop t), i64 (ns_syn_retrans t), i64 (ns_timeouts t), i64 (ns_memory_pressures t),
      i64 (ns_udp_in_datagrams t), i64 (ns_udp_no_ports t), i64 (ns_udp_in_errors t), i64 (ns_udp_out_datagrams t),
      i64 (ns_udp_rcvbuf_errors t), i64 (ns_udp_sndbuf_errors t), i64 (ns_tcp_sock_mem t), i64 (ns_udp_sock_mem t),
      i64 (ns_frag_sock_mem t), opt64 (ns_tcp_states_valid t) (ns_tcp_state_established t),
      opt64 (ns_tcp_states_valid t) (ns_tcp_state_syn_sent t),
      opt64 (ns_tcp_states_valid t) (ns_tcp_state_syn_recv t),
      opt64 (ns_tcp_states_valid t) (ns_tcp_state_fin_wait1 t),
      opt64 (ns_tcp_states_valid t) (ns_tcp_state_fin_wait2 t),
      opt64 (ns_tcp_states_valid t) (ns_tcp_state_time_wait t),
      opt64 (ns_tcp_states_valid t) (ns_tcp_state_close t),
      opt64 (ns_tcp_states_valid t) (ns_tcp_state_close_wait t),
      opt64 (ns_tcp_states_valid t) (ns_tcp_state_last_ack t),
      opt64 (ns_tcp_states_valid t) (ns_tcp_state_listen t),
      opt64 (ns_tcp_states_valid t) (ns_tcp_state_closing t), opt64 (ns_tcp_states_valid t) (ns_rqueue_bytes t),
      opt64 (ns_tcp_states_valid t) (ns_wqueue_bytes t), flag (ns_tcp_states_valid t)])"

definition net_iface_vals :: "NetworkSnapshot \<Rightarrow> NetInterfaceRow \<Rightarrow> sqlval list" where
  "net_iface_vals net i =
     [i64 (nw_ts_ns net), u32i (ni_ifindex i), stext (ni_name i),
      if ni_operstate i \<ge> 0 then SInt (ni_operstate i) else SNull, u32i (ni_mtu i), stext ''netlink'',
      flag (ni_valid i), stext (ni_error i), i64 (ni_rx_bytes i), i64 (ni_rx_packets i), i64 (ni_rx_errors i),
      i64 (ni_rx_dropped i), i64 (ni_tx_bytes i), i64 (ni_tx_packets i), i64 (ni_tx_errors i),
      i64 (ni_tx_dropped i), i64 (ni_collisions i), i64 (ni_carrier_changes i), i64 (ni_rx_nohandler i)]"

definition net_softnet_vals :: "NetworkSnapshot \<Rightarrow> NetSoftnetRow \<Rightarrow> sqlval list" where
  "net_softnet_vals net n =
     [i64 (nw_ts_ns net), u32i (nq_cpu_idx n), i64 (nq_processed n), i64 (nq_dropped n), i64 (nq_time_squeeze n),
      i64 (nq_received_rps n), i64 (nq_flow_limit_count n), i64 (nq_backlog_len n), i64 (nq_net_rx_softirq n),
      i64 (nq_net_tx_softirq n), flag (nq_valid n), stext (nq_error n)]"

definition gpu_dev_vals :: "GpuSnapshot \<Rightarrow> GpuDeviceRow \<Rightarrow> sqlval list" where
  "gpu_dev_vals gpu d =
     [i64 (gs_ts_ns gpu), stext (gd_uuid d), stext (gd_pci_bdf d), stext (gd_vendor d), stext (gd_model d),
      stext (gd_source d), flag (gd_available d), flag (gd_is_mig d), SReal (gd_util_pct d),
      SReal (gd_mem_util_pct d), opt64 (bit (gd_valid_mask d) 2) (gd_mem_used_bytes d),
      opt64 (bit (gd_valid_mask d) 3) (gd_mem_total_bytes d), SReal (gd_temperature_c d), SReal (gd_power_w d),
      SReal (gd_power_limit_w d), opt64 (bit (gd_valid_mask d) 7) (gd_energy_mj d),
      SInt (sint (gd_sm_clock_mhz d)), SInt (sint (gd_mem_clock_mhz d)),
      opt64 (bit (gd_valid_mask d) 10) (gd_pcie_rx_kbps d), opt64 (bit (gd_valid_mask d) 11) (gd_pcie_tx_kbps d),
      SReal (gd_encoder_util_pct d), SReal (gd_decoder_util_pct d), i64 (gd_throttle_reasons d),
      opt64 (bit (gd_valid_mask d) 15) (gd_ecc_sbe_total d), opt64 (bit (gd_valid_mask d) 16) (gd_ecc_dbe_total d),
      opt64 (bit (gd_valid_mask d) 17) (gd_retired_pages d), u32i (gd_valid_mask d), SInt (sint (gd_error_code d)),
      stext (gd_error_text d)]"

definition cgroup_vals :: "CgroupSnapshot \<Rightarrow> sqlval list" where
  "cgroup_vals cg =
     [i64 (cg_ts_ns cg), flag (cg_available cg), stext (cg_cgroup_path cg), stext (cg_error cg),
      opt64 (cg_cpu_valid cg) (cg_cpu_usage_usec cg), opt64 (cg_cpu_valid cg) (cg_user_usec cg),
      opt64 (cg_cpu_valid cg) (cg_system_usec cg), opt64 (cg_cpu_valid cg) (cg_nr_periods cg),
      opt64 (cg_cpu_valid cg) (cg_nr_throttled cg), opt64 (cg_cpu_valid cg) (cg_throttled_usec cg),
      flag (cg_cpu_valid cg), opt64 (cg_memory_valid cg) (cg_memory_current_bytes cg),
      if cg_memory_valid cg \<and> cg_memory_max_unlimited cg then SNull else opt64 (cg_memory_valid cg) (cg_memory_max_bytes cg),
      if cg_memory_valid cg then flag (cg_memory_max_unlimited cg) else SNull,
      opt64 (cg_memory_valid cg) (cg_memory_events_low cg), opt64 (cg_memory_valid cg) (cg_memory_events_high cg),
      opt64 (cg_memory_valid cg) (cg_memory_events_max cg), opt64 (cg_memory_valid cg) (cg_memory_events_oom cg),
      opt64 (cg_memory_valid cg) (cg_memory_events_oom_kill cg), flag (cg_memory_valid cg)] @
     psi_vals (cg_cpu_psi cg) @ psi_vals (cg_memory_psi cg)"

definition cgroup_io_vals :: "CgroupSnapshot \<Rightarrow> CgroupIOStat \<Rightarrow> sqlval list" where
  "cgroup_io_vals cg io =
     [i64 (cg_ts_ns cg), SInt (sint (ci_major io)), SInt (sint (ci_minor io)), i64 (ci_rbytes io),
      i64 (ci_wbytes io), i64 (ci_rios io), i64 (ci_wios io), i64 (ci_dbytes io), i64 (ci_dios io)]"

definition bpf_vals :: "BpfStatsSnapshot \<Rightarrow> BpfProgStats \<Rightarrow> sqlval list" where
  "bpf_vals s p =
     [i64 (bs_ts_ns s), stext (bp_name p), u32i (bp_id p), i64 (bp_run_cnt p), i64 (bp_run_time_ns p),
      SReal (if bp_run_cnt p \<noteq> 0 then of_nat (unat (bp_run_time_ns p)) / of_nat (unat (bp_run_cnt p)) else 0),
      i64 (bs_interval_ns s)]"

definition overhead_vals :: "ProcOverhead \<Rightarrow> sqlval list" where
  "overhead_vals s =
     [i64 (po_ts_ns s), i64 (po_utime_ns s), i64 (po_stime_ns s), i64 (po_nvcsw s), i64 (po_nivcsw s),
      i64 (po_minflt s), i64 (po_majflt s), i64 (po_rss_kb s), i64 (po_vmhwm_kb s)]"

definition series_vals :: "int \<Rightarrow> int \<Rightarrow> CanonicalSnapshot \<Rightarrow> sqlval list" where
  "series_vals ordinal phase s =
     [SInt ordinal, SInt phase, i64 (sn_ts_ns s), u32i (sn_tid s), u32i (sn_tgid s), stext (sn_comm s),
      u32i (sn_flags s), i64 (sn_on_cpu_ns s), u32i (sn_nr_sw_vol s), u32i (sn_nr_sw_invol s), i64 (sn_io_ops s),
      i64 (sn_io_bytes s), hist_json (sn_io_hist s), u32i (sn_pf_minor s), u32i (sn_pf_major s),
      i64 (sn_lock_waits s), i64 (sn_lock_lat_ns s), hist_json (sn_lock_hist s), i64 (sn_syscall_count s),
      i64 (sn_syscall_lat_ns s), hist_json (sn_syscall_hist s), i64 (sn_futex_waits s), i64 (sn_futex_lat_ns s),
      hist_json (sn_futex_hist s), u32i (sn_runq_wait_count s), i64 (sn_runq_wait_ns s), hist_json (sn_runq_hist s)]"

definition deep_proc_vals :: "int \<Rightarrow> DeepProcessRow \<Rightarrow> sqlval list" where
  "deep_proc_vals ordinal r =
     [SInt ordinal, i64 (dp_ts_ns r), u32i (dp_tid r), u32i (dp_tgid r), stext (dp_comm r),
      opt64 (dp_status_valid r) (dp_vm_rss_kb r), opt64 (dp_status_valid r) (dp_rss_anon_kb r),
      opt64 (dp_status_valid r) (dp_rss_file_kb r), opt64 (dp_status_valid r) (dp_rss_shmem_kb r),
      opt64 (dp_status_valid r) (dp_vm_swap_kb r), flag (dp_status_valid r), opt64 (dp_io_valid r) (dp_rchar r),
      opt64 (dp_io_valid r) (dp_wchar r), opt64 (dp_io_valid r) (dp_read_bytes r),
      opt64 (dp_io_valid r) (dp_write_bytes r), opt64 (dp_io_valid r) (dp_syscr r),
      opt64 (dp_io_valid r) (dp_syscw r), flag (dp_io_valid r),
      opt64 (dp_sched_valid r) (dp_sched_exec_runtime_ns r), opt64 (dp_sched_valid r) (dp_sched_run_delay_ns r),
      opt64 (dp_sched_valid r) (dp_sched_switch_count r), flag (dp_sched_valid r), flag (dp_available r),
      stext (dp_error r)]"

definition io_device_vals :: "int \<Rightarrow> DeepIoDeviceRow \<Rightarrow> sqlval list" where
  "io_device_vals ordinal r =
     [SInt ordinal, u32i (di_dev r), i64 (di_ops r), i64 (di_bytes r), i64 (di_lat_sum r), hist_json (di_hist r),
      SReal (di_p50_us r), SReal (di_p99_us r)]"

definition net_flow_vals :: "int \<Rightarrow> DeepNetFlowRow \<Rightarrow> sqlval list" where
  "net_flow_vals ordinal r =
     [SInt ordinal, i64 (df_cookie r), u32i (df_tgid r), u32i (df_tid r), i64 (df_netns_ino r), u32i (df_family r),
      i64 (df_local_addr r), u32i (df_local_port r), i64 (df_remote_addr r), u32i (df_remote_port r),
      u32i (df_final_state r), i64 (df_start_ts_ns r), i64 (df_established_ts_ns r), i64 (df_end_ts_ns r),
      i64 (df_duration_us r), i64 (df_connect_latency_us r), i64 (df_tx_bytes r), i64 (df_rx_bytes r),
      i64 (df_retransmits r), u32i (df_rst_reason r), i64 (df_rtt_count r), i64 (df_rtt_avg_us r),
      i64 (df_rtt_p50_us r), i64 (df_rtt_p99_us r), flag (df_closed r), flag (df_owner_available r),
      stext (df_error r)]"

definition net_drop_vals :: "int \<Rightarrow> DeepNetDropRow \<Rightarrow> sqlval list" where
  "net_drop_vals ordinal r =
     [SInt ordinal, i64 (dd_netns_ino r), u32i (dd_ifindex r), SInt (sint (dd_reason_id r)), stext (dd_reason r),
      i64 (dd_count r)]"

definition net_softirq_vals :: "int \<Rightarrow> DeepNetSoftirqRow \<Rightarrow> sqlval list" where
  "net_softirq_vals ordinal r =
     [SInt ordinal, u32i (dn_cpu_idx r), SInt (sint (dn_vector r)), stext (dn_vector_name r), i64 (dn_count r),
      i64 (dn_time_ns r), stext (dn_hist r)]"

definition gpu_process_vals :: "int \<Rightarrow> DeepGpuProcessRow \<Rightarrow> sqlval list" where
  "gpu_process_vals ordinal r =
     [SInt ordinal, i64 (dg_ts_ns r), stext (dg_gpu_uuid r), u32i (dg_pid r), u32i (dg_tgid r), stext (dg_comm r),
      stext (dg_source r), SReal (dg_sm_util_pct r), SReal (dg_mem_util_pct r), SReal (dg_enc_util_pct r),
      SReal (dg_dec_util_pct r), i64 (dg_fb_used_bytes r), i64 (dg_source_ts_us r), u32i (dg_valid_mask r),
      stext (dg_error r)]"

definition offcpu_vals :: "int \<Rightarrow> DeepOffcpuRow \<Rightarrow> sqlval list" where
  "offcpu_vals ordinal r =
     [SInt ordinal, u32i (dq_tid r), u32i (dq_tgid r), stext (dq_comm r), i64 (dq_dwell_ns r), i64 (dq_count r),
      SInt (dq_stack_available r)]"

definition host_metric_blocks :: "HostSnapshot \<Rightarrow> write_block list" where
  "host_metric_blocks s =
     [Once S_HOST_INS (host_vals s),
      Loop S_HOST_CPU_INS (map (\<lambda>(ci, cpu). host_cpu_vals s ci cpu) (enumerate 0 (hs_cpus s))),
      Loop S_HOST_DISK_INS (map (host_disk_vals s) (hs_disks s)),
      Loop S_HOST_PROC_INS (map (host_proc_vals s) (hs_procs s))]"

definition network_blocks :: "NetworkSnapshot \<Rightarrow> write_block list" where
  "network_blocks net =
     [Once S_NET_STACK_INS (net_stack_vals net),
      Loop S_NET_IFACE_INS (map (net_iface_vals net) (nw_ifaces net)),
      Loop S_NET_SOFTNET_INS (map (net_softnet_vals net) (nw_softnets net))]"

definition gpu_cgroup_blocks :: "GpuSnapshot \<Rightarrow> CgroupSnapshot \<Rightarrow> write_block list" where
  "gpu_cgroup_blocks gpu cg =
     [Loop S_GPU_DEV_INS (map (gpu_dev_vals gpu) (gs_devices gpu)),
      Once S_CGROUP_INS (cgroup_vals cg),
      Loop S_CGROUP_IO_INS (map (cgroup_io_vals cg) (cg_io cg))]"

definition host_blocks :: "HostSnapshot \<Rightarrow> NetworkSnapshot \<Rightarrow> GpuSnapshot \<Rightarrow> CgroupSnapshot \<Rightarrow> write_block list" where
  "host_blocks s net gpu cg = host_metric_blocks s @ network_blocks net @ gpu_cgroup_blocks gpu cg"

definition WriteHostRow :: "writer_env \<Rightarrow> HostSnapshot \<Rightarrow> NetworkSnapshot \<Rightarrow> GpuSnapshot \<Rightarrow> CgroupSnapshot
    \<Rightarrow> OutputWriter \<Rightarrow> OutputWriter" where
  "WriteHostRow env s net gpu cg w =
     (if ow_db w = None then w else run_blocks env (host_blocks s net gpu cg) w)"

definition WriteBpfStats :: "writer_env \<Rightarrow> BpfStatsSnapshot \<Rightarrow> OutputWriter \<Rightarrow> OutputWriter" where
  "WriteBpfStats env s w =
     (if ow_db w = None then w else snd (put_all env S_BPF_INS (map (bpf_vals s) (bs_progs s)) w))"

definition WriteProcOverhead :: "writer_env \<Rightarrow> ProcOverhead \<Rightarrow> OutputWriter \<Rightarrow> OutputWriter" where
  "WriteProcOverhead env s w = (if ow_db w = None then w else snd (put env S_OVERHEAD_INS (overhead_vals s) w))"

section \<open>Rows from JSON\<close>

text \<open>
  \<^verbatim>\<open>j.value(key, default)\<close> raises when \<open>j\<close> is no object or the member has another type;
  \<^verbatim>\<open>unsigned long long\<close> is converted like \<^verbatim>\<open>uint32_t\<close>, not like the library's own unsigned type.
\<close>

definition jvalue :: "(json \<Rightarrow> json_error + 'a) \<Rightarrow> json \<Rightarrow> string \<Rightarrow> 'a \<Rightarrow> json_error + 'a" where
  "jvalue cv j k d =
     (case j of JObj ms \<Rightarrow> (if jcontains j k then cv (jget j k) else Inr d) | _ \<Rightarrow> Inl TypeError)"

definition get_ull :: "json \<Rightarrow> json_error + u64" where
  "get_ull j = (case j of JInt i \<Rightarrow> Inr (word_of_int i) | JDbl q \<Rightarrow> cast_double q
                | JBool b \<Rightarrow> Inr (if b then 1 else 0) | _ \<Rightarrow> Inl TypeError)"

definition get_i64 :: "json \<Rightarrow> json_error + int" where
  "get_i64 j =
     (case j of JInt i \<Rightarrow> Inr (sint (word_of_int i :: u64))
      | JDbl q \<Rightarrow> (if - (2 ^ 63) - 1 < q \<and> q < 2 ^ 63 then Inr (if q < 0 then \<lceil>q\<rceil> else \<lfloor>q\<rfloor>) else Inl UndefinedCast)
      | _ \<Rightarrow> Inl TypeError)"

definition bindv :: "('a \<Rightarrow> sqlval) \<Rightarrow> json_error + 'a \<Rightarrow> json_error + sqlval" where
  "bindv f r = (case r of Inl e \<Rightarrow> Inl e | Inr v \<Rightarrow> Inr (f v))"

fun bind_all :: "(json_error + sqlval) list \<Rightarrow> json_error + sqlval list" where
  "bind_all [] = Inr []"
| "bind_all (r # rs) =
     (case r of Inl e \<Rightarrow> Inl e
      | Inr v \<Rightarrow> (case bind_all rs of Inl e \<Rightarrow> Inl e | Inr vs \<Rightarrow> Inr (v # vs)))"

definition jull :: "json \<Rightarrow> string \<Rightarrow> json_error + sqlval" where
  "jull j k = bindv i64 (jvalue get_ull j k 0)"

definition jelems :: "json \<Rightarrow> json list" where
  "jelems j = (case j of JArr xs \<Rightarrow> xs | JObj ms \<Rightarrow> map snd ms | JNull \<Rightarrow> [] | x \<Rightarrow> [x])"

text \<open>A row whose values may raise: the exception leaves the function after the statement is prepared.\<close>

definition put_json :: "writer_env \<Rightarrow> Stmt \<Rightarrow> (OutputWriter \<Rightarrow> json_error + sqlval list) \<Rightarrow> OutputWriter
    \<Rightarrow> json_error option \<times> bool \<times> OutputWriter" where
  "put_json env st f w =
     (case Prep env st w of
        (False, w1) \<Rightarrow> (None, False, w1)
      | (True, w1) \<Rightarrow>
          (case f w1 of
             Inl e \<Rightarrow> (Some e, True, w1)
           | Inr vs \<Rightarrow> (None, True, snd (Step env st vs w1))))"

definition col_text :: "sqlval \<Rightarrow> string" where
  "col_text v = (case v of SText s \<Rightarrow> s | _ \<Rightarrow> [])"

definition col_int64 :: "sqlval \<Rightarrow> int" where
  "col_int64 v =
     (case v of SNull \<Rightarrow> 0 | SInt i \<Rightarrow> i | SReal q \<Rightarrow> (if q < 0 then \<lceil>q\<rceil> else \<lfloor>q\<rfloor>)
      | SText s \<Rightarrow> (case scan_lld s of None \<Rightarrow> 0 | Some i \<Rightarrow> i))"

text \<open>The name of the last event of a thread.\<close>

definition LatestTidComm :: "OutputWriter \<Rightarrow> u32 \<Rightarrow> string" where
  "LatestTidComm w tid =
     (case ow_db w of
        None \<Rightarrow> []
      | Some d \<Rightarrow>
          (case sort_key (\<lambda>r. col_int64 (val r ''seq''))
                  (filter (\<lambda>r. val r ''tid'' = u32i tid) (rows (db_tables d) ''targets_log'')) of
             [] \<Rightarrow> []
           | r # rs \<Rightarrow> col_text (val (last (r # rs)) ''comm'')))"

definition anomaly_tid_vals :: "u64 \<Rightarrow> json \<Rightarrow> OutputWriter \<Rightarrow> json_error + sqlval list" where
  "anomaly_tid_vals ts t w =
     (case jvalue get_u32 t ''tid'' 0 of
        Inl e \<Rightarrow> Inl e
      | Inr tid \<Rightarrow>
          bind_all ([Inr (i64 ts), Inr (u32i tid), Inr (stext (LatestTidComm w tid))] @
            map (jull t) [''on_cpu_ns'', ''nr_sw_vol'', ''nr_sw_invol'', ''io_ops'', ''io_bytes'', ''pf_minor'', ''pf_major'',
              ''lock_waits'', ''lock_lat_ns'']))"

fun write_tids :: "writer_env \<Rightarrow> u64 \<Rightarrow> json list \<Rightarrow> OutputWriter \<Rightarrow> json_error option \<times> OutputWriter" where
  "write_tids env ts [] w = (None, w)"
| "write_tids env ts (t # tids) w =
     (case put_json env S_ANOMALY_TID_INS (anomaly_tid_vals ts t) w of
        (Some e, _, w1) \<Rightarrow> (Some e, w1)
      | (None, False, w1) \<Rightarrow> (None, w1)
      | (None, True, w1) \<Rightarrow> write_tids env ts tids w1)"

definition anomaly_vals :: "u64 \<Rightarrow> json \<Rightarrow> json \<Rightarrow> json_error + sqlval list" where
  "anomaly_vals ts f eb =
     bind_all ([Inr (i64 ts), jull f ''seq''] @
       map (jull eb) [''on_cpu_ns_total'', ''switch_total'', ''io_ops_total'', ''io_bytes_total'', ''minor_faults_total'',
         ''major_faults_total'', ''lock_waits_total''])"

definition WriteAnomalyFeatures :: "writer_env \<Rightarrow> json \<Rightarrow> OutputWriter \<Rightarrow> json_error option \<times> OutputWriter" where
  "WriteAnomalyFeatures env f w =
     (if ow_db w = None then (None, w)
      else case jvalue get_ull f ''ts_ns'' 0 of
             Inl e \<Rightarrow> (Some e, w)
           | Inr ts \<Rightarrow>
               (case jvalue Inr f ''ebpf'' (JObj []) of
                  Inl e \<Rightarrow> (Some e, w)
                | Inr eb \<Rightarrow>
                    (case put_json env S_ANOMALY_INS (\<lambda>_. anomaly_vals ts f eb) w of
                       (Some e, _, w1) \<Rightarrow> (Some e, w1)
                     | (None, _, w1) \<Rightarrow>
                         (case jvalue Inr eb ''per_tid'' (JArr []) of
                            Inl e \<Rightarrow> (Some e, w1)
                          | Inr pt \<Rightarrow> write_tids env ts (jelems pt) w1))))"

definition is_int :: "json \<Rightarrow> bool" where
  "is_int j = (case j of JInt i \<Rightarrow> True | _ \<Rightarrow> False)"

definition is_number :: "json \<Rightarrow> bool" where
  "is_number j = (case j of JInt i \<Rightarrow> True | JDbl q \<Rightarrow> True | _ \<Rightarrow> False)"

definition targets_vals :: "json \<Rightarrow> json_error + sqlval list" where
  "targets_vals e =
     bind_all
       [jull e ''ts_ns'', bindv stext (jvalue get_string e ''action'' []),
        if jcontains e ''tgid'' \<and> is_int (jget e ''tgid'') then bindv SInt (get_i64 (jget e ''tgid'')) else Inr SNull,
        bindv u32i (jvalue get_u32 e ''tid'' 0), bindv stext (jvalue get_string e ''comm'' []),
        if jcontains e ''score'' \<and> is_number (jget e ''score'') then bindv SReal (get_double (jget e ''score'')) else Inr SNull,
        if jcontains e ''rank'' \<and> is_int (jget e ''rank'') then bindv SInt (get_i64 (jget e ''rank'')) else Inr SNull]"

definition WriteTargetsEvent :: "writer_env \<Rightarrow> json \<Rightarrow> OutputWriter \<Rightarrow> json_error option \<times> OutputWriter" where
  "WriteTargetsEvent env e w =
     (if ow_db w = None then (None, w)
      else case put_json env S_TARGETS_INS (\<lambda>_. targets_vals e) w of (x, _, w1) \<Rightarrow> (x, w1))"

definition WriteMemoryEvent :: "writer_env \<Rightarrow> json \<Rightarrow> OutputWriter \<Rightarrow> json_error option \<times> OutputWriter" where
  "WriteMemoryEvent env e w =
     (if ow_db w = None then (None, w)
      else case jvalue get_ull e ''ts_ns'' 0 of
             Inl x \<Rightarrow> (Some x, w)
           | Inr ts \<Rightarrow>
               (let (x, _, w1) =
                  (if jcontains e ''pid''
                   then put_json env S_OOM_INS
                     (\<lambda>_. bind_all [Inr (i64 ts), bindv SInt (get_i64 (jget e ''pid'')), bindv stext (jvalue get_string e ''comm'' [])]) w
                   else put_json env S_MEMEV_INS
                     (\<lambda>_. bind_all [Inr (i64 ts), bindv u32i (jvalue get_u32 e ''kswapd_active'' 0),
                        bindv u32i (jvalue get_u32 e ''direct_reclaim'' 0), jull e ''nr_reclaimed'']) w)
                in (x, w1)))"

section \<open>Evidence of an episode\<close>

definition OpenDeep :: "writer_env \<Rightarrow> int \<Rightarrow> OutputWriter \<Rightarrow> bool \<times> OutputWriter" where
  "OpenDeep env ordinal w =
     (if ow_db w = None then (False, w)
      else let w1 = w\<lparr>ow_ordinal := ordinal, ow_last_deep_ts := 0\<rparr>
           in case Prep env S_EPISODE_INS w1 of
                (False, w2) \<Rightarrow> (False, w2)
              | (True, w2) \<Rightarrow> Step env S_EPISODE_INS [SInt ordinal] w2)"

definition CloseDeep :: "OutputWriter \<Rightarrow> OutputWriter" where
  "CloseDeep w = w\<lparr>ow_ordinal := - 1, ow_last_deep_ts := 0\<rparr>"

text \<open>Nothing is written outside an episode; every row carries its ordinal.\<close>

definition deep_put :: "writer_env \<Rightarrow> Stmt \<Rightarrow> (int \<Rightarrow> sqlval list) \<Rightarrow> OutputWriter \<Rightarrow> OutputWriter" where
  "deep_put env st f w =
     (if ow_db w = None \<or> ow_ordinal w < 0 then w else snd (put env st (f (ow_ordinal w)) w))"

definition WriteSeries :: "writer_env \<Rightarrow> int \<Rightarrow> CanonicalSnapshot \<Rightarrow> OutputWriter \<Rightarrow> OutputWriter" where
  "WriteSeries env phase s w =
     (if ow_db w = None \<or> ow_ordinal w < 0 then w
      else let w1 = w\<lparr>ow_last_deep_ts := sn_ts_ns s\<rparr>
           in snd (put env S_SERIES_INS (series_vals (ow_ordinal w1) phase s) w1))"

definition WritePreSeries :: "writer_env \<Rightarrow> CanonicalSnapshot \<Rightarrow> OutputWriter \<Rightarrow> OutputWriter" where
  "WritePreSeries env = WriteSeries env 0"

definition WritePostSeries :: "writer_env \<Rightarrow> CanonicalSnapshot \<Rightarrow> OutputWriter \<Rightarrow> OutputWriter" where
  "WritePostSeries env = WriteSeries env 1"

definition gap_vals :: "int \<Rightarrow> u64 \<Rightarrow> u64 \<Rightarrow> u64 \<Rightarrow> sqlval list" where
  "gap_vals o' ts from_head to_head =
     [SInt o', i64 ts, i64 from_head, i64 to_head]"

definition WritePostSeriesGap :: "writer_env \<Rightarrow> u64 \<Rightarrow> u64 \<Rightarrow> OutputWriter \<Rightarrow> OutputWriter" where
  "WritePostSeriesGap env from_head to_head w =
     deep_put env S_GAP_INS (\<lambda>o'. gap_vals o' (ow_last_deep_ts w) from_head to_head) w"

text \<open>\<^verbatim>\<open>dump\<close> raises on bytes that are not UTF-8.\<close>

definition WriteMeta :: "writer_env \<Rightarrow> (json \<Rightarrow> string option) \<Rightarrow> json \<Rightarrow> OutputWriter \<Rightarrow> bool \<times> OutputWriter" where
  "WriteMeta env dump meta w =
     (if ow_db w = None \<or> ow_ordinal w < 0 then (True, w)
      else case Prep env S_EPISODE_META w of
             (False, w1) \<Rightarrow> (True, w1)
           | (True, w1) \<Rightarrow>
               (case dump meta of
                  None \<Rightarrow> (False, w1)
                | Some s \<Rightarrow> (True, snd (Step env S_EPISODE_META [stext s, SInt (ow_ordinal w1)] w1))))"

definition WriteSummary :: "writer_env \<Rightarrow> string \<Rightarrow> OutputWriter \<Rightarrow> OutputWriter" where
  "WriteSummary env content = deep_put env S_EPISODE_SUMMARY (\<lambda>o'. [stext content, SInt o'])"

definition folded_vals :: "int \<Rightarrow> string \<Rightarrow> string \<Rightarrow> u64 \<Rightarrow> sqlval list" where
  "folded_vals o' kind frames value =
     [SInt o', stext kind, stext frames, i64 value]"

definition WriteFoldedLine :: "writer_env \<Rightarrow> string \<Rightarrow> string \<Rightarrow> u64 \<Rightarrow> OutputWriter \<Rightarrow> OutputWriter" where
  "WriteFoldedLine env kind frames value =
     deep_put env S_FOLDED_INS (\<lambda>o'. folded_vals o' kind frames value)"

definition syscall_vals :: "int \<Rightarrow> u32 \<Rightarrow> u32 \<Rightarrow> u64 \<Rightarrow> double \<Rightarrow> double \<Rightarrow> double \<Rightarrow> u64 \<Rightarrow> sqlval list" where
  "syscall_vals o' tid id' cnt avg_us p50_us p99_us error_count =
     [SInt o', u32i tid, u32i id', stext (SyscallName id'), i64 cnt, SReal avg_us,
       SReal p50_us, SReal p99_us, i64 error_count]"

definition WriteDeepSyscall :: "writer_env \<Rightarrow> u32 \<Rightarrow> u32 \<Rightarrow> u64 \<Rightarrow> double \<Rightarrow> double \<Rightarrow> double \<Rightarrow> u64
    \<Rightarrow> OutputWriter \<Rightarrow> OutputWriter" where
  "WriteDeepSyscall env tid id' cnt avg_us p50_us p99_us error_count =
     deep_put env S_SYSCALL_INS (\<lambda>o'. syscall_vals o' tid id' cnt avg_us p50_us p99_us error_count)"

definition lock_vals :: "int \<Rightarrow> u64 \<Rightarrow> u64 \<Rightarrow> u64 \<Rightarrow> string option \<Rightarrow> sqlval list" where
  "lock_vals o' addr cnt lat_sum sy =
     [SInt o', stext (''0x'' @ show_hex (unat addr)),
       stext (case sy of None \<Rightarrow> [] | Some s \<Rightarrow> s), i64 cnt, i64 lat_sum,
       if cnt \<noteq> 0 then i64 (lat_sum div cnt) else SInt 0]"

definition WriteDeepLock :: "writer_env \<Rightarrow> u64 \<Rightarrow> u64 \<Rightarrow> u64 \<Rightarrow> string option \<Rightarrow> OutputWriter \<Rightarrow> OutputWriter" where
  "WriteDeepLock env addr cnt lat_sum sy =
     deep_put env S_LOCK_INS (\<lambda>o'. lock_vals o' addr cnt lat_sum sy)"

definition runq_vals :: "int \<Rightarrow> u32 \<Rightarrow> u64 \<Rightarrow> double \<Rightarrow> double \<Rightarrow> double \<Rightarrow> sqlval list" where
  "runq_vals o' tid cnt avg_us p50_us p99_us =
     [SInt o', u32i tid, i64 cnt, SReal avg_us, SReal p50_us, SReal p99_us]"

definition WriteDeepRunq :: "writer_env \<Rightarrow> u32 \<Rightarrow> u64 \<Rightarrow> double \<Rightarrow> double \<Rightarrow> double \<Rightarrow> OutputWriter \<Rightarrow> OutputWriter" where
  "WriteDeepRunq env tid cnt avg_us p50_us p99_us =
     deep_put env S_RUNQ_INS (\<lambda>o'. runq_vals o' tid cnt avg_us p50_us p99_us)"

definition iofile_vals :: "int \<Rightarrow> u32 \<Rightarrow> u64 \<Rightarrow> string option \<Rightarrow> u64 \<Rightarrow> u32 \<Rightarrow> u64 \<Rightarrow> u64 \<Rightarrow> u32 list option \<Rightarrow> double \<Rightarrow> double \<Rightarrow> sqlval list" where
  "iofile_vals o' dev ino path nbytes ops errs lat_sum hist p50_us p99_us =
     [SInt o', u32i dev, i64 ino, stext (case path of None \<Rightarrow> [] | Some p \<Rightarrow> p), i64 nbytes,
       u32i ops, i64 errs, i64 lat_sum, case hist of None \<Rightarrow> stext ''[]'' | Some h \<Rightarrow> hist_json h, SReal p50_us, SReal p99_us]"

definition WriteDeepIoFile :: "writer_env \<Rightarrow> u32 \<Rightarrow> u64 \<Rightarrow> string option \<Rightarrow> u64 \<Rightarrow> u32 \<Rightarrow> u64 \<Rightarrow> u64 \<Rightarrow> u32 list option
    \<Rightarrow> double \<Rightarrow> double \<Rightarrow> OutputWriter \<Rightarrow> OutputWriter" where
  "WriteDeepIoFile env dev ino path nbytes ops errs lat_sum hist p50_us p99_us =
     deep_put env S_IOFILE_INS (\<lambda>o'. iofile_vals o' dev ino path nbytes ops errs lat_sum hist p50_us p99_us)"

definition WriteDeepProcess :: "writer_env \<Rightarrow> DeepProcessRow \<Rightarrow> OutputWriter \<Rightarrow> OutputWriter" where
  "WriteDeepProcess env r = deep_put env S_DEEP_PROC_INS (\<lambda>o'. deep_proc_vals o' r)"

definition WriteDeepIoDevice :: "writer_env \<Rightarrow> DeepIoDeviceRow \<Rightarrow> OutputWriter \<Rightarrow> OutputWriter" where
  "WriteDeepIoDevice env r = deep_put env S_DEEP_IODEV_INS (\<lambda>o'. io_device_vals o' r)"

definition WriteDeepNetFlow :: "writer_env \<Rightarrow> DeepNetFlowRow \<Rightarrow> OutputWriter \<Rightarrow> OutputWriter" where
  "WriteDeepNetFlow env r = deep_put env S_NET_FLOW_INS (\<lambda>o'. net_flow_vals o' r)"

definition WriteDeepNetDrop :: "writer_env \<Rightarrow> DeepNetDropRow \<Rightarrow> OutputWriter \<Rightarrow> OutputWriter" where
  "WriteDeepNetDrop env r = deep_put env S_NET_DROP_INS (\<lambda>o'. net_drop_vals o' r)"

definition WriteDeepNetSoftirq :: "writer_env \<Rightarrow> DeepNetSoftirqRow \<Rightarrow> OutputWriter \<Rightarrow> OutputWriter" where
  "WriteDeepNetSoftirq env r = deep_put env S_NET_SOFTIRQ_INS (\<lambda>o'. net_softirq_vals o' r)"

definition WriteDeepGpuProcess :: "writer_env \<Rightarrow> DeepGpuProcessRow \<Rightarrow> OutputWriter \<Rightarrow> OutputWriter" where
  "WriteDeepGpuProcess env r = deep_put env S_DEEP_GPU_PROC_INS (\<lambda>o'. gpu_process_vals o' r)"

definition WriteDeepOffcpu :: "writer_env \<Rightarrow> DeepOffcpuRow \<Rightarrow> OutputWriter \<Rightarrow> OutputWriter" where
  "WriteDeepOffcpu env r = deep_put env S_OFFCPU_INS (\<lambda>o'. offcpu_vals o' r)"

end
