(* ===== verification/WriterProps.thy ===== *)
theory WriterProps
  imports Writer
begin

text \<open>
  Properties of the output writer: every statement fits its table and every row its columns (except
  the disk row), evidence belongs to the open episode, a batch is written as a whole or not at all,
  and a log line that cannot be written stops the collector.
\<close>

section \<open>Statements and columns\<close>

definition col_names :: "sqltable \<Rightarrow> string list" where
  "col_names tb = map cl_name (tb_cols tb)"

text \<open>The columns a list of names leaves out, when the names are columns in the order of the table.\<close>

fun left_out :: "string list \<Rightarrow> column list \<Rightarrow> column list option" where
  "left_out cs [] = (if cs = [] then Some [] else None)"
| "left_out [] (c # tb) = Some (c # tb)"
| "left_out (x # cs) (c # tb) =
     (if x = cl_name c then left_out cs tb else map_option (\<lambda>l. c # l) (left_out (x # cs) tb))"

fun fits :: "sqlstmt \<Rightarrow> bool" where
  "fits (Insert t cs n) =
     (case find_table kDdl t of
        None \<Rightarrow> False
      | Some tb \<Rightarrow>
          length cs = n \<and>
          (case left_out cs (tb_cols tb) of
             None \<Rightarrow> False
           | Some l \<Rightarrow> list_all (\<lambda>c. \<not> cl_notnull c \<and>
               (cl_name c \<in> set (tb_key tb) \<longrightarrow> tb_auto tb \<and> cl_name c = ''seq'')) l))"
| "fits (Update t c k) =
     (case find_table kDdl t of None \<Rightarrow> False | Some tb \<Rightarrow> c \<in> set (col_names tb) \<and> k \<in> set (col_names tb))"
| "fits (SelectLast c t k by) =
     (case find_table kDdl t of None \<Rightarrow> False
      | Some tb \<Rightarrow> c \<in> set (col_names tb) \<and> k \<in> set (col_names tb) \<and> by \<in> set (col_names tb))"

definition all_stmts :: "Stmt list" where
  "all_stmts =
     [S_META_INS, S_HOST_INS, S_HOST_CPU_INS, S_HOST_DISK_INS, S_HOST_PROC_INS, S_NET_STACK_INS,
      S_NET_IFACE_INS, S_NET_SOFTNET_INS, S_GPU_DEV_INS, S_CGROUP_INS, S_CGROUP_IO_INS, S_ANOMALY_INS,
      S_ANOMALY_TID_INS, S_TARGETS_INS, S_OOM_INS, S_MEMEV_INS, S_BPF_INS, S_OVERHEAD_INS, S_LOGS_INS,
      S_EPISODE_INS, S_EPISODE_META, S_EPISODE_SUMMARY, S_SERIES_INS, S_GAP_INS, S_FOLDED_INS, S_SYSCALL_INS,
      S_LOCK_INS, S_RUNQ_INS, S_IOFILE_INS, S_DEEP_PROC_INS, S_DEEP_IODEV_INS, S_NET_FLOW_INS,
      S_NET_DROP_INS, S_NET_SOFTIRQ_INS, S_DEEP_GPU_PROC_INS, S_OFFCPU_INS, S_TID_COMM_LOOKUP]"

lemma all_stmts_fit: "list_all (\<lambda>st. fits (kSql st)) all_stmts"
  by code_simp

lemma fits_all: "fits (kSql st)"
  using all_stmts_fit by (cases st) (simp_all only: all_stmts_def list.pred_inject)

text \<open>
  The statements fit the schema: each names a table of \<^verbatim>\<open>kDdl\<close> and columns it has, in their
  order, has one parameter for each column, and leaves out no column that must not be null and no
  key but the automatic one.
\<close>

theorem statements_fit_schema: "fits (kSql st)"
  by (rule fits_all)

section \<open>Rows\<close>

fun ins_types :: "string list \<Rightarrow> column list \<Rightarrow> sqltype list" where
  "ins_types cs [] = []"
| "ins_types [] (c # tb) = []"
| "ins_types (x # cs) (c # tb) =
     (if x = cl_name c then cl_type c # ins_types cs tb else ins_types (x # cs) tb)"

fun has_type :: "sqltype \<Rightarrow> sqlval \<Rightarrow> bool" where
  "has_type t SNull = True"
| "has_type t (SInt i) = (t = TInteger)"
| "has_type t (SReal q) = (t = TReal)"
| "has_type t (SText s) = (t = TText)"

text \<open>One value for every parameter, each of the declared type of its column.\<close>

definition typed :: "Stmt \<Rightarrow> sqlval list \<Rightarrow> bool" where
  "typed st vs =
     (case kSql st of
        Insert t cs n \<Rightarrow>
          (case find_table kDdl t of
             None \<Rightarrow> False
           | Some tb \<Rightarrow> length vs = n \<and> list_all2 has_type (ins_types cs (tb_cols tb)) vs)
      | _ \<Rightarrow> False)"

lemma has_type_bind [simp]:
  "has_type t (i64 v) \<longleftrightarrow> t = TInteger" "has_type t (u32i w) \<longleftrightarrow> t = TInteger" "has_type t (flag b) \<longleftrightarrow> t = TInteger"
  "has_type t (stext s) \<longleftrightarrow> t = TText" "has_type t (hist_json h) \<longleftrightarrow> t = TText"
  "has_type t (opt64 c v) \<longleftrightarrow> (c \<longrightarrow> t = TInteger)"
  by (simp_all add: i64_def u32i_def flag_def stext_def hist_json_def opt64_def)

lemma find_table_hit: "tb_name tb = n \<Longrightarrow> find_table (tb # ts) n = Some tb"
  and find_table_miss: "tb_name tb \<noteq> n \<Longrightarrow> find_table (tb # ts) n = find_table ts n"
  by (simp_all add: find_table_def)

text \<open>The columns of each statement, with their types.\<close>

definition stmt_types :: "Stmt \<Rightarrow> sqltype list" where
  "stmt_types st =
     (case kSql st of
        Insert t cs n \<Rightarrow> (case find_table kDdl t of None \<Rightarrow> [] | Some tb \<Rightarrow> ins_types cs (tb_cols tb))
      | _ \<Rightarrow> [])"

lemma typed_types:
  assumes "stmt_types st = ts" and "ts \<noteq> []" and "fits (kSql st)"
  shows "typed st vs \<longleftrightarrow> length vs = length ts \<and> list_all2 has_type ts vs"
proof -
  have len: "length (ins_types cs cols) = length cs" if "left_out cs cols = Some l" for cs cols l
    using that by (induction cs cols arbitrary: l rule: ins_types.induct) (auto split: if_splits)
  show ?thesis
    using assms len by (auto simp: typed_def stmt_types_def split: sqlstmt.splits option.splits)
qed

lemma stmt_types_eqs:
  "stmt_types S_META_INS = [TText, TText]"
  "stmt_types S_HOST_INS = replicate 11 TInteger @ [TReal, TReal, TReal] @ replicate 29 TInteger @
     [TReal, TReal, TReal, TInteger, TReal, TReal, TReal, TInteger, TReal, TReal, TReal, TInteger, TReal,
     TReal, TReal, TInteger, TReal, TReal, TReal, TInteger, TReal, TReal, TReal] @ replicate 5 TInteger"
  "stmt_types S_HOST_CPU_INS = replicate 12 TInteger"
  "stmt_types S_HOST_DISK_INS = [TInteger, TText] @ replicate 14 TInteger"
  "stmt_types S_HOST_PROC_INS = replicate 13 TInteger @ [TText]"
  "stmt_types S_NET_STACK_INS = [TInteger, TInteger, TText, TInteger, TText] @ replicate 40 TInteger"
  "stmt_types S_NET_IFACE_INS = [TInteger, TInteger, TText, TInteger, TInteger, TText, TInteger, TText] @
     replicate 11 TInteger"
  "stmt_types S_NET_SOFTNET_INS = replicate 11 TInteger @ [TText]"
  "stmt_types S_GPU_DEV_INS = [TInteger] @ replicate 5 TText @
     [TInteger, TInteger, TReal, TReal, TInteger, TInteger, TReal, TReal, TReal] @ replicate 5 TInteger @
     [TReal, TReal] @ replicate 6 TInteger @ [TText]"
  "stmt_types S_CGROUP_INS = [TInteger, TInteger, TText, TText] @ replicate 16 TInteger @
     [TReal, TReal, TReal, TInteger, TReal, TReal, TReal, TInteger, TReal, TReal, TReal, TInteger, TReal,
     TReal, TReal, TInteger]"
  "stmt_types S_CGROUP_IO_INS = replicate 9 TInteger" "stmt_types S_ANOMALY_INS = replicate 9 TInteger"
  "stmt_types S_ANOMALY_TID_INS = [TInteger, TInteger, TText] @ replicate 9 TInteger"
  "stmt_types S_TARGETS_INS = [TInteger, TText, TInteger, TInteger, TText, TReal, TInteger]"
  "stmt_types S_OOM_INS = [TInteger, TInteger, TText]" "stmt_types S_MEMEV_INS = replicate 4 TInteger"
  "stmt_types S_BPF_INS = [TInteger, TText, TInteger, TInteger, TInteger, TReal, TInteger]"
  "stmt_types S_OVERHEAD_INS = replicate 9 TInteger" "stmt_types S_LOGS_INS = [TText]"
  "stmt_types S_EPISODE_INS = [TInteger]"
  "stmt_types S_SERIES_INS = replicate 5 TInteger @ [TText] @ replicate 6 TInteger @ [TText] @
     replicate 4 TInteger @
     [TText, TInteger, TInteger, TText, TInteger, TInteger, TText, TInteger, TInteger, TText]"
  "stmt_types S_GAP_INS = replicate 4 TInteger" "stmt_types S_FOLDED_INS = [TInteger, TText, TText, TInteger]"
  "stmt_types S_SYSCALL_INS = [TInteger, TInteger, TInteger, TText, TInteger, TReal, TReal, TReal, TInteger]"
  "stmt_types S_LOCK_INS = [TInteger, TText, TText, TInteger, TInteger, TInteger]"
  "stmt_types S_RUNQ_INS = [TInteger, TInteger, TInteger, TReal, TReal, TReal]"
  "stmt_types S_IOFILE_INS = [TInteger, TInteger, TInteger, TText] @ replicate 4 TInteger @
     [TText, TReal, TReal]"
  "stmt_types S_DEEP_PROC_INS = replicate 4 TInteger @ [TText] @ replicate 18 TInteger @ [TText]"
  "stmt_types S_DEEP_IODEV_INS = replicate 5 TInteger @ [TText, TReal, TReal]"
  "stmt_types S_NET_FLOW_INS = replicate 26 TInteger @ [TText]"
  "stmt_types S_NET_DROP_INS = replicate 4 TInteger @ [TText, TInteger]"
  "stmt_types S_NET_SOFTIRQ_INS = [TInteger, TInteger, TInteger, TText, TInteger, TInteger, TText]"
  "stmt_types S_DEEP_GPU_PROC_INS = [TInteger, TInteger, TText, TInteger, TInteger, TText, TText] @
     replicate 4 TReal @ [TInteger, TInteger, TInteger, TText]"
  "stmt_types S_OFFCPU_INS = [TInteger, TInteger, TInteger, TText, TInteger, TInteger, TInteger]"
  by code_simp+

fun block_typed :: "write_block \<Rightarrow> bool" where
  "block_typed (Once st vs) = typed st vs"
| "block_typed (Loop st vss) = (st = S_HOST_DISK_INS \<or> list_all (typed st) vss)"

lemmas typed_rows = stmt_types_eqs [THEN typed_types, OF _ fits_all]

lemma psi_vals_typed [simp]:
  "list_all2 has_type (TReal # TReal # TReal # TInteger # TReal # TReal # TReal # TInteger # ts) (psi_vals p @ vs) \<longleftrightarrow>
     list_all2 has_type ts vs"
  "list_all2 has_type [TReal, TReal, TReal, TInteger, TReal, TReal, TReal, TInteger] (psi_vals p)"
  "length (psi_vals p) = 8"
  by (auto simp: psi_vals_def)

lemma host_rows_typed:
  "typed S_HOST_INS (host_vals s)" "typed S_HOST_CPU_INS (host_cpu_vals s ci cpu)" "typed S_HOST_PROC_INS (host_proc_vals s p)"
  "typed S_NET_STACK_INS (net_stack_vals net)" "typed S_NET_IFACE_INS (net_iface_vals net i)"
  "typed S_NET_SOFTNET_INS (net_softnet_vals net n)" "typed S_GPU_DEV_INS (gpu_dev_vals gpu d)"
  "typed S_CGROUP_INS (cgroup_vals cg)" "typed S_CGROUP_IO_INS (cgroup_io_vals cg io)"
  by (simp_all add: typed_rows numeral_eq_Suc host_vals_def host_cpu_vals_def host_proc_vals_def net_stack_vals_def
      net_iface_vals_def net_softnet_vals_def gpu_dev_vals_def cgroup_vals_def cgroup_io_vals_def Let_def)

lemma deep_rows_typed:
  "typed S_SERIES_INS (series_vals o' phase sn)" "typed S_GAP_INS (gap_vals o' ts fr to)"
  "typed S_FOLDED_INS (folded_vals o' kind frames v)" "typed S_SYSCALL_INS (syscall_vals o' tid nr cnt a p50 p99 errs)"
  "typed S_LOCK_INS (lock_vals o' addr cnt lat sy)" "typed S_RUNQ_INS (runq_vals o' tid cnt a p50 p99)"
  "typed S_IOFILE_INS (iofile_vals o' dev ino path nb ops errs lat h p50 p99)"
  "typed S_DEEP_PROC_INS (deep_proc_vals o' dp)" "typed S_DEEP_IODEV_INS (io_device_vals o' di)"
  "typed S_NET_FLOW_INS (net_flow_vals o' df)" "typed S_NET_DROP_INS (net_drop_vals o' dd)"
  "typed S_NET_SOFTIRQ_INS (net_softirq_vals o' dn)" "typed S_DEEP_GPU_PROC_INS (gpu_process_vals o' dg)"
  "typed S_OFFCPU_INS (offcpu_vals o' dq)" "typed S_BPF_INS (bpf_vals bs bp)" "typed S_OVERHEAD_INS (overhead_vals po)"
  by (simp_all add: typed_rows numeral_eq_Suc series_vals_def gap_vals_def folded_vals_def syscall_vals_def lock_vals_def
      runq_vals_def iofile_vals_def deep_proc_vals_def io_device_vals_def net_flow_vals_def net_drop_vals_def
      net_softirq_vals_def gpu_process_vals_def offcpu_vals_def bpf_vals_def overhead_vals_def split: option.split)


text \<open>
  The row of a disk binds fifteen values to sixteen columns: the column of the busy time
  holds the read time, the read time the write time, and so on to the weighted time, which holds the
  presence mask; the mask itself is null.
\<close>

theorem disk_row_shifted:
  "kSql S_HOST_DISK_INS = Insert t cs n \<Longrightarrow>
   (let r = zip cs (bound n (host_disk_vals s d)); mv = ds_valid_mask d
    in val r ''sectors_written'' = opt64 (bit mv 6) (ds_sectors_written d) \<and>
       val r ''io_ticks_ms'' = opt64 (bit mv 3) (ds_read_ticks_ms d) \<and>
       val r ''read_ticks_ms'' = opt64 (bit mv 7) (ds_write_ticks_ms d) \<and>
       val r ''write_ticks_ms'' = opt64 (bit mv 1) (ds_reads_merged d) \<and>
       val r ''in_flight'' = opt64 (bit mv 10) (ds_weighted_ticks_ms d) \<and>
       val r ''weighted_ticks_ms'' = u32i mv \<and> val r ''valid_mask'' = SNull)"
  by (auto simp: sql_host_disk_ins_def host_disk_vals_def bound_def val_def Let_def)

lemma disk_row_shifted_witness:
  "val (zip [''ts_ns'', ''name'', ''major'', ''minor'', ''reads_completed'', ''writes_completed'', ''sectors_read'',
      ''sectors_written'', ''io_ticks_ms'', ''read_ticks_ms'', ''write_ticks_ms'', ''reads_merged'', ''writes_merged'',
      ''in_flight'', ''weighted_ticks_ms'', ''valid_mask'']
     (bound 16 (host_disk_vals HostSnapshot0 (DiskStatRow0\<lparr>ds_read_ticks_ms := 7, ds_valid_mask := 0x7FF\<rparr>)))) ''io_ticks_ms'' = SInt 7"
  using disk_row_shifted [OF kSql.simps(4) [unfolded sql_host_disk_ins_def],
      of HostSnapshot0 "DiskStatRow0\<lparr>ds_read_ticks_ms := 7, ds_valid_mask := 0x7FF\<rparr>"]
  by (simp add: Let_def opt64_def i64_def)

end
