(* ===== verification/WriterState.thy ===== *)
theory WriterState
  imports Writer
begin

text \<open>
  The output writer as a state machine: what a statement touches, that evidence belongs to the open
  episode, that a batch is written as a whole or not at all, and that a log line which cannot be
  written stops the collector.
\<close>


section \<open>What a statement touches\<close>

definition tabs :: "OutputWriter \<Rightarrow> tables" where
  "tabs w = (case ow_db w of None \<Rightarrow> [] | Some d \<Rightarrow> db_tables d)"

definition saved :: "OutputWriter \<Rightarrow> tables option" where
  "saved w = (case ow_db w of None \<Rightarrow> None | Some d \<Rightarrow> db_saved d)"

text \<open>Only the given tables change, and neither the transaction nor the episode nor the file.\<close>

definition touches :: "string list \<Rightarrow> OutputWriter \<Rightarrow> OutputWriter \<Rightarrow> bool" where
  "touches ts w w' \<longleftrightarrow> (ow_db w' = None \<longleftrightarrow> ow_db w = None) \<and> saved w' = saved w \<and> ow_ordinal w' = ow_ordinal w \<and>
     ow_depth w' = ow_depth w \<and> ow_sink w' = ow_sink w \<and> ow_file w' = ow_file w \<and>
     (\<forall>t. t \<notin> set ts \<longrightarrow> rows (tabs w') t = rows (tabs w) t)"

lemma touches_refl [intro, simp]: "touches ts w w"
  by (simp add: touches_def)

lemma touches_trans: "touches ts w w1 \<Longrightarrow> touches ts w1 w2 \<Longrightarrow> touches ts w w2"
  by (simp add: touches_def)

lemma touches_mono: "touches ts w w' \<Longrightarrow> set ts \<subseteq> set us \<Longrightarrow> touches us w w'"
  by (auto simp: touches_def)

lemma touches_flags [simp]:
  "touches ts w (w\<lparr>ow_hung := b\<rparr>)" "touches ts w (w\<lparr>ow_prepared := p\<rparr>)"
  by (simp_all add: touches_def tabs_def saved_def)

lemma rows_set_rows [simp]: "rows (set_rows t rs db) t' = (if t' = t then rs else rows db t')"
  by (simp add: rows_def set_rows_def update_conv)

fun stmt_table :: "sqlstmt \<Rightarrow> string" where
  "stmt_table (Insert t cs n) = t"
| "stmt_table (Update t c k) = t"
| "stmt_table (SelectLast c t k by) = t"

lemma run_stmt_other: "run_stmt ts st vs db = Some db' \<Longrightarrow> t \<noteq> stmt_table st \<Longrightarrow> rows db' t = rows db t"
  by (cases st) (auto split: option.splits)

lemma prep_or_touches:
  assumes "\<And>m w. touches ts w (err m w)"
  shows "touches ts w (snd (prep_or err env st w))"
  using assms by (simp add: prep_or_def)

lemma tables_touches:
  assumes "ow_db w = Some d" and "run_stmt kDdl st vs (db_tables d) = Some t" and "stmt_table st \<in> set ts"
  shows "touches ts w (w\<lparr>ow_db := Some (d\<lparr>db_tables := t\<rparr>)\<rparr>)"
proof -
  have r: "\<forall>u. u \<notin> set ts \<longrightarrow> rows t u = rows (db_tables d) u"
  proof (intro allI impI)
    fix u assume "u \<notin> set ts"
    with assms(3) have "u \<noteq> stmt_table st" by metis
    then show "rows t u = rows (db_tables d) u" by (rule run_stmt_other [OF assms(2)])
  qed
  show ?thesis unfolding touches_def tabs_def saved_def using r by (simp add: assms(1))
qed

lemma step_or_touches:
  assumes "\<And>m w. touches ts w (err m w)" and "stmt_table (kSql st) \<in> set ts"
  shows "touches ts w (snd (step_or err env st vs w))"
proof -
  obtain ok w1 where p: "prep_or err env st w = (ok, w1)" by fastforce
  with prep_or_touches [where ts = ts and err = err and env = env and st = st and w = w, OF assms(1)] have 1: "touches ts w w1" by simp
  have 2: "touches ts w (err m w1)" for m by (rule touches_trans [OF 1 assms(1)])
  show ?thesis
  proof (cases "ok \<and> ow_db w1 \<noteq> None")
    case True
    then obtain d where d: "ow_db w1 = Some d" "ok" by auto
    show ?thesis
    proof (cases "if we_step env st vs then run_stmt kDdl (kSql st) vs (db_tables d) else None")
      case None
      with d 2 show ?thesis by (simp add: step_or_def p)
    next
      case (Some t)
      then have "run_stmt kDdl (kSql st) vs (db_tables d) = Some t" by (simp split: if_splits)
      from touches_trans [OF 1 tables_touches [OF d(1) this assms(2)]] Some d show ?thesis
        by (simp add: step_or_def p)
    qed
  next
    case False
    with 1 show ?thesis by (auto simp: step_or_def p split: bool.splits option.splits)
  qed
qed

lemma relock_touches: "touches ts w (relock m w)"
  by (simp add: relock_def)

lemma WriteLogLine_touches: "touches [''logs''] w (WriteLogLine env line w)"
proof -
  have "touches [''logs''] w (snd (prep_or relock env S_LOGS_INS w))"
    by (rule prep_or_touches [OF relock_touches])
  moreover have "touches [''logs''] w1 (snd (step_or relock env S_LOGS_INS vs w1))" for w1 vs
    by (rule step_or_touches [OF relock_touches]) (simp add: sql_logs_ins_def)
  ultimately show ?thesis
    by (cases "prep_or relock env S_LOGS_INS w") (auto simp: WriteLogLine_def split: bool.split elim: touches_trans)
qed

lemma LogError_touches: "touches [''logs''] w (LogError env m w)"
  by (simp add: LogError_def WriteLogLine_touches)

lemma LogError_touches2: "''logs'' \<in> set ts \<Longrightarrow> touches ts w (LogError env m w)"
  by (rule touches_mono [OF LogError_touches]) simp

lemma Prep_touches: "touches [''logs''] w (snd (Prep env st w))"
  unfolding Prep_def by (rule prep_or_touches [OF LogError_touches])

lemma Step_touches: "touches [''logs'', stmt_table (kSql st)] w (snd (Step env st vs w))"
  unfolding Step_def by (rule step_or_touches [OF LogError_touches2]) simp_all

lemma put_touches: "touches [''logs'', stmt_table (kSql st)] w (snd (put env st vs w))"
proof -
  obtain ok w1 where p: "Prep env st w = (ok, w1)" by fastforce
  have "touches [''logs'', stmt_table (kSql st)] w w1"
    by (rule touches_mono [OF Prep_touches [of w env st, unfolded p snd_conv]]) auto
  from this touches_trans [OF this Step_touches] show ?thesis by (simp add: put_def p split: bool.split)
qed

lemma put_all_touches: "touches [''logs'', stmt_table (kSql st)] w (snd (put_all env st vss w))"
proof (induction vss arbitrary: w)
  case (Cons vs vss)
  obtain ok w1 where p: "put env st vs w = (ok, w1)" by fastforce
  with put_touches [of st w env vs] have "touches [''logs'', stmt_table (kSql st)] w w1" by simp
  from this touches_trans [OF this Cons.IH] show ?case by (simp add: p split: bool.split)
qed simp

text \<open>An insert into a table without an automatic key appends its row, or changes nothing in it.\<close>

lemma run_stmt_insert:
  assumes "run_stmt kDdl (Insert t cs n) vs db = Some db'" and "find_table kDdl t = Some tb" and "\<not> tb_auto tb"
  shows "rows db' t = rows db t @ [zip cs (bound n vs)]"
  using assms by (auto simp: insert_row_def Let_def split: if_splits)

lemma put_appends:
  assumes "kSql st = Insert t cs n" and "find_table kDdl t = Some tb" and "\<not> tb_auto tb" and "t \<noteq> ''logs''"
  shows "rows (tabs (snd (put env st vs w))) t \<in> {rows (tabs w) t, rows (tabs w) t @ [zip cs (bound n vs)]}"
proof -
  have log: "rows (tabs w') t = rows (tabs w) t" if "touches [''logs''] w w'" for w w'
    using that assms(4) by (simp add: touches_def)
  have pr: "rows (tabs (snd (prep_or (LogError env) env st w))) t = rows (tabs w) t" for w
    by (rule log [OF prep_or_touches [OF LogError_touches]])
  have st: "rows (tabs (snd (step_or (LogError env) env st vs w))) t \<in> {rows (tabs w) t, rows (tabs w) t @ [zip cs (bound n vs)]}" for w
  proof -
    obtain ok w1 where p: "prep_or (LogError env) env st w = (ok, w1)" by fastforce
    have w1: "rows (tabs w1) t = rows (tabs w) t" using pr [of w] by (simp add: p)
    have "rows (tabs (w1\<lparr>ow_db := Some (d\<lparr>db_tables := db'\<rparr>)\<rparr>)) t = rows (tabs w) t @ [zip cs (bound n vs)]"
      if "ow_db w1 = Some d" "run_stmt kDdl (kSql st) vs (db_tables d) = Some db'" for d db'
      using run_stmt_insert [OF that(2) [unfolded assms(1)] assms(2,3)] that(1) w1 by (simp add: tabs_def)
    then show ?thesis
      using w1 log [OF LogError_touches] by (auto simp: step_or_def p split: bool.splits option.splits)
  qed
  show ?thesis
    using pr [of w] st [of "snd (prep_or (LogError env) env st w)"]
    by (auto simp: put_def Prep_def Step_def split: prod.splits bool.splits)
qed

section \<open>The operations\<close>

datatype writer_op =
    HostOp HostSnapshot NetworkSnapshot GpuSnapshot CgroupSnapshot
  | AnomalyOp json
  | TargetsOp json
  | MemoryOp json
  | BpfOp BpfStatsSnapshot
  | OverheadOp ProcOverhead
  | LogOp string
  | PreOp CanonicalSnapshot
  | PostOp CanonicalSnapshot
  | GapOp u64 u64
  | MetaOp json
  | SummaryOp string
  | FoldedOp string string u64
  | SyscallOp u32 u32 u64 double double double u64
  | LockOp u64 u64 u64 "string option"
  | RunqOp u32 u64 double double double
  | IoFileOp u32 u64 "string option" u64 u32 u64 u64 "u32 list option" double double
  | ProcessOp DeepProcessRow
  | IoDeviceOp DeepIoDeviceRow
  | NetFlowOp DeepNetFlowRow
  | NetDropOp DeepNetDropRow
  | SoftirqOp DeepNetSoftirqRow
  | GpuProcessOp DeepGpuProcessRow
  | OffcpuOp DeepOffcpuRow

fun run_op :: "writer_env \<Rightarrow> (json \<Rightarrow> string option) \<Rightarrow> writer_op \<Rightarrow> OutputWriter \<Rightarrow> OutputWriter" where
  "run_op env dump (HostOp s net gpu cg) w = WriteHostRow env s net gpu cg w"
| "run_op env dump (AnomalyOp f) w = snd (WriteAnomalyFeatures env f w)"
| "run_op env dump (TargetsOp e) w = snd (WriteTargetsEvent env e w)"
| "run_op env dump (MemoryOp e) w = snd (WriteMemoryEvent env e w)"
| "run_op env dump (BpfOp s) w = WriteBpfStats env s w"
| "run_op env dump (OverheadOp s) w = WriteProcOverhead env s w"
| "run_op env dump (LogOp l) w = WriteLogLine env l w"
| "run_op env dump (PreOp s) w = WritePreSeries env s w"
| "run_op env dump (PostOp s) w = WritePostSeries env s w"
| "run_op env dump (GapOp a b) w = WritePostSeriesGap env a b w"
| "run_op env dump (MetaOp j) w = snd (WriteMeta env dump j w)"
| "run_op env dump (SummaryOp s) w = WriteSummary env s w"
| "run_op env dump (FoldedOp k f v) w = WriteFoldedLine env k f v w"
| "run_op env dump (SyscallOp t i n a p q e) w = WriteDeepSyscall env t i n a p q e w"
| "run_op env dump (LockOp a n l s) w = WriteDeepLock env a n l s w"
| "run_op env dump (RunqOp t n a p q) w = WriteDeepRunq env t n a p q w"
| "run_op env dump (IoFileOp d i pa b n e l h p q) w = WriteDeepIoFile env d i pa b n e l h p q w"
| "run_op env dump (ProcessOp r) w = WriteDeepProcess env r w"
| "run_op env dump (IoDeviceOp r) w = WriteDeepIoDevice env r w"
| "run_op env dump (NetFlowOp r) w = WriteDeepNetFlow env r w"
| "run_op env dump (NetDropOp r) w = WriteDeepNetDrop env r w"
| "run_op env dump (SoftirqOp r) w = WriteDeepNetSoftirq env r w"
| "run_op env dump (GpuProcessOp r) w = WriteDeepGpuProcess env r w"
| "run_op env dump (OffcpuOp r) w = WriteDeepOffcpu env r w"

lemmas deep_ops = WriteFoldedLine_def WriteDeepSyscall_def WriteDeepLock_def WriteDeepRunq_def WriteDeepIoFile_def
  WriteDeepProcess_def WriteDeepIoDevice_def WriteDeepNetFlow_def WriteDeepNetDrop_def WriteDeepNetSoftirq_def
  WriteDeepGpuProcess_def WriteDeepOffcpu_def WritePostSeriesGap_def

text \<open>Rows that are no evidence.\<close>

definition base_tables :: "string list" where
  "base_tables = [''logs'', ''host'', ''host_cpu'', ''host_disk'', ''host_proc'', ''net_stack'', ''net_iface'', ''net_softnet'',
     ''gpu_device'', ''cgroup'', ''cgroup_io'', ''anomaly'', ''anomaly_tid'', ''targets_log'', ''oom_events'',
     ''memory_events'', ''bpf_stats'', ''proc_overhead'', ''deep_episodes'']"

definition base_stmts :: "Stmt list" where
  "base_stmts = [S_HOST_INS, S_HOST_CPU_INS, S_HOST_DISK_INS, S_HOST_PROC_INS, S_NET_STACK_INS, S_NET_IFACE_INS,
     S_NET_SOFTNET_INS, S_GPU_DEV_INS, S_CGROUP_INS, S_CGROUP_IO_INS, S_ANOMALY_INS, S_ANOMALY_TID_INS, S_TARGETS_INS,
     S_OOM_INS, S_MEMEV_INS, S_BPF_INS, S_OVERHEAD_INS, S_LOGS_INS, S_EPISODE_META, S_EPISODE_SUMMARY]"

lemma base_stmt_tables: "list_all (\<lambda>st. stmt_table (kSql st) \<in> set base_tables) base_stmts"
  by code_simp

lemma base_mono:
  "st \<in> set base_stmts \<Longrightarrow> set [''logs'', stmt_table (kSql st)] \<subseteq> set base_tables"
  using base_stmt_tables by (auto simp: list_all_iff base_tables_def)

lemma base_put: "st \<in> set base_stmts \<Longrightarrow> touches base_tables w (snd (put env st vs w))"
  by (rule touches_mono [OF put_touches base_mono])

lemma base_put_all: "st \<in> set base_stmts \<Longrightarrow> touches base_tables w (snd (put_all env st vss w))"
  by (rule touches_mono [OF put_all_touches base_mono])

fun block_stmt :: "write_block \<Rightarrow> Stmt" where
  "block_stmt (Once st vs) = st"
| "block_stmt (Loop st vss) = st"

lemma run_blocks_touches:
  "list_all (\<lambda>b. block_stmt b \<in> set base_stmts) bs \<Longrightarrow> touches base_tables w (run_blocks env bs w)"
proof (induction env bs w rule: run_blocks.induct)
  case (2 env st vs bs w)
  then have "touches base_tables (snd (put env st vs w)) (run_blocks env bs (snd (put env st vs w)))" by simp
  from touches_trans [OF base_put this] 2(2) show ?case by simp
next
  case (3 env st vss bs w)
  obtain ok w1 where p: "put_all env st vss w = (ok, w1)" by fastforce
  have "touches base_tables w w1" using base_put_all [of st w env vss] 3(2) p by simp
  from this touches_trans [OF this] 3 show ?case by (cases ok) (simp_all add: p)
qed simp

lemma put_json_touches:
  assumes "st \<in> set base_stmts"
  shows "touches base_tables w (snd (snd (put_json env st f w)))"
proof -
  obtain ok w1 where p: "Prep env st w = (ok, w1)" by fastforce
  have 1: "touches base_tables w w1"
    by (rule touches_mono [OF Prep_touches [of w env st, unfolded p snd_conv]]) (simp add: base_tables_def)
  have "touches base_tables w1 (snd (Step env st vs w1))" for vs
    by (rule touches_mono [OF Step_touches base_mono [OF assms]])
  from 1 touches_trans [OF 1 this] show ?thesis by (simp add: put_json_def p split: bool.split sum.split)
qed

lemma write_tids_touches: "touches base_tables w (snd (write_tids env ts tids w))"
proof (induction tids arbitrary: w)
  case (Cons t tids)
  obtain e ok w1 where p: "put_json env S_ANOMALY_TID_INS (anomaly_tid_vals ts t) w = (e, ok, w1)"
    by (metis prod_cases3)
  have 1: "touches base_tables w w1"
    using put_json_touches [of S_ANOMALY_TID_INS w env "anomaly_tid_vals ts t"] p by (simp add: base_stmts_def)
  from 1 touches_trans [OF 1 Cons.IH] show ?case by (simp add: p split: option.split bool.split)
qed simp

lemma anomaly_touches: "touches base_tables w (snd (WriteAnomalyFeatures env f w))"
proof -
  have p: "touches base_tables w w1" if "put_json env S_ANOMALY_INS g w = (e, ok, w1)" for g e ok w1
    using put_json_touches [of S_ANOMALY_INS w env g] that by (simp add: base_stmts_def)
  show ?thesis
    by (auto simp: WriteAnomalyFeatures_def split: sum.split option.split prod.split dest!: p
        intro: touches_trans [OF _ write_tids_touches])
qed


text \<open>The operations that write no evidence.\<close>

fun is_base :: "writer_op \<Rightarrow> bool" where
  "is_base (HostOp s net gpu cg) = True"
| "is_base (AnomalyOp f) = True"
| "is_base (TargetsOp e) = True"
| "is_base (MemoryOp e) = True"
| "is_base (BpfOp s) = True"
| "is_base (OverheadOp s) = True"
| "is_base (LogOp l) = True"
| "is_base (MetaOp j) = True"
| "is_base (SummaryOp s) = True"
| "is_base _ = False"

lemma deep_put_touches: "touches [''logs'', stmt_table (kSql st)] w (deep_put env st f w)"
  by (simp add: deep_put_def put_touches)

lemma host_blocks_base: "list_all (\<lambda>b. block_stmt b \<in> set base_stmts) (host_blocks s net gpu cg)"
  by (simp add: host_blocks_def host_metric_blocks_def network_blocks_def gpu_cgroup_blocks_def base_stmts_def)

lemma WriteMeta_touches: "touches base_tables w (snd (WriteMeta env dump j w))"
proof -
  obtain ok w1 where p: "Prep env S_EPISODE_META w = (ok, w1)" by fastforce
  have 1: "touches base_tables w w1"
    by (rule touches_mono [OF Prep_touches [of w env S_EPISODE_META, unfolded p snd_conv]]) (simp add: base_tables_def)
  have "touches base_tables w1 (snd (Step env S_EPISODE_META vs w1))" for vs
    by (rule touches_mono [OF Step_touches base_mono]) (simp add: base_stmts_def)
  from 1 touches_trans [OF 1 this] show ?thesis by (simp add: WriteMeta_def p split: bool.split option.split)
qed

lemma base_op_touches: "is_base op \<Longrightarrow> touches base_tables w (run_op env dump op w)"
proof (cases op)
  case (HostOp s net gpu cg)
  then show ?thesis by (simp add: WriteHostRow_def run_blocks_touches [OF host_blocks_base])
next
  case (AnomalyOp f)
  then show ?thesis by (simp add: anomaly_touches)
next
  case (TargetsOp e)
  have "touches base_tables w (snd (snd (put_json env S_TARGETS_INS (\<lambda>_. targets_vals e) w)))"
    by (rule put_json_touches) (simp add: base_stmts_def)
  with TargetsOp show ?thesis by (simp add: WriteTargetsEvent_def split_def)
next
  case (MemoryOp e)
  have "touches base_tables w (snd (snd (put_json env S_OOM_INS f w)))" "touches base_tables w (snd (snd (put_json env S_MEMEV_INS f w)))" for f
    by (rule put_json_touches, simp add: base_stmts_def)+
  with MemoryOp show ?thesis
    by (cases "jvalue get_ull e ''ts_ns'' 0") (simp_all add: WriteMemoryEvent_def split_def Let_def del: bind_all.simps)
next
  case (BpfOp s)
  then show ?thesis by (simp add: WriteBpfStats_def base_put_all base_stmts_def)
next
  case (OverheadOp s)
  then show ?thesis by (simp add: WriteProcOverhead_def base_put base_stmts_def)
next
  case (LogOp l)
  have "touches base_tables w (WriteLogLine env l w)"
    by (rule touches_mono [OF WriteLogLine_touches]) (simp add: base_tables_def)
  with LogOp show ?thesis by simp
next
  case (MetaOp j)
  then show ?thesis by (simp add: WriteMeta_touches)
next
  case (SummaryOp s)
  have "touches base_tables w (deep_put env S_EPISODE_SUMMARY f w)" for f
    by (rule touches_mono [OF deep_put_touches base_mono]) (simp add: base_stmts_def)
  with SummaryOp show ?thesis by (simp add: WriteSummary_def)
qed simp_all

section \<open>Evidence belongs to the open episode\<close>

definition evidence_stmts :: "Stmt list" where
  "evidence_stmts = [S_SERIES_INS, S_GAP_INS, S_FOLDED_INS, S_SYSCALL_INS, S_LOCK_INS, S_RUNQ_INS, S_IOFILE_INS,
     S_DEEP_PROC_INS, S_DEEP_IODEV_INS, S_NET_FLOW_INS, S_NET_DROP_INS, S_NET_SOFTIRQ_INS, S_DEEP_GPU_PROC_INS, S_OFFCPU_INS]"

definition evidence_tables :: "string list" where
  "evidence_tables = [''deep_series'', ''deep_gap'', ''deep_folded'', ''deep_syscall'', ''deep_lock'', ''deep_runq'',
     ''deep_iofile'', ''deep_proc'', ''deep_io_device'', ''deep_net_flow'', ''deep_net_drop'', ''deep_net_softirq'',
     ''deep_gpu_process'', ''deep_offcpu'']"

definition evidence_stmt :: "Stmt \<Rightarrow> bool" where
  "evidence_stmt st =
     (case kSql st of
        Insert t cs n \<Rightarrow>
          t \<notin> set base_tables \<and> cs \<noteq> [] \<and> hd cs = ''ordinal'' \<and> n > 0 \<and>
          (case find_table kDdl t of None \<Rightarrow> False | Some tb \<Rightarrow> \<not> tb_auto tb)
      | _ \<Rightarrow> False)"

lemma evidence_stmts: "list_all evidence_stmt evidence_stmts"
  by code_simp

lemma evidence_not_base: "list_all (\<lambda>t. t \<notin> set base_tables) evidence_tables"
  by code_simp

text \<open>A row that starts with the ordinal of the episode.\<close>

lemma deep_put_evidence:
  assumes "evidence_stmt st" and "\<And>o'. \<exists>vs. f o' = SInt o' # vs" and "t \<notin> set base_tables"
  shows "\<exists>new. rows (tabs (deep_put env st f w)) t = rows (tabs w) t @ new \<and>
    list_all (\<lambda>r. val r ''ordinal'' = SInt (ow_ordinal w) \<and> 0 \<le> ow_ordinal w) new"
proof (cases "ow_db w = None \<or> ow_ordinal w < 0")
  case False
  obtain u cs n tb where st: "kSql st = Insert u cs n" "cs \<noteq> []" "hd cs = ''ordinal''" "n > 0" "u \<notin> set base_tables"
    "find_table kDdl u = Some tb" "\<not> tb_auto tb"
    using assms(1) by (auto simp: evidence_stmt_def split: sqlstmt.splits option.splits)
  obtain vs where vs: "f (ow_ordinal w) = SInt (ow_ordinal w) # vs" using assms(2) by blast
  have logs: "u \<noteq> ''logs''" "t \<noteq> ''logs''" using st(5) assms(3) by (auto simp: base_tables_def)
  have d: "deep_put env st f w = snd (put env st (f (ow_ordinal w)) w)" using False by (auto simp: deep_put_def)
  show ?thesis
  proof (cases "t = u")
    case True
    obtain cs' n' where "cs = ''ordinal'' # cs'" "n = Suc n'" using st(2-4) by (cases cs; cases n) auto
    then have "val (zip cs (bound n (f (ow_ordinal w)))) ''ordinal'' = SInt (ow_ordinal w)"
      by (simp add: val_def bound_def vs)
    then show ?thesis
      using put_appends [OF st(1,6,7) logs(1), of env "f (ow_ordinal w)" w] True False by (auto simp: d)
  next
    case other: False
    then have "rows (tabs (deep_put env st f w)) t = rows (tabs w) t"
      using deep_put_touches [of st w env f] st(1) logs(2) by (simp add: touches_def)
    then show ?thesis by simp
  qed
qed (auto simp: deep_put_def)


definition adds_evidence :: "string \<Rightarrow> OutputWriter \<Rightarrow> OutputWriter \<Rightarrow> bool" where
  "adds_evidence t w w' \<longleftrightarrow>
     (\<exists>new. rows (tabs w') t = rows (tabs w) t @ new \<and>
        list_all (\<lambda>r. val r ''ordinal'' = SInt (ow_ordinal w) \<and> 0 \<le> ow_ordinal w) new)"

lemma adds_deep:
  assumes "st \<in> set evidence_stmts" and "\<And>o'. \<exists>vs. f o' = SInt o' # vs" and "t \<in> set evidence_tables"
  shows "adds_evidence t w (deep_put env st f w)"
  unfolding adds_evidence_def
  by (rule deep_put_evidence) (use assms evidence_stmts evidence_not_base in \<open>auto simp: list_all_iff\<close>)

lemma adds_series:
  assumes "t \<in> set evidence_tables"
  shows "adds_evidence t w (WriteSeries env phase s w)"
proof (cases "ow_db w = None \<or> ow_ordinal w < 0")
  case True
  then show ?thesis by (auto simp: WriteSeries_def adds_evidence_def)
next
  case False
  let ?w = "w\<lparr>ow_last_deep_ts := sn_ts_ns s\<rparr>"
  have "adds_evidence t ?w (deep_put env S_SERIES_INS (\<lambda>o'. series_vals o' phase s) ?w)"
    by (rule adds_deep) (simp_all add: evidence_stmts_def series_vals_def assms)
  moreover have "WriteSeries env phase s w = deep_put env S_SERIES_INS (\<lambda>o'. series_vals o' phase s) ?w"
    using False by (auto simp: WriteSeries_def deep_put_def)
  ultimately show ?thesis by (simp add: adds_evidence_def tabs_def)
qed

lemma adds_base:
  assumes "touches base_tables w w'" and "t \<in> set evidence_tables"
  shows "adds_evidence t w w'"
  using assms evidence_not_base by (auto simp: adds_evidence_def touches_def list_all_iff intro: exI [of _ "[]"])

lemma op_adds_evidence:
  assumes "t \<in> set evidence_tables"
  shows "adds_evidence t w (run_op env dump op w)"
proof (cases "is_base op")
  case True
  show ?thesis by (rule adds_base [OF base_op_touches [OF True] assms])
next
  case False
  have d: "adds_evidence t w (deep_put env st f w)" if "st \<in> set evidence_stmts" "\<And>o'. \<exists>vs. f o' = SInt o' # vs" for st f
    by (rule adds_deep [OF that assms])
  show ?thesis
    using False
    by (cases op)
      (simp_all add: deep_ops WritePreSeries_def WritePostSeries_def adds_series [OF assms] d evidence_stmts_def
        gap_vals_def folded_vals_def syscall_vals_def lock_vals_def runq_vals_def iofile_vals_def deep_proc_vals_def
        io_device_vals_def net_flow_vals_def net_drop_vals_def net_softirq_vals_def gpu_process_vals_def offcpu_vals_def)
qed

text \<open>
  Claim C2: evidence belongs to the open episode: an operation of the writer only appends to the
  evidence tables, and every row it appends carries the ordinal of the open episode; outside an
  episode it appends nothing, whatever fails on the way.
\<close>

theorem evidence_of_open_episode:
  assumes "t \<in> set evidence_tables"
  shows "\<exists>new. rows (tabs (run_op env dump op w)) t = rows (tabs w) t @ new \<and>
    list_all (\<lambda>r. val r ''ordinal'' = SInt (ow_ordinal w) \<and> 0 \<le> ow_ordinal w) new"
  using op_adds_evidence [OF assms] by (simp add: adds_evidence_def)

definition writer_env0 :: writer_env where
  "writer_env0 = \<lparr>we_prep = (\<lambda>_. True), we_step = (\<lambda>_ _. True), we_exec = (\<lambda>_. True), we_line = (\<lambda>m. m),
     we_dir_name = ''d'', we_iso = ''i'', we_pid = 1, we_mkdir = (\<lambda>_. Made), we_open = True\<rparr>"

definition open_writer :: OutputWriter where
  "open_writer = OutputWriter0\<lparr>ow_db := Some \<lparr>db_tables = [], db_saved = None\<rparr>, ow_sink := True\<rparr>"

lemma evidence_of_open_episode_witness:
  "rows (tabs (run_op writer_env0 (\<lambda>_. None) (FoldedOp ''cpu'' ''main;work'' 5) open_writer)) ''deep_folded'' = []"
proof -
  have t: "''deep_folded'' \<in> set evidence_tables" by (simp add: evidence_tables_def)
  obtain new where n: "rows (tabs (run_op writer_env0 (\<lambda>_. None) (FoldedOp ''cpu'' ''main;work'' 5) open_writer)) ''deep_folded'' = new"
    and l: "list_all (\<lambda>r. val r ''ordinal'' = SInt (ow_ordinal open_writer) \<and> 0 \<le> ow_ordinal open_writer) new"
    using evidence_of_open_episode [OF t, of writer_env0 "\<lambda>_. None" "FoldedOp ''cpu'' ''main;work'' 5" open_writer]
    by (auto simp: rows_def tabs_def open_writer_def)
  from l have "new = []" by (cases new) (simp_all add: open_writer_def OutputWriter0_def)
  with n show ?thesis by simp
qed

section \<open>Batches\<close>

definition all_tables :: "string list" where
  "all_tables = base_tables @ evidence_tables"

lemma evidence_stmt_tables: "list_all (\<lambda>st. set [''logs'', stmt_table (kSql st)] \<subseteq> set all_tables) evidence_stmts"
  by code_simp

lemma touches_ts [simp]: "touches ts w (w\<lparr>ow_last_deep_ts := x\<rparr>)"
  by (simp add: touches_def tabs_def saved_def)

lemma deep_touches_all: "st \<in> set evidence_stmts \<Longrightarrow> touches all_tables w (deep_put env st f w)"
  using evidence_stmt_tables unfolding list_all_iff by (intro touches_mono [OF deep_put_touches]) blast

lemma series_touches_all: "touches all_tables w (WriteSeries env phase s w)"
proof (cases "ow_db w = None \<or> ow_ordinal w < 0")
  case True
  then show ?thesis by (auto simp: WriteSeries_def)
next
  case False
  let ?w = "w\<lparr>ow_last_deep_ts := sn_ts_ns s\<rparr>"
  have "WriteSeries env phase s w = deep_put env S_SERIES_INS (\<lambda>o'. series_vals o' phase s) ?w"
    using False by (auto simp: WriteSeries_def deep_put_def)
  moreover have "touches all_tables ?w (deep_put env S_SERIES_INS (\<lambda>o'. series_vals o' phase s) ?w)"
    by (rule deep_touches_all) (simp add: evidence_stmts_def)
  ultimately show ?thesis using touches_trans [OF touches_ts] by simp
qed

lemma op_touches: "touches all_tables w (run_op env dump op w)"
proof (cases "is_base op")
  case True
  show ?thesis by (rule touches_mono [OF base_op_touches [OF True]]) (simp add: all_tables_def)
next
  case False
  then show ?thesis
    by (cases op)
      (simp_all add: deep_ops WritePreSeries_def WritePostSeries_def series_touches_all deep_touches_all evidence_stmts_def)
qed

text \<open>What happens between an outermost \<open>BeginBatch\<close> and its \<open>CommitBatch\<close>.\<close>

inductive in_batch :: "OutputWriter \<Rightarrow> OutputWriter \<Rightarrow> bool" for w0 :: OutputWriter where
  batch_begin: "we_exec env BeginImmediate \<Longrightarrow> in_batch w0 (BeginBatch env w0)"
| batch_op: "in_batch w0 w \<Longrightarrow> in_batch w0 (run_op env dump op w)"
| batch_nest: "in_batch w0 w \<Longrightarrow> in_batch w0 (BeginBatch env w)"
| batch_unnest: "in_batch w0 w \<Longrightarrow> ow_depth w > 1 \<Longrightarrow> in_batch w0 (CommitBatch env w)"

text \<open>A transaction is open on the tables of the beginning.\<close>

definition batch_inv :: "tables \<Rightarrow> OutputWriter \<Rightarrow> bool" where
  "batch_inv t0 w \<longleftrightarrow> (\<exists>d. ow_db w = Some d \<and> db_saved d = Some t0) \<and> ow_depth w \<ge> 1"

lemma touches_saved:
  assumes "touches ts w w'" and "ow_db w = Some d"
  obtains d' where "ow_db w' = Some d'" "db_saved d' = db_saved d"
    "\<And>t. t \<notin> set ts \<Longrightarrow> rows (durable d') t = rows (durable d) t"
proof -
  from assms obtain d' where d': "ow_db w' = Some d'" by (auto simp: touches_def)
  with assms have "db_saved d' = db_saved d" by (simp add: touches_def saved_def)
  with assms d' show thesis
    by (intro that [of d']) (auto simp: touches_def durable_def tabs_def split: option.split)
qed

lemma batch_inv_reach:
  assumes "in_batch w0 w" and "ow_db w0 = Some d0" and "db_saved d0 = None" and "ow_depth w0 = 0" and "\<not> ow_hung w0"
  shows "batch_inv (db_tables d0) w"
  using assms(1)
proof induction
  case (batch_begin env)
  with assms(2-5) show ?case by (simp add: batch_inv_def BeginBatch_def Exec_def)
next
  case (batch_op w env dump op)
  then obtain d where d: "ow_db w = Some d" "db_saved d = Some (db_tables d0)" "ow_depth w \<ge> 1" by (auto simp: batch_inv_def)
  obtain d' where "ow_db (run_op env dump op w) = Some d'" "db_saved d' = db_saved d"
    by (rule touches_saved [OF op_touches d(1)])
  moreover have "ow_depth (run_op env dump op w) = ow_depth w" using op_touches [of w env dump op] by (simp add: touches_def)
  ultimately show ?case using d by (simp add: batch_inv_def)
next
  case (batch_nest w env)
  then show ?case by (auto simp: batch_inv_def BeginBatch_def)
next
  case (batch_unnest w env)
  then show ?case by (auto simp: batch_inv_def CommitBatch_def)
qed

lemma Exec_fails_touches: "touches [''logs''] w (LogError env m w)"
  by (rule LogError_touches)

lemma Exec_pragma_touches: "touches [''logs''] w (snd (Exec env (Pragma p) w))"
  by (auto simp: Exec_def LogError_touches touches_def [of _ w "w\<lparr>ow_db := _\<rparr>"] tabs_def saved_def split: option.split)

text \<open>Closing in the middle of a batch: what is left in the file.\<close>

lemma close_restores:
  assumes "batch_inv t0 w" and "ow_db (OutputWriter_Close env w) = None" and "t \<noteq> ''logs''"
  shows "rows (ow_file (OutputWriter_Close env w)) t = rows t0 t"
proof -
  obtain d where d: "ow_db w = Some d" "db_saved d = Some t0" "ow_depth w \<ge> 1" using assms(1) by (auto simp: batch_inv_def)
  have nh: "\<not> ow_hung w" using assms(2) d(1) by (auto simp: OutputWriter_Close_def)
  define w1 where "w1 = (snd (Exec env Rollback w))\<lparr>ow_depth := 0\<rparr>"
  have "\<exists>d1. ow_db w1 = Some d1 \<and> rows (durable d1) t = rows t0 t"
  proof (cases "we_exec env Rollback")
    case True
    with d nh show ?thesis by (simp add: w1_def Exec_def durable_def)
  next
    case False
    obtain d1 where "ow_db (LogError env ''sqlite exec failed'' w) = Some d1" "db_saved d1 = db_saved d"
      by (rule touches_saved [OF LogError_touches d(1)])
    with False d nh show ?thesis by (simp add: w1_def Exec_def durable_def)
  qed
  then obtain d1 where d1: "ow_db w1 = Some d1" "rows (durable d1) t = rows t0 t" by blast
  define w2 where "w2 = snd (Exec env (Pragma ''wal_checkpoint(TRUNCATE)'') w1)"
  obtain d2 where d2: "ow_db w2 = Some d2" "\<And>t. t \<notin> set [''logs''] \<Longrightarrow> rows (durable d2) t = rows (durable d1) t"
    unfolding w2_def by (rule touches_saved [OF Exec_pragma_touches d1(1)]) blast
  have c: "OutputWriter_Close env w = (if ow_hung w2 then w2 else close_db (w2\<lparr>ow_prepared := []\<rparr>))"
    using d nh by (simp add: OutputWriter_Close_def w1_def w2_def Let_def)
  with assms(2) d2(1) have "\<not> ow_hung w2" by auto
  with c d2 d1(2) assms(3) show ?thesis by (simp add: close_db_def)
qed



section \<open>A log line that cannot be written\<close>

lemma prep_hung: "ow_hung w \<Longrightarrow> prep_or err env st w = (False, w)"
  by (simp add: prep_or_def)

lemma put_hung: "ow_hung w \<Longrightarrow> put env st vs w = (False, w)"
  by (simp add: put_def Prep_def prep_hung)

lemma put_all_hung: "ow_hung w \<Longrightarrow> snd (put_all env st vss w) = w"
  by (cases vss) (simp_all add: put_hung)

lemma run_blocks_hung: "ow_hung w \<Longrightarrow> run_blocks env bs w = w"
proof (induction env bs w rule: run_blocks.induct)
  case (3 env st vss bs w)
  then show ?case by (cases vss) (simp_all add: put_hung)
qed (simp_all add: put_hung)

lemma put_json_hung: "ow_hung w \<Longrightarrow> put_json env st f w = (None, False, w)"
  by (simp add: put_json_def Prep_def prep_hung)

lemma deep_put_hung: "ow_hung w \<Longrightarrow> deep_put env st f w = w"
  by (simp add: deep_put_def put_hung)

lemma write_tids_hung: "ow_hung w \<Longrightarrow> snd (write_tids env ts tids w) = w"
  by (cases tids) (simp_all add: put_json_hung)

lemma anomaly_hung: "ow_hung w \<Longrightarrow> snd (WriteAnomalyFeatures env f w) = w"
  by (simp add: WriteAnomalyFeatures_def put_json_hung write_tids_hung split: sum.split)

lemma op_hung:
  assumes "ow_hung w"
  shows "tabs (run_op env dump op w) = tabs w \<and> ow_hung (run_op env dump op w)"
proof -
  have series: "tabs (WriteSeries env phase s w) = tabs w \<and> ow_hung (WriteSeries env phase s w)" for phase s
    using assms by (simp add: WriteSeries_def put_hung tabs_def)
  show ?thesis
    using assms
    by (cases op)
      (simp_all add: deep_ops deep_put_hung WritePreSeries_def WritePostSeries_def series WriteHostRow_def run_blocks_hung
        anomaly_hung WriteTargetsEvent_def put_json_hung WriteMemoryEvent_def split_def WriteBpfStats_def put_all_hung
        WriteProcOverhead_def put_hung WriteLogLine_def prep_hung WriteMeta_def Prep_def WriteSummary_def Let_def split: sum.split)
qed

text \<open>When no step succeeds, the message about the first failure already hangs.\<close>

lemma LogError_hangs:
  assumes "\<And>st vs. \<not> we_step env st vs" and "ow_db w \<noteq> None" and "\<not> ow_hung w" and "ow_sink w"
  shows "ow_hung (LogError env m w) \<and> tabs (LogError env m w) = tabs w"
  using assms by (auto simp: LogError_def WriteLogLine_def prep_or_def step_or_def relock_def tabs_def)

text \<open>
  Claim C39: when the disk is full the collector hangs: with the logger writing to the database, a
  write that fails is reported, the report is a row that cannot be written either, and the report of
  that locks the mutex the thread already holds. Nothing is written from then on.
\<close>

theorem full_disk_hangs:
  assumes "\<And>st vs. \<not> we_step env st vs" and "ow_db w \<noteq> None" and "\<not> ow_hung w" and "ow_sink w"
  shows "ow_hung (snd (put env st vs w)) \<and> tabs (run_op env' dump op (snd (put env st vs w))) = tabs w"
proof -
  have "ow_hung (snd (put env st vs w)) \<and> tabs (snd (put env st vs w)) = tabs w"
  proof (cases "st \<in> set (ow_prepared w) \<or> we_prep env st")
    case True
    define w1 where "w1 = snd (Prep env st w)"
    have p: "Prep env st w = (True, w1)" "ow_db w1 = ow_db w" "\<not> ow_hung w1" "ow_sink w1"
      using True assms(2-4) by (auto simp: w1_def Prep_def prep_or_def)
    then have "ow_hung (LogError env m w1) \<and> tabs (LogError env m w1) = tabs w1" for m
      using LogError_hangs [OF assms(1), of w1] assms(2) by simp
    moreover have "\<exists>m. snd (Step env st vs w1) = LogError env m w1"
      using p True assms(1,2) by (auto simp: Step_def step_or_def prep_or_def w1_def Prep_def)
    ultimately show ?thesis using p(1,2) by (auto simp: put_def tabs_def)
  next
    case False
    with assms(2,3) have "Prep env st w = (False, LogError env ''sqlite prepare'' w)" by (auto simp: Prep_def prep_or_def)
    with LogError_hangs [OF assms] show ?thesis by (simp add: put_def)
  qed
  with op_hung show ?thesis by simp
qed

lemma full_disk_hangs_witness:
  "ow_hung (snd (put (writer_env0\<lparr>we_step := \<lambda>_ _. False\<rparr>) S_OVERHEAD_INS [SInt 1] open_writer))"
  using full_disk_hangs [of "writer_env0\<lparr>we_step := \<lambda>_ _. False\<rparr>" open_writer]
  by (simp add: open_writer_def OutputWriter0_def)

section \<open>Starting\<close>

text \<open>An empty output directory: the fallback \<^verbatim>\<open>out\<close> names the session, but the empty name is created.\<close>

lemma empty_dir_never_starts: "we_mkdir env [] = MkdirFails \<Longrightarrow> \<not> fst (Init env [] w)"
  by (simp add: Init_def)

end
