(* ===== verification/Evidence.thy ===== *)
theory Evidence
  imports Writer "HOL-Library.Product_Lexorder"
begin

text \<open>
  The evidence bundle of a finished episode, \<^verbatim>\<open>OutputWriter::BuildEvidence\<close> in
  \<^verbatim>\<open>src/output/writer.cpp\<close>: the series of processes and of the most contended threads, memory
  pressure of the host, and the event tables. What a query returns is a parameter where SQL leaves
  it open: the rows in some order, or none when it cannot be prepared.
\<close>

section \<open>Queries\<close>

record query_env =
  qe_rows :: "string \<Rightarrow> sqlrow list \<Rightarrow> sqlrow list"
  qe_beyond :: double
  qe_strtod :: "string \<Rightarrow> double"
  qe_order :: "(u32 \<times> u64) list \<Rightarrow> (u32 \<times> u64) list"

definition query :: "query_env \<Rightarrow> tables \<Rightarrow> string \<Rightarrow> int \<Rightarrow> sqlrow list" where
  "query env db t ordinal = qe_rows env t (filter (\<lambda>r. val r ''ordinal'' = SInt ordinal) (rows db t))"

definition query_all :: "query_env \<Rightarrow> tables \<Rightarrow> string \<Rightarrow> sqlrow list" where
  "query_all env db t = qe_rows env t (rows db t)"

text \<open>A column as an unsigned number, as a double; a column behind the last one is undefined.\<close>

definition col_u64 :: "sqlrow \<Rightarrow> string \<Rightarrow> u64" where
  "col_u64 r c = word_of_int (col_int64 (val r c))"

definition col_u32 :: "sqlrow \<Rightarrow> string \<Rightarrow> u32" where
  "col_u32 r c = word_of_int (col_int64 (val r c))"

definition col_double :: "query_env \<Rightarrow> sqlval \<Rightarrow> double" where
  "col_double env v =
     (case v of SNull \<Rightarrow> 0 | SInt i \<Rightarrow> of_int i | SReal q \<Rightarrow> q | SText s \<Rightarrow> qe_strtod env s)"

definition column_double :: "query_env \<Rightarrow> string list \<Rightarrow> sqlrow \<Rightarrow> nat \<Rightarrow> double" where
  "column_double env cs r i = (if i < length cs then col_double env (val r (cs ! i)) else qe_beyond env)"

section \<open>Series of processes\<close>

text \<open>
  The thirteen counters a process row accumulates, in the order of the query; one accumulator for
  each moment and process.
\<close>

definition acc_metrics :: "string list" where
  "acc_metrics = [''on_cpu_ns'', ''io_ops'', ''io_bytes'', ''pf_minor'', ''pf_major'', ''lock_waits'', ''lock_lat_ns'',
     ''futex_waits'', ''futex_lat_ns'', ''syscall_count'', ''syscall_lat_ns'', ''runq_wait_count'', ''runq_wait_ns'']"

type_synonym TAcc = "u64 list"

definition TAcc0 :: TAcc where
  "TAcc0 = replicate 13 0"

definition TAcc_add :: "sqlrow \<Rightarrow> TAcc \<Rightarrow> TAcc" where
  "TAcc_add r a = map2 (+) a (map (col_u64 r) acc_metrics)"

definition acc_row :: "sqlrow \<Rightarrow> ((u64 \<times> u32) \<times> TAcc) list \<Rightarrow> ((u64 \<times> u32) \<times> TAcc) list" where
  "acc_row r m =
     (let k = (col_u64 r ''ts_ns'', col_u32 r ''tgid'')
      in if snd k = 0 then m
         else alist_put k (TAcc_add r (case map_of m k of None \<Rightarrow> TAcc0 | Some a \<Rightarrow> a)) m)"

definition series_point :: "string \<Rightarrow> string \<Rightarrow> u64 \<Rightarrow> json \<Rightarrow> json" where
  "series_point entity metric ts v =
     JObj [(''entity'', JStr entity), (''metric'', JStr metric), (''ts_ns'', jnum ts), (''value'', v)]"

definition proc_points :: "(u64 \<times> u32) \<times> TAcc \<Rightarrow> json list" where
  "proc_points e = (case e of ((ts, tgid), a) \<Rightarrow>
     map2 (\<lambda>m v. series_point (''proc'' @ show_nat (unat tgid)) m ts (jnum v)) acc_metrics a)"

definition proc_series :: "sqlrow list \<Rightarrow> json list" where
  "proc_series rs = concat (map proc_points (sort_key fst (fold acc_row rs [])))"

section \<open>Series of threads\<close>

record TSeries =
  tr_ts :: u64
  tr_on_cpu :: u64
  tr_lock_w :: u64
  tr_lock_lat :: u64
  tr_futex_w :: u64
  tr_futex_lat :: u64
  tr_sys_c :: u64
  tr_sys_lat :: u64
  tr_runq_c :: u64
  tr_runq_lat :: u64

definition TSeries_of :: "sqlrow \<Rightarrow> TSeries" where
  "TSeries_of r = \<lparr>tr_ts = col_u64 r ''ts_ns'', tr_on_cpu = col_u64 r ''on_cpu_ns'', tr_lock_w = col_u64 r ''lock_waits'',
     tr_lock_lat = col_u64 r ''lock_lat_ns'', tr_futex_w = col_u64 r ''futex_waits'',
     tr_futex_lat = col_u64 r ''futex_lat_ns'', tr_sys_c = col_u64 r ''syscall_count'',
     tr_sys_lat = col_u64 r ''syscall_lat_ns'', tr_runq_c = col_u64 r ''runq_wait_count'',
     tr_runq_lat = col_u64 r ''runq_wait_ns''\<rparr>"

definition activity :: "TSeries \<Rightarrow> u64" where
  "activity t = tr_lock_lat t + tr_futex_lat t + tr_runq_lat t + tr_lock_w t + tr_futex_w t + tr_runq_c t"

definition tid_row :: "sqlrow \<Rightarrow> (u32 \<times> u64) list \<Rightarrow> (u32 \<times> u64) list" where
  "tid_row r m =
     (let tid = col_u32 r ''tid''
      in alist_put tid ((case map_of m tid of None \<Rightarrow> 0 | Some a \<Rightarrow> a) + activity (TSeries_of r)) m)"

definition per_tid :: "sqlrow list \<Rightarrow> u32 \<Rightarrow> TSeries list" where
  "per_tid rs tid = map TSeries_of (filter (\<lambda>r. col_u32 r ''tid'' = tid) rs)"

definition thread_points :: "u32 \<Rightarrow> TSeries \<Rightarrow> json list" where
  "thread_points tid t =
     map (\<lambda>(m, v). series_point (''t'' @ show_nat (unat tid)) m (tr_ts t) (jnum v))
       [(''on_cpu_ns'', tr_on_cpu t), (''lock_waits'', tr_lock_w t), (''lock_lat_ns'', tr_lock_lat t),
        (''futex_waits'', tr_futex_w t), (''futex_lat_ns'', tr_futex_lat t), (''syscall_count'', tr_sys_c t),
        (''syscall_lat_ns'', tr_sys_lat t), (''runq_wait_count'', tr_runq_c t), (''runq_wait_ns'', tr_runq_lat t)]"

text \<open>The eight most active threads; the order of equally active ones is open.\<close>

definition ranked :: "query_env \<Rightarrow> sqlrow list \<Rightarrow> (u32 \<times> u64) list" where
  "ranked env rs = take 8 (sort_desc snd (qe_order env (fold tid_row rs [])))"

definition thread_series :: "query_env \<Rightarrow> sqlrow list \<Rightarrow> json list" where
  "thread_series env rs =
     concat (map (\<lambda>(tid, _). concat (map (thread_points tid) (per_tid rs tid))) (ranked env rs))"

section \<open>Host series and events\<close>

definition host_points :: "sqlrow \<Rightarrow> json list" where
  "host_points r =
     map (\<lambda>m. series_point ''host'' m (col_u64 r ''ts_ns'') (JInt (col_int64 (val r m))))
       [''kswapd_active'', ''direct_reclaim'', ''nr_reclaimed'']"

definition oom_event :: "sqlrow \<Rightarrow> json" where
  "oom_event r =
     JObj [(''ts_ns'', jnum (col_u64 r ''ts_ns'')), (''entity'', JStr ''host''), (''kind'', JStr ''kill''),
       (''pid'', jnum (col_u64 r ''pid'')), (''comm'', JStr (col_text (val r ''comm'')))]"

definition syscall_event :: "query_env \<Rightarrow> sqlrow \<Rightarrow> json" where
  "syscall_event env r =
     JObj [(''entity'', JStr (''t'' @ show_nat (unat (col_u32 r ''tid'')))), (''name'', JStr (col_text (val r ''name''))),
       (''count'', jnum (col_u64 r ''count'')), (''avg_us'', JDbl (col_double env (val r ''avg_us''))),
       (''p99_us'', JDbl (col_double env (val r ''p99_us''))), (''error_count'', jnum (col_u64 r ''error_count''))]"

definition lock_event :: "sqlrow \<Rightarrow> json" where
  "lock_event r =
     JObj [(''entity'', JStr ''host''), (''addr'', jnum (col_u64 r ''addr'')), (''sym'', JStr (col_text (val r ''sym''))),
       (''count'', jnum (col_u64 r ''count'')), (''total_wait_ns'', jnum (col_u64 r ''total_wait_ns'')),
       (''avg_wait_ns'', jnum (col_u64 r ''avg_wait_ns''))]"

text \<open>Microseconds as whole nanoseconds; converting a value outside the range is undefined.\<close>

definition wait_ns :: "double \<Rightarrow> json" where
  "wait_ns us = (case cast_double (us * 1000) of Inl _ \<Rightarrow> JNull | Inr w \<Rightarrow> jnum (w :: u64))"

definition runq_event :: "query_env \<Rightarrow> sqlrow \<Rightarrow> json" where
  "runq_event env r =
     (let p99 = col_double env (val r ''p99_us'')
      in JObj [(''entity'', JStr (''t'' @ show_nat (unat (col_u32 r ''tid'')))), (''count'', jnum (col_u64 r ''count'')),
           (''avg_us'', JDbl (col_double env (val r ''avg_us''))), (''p50_us'', JDbl (col_double env (val r ''p50_us''))),
           (''p99_us'', JDbl p99), (''wait_ns'', wait_ns p99)])"

text \<open>The query names nine columns; the last percentile is read from the tenth.\<close>

definition iofile_cols :: "string list" where
  "iofile_cols = [''dev'', ''ino'', ''path'', ''bytes'', ''ops'', ''errors'', ''lat_sum'', ''p50_us'', ''p99_us'']"

definition iofile_event :: "query_env \<Rightarrow> sqlrow \<Rightarrow> json" where
  "iofile_event env r =
     (let dev = col_u32 r ''dev''; p99 = column_double env iofile_cols r 9
      in JObj [(''entity'', JStr (''dev'' @ show_nat (unat (drop_bit 20 dev)) @ ''m'' @ show_nat (unat (take_bit 20 dev)))),
           (''ino'', jnum (col_u64 r ''ino'')), (''path'', JStr (col_text (val r ''path''))),
           (''bytes'', jnum (col_u64 r ''bytes'')), (''ops'', jnum (col_u64 r ''ops'')),
           (''errors'', jnum (col_u64 r ''errors'')), (''lat_sum'', jnum (col_u64 r ''lat_sum'')),
           (''p50_us'', JDbl (column_double env iofile_cols r 7)), (''p99_us'', JDbl p99), (''wait_ns'', wait_ns p99)])"

text \<open>The events of an episode: one query for each kind, in the order of the code.\<close>

definition evidence_events :: "query_env \<Rightarrow> int \<Rightarrow> tables \<Rightarrow> json" where
  "evidence_events env ordinal db =
     JObj [(''oom'', JArr (map oom_event (query_all env db ''oom_events''))),
       (''syscall'', JArr (map (syscall_event env) (query env db ''deep_syscall'' ordinal))),
       (''lock'', JArr (map lock_event (query env db ''deep_lock'' ordinal))),
       (''runq'', JArr (map (runq_event env) (query env db ''deep_runq'' ordinal))),
       (''iofile'', JArr (map (iofile_event env) (query env db ''deep_iofile'' ordinal)))]"

definition BuildEvidence :: "query_env \<Rightarrow> int \<Rightarrow> OutputWriter \<Rightarrow> json" where
  "BuildEvidence env ordinal w =
     (case ow_db w of
        None \<Rightarrow> JObj [(''series'', JArr []), (''events'', JObj [])]
      | Some d \<Rightarrow>
          (let db = db_tables d;
               rs = sort_key (\<lambda>r. (col_int64 (val r ''ts_ns''), col_int64 (val r ''tid''))) (query env db ''deep_series'' ordinal)
           in JObj [(''series'', JArr (proc_series rs @ thread_series env rs @
                       concat (map host_points (query_all env db ''memory_events'')))),
                (''events'', evidence_events env ordinal db)]))"

end
