(* ===== verification/EvidenceProps.thy ===== *)
theory EvidenceProps
  imports Evidence
begin

text \<open>
  Properties of the evidence bundle: the counters of a snapshot read back from its row, the series of
  a process is the sum over its threads, at most the eight most active threads are reported, and two
  fields never arrive.
\<close>

section \<open>Reading back what was written\<close>

definition stored :: "Stmt \<Rightarrow> sqlval list \<Rightarrow> sqlrow" where
  "stored st vs = (case kSql st of Insert t cs n \<Rightarrow> zip cs (bound n vs) | _ \<Rightarrow> [])"

definition snap_counters :: "CanonicalSnapshot \<Rightarrow> u64 list" where
  "snap_counters s = [sn_on_cpu_ns s, sn_io_ops s, sn_io_bytes s, ucast (sn_pf_minor s), ucast (sn_pf_major s),
     sn_lock_waits s, sn_lock_lat_ns s, sn_futex_waits s, sn_futex_lat_ns s, sn_syscall_count s, sn_syscall_lat_ns s,
     ucast (sn_runq_wait_count s), sn_runq_wait_ns s]"

lemma col_u64_i64 [simp]: "word_of_int (col_int64 (i64 v)) = v"
  by (simp add: i64_def col_int64_def)

lemma col_u64_u32i [simp]: "word_of_int (col_int64 (u32i (v :: u32))) = (ucast v :: u64)"
  "word_of_int (col_int64 (u32i v)) = v"
  by (simp_all add: u32i_def col_int64_def)

text \<open>
  The row of a snapshot gives back what the evidence reads: its time, thread and process,
  and every counter at its width.
\<close>

theorem series_row_reads_back:
  "let r = stored S_SERIES_INS (series_vals ordinal phase s)
   in val r ''ordinal'' = SInt ordinal \<and> col_u64 r ''ts_ns'' = sn_ts_ns s \<and> col_u32 r ''tid'' = sn_tid s \<and>
      col_u32 r ''tgid'' = sn_tgid s \<and> map (col_u64 r) acc_metrics = snap_counters s"
  by (simp add: stored_def sql_series_ins_def series_vals_def bound_def val_def col_u64_def col_u32_def acc_metrics_def
      snap_counters_def Let_def)

lemma hex_text_is_zero: "col_int64 (stext (''0x'' @ t)) = 0"
proof -
  have "is_space CHR ''0'' = False" "is_digit CHR ''0'' = True" "is_digit CHR ''x'' = False" "digit_val CHR ''0'' = 0"
    by (simp_all add: is_space_def is_digit_def digit_val_def)
  then show ?thesis
    by (simp add: stext_def cstr_def col_int64_def scan_lld_def strtoull_sign_def digits_val_def)
qed

text \<open>
  Two fields never arrive: the address of a lock is stored as text and read as a number,
  which is always 0, and the last percentile of a file is read behind the last column of the query,
  so it does not depend on what was written.
\<close>

theorem evidence_loses_fields:
  "jget (lock_event (stored S_LOCK_INS (lock_vals ordinal addr cnt lat sy))) ''addr'' = JInt 0 \<and>
   jget (iofile_event env (stored S_IOFILE_INS (iofile_vals ordinal dev ino path nb ops errs lat h p50 p99))) ''p50_us'' = JDbl p50 \<and>
   jget (iofile_event env (stored S_IOFILE_INS (iofile_vals ordinal dev ino path nb ops errs lat h p50 p99))) ''p99_us'' =
     JDbl (qe_beyond env)"
proof -
  have "val (stored S_LOCK_INS (lock_vals ordinal addr cnt lat sy)) ''addr'' = stext (''0x'' @ show_hex (unat addr))"
    by (simp add: stored_def sql_lock_ins_def lock_vals_def bound_def val_def)
  then have "col_u64 (stored S_LOCK_INS (lock_vals ordinal addr cnt lat sy)) ''addr'' = 0"
    by (simp only: col_u64_def hex_text_is_zero) simp
  moreover have "val (stored S_IOFILE_INS (iofile_vals ordinal dev ino path nb ops errs lat h p50 p99)) ''p50_us'' = SReal p50"
    by (simp add: stored_def sql_iofile_ins_def iofile_vals_def bound_def val_def)
  ultimately show ?thesis
    by (simp add: jget_def lock_event_def iofile_event_def column_double_def iofile_cols_def col_double_def
        jmembers_def jnum_def Let_def)
qed


section \<open>The series of a process\<close>

definition row_key :: "sqlrow \<Rightarrow> u64 \<times> u32" where
  "row_key r = (col_u64 r ''ts_ns'', col_u32 r ''tgid'')"

definition sum_column :: "sqlrow list \<Rightarrow> string \<Rightarrow> u64" where
  "sum_column rs m = sum_list (map (\<lambda>r. col_u64 r m) rs)"

lemma TAcc_fold:
  assumes "length a = length acc_metrics"
  shows "fold TAcc_add rs a = map2 (+) a (map (sum_column rs) acc_metrics)"
  using assms
proof (induction rs arbitrary: a)
  case Nil
  then show ?case by (auto simp: sum_column_def intro!: nth_equalityI)
next
  case (Cons r rs)
  have "length (TAcc_add r a) = length acc_metrics" using Cons.prems by (simp add: TAcc_add_def)
  from Cons.IH [OF this] Cons.prems show ?case
    by (auto simp: TAcc_add_def sum_column_def algebra_simps intro!: nth_equalityI)
qed

lemma acc_row_map:
  "map_of (acc_row r m) k =
     (if row_key r = k \<and> snd k \<noteq> 0 then Some (TAcc_add r (case map_of m k of None \<Rightarrow> TAcc0 | Some a \<Rightarrow> a)) else map_of m k)"
  by (auto simp: acc_row_def row_key_def Let_def)

lemma acc_rows_map:
  "map_of (fold acc_row rs m) k =
     (if snd k = 0 then map_of m k
      else let sel = filter (\<lambda>r. row_key r = k) rs
           in if sel = [] then map_of m k
              else Some (fold TAcc_add sel (case map_of m k of None \<Rightarrow> TAcc0 | Some a \<Rightarrow> a)))"
  by (induction rs arbitrary: m) (auto simp: acc_row_map Let_def)

lemma distinct_acc: "distinct (map fst m) \<Longrightarrow> distinct (map fst (fold acc_row rs m))"
  by (induction rs arbitrary: m) (simp_all add: acc_row_def Let_def distinct_alist_put)

lemma acc_entries:
  "(k, a) \<in> set (fold acc_row rs []) \<longleftrightarrow>
     snd k \<noteq> 0 \<and> (\<exists>r \<in> set rs. row_key r = k) \<and> a = map (sum_column (filter (\<lambda>r. row_key r = k) rs)) acc_metrics"
proof -
  have "(k, a) \<in> set (fold acc_row rs []) \<longleftrightarrow> map_of (fold acc_row rs []) k = Some a"
    by (rule map_of_eq_Some_iff [symmetric]) (rule distinct_acc, simp)
  moreover have "fold TAcc_add sel TAcc0 = map (sum_column sel) acc_metrics" for sel
    by (subst TAcc_fold) (auto simp: TAcc0_def acc_metrics_def numeral_eq_Suc)
  ultimately show ?thesis
    by (auto simp: acc_rows_map Let_def filter_empty_conv)
qed

lemma show_nat_eq_iff: "show_nat n = show_nat k \<longleftrightarrow> n = k"
  by (metis digits_val_show_nat)

text \<open>
  Claim C22: the series of a process is the sum over its threads: a point is reported for a process, a
  moment and a counter exactly when the process is known and some row has that moment, and its value
  is the sum of the counter over all those rows.
\<close>

theorem process_series_is_sum:
  "series_point (''proc'' @ show_nat (unat tgid)) m ts v \<in> set (proc_series rs) \<longleftrightarrow>
     tgid \<noteq> 0 \<and> m \<in> set acc_metrics \<and> (\<exists>r \<in> set rs. row_key r = (ts, tgid)) \<and>
     v = jnum (sum_column (filter (\<lambda>r. row_key r = (ts, tgid)) rs) m)"
proof -
  have pts: "series_point (''proc'' @ show_nat (unat tgid)) m ts v \<in> set (proc_points ((ts', tgid'), a)) \<longleftrightarrow>
      ts' = ts \<and> tgid' = tgid \<and> (m, v) \<in> set (map2 (\<lambda>m x. (m, jnum x)) acc_metrics a)" for ts' tgid' a
    by (auto simp: proc_points_def series_point_def show_nat_eq_iff dest: word_unat_eq_iff [THEN iffD2])
  have zip: "(m, v) \<in> set (map2 (\<lambda>m x. (m, jnum x)) acc_metrics (map f acc_metrics)) \<longleftrightarrow> m \<in> set acc_metrics \<and> v = jnum (f m)" for f
    by (auto simp: zip_map2 zip_same_conv_map)
  have "series_point (''proc'' @ show_nat (unat tgid)) m ts v \<in> set (proc_series rs) \<longleftrightarrow>
      (\<exists>ts' tgid' a. ((ts', tgid'), a) \<in> set (fold acc_row rs []) \<and>
         series_point (''proc'' @ show_nat (unat tgid)) m ts v \<in> set (proc_points ((ts', tgid'), a)))"
    by (fastforce simp: proc_series_def simp del: append_Cons)
  also have "\<dots> \<longleftrightarrow> (\<exists>a. ((ts, tgid), a) \<in> set (fold acc_row rs []) \<and> (m, v) \<in> set (map2 (\<lambda>m x. (m, jnum x)) acc_metrics a))"
    unfolding pts by blast
  finally show ?thesis unfolding acc_entries by (auto simp: zip simp del: set_map)
qed

section \<open>The most active threads\<close>

text \<open>
  The threads reported are the most active ones: at most eight, and no thread left out is
  more active than one of them.
\<close>

theorem most_active_threads:
  assumes "mset (qe_order env (fold tid_row rs [])) = mset (fold tid_row rs [])"
  shows "length (ranked env rs) \<le> 8 \<and> set (ranked env rs) \<subseteq> set (fold tid_row rs []) \<and>
    (\<forall>x \<in> set (ranked env rs). \<forall>y \<in> set (fold tid_row rs []) - set (ranked env rs). snd y \<le> snd x)"
proof -
  let ?s = "sort_desc snd (qe_order env (fold tid_row rs []))"
  have set: "set ?s = set (fold tid_row rs [])" using assms by (metis set_sort_desc set_mset_mset)
  have "sorted_wrt (\<lambda>x y. snd x \<le> snd y) (sort_key snd (rev (qe_order env (fold tid_row rs []))))"
    using sorted_sort_key unfolding sorted_map .
  then have sorted: "sorted_wrt (\<lambda>x y. snd y \<le> snd x) ?s" by (simp add: sort_desc_def sorted_wrt_rev)
  have "sorted_wrt (\<lambda>x y. snd y \<le> snd x) (take 8 ?s @ drop 8 ?s)" using sorted by simp
  then have s: "\<forall>x \<in> set (take 8 ?s). \<forall>y \<in> set (drop 8 ?s). snd y \<le> snd x" unfolding sorted_wrt_append by blast
  have u: "set (fold tid_row rs []) = set (take 8 ?s) \<union> set (drop 8 ?s)"
    unfolding set [symmetric] by (metis append_take_drop_id set_append)
  have len: "length (take 8 ?s) \<le> 8" by simp
  show ?thesis unfolding ranked_def u using s len by blast
qed

lemma most_active_threads_witness:
  "length (ranked \<lparr>qe_rows = (\<lambda>_ rs. rs), qe_beyond = 0, qe_strtod = (\<lambda>_. 0), qe_order = rev\<rparr>
     (map (\<lambda>i. [(''tid'', SInt i), (''lock_waits'', SInt (i * i))]) [1..20])) \<le> 8"
  using most_active_threads [of "\<lparr>qe_rows = (\<lambda>_ rs. rs), qe_beyond = 0, qe_strtod = (\<lambda>_. 0), qe_order = rev\<rparr>"
      "map (\<lambda>i. [(''tid'', SInt i), (''lock_waits'', SInt (i * i))]) [1..20]"]
  by simp

end
