(* ===== verification/Network.thy ===== *)
theory Network
  imports Host
begin

text \<open>
  The network metrics, \<^verbatim>\<open>src/collect/network_metrics.cpp\<close>: the interfaces from one \<^verbatim>\<open>RTM_GETLINK\<close>
  dump or from \<^verbatim>\<open>/proc/net/dev\<close>, the counters of the protocol stack from the files of \<^verbatim>\<open>/proc/net\<close>,
  the backlog rows of the CPUs and the socket states from a \<^verbatim>\<open>SOCK_DIAG\<close> dump. A netlink socket is
  the list of what its \<^verbatim>\<open>recv\<close> calls return: an error, or a datagram already cut into its messages by
  the macros of the kernel's headers. A call past the end of the list never returns.
\<close>

section \<open>Tokens\<close>

definition net_ParseU64 :: "string \<Rightarrow> u64 \<Rightarrow> u64" where
  "net_ParseU64 s dflt = (case strtoull (cstr s) of None \<Rightarrow> dflt | Some v \<Rightarrow> v)"

section \<open>Interfaces\<close>

record rtnl_link_stats64 =
  l64_rx_bytes :: u64
  l64_rx_packets :: u64
  l64_rx_errors :: u64
  l64_rx_dropped :: u64
  l64_tx_bytes :: u64
  l64_tx_packets :: u64
  l64_tx_errors :: u64
  l64_tx_dropped :: u64
  l64_collisions :: u64
  l64_rx_nohandler :: u64

record rtnl_link_stats =
  l32_rx_bytes :: u32
  l32_rx_packets :: u32
  l32_rx_errors :: u32
  l32_rx_dropped :: u32
  l32_tx_bytes :: u32
  l32_tx_packets :: u32
  l32_tx_errors :: u32
  l32_tx_dropped :: u32
  l32_collisions :: u32
  l32_rx_nohandler :: u32

datatype link_attr =
    IFLA_IFNAME string
  | IFLA_MTU u32
  | IFLA_OPERSTATE u8
  | IFLA_CARRIER_CHANGES u32
  | IFLA_STATS64 rtnl_link_stats64
  | IFLA_STATS rtnl_link_stats
  | IFLA_other

datatype link_msg = LinkDone | LinkError | NewLink u32 u32 "link_attr list" | LinkOther

record LinkRow =
  lr_row :: NetInterfaceRow
  lr_has_stats :: bool

fun set_link_attr :: "link_attr \<Rightarrow> LinkRow \<Rightarrow> LinkRow" where
  "set_link_attr (IFLA_IFNAME n) l = l\<lparr>lr_row := (lr_row l)\<lparr>ni_name := cstr n\<rparr>\<rparr>"
| "set_link_attr (IFLA_MTU v) l = l\<lparr>lr_row := (lr_row l)\<lparr>ni_mtu := v\<rparr>\<rparr>"
| "set_link_attr (IFLA_OPERSTATE v) l = l\<lparr>lr_row := (lr_row l)\<lparr>ni_operstate := uint v\<rparr>\<rparr>"
| "set_link_attr (IFLA_CARRIER_CHANGES v) l = l\<lparr>lr_row := (lr_row l)\<lparr>ni_carrier_changes := ucast v\<rparr>\<rparr>"
| "set_link_attr (IFLA_STATS64 s) l = l\<lparr>lr_has_stats := True, lr_row := (lr_row l)\<lparr>
     ni_rx_bytes := l64_rx_bytes s, ni_rx_packets := l64_rx_packets s,
     ni_rx_errors := l64_rx_errors s, ni_rx_dropped := l64_rx_dropped s,
     ni_tx_bytes := l64_tx_bytes s, ni_tx_packets := l64_tx_packets s,
     ni_tx_errors := l64_tx_errors s, ni_tx_dropped := l64_tx_dropped s,
     ni_collisions := l64_collisions s, ni_rx_nohandler := l64_rx_nohandler s\<rparr>\<rparr>"
| "set_link_attr (IFLA_STATS s) l = l\<lparr>lr_has_stats := True, lr_row := (lr_row l)\<lparr>
     ni_rx_bytes := ucast (l32_rx_bytes s), ni_rx_packets := ucast (l32_rx_packets s),
     ni_rx_errors := ucast (l32_rx_errors s), ni_rx_dropped := ucast (l32_rx_dropped s),
     ni_tx_bytes := ucast (l32_tx_bytes s), ni_tx_packets := ucast (l32_tx_packets s),
     ni_tx_errors := ucast (l32_tx_errors s), ni_tx_dropped := ucast (l32_tx_dropped s),
     ni_collisions := ucast (l32_collisions s), ni_rx_nohandler := ucast (l32_rx_nohandler s)\<rparr>\<rparr>"
| "set_link_attr IFLA_other l = l"

text \<open>\<^verbatim>\<open>IFF_UP\<close> is bit 0 and \<^verbatim>\<open>IFF_RUNNING\<close> bit 6 of the flags.\<close>

definition link_start :: "u32 \<Rightarrow> u32 \<Rightarrow> LinkRow" where
  "link_start ifindex flags =
     \<lparr>lr_row = NetInterfaceRow0\<lparr>ni_ifindex := ifindex,
        ni_operstate := (if bit flags 0 then (if bit flags 6 then 6 else 2) else 2),
        ni_valid := True, ni_source := ''netlink''\<rparr>, lr_has_stats = False\<rparr>"

definition link_row :: "u32 \<Rightarrow> u32 \<Rightarrow> link_attr list \<Rightarrow> LinkRow" where
  "link_row ifindex flags attrs = fold set_link_attr attrs (link_start ifindex flags)"

definition keep_link :: "LinkRow \<Rightarrow> LinkRow list" where
  "keep_link l = (if ni_name (lr_row l) \<noteq> [] \<and> lr_has_stats l then [l] else [])"

fun walk_links :: "link_msg list \<Rightarrow> LinkRow list \<Rightarrow> bool \<times> LinkRow list" where
  "walk_links [] out = (False, out)"
| "walk_links (LinkDone # ms) out = (True, out)"
| "walk_links (LinkError # ms) out = (True, out)"
| "walk_links (LinkOther # ms) out = walk_links ms out"
| "walk_links (NewLink i f attrs # ms) out = walk_links ms (out @ keep_link (link_row i f attrs))"

fun recv_links :: "link_msg list option list \<Rightarrow> LinkRow list \<Rightarrow> LinkRow list option" where
  "recv_links [] out = None"
| "recv_links (None # rx) out = Some out"
| "recv_links (Some ms # rx) out =
     (case walk_links ms out of (True, out') \<Rightarrow> Some out' | (False, out') \<Rightarrow> recv_links rx out')"

datatype diag_msg = DiagDone | DiagError | DiagSocket u8 u32 u32

record nl_env =
  nl_files :: files
  nl_link_socket :: bool
  nl_link_send :: bool
  nl_link_recv :: "link_msg list option list"
  nl_nametoindex :: "string \<Rightarrow> u32"
  nl_diag_socket :: bool
  nl_diag_send :: "bool \<times> bool"
  nl_diag_recv :: "diag_msg list option list"
  nl_netns :: "u64 option"
  nl_beyond :: string

definition NetlinkLinks :: "nl_env \<Rightarrow> LinkRow list option" where
  "NetlinkLinks env =
     (if nl_link_socket env \<and> nl_link_send env then recv_links (nl_link_recv env) [] else Some [])"

text \<open>The lines after the first header line; the second one has no colon.\<close>

definition is_dev_header :: "string \<Rightarrow> bool" where
  "is_dev_header line \<longleftrightarrow> find_sub ''Inter-|'' line \<noteq> None \<or> find_sub ''face |'' line \<noteq> None"

definition dev_line :: "nl_env \<Rightarrow> string \<Rightarrow> string \<Rightarrow> LinkRow list" where
  "dev_line env err line =
     (case find_char CHR '':'' line of
        None \<Rightarrow> []
      | Some colon \<Rightarrow>
          (let name = dropWhile (\<lambda>c. c = CHR '' '' \<or> c = CHR 0x09) (take colon line);
               toks = split_ws (drop (colon + 1) line);
               num = (\<lambda>i. net_ParseU64 (toks ! i) 0)
           in if length toks < 16 then []
              else [\<lparr>lr_row = NetInterfaceRow0\<lparr>ni_ifindex := nl_nametoindex env (cstr name), ni_name := name,
                       ni_source := ''fallback'', ni_error := err, ni_rx_bytes := num 0, ni_rx_packets := num 1,
                       ni_rx_errors := num 2, ni_rx_dropped := num 3, ni_tx_bytes := num 8,
                       ni_tx_packets := num 9, ni_tx_errors := num 10, ni_tx_dropped := num 11,
                       ni_collisions := num 13, ni_valid := True\<rparr>, lr_has_stats = True\<rparr>]))"

definition ProcDevFallback :: "nl_env \<Rightarrow> string \<Rightarrow> LinkRow list" where
  "ProcDevFallback env err =
     concat (map (dev_line env err)
       (drop 1 (dropWhile (\<lambda>l. \<not> is_dev_header l) (getlines (ReadFile (nl_files env) ''/proc/net/dev'')))))"

section \<open>Keyed files\<close>

text \<open>The value under a key: the two lines are cut into words and read in parallel.\<close>

definition KeyedValue :: "string \<Rightarrow> string \<Rightarrow> string \<Rightarrow> u64 option" where
  "KeyedValue keys_line vals_line key =
     map_option (\<lambda>(_, v). net_ParseU64 v 0) (find (\<lambda>(k, _). k = key) (zip (split_ws keys_line) (split_ws vals_line)))"

text \<open>The first two lines of a section, without its name.\<close>

definition FindSection :: "string \<Rightarrow> string \<Rightarrow> (string \<times> string) option" where
  "FindSection text name =
     (case filter (starts_with (name @ '':'')) (getlines text) of
        k # v # _ \<Rightarrow> Some (drop (length name + 1) k, drop (length name + 1) v)
      | _ \<Rightarrow> None)"

definition section_value :: "string \<Rightarrow> string \<Rightarrow> string \<Rightarrow> u64 option" where
  "section_value text name key = (case FindSection text name of None \<Rightarrow> None | Some (k, v) \<Rightarrow> KeyedValue k v key)"

fun mem_after :: "string list \<Rightarrow> u64 option" where
  "mem_after (t # u # ts) = (if t = ''mem'' then Some (net_ParseU64 u 0) else mem_after (u # ts))"
| "mem_after _ = None"

fun sockstat_lines :: "string \<Rightarrow> string list \<Rightarrow> u64" where
  "sockstat_lines proto [] = 0"
| "sockstat_lines proto (l # ls) =
     (if starts_with (proto @ '':'') l
      then case mem_after (split_ws (drop (length proto + 1) l)) of
             None \<Rightarrow> sockstat_lines proto ls
           | Some v \<Rightarrow> v
      else sockstat_lines proto ls)"

definition SockstatMem :: "string \<Rightarrow> string \<Rightarrow> u64" where
  "SockstatMem text proto = sockstat_lines proto (getlines text)"

definition stack_fields :: "(string \<times> string \<times> (u64 \<Rightarrow> NetStackSnapshot \<Rightarrow> NetStackSnapshot)) list" where
  "stack_fields = [
    (''Tcp'', ''ActiveOpens'', \<lambda>v. ns_active_opens_update (\<lambda>_. v)),
    (''Tcp'', ''PassiveOpens'', \<lambda>v. ns_passive_opens_update (\<lambda>_. v)),
    (''Tcp'', ''AttemptFails'', \<lambda>v. ns_attempt_fails_update (\<lambda>_. v)),
    (''Tcp'', ''EstabResets'', \<lambda>v. ns_estab_resets_update (\<lambda>_. v)),
    (''Tcp'', ''CurrEstab'', \<lambda>v. ns_curr_estab_update (\<lambda>_. v)),
    (''Tcp'', ''InSegs'', \<lambda>v. ns_in_segs_update (\<lambda>_. v)),
    (''Tcp'', ''OutSegs'', \<lambda>v. ns_out_segs_update (\<lambda>_. v)),
    (''Tcp'', ''RetransSegs'', \<lambda>v. ns_retrans_segs_update (\<lambda>_. v)),
    (''Tcp'', ''InErrs'', \<lambda>v. ns_in_errs_update (\<lambda>_. v)),
    (''Tcp'', ''OutRsts'', \<lambda>v. ns_out_rsts_update (\<lambda>_. v)),
    (''Udp'', ''InDatagrams'', \<lambda>v. ns_udp_in_datagrams_update (\<lambda>_. v)),
    (''Udp'', ''NoPorts'', \<lambda>v. ns_udp_no_ports_update (\<lambda>_. v)),
    (''Udp'', ''InErrors'', \<lambda>v. ns_udp_in_errors_update (\<lambda>_. v)),
    (''Udp'', ''OutDatagrams'', \<lambda>v. ns_udp_out_datagrams_update (\<lambda>_. v)),
    (''Udp'', ''RcvbufErrors'', \<lambda>v. ns_udp_rcvbuf_errors_update (\<lambda>_. v)),
    (''Udp'', ''SndbufErrors'', \<lambda>v. ns_udp_sndbuf_errors_update (\<lambda>_. v))]"

definition ext_fields :: "(string \<times> string \<times> (u64 \<Rightarrow> NetStackSnapshot \<Rightarrow> NetStackSnapshot)) list" where
  "ext_fields = [
    (''TcpExt'', ''ListenOverflows'', \<lambda>v. ns_listen_overflows_update (\<lambda>_. v)),
    (''TcpExt'', ''ListenDrops'', \<lambda>v. ns_listen_drops_update (\<lambda>_. v)),
    (''TcpExt'', ''TCPBacklogDrop'', \<lambda>v. ns_backlog_drop_update (\<lambda>_. v)),
    (''TcpExt'', ''TCPRcvQDrop'', \<lambda>v. ns_rcv_q_drop_update (\<lambda>_. v)),
    (''TcpExt'', ''TCPSynRetrans'', \<lambda>v. ns_syn_retrans_update (\<lambda>_. v)),
    (''TcpExt'', ''TCPTimeouts'', \<lambda>v. ns_timeouts_update (\<lambda>_. v)),
    (''TcpExt'', ''TCPMemoryPressures'', \<lambda>v. ns_memory_pressures_update (\<lambda>_. v))]"

definition set_field :: "string \<Rightarrow> string \<times> string \<times> (u64 \<Rightarrow> NetStackSnapshot \<Rightarrow> NetStackSnapshot) \<Rightarrow> NetStackSnapshot \<Rightarrow> NetStackSnapshot" where
  "set_field text f t = (case f of (sec, key, upd) \<Rightarrow>
     (case section_value text sec key of None \<Rightarrow> t | Some v \<Rightarrow> upd v t))"

definition stack_counters :: "files \<Rightarrow> NetStackSnapshot \<Rightarrow> NetStackSnapshot" where
  "stack_counters fs t =
     (let snmp = ReadFile fs ''/proc/net/snmp''; netstat = ReadFile fs ''/proc/net/netstat'';
          t1 = t\<lparr>ns_valid := snmp \<noteq> [], ns_source := (if snmp \<noteq> [] then ''procfs'' else ''unavailable''),
                 ns_error := (if snmp \<noteq> [] then ns_error t else ''/proc/net/snmp unreadable'')\<rparr>
      in fold (set_field netstat) ext_fields (fold (set_field snmp) stack_fields t1))"

definition stack_memory :: "files \<Rightarrow> NetStackSnapshot \<Rightarrow> NetStackSnapshot" where
  "stack_memory fs t =
     (let sk = ReadFile fs ''/proc/net/sockstat''; sk6 = ReadFile fs ''/proc/net/sockstat6''
      in t\<lparr>ns_tcp_sock_mem := SockstatMem sk ''TCP'' + SockstatMem sk6 ''TCP6'',
           ns_udp_sock_mem := SockstatMem sk ''UDP'' + SockstatMem sk6 ''UDP6'',
           ns_frag_sock_mem := SockstatMem sk ''FRAG'' + SockstatMem sk6 ''FRAG6''\<rparr>)"

section \<open>Rows of the CPUs\<close>

text \<open>
  A line with four words is accepted, and its fifth word is read: \<open>nl_beyond\<close> is what the code finds
  behind the last word.
\<close>

definition softnet_row :: "string \<Rightarrow> nat \<Rightarrow> string list \<Rightarrow> NetSoftnetRow" where
  "softnet_row beyond cpu toks =
     (let num = (\<lambda>i. net_ParseU64 (if i < length toks then toks ! i else beyond) 0);
          r = NetSoftnetRow0\<lparr>nq_cpu_idx := of_nat cpu, nq_processed := num 0, nq_dropped := num 1,
                nq_time_squeeze := num 2\<rparr>
      in if 12 \<le> length toks
         then r\<lparr>nq_received_rps := num 9, nq_flow_limit_count := num 10, nq_backlog_len := num 11, nq_valid := True\<rparr>
         else r\<lparr>nq_received_rps := num 3, nq_flow_limit_count := num 4, nq_backlog_len := 0, nq_valid := True\<rparr>)"

definition softnet_rows :: "string \<Rightarrow> string \<Rightarrow> NetSoftnetRow list" where
  "softnet_rows beyond text =
     map (\<lambda>(cpu, toks). softnet_row beyond cpu toks)
       (enumerate 0 (filter (\<lambda>toks. 4 \<le> length toks) (map split_ws (getlines text))))"

fun last_index :: "'a \<Rightarrow> nat \<Rightarrow> 'a list \<Rightarrow> nat option" where
  "last_index x i [] = None"
| "last_index x i (y # ys) =
     (case last_index x (Suc i) ys of None \<Rightarrow> if y = x then Some i else None | Some j \<Rightarrow> Some j)"

definition softirq_at :: "string list \<Rightarrow> nat option \<Rightarrow> u64" where
  "softirq_at toks col = (case col of None \<Rightarrow> 0 | Some c \<Rightarrow> if c + 1 < length toks then net_ParseU64 (toks ! (c + 1)) 0 else 0)"

definition softirq_line :: "nat option \<Rightarrow> nat option \<Rightarrow> string \<Rightarrow> NetSoftnetRow list \<Rightarrow> NetSoftnetRow list" where
  "softirq_line rx_col tx_col line out =
     (case split_ws line of
        [] \<Rightarrow> out
      | t # toks \<Rightarrow>
          (if \<not> starts_with ''CPU'' t then out
           else let idx = unat (ucast (net_ParseU64 (drop 3 t) 0) :: u32)
                in if idx < length out
                   then out[idx := (out ! idx)\<lparr>nq_net_rx_softirq := softirq_at (t # toks) rx_col,
                                               nq_net_tx_softirq := softirq_at (t # toks) tx_col\<rparr>]
                   else out))"

definition softirq_rows :: "string \<Rightarrow> NetSoftnetRow list \<Rightarrow> NetSoftnetRow list" where
  "softirq_rows text out =
     (case getlines text of
        [] \<Rightarrow> out
      | h # ls \<Rightarrow>
          (let hdr = split_ws h
           in fold (softirq_line (last_index ''NET_RX'' 0 hdr) (last_index ''NET_TX'' 0 hdr)) ls out))"

definition ReadSoftnet :: "nl_env \<Rightarrow> NetSoftnetRow list" where
  "ReadSoftnet env =
     (let text = ReadFile (nl_files env) ''/proc/net/softnet_stat''
      in if text = [] then []
         else softirq_rows (ReadFile (nl_files env) ''/proc/softirqs'') (softnet_rows (nl_beyond env) text))"

section \<open>Socket states\<close>

record tcp_tally =
  tt_states :: "u64 list"
  tt_rq :: u64
  tt_wq :: u64
  tt_any :: bool

definition tcp_tally0 :: tcp_tally where
  "tcp_tally0 = \<lparr>tt_states = replicate 13 0, tt_rq = 0, tt_wq = 0, tt_any = False\<rparr>"

definition tally_socket :: "u8 \<Rightarrow> u32 \<Rightarrow> u32 \<Rightarrow> tcp_tally \<Rightarrow> tcp_tally" where
  "tally_socket st rq wq t =
     t\<lparr>tt_states := (if 1 \<le> st \<and> st \<le> 13
                      then (tt_states t)[unat st - 1 := tt_states t ! (unat st - 1) + 1] else tt_states t),
       tt_rq := tt_rq t + ucast rq, tt_wq := tt_wq t + ucast wq, tt_any := True\<rparr>"

fun walk_diag :: "diag_msg list \<Rightarrow> tcp_tally \<Rightarrow> bool \<times> tcp_tally" where
  "walk_diag [] t = (False, t)"
| "walk_diag (DiagDone # ms) t = (True, t)"
| "walk_diag (DiagError # ms) t = (True, t)"
| "walk_diag (DiagSocket st rq wq # ms) t = walk_diag ms (tally_socket st rq wq t)"

fun recv_diag :: "diag_msg list option list \<Rightarrow> tcp_tally \<Rightarrow> (tcp_tally \<times> diag_msg list option list) option" where
  "recv_diag [] t = None"
| "recv_diag (None # rx) t = Some (t, rx)"
| "recv_diag (Some ms # rx) t =
     (case walk_diag ms t of (True, t') \<Rightarrow> Some (t', rx) | (False, t') \<Rightarrow> recv_diag rx t')"

definition diag_pass :: "bool \<Rightarrow> tcp_tally \<times> diag_msg list option list \<Rightarrow> (tcp_tally \<times> diag_msg list option list) option" where
  "diag_pass sent = (\<lambda>(t, rx). if sent then recv_diag rx t else Some (t, rx))"

definition tally_stack :: "tcp_tally \<Rightarrow> NetStackSnapshot \<Rightarrow> NetStackSnapshot" where
  "tally_stack t s = s\<lparr>
     ns_tcp_state_established := tt_states t ! 0,
     ns_tcp_state_syn_sent := tt_states t ! 1,
     ns_tcp_state_syn_recv := tt_states t ! 2,
     ns_tcp_state_fin_wait1 := tt_states t ! 3,
     ns_tcp_state_fin_wait2 := tt_states t ! 4,
     ns_tcp_state_time_wait := tt_states t ! 5,
     ns_tcp_state_close := tt_states t ! 6,
     ns_tcp_state_close_wait := tt_states t ! 7,
     ns_tcp_state_last_ack := tt_states t ! 8,
     ns_tcp_state_listen := tt_states t ! 9,
     ns_tcp_state_closing := tt_states t ! 10,
     ns_rqueue_bytes := tt_rq t, ns_wqueue_bytes := tt_wq t, ns_tcp_states_valid := True\<rparr>"

definition DiagTcpStates :: "nl_env \<Rightarrow> NetStackSnapshot \<Rightarrow> (bool \<times> NetStackSnapshot) option" where
  "DiagTcpStates env s =
     (if \<not> nl_diag_socket env then Some (False, s)
      else
        map_option (\<lambda>(t, _). if tt_any t then (True, tally_stack t s) else (False, s))
          (Option.bind (diag_pass (fst (nl_diag_send env)) (tcp_tally0, nl_diag_recv env))
             (diag_pass (snd (nl_diag_send env)))))"

section \<open>The snapshot\<close>

definition NetworkSnapshot_of :: "nl_env \<Rightarrow> u64 \<Rightarrow> bool \<Rightarrow> NetworkSnapshot option" where
  "NetworkSnapshot_of env ts_ns enabled =
     (let t0 = NetStackSnapshot0\<lparr>ns_netns_ino := (case nl_netns env of None \<Rightarrow> 0 | Some i \<Rightarrow> i)\<rparr>;
          s0 = NetworkSnapshot0\<lparr>nw_ts_ns := ts_ns, nw_enabled := enabled\<rparr>
      in if \<not> enabled
         then Some (s0\<lparr>nw_stack := t0\<lparr>ns_valid := False, ns_error := ''disabled'', ns_source := ''disabled''\<rparr>\<rparr>)
         else
           (case NetlinkLinks env of
              None \<Rightarrow> None
            | Some ls \<Rightarrow>
                (let links = (if ls = [] then ProcDevFallback env ''netlink RTM_GETLINK failed'' else ls);
                     t1 = stack_memory (nl_files env) (stack_counters (nl_files env) t0)
                 in case DiagTcpStates env t1 of
                      None \<Rightarrow> None
                    | Some (ok, t2) \<Rightarrow>
                        Some (s0\<lparr>nw_ifaces := map lr_row links, nw_softnets := ReadSoftnet env,
                          nw_stack := (if ok then t2
                            else t2\<lparr>ns_tcp_states_valid := False,
                                    ns_error := (if ns_valid t2 then ''NETLINK_INET_DIAG failed (state columns NULL)''
                                                 else ns_error t2)\<rparr>)\<rparr>))))"

end
