(* ===== verification/NetworkProps.thy ===== *)
theory NetworkProps
  imports Network HostProps
begin

text \<open>
  Properties of the network metrics: the socket states are counted however the kernel cuts its dumps,
  a counter of the protocol stack is read under its key, and two sources are misread: the 32-bit
  statistics of an interface overwrite the 64-bit ones, and the hexadecimal backlog counters are read
  as decimal numbers.
\<close>

section \<open>Socket states\<close>

fun dump_socket :: "u8 \<times> u32 \<times> u32 \<Rightarrow> diag_msg" where
  "dump_socket (st, rq, wq) = DiagSocket st rq wq"

definition tally_all :: "(u8 \<times> u32 \<times> u32) list \<Rightarrow> tcp_tally \<Rightarrow> tcp_tally" where
  "tally_all socks t = fold (\<lambda>(st, rq, wq). tally_socket st rq wq) socks t"

lemma walk_sockets:
  "walk_diag (map dump_socket socks @ ms) t = walk_diag ms (tally_all socks t)"
  by (induction socks arbitrary: t) (auto simp: tally_all_def)

text \<open>A dump in any datagrams whose last one ends with the message that closes it.\<close>

lemma recv_dump:
  assumes "concat ds = map dump_socket socks @ [DiagDone]" and "ds \<noteq> []" and "last ds \<noteq> []"
  shows "recv_diag (map Some ds @ rx) t = Some (tally_all socks t, rx)"
  using assms
proof (induction ds arbitrary: socks t)
  case (Cons d ds)
  show ?case
  proof (cases "ds = []")
    case True
    then show ?thesis using Cons.prems by (simp add: walk_sockets)
  next
    case False
    have tl: "concat ds \<noteq> []" using False Cons.prems(3) by (metis concat_eq_Nil_conv last_ConsR last_in_set)
    define n where "n = length d"
    have "length (concat (d # ds)) = Suc (length socks)" using Cons.prems(1) by simp
    moreover have "0 < length (concat ds)" using tl length_greater_0_conv by blast
    ultimately have n: "n \<le> length socks" unfolding n_def concat.simps length_append by linarith
    have d: "d = map dump_socket (take n socks)" and r: "concat ds = map dump_socket (drop n socks) @ [DiagDone]"
      using Cons.prems(1) n by (auto simp: n_def append_eq_append_conv_if take_map drop_map)
    have "walk_diag d t = (False, tally_all (take n socks) t)"
      using walk_sockets [of "take n socks" "[]" t] d by simp
    moreover have "tally_all (drop n socks) (tally_all (take n socks) t) = tally_all socks t"
      unfolding tally_all_def by (metis append_take_drop_id comp_apply fold_append)
    ultimately show ?thesis using Cons.IH [OF r False] Cons.prems(3) False by simp
  qed
qed simp

lemma tally_all_simps [simp]:
  "tally_all [] t = t"
  "tally_all ((st, rq, wq) # socks) t = tally_all socks (tally_socket st rq wq t)"
  by (simp_all add: tally_all_def)

lemma tally_socket_simps [simp]:
  "tt_any (tally_socket st rq wq t)" "tt_rq (tally_socket st rq wq t) = tt_rq t + ucast rq"
  "tt_wq (tally_socket st rq wq t) = tt_wq t + ucast wq"
  "length (tt_states (tally_socket st rq wq t)) = length (tt_states t)"
  by (simp_all add: tally_socket_def)

lemma tally_all_any: "tt_any (tally_all socks t) \<longleftrightarrow> tt_any t \<or> socks \<noteq> []"
proof (induction socks arbitrary: t)
  case (Cons s socks)
  show ?case by (cases s) (simp add: Cons.IH)
qed simp

lemma in_13: "(1 :: u8) \<le> st \<and> st \<le> 13 \<longleftrightarrow> 1 \<le> unat st \<and> unat st \<le> 13"
proof -
  have "unat (13 :: u8) = 13" "unat (1 :: u8) = 1" by simp_all
  then show ?thesis by (simp only: word_le_nat_alt)
qed

lemma tally_socket_states:
  assumes "length (tt_states t) = 13" and "i < 13"
  shows "tt_states (tally_socket st rq wq t) ! i = tt_states t ! i + (if unat st = Suc i then 1 else 0)"
proof (cases "1 \<le> st \<and> st \<le> 13")
  case True
  then have "1 \<le> unat st" "unat st \<le> 13" by (simp_all add: in_13)
  then show ?thesis using assms True by (cases "unat st = Suc i") (auto simp: tally_socket_def nth_list_update)
next
  case False
  then have "\<not> (1 \<le> unat st \<and> unat st \<le> 13)" by (simp only: in_13 not_False_eq_True)
  then have "unat st \<noteq> Suc i" using assms(2) by auto
  moreover have "tt_states (tally_socket st rq wq t) = tt_states t"
    unfolding tally_socket_def if_not_P [OF False] by simp
  ultimately show ?thesis by simp
qed

lemma tally_all_states:
  assumes "length (tt_states t) = 13" and "i < 13"
  shows "tt_states (tally_all socks t) ! i =
      tt_states t ! i + of_nat (length (filter (\<lambda>(st, _). unat st = Suc i) socks))"
  using assms(1)
proof (induction socks arbitrary: t)
  case (Cons s socks)
  obtain st rq wq where s: "s = (st, rq, wq)" by (cases s)
  show ?case using Cons.IH [of "tally_socket st rq wq t"] tally_socket_states [OF Cons.prems assms(2)] Cons.prems
    by (simp add: s)
qed simp

lemma tally_all_queues:
  "tt_rq (tally_all socks t) = tt_rq t + sum_list (map (\<lambda>(_, rq, _). ucast rq) socks)"
  "tt_wq (tally_all socks t) = tt_wq t + sum_list (map (\<lambda>(_, _, wq). ucast wq) socks)"
proof (induction socks arbitrary: t)
  case (Cons s socks)
  { case 1 show ?case using Cons.IH(1) by (cases s) (simp add: ac_simps) }
  { case 2 show ?case using Cons.IH(2) by (cases s) (simp add: ac_simps) }
qed simp_all

definition in_state :: "(u8 \<times> u32 \<times> u32) list \<Rightarrow> nat \<Rightarrow> u64" where
  "in_state socks k = of_nat (length (filter (\<lambda>(st, _). unat st = k) socks))"

text \<open>
  Claim C34: socket states are counted however the kernel cuts its dumps: with two dumps that are
  closed properly, in any datagrams, the summary is valid exactly when some socket was reported, and
  each state has the number of sockets in it, over both address families.
\<close>

theorem tcp_states_counted:
  assumes "nl_diag_socket env" and "nl_diag_send env = (True, True)"
    and "nl_diag_recv env = map Some (ds4 @ ds6)"
    and "concat ds4 = map dump_socket s4 @ [DiagDone]" and "last ds4 \<noteq> []"
    and "concat ds6 = map dump_socket s6 @ [DiagDone]" and "last ds6 \<noteq> []"
  shows "\<exists>s'. DiagTcpStates env s = Some (s4 @ s6 \<noteq> [], s') \<and> (if s4 @ s6 = [] then s' = s else
    ns_tcp_states_valid s' \<and>
    map (\<lambda>f. f s') [ns_tcp_state_established, ns_tcp_state_syn_sent, ns_tcp_state_syn_recv, ns_tcp_state_fin_wait1,
      ns_tcp_state_fin_wait2, ns_tcp_state_time_wait, ns_tcp_state_close, ns_tcp_state_close_wait, ns_tcp_state_last_ack,
      ns_tcp_state_listen, ns_tcp_state_closing] = map (in_state (s4 @ s6)) [1..<12] \<and>
    ns_rqueue_bytes s' = sum_list (map (\<lambda>(_, rq, _). ucast rq) (s4 @ s6)) \<and>
    ns_wqueue_bytes s' = sum_list (map (\<lambda>(_, _, wq). ucast wq) (s4 @ s6)))"
proof -
  have ne: "ds4 \<noteq> []" "ds6 \<noteq> []" using assms(4,6) by auto
  define t where "t = tally_all (s4 @ s6) tcp_tally0"
  have "Option.bind (diag_pass True (tcp_tally0, nl_diag_recv env)) (diag_pass True) = Some (t, [])"
    using recv_dump [OF assms(4) ne(1) assms(5), of "map Some ds6" tcp_tally0]
      recv_dump [OF assms(6) ne(2) assms(7), of "[]" "tally_all s4 tcp_tally0"]
    by (simp add: assms(3) diag_pass_def t_def tally_all_def)
  then have r: "DiagTcpStates env s = Some (if tt_any t then (True, tally_stack t s) else (False, s))"
    by (simp add: DiagTcpStates_def assms(1,2))
  have any: "tt_any t \<longleftrightarrow> s4 @ s6 \<noteq> []"
    unfolding t_def tally_all_any by (simp add: tcp_tally0_def)
  have st: "tt_states t ! i = in_state (s4 @ s6) (Suc i)" if "i < 13" for i
    using tally_all_states [of tcp_tally0 i "s4 @ s6"] that by (simp add: t_def in_state_def tcp_tally0_def)
  have q: "tt_rq t = sum_list (map (\<lambda>(_, rq, _). ucast rq) (s4 @ s6))" "tt_wq t = sum_list (map (\<lambda>(_, _, wq). ucast wq) (s4 @ s6))"
    unfolding t_def tally_all_queues by (simp_all add: tcp_tally0_def)
  have idx: "[1..<12] = map Suc [0, 1, 2, 3, 4, 5, 6, 7, 8, 9, 10]" by (simp add: upt_rec)
  show ?thesis
  proof (cases "s4 @ s6 = []")
    case True
    then show ?thesis using r any by simp
  next
    case False
    then have "DiagTcpStates env s = Some (True, tally_stack t s)" using r any by simp
    moreover have "map (\<lambda>f. f (tally_stack t s)) [ns_tcp_state_established, ns_tcp_state_syn_sent, ns_tcp_state_syn_recv,
        ns_tcp_state_fin_wait1, ns_tcp_state_fin_wait2, ns_tcp_state_time_wait, ns_tcp_state_close,
        ns_tcp_state_close_wait, ns_tcp_state_last_ack, ns_tcp_state_listen, ns_tcp_state_closing]
        = map (in_state (s4 @ s6)) [1..<12]"
      unfolding idx by (simp add: tally_stack_def st)
    moreover have "ns_tcp_states_valid (tally_stack t s)" "ns_rqueue_bytes (tally_stack t s) = tt_rq t"
        "ns_wqueue_bytes (tally_stack t s) = tt_wq t"
      by (simp_all add: tally_stack_def)
    ultimately show ?thesis using False
      by (intro exI [of _ "tally_stack t s"]) (simp only: q if_False simp_thms)
  qed
qed

section \<open>Keyed files\<close>

lemma split_word:
  assumes "list_all (\<lambda>c. \<not> is_space c) w"
  shows "split_ws_aux acc (w @ s) = split_ws_aux (rev w @ acc) s"
  using assms by (induction w arbitrary: acc) auto

definition word_ok :: "string \<Rightarrow> bool" where
  "word_ok w \<longleftrightarrow> w \<noteq> [] \<and> list_all (\<lambda>c. \<not> is_space c) w"

lemma split_words:
  assumes "list_all word_ok ws"
  shows "split_ws_aux acc (concat (map (\<lambda>w. CHR '' '' # w) ws)) = (if acc = [] then ws else rev acc # ws)"
  using assms
proof (induction ws arbitrary: acc)
  case (Cons w ws)
  have "split_ws_aux [] (w @ concat (map (\<lambda>w. CHR '' '' # w) ws)) = w # ws"
    using Cons split_word [of w "[]"] by (simp add: word_ok_def)
  then show ?case by (simp add: is_space_def)
qed simp

lemma number_ok: "word_ok (show_nat n)"
  using show_nat_digits [of n] by (auto simp: word_ok_def list_all_iff dest: is_digit_not_space)

lemma number_no_nul: "cstr (show_nat n) = show_nat n"
  using show_nat_digits [of n] by (auto simp: cstr_def list_all_iff is_digit_def takeWhile_eq_all_conv Let_def)

lemma net_ParseU64_printed: "net_ParseU64 (show_nat (unat v)) d = v"
proof -
  have "unat v < 2 ^ 64" using unsigned_less [of v] by simp
  then show ?thesis using strtoull_show_nat [of "unat v"] by (simp add: net_ParseU64_def number_no_nul)
qed

definition words_line :: "string \<Rightarrow> string list \<Rightarrow> string" where
  "words_line name ws = name @ '':'' @ concat (map (\<lambda>w. CHR '' '' # w) ws) @ [CHR 0x0A]"

text \<open>A file as the kernel prints it: for each section the line of the keys, then that of the values.\<close>

definition print_section :: "string \<times> (string \<times> u64) list \<Rightarrow> string" where
  "print_section s = (case s of (name, kvs) \<Rightarrow>
     words_line name (map fst kvs) @ words_line name (map (\<lambda>(_, v). show_nat (unat v)) kvs))"

definition section_ok :: "string \<times> (string \<times> u64) list \<Rightarrow> bool" where
  "section_ok s \<longleftrightarrow> CHR '':'' \<notin> set (fst s) \<and> CHR 0x0A \<notin> set (fst s) \<and> list_all (\<lambda>(k, _). word_ok k) (snd s)"

lemma keyed_printed:
  assumes "list_all (\<lambda>(k, _). word_ok k) kvs"
  shows "KeyedValue (concat (map (\<lambda>w. CHR '' '' # w) (map fst kvs)))
     (concat (map (\<lambda>w. CHR '' '' # w) (map (\<lambda>(_, v). show_nat (unat v)) kvs))) key = map_of kvs key"
proof -
  have "list_all word_ok (map fst kvs)" "list_all word_ok (map (\<lambda>(_, v). show_nat (unat v)) kvs)"
    using assms by (auto simp: list_all_iff number_ok)
  then have s: "split_ws (concat (map (\<lambda>w. CHR '' '' # w) (map fst kvs))) = map fst kvs"
    "split_ws (concat (map (\<lambda>w. CHR '' '' # w) (map (\<lambda>(_, v). show_nat (unat v)) kvs))) = map (\<lambda>(_, v). show_nat (unat v)) kvs"
    by (simp_all only: split_ws_def split_words if_True simp_thms)
  show ?thesis unfolding KeyedValue_def s
    by (induction kvs) (auto simp: net_ParseU64_printed)
qed

lemma starts_with_name:
  assumes "CHR '':'' \<notin> set name" and "CHR '':'' \<notin> set n"
  shows "starts_with (name @ '':'') (n @ CHR '':'' # r) \<longleftrightarrow> n = name"
  using assms
proof (induction name arbitrary: n)
  case Nil
  then show ?case by (cases n) auto
next
  case (Cons c name)
  then show ?case by (cases n) auto
qed

lemma words_no_newline:
  "list_all word_ok ws \<Longrightarrow> CHR 0x0A \<notin> set (concat (map (\<lambda>w. CHR '' '' # w) ws))"
  by (induction ws) (auto simp: word_ok_def list_all_iff is_space_def)

lemma words_line_lines:
  assumes "CHR 0x0A \<notin> set name" and "list_all word_ok ws"
  shows "getlines (words_line name ws @ t) = (name @ '':'' @ concat (map (\<lambda>w. CHR '' '' # w) ws)) # getlines t"
  using getlines_line [of "name @ '':'' @ concat (map (\<lambda>w. CHR '' '' # w) ws)" t] assms words_no_newline [OF assms(2)]
  by (simp add: words_line_def)

lemma section_lines:
  assumes "section_ok (n, kvs)"
  shows "getlines (print_section (n, kvs) @ t) =
    (n @ '':'' @ concat (map (\<lambda>w. CHR '' '' # w) (map fst kvs))) #
    (n @ '':'' @ concat (map (\<lambda>w. CHR '' '' # w) (map (\<lambda>(_, v). show_nat (unat v)) kvs))) # getlines t"
proof -
  have w: "list_all word_ok (map fst kvs)" "list_all word_ok (map (\<lambda>(_, v). show_nat (unat v)) kvs)" "CHR 0x0A \<notin> set n"
    using assms by (auto simp: section_ok_def list_all_iff number_ok)
  show ?thesis
    unfolding print_section_def prod.case append_assoc words_line_lines [OF w(3,1)] words_line_lines [OF w(3,2)] ..
qed

text \<open>
  A counter of the protocol stack is read under its key: from any file the kernel prints,
  each section a line of keys and a line of values, the value found for a section and a key is the
  value of that key in the first section of that name, and nothing is found exactly when there is none.
\<close>

theorem stack_counter_by_key:
  assumes "list_all section_ok ss" and "CHR '':'' \<notin> set name"
  shows "section_value (concat (map print_section ss)) name key =
     (case map_of ss name of None \<Rightarrow> None | Some kvs \<Rightarrow> map_of kvs key)"
proof -
  let ?k = "\<lambda>kvs. concat (map (\<lambda>w. CHR '' '' # w) (map fst kvs))"
  let ?v = "\<lambda>kvs :: (string \<times> u64) list. concat (map (\<lambda>w. CHR '' '' # w) (map (\<lambda>(_, v). show_nat (unat v)) kvs))"
  let ?hits = "\<lambda>t. filter (starts_with (name @ '':'')) (getlines t)"
  have step: "?hits (print_section (n, kvs) @ t) =
      (if n = name then [n @ '':'' @ ?k kvs, n @ '':'' @ ?v kvs] @ ?hits t else ?hits t)"
    if "section_ok (n, kvs)" for n kvs t
  proof -
    have c: "CHR '':'' \<notin> set n" using that by (simp add: section_ok_def)
    show ?thesis
      using section_lines [OF that, of t] starts_with_name [OF assms(2) c] by (cases "n = name") simp_all
  qed
  have "FindSection (concat (map print_section ss)) name =
      map_option (\<lambda>kvs. (?k kvs, ?v kvs)) (map_of ss name)"
    using assms(1)
  proof (induction ss)
    case Nil
    then show ?case by (simp add: FindSection_def)
  next
    case (Cons s ss)
    obtain n kvs where s: "s = (n, kvs)" by (cases s)
    with Cons.prems have ok: "section_ok (n, kvs)" by simp
    show ?case using Cons step [OF ok] by (simp add: s FindSection_def)
  qed
  moreover have "KeyedValue (?k kvs) (?v kvs) key = map_of kvs key" if "map_of ss name = Some kvs" for kvs
    using keyed_printed assms(1) map_of_SomeD [OF that] by (auto simp: list_all_iff section_ok_def)
  ultimately show ?thesis by (simp add: section_value_def split: option.split)
qed

section \<open>Hexadecimal counters\<close>

text \<open>A number as \<^verbatim>\<open>%08x\<close> prints it in \<^verbatim>\<open>/proc/net/softnet_stat\<close>.\<close>

definition hex8 :: "nat \<Rightarrow> string" where
  "hex8 v = replicate (8 - length (show_hex v)) CHR ''0'' @ show_hex v"

lemma hex_char_digit: "d < 16 \<Longrightarrow> is_digit (hex_char d) \<longleftrightarrow> d < 10"
  using of_char_hex_char [of d] by (simp add: is_digit_def Let_def)

lemma digits_val_snoc: "digits_val (ds @ [c]) = 10 * digits_val ds + digit_val c"
  by (simp add: digits_val_def)

lemma digit_val_hex_char: "d < 10 \<Longrightarrow> digit_val (hex_char d) = d"
  by (simp add: hex_char_def)

definition dec_of_hex :: "nat \<Rightarrow> nat" where
  "dec_of_hex v = digits_val (takeWhile is_digit (show_hex v))"

lemma dec_of_hex_le: "dec_of_hex v \<le> v \<and> (dec_of_hex v = v \<longleftrightarrow> v < 10)"
proof (induction v rule: show_hex.induct)
  case (1 v)
  show ?case
  proof (cases "v < 16")
    case True
    then have "dec_of_hex v = (if v < 10 then v else 0)"
      unfolding dec_of_hex_def
      by (subst show_hex.simps) (simp add: hex_char_digit digits_val_def digit_val_hex_char)
    then show ?thesis by simp
  next
    case False
    define q where "q = v div 16"
    define d where "d = v mod 16"
    have v: "v = 16 * q + d" "d < 16" "0 < q" using False by (simp_all add: q_def d_def div_greater_zero_iff)
    have IH: "dec_of_hex q \<le> q" using "1.IH" [OF False] by (simp add: q_def)
    have sh: "show_hex v = show_hex q @ [hex_char d]" using False unfolding q_def d_def by (subst show_hex.simps) simp
    have "dec_of_hex v = (if list_all is_digit (show_hex q) \<and> d < 10 then 10 * dec_of_hex q + d else dec_of_hex q)"
    proof (cases "list_all is_digit (show_hex q)")
      case True
      then have all: "\<And>x. x \<in> set (show_hex q) \<Longrightarrow> is_digit x" by (simp add: list_all_iff)
      have "dec_of_hex q = digits_val (show_hex q)"
        using all unfolding dec_of_hex_def by (metis takeWhile_eq_all_conv)
      moreover have "takeWhile is_digit (show_hex v) = show_hex q @ takeWhile is_digit [hex_char d]"
        unfolding sh using all by (rule takeWhile_append2)
      ultimately show ?thesis using True v(2)
        by (simp add: dec_of_hex_def [of v] hex_char_digit digits_val_snoc digit_val_hex_char)
    next
      case False
      then obtain x where "x \<in> set (show_hex q)" "\<not> is_digit x" by (auto simp: list_all_iff)
      then have "takeWhile is_digit (show_hex q @ [hex_char d]) = takeWhile is_digit (show_hex q)"
        by (rule takeWhile_append1)
      with False show ?thesis by (simp add: dec_of_hex_def sh)
    qed
    with IH v show ?thesis by (auto split: if_splits)
  qed
qed

lemma digits_val_zeros: "digits_val (replicate n CHR ''0'' @ ds) = digits_val ds"
  by (induction n) (simp_all add: digits_val_def digit_val_def)

lemma net_ParseU64_hex8:
  assumes "v < 2 ^ 64"
  shows "net_ParseU64 (hex8 v) 0 = of_nat (dec_of_hex v)"
proof -
  have "is_hex CHR ''0''" by (simp add: is_hex_def is_digit_def)
  then have hex: "list_all is_hex (hex8 v)" using show_hex_all [of v] by (auto simp: hex8_def list_all_iff)
  then have nul: "cstr (hex8 v) = hex8 v"
    by (auto simp: cstr_def list_all_iff takeWhile_eq_all_conv is_hex_def is_digit_def Let_def)
  have ne: "hex8 v \<noteq> []" by (simp add: hex8_def)
  obtain c r where cr: "hex8 v = c # r" "is_hex c"
    using hex ne by (cases "hex8 v") auto
  have pre: "dropWhile is_space (hex8 v) = hex8 v" "strtoull_sign (hex8 v) = (False, hex8 v)"
    using cr is_hex_not_space is_hex_not_sign by (auto simp: strtoull_sign_def)
  have z: "\<forall>x \<in> set (replicate n CHR ''0''). is_digit x" for n by (simp add: is_digit_def)
  have tw: "takeWhile is_digit (hex8 v) = replicate (8 - length (show_hex v)) CHR ''0'' @ takeWhile is_digit (show_hex v)"
    unfolding hex8_def by (rule takeWhile_append2) (simp add: is_digit_def)
  have dv: "digits_val (takeWhile is_digit (hex8 v)) = dec_of_hex v"
    by (simp add: tw digits_val_zeros dec_of_hex_def)
  have "dec_of_hex v < 2 ^ 64" using dec_of_hex_le [of v] assms by simp
  then show ?thesis
    by (auto simp: net_ParseU64_def nul strtoull_def pre Let_def dv [symmetric] digits_val_def)
qed

lemma softirq_lines_ignored:
  "list_all (\<lambda>l. case split_ws l of [] \<Rightarrow> True | t # _ \<Rightarrow> \<not> starts_with ''CPU'' t) ls \<Longrightarrow> fold (softirq_line a b) ls out = out"
  by (induction ls) (auto simp: softirq_line_def split: list.splits)

text \<open>
  The backlog rows of the CPUs are misread. The kernel prints their counters in hexadecimal
  and the code reads them as decimal numbers: of rows the kernel printed, a counter is right exactly when
  it is below ten. And the softirq counts stay zero, because in the kernel's file the rows are the
  softirqs and the columns the CPUs.
\<close>

theorem softnet_misread:
  fixes vss :: "nat list list"
  assumes "nl_files env ''/proc/net/softnet_stat'' = Some text" and "text \<noteq> []"
    and "map split_ws (getlines text) = map (map hex8) vss"
    and "list_all (\<lambda>vs. 12 \<le> length vs \<and> list_all (\<lambda>v. v < 2 ^ 32) vs) vss"
    and "list_all (\<lambda>l. case split_ws l of [] \<Rightarrow> True | t # _ \<Rightarrow> \<not> starts_with ''CPU'' t)
        (tl (getlines (ReadFile (nl_files env) ''/proc/softirqs'')))"
    and "i < length vss"
  shows "let r = ReadSoftnet env ! i; vs = vss ! i
    in (nq_processed r = of_nat (vs ! 0) \<longleftrightarrow> vs ! 0 < 10) \<and> (nq_dropped r = of_nat (vs ! 1) \<longleftrightarrow> vs ! 1 < 10) \<and>
       (nq_time_squeeze r = of_nat (vs ! 2) \<longleftrightarrow> vs ! 2 < 10) \<and> (nq_received_rps r = of_nat (vs ! 9) \<longleftrightarrow> vs ! 9 < 10) \<and>
       nq_net_rx_softirq r = 0 \<and> nq_net_tx_softirq r = 0"
proof -
  have keep: "filter (\<lambda>toks. 4 \<le> length toks) (map (map hex8) vss) = map (map hex8) vss"
    using assms(4) by (auto simp: filter_id_conv list_all_iff)
  have "ReadSoftnet env = softnet_rows (nl_beyond env) text"
    using assms(1,2,5) softirq_lines_ignored
    by (auto simp: ReadSoftnet_def ReadFile_def softirq_rows_def Let_def split: list.split)
  then have row: "ReadSoftnet env ! i = softnet_row (nl_beyond env) i (map hex8 (vss ! i))"
    using assms(6) by (simp add: softnet_rows_def assms(3) keep nth_enumerate_eq)
  have len: "12 \<le> length (vss ! i)" and small: "\<And>k. k < length (vss ! i) \<Longrightarrow> vss ! i ! k < 2 ^ 32"
    using assms(4,6) by (auto simp: list_all_length)
  then have ne: "vss ! i \<noteq> []" by auto
  have num: "net_ParseU64 (hex8 (vss ! i ! k)) 0 = of_nat (vss ! i ! k) \<longleftrightarrow> vss ! i ! k < 10" if "k < 12" for k
  proof -
    have b: "vss ! i ! k < 2 ^ 64" using small [of k] that len by simp
    then have "dec_of_hex (vss ! i ! k) < 2 ^ 64" using dec_of_hex_le [of "vss ! i ! k"] by linarith
    then have "(of_nat (dec_of_hex (vss ! i ! k)) :: u64) = of_nat (vss ! i ! k) \<longleftrightarrow> dec_of_hex (vss ! i ! k) = vss ! i ! k"
      using b by (simp add: word_of_nat_eq_iff take_bit_eq_mod)
    then show ?thesis using net_ParseU64_hex8 [OF b] dec_of_hex_le [of "vss ! i ! k"] by simp
  qed
  show ?thesis unfolding row Let_def
    using len ne num [of 0] num [of 1] num [of 2] num [of 9]
    by (simp add: softnet_row_def Let_def NetSoftnetRow0_def)
qed

section \<open>Interfaces\<close>

definition is_stats :: "link_attr \<Rightarrow> bool" where
  "is_stats a = (case a of IFLA_STATS s \<Rightarrow> True | IFLA_STATS64 s \<Rightarrow> True | _ \<Rightarrow> False)"

definition link_counters :: "NetInterfaceRow \<Rightarrow> u64 list" where
  "link_counters r = [ni_rx_bytes r, ni_rx_packets r, ni_rx_errors r, ni_rx_dropped r, ni_tx_bytes r, ni_tx_packets r,
     ni_tx_errors r, ni_tx_dropped r, ni_collisions r, ni_rx_nohandler r]"

definition counters64 :: "rtnl_link_stats64 \<Rightarrow> u64 list" where
  "counters64 s = [l64_rx_bytes s, l64_rx_packets s, l64_rx_errors s, l64_rx_dropped s, l64_tx_bytes s, l64_tx_packets s,
     l64_tx_errors s, l64_tx_dropped s, l64_collisions s, l64_rx_nohandler s]"

text \<open>The 32-bit statistics the kernel adds behind the 64-bit ones: the low halves.\<close>

definition low_stats :: "rtnl_link_stats64 \<Rightarrow> rtnl_link_stats" where
  "low_stats s = \<lparr>l32_rx_bytes = ucast (l64_rx_bytes s), l32_rx_packets = ucast (l64_rx_packets s),
     l32_rx_errors = ucast (l64_rx_errors s), l32_rx_dropped = ucast (l64_rx_dropped s),
     l32_tx_bytes = ucast (l64_tx_bytes s), l32_tx_packets = ucast (l64_tx_packets s),
     l32_tx_errors = ucast (l64_tx_errors s), l32_tx_dropped = ucast (l64_tx_dropped s),
     l32_collisions = ucast (l64_collisions s), l32_rx_nohandler = ucast (l64_rx_nohandler s)\<rparr>"

lemma attrs_keep_counters:
  "\<not> list_ex is_stats attrs \<Longrightarrow> link_counters (lr_row (fold set_link_attr attrs l)) = link_counters (lr_row l)"
proof (induction attrs arbitrary: l)
  case (Cons a attrs)
  then have "link_counters (lr_row (set_link_attr a l)) = link_counters (lr_row l)"
    by (cases a) (simp_all add: is_stats_def link_counters_def)
  with Cons show ?case by simp
qed simp

lemma ucast_low: "(ucast (ucast v :: u32) :: u64) = word_of_int (uint v mod 2 ^ 32)"
proof -
  have "uint (ucast v :: u32) = uint v mod 2 ^ 32" by (simp add: unsigned_ucast_eq take_bit_eq_mod)
  moreover have "(ucast (ucast v :: u32) :: u64) = word_of_int (uint (ucast v :: u32))" by (rule ucast_eq)
  ultimately show ?thesis by simp
qed

text \<open>
  The counters of an interface are those of its last statistics attribute, so with the
  kernel's order, the 64-bit statistics followed by the 32-bit ones, every counter of a link is
  reported modulo 2^32, although the full value was there.
\<close>

theorem link_counters_truncated:
  assumes "\<not> list_ex is_stats mid" and "\<not> list_ex is_stats post"
  shows "link_counters (lr_row (link_row i f (pre @ [IFLA_STATS64 s] @ mid @ [IFLA_STATS (low_stats s)] @ post))) =
     map (\<lambda>v. word_of_int (uint v mod 2 ^ 32)) (counters64 s)"
proof -
  define l where "l = fold set_link_attr (pre @ [IFLA_STATS64 s] @ mid) (link_start i f)"
  have "link_row i f (pre @ [IFLA_STATS64 s] @ mid @ [IFLA_STATS (low_stats s)] @ post) =
      fold set_link_attr post (set_link_attr (IFLA_STATS (low_stats s)) l)"
    by (simp add: link_row_def l_def)
  then show ?thesis
    using attrs_keep_counters [OF assms(2)]
    by (simp add: link_counters_def counters64_def low_stats_def ucast_low)
qed

lemma link_counters_truncated_witness:
  "let s = \<lparr>l64_rx_bytes = 2 ^ 32 + 5, l64_rx_packets = 9, l64_rx_errors = 0, l64_rx_dropped = 0, l64_tx_bytes = 2 ^ 33,
      l64_tx_packets = 1, l64_tx_errors = 0, l64_tx_dropped = 0, l64_collisions = 0, l64_rx_nohandler = 0\<rparr>
   in link_counters (lr_row (link_row 2 65 [IFLA_IFNAME ''eth0'', IFLA_STATS64 s, IFLA_STATS (low_stats s), IFLA_MTU 1500]))
      = [5, 9, 0, 0, 0, 1, 0, 0, 0, 0]"
  unfolding Let_def
  using link_counters_truncated [of "[]" "[IFLA_MTU 1500]" 2 65 "[IFLA_IFNAME ''eth0'']"
      "\<lparr>l64_rx_bytes = 2 ^ 32 + 5, l64_rx_packets = 9, l64_rx_errors = 0, l64_rx_dropped = 0, l64_tx_bytes = 2 ^ 33,
      l64_tx_packets = 1, l64_tx_errors = 0, l64_tx_dropped = 0, l64_collisions = 0, l64_rx_nohandler = 0\<rparr>"]
  by (simp add: is_stats_def counters64_def)

definition nl_env0 :: nl_env where
  "nl_env0 = \<lparr>nl_files = \<lambda>_. None, nl_link_socket = True, nl_link_send = True, nl_link_recv = [Some [LinkDone]],
     nl_nametoindex = \<lambda>_. 0, nl_diag_socket = True, nl_diag_send = (True, True), nl_diag_recv = [], nl_netns = Some 4026,
     nl_beyond = []\<rparr>"

lemma tcp_states_counted_witness:
  "\<exists>s'. DiagTcpStates (nl_env0\<lparr>nl_diag_recv := [Some [DiagSocket 10 0 128], Some [DiagSocket 1 7 0, DiagDone], Some [DiagDone]]\<rparr>)
      NetStackSnapshot0 = Some (True, s') \<and> ns_tcp_state_listen s' = 1 \<and> ns_tcp_state_established s' = 1 \<and> ns_rqueue_bytes s' = 7"
  using tcp_states_counted [of "nl_env0\<lparr>nl_diag_recv := [Some [DiagSocket 10 0 128], Some [DiagSocket 1 7 0, DiagDone], Some [DiagDone]]\<rparr>"
      "[[DiagSocket 10 0 128], [DiagSocket 1 7 0, DiagDone]]" "[[DiagDone]]" "[(10, 0, 128), (1, 7, 0)]" "[]" NetStackSnapshot0]
  by (auto simp: nl_env0_def in_state_def upt_rec)

lemma stack_counter_by_key_witness:
  "section_value (concat (map print_section [(''Tcp'', [(''InSegs'', 12), (''OutSegs'', 7)]), (''Udp'', [(''NoPorts'', 3)])]))
     ''Tcp'' ''OutSegs'' = Some 7"
  using stack_counter_by_key [of "[(''Tcp'', [(''InSegs'', 12), (''OutSegs'', 7)]), (''Udp'', [(''NoPorts'', 3)])]" "''Tcp''" "''OutSegs''"]
  by (simp add: section_ok_def word_ok_def is_space_def)

lemma softnet_misread_witness:
  "nq_processed (ReadSoftnet (nl_env0\<lparr>nl_files := (\<lambda>_. None)(''/proc/net/softnet_stat'' \<mapsto>
      concat (map (\<lambda>v. hex8 v @ '' '') (26 # replicate 12 0)))\<rparr>) ! 0) \<noteq> 26"
proof -
  define t where "t = concat (map (\<lambda>v. hex8 v @ '' '') (26 # replicate 12 0))"
  define e where "e = nl_env0\<lparr>nl_files := (\<lambda>_. None)(''/proc/net/softnet_stat'' \<mapsto> t)\<rparr>"
  have "map split_ws (getlines t) = map (map hex8) [26 # replicate 12 0]" unfolding t_def by code_simp
  moreover have "t \<noteq> []" by (simp add: t_def)
  moreover have "nl_files e ''/proc/net/softnet_stat'' = Some t" "ReadFile (nl_files e) ''/proc/softirqs'' = []"
    by (simp_all add: e_def nl_env0_def ReadFile_def)
  moreover have "list_all (\<lambda>vs. 12 \<le> length vs \<and> list_all (\<lambda>v. v < 2 ^ 32) vs) [26 # replicate 12 (0 :: nat)]"
    by (simp add: list_all_iff)
  ultimately have "nq_processed (ReadSoftnet e ! 0) \<noteq> 26"
    using softnet_misread [of e t "[26 # replicate 12 0]" 0] by (simp add: Let_def)
  then show ?thesis by (simp only: e_def t_def not_False_eq_True)
qed

end
