(* ===== verification/AppParts.thy ===== *)
theory AppParts
  imports Selector Model
begin

text \<open>
  What the main loop gathers, \<^verbatim>\<open>src/app.cpp\<close>: the collector's own overhead, the switch of the kernel's
  statistics, the counters of the members, memory and out-of-memory events, and the aggregated rows of
  the selected processes.
\<close>

section \<open>Own overhead\<close>

definition vm_line :: "string \<Rightarrow> u64 \<times> u64 \<Rightarrow> u64 \<times> u64" where
  "vm_line line v = (case v of (rss, hwm) \<Rightarrow>
     (if starts_with ''VmRSS:'' line then (strtoull0 (cstr (drop 6 line)), hwm)
      else if starts_with ''VmHWM:'' line then (rss, strtoull0 (cstr (drop 6 line)))
      else (rss, hwm)))"

definition SelfVm :: "files \<Rightarrow> u64 \<times> u64" where
  "SelfVm fs = fold vm_line (getlines (ReadFile fs ''/proc/self/status'')) (0, 0)"

record rusage =
  ru_utime_sec :: u64
  ru_utime_usec :: u64
  ru_stime_sec :: u64
  ru_stime_usec :: u64
  ru_nvcsw :: u64
  ru_nivcsw :: u64
  ru_minflt :: u64
  ru_majflt :: u64

definition BuildProcOverhead :: "files \<Rightarrow> rusage option \<Rightarrow> u64 \<Rightarrow> ProcOverhead" where
  "BuildProcOverhead fs usage ts_ns =
     (let o1 = ProcOverhead0\<lparr>po_ts_ns := ts_ns\<rparr>;
          o2 = (case usage of
                  None \<Rightarrow> o1
                | Some ru \<Rightarrow>
                    o1\<lparr>po_utime_ns := ru_utime_sec ru * 1000000000 + ru_utime_usec ru * 1000,
                       po_stime_ns := ru_stime_sec ru * 1000000000 + ru_stime_usec ru * 1000,
                       po_nvcsw := ru_nvcsw ru, po_nivcsw := ru_nivcsw ru,
                       po_minflt := ru_minflt ru, po_majflt := ru_majflt ru\<rparr>);
          (rss, hwm) = SelfVm fs
      in o2\<lparr>po_rss_kb := rss, po_vmhwm_kb := hwm\<rparr>)"

section \<open>The switch of the kernel's statistics\<close>

text \<open>The file \<^verbatim>\<open>bpf_stats_enabled\<close>: its content when it can be read, whether it opens for writing.\<close>

record sysctl =
  sy_value :: "string option"
  sy_writable :: bool

definition write_sysctl :: "string \<Rightarrow> sysctl \<Rightarrow> sysctl" where
  "write_sysctl v s = (if sy_writable s then s\<lparr>sy_value := map_option (\<lambda>_. v) (sy_value s)\<rparr> else s)"

definition EnableBpfStats :: "sysctl \<Rightarrow> bool \<times> string \<times> sysctl" where
  "EnableBpfStats s =
     (let prev = (case sy_value s of
                    None \<Rightarrow> []
                  | Some t \<Rightarrow> (case getlines t of [] \<Rightarrow> [] | l # _ \<Rightarrow> trim_end (\<lambda>c. c = CHR 0x0A \<or> c = CHR 0x0D) l))
      in if sy_writable s then (True, prev, write_sysctl (''1'' @ [CHR 0x0A]) s) else (False, [], s))"

definition RestoreBpfStats :: "string \<Rightarrow> sysctl \<Rightarrow> sysctl" where
  "RestoreBpfStats prev s = (if prev = [] then s else write_sysctl (prev @ [CHR 0x0A]) s)"

section \<open>Counters of the members\<close>

definition rows_by_tid :: "ProcessRow list \<Rightarrow> (u32 \<times> ProcessRow) list" where
  "rows_by_tid tb = fold (\<lambda>r. alist_put (pr_pid r) r) tb []"

text \<open>
  A thread without a counter of its own gets the time of its process row, taken for clock ticks;
  \<open>huge\<close> is what the conversion of a double that does not fit gives.
\<close>

definition fallback_on_cpu :: "(double \<Rightarrow> u64) \<Rightarrow> sel_env \<Rightarrow> ProcessRow \<Rightarrow> u64" where
  "fallback_on_cpu huge env r =
     (if sv_clk_tck env > 0
      then let q = u64d (pr_utime r + pr_stime r) * 1000000000 / of_int (sv_clk_tck env)
           in if q < 2 ^ 64 then of_int \<lfloor>q\<rfloor> else huge q
      else 0)"

definition tid_stats :: "(double \<Rightarrow> u64) \<Rightarrow> sel_env \<Rightarrow> ebpf \<Rightarrow> (u32 \<times> ProcessRow) list \<Rightarrow> u32 \<Rightarrow> EbpfPerTidStats" where
  "tid_stats huge env e by_tid tid =
     (let t0 = EbpfPerTidStats0\<lparr>et_tid := tid\<rparr>;
          t1 = (case read_percpu env e ''switches'' tid of
                  None \<Rightarrow> t0
                | Some b \<Rightarrow> t0\<lparr>et_nr_sw_vol := ucast (sv_vol (SwitchVal_of b)),
                              et_nr_sw_invol := ucast (sv_invol (SwitchVal_of b))\<rparr>);
          t2 = (case read_percpu env e ''block_io'' tid of
                  None \<Rightarrow> t1
                | Some b \<Rightarrow> t1\<lparr>et_io_ops := bi_ops (BlockIoVal_of b), et_io_bytes := bi_bytes (BlockIoVal_of b)\<rparr>);
          t3 = (case read_percpu env e ''faults'' tid of
                  None \<Rightarrow> t2
                | Some b \<Rightarrow> t2\<lparr>et_pf_minor := ucast (fv_minor (FaultsVal_of b)),
                              et_pf_major := ucast (fv_major (FaultsVal_of b))\<rparr>);
          t4 = (case read_percpu env e ''lock_st'' tid of
                  None \<Rightarrow> t3
                | Some b \<Rightarrow> t3\<lparr>et_lock_waits := lv_count (LatStatVal13_of b), et_lock_lat_ns := lv_lat_sum (LatStatVal13_of b)\<rparr>);
          t5 = t4\<lparr>et_on_cpu_ns := (case read_percpu env e ''on_cpu_ns'' tid of None \<Rightarrow> 0 | Some b \<Rightarrow> rd_u64 b 0)\<rparr>
      in if et_on_cpu_ns t5 = 0
         then (case map_of by_tid tid of None \<Rightarrow> t5 | Some r \<Rightarrow> t5\<lparr>et_on_cpu_ns := fallback_on_cpu huge env r\<rparr>)
         else t5)"

definition add_tid :: "EbpfPerTidStats \<Rightarrow> EbpfCounters \<Rightarrow> EbpfCounters" where
  "add_tid t c =
     c\<lparr>ec_on_cpu_ns_total := ec_on_cpu_ns_total c + et_on_cpu_ns t,
       ec_switch_total := ec_switch_total c + (et_nr_sw_vol t + et_nr_sw_invol t),
       ec_io_ops_total := ec_io_ops_total c + et_io_ops t,
       ec_io_bytes_total := ec_io_bytes_total c + et_io_bytes t,
       ec_minor_faults_total := ec_minor_faults_total c + et_pf_minor t,
       ec_major_faults_total := ec_major_faults_total c + et_pf_major t,
       ec_lock_waits_total := ec_lock_waits_total c + et_lock_waits t,
       ec_per_tid := ec_per_tid c @ [t]\<rparr>"

definition BuildEbpfCounters :: "(double \<Rightarrow> u64) \<Rightarrow> sel_env \<Rightarrow> ebpf \<Rightarrow> u64 \<Rightarrow> u32 list \<Rightarrow> ProcessRow list \<Rightarrow> EbpfCounters" where
  "BuildEbpfCounters huge env e ts_ns members tb =
     (let c = fold (\<lambda>tid. add_tid (tid_stats huge env e (rows_by_tid tb) tid)) (sv_iter env members)
                (EbpfCounters0\<lparr>ec_ts_ns := ts_ns\<rparr>)
      in c\<lparr>ec_per_tid := sort_desc et_on_cpu_ns (ec_per_tid c)\<rparr>)"

section \<open>Events\<close>

definition read_elem :: "sel_env \<Rightarrow> ebpf \<Rightarrow> string \<Rightarrow> u32 \<Rightarrow> bytes option" where
  "read_elem env e n key =
     (case Map e n of None \<Rightarrow> None | Some m \<Rightarrow> Lookup kmap_calls (sv_slice env n) m (u32_bytes key))"

definition mem_event :: "u64 \<Rightarrow> MemEventsVal \<Rightarrow> json" where
  "mem_event ts_ns m = JObj [(''v'', JInt 2), (''ts_ns'', jnum ts_ns), (''kswapd_active'', jnum (me_kswapd_active m)),
     (''direct_reclaim'', jnum (me_direct_reclaim m)), (''nr_reclaimed'', jnum (me_nr_reclaimed m))]"

text \<open>
  The events to write, with the values last written kept between calls; an unreadable map reads as
  zeros.
\<close>

definition DumpMemEvents :: "sel_env \<Rightarrow> ebpf \<Rightarrow> u64 \<Rightarrow> MemEventsVal \<Rightarrow> MemEventsVal \<times> json list" where
  "DumpMemEvents env e ts_ns seen =
     (let m = (case read_elem env e ''mem_events'' 0 of
                 None \<Rightarrow> \<lparr>me_kswapd_active = 0, me_direct_reclaim = 0, me_nr_reclaimed = 0\<rparr>
               | Some b \<Rightarrow> MemEventsVal_of b)
      in if m = seen then (seen, []) else (m, [mem_event ts_ns m]))"

definition oom_json :: "files \<Rightarrow> OomEventVal \<Rightarrow> json" where
  "oom_json fs ev = JObj [(''v'', JInt 2), (''ts_ns'', jnum (oe_ts ev)), (''pid'', jnum (oe_pid ev)),
     (''comm'', JStr (ReadComm fs (oe_pid ev)))]"

text \<open>The loop over the sequence numbers; at most \<open>turns\<close> of them are visited.\<close>

fun oom_rows :: "sel_env \<Rightarrow> ebpf \<Rightarrow> nat \<Rightarrow> u32 \<Rightarrow> u32 \<Rightarrow> json list" where
  "oom_rows env e 0 s seq = []"
| "oom_rows env e (Suc turns) s seq =
     (if s < seq
      then (case read_elem env e ''oom_events'' (and s 63) of
              None \<Rightarrow> []
            | Some b \<Rightarrow> [oom_json (sv_files env) (OomEventVal_of b)]) @ oom_rows env e turns (s + 1) seq
      else [])"

definition DumpOomEvents :: "sel_env \<Rightarrow> ebpf \<Rightarrow> u32 \<Rightarrow> u32 \<times> json list" where
  "DumpOomEvents env e last_seq =
     (case read_elem env e ''oom_seq'' 0 of
        None \<Rightarrow> (last_seq, [])
      | Some b \<Rightarrow>
          (let seq = rd_u32 b 0
           in if seq = last_seq then (last_seq, []) else (seq, oom_rows env e 1000 last_seq seq)))"

section \<open>Rows of the selected processes\<close>

definition group_of :: "ProcessRow \<Rightarrow> u32" where
  "group_of r = (if pr_tgid r \<noteq> 0 then pr_tgid r else pr_pid r)"

definition add_task :: "ProcessRow \<Rightarrow> ProcessRow \<Rightarrow> ProcessRow" where
  "add_task r a =
     (let g = group_of r;
          a1 = (if pr_tgid a = 0
                then a\<lparr>pr_tgid := g, pr_pid := g, pr_state := pr_state r, pr_start_time := pr_start_time r,
                       pr_rss_valid := pr_rss_valid r, pr_rss_kb := pr_rss_kb r\<rparr>
                else a);
          a2 = (if pr_pid r = g then a1\<lparr>pr_comm := take 15 (pr_comm r)\<rparr> else a1)
      in a2\<lparr>pr_utime := pr_utime a2 + pr_utime r, pr_stime := pr_stime a2 + pr_stime r,
            pr_nvcsw := pr_nvcsw a2 + pr_nvcsw r, pr_nivcsw := pr_nivcsw a2 + pr_nivcsw r,
            pr_minflt := pr_minflt a2 + pr_minflt r, pr_majflt := pr_majflt a2 + pr_majflt r,
            pr_total_vm := pr_total_vm a2 + pr_total_vm r\<rparr>)"

definition add_row :: "u32 list \<Rightarrow> ProcessRow \<Rightarrow> (u32 \<times> ProcessRow) list \<Rightarrow> (u32 \<times> ProcessRow) list" where
  "add_row procs r agg =
     (let g = group_of r
      in if g \<notin> set procs then agg
         else alist_put g (add_task r (case map_of agg g of None \<Rightarrow> ProcessRow0 | Some a \<Rightarrow> a)) agg)"

definition cpu_time :: "ProcessRow \<Rightarrow> u64" where
  "cpu_time a = pr_utime a + pr_stime a"

text \<open>\<open>order\<close> is the order in which the map of the groups is visited.\<close>

definition BuildTopTasks :: "((u32 \<times> ProcessRow) list \<Rightarrow> (u32 \<times> ProcessRow) list) \<Rightarrow> ProcessRow list \<Rightarrow> u32 list
    \<Rightarrow> ProcessRow list" where
  "BuildTopTasks order tb procs = sort_desc cpu_time (map snd (order (fold (add_row procs) tb [])))"

record feature_env =
  fe_huge :: "double \<Rightarrow> u64"
  fe_order :: "(u32 \<times> ProcessRow) list \<Rightarrow> (u32 \<times> ProcessRow) list"
  fe_sel :: sel_env

definition BuildFeatures :: "feature_env \<Rightarrow> Config \<Rightarrow> u64 \<Rightarrow> HostSnapshot \<Rightarrow> NetworkSnapshot \<Rightarrow> GpuSnapshot \<Rightarrow> CgroupSnapshot
    \<Rightarrow> ebpf \<Rightarrow> u32 list \<Rightarrow> u32 list \<Rightarrow> ProcessRow list \<Rightarrow> AnomalyFeatures" where
  "BuildFeatures env cfg seq host network gpu cgroup e members procs tb =
     (let filter_pid = mi_pid_filter (c_misc cfg);
          host1 = (if filter_pid \<noteq> 0
                   then host\<lparr>hs_procs := filter (\<lambda>p. ucast (group_of p) = filter_pid) (hs_procs host)\<rparr> else host);
          want = (if filter_pid \<noteq> 0 then [ucast filter_pid] else procs)
      in \<lparr>af_seq = seq, af_ts_ns = hs_ts_ns host, af_host = host1,
          af_ebpf = BuildEbpfCounters (fe_huge env) (fe_sel env) e (hs_ts_ns host) members tb,
          af_top_tasks = BuildTopTasks (fe_order env) tb want,
          af_network = network, af_gpu = gpu, af_cgroup = cgroup\<rparr>)"

end
