(* ===== verification/App.thy ===== *)
theory App
  imports AppParts WriterState Phase
begin

text \<open>
  The main loop, \<^verbatim>\<open>RunCollector\<close> in \<^verbatim>\<open>src/app.cpp\<close>: what it keeps between iterations, the iteration as
  the sequence of its steps, and the start and the end of a run. The components are reached through
  calls on a world of any type; the phase manager and its episodes are those of the theory \<open>Phase\<close>.
\<close>

section \<open>The world of the loop\<close>

datatype app_call =
    CAutoload "string list"
  | CWriteNcpus
  | CSampleRates u32 u32 u32
  | CStartSnapshotter u64
  | CSetInterval u64
  | CStopSnapshotter
  | CGpuInit string
  | CGpuClose
  | CApplyPinned
  | CProbe
  | CEvaluate u64 "ProcessRow list"
  | CSetTargets "u32 list"
  | CSetTable "ProcessRow list"
  | CDeepTick u64
  | CBeginBatch
  | CCommitBatch
  | CWrite writer_op
  | CEbpfClose
  | CWriterClose

record 'w app_ops =
  ao_do :: "Config \<Rightarrow> app_call \<Rightarrow> 'w \<Rightarrow> 'w"
  ao_episode :: "'w episode_ops"

text \<open>What one iteration finds: the clock, the flags the signals set, and what the components answer.\<close>

record tick_in =
  ti_stop :: bool
  ti_check_now :: u64
  ti_reload :: bool
  ti_file :: "json option"
  ti_getenv :: "string \<Rightarrow> string option"
  ti_strtod :: "string \<Rightarrow> double option"
  ti_now :: u64
  ti_host :: HostSnapshot
  ti_table :: "bool \<times> ProcessRow list"
  ti_network :: "u64 \<Rightarrow> bool \<Rightarrow> NetworkSnapshot"
  ti_gpu :: "u64 \<Rightarrow> GpuSnapshot"
  ti_cgroup :: "u64 \<Rightarrow> CgroupSnapshot"
  ti_usage :: "rusage option"
  ti_progs :: "BpfProgStats list"
  ti_fenv :: feature_env
  ti_ebpf :: ebpf
  ti_members :: "u32 list"
  ti_procs :: "u32 list"
  ti_reply :: "string + AnomalyResult"
  ti_deep_request :: bool
  ti_base_request :: bool

record app_state =
  as_cfg :: Config
  as_bpf_stats :: bool
  as_next_host :: u64
  as_next_feature :: u64
  as_next_topk :: u64
  as_next_overhead :: u64
  as_last_overhead_ts :: u64
  as_seq :: u64
  as_interval_ms :: u64
  as_host :: HostSnapshot
  as_network :: NetworkSnapshot
  as_gpu :: GpuSnapshot
  as_cgroup :: CgroupSnapshot
  as_table :: "ProcessRow list"
  as_mem_seen :: MemEventsVal
  as_oom_seq :: u32

definition app_state0 :: "Config \<Rightarrow> bool \<Rightarrow> app_state" where
  "app_state0 cfg stats = \<lparr>as_cfg = cfg, as_bpf_stats = stats, as_next_host = 0, as_next_feature = 0, as_next_topk = 0,
     as_next_overhead = 0, as_last_overhead_ts = 0, as_seq = 0,
     as_interval_ms = sm_fine_interval_ms (c_sample cfg), as_host = HostSnapshot0, as_network = NetworkSnapshot0,
     as_gpu = GpuSnapshot0, as_cgroup = CgroupSnapshot0, as_table = [],
     as_mem_seen = \<lparr>me_kswapd_active = 0, me_direct_reclaim = 0, me_nr_reclaimed = 0\<rparr>, as_oom_seq = 0\<rparr>"

type_synonym 'w app = "app_state \<times> PhaseManager \<times> 'w"

definition call :: "'w app_ops \<Rightarrow> app_call \<Rightarrow> 'w app \<Rightarrow> 'w app" where
  "call ops c = (\<lambda>(s, p, w). (s, p, ao_do ops (as_cfg s) c w))"

definition calls :: "'w app_ops \<Rightarrow> app_call list \<Rightarrow> 'w app \<Rightarrow> 'w app" where
  "calls ops = fold (call ops)"

definition sample_rates :: "Config \<Rightarrow> app_call" where
  "sample_rates cfg = CSampleRates (sm_offcpu_sample_rate (c_sample cfg)) (sm_iofile_sample_rate (c_sample cfg))
     (dv_net_event_sample_rate (c_devices cfg))"

section \<open>The steps of an iteration\<close>

definition reload_step :: "'w app_ops \<Rightarrow> Config \<Rightarrow> tick_in \<Rightarrow> 'w app \<Rightarrow> 'w app" where
  "reload_step ops initial i = (\<lambda>(s, p, w).
     if ti_reload i
     then
       let old_gpu = dv_gpu_source (c_devices (as_cfg s));
           cfg = ReloadConfig (ti_getenv i) (ti_strtod i) initial (ti_file i);
           gpu = dv_gpu_source (c_devices cfg)
       in calls ops ([sample_rates cfg] @ (if gpu \<noteq> old_gpu then [CGpuClose, CGpuInit gpu] else []) @ [CProbe])
            (s\<lparr>as_cfg := cfg\<rparr>, p, w)
     else (s, p, w))"

definition host_step :: "'w app_ops \<Rightarrow> tick_in \<Rightarrow> 'w app \<Rightarrow> 'w app" where
  "host_step ops i = (\<lambda>(s, p, w).
     if ti_now i \<ge> as_next_host s
     then
       let (ok, table') = ti_table i;
           host = (if ok then (ti_host i)\<lparr>hs_procs := take 200 (sort_desc cpu_time table')\<rparr> else ti_host i);
           ts = hs_ts_ns host;
           network = ti_network i ts (dv_network_enabled (c_devices (as_cfg s)));
           gpu = ti_gpu i ts;
           cgroup = ti_cgroup i ts;
           (mem_seen, mem_rows) = DumpMemEvents (fe_sel (ti_fenv i)) (ti_ebpf i) ts (as_mem_seen s);
           (oom_seq, oom_rows) = DumpOomEvents (fe_sel (ti_fenv i)) (ti_ebpf i) (as_oom_seq s);
           (s1, p1, w1) =
             calls ops ([CBeginBatch, CWrite (HostOp host network gpu cgroup)] @ map (CWrite \<circ> MemoryOp) (mem_rows @ oom_rows) @
                 [CCommitBatch])
               (s\<lparr>as_table := table', as_host := host, as_network := network, as_gpu := gpu, as_cgroup := cgroup,
                  as_mem_seen := mem_seen, as_oom_seq := oom_seq\<rparr>, p, w)
       in (s1\<lparr>as_next_host := ti_now i + sm_base_host_interval_ms (c_sample (as_cfg s)) * 1000000\<rparr>, p1, w1)
     else (s, p, w))"

definition overhead_step :: "'w app_ops \<Rightarrow> tick_in \<Rightarrow> 'w app \<Rightarrow> 'w app" where
  "overhead_step ops i = (\<lambda>(s, p, w).
     if ti_now i \<ge> as_next_overhead s
     then
       let now = ti_now i;
           po = BuildProcOverhead (sv_files (fe_sel (ti_fenv i))) (ti_usage i) now;
           bs = \<lparr>bs_ts_ns = now,
                 bs_interval_ns = (if as_last_overhead_ts s \<noteq> 0 then now - as_last_overhead_ts s else 0),
                 bs_stats_enabled = True, bs_progs = ti_progs i\<rparr>;
           (s1, p1, w1) =
             calls ops ([CBeginBatch, CWrite (OverheadOp po)] @ (if as_bpf_stats s then [CWrite (BpfOp bs)] else []) @
                 [CCommitBatch]) (s, p, w)
       in (s1\<lparr>as_last_overhead_ts := now,
              as_next_overhead := now + sm_overhead_interval_ms (c_sample (as_cfg s)) * 1000000\<rparr>, p1, w1)
     else (s, p, w))"

definition target_step :: "'w app_ops \<Rightarrow> tick_in \<Rightarrow> 'w app \<Rightarrow> 'w app" where
  "target_step ops i = (\<lambda>(s, p, w). calls ops [CSetTargets (ti_members i), CSetTable (as_table s)] (s, p, w))"

definition feature_step :: "'w app_ops \<Rightarrow> tick_in \<Rightarrow> 'w app \<Rightarrow> 'w app" where
  "feature_step ops i = (\<lambda>(s, p, w).
     if ti_now i \<ge> as_next_feature s
     then
       let f = BuildFeatures (ti_fenv i) (as_cfg s) (as_seq s) (as_host s) (as_network s) (as_gpu s) (as_cgroup s)
                 (ti_ebpf i) (ti_members i) (ti_procs i) (as_table s);
           (s1, p1, w1) =
             calls ops [CBeginBatch, CWrite (AnomalyOp (features_to_json f)), CCommitBatch]
               (s\<lparr>as_seq := as_seq s + 1\<rparr>, p, w);
           (p2, w2) = TickAnomaly (ao_episode ops) (as_cfg s) (ti_reply i) (af_ts_ns f) (p1, w1)
       in (s1\<lparr>as_next_feature := ti_now i + sm_base_feature_interval_ms (c_sample (as_cfg s)) * 1000000\<rparr>, p2, w2)
     else (s, p, w))"

definition topk_step :: "'w app_ops \<Rightarrow> tick_in \<Rightarrow> 'w app \<Rightarrow> 'w app" where
  "topk_step ops i = (\<lambda>(s, p, w).
     if ti_now i \<ge> as_next_topk s
     then
       let (s1, p1, w1) = (if as_table s \<noteq> [] then call ops (CEvaluate (ti_now i) (as_table s)) (s, p, w) else (s, p, w))
       in (s1\<lparr>as_next_topk := ti_now i + tg_eval_interval_ms (c_targets (as_cfg s)) * 1000000\<rparr>, p1, w1)
     else (s, p, w))"

definition phase_steps :: "'w app_ops \<Rightarrow> tick_in \<Rightarrow> 'w app \<Rightarrow> 'w app" where
  "phase_steps ops i = (\<lambda>(s, p, w).
     let eo = ao_episode ops; cfg = as_cfg s; now = ti_now i;
         pw1 = TickDeep eo cfg now (p, ao_do ops cfg (CDeepTick now) w);
         pw2 = (if ti_deep_request i then RequestDeep eo cfg now pw1 else pw1);
         pw3 = (if ti_base_request i then RequestBase eo cfg now pw2 else pw2)
     in (s, pw3))"

definition want_interval :: "Config \<Rightarrow> PhaseManager \<Rightarrow> u64" where
  "want_interval cfg p = (if pm_phase p = DEEP then sm_deep_fine_interval_ms (c_sample cfg) else sm_fine_interval_ms (c_sample cfg))"

definition interval_step :: "'w app_ops \<Rightarrow> 'w app \<Rightarrow> 'w app" where
  "interval_step ops = (\<lambda>(s, p, w).
     let want_ms = want_interval (as_cfg s) p
     in if want_ms \<noteq> as_interval_ms s
        then let (s1, p1, w1) = call ops (CSetInterval want_ms) (s, p, w) in (s1\<lparr>as_interval_ms := want_ms\<rparr>, p1, w1)
        else (s, p, w))"

definition loop_body :: "'w app_ops \<Rightarrow> Config \<Rightarrow> tick_in \<Rightarrow> 'w app \<Rightarrow> 'w app" where
  "loop_body ops initial i s =
     interval_step ops (phase_steps ops i (topk_step ops i (feature_step ops i (target_step ops i
       (overhead_step ops i (host_step ops i (reload_step ops initial i s)))))))"

text \<open>The loop on the iterations seen so far; it ends on the stop flag or after \<open>run_seconds\<close>.\<close>

definition loop_ends :: "u64 \<Rightarrow> u64 \<Rightarrow> tick_in \<Rightarrow> bool" where
  "loop_ends run_seconds t0 i \<longleftrightarrow>
     ti_stop i \<or> run_seconds \<noteq> 0 \<and> ti_check_now i - t0 \<ge> run_seconds * 1000000000"

fun run_loop :: "'w app_ops \<Rightarrow> Config \<Rightarrow> u64 \<Rightarrow> u64 \<Rightarrow> tick_in list \<Rightarrow> 'w app \<Rightarrow> 'w app" where
  "run_loop ops initial run_seconds t0 [] s = s"
| "run_loop ops initial run_seconds t0 (i # is) s =
     (if loop_ends run_seconds t0 i then s
      else run_loop ops initial run_seconds t0 is (loop_body ops initial i s))"

section \<open>A run\<close>

record start_env =
  se_writer_init :: bool
  se_open :: bool
  se_load :: bool
  se_start :: bool
  se_t0 :: u64
  se_end :: u64

definition optional_programs :: "string list" where
  "optional_programs = [''fentry_vfs_read'', ''fexit_vfs_read'', ''fentry_vfs_write'', ''fexit_vfs_write'',
     ''kprobe_tcp_v4_connect'', ''kprobe_tcp_v6_connect'', ''kretprobe_inet_csk_accept'', ''kprobe_tcp_rcv_established'']"

text \<open>
  The result is the exit status, the state and the file that switches the kernel's statistics. An
  early return restores nothing.
\<close>

definition RunCollector :: "'w app_ops \<Rightarrow> start_env \<Rightarrow> Config \<Rightarrow> u64 \<Rightarrow> tick_in list \<Rightarrow> sysctl \<Rightarrow> 'w
    \<Rightarrow> int \<times> 'w app \<times> sysctl" where
  "RunCollector ops env initial run_seconds is sy w0 =
     (if \<not> se_writer_init env then (1, (app_state0 initial False, PhaseManager0, w0), sy)
      else
        let (stats, prev, sy1) = (if mi_enable_bpf_stats (c_misc initial) then EnableBpfStats sy else (False, [], sy));
            a0 = (app_state0 initial stats, PhaseManager0, w0)
        in if \<not> se_open env then (1, a0, sy1)
           else
             let a1 = call ops (CAutoload optional_programs) a0
             in if \<not> se_load env then (1, a1, sy1)
                else
                  let a2 = calls ops [CWriteNcpus, sample_rates initial,
                             CStartSnapshotter (sm_fine_interval_ms (c_sample initial))] a1
                  in if \<not> se_start env then (1, a2, sy1)
                     else
                       let a3 = calls ops [CGpuInit (dv_gpu_source (c_devices initial)), CApplyPinned, CProbe] a2;
                           (s4, p4, w4) = run_loop ops initial run_seconds (se_t0 env) is a3;
                           (p5, w5) = Shutdown (ao_episode ops) (as_cfg s4) (se_end env) (p4, w4);
                           a6 = calls ops [CStopSnapshotter, CGpuClose, CEbpfClose, CWriterClose] (s4, p5, w5)
                       in (0, a6, RestoreBpfStats prev sy1))"

end
