(* ===== verification/Cli.thy ===== *)
theory Cli
  imports App
begin

text \<open>
  The entry point, \<^verbatim>\<open>src/main.cpp\<close>: the command line, the way the configuration is put together, the
  ends of the process, and the signal handler with the flags the main loop takes
  (\<^verbatim>\<open>include/etrace_diag/app.h\<close>). What the file named by \<^verbatim>\<open>--config\<close> holds is an argument.
\<close>

section \<open>The command line\<close>

record cli =
  ca_config_path :: string
  ca_output_dir :: string
  ca_list :: bool
  ca_run_seconds :: u64

definition cli0 :: cli where
  "cli0 = \<lparr>ca_config_path = [], ca_output_dir = [], ca_list = False, ca_run_seconds = 0\<rparr>"

text \<open>The loop over the arguments: an exit status or the values collected.\<close>

fun parse_args :: "string list \<Rightarrow> cli \<Rightarrow> int + cli" where
  "parse_args [] a = Inr a"
| "parse_args (x # xs) a =
     (if x = ''--config'' then (case xs of [] \<Rightarrow> Inl 2 | v # vs \<Rightarrow> parse_args vs (a\<lparr>ca_config_path := v\<rparr>))
      else if x = ''--output-dir'' then (case xs of [] \<Rightarrow> Inl 2 | v # vs \<Rightarrow> parse_args vs (a\<lparr>ca_output_dir := v\<rparr>))
      else if x = ''--run-seconds''
      then (case xs of [] \<Rightarrow> Inl 2 | v # vs \<Rightarrow> parse_args vs (a\<lparr>ca_run_seconds := strtoull0 v\<rparr>))
      else if x = ''--list-categories'' then parse_args xs (a\<lparr>ca_list := True\<rparr>)
      else if x = ''-h'' \<or> x = ''--help'' then Inl 0
      else Inl 2)"

section \<open>The ends of the process\<close>

datatype config_text = Unopened | NotJson | Holds json

datatype main_end =
    Exits int
  | Uncaught json_error
  | Lists string
  | Collects Config string u64

definition join_categories :: "string list \<Rightarrow> string" where
  "join_categories cs = concat (case cs of [] \<Rightarrow> [] | c # r \<Rightarrow> c # map (\<lambda>x. '' '' @ x) r) @ [CHR 0x0A]"

definition cli_main :: "(string \<Rightarrow> config_text) \<Rightarrow> (string \<Rightarrow> string option) \<Rightarrow> (string \<Rightarrow> double option) \<Rightarrow> string list \<Rightarrow> main_end" where
  "cli_main cfgs getenv strtod args =
     (case parse_args args cli0 of
        Inl rc \<Rightarrow> Exits rc
      | Inr a \<Rightarrow>
          (case (if ca_config_path a = [] then Some None
                 else case cfgs (ca_config_path a) of Unopened \<Rightarrow> None | NotJson \<Rightarrow> None | Holds j \<Rightarrow> Some (Some j)) of
             None \<Rightarrow> Exits 1
           | Some file \<Rightarrow>
               (case load_config getenv strtod file (ca_output_dir a) of
                  Inl e \<Rightarrow> Uncaught e
                | Inr c \<Rightarrow>
                    if ca_list a then Lists (join_categories (mi_categories (c_misc c)))
                    else Collects c (ca_config_path a) (ca_run_seconds a))))"

section \<open>Signals\<close>

datatype signal = SIGHUP | SIGINT | SIGTERM | SIGUSR1 | SIGUSR2

record SignalState =
  sg_stop :: bool
  sg_reload :: bool
  sg_deep_request :: bool
  sg_base_request :: bool

definition SignalState0 :: SignalState where
  "SignalState0 = \<lparr>sg_stop = False, sg_reload = False, sg_deep_request = False, sg_base_request = False\<rparr>"

definition on_signal :: "signal \<Rightarrow> SignalState \<Rightarrow> SignalState" where
  "on_signal n s =
     (if n = SIGHUP then s\<lparr>sg_reload := True\<rparr>
      else if n = SIGUSR1 then s\<lparr>sg_deep_request := True\<rparr>
      else if n = SIGUSR2 then s\<lparr>sg_base_request := True\<rparr>
      else s\<lparr>sg_stop := True\<rparr>)"

text \<open>
  The signals that arrive during an iteration, cut at the four places the loop looks at a flag: the
  test of its condition, the exchange of the reload flag, and those of the two requests.
\<close>

record arrivals =
  av_check :: "signal list"
  av_reload :: "signal list"
  av_deep :: "signal list"
  av_base :: "signal list"

definition take_flags :: "arrivals \<Rightarrow> SignalState \<Rightarrow> tick_in \<Rightarrow> tick_in \<times> SignalState" where
  "take_flags v s0 i =
     (let s1 = fold on_signal (av_check v) s0;
          s2 = fold on_signal (av_reload v) s1;
          s3 = fold on_signal (av_deep v) (s2\<lparr>sg_reload := False\<rparr>);
          s4 = fold on_signal (av_base v) (s3\<lparr>sg_deep_request := False\<rparr>)
      in (i\<lparr>ti_stop := sg_stop s1, ti_reload := sg_reload s2, ti_deep_request := sg_deep_request s3,
            ti_base_request := sg_base_request s4\<rparr>, s4\<lparr>sg_base_request := False\<rparr>))"

fun signalled :: "SignalState \<Rightarrow> (arrivals \<times> tick_in) list \<Rightarrow> tick_in list" where
  "signalled s [] = []"
| "signalled s ((v, i) # r) = (let (j, s1) = take_flags v s i in j # signalled s1 r)"

text \<open>The process: the status \<^verbatim>\<open>main\<close> returns, and the collector's run when there is one.\<close>

definition run_main :: "'w app_ops \<Rightarrow> start_env \<Rightarrow> (string \<Rightarrow> config_text) \<Rightarrow> (string \<Rightarrow> string option) \<Rightarrow> (string \<Rightarrow> double option)
    \<Rightarrow> (arrivals \<times> tick_in) list \<Rightarrow> sysctl \<Rightarrow> 'w \<Rightarrow> string list \<Rightarrow> json_error + int \<times> ('w app \<times> sysctl) option" where
  "run_main ops env cfgs getenv strtod is sy w args =
     (case cli_main cfgs getenv strtod args of
        Exits rc \<Rightarrow> Inr (rc, None)
      | Uncaught e \<Rightarrow> Inl e
      | Lists out \<Rightarrow> Inr (0, None)
      | Collects c path secs \<Rightarrow>
          (let (rc, a, sy1) = RunCollector ops env c secs (signalled SignalState0 is) sy w in Inr (rc, Some (a, sy1))))"

end
