(* ===== verification/AppProps.thy ===== *)
theory AppProps
  imports App HostProps
begin

text \<open>
  Properties of the main loop: the interval of the flight recorder follows the phase, host rows are
  paced, every write of the loop lies in a batch that is closed in the same iteration, the rows of the
  selected processes are sums, out-of-memory events are written once unless too many came at a time,
  and a failed start leaves the kernel's statistics on.
\<close>

section \<open>What a trace shows\<close>

text \<open>Batches opened and closed in turn, writes only within one: whether one is open at the end.\<close>

fun bracketed :: "bool \<Rightarrow> app_call list \<Rightarrow> bool option" where
  "bracketed b [] = Some b"
| "bracketed b (CBeginBatch # cs) = (if b then None else bracketed True cs)"
| "bracketed b (CCommitBatch # cs) = (if b then bracketed False cs else None)"
| "bracketed b (CWrite op # cs) = (if b then bracketed b cs else None)"
| "bracketed b (c # cs) = bracketed b cs"

lemma bracketed_append:
  "bracketed b (xs @ ys) = (case bracketed b xs of None \<Rightarrow> None | Some b' \<Rightarrow> bracketed b' ys)"
  by (induction b xs rule: bracketed.induct) auto

lemma bracketed_writes: "bracketed True (map CWrite ops @ cs) = bracketed True cs"
  by (induction ops) auto

definition is_host_row :: "app_call \<Rightarrow> bool" where
  "is_host_row c = (case c of CWrite (HostOp s n g cg) \<Rightarrow> True | _ \<Rightarrow> False)"

definition interval_of :: "app_call \<Rightarrow> u64 option" where
  "interval_of c = (case c of CStartSnapshotter v \<Rightarrow> Some v | CSetInterval v \<Rightarrow> Some v | _ \<Rightarrow> None)"

fun last_interval :: "app_call list \<Rightarrow> u64 option" where
  "last_interval [] = None"
| "last_interval (c # cs) = (case last_interval cs of None \<Rightarrow> interval_of c | Some v \<Rightarrow> Some v)"

lemma last_interval_append:
  "last_interval (xs @ ys) = (case last_interval ys of None \<Rightarrow> last_interval xs | Some v \<Rightarrow> Some v)"
  by (induction xs) (simp_all split: option.split)

lemma last_interval_none: "list_all (\<lambda>c. \<not> is_host_row c \<and> interval_of c = None) cs \<Longrightarrow> last_interval cs = None"
  by (induction cs) simp_all

text \<open>Calls that neither leave a batch open, write a host row nor set the interval.\<close>

definition harmless :: "app_call list \<Rightarrow> bool" where
  "harmless cs \<longleftrightarrow> bracketed False cs = Some False \<and> list_all (\<lambda>c. \<not> is_host_row c \<and> interval_of c = None) cs"

lemma harmless_simps:
  assumes "harmless cs"
  shows "bracketed False (xs @ cs) = bracketed False xs \<or> bracketed False xs = Some True"
    and "filter is_host_row cs = []" and "last_interval cs = None"
proof -
  show "bracketed False (xs @ cs) = bracketed False xs \<or> bracketed False xs = Some True"
    using assms by (auto simp: harmless_def bracketed_append split: option.split)
  have n: "list_all (\<lambda>c. \<not> is_host_row c \<and> interval_of c = None) cs" using assms by (simp add: harmless_def)
  then show "filter is_host_row cs = []" by (auto simp: list_all_iff filter_empty_conv)
  show "last_interval cs = None" using n by (rule last_interval_none)
qed

lemma harmless_batch: "list_all (\<lambda>op. \<not> is_host_row (CWrite op)) ops \<Longrightarrow> harmless (CBeginBatch # map CWrite ops @ [CCommitBatch])"
  by (auto simp: harmless_def bracketed_writes list_all_iff is_host_row_def interval_of_def)

section \<open>Worlds that record the calls\<close>

text \<open>What the loop does, in order; the episodes of the phase manager do not make calls of the loop.\<close>

locale recorded =
  fixes ops :: "'w app_ops" and trace :: "'w \<Rightarrow> app_call list"
  assumes do_trace [simp]: "trace (ao_do ops cfg c w) = trace w @ [c]"
    and enter_trace [simp]: "trace (snd (op_enter (ao_episode ops) o' t cfg w)) = trace w"
    and finalize_trace [simp]: "trace (snd (op_finalize (ao_episode ops) cfg j w)) = trace w"
    and exit_trace [simp]: "trace (op_exit (ao_episode ops) w) = trace w"
    and causal_trace [simp]: "trace (snd (op_causal (ao_episode ops) cc w)) = trace w"
    and diagnosis_trace [simp]: "trace (op_diagnosis (ao_episode ops) d w) = trace w"
    and meta_trace [simp]: "trace (op_meta (ao_episode ops) j w) = trace w"
    and summary_trace [simp]: "trace (op_summary (ao_episode ops) j w) = trace w"
begin

abbreviation tr :: "'w app \<Rightarrow> app_call list" where
  "tr a \<equiv> trace (snd (snd a))"

lemma call_parts: "fst (call ops c a) = fst a" "fst (snd (call ops c a)) = fst (snd a)" "tr (call ops c a) = tr a @ [c]"
  by (simp_all add: call_def split_def)

lemma calls_parts:
  "fst (calls ops cs a) = fst a" "fst (snd (calls ops cs a)) = fst (snd a)" "tr (calls ops cs a) = tr a @ cs"
  by (induction cs arbitrary: a) (simp_all add: calls_def call_parts)

lemma finalize_deep_trace: "trace (snd (FinalizeDeep (ao_episode ops) cfg t pw)) = trace (snd pw)"
  by (cases pw) (simp add: FinalizeDeep_def Let_def split_def split: sum.split)

lemma exit_deep_trace: "trace (snd (ExitDeep (ao_episode ops) pw)) = trace (snd pw)"
  by (cases pw) (simp add: ExitDeep_def)

lemma enter_deep_trace: "trace (snd (EnterDeep (ao_episode ops) cfg t pw)) = trace (snd pw)"
  by (cases pw) (simp add: EnterDeep_def Let_def split_def)

lemma phase_traces:
  "trace (snd (TickAnomaly (ao_episode ops) cfg reply t pw)) = trace (snd pw)"
  "trace (snd (TickDeep (ao_episode ops) cfg t pw)) = trace (snd pw)"
  "trace (snd (RequestDeep (ao_episode ops) cfg t pw)) = trace (snd pw)"
  "trace (snd (RequestBase (ao_episode ops) cfg t pw)) = trace (snd pw)"
  by (cases pw; simp add: TickAnomaly_def TickDeep_def RequestDeep_def RequestBase_def Let_def
      finalize_deep_trace exit_deep_trace enter_deep_trace)+

text \<open>What each step adds to the trace, and what it leaves of the state.\<close>

definition adds_harmless :: "'w app \<Rightarrow> 'w app \<Rightarrow> bool" where
  "adds_harmless a b \<longleftrightarrow> (\<exists>cs. tr b = tr a @ cs \<and> harmless cs) \<and>
     as_next_host (fst b) = as_next_host (fst a) \<and> as_interval_ms (fst b) = as_interval_ms (fst a)"

lemma reload_adds:
  "adds_harmless a (reload_step ops initial i a) \<and> fst (snd (reload_step ops initial i a)) = fst (snd a) \<and>
   (\<not> ti_reload i \<longrightarrow> as_cfg (fst (reload_step ops initial i a)) = as_cfg (fst a))"
  by (cases a) (auto simp: reload_step_def Let_def calls_parts adds_harmless_def harmless_def sample_rates_def
      is_host_row_def interval_of_def)

lemma overhead_adds:
  "adds_harmless a (overhead_step ops i a) \<and> as_cfg (fst (overhead_step ops i a)) = as_cfg (fst a)"
proof -
  obtain s p w where a: "a = (s, p, w)" by (cases a)
  show ?thesis
    by (auto simp: a overhead_step_def Let_def split_def calls_parts adds_harmless_def harmless_def is_host_row_def interval_of_def)
qed

lemma target_adds:
  "adds_harmless a (target_step ops i a) \<and> as_cfg (fst (target_step ops i a)) = as_cfg (fst a)"
  by (cases a) (auto simp: target_step_def calls_parts adds_harmless_def harmless_def is_host_row_def interval_of_def)

lemma feature_adds:
  "adds_harmless a (feature_step ops i a) \<and> as_cfg (fst (feature_step ops i a)) = as_cfg (fst a)"
proof -
  obtain s p w where a: "a = (s, p, w)" by (cases a)
  show ?thesis
    by (auto simp: a feature_step_def Let_def split_def calls_parts phase_traces adds_harmless_def harmless_def
        is_host_row_def interval_of_def)
qed

lemma topk_adds:
  "adds_harmless a (topk_step ops i a) \<and> as_cfg (fst (topk_step ops i a)) = as_cfg (fst a)"
proof -
  obtain s p w where a: "a = (s, p, w)" by (cases a)
  show ?thesis
    by (auto simp: a topk_step_def split_def call_parts adds_harmless_def harmless_def is_host_row_def interval_of_def)
qed

lemma phase_adds:
  "adds_harmless a (phase_steps ops i a) \<and> as_cfg (fst (phase_steps ops i a)) = as_cfg (fst a)"
proof -
  obtain s p w where a: "a = (s, p, w)" by (cases a)
  show ?thesis
    by (simp add: a phase_steps_def Let_def phase_traces adds_harmless_def harmless_def is_host_row_def interval_of_def)
qed

lemma adds_trans: "adds_harmless a b \<Longrightarrow> adds_harmless b c \<Longrightarrow> adds_harmless a c"
proof -
  assume ab: "adds_harmless a b" and bc: "adds_harmless b c"
  obtain xs ys where "tr b = tr a @ xs" "harmless xs" "tr c = tr b @ ys" "harmless ys"
    using ab bc by (auto simp: adds_harmless_def)
  moreover have "harmless (xs @ ys)" if "harmless xs" "harmless ys" for xs ys
    using that by (simp add: harmless_def bracketed_append)
  ultimately show "adds_harmless a c" using ab bc by (auto simp: adds_harmless_def)
qed

text \<open>The iteration without its host row and without its last step.\<close>

definition middle :: "tick_in \<Rightarrow> 'w app \<Rightarrow> 'w app" where
  "middle i a = phase_steps ops i (topk_step ops i (feature_step ops i (target_step ops i (overhead_step ops i a))))"

lemma middle_adds: "adds_harmless a (middle i a) \<and> as_cfg (fst (middle i a)) = as_cfg (fst a)"
  unfolding middle_def using overhead_adds target_adds feature_adds topk_adds phase_adds
  by (metis adds_trans)

lemma host_adds:
  "\<exists>cs. tr (host_step ops i a) = tr a @ cs \<and> bracketed False cs = Some False \<and> last_interval cs = None \<and>
     length (filter is_host_row cs) = (if as_next_host (fst a) \<le> ti_now i then 1 else 0) \<and>
     as_next_host (fst (host_step ops i a)) = (if as_next_host (fst a) \<le> ti_now i
       then ti_now i + sm_base_host_interval_ms (c_sample (as_cfg (fst a))) * 1000000 else as_next_host (fst a)) \<and>
     as_interval_ms (fst (host_step ops i a)) = as_interval_ms (fst a) \<and>
     as_cfg (fst (host_step ops i a)) = as_cfg (fst a)"
proof -
  obtain s p w where a: "a = (s, p, w)" by (cases a)
  have h: "list_all (\<lambda>c. \<not> is_host_row c \<and> interval_of c = None) (map (CWrite \<circ> MemoryOp) rows @ [CCommitBatch])" for rows
    by (auto simp: list_all_iff is_host_row_def interval_of_def)
  have b: "bracketed True (map (CWrite \<circ> MemoryOp) rows @ cs) = bracketed True cs" for rows cs
    by (induction rows) auto
  have f: "filter is_host_row (map (CWrite \<circ> MemoryOp) rows) = []" for rows
    by (auto simp: filter_empty_conv is_host_row_def)
  have i: "last_interval (CBeginBatch # CWrite op # cs) = last_interval cs" for op cs
    by (simp add: interval_of_def split: option.split)
  show ?thesis
  proof (cases "as_next_host s \<le> ti_now i")
    case True
    then show ?thesis
      by (auto simp: a host_step_def Let_def split_def calls_parts b f i last_interval_none [OF h] is_host_row_def interval_of_def
          simp del: map_append split: option.split)
  qed (simp add: a host_step_def)
qed

lemma interval_adds:
  "\<exists>cs. tr (interval_step ops a) = tr a @ cs \<and> bracketed False cs = Some False \<and> filter is_host_row cs = [] \<and>
     last_interval cs = (if want_interval (as_cfg (fst a)) (fst (snd a)) = as_interval_ms (fst a) then None
       else Some (want_interval (as_cfg (fst a)) (fst (snd a)))) \<and>
     as_interval_ms (fst (interval_step ops a)) = want_interval (as_cfg (fst a)) (fst (snd a)) \<and>
     as_next_host (fst (interval_step ops a)) = as_next_host (fst a) \<and>
     as_cfg (fst (interval_step ops a)) = as_cfg (fst a) \<and> fst (snd (interval_step ops a)) = fst (snd a)"
proof -
  obtain s p w where a: "a = (s, p, w)" by (cases a)
  show ?thesis
    by (auto simp: a interval_step_def Let_def split_def call_parts interval_of_def is_host_row_def)
qed

lemma body_middle:
  "loop_body ops initial i a = interval_step ops (middle i (host_step ops i (reload_step ops initial i a)))"
  by (simp add: loop_body_def middle_def)

lemma body_adds:
  assumes "last_interval (tr a) = Some (as_interval_ms (fst a))"
  shows "\<exists>cs. tr (loop_body ops initial i a) = tr a @ cs \<and> bracketed False cs = Some False \<and>
     length (filter is_host_row cs) = (if as_next_host (fst a) \<le> ti_now i then 1 else 0) \<and>
     last_interval (tr (loop_body ops initial i a)) = Some (as_interval_ms (fst (loop_body ops initial i a))) \<and>
     as_interval_ms (fst (loop_body ops initial i a)) =
       want_interval (as_cfg (fst (loop_body ops initial i a))) (fst (snd (loop_body ops initial i a))) \<and>
     (\<not> ti_reload i \<longrightarrow> as_cfg (fst (loop_body ops initial i a)) = as_cfg (fst a) \<and>
       as_next_host (fst (loop_body ops initial i a)) = (if as_next_host (fst a) \<le> ti_now i
         then ti_now i + sm_base_host_interval_ms (c_sample (as_cfg (fst a))) * 1000000 else as_next_host (fst a)))"
proof -
  define b where "b = reload_step ops initial i a"
  define c where "c = host_step ops i b"
  define d where "d = middle i c"
  have e: "loop_body ops initial i a = interval_step ops d" by (simp add: body_middle b_def c_def d_def)
  obtain rs where rs: "tr b = tr a @ rs" "harmless rs" "as_next_host (fst b) = as_next_host (fst a)"
      "as_interval_ms (fst b) = as_interval_ms (fst a)" "\<not> ti_reload i \<longrightarrow> as_cfg (fst b) = as_cfg (fst a)"
    using reload_adds [of a initial i] by (auto simp: b_def adds_harmless_def)
  obtain hs where hs: "tr c = tr b @ hs" "bracketed False hs = Some False" "last_interval hs = None"
      "length (filter is_host_row hs) = (if as_next_host (fst b) \<le> ti_now i then 1 else 0)"
      "as_next_host (fst c) = (if as_next_host (fst b) \<le> ti_now i
         then ti_now i + sm_base_host_interval_ms (c_sample (as_cfg (fst b))) * 1000000 else as_next_host (fst b))"
      "as_interval_ms (fst c) = as_interval_ms (fst b)" "as_cfg (fst c) = as_cfg (fst b)"
    using host_adds [of i b] unfolding c_def by blast
  obtain ms where ms: "tr d = tr c @ ms" "harmless ms" "as_next_host (fst d) = as_next_host (fst c)"
      "as_interval_ms (fst d) = as_interval_ms (fst c)" "as_cfg (fst d) = as_cfg (fst c)"
    using middle_adds [of c i] by (auto simp: d_def adds_harmless_def)
  obtain us where us: "tr (interval_step ops d) = tr d @ us" "bracketed False us = Some False" "filter is_host_row us = []"
      "last_interval us = (if want_interval (as_cfg (fst d)) (fst (snd d)) = as_interval_ms (fst d) then None
         else Some (want_interval (as_cfg (fst d)) (fst (snd d))))"
      "as_interval_ms (fst (interval_step ops d)) = want_interval (as_cfg (fst d)) (fst (snd d))"
      "as_next_host (fst (interval_step ops d)) = as_next_host (fst d)"
      "as_cfg (fst (interval_step ops d)) = as_cfg (fst d)" "fst (snd (interval_step ops d)) = fst (snd d)"
    using interval_adds [of d] by blast
  have br: "bracketed False (rs @ hs @ ms @ us) = Some False"
    using rs(2) hs(2) ms(2) us(2) by (simp add: harmless_def bracketed_append)
  have cnt: "length (filter is_host_row (rs @ hs @ ms @ us)) = (if as_next_host (fst a) \<le> ti_now i then 1 else 0)"
    using harmless_simps(2) [OF rs(2)] harmless_simps(2) [OF ms(2)] us(3) hs(4) rs(3) by simp
  have t: "tr (interval_step ops d) = tr a @ (rs @ hs @ ms @ us)" by (simp add: rs(1) hs(1) ms(1) us(1))
  have li: "last_interval (tr (interval_step ops d)) = Some (as_interval_ms (fst (interval_step ops d)))"
    unfolding t last_interval_append us(4,5) harmless_simps(3) [OF rs(2)] hs(3) harmless_simps(3) [OF ms(2)]
    using assms rs(4) hs(6) ms(4) by simp
  show ?thesis
    unfolding e using t br cnt li us(5-8) ms(3,5) hs(5,7) rs(3,5) by auto
qed

lemma loop_keeps_interval:
  assumes "last_interval (tr a) = Some (as_interval_ms (fst a))"
    and "as_interval_ms (fst a) = want_interval (as_cfg (fst a)) (fst (snd a))"
  shows "let b = run_loop ops initial run_seconds t0 is a
    in last_interval (tr b) = Some (want_interval (as_cfg (fst b)) (fst (snd b)))"
  using assms
proof (induction "is" arbitrary: a)
  case (Cons i "is")
  have "last_interval (tr (loop_body ops initial i a)) = Some (as_interval_ms (fst (loop_body ops initial i a)))"
    "as_interval_ms (fst (loop_body ops initial i a)) =
       want_interval (as_cfg (fst (loop_body ops initial i a))) (fst (snd (loop_body ops initial i a)))"
    using body_adds [OF Cons.prems(1), of initial i] by blast+
  then show ?case using Cons.IH [of "loop_body ops initial i a"] Cons.prems by (simp add: Let_def)
qed simp

lemma loop_brackets:
  assumes "last_interval (tr a) = Some (as_interval_ms (fst a))"
  shows "\<exists>cs. tr (run_loop ops initial run_seconds t0 is a) = tr a @ cs \<and> bracketed False cs = Some False"
  using assms
proof (induction "is" arbitrary: a)
  case (Cons i "is")
  obtain cs where cs: "tr (loop_body ops initial i a) = tr a @ cs" "bracketed False cs = Some False"
      "last_interval (tr (loop_body ops initial i a)) = Some (as_interval_ms (fst (loop_body ops initial i a)))"
    using body_adds [OF Cons.prems, of initial i] by blast
  obtain ds where ds: "tr (run_loop ops initial run_seconds t0 is (loop_body ops initial i a)) = tr (loop_body ops initial i a) @ ds"
      "bracketed False ds = Some False"
    using Cons.IH [OF cs(3)] by blast
  have "bracketed False (cs @ ds) = Some False" using cs(2) ds(2) by (simp add: bracketed_append)
  then show ?case using cs(1) ds(1) by (auto intro: exI [of _ "cs @ ds"])
qed simp

text \<open>Host rows: \<open>k\<close> of them so far, the first at \<open>t\<close>; the next one is due \<open>k\<close> intervals later.\<close>

lemma loop_paced:
  assumes "last_interval (tr a) = Some (as_interval_ms (fst a))"
    and "list_all (\<lambda>i. \<not> ti_reload i) is" and "sorted_wrt (\<le>) (map ti_now is)"
    and "I = unat (sm_base_host_interval_ms (c_sample (as_cfg (fst a)))) * 1000000"
    and "\<forall>i \<in> set is. unat (ti_now i) + I < 2 ^ 64" and "\<forall>i \<in> set is. t \<le> unat (ti_now i)"
    and "k = length (filter is_host_row (tr a))"
    and "k = 0 \<or> t + k * I \<le> unat (as_next_host (fst a))" and "is \<noteq> []"
    and "k = 0 \<or> unat (as_next_host (fst a)) \<le> unat (ti_now (hd is)) + I"
  shows "length (filter is_host_row (tr (run_loop ops initial run_seconds t0 is a))) * I \<le>
     unat (ti_now (last is)) - t + I"
  using assms
proof (induction "is" arbitrary: a k)
  case (Cons i "is")
  have here: "k * I \<le> unat (ti_now (last (i # is))) - t + I"
  proof -
    have "ti_now i \<le> ti_now (last (i # is))" using Cons.prems(3) by (auto simp: last_in_set)
    then have "unat (ti_now i) \<le> unat (ti_now (last (i # is)))" by (simp add: word_le_nat_alt)
    then show ?thesis using Cons.prems(8,10) by (cases "k = 0") (simp, fastforce)
  qed
  show ?case
  proof (cases "loop_ends run_seconds t0 i")
    case True
    then show ?thesis using here Cons.prems(7) by simp
  next
    case False
    obtain cs where cs: "tr (loop_body ops initial i a) = tr a @ cs"
        "length (filter is_host_row cs) = (if as_next_host (fst a) \<le> ti_now i then 1 else 0)"
        "last_interval (tr (loop_body ops initial i a)) = Some (as_interval_ms (fst (loop_body ops initial i a)))"
        "as_cfg (fst (loop_body ops initial i a)) = as_cfg (fst a)"
        "as_next_host (fst (loop_body ops initial i a)) = (if as_next_host (fst a) \<le> ti_now i
           then ti_now i + sm_base_host_interval_ms (c_sample (as_cfg (fst a))) * 1000000 else as_next_host (fst a))"
      using body_adds [OF Cons.prems(1), of initial i] Cons.prems(2) by auto
    define k' where "k' = length (filter is_host_row (tr (loop_body ops initial i a)))"
    have k': "k' = k + (if as_next_host (fst a) \<le> ti_now i then 1 else 0)"
      by (simp add: k'_def cs(1,2) Cons.prems(7))
    have big: "unat (ti_now i) + I < 2 ^ 64" and ti: "t \<le> unat (ti_now i)" using Cons.prems(5,6) by auto
    have sum: "unat (ti_now i + sm_base_host_interval_ms (c_sample (as_cfg (fst a))) * 1000000) = unat (ti_now i) + I"
    proof -
      have "unat (sm_base_host_interval_ms (c_sample (as_cfg (fst a))) * 1000000 :: u64) = I"
        using big Cons.prems(4) by (simp add: unat_word_ariths)
      then show ?thesis using big unat_plus_no_wrap [of "ti_now i" "sm_base_host_interval_ms (c_sample (as_cfg (fst a))) * 1000000"]
        by simp
    qed
    have inv: "k' = 0 \<or> t + k' * I \<le> unat (as_next_host (fst (loop_body ops initial i a)))"
    proof (cases "as_next_host (fst a) \<le> ti_now i")
      case True
      then have le: "unat (as_next_host (fst a)) \<le> unat (ti_now i)" by (simp add: word_le_nat_alt)
      have "t + k * I \<le> unat (ti_now i)" using Cons.prems(8) le ti by (cases "k = 0") auto
      then show ?thesis using True by (simp add: k' cs(5) sum)
    qed (use Cons.prems(8) in \<open>simp add: k' cs(5)\<close>)
    have near: "unat (as_next_host (fst (loop_body ops initial i a))) \<le> unat (ti_now i) + I" if "k' \<noteq> 0"
      using that Cons.prems(10) by (auto simp: k' cs(5) sum)
    show ?thesis
    proof (cases "is = []")
      case True
      show ?thesis
      proof (cases "k' = 0")
        case True
        then show ?thesis using \<open>is = []\<close> False by (simp add: k'_def)
      next
        case pos: False
        then have "t + k' * I \<le> unat (ti_now i) + I" using inv near by linarith
        then have "k' * I \<le> unat (ti_now i) - t + I" using ti by linarith
        then show ?thesis using True False by (simp add: k'_def)
      qed
    next
      case ne: False
      have mono: "unat (ti_now i) \<le> unat (ti_now (hd is))"
        using Cons.prems(3) ne by (cases "is") (auto simp: word_le_nat_alt)
      have "length (filter is_host_row (tr (run_loop ops initial run_seconds t0 is (loop_body ops initial i a)))) * I
          \<le> unat (ti_now (last is)) - t + I"
      proof (rule Cons.IH [of "loop_body ops initial i a" k'])
        show "last_interval (tr (loop_body ops initial i a)) = Some (as_interval_ms (fst (loop_body ops initial i a)))"
          by (rule cs(3))
        show "I = unat (sm_base_host_interval_ms (c_sample (as_cfg (fst (loop_body ops initial i a))))) * 1000000"
          using Cons.prems(4) cs(4) by simp
        show "k' = 0 \<or> unat (as_next_host (fst (loop_body ops initial i a))) \<le> unat (ti_now (hd is)) + I"
          using near mono by linarith
      qed (use Cons.prems inv ne in \<open>simp_all add: k'_def\<close>)
      then show ?thesis using ne False by simp
    qed
  qed
qed simp

end

definition pair_ops :: "'e episode_ops \<Rightarrow> ('e \<times> app_call list) app_ops" where
  "pair_ops eo = \<lparr>ao_do = \<lambda>cfg c (e, cs). (e, cs @ [c]),
     ao_episode = \<lparr>
       op_enter = \<lambda>o' t cfg (e, cs). let (ok, e') = op_enter eo o' t cfg e in (ok, e', cs),
       op_finalize = \<lambda>cfg j (e, cs). let (r, e') = op_finalize eo cfg j e in (r, e', cs),
       op_exit = \<lambda>(e, cs). (op_exit eo e, cs),
       op_evidence = \<lambda>o' (e, cs). op_evidence eo o' e,
       op_causal = \<lambda>cc (e, cs). let (r, e') = op_causal eo cc e in (r, e', cs),
       op_diagnosis = \<lambda>d (e, cs). (op_diagnosis eo d e, cs),
       op_meta = \<lambda>j (e, cs). (op_meta eo j e, cs),
       op_summary = \<lambda>j (e, cs). (op_summary eo j e, cs)\<rparr>\<rparr>"

interpretation rec_pair: recorded "pair_ops eo" snd for eo
  by unfold_locales (auto simp: pair_ops_def split_def Let_def)

section \<open>The loop\<close>

text \<open>
  Claim C21: the flight recorder samples at the rate of the phase: after any number of iterations, with
  reloads, verdicts and manual requests in any order, the interval last set in the kernel is the deep
  one of the current configuration exactly while an episode is open, and the base one otherwise.
\<close>

theorem recorder_interval_follows_phase:
  assumes "last_interval started = Some (sm_fine_interval_ms (c_sample initial))"
  shows "let (s, p, e, cs) = run_loop (pair_ops eo) initial run_seconds t0 is
           (app_state0 initial stats, PhaseManager0, e0, started)
    in last_interval cs = Some (if pm_phase p = DEEP then sm_deep_fine_interval_ms (c_sample (as_cfg s))
                                else sm_fine_interval_ms (c_sample (as_cfg s)))"
  using rec_pair.loop_keeps_interval [of "(app_state0 initial stats, PhaseManager0, e0, started)" eo initial run_seconds t0 "is"] assms
  by (auto simp: Let_def split_def want_interval_def app_state0_def PhaseManager0_def)

text \<open>
  Host rows are paced: under a clock that does not run backwards, and without a reload, a run
  writes at most one host row for each interval that passed between its first and its last iteration,
  and one more.
\<close>

theorem host_rows_paced:
  assumes "list_all (\<lambda>i. \<not> ti_reload i) (i # is)" and "sorted_wrt (\<le>) (map ti_now (i # is))"
    and "last_interval started = Some (sm_fine_interval_ms (c_sample initial))" and "filter is_host_row started = []"
    and "I = unat (sm_base_host_interval_ms (c_sample initial)) * 1000000"
    and "\<forall>j \<in> set (i # is). unat (ti_now j) + I < 2 ^ 64"
  shows "length (filter is_host_row (snd (snd (snd (run_loop (pair_ops eo) initial run_seconds t0 (i # is)
           (app_state0 initial stats, PhaseManager0, e0, started)))))) * I
    \<le> unat (ti_now (last (i # is))) - unat (ti_now i) + I"
proof (rule rec_pair.loop_paced [of _ _ _ _ 0])
  show "\<forall>j \<in> set (i # is). unat (ti_now i) \<le> unat (ti_now j)"
    using assms(2) by (auto simp: word_le_nat_alt)
qed (use assms in \<open>simp_all add: app_state0_def\<close>)

text \<open>The calls of the loop on the writer; the other components are not its business.\<close>

definition writer_call :: "writer_env \<Rightarrow> (json \<Rightarrow> string option) \<Rightarrow> app_call \<Rightarrow> OutputWriter \<Rightarrow> OutputWriter" where
  "writer_call env dump c w =
     (case c of
        CBeginBatch \<Rightarrow> BeginBatch env w
      | CCommitBatch \<Rightarrow> CommitBatch env w
      | CWrite op \<Rightarrow> run_op env dump op w
      | _ \<Rightarrow> w)"

definition batch_state :: "bool \<Rightarrow> OutputWriter \<Rightarrow> bool" where
  "batch_state b w \<longleftrightarrow> ow_hung w \<or>
     (\<exists>d. ow_db w = Some d \<and> (db_saved d \<noteq> None \<longleftrightarrow> b) \<and> ow_depth w = (if b then 1 else 0))"

lemma batch_state_op: "batch_state b w \<Longrightarrow> batch_state b (run_op env dump op w)"
  using op_touches [of w env dump op] op_hung [of w env dump op]
  by (auto simp: batch_state_def touches_def saved_def split: option.splits)

lemma batch_state_begin: "we_exec env BeginImmediate \<Longrightarrow> batch_state False w \<Longrightarrow> batch_state True (BeginBatch env w)"
  by (auto simp: batch_state_def BeginBatch_def Exec_def Let_def split: option.splits)

lemma batch_state_commit: "we_exec env CommitCmd \<Longrightarrow> batch_state True w \<Longrightarrow> batch_state False (CommitBatch env w)"
  by (auto simp: batch_state_def CommitBatch_def Exec_def Let_def split: option.splits)

lemma batch_state_calls:
  assumes "we_exec env BeginImmediate" and "we_exec env CommitCmd"
    and "bracketed b cs = Some b'" and "batch_state b w"
  shows "batch_state b' (fold (writer_call env dump) cs w)"
  using assms(3,4)
  by (induction b cs arbitrary: w rule: bracketed.induct)
    (auto simp: writer_call_def batch_state_op batch_state_begin [OF assms(1)] batch_state_commit [OF assms(2)] split: if_splits)


section \<open>Start and end\<close>

lemma stats_on_off:
  assumes "sy_writable sy" and "sy_value sy = Some (v @ [CHR 0x0A])" and "v \<noteq> []"
    and "CHR 0x0A \<notin> set v" and "CHR 0x0D \<notin> set v"
  shows "EnableBpfStats sy = (True, v, sy\<lparr>sy_value := Some (''1'' @ [CHR 0x0A])\<rparr>)"
    and "RestoreBpfStats v (sy\<lparr>sy_value := Some (''1'' @ [CHR 0x0A])\<rparr>) = sy"
proof -
  have "getlines (v @ [CHR 0x0A]) = [v]"
    using getlines_line [OF assms(4), of "[]"] by simp
  moreover have "dropWhile (\<lambda>c. c = CHR 0x0A \<or> c = CHR 0x0D) (rev v) = rev v"
    using assms(4,5) by (cases v rule: rev_cases) auto
  ultimately show "EnableBpfStats sy = (True, v, sy\<lparr>sy_value := Some (''1'' @ [CHR 0x0A])\<rparr>)"
    using assms(1,2) by (simp add: EnableBpfStats_def trim_end_def write_sysctl_def)
  show "RestoreBpfStats v (sy\<lparr>sy_value := Some (''1'' @ [CHR 0x0A])\<rparr>) = sy"
    using assms by (simp add: RestoreBpfStats_def write_sysctl_def)
qed

text \<open>
  The kernel's statistics are given back only by a run that started: with the switch in any
  state before, a run that reaches its end leaves it as it was and reports success, but when the kernel
  programs cannot be opened or loaded, or the recorder does not start, the collector reports failure and
  leaves the statistics on.
\<close>

theorem failed_start_keeps_statistics:
  assumes "se_writer_init env" and "mi_enable_bpf_stats (c_misc initial)"
    and "sy_writable sy" and "sy_value sy = Some (v @ [CHR 0x0A])" and "v \<noteq> []"
    and "CHR 0x0A \<notin> set v" and "CHR 0x0D \<notin> set v"
  shows "let (rc, a, sy') = RunCollector ops env initial run_seconds is sy w0
    in if se_open env \<and> se_load env \<and> se_start env then rc = 0 \<and> sy' = sy
       else rc = 1 \<and> sy_value sy' = Some (''1'' @ [CHR 0x0A])"
  using assms(1,2) stats_on_off [OF assms(3-7)]
  by (simp add: RunCollector_def Let_def split_def)

section \<open>Out-of-memory events\<close>

lemma oom_rows_upto:
  assumes "unat seq - unat s \<le> turns"
  shows "oom_rows env e turns s seq =
     concat (map (\<lambda>k. case read_elem env e ''oom_events'' (and (of_nat k) 63) of None \<Rightarrow> []
       | Some b \<Rightarrow> [oom_json (sv_files env) (OomEventVal_of b)]) [unat s..<unat seq])"
  using assms
proof (induction env e turns s seq rule: oom_rows.induct)
  case (2 env e turns s seq)
  show ?case
  proof (cases "s < seq")
    case True
    then have lt: "unat s < unat seq" by (simp add: word_less_nat_alt)
    moreover have "unat seq < 2 ^ 32" using unsigned_less [of seq] by simp
    ultimately have "unat (s + 1) = Suc (unat s)" by (simp add: unat_word_ariths)
    then show ?thesis using 2 True lt by (simp add: upt_conv_Cons)
  next
    case False
    then show ?thesis by (simp add: word_less_nat_alt)
  qed
qed simp

lemma slot_mod: "and (of_nat k :: u32) 63 = of_nat (k mod 64)"
proof -
  have "and (of_nat k :: u32) 63 = and (of_nat k) (mask 6)" by (simp add: mask_eq_exp_minus_1)
  also have "\<dots> = take_bit 6 (of_nat k)" by (simp add: take_bit_eq_mask)
  also have "\<dots> = of_nat (take_bit 6 k)" by (simp add: take_bit_of_nat)
  finally show ?thesis by (simp add: take_bit_eq_mod)
qed

text \<open>
  Claim C35: an out-of-memory event is written once, unless more than 64 came between two host ticks:
  with the newest 64 events in the ring of the kernel, up to 64 new ones are written in order, each
  once; of more, up to 128, the oldest are lost and as many of the newest are written twice.
\<close>

theorem oom_events_written:
  assumes "read_elem env e ''oom_seq'' 0 = Some b" and "rd_u32 b 0 = seq"
    and "\<And>k. k < unat seq \<Longrightarrow> unat seq \<le> k + 64 \<Longrightarrow>
       read_elem env e ''oom_events'' (and (of_nat k) 63) = Some (ev k)"
    and "unat seq = unat seen + n" and "n \<le> 128"
  shows "DumpOomEvents env e seen = (seq, map (\<lambda>k. oom_json (sv_files env) (OomEventVal_of (ev k)))
     (if n \<le> 64 then [unat seen..<unat seq]
      else [unat seen + 64..<unat seq] @ [unat seq - 64..<unat seq]))"
proof -
  let ?j = "\<lambda>k. oom_json (sv_files env) (OomEventVal_of (ev k))"
  let ?r = "\<lambda>k. case read_elem env e ''oom_events'' (and (of_nat k) 63) of None \<Rightarrow> []
    | Some b \<Rightarrow> [oom_json (sv_files env) (OomEventVal_of b)]"
  have rows: "oom_rows env e 1000 seen seq = concat (map ?r [unat seen..<unat seq])"
    using assms(4,5) by (intro oom_rows_upto) simp
  have slot: "?r k = ?r (k + 64)" for k
    by (simp only: slot_mod mod_add_self2)
  have hit: "?r k = [?j k]" if "k < unat seq" "unat seq \<le> k + 64" for k
    using assms(3) [OF that] by simp
  have new: "concat (map ?r [i..<unat seq]) = map ?j [i..<unat seq]" if "unat seq \<le> i + 64" for i
  proof -
    have "map ?r [i..<unat seq] = map (\<lambda>k. [?j k]) [i..<unat seq]"
      by (rule map_cong [OF refl hit]) (use that in auto)
    then show ?thesis by (simp only: concat_map_singleton)
  qed
  have "concat (map ?r [unat seen..<unat seq]) = map ?j (if n \<le> 64 then [unat seen..<unat seq]
      else [unat seen + 64..<unat seq] @ [unat seq - 64..<unat seq])"
  proof (cases "n \<le> 64")
    case True
    then show ?thesis using new [of "unat seen"] assms(4) by simp
  next
    case False
    have split: "[unat seen..<unat seq] = [unat seen..<unat seq - 64] @ [unat seq - 64..<unat seq]"
      using upt_add_eq_append [of "unat seen" "unat seq - 64" 64] assms(4) False by simp
    have shift: "map (\<lambda>k. k + 64) [unat seen..<unat seq - 64] = [unat seen + 64..<unat seq]"
      using assms(4) False by (intro nth_equalityI) simp_all
    have "map ?r [unat seen..<unat seq - 64] = map ?r (map (\<lambda>k. k + 64) [unat seen..<unat seq - 64])"
      unfolding map_map comp_def using slot by simp
    then have "concat (map ?r [unat seen..<unat seq - 64]) = concat (map ?r [unat seen + 64..<unat seq])"
      by (simp only: shift)
    moreover have "concat (map ?r [unat seen + 64..<unat seq]) = map ?j [unat seen + 64..<unat seq]"
      by (rule new) (use assms(4,5) in simp)
    moreover have "concat (map ?r [unat seq - 64..<unat seq]) = map ?j [unat seq - 64..<unat seq]"
      by (rule new) simp
    ultimately show ?thesis using False by (simp only: if_False split map_append concat_append)
  qed
  then show ?thesis
    using assms(1,2,4) rows by (auto simp: DumpOomEvents_def Let_def)
qed

section \<open>Rows of the selected processes\<close>

definition group_rows :: "ProcessRow list \<Rightarrow> u32 \<Rightarrow> ProcessRow list" where
  "group_rows tb g = filter (\<lambda>r. group_of r = g) tb"

definition counters_of :: "ProcessRow \<Rightarrow> u64 list" where
  "counters_of r = [pr_utime r, pr_stime r, pr_nvcsw r, pr_nivcsw r, pr_minflt r, pr_majflt r, pr_total_vm r]"

definition sum_rows :: "ProcessRow list \<Rightarrow> u64 list" where
  "sum_rows rs = map (\<lambda>i. sum_list (map (\<lambda>r. counters_of r ! i) rs)) [0..<7]"

lemma sum_rows_snoc: "sum_rows (rs @ [r]) = map2 (+) (sum_rows rs) (counters_of r)"
  by (simp add: sum_rows_def counters_of_def upt_rec)

lemma counters_add: "counters_of (add_task r a) = map2 (+) (counters_of a) (counters_of r)"
  by (simp add: add_task_def counters_of_def Let_def)

lemma tgid_add: "group_of r = g \<Longrightarrow> g \<noteq> 0 \<Longrightarrow> pr_tgid a \<in> {0, g} \<Longrightarrow> pr_tgid (add_task r a) = g"
  by (auto simp: add_task_def Let_def)

text \<open>The map of the groups after any number of rows.\<close>

lemma groups_after:
  assumes "0 \<notin> set procs"
  shows "distinct (map fst (fold (add_row procs) tb [])) \<and>
    (\<forall>g. case map_of (fold (add_row procs) tb []) g of
       None \<Rightarrow> g \<notin> set procs \<or> group_rows tb g = []
     | Some a \<Rightarrow> g \<in> set procs \<and> group_rows tb g \<noteq> [] \<and> pr_tgid a = g \<and> counters_of a = sum_rows (group_rows tb g))"
proof (induction tb rule: rev_induct)
  case Nil
  then show ?case by (simp add: group_rows_def)
next
  case (snoc r tb)
  define m where "m = fold (add_row procs) tb []"
  define g0 where "g0 = group_of r"
  have step: "fold (add_row procs) (tb @ [r]) [] = add_row procs r m" by (simp add: m_def)
  have gr: "group_rows (tb @ [r]) g = (if g = g0 then group_rows tb g @ [r] else group_rows tb g)" for g
    by (simp add: group_rows_def g0_def)
  have IH: "distinct (map fst m)" "\<And>g. case map_of m g of
       None \<Rightarrow> g \<notin> set procs \<or> group_rows tb g = []
     | Some a \<Rightarrow> g \<in> set procs \<and> group_rows tb g \<noteq> [] \<and> pr_tgid a = g \<and> counters_of a = sum_rows (group_rows tb g)"
    using snoc.IH by (simp_all add: m_def)
  show ?case
  proof (cases "g0 \<in> set procs")
    case False
    then have "map_of m g0 = None" using IH(2) [of g0] by (simp split: option.splits)
    then show ?thesis using IH False unfolding step gr by (auto simp: add_row_def g0_def [symmetric] Let_def split: option.splits)
  next
    case True
    define a where "a = (case map_of m g0 of None \<Rightarrow> ProcessRow0 | Some a \<Rightarrow> a)"
    have put: "add_row procs r m = alist_put g0 (add_task r a) m"
      using True by (simp add: add_row_def g0_def [symmetric] Let_def a_def)
    have nz: "g0 \<noteq> 0" using True assms by auto
    have old: "pr_tgid a \<in> {0, g0}" "counters_of a = sum_rows (group_rows tb g0)"
      using IH(2) [of g0] True
      by (auto simp: a_def counters_of_def sum_rows_def ProcessRow0_def upt_rec split: option.splits)
    have new: "pr_tgid (add_task r a) = g0" "counters_of (add_task r a) = sum_rows (group_rows tb g0 @ [r])"
      using tgid_add [OF _ nz old(1), of r] old(2) by (simp_all add: g0_def counters_add sum_rows_snoc)
    show ?thesis
      unfolding step put gr using IH new True
      by (auto simp: distinct_alist_put map_of_alist_put split: option.splits)
  qed
qed

text \<open>
  Claim C31: the rows of the selected processes are sums over their threads: there is one row for each
  selected process with a thread in the table, each counter is the sum over its threads, and the rows
  are sorted by processor time, the largest first.
\<close>

theorem top_tasks_are_sums:
  assumes "0 \<notin> set procs" and "\<And>m. mset (order m) = mset m"
  shows "let out = BuildTopTasks order tb procs in distinct (map pr_tgid out) \<and> set (map pr_tgid out) = {g \<in> set procs. group_rows tb g \<noteq> []} \<and>
    list_all (\<lambda>a. counters_of a = sum_rows (group_rows tb (pr_tgid a))) out \<and>
    sorted_wrt (\<lambda>a b. cpu_time b \<le> cpu_time a) out"
proof -
  define out where "out = BuildTopTasks order tb procs"
  let ?m = "fold (add_row procs) tb []"
  have dist: "distinct (map fst ?m)" using groups_after [OF assms(1)] by blast
  have all: "case map_of ?m g of None \<Rightarrow> g \<notin> set procs \<or> group_rows tb g = []
     | Some a \<Rightarrow> g \<in> set procs \<and> group_rows tb g \<noteq> [] \<and> pr_tgid a = g \<and> counters_of a = sum_rows (group_rows tb g)" for g
    using groups_after [OF assms(1)] by blast
  have ent: "g \<in> set procs \<and> group_rows tb g \<noteq> [] \<and> pr_tgid a = g \<and> counters_of a = sum_rows (group_rows tb g)"
    if "map_of ?m g = Some a" for g a
    using all [of g] that by simp
  have none: "g \<notin> set procs \<or> group_rows tb g = []" if "map_of ?m g = None" for g
    using all [of g] that by simp
  have mset_out: "mset out = mset (map snd ?m)"
    unfolding out_def BuildTopTasks_def mset_sort_desc mset_map assms(2) ..
  have in_m: "map_of ?m g = Some a" if "(g, a) \<in> set ?m" for g a
    using that dist by simp
  have tg: "map pr_tgid (map snd ?m) = map fst ?m"
    using ent in_m by (auto simp: comp_def)
  have keys: "set (map fst ?m) = {g \<in> set procs. group_rows tb g \<noteq> []}"
  proof -
    have "g \<in> set (map fst ?m) \<longleftrightarrow> map_of ?m g \<noteq> None" for g by (simp add: map_of_eq_None_iff)
    then show ?thesis using ent none by fastforce
  qed
  have "mset (map pr_tgid out) = mset (map fst ?m)"
    using arg_cong [OF mset_out, of "image_mset pr_tgid"] tg by (metis mset_map)
  then have "distinct (map pr_tgid out)" "set (map pr_tgid out) = set (map fst ?m)"
    using dist by (metis distinct_count_atmost_1 mset_eq_setD, metis mset_eq_setD)
  moreover have "list_all (\<lambda>a. counters_of a = sum_rows (group_rows tb (pr_tgid a))) out"
  proof -
    have "counters_of a = sum_rows (group_rows tb (pr_tgid a))" if "a \<in> set out" for a
    proof -
      have "a \<in> set (map snd ?m)" using that mset_eq_setD [OF mset_out] by simp
      then obtain g where "(g, a) \<in> set ?m" by auto
      then show ?thesis using ent [OF in_m] by auto
    qed
    then show ?thesis by (simp add: list_all_iff)
  qed
  moreover have "sorted_wrt (\<lambda>a b. cpu_time b \<le> cpu_time a) out"
    unfolding out_def BuildTopTasks_def by (rule sort_desc_sorted)
  ultimately show ?thesis using keys unfolding out_def by (simp add: Let_def)
qed

section \<open>Concrete runs\<close>

definition app_sel0 :: sel_env where
  "app_sel0 = \<lparr>sv_files = (\<lambda>_. None), sv_strtod = (\<lambda>_. 0), sv_online = 4, sv_ring_slots = None, sv_clk_tck = 100,
     sv_steady = 1,
     sv_slice = (\<lambda>_. MapSlice_make (Some \<lparr>bm_fd = 3, bm_key_size = 4, bm_value_size = 16, bm_type = Array\<rparr>) 1),
     sv_iter = (\<lambda>xs. xs), sv_bpf = bpf_env0\<rparr>"

definition tick0 :: "u64 \<Rightarrow> tick_in" where
  "tick0 now = \<lparr>ti_stop = False, ti_check_now = now, ti_reload = False, ti_file = None, ti_getenv = (\<lambda>_. None),
     ti_strtod = (\<lambda>_. None), ti_now = now, ti_host = HostSnapshot0\<lparr>hs_ts_ns := now\<rparr>, ti_table = (False, []),
     ti_network = (\<lambda>ts en. NetworkSnapshot0), ti_gpu = (\<lambda>ts. GpuSnapshot0), ti_cgroup = (\<lambda>ts. CgroupSnapshot0),
     ti_usage = None, ti_progs = [],
     ti_fenv = \<lparr>fe_huge = (\<lambda>_. 0), fe_order = (\<lambda>m. m), fe_sel = app_sel0\<rparr>, ti_ebpf = ebpf0, ti_members = [], ti_procs = [],
     ti_reply = Inl ''no service'', ti_deep_request = False, ti_base_request = False\<rparr>"

definition started0 :: "app_call list" where
  "started0 = [CWriteNcpus, CStartSnapshotter 100]"

lemma started0_interval: "last_interval started0 = Some (sm_fine_interval_ms (c_sample DefaultConfig))"
  by (simp add: started0_def interval_of_def DefaultConfig_def Config0_def SampleTunables0_def)

lemma recorder_interval_follows_phase_witness:
  "let (s, p, e, cs) = run_loop (pair_ops trace_ops) DefaultConfig 0 0 [tick0 5, (tick0 6)\<lparr>ti_deep_request := True\<rparr>]
           (app_state0 DefaultConfig False, PhaseManager0, trace_world0, started0)
    in last_interval cs = Some (if pm_phase p = DEEP then sm_deep_fine_interval_ms (c_sample (as_cfg s))
                                else sm_fine_interval_ms (c_sample (as_cfg s)))"
  by (rule recorder_interval_follows_phase [OF started0_interval])

lemma host_rows_paced_witness:
  "length (filter is_host_row (snd (snd (snd (run_loop (pair_ops trace_ops) DefaultConfig 0 0 [tick0 5, tick0 10, tick0 2000000000]
      (app_state0 DefaultConfig False, PhaseManager0, trace_world0, started0)))))) \<le> 2"
proof -
  have "length (filter is_host_row (snd (snd (snd (run_loop (pair_ops trace_ops) DefaultConfig 0 0 [tick0 5, tick0 10, tick0 2000000000]
      (app_state0 DefaultConfig False, PhaseManager0, trace_world0, started0)))))) * 1000000000
    \<le> unat (ti_now (last [tick0 5, tick0 10, tick0 2000000000])) - unat (ti_now (tick0 5)) + 1000000000"
    by (rule host_rows_paced [OF _ _ started0_interval])
      (simp_all add: tick0_def started0_def is_host_row_def DefaultConfig_def Config0_def SampleTunables0_def)
  then show ?thesis by (simp add: tick0_def)
qed


lemma failed_start_keeps_statistics_witness:
  "sy_value (snd (snd (RunCollector (pair_ops trace_ops)
      \<lparr>se_writer_init = True, se_open = True, se_load = False, se_start = True, se_t0 = 0, se_end = 1\<rparr>
      (DefaultConfig\<lparr>c_misc := (c_misc DefaultConfig)\<lparr>mi_enable_bpf_stats := True\<rparr>\<rparr>) 0 []
      \<lparr>sy_value = Some (''0'' @ [CHR 0x0A]), sy_writable = True\<rparr> (trace_world0, [])))) = Some (''1'' @ [CHR 0x0A])"
  using failed_start_keeps_statistics [of "\<lparr>se_writer_init = True, se_open = True, se_load = False, se_start = True, se_t0 = 0, se_end = 1\<rparr>"
      "DefaultConfig\<lparr>c_misc := (c_misc DefaultConfig)\<lparr>mi_enable_bpf_stats := True\<rparr>\<rparr>"
      "\<lparr>sy_value = Some (''0'' @ [CHR 0x0A]), sy_writable = True\<rparr>" "''0''" "pair_ops trace_ops" 0 "[]" "(trace_world0, [])"]
  by (simp add: Let_def split_def)

definition oom_value :: "nat \<Rightarrow> bytes" where
  "oom_value k = (if k = 0 then [7, 0, 0, 0, 0, 0, 0, 0, 41, 0, 0, 0, 0, 0, 0, 0]
     else [9, 0, 0, 0, 0, 0, 0, 0, 42, 0, 0, 0, 0, 0, 0, 0])"

definition oom_kernel :: ebpf where
  "oom_kernel = ebpf0\<lparr>eb_skel := Loaded, eb_maps := [(''oom_seq'', kmap_of [([0, 0, 0, 0], [2, 0, 0, 0])]),
     (''oom_events'', kmap_of [([0, 0, 0, 0], oom_value 0), ([1, 0, 0, 0], oom_value 1)])]\<rparr>"

lemma oom_elems:
  "read_elem app_sel0 oom_kernel ''oom_seq'' 0 = Some [2, 0, 0, 0]"
  "k < 2 \<Longrightarrow> read_elem app_sel0 oom_kernel ''oom_events'' (and (of_nat k) 63) = Some (oom_value k)"
proof -
  have fd: "\<not> ms_fd (sv_slice app_sel0 n) < 0" for n by (simp add: app_sel0_def MapSlice_make_def Let_def)
  have keys: "u32_bytes 0 = [0, 0, 0, 0]" "u32_bytes 1 = [1, 0, 0, 0]"
    by (simp_all add: u32_bytes_def le_bytes_def upt_rec)
  show "read_elem app_sel0 oom_kernel ''oom_seq'' 0 = Some [2, 0, 0, 0]"
    by (simp add: read_elem_def Map_def Lookup_def fd keys oom_kernel_def kmap_calls_def kmap_of_def)
  show "read_elem app_sel0 oom_kernel ''oom_events'' (and (of_nat k) 63) = Some (oom_value k)" if "k < 2"
    using that by (cases k)
      (simp_all add: read_elem_def Map_def Lookup_def fd keys oom_kernel_def kmap_calls_def kmap_of_def)
qed

lemma oom_events_written_witness:
  "DumpOomEvents app_sel0 oom_kernel 0 = (2, map (\<lambda>k. oom_json (\<lambda>_. None) (OomEventVal_of (oom_value k))) [0..<2])"
proof -
  have two: "rd_u32 [2, 0, 0, 0] 0 = 2" by (simp add: rd_u32_def)
  have ring: "read_elem app_sel0 oom_kernel ''oom_events'' (and (of_nat k) 63) = Some (oom_value k)" if "k < unat (2 :: u32)" for k
    using that by (intro oom_elems(2)) simp
  show ?thesis
    using oom_events_written [OF oom_elems(1) two ring, of "0 :: u32" 2] by (simp add: app_sel0_def)
qed

lemma top_tasks_are_sums_witness:
  "let out = BuildTopTasks rev [ProcessRow0\<lparr>pr_pid := 8, pr_tgid := 7, pr_utime := 3\<rparr>, ProcessRow0\<lparr>pr_pid := 7, pr_tgid := 7, pr_utime := 4\<rparr>] [7, 9]
   in map pr_tgid out = [7] \<and> list_all (\<lambda>a. pr_utime a = 7) out"
proof -
  let ?tb = "[ProcessRow0\<lparr>pr_pid := 8, pr_tgid := 7, pr_utime := 3\<rparr>, ProcessRow0\<lparr>pr_pid := 7, pr_tgid := 7, pr_utime := 4\<rparr>]"
  define out where "out = BuildTopTasks rev ?tb [7, 9]"
  have rows: "group_rows ?tb 7 = ?tb" "group_rows ?tb 9 = []" by (simp_all add: group_rows_def group_of_def)
  have all: "distinct (map pr_tgid out)" "set (map pr_tgid out) = {g \<in> set [7, 9]. group_rows ?tb g \<noteq> []}"
      "list_all (\<lambda>a. counters_of a = sum_rows (group_rows ?tb (pr_tgid a))) out"
    using top_tasks_are_sums [of "[7, 9]" rev ?tb] by (simp_all add: out_def Let_def)
  have "set (map pr_tgid out) = {7}" using all(2) rows by auto
  moreover have "length (map pr_tgid out) = 1" using distinct_card [OF all(1)] \<open>set (map pr_tgid out) = {7}\<close> by simp
  ultimately have ids: "map pr_tgid out = [7]" by (cases "map pr_tgid out") auto
  have "pr_utime a = 7" if "a \<in> set out" for a
  proof -
    have "pr_tgid a \<in> set (map pr_tgid out)" using that by simp
    then have "pr_tgid a = 7" by (simp only: ids list.set empty_iff insert_iff simp_thms)
    then have "counters_of a = sum_rows ?tb" using all(3) that rows(1) by (simp add: list_all_iff)
    then show ?thesis by (simp add: counters_of_def sum_rows_def upt_rec)
  qed
  then show ?thesis using ids by (simp add: out_def [symmetric] Let_def list_all_iff)
qed

end
