(* ===== verification/CliProps.thy ===== *)
theory CliProps
  imports Cli AppProps
begin

text \<open>
  Properties of the process as a whole: the configuration in force is within bounds in every iteration,
  and every signal is seen once, by the next test of its flag.
\<close>

section \<open>The configuration in force\<close>

lemma calls_state: "fst (calls ops cs a) = fst a"
  by (induction cs arbitrary: a) (simp_all add: calls_def call_def split_def)

lemma call_state: "fst (call ops c a) = fst a"
  by (simp add: call_def split_def)

lemmas step_defs = host_step_def overhead_step_def target_step_def feature_step_def topk_step_def phase_steps_def
  interval_step_def

lemma other_steps_keep_config:
  "as_cfg (fst (host_step ops i a)) = as_cfg (fst a)" "as_cfg (fst (overhead_step ops i a)) = as_cfg (fst a)"
  "as_cfg (fst (target_step ops i a)) = as_cfg (fst a)" "as_cfg (fst (feature_step ops i a)) = as_cfg (fst a)"
  "as_cfg (fst (topk_step ops i a)) = as_cfg (fst a)" "as_cfg (fst (phase_steps ops i a)) = as_cfg (fst a)"
  "as_cfg (fst (interval_step ops a)) = as_cfg (fst a)"
  by (simp_all add: step_defs Let_def split_def calls_state call_state)

lemma reload_config:
  "as_cfg (fst (reload_step ops initial i a)) =
     (if ti_reload i then ReloadConfig (ti_getenv i) (ti_strtod i) initial (ti_file i) else as_cfg (fst a))"
  by (simp add: reload_step_def Let_def split_def calls_state)

lemma body_config:
  "as_cfg (fst (loop_body ops initial i a)) =
     (if ti_reload i then ReloadConfig (ti_getenv i) (ti_strtod i) initial (ti_file i) else as_cfg (fst a))"
  by (simp add: loop_body_def other_steps_keep_config reload_config)

lemma reload_ok: "config_ok (ReloadConfig getenv strtod base file)"
  by (simp add: ReloadConfig_def Let_def config_san.san_ok)

lemma load_ok: "load_config getenv strtod file dir = Inr c \<Longrightarrow> config_ok c"
  by (auto simp: load_config_def Let_def config_san.san_ok split: sum.splits)

lemma loop_config_ok: "config_ok (as_cfg (fst a)) \<Longrightarrow> config_ok (as_cfg (fst (run_loop ops initial secs t0 is a)))"
  by (induction ops initial secs t0 "is" a rule: run_loop.induct) (simp_all add: body_config reload_ok)

lemma RunCollector_config_ok:
  assumes "config_ok c"
  shows "config_ok (as_cfg (fst (fst (snd (RunCollector ops env c secs is sy w)))))"
proof -
  have z: "config_ok (as_cfg (app_state0 c b))" for b by (simp add: app_state0_def assms)
  show ?thesis
    by (auto simp: RunCollector_def Let_def split_def calls_state call_state z intro!: loop_config_ok)
qed

lemma cli_main_config_ok: "cli_main cfgs getenv strtod args = Collects c path secs \<Longrightarrow> config_ok c"
  by (auto simp: cli_main_def dest: load_ok split: sum.splits option.splits if_splits)

lemma parse_args_status: "parse_args args a = Inl rc \<Longrightarrow> rc \<in> {0, 2}"
proof (induction args a rule: parse_args.induct)
  case (2 x xs a)
  show ?case
  proof (cases xs)
    case Nil
    then show ?thesis using 2(4,5) by (simp split: if_split_asm)
  next
    case (Cons v vs)
    then show ?thesis using 2 by (simp only: parse_args.simps list.case split: if_split_asm) simp_all
  qed
qed simp

lemma exit_status:
  assumes "cli_main cfgs getenv strtod args = Exits rc"
  shows "rc \<in> {0, 1, 2} \<and> (rc = 2 \<longrightarrow> parse_args args cli0 = Inl 2)"
proof (cases "parse_args args cli0")
  case (Inl n)
  then show ?thesis using assms parse_args_status [OF Inl] by (auto simp: cli_main_def)
next
  case (Inr a)
  then show ?thesis
    using assms by (auto simp: cli_main_def Let_def split: sum.splits option.splits if_splits config_text.splits)
qed

lemma uncaught_merge:
  assumes "cli_main cfgs getenv strtod args = Uncaught e"
  shows "\<exists>p j. cfgs p = Holds j \<and> MergeConfig DefaultConfig j = Inl e"
proof (cases "parse_args args cli0")
  case (Inr a)
  then show ?thesis
    using assms by (cases "cfgs (ca_config_path a)")
      (auto simp: cli_main_def load_config_def Let_def split: sum.splits if_splits)
qed (use assms in \<open>simp add: cli_main_def\<close>)


section \<open>Signals\<close>

lemma fold_signals:
  "sg_reload (fold on_signal ns s) \<longleftrightarrow> sg_reload s \<or> SIGHUP \<in> set ns"
  "sg_deep_request (fold on_signal ns s) \<longleftrightarrow> sg_deep_request s \<or> SIGUSR1 \<in> set ns"
  "sg_base_request (fold on_signal ns s) \<longleftrightarrow> sg_base_request s \<or> SIGUSR2 \<in> set ns"
  "sg_stop (fold on_signal ns s) \<longleftrightarrow> sg_stop s \<or> SIGINT \<in> set ns \<or> SIGTERM \<in> set ns"
  by (induction ns arbitrary: s) (auto simp: on_signal_def intro: signal.exhaust)

text \<open>
  What the n-th iteration can see of each flag: the signals since the flag was last taken. The stop
  flag is never taken back.
\<close>

definition behind :: "(arrivals \<Rightarrow> signal list) \<Rightarrow> (arrivals \<times> tick_in) list \<Rightarrow> nat \<Rightarrow> signal list" where
  "behind f is n = (case n of 0 \<Rightarrow> [] | Suc m \<Rightarrow> f (fst (is ! m)))"

definition before :: "(arrivals \<Rightarrow> signal list) \<Rightarrow> (arrivals \<times> tick_in) list \<Rightarrow> nat \<Rightarrow> signal list" where
  "before f is n = f (fst (is ! n))"

definition all_of :: "arrivals \<Rightarrow> signal list" where
  "all_of v = av_check v @ av_reload v @ av_deep v @ av_base v"

lemma take_flags_parts:
  "ti_reload (fst (take_flags v s i)) \<longleftrightarrow> sg_reload s \<or> SIGHUP \<in> set (av_check v @ av_reload v)"
  "ti_deep_request (fst (take_flags v s i)) \<longleftrightarrow>
     sg_deep_request s \<or> SIGUSR1 \<in> set (av_check v @ av_reload v @ av_deep v)"
  "ti_base_request (fst (take_flags v s i)) \<longleftrightarrow> sg_base_request s \<or> SIGUSR2 \<in> set (all_of v)"
  "ti_stop (fst (take_flags v s i)) \<longleftrightarrow> sg_stop s \<or> SIGINT \<in> set (av_check v) \<or> SIGTERM \<in> set (av_check v)"
  by (auto simp: take_flags_def Let_def fold_signals all_of_def)

lemma take_flags_after:
  "sg_reload (snd (take_flags v s i)) \<longleftrightarrow> SIGHUP \<in> set (av_deep v @ av_base v)"
  "sg_deep_request (snd (take_flags v s i)) \<longleftrightarrow> SIGUSR1 \<in> set (av_base v)"
  "\<not> sg_base_request (snd (take_flags v s i))"
  "sg_stop (snd (take_flags v s i)) \<longleftrightarrow> sg_stop s \<or> SIGINT \<in> set (all_of v) \<or> SIGTERM \<in> set (all_of v)"
  by (auto simp: take_flags_def Let_def fold_signals all_of_def)

lemma signalled_Cons:
  "signalled s ((v, i) # r) = fst (take_flags v s i) # signalled (snd (take_flags v s i)) r"
  by (simp add: split_def Let_def)

lemma behind_Cons: "behind f (x # xs) (Suc n) = (if n = 0 then f (fst x) else behind f xs n)"
  by (cases n) (simp_all add: behind_def)

lemma before_Cons: "before f (x # xs) (Suc n) = before f xs n" "before f (x # xs) 0 = f (fst x)"
  by (simp_all add: before_def)

lemma behind_0: "behind f xs 0 = []"
  by (simp add: behind_def)

lemma signalled_flags:
  assumes "n < length is"
  shows "ti_reload (signalled s is ! n) \<longleftrightarrow> (n = 0 \<and> sg_reload s) \<or>
       SIGHUP \<in> set (behind av_deep is n @ behind av_base is n @ before av_check is n @ before av_reload is n)"
    and "ti_deep_request (signalled s is ! n) \<longleftrightarrow> (n = 0 \<and> sg_deep_request s) \<or>
       SIGUSR1 \<in> set (behind av_base is n @ before av_check is n @ before av_reload is n @ before av_deep is n)"
    and "ti_base_request (signalled s is ! n) \<longleftrightarrow> (n = 0 \<and> sg_base_request s) \<or> SIGUSR2 \<in> set (before all_of is n)"
    and "ti_stop (signalled s is ! n) \<longleftrightarrow> sg_stop s \<or>
       (\<exists>g \<in> {SIGINT, SIGTERM}. g \<in> set (concat (map (all_of \<circ> fst) (take n is)) @ before av_check is n))"
  using assms
proof (induction "is" arbitrary: s n)
  case (Cons x r)
  obtain v i where x: "x = (v, i)" by fastforce
  {
    case 1
    then show ?case
      by (cases n) (use Cons.IH(1) in \<open>auto simp: x signalled_Cons take_flags_parts take_flags_after behind_Cons
        before_Cons behind_0 simp del: signalled.simps\<close>)
  next
    case 2
    then show ?case
      by (cases n) (use Cons.IH(2) in \<open>auto simp: x signalled_Cons take_flags_parts take_flags_after behind_Cons
        before_Cons behind_0 simp del: signalled.simps\<close>)
  next
    case 3
    then show ?case
      by (cases n) (use Cons.IH(3) in \<open>auto simp: x signalled_Cons take_flags_parts take_flags_after behind_Cons
        before_Cons behind_0 simp del: signalled.simps\<close>)
  next
    case 4
    then show ?case
      by (cases n) (use Cons.IH(4) in \<open>auto simp: x signalled_Cons take_flags_parts take_flags_after behind_Cons
        before_Cons behind_0 simp del: signalled.simps\<close>)
  }
qed simp_all

text \<open>
  Claim C29: every signal is seen, and by one iteration only: the flag of an iteration is set exactly
  when its signal arrived since the flag was last taken, wherever in an iteration it arrives; a request
  to stop is never forgotten.
\<close>

theorem signals_seen_once:
  assumes "n < length is"
  shows "(ti_reload (signalled SignalState0 is ! n) \<longleftrightarrow>
       SIGHUP \<in> set (behind av_deep is n @ behind av_base is n @ before av_check is n @ before av_reload is n)) \<and>
     (ti_deep_request (signalled SignalState0 is ! n) \<longleftrightarrow>
       SIGUSR1 \<in> set (behind av_base is n @ before av_check is n @ before av_reload is n @ before av_deep is n)) \<and>
     (ti_base_request (signalled SignalState0 is ! n) \<longleftrightarrow> SIGUSR2 \<in> set (before all_of is n)) \<and>
     (ti_stop (signalled SignalState0 is ! n) \<longleftrightarrow>
       (\<exists>g \<in> {SIGINT, SIGTERM}. g \<in> set (concat (map (all_of \<circ> fst) (take n is)) @ before av_check is n)))"
  using signalled_flags [OF assms, of SignalState0] by (simp add: SignalState0_def)

definition arrivals1 :: "(arrivals \<times> tick_in) list" where
  "arrivals1 =
     [(\<lparr>av_check = [], av_reload = [], av_deep = [SIGHUP], av_base = [SIGUSR1]\<rparr>, tick0 5),
      (\<lparr>av_check = [SIGHUP], av_reload = [], av_deep = [], av_base = []\<rparr>, tick0 6),
      (\<lparr>av_check = [], av_reload = [], av_deep = [], av_base = [SIGTERM]\<rparr>, tick0 7)]"

theorem signals_seen_once_witness:
  "map (\<lambda>n. (ti_reload (signalled SignalState0 arrivals1 ! n), ti_deep_request (signalled SignalState0 arrivals1 ! n)))
     [0, 1, 2] = [(False, False), (True, True), (False, False)]"
proof -
  note s = signals_seen_once [of _ arrivals1]
  show ?thesis
    using s [of 0] s [of 1] s [of 2] by (simp add: arrivals1_def behind_def before_def)
qed

end
