(* ===== verification/Log.thy ===== *)
theory Log
  imports CliProps
begin

text \<open>
  The logger as an object, \<^verbatim>\<open>src/logging.cpp\<close>: its level, its file and its sink, and where every message
  goes; and the way the collector uses it: the level and the sink are set once at the start of a run,
  and no later step changes them, a reload included. The lock the logger holds while it calls the sink
  is modelled in the theory Writer, since only the writer's sink can meet it.
\<close>

section \<open>The object\<close>

text \<open>
  The lines written to standard error, to the log file by its name, and handed to the sink are kept in
  order. A sink is a function; which one it is does not matter here, so it is a flag.
\<close>

record Logger =
  lg_fd :: "string option"
  lg_level :: LogLevel
  lg_sink :: bool
  lg_err :: "string list"
  lg_files :: "(string \<times> string) list"
  lg_sunk :: "string list"

definition Logger0 :: Logger where
  "Logger0 = \<lparr>lg_fd = None, lg_level = kInfo, lg_sink = False, lg_err = [], lg_files = [], lg_sunk = []\<rparr>"

definition Logger_Init :: "(string \<Rightarrow> bool) \<Rightarrow> string \<Rightarrow> LogLevel \<Rightarrow> Logger \<Rightarrow> Logger" where
  "Logger_Init opens path level l =
     (let l1 = l\<lparr>lg_level := level, lg_fd := None\<rparr>
      in if path = [] then l1 else l1\<lparr>lg_fd := (if opens path then Some path else None)\<rparr>)"

definition Logger_SetLevel :: "LogLevel \<Rightarrow> Logger \<Rightarrow> Logger" where
  "Logger_SetLevel level l = l\<lparr>lg_level := level\<rparr>"

definition Logger_SetSink :: "bool \<Rightarrow> Logger \<Rightarrow> Logger" where
  "Logger_SetSink sink l = l\<lparr>lg_sink := sink\<rparr>"

text \<open>The test that the line has more than its newline is kept, although no line fails it.\<close>

definition Logger_Log :: "string \<Rightarrow> nat \<Rightarrow> LogLevel \<Rightarrow> string \<Rightarrow> Logger \<Rightarrow> Logger" where
  "Logger_Log ts usec lvl msg l =
     (if level_num lvl < level_num (lg_level l) then l
      else let line = log_line ts usec lvl msg;
               l1 = l\<lparr>lg_err := lg_err l @ [line]\<rparr>;
               l2 = (case lg_fd l1 of None \<Rightarrow> l1 | Some p \<Rightarrow> l1\<lparr>lg_files := lg_files l1 @ [(p, line)]\<rparr>)
           in if lg_sink l2 \<and> 1 < length line then l2\<lparr>lg_sunk := lg_sunk l2 @ [butlast line]\<rparr> else l2)"

text \<open>The four functions that callers use: the message is formatted into 2048 bytes of its own first.\<close>

definition log_at :: "LogLevel \<Rightarrow> string \<Rightarrow> nat \<Rightarrow> string \<Rightarrow> Logger \<Rightarrow> Logger" where
  "log_at lvl ts usec msg = Logger_Log ts usec lvl (take 2047 msg)"

text \<open>The messages of a run: level, time, microseconds, text.\<close>

type_synonym message = "LogLevel \<times> string \<times> nat \<times> string"

definition log_all :: "message list \<Rightarrow> Logger \<Rightarrow> Logger" where
  "log_all = fold (\<lambda>(lvl, ts, usec, msg). log_at lvl ts usec msg)"

text \<open>
  The process: \<^verbatim>\<open>main\<close> sets the level of its configuration, \<^verbatim>\<open>RunCollector\<close> opens the writer, sets the
  level of the same configuration again and installs the sink; then come the messages of the run. The
  messages before the sink are those of the writer's start.
\<close>

definition process_log :: "(string \<Rightarrow> bool) \<Rightarrow> Config \<Rightarrow> message list \<Rightarrow> message list \<Rightarrow> Logger" where
  "process_log opens c early later =
     log_all later (Logger_SetSink True (Logger_Init opens [] (ParseLogLevel (mi_log_level (c_misc c)))
       (log_all early (Logger_Init opens [] (ParseLogLevel (mi_log_level (c_misc c))) Logger0))))"

section \<open>A line never leaves its buffer\<close>

lemma show_nat_length: "n < 1000 \<Longrightarrow> length (show_nat n) \<le> 3"
  by (simp add: show_nat.simps [of n] show_nat.simps [of "n div 10"] show_nat.simps [of "n div 10 div 10"])

lemma pad3_length: "n < 1000 \<Longrightarrow> length (pad3 n) = 3"
  using show_nat_length [of n] by (simp add: pad3_def)

lemma level_name_length: "length (LevelName lvl) \<le> 5"
  by (cases lvl) simp_all

text \<open>
  \<^verbatim>\<open>snprintf\<close> returns the length the line would have, and that many bytes are written from the buffer
  of 2200: the length is below it for every message, level and time.
\<close>

lemma log_line_fits:
  assumes "length ts < 40" and "usec < 1000000"
  shows "1 < length (log_line ts usec lvl msg) \<and> length (log_line ts usec lvl msg) < 2200"
proof -
  have "length (pad3 (usec div 1000)) = 3" using assms(2) by (intro pad3_length) simp
  moreover have "min (length msg) 2047 \<le> 2047" by simp
  ultimately show ?thesis using assms(1) level_name_length [of lvl] by (simp add: log_line_def)
qed

section \<open>What the outputs hold\<close>

definition kept :: "LogLevel \<Rightarrow> message list \<Rightarrow> string list" where
  "kept level ms = map (\<lambda>(lvl, ts, usec, msg). log_line ts usec lvl msg) (filter (\<lambda>m. level_num level \<le> level_num (fst m)) ms)"

lemma log_line_cut: "log_line ts usec lvl (take 2047 msg) = log_line ts usec lvl msg"
  by (simp add: log_line_def)

lemma log_line_long: "1 < length (log_line ts usec lvl msg)"
  by (simp add: log_line_def)

lemma log_all_result:
  "log_all ms l = l\<lparr>lg_err := lg_err l @ kept (lg_level l) ms,
     lg_files := lg_files l @ (case lg_fd l of None \<Rightarrow> [] | Some p \<Rightarrow> map (Pair p) (kept (lg_level l) ms)),
     lg_sunk := lg_sunk l @ (if lg_sink l then map butlast (kept (lg_level l) ms) else [])\<rparr>"
proof (induction ms arbitrary: l)
  case (Cons m ms)
  obtain lvl ts usec msg where m: "m = (lvl, ts, usec, msg)" by (cases m)
  have "log_all (m # ms) l = log_all ms (log_at lvl ts usec msg l)" by (simp add: log_all_def m)
  then show ?case
    using log_line_long [of ts usec lvl msg]
    by (simp add: Cons.IH m kept_def log_at_def Logger_Log_def log_line_cut Let_def not_less split: option.split)
qed (simp add: log_all_def kept_def split: option.split)

text \<open>
  The documented contract of the \<^verbatim>\<open>misc\<close> section for the level: it is that of the configuration the process
  starts with, for every message of the run; no message reaches a file, since the collector never names
  one; and the database gets the lines of standard error, in their order and without the newline, except
  those that came before the sink was set.
\<close>

lemma process_log_outputs:
  fixes c :: Config
  defines "level \<equiv> ParseLogLevel (mi_log_level (c_misc c))"
  shows "lg_level (process_log opens c early later) = level"
    and "lg_err (process_log opens c early later) = kept level early @ kept level later"
    and "lg_files (process_log opens c early later) = []"
    and "lg_sunk (process_log opens c early later) = map butlast (kept level later)"
  by (simp_all add: process_log_def level_def log_all_result Logger_Init_def Logger_SetSink_def Logger0_def)

section \<open>The filter of the misc section is not fixed\<close>

text \<open>
  The other part of that contract fails: a reload replaces the whole configuration, the \<^verbatim>\<open>misc\<close> section
  included, and the features of the following ticks are built with the process filter of the new one.
\<close>

definition filter_file :: json where
  "filter_file = JObj [(''misc'', JObj [(''pid_filter'', jnum (7 :: u64))])]"

lemma reload_changes_filter:
  assumes "ti_reload i" and "ti_file i = Some filter_file" and "ti_getenv i = (\<lambda>_. None)"
  shows "mi_pid_filter (c_misc DefaultConfig) = 0"
    and "mi_pid_filter (c_misc (as_cfg (fst (reload_step ops DefaultConfig i s)))) = 7"
proof -
  have "mi_pid_filter (c_misc (ReloadConfig (\<lambda>_. None) f DefaultConfig (Some filter_file))) = 7" for f
    by code_simp
  then show "mi_pid_filter (c_misc (as_cfg (fst (reload_step ops DefaultConfig i s)))) = 7"
    using assms by (simp add: reload_config)
qed code_simp

end
