(* ===== verification/Kern.thy ===== *)
theory Kern
  imports BpfValues
begin

text \<open>
  The kernel programs, first part (\<^verbatim>\<open>bpf/etrace_common.h\<close>): the maps of the kernel, the state the
  programs share, the helpers that create a counter before it is incremented, the histograms, and
  the programs that are always attached: scheduling, block requests, page faults, reclaim, killed
  processes and contended locks.

  A hash map is the list of its entries in the order the kernel walks it, with the capacity given at
  each update; a per-CPU value is a function of the CPU. What the kernel hands to one run of a
  program (time, CPU, thread, stack numbers, a random number) is a context. A struct on the stack
  that the program does not initialise holds whatever the stack held: the part \<open>kc_junk\<close> of the
  context, indexed by the call of the helper within the run.
\<close>

section \<open>Maps\<close>

type_synonym ('k, 'v) hmap = "('k \<times> 'v) list"
type_synonym ('k, 'v) pmap = "('k \<times> (u32 \<Rightarrow> 'v)) list"

text \<open>\<^verbatim>\<open>bpf_map_update_elem\<close> with \<^verbatim>\<open>BPF_ANY\<close> and with \<^verbatim>\<open>BPF_NOEXIST\<close>; a full map takes no new key.\<close>

definition upd_any :: "nat \<Rightarrow> 'k \<Rightarrow> 'v \<Rightarrow> ('k, 'v) hmap \<Rightarrow> ('k, 'v) hmap" where
  "upd_any cap k v m = (if map_of m k = None \<and> cap \<le> length m then m else alist_put k v m)"

definition upd_noexist :: "nat \<Rightarrow> 'k \<Rightarrow> 'v \<Rightarrow> ('k, 'v) hmap \<Rightarrow> ('k, 'v) hmap" where
  "upd_noexist cap k v m = (if map_of m k \<noteq> None \<or> cap \<le> length m then m else alist_put k v m)"

text \<open>A map that evicts: \<open>victim\<close> is the kernel's choice among the keys of a full map.\<close>

definition upd_lru :: "nat \<Rightarrow> ('k list \<Rightarrow> 'k) \<Rightarrow> 'k \<Rightarrow> 'v \<Rightarrow> ('k, 'v) hmap \<Rightarrow> ('k, 'v) hmap" where
  "upd_lru cap victim k v m =
     (if map_of m k = None \<and> cap \<le> length m then alist_put k v (alist_del (victim (map fst m)) m)
      else alist_put k v m)"

text \<open>A store through the pointer a lookup returned.\<close>

definition through :: "('v \<Rightarrow> 'v) \<Rightarrow> 'k \<Rightarrow> ('k, 'v) hmap \<Rightarrow> ('k, 'v) hmap" where
  "through f k m = (case map_of m k of None \<Rightarrow> m | Some v \<Rightarrow> alist_put k (f v) m)"

text \<open>
  The same on a per-CPU map, for the CPU the program runs on. A new entry starts from the value
  given on this CPU and from zero on the others.
\<close>

definition new_percpu :: "nat \<Rightarrow> u32 \<Rightarrow> 'v \<Rightarrow> 'v \<Rightarrow> 'k \<Rightarrow> ('k, 'v) pmap \<Rightarrow> ('k, 'v) pmap" where
  "new_percpu cap cpu z zero k m = upd_noexist cap k ((\<lambda>_. zero)(cpu := z)) m"

definition on_cpu :: "u32 \<Rightarrow> ('v \<Rightarrow> 'v) \<Rightarrow> 'k \<Rightarrow> ('k, 'v) pmap \<Rightarrow> ('k, 'v) pmap" where
  "on_cpu cpu f k m = through (\<lambda>v. v(cpu := f (v cpu))) k m"

definition percpu_val :: "'v \<Rightarrow> ('k, 'v) pmap \<Rightarrow> 'k \<Rightarrow> u32 \<Rightarrow> 'v" where
  "percpu_val zero m k cpu = (case map_of m k of None \<Rightarrow> zero | Some v \<Rightarrow> v cpu)"

section \<open>Values\<close>

record blk_req_t =
  rq_insert_ts :: u64
  rq_issue_ts :: u64
  rq_dev :: u32
  rq_pid :: u32
  rq_rw :: u32

record sys_start_t =
  ss_id :: u32
  ss_ts :: u64
  ss_futex_wait :: bool

record lock_wait_t =
  lw_lock_addr :: u64
  lw_ts :: u64
  lw_flags :: u32

record connect_start_t =
  cs_cookie :: u64
  cs_ts :: u64

record offcpu_key =
  oc_tid :: u32
  oc_ksid :: u32

definition SwitchVal0 :: SwitchVal where
  "SwitchVal0 = \<lparr>sv_vol = 0, sv_invol = 0\<rparr>"

definition BlockIoVal0 :: BlockIoVal where
  "BlockIoVal0 = \<lparr>bi_ops = 0, bi_bytes = 0, bi_lat_sum = 0, bi_hist = replicate 13 0\<rparr>"

definition FaultsVal0 :: FaultsVal where
  "FaultsVal0 = \<lparr>fv_minor = 0, fv_major = 0\<rparr>"

definition LatStat0 :: LatStatVal13 where
  "LatStat0 = \<lparr>lv_count = 0, lv_lat_sum = 0, lv_hist = replicate 13 0\<rparr>"

definition SysLatVal0 :: SysLatVal where
  "SysLatVal0 = \<lparr>sl_count = 0, sl_lat_sum = 0, sl_error_count = 0, sl_hist = replicate 64 0\<rparr>"

definition IoFileVal0 :: IoFileVal where
  "IoFileVal0 = \<lparr>fw_bytes = 0, fw_ops = 0, fw_errors = 0, fw_lat_sum = 0, fw_hist = replicate 13 0\<rparr>"

text \<open>What the stack holds where a program leaves a struct uninitialised.\<close>

record junk =
  j_sw :: "nat \<Rightarrow> SwitchVal"
  j_blk :: "nat \<Rightarrow> BlockIoVal"
  j_flt :: "nat \<Rightarrow> FaultsVal"
  j_lat :: "nat \<Rightarrow> LatStatVal13"
  j_sys :: SysLatVal
  j_lock :: LockHotVal
  j_iof :: IoFileVal
  j_issue_ts :: u64
  j_owner :: SockOwnerVal
  j_path :: string
  j_netns :: u64

record kctx =
  kc_now :: u64
  kc_cpu :: u32
  kc_pid_tgid :: u64
  kc_user_stack :: int
  kc_kernel_stack :: int
  kc_random :: u32
  kc_victim :: "u64 list \<Rightarrow> u64"
  kc_junk :: junk

text \<open>The thread of a run is the low half of \<^verbatim>\<open>bpf_get_current_pid_tgid\<close>, the process the high half.\<close>

definition cur_thread :: "kctx \<Rightarrow> u32" where
  "cur_thread x = ucast (kc_pid_tgid x)"

definition cur_process :: "kctx \<Rightarrow> u32" where
  "cur_process x = ucast (drop_bit 32 (kc_pid_tgid x))"

section \<open>The state the programs share\<close>

text \<open>Control, the recorder and the counters of the programs that are always attached.\<close>

record kern_base =
  kx_targets :: "(u32, u32) hmap"
  kx_task_meta :: "(u32, TaskMetaVal) hmap"
  kx_deep_enabled :: u32
  kx_ncpus :: u32
  kx_snapshot_cfg :: u32
  kx_offcpu_rate :: u32
  kx_iofile_thresh :: u32
  kx_net_rate :: u32
  kx_ring :: ring
  kx_on_cpu_ns :: "(u32, u64) pmap"
  kx_switches :: "(u32, SwitchVal) pmap"
  kx_block_io :: "(u32, BlockIoVal) pmap"
  kx_faults :: "(u32, FaultsVal) pmap"
  kx_lock_st :: "(u32, LatStatVal13) pmap"
  kx_dev_io :: "(u32, BlockIoVal) pmap"
  kx_mem_events :: MemEventsVal
  kx_oom_events :: "u32 \<Rightarrow> OomEventVal"
  kx_oom_seq :: u32
  kx_last_run_ts :: "u32 \<Rightarrow> u64"
  kx_cur_tid :: "u32 \<Rightarrow> u32"
  kx_blk_req :: "(u64, blk_req_t) hmap"
  kx_lock_wait :: "(u32, lock_wait_t) hmap"
  kx_lock_hot :: "(u64, LockHotVal) hmap"

text \<open>The counters and the pending events of the deep mode.\<close>

record kern_deep = kern_base +
  kx_sys_st :: "(u32, LatStatVal13) pmap"
  kx_futex_st :: "(u32, LatStatVal13) pmap"
  kx_runq_st :: "(u32, LatStatVal13) pmap"
  kx_wakeup_ts :: "(u32, u64) hmap"
  kx_offcpu_stash :: "(u32, OffcpuStashVal) hmap"
  kx_offcpu_time :: "(offcpu_key, u64) hmap"
  kx_offcpu_stat :: "(u32, LatStatVal13) pmap"
  kx_offcpu_last_ts :: "(u32, u64) hmap"
  kx_offcpu_fallback :: u32
  kx_sys_start :: "(u32, sys_start_t) hmap"
  kx_sys_lat :: "(SysLatKey, SysLatVal) pmap"
  kx_oncpu_count :: "(OncpuKey, u64) hmap"
  kx_io_start :: "(u32, IoStartVal) hmap"
  kx_io_file :: "(IoFileKey, IoFileVal) pmap"

text \<open>The network evidence of the deep mode, and the timer of the snapshots.\<close>

record kern = kern_deep +
  kx_sock_owner :: "(u64, SockOwnerVal) hmap"
  kx_net_flow :: "(u64, SockOwnerVal) hmap"
  kx_connect_start :: "(u32, connect_start_t) hmap"
  kx_net_drop :: "(NetDropKeyVal, u64) pmap"
  kx_net_softirq :: "(NetSoftirqKeyVal, LatStatVal13) pmap"
  kx_rtt_last :: "(u64, u64) hmap"
  kx_softirq_enter_ts :: "u32 \<Rightarrow> u64"
  kx_drop_last_ts :: "u32 \<Rightarrow> u64"
  kx_arm_interval :: u64
  kx_arm_cancel :: u64
  kx_timer :: "u64 option"

section \<open>Helpers\<close>

definition tid_is_target :: "u32 \<Rightarrow> kern \<Rightarrow> bool" where
  "tid_is_target tid s \<longleftrightarrow> map_of (kx_targets s) tid \<noteq> None"

definition deep_mode :: "kern \<Rightarrow> bool" where
  "deep_mode s \<longleftrightarrow> kx_deep_enabled s \<noteq> 0"

text \<open>Each helper makes sure the key exists; the caller then stores through the pointer.\<close>

definition h_u64 :: "nat \<Rightarrow> kctx \<Rightarrow> 'k \<Rightarrow> ('k, u64) pmap \<Rightarrow> ('k, u64) pmap" where
  "h_u64 cap x k m = new_percpu cap (kc_cpu x) 0 0 k m"

definition h_u64_shared :: "nat \<Rightarrow> 'k \<Rightarrow> ('k, u64) hmap \<Rightarrow> ('k, u64) hmap" where
  "h_u64_shared cap k m = upd_noexist cap k 0 m"

definition h_sw :: "nat \<Rightarrow> kctx \<Rightarrow> 'k \<Rightarrow> ('k, SwitchVal) pmap \<Rightarrow> ('k, SwitchVal) pmap" where
  "h_sw n x k m = new_percpu 4096 (kc_cpu x) (j_sw (kc_junk x) n) SwitchVal0 k m"

definition h_blk :: "nat \<Rightarrow> nat \<Rightarrow> kctx \<Rightarrow> 'k \<Rightarrow> ('k, BlockIoVal) pmap \<Rightarrow> ('k, BlockIoVal) pmap" where
  "h_blk cap n x k m = new_percpu cap (kc_cpu x) (j_blk (kc_junk x) n) BlockIoVal0 k m"

definition h_flt :: "nat \<Rightarrow> kctx \<Rightarrow> 'k \<Rightarrow> ('k, FaultsVal) pmap \<Rightarrow> ('k, FaultsVal) pmap" where
  "h_flt n x k m = new_percpu 4096 (kc_cpu x) (j_flt (kc_junk x) n) FaultsVal0 k m"

definition h_lat :: "nat \<Rightarrow> nat \<Rightarrow> kctx \<Rightarrow> 'k \<Rightarrow> ('k, LatStatVal13) pmap \<Rightarrow> ('k, LatStatVal13) pmap" where
  "h_lat cap n x k m = new_percpu cap (kc_cpu x) (j_lat (kc_junk x) n) LatStat0 k m"

definition h_sys :: "kctx \<Rightarrow> 'k \<Rightarrow> ('k, SysLatVal) pmap \<Rightarrow> ('k, SysLatVal) pmap" where
  "h_sys x k m = new_percpu 16384 (kc_cpu x) (j_sys (kc_junk x)) SysLatVal0 k m"

definition h_lock :: "kctx \<Rightarrow> 'k \<Rightarrow> ('k, LockHotVal) hmap \<Rightarrow> ('k, LockHotVal) hmap" where
  "h_lock x k m = upd_noexist 4096 k (j_lock (kc_junk x)) m"

definition h_iof :: "kctx \<Rightarrow> 'k \<Rightarrow> ('k, IoFileVal) pmap \<Rightarrow> ('k, IoFileVal) pmap" where
  "h_iof x k m = new_percpu 16384 (kc_cpu x) (j_iof (kc_junk x)) IoFileVal0 k m"

section \<open>Histograms\<close>

text \<open>The bounded loop of the program: at most \<open>n\<close> more rounds.\<close>

fun base4_loop :: "nat \<Rightarrow> u64 \<Rightarrow> u32 \<Rightarrow> u32" where
  "base4_loop 0 v b = b"
| "base4_loop (Suc n) v b = (if v < 4 then b else base4_loop n (drop_bit 2 v) (b + 1))"

definition base4_bin :: "u64 \<Rightarrow> u32" where
  "base4_bin ns =
     (if ns < 256 then 0
      else let b = base4_loop 30 (drop_bit 8 ns) 0 in if b > 12 then 12 else b)"

fun log2l_loop :: "nat \<Rightarrow> u64 \<Rightarrow> u32 \<Rightarrow> u32" where
  "log2l_loop 0 v b = b"
| "log2l_loop (Suc n) v b = (if v < 2 then b else log2l_loop n (drop_bit 1 v) (b + 1))"

definition log2l_bin :: "u64 \<Rightarrow> u32" where
  "log2l_bin v =
     (if v < 2 then 0
      else let b = log2l_loop 63 v 0 in if b > 63 then 63 else b)"

definition bin_inc :: "nat \<Rightarrow> u32 list \<Rightarrow> u32 list" where
  "bin_inc i hist = hist[i := hist ! i + 1]"

definition add_hist13 :: "u32 list \<Rightarrow> u64 \<Rightarrow> u32 list" where
  "add_hist13 hist ns = bin_inc (unat (base4_bin ns)) hist"

definition add_hist64 :: "u32 list \<Rightarrow> u64 \<Rightarrow> u32 list" where
  "add_hist64 hist ns = bin_inc (unat (log2l_bin ns)) hist"

text \<open>The three stores every latency statistic is updated with.\<close>

definition add_lat :: "u64 \<Rightarrow> LatStatVal13 \<Rightarrow> LatStatVal13" where
  "add_lat d v = v\<lparr>lv_count := lv_count v + 1, lv_lat_sum := lv_lat_sum v + d,
     lv_hist := add_hist13 (lv_hist v) d\<rparr>"

end
