(* ===== verification/KernBase.thy ===== *)
theory KernBase
  imports Kern
begin

text \<open>
  The programs that are always attached: \<^verbatim>\<open>sched_switch\<close>, the wakeups and the capture of off-CPU
  stacks, the exit of a thread, block requests, page faults, reclaim, killed processes, contended
  locks (both variants of the build), all in \<^verbatim>\<open>bpf/etrace_common.h\<close>.
\<close>

section \<open>Scheduling\<close>

text \<open>Step 1: the time since the last switch of this CPU goes to the thread that ran.\<close>

definition attribute_cpu :: "kctx \<Rightarrow> kern \<Rightarrow> kern" where
  "attribute_cpu x s =
     (let prev_tid = kx_cur_tid s (kc_cpu x);
          start = kx_last_run_ts s (kc_cpu x);
          now = kc_now x
      in if prev_tid \<noteq> 0 \<and> start \<noteq> 0 \<and> now > start \<and> tid_is_target prev_tid s
         then s\<lparr>kx_on_cpu_ns := on_cpu (kc_cpu x) (\<lambda>v. v + (now - start)) prev_tid
                                   (h_u64 4096 x prev_tid (kx_on_cpu_ns s))\<rparr>
         else s)"

definition set_running :: "kctx \<Rightarrow> u32 \<Rightarrow> kern \<Rightarrow> kern" where
  "set_running x next_pid s =
     s\<lparr>kx_cur_tid := (kx_cur_tid s)(kc_cpu x := next_pid), kx_last_run_ts := (kx_last_run_ts s)(kc_cpu x := kc_now x)\<rparr>"

text \<open>Step 2: a switch away is voluntary or not by the state of the thread.\<close>

definition count_switch :: "u32 \<Rightarrow> SwitchVal \<Rightarrow> SwitchVal" where
  "count_switch prev_state v =
     (if prev_state = 0 then v\<lparr>sv_invol := sv_invol v + 1\<rparr>
      else if and prev_state 0x7F \<noteq> 0 then v\<lparr>sv_vol := sv_vol v + 1\<rparr>
      else v)"

definition switch_count :: "kctx \<Rightarrow> u32 \<Rightarrow> u32 \<Rightarrow> kern \<Rightarrow> kern" where
  "switch_count x prev_pid prev_state s =
     (if prev_pid \<noteq> 0 \<and> tid_is_target prev_pid s
      then s\<lparr>kx_switches := on_cpu (kc_cpu x) (count_switch prev_state) prev_pid (h_sw 0 x prev_pid (kx_switches s))\<rparr>
      else s)"

text \<open>Step 2b: without the probe on \<^verbatim>\<open>__schedule\<close>, a sampled departure is stashed here.\<close>

definition blocked_state :: "u32 \<Rightarrow> bool" where
  "blocked_state st \<longleftrightarrow> st \<noteq> 0 \<and> and st 0x100 = 0 \<and> and st 0x80 = 0 \<and> and st 0x7F \<noteq> 0"

definition since :: "u64 \<Rightarrow> u64 \<Rightarrow> u64" where
  "since now l = (if now > l then now - l else 0)"

definition offcpu_fallback_stash :: "kctx \<Rightarrow> u32 \<Rightarrow> u32 \<Rightarrow> kern \<Rightarrow> kern" where
  "offcpu_fallback_stash x prev_pid prev_state s =
     (if deep_mode s \<and> prev_pid \<noteq> 0 \<and> tid_is_target prev_pid s \<and> blocked_state prev_state \<and> kx_offcpu_fallback s \<noteq> 0
      then (case map_of (kx_offcpu_last_ts s) prev_pid of
              None \<Rightarrow> s
            | Some l \<Rightarrow>
                let rate = kx_offcpu_rate s; now = kc_now x
                in if rate \<noteq> 0 \<and> (l = 0 \<or> since now l * ucast rate \<ge> 1000000000)
                   then s\<lparr>kx_offcpu_stash := upd_any 4096 prev_pid
                                \<lparr>os_out_ts = now, os_ksid = 0, os_stack_available = 0\<rparr> (kx_offcpu_stash s),
                          kx_offcpu_last_ts := through (\<lambda>_. now) prev_pid (kx_offcpu_last_ts s)\<rparr>
                   else s)
      else s)"

text \<open>Step 3: a target that comes back completes its stash and its wakeup.\<close>

definition complete_offcpu :: "kctx \<Rightarrow> u32 \<Rightarrow> kern \<Rightarrow> kern" where
  "complete_offcpu x next_pid s =
     (case map_of (kx_offcpu_stash s) next_pid of
        None \<Rightarrow> s
      | Some st \<Rightarrow>
          let dwell = kc_now x - os_out_ts st;
              k = \<lparr>oc_tid = next_pid, oc_ksid = os_ksid st\<rparr>;
              s1 = (if os_stack_available st \<noteq> 0
                    then s\<lparr>kx_offcpu_time := through (\<lambda>t. t + dwell) k (h_u64_shared 8192 k (kx_offcpu_time s))\<rparr>
                    else s\<lparr>kx_offcpu_stat := on_cpu (kc_cpu x) (add_lat dwell) next_pid
                                                (h_lat 4096 0 x next_pid (kx_offcpu_stat s))\<rparr>)
          in s1\<lparr>kx_offcpu_stash := alist_del next_pid (kx_offcpu_stash s1)\<rparr>)"

definition complete_wakeup :: "kctx \<Rightarrow> u32 \<Rightarrow> kern \<Rightarrow> kern" where
  "complete_wakeup x next_pid s =
     (case map_of (kx_wakeup_ts s) next_pid of
        None \<Rightarrow> s
      | Some w \<Rightarrow>
          s\<lparr>kx_runq_st := on_cpu (kc_cpu x) (add_lat (kc_now x - w)) next_pid (h_lat 4096 1 x next_pid (kx_runq_st s)),
            kx_wakeup_ts := alist_del next_pid (kx_wakeup_ts s)\<rparr>)"

definition switch_in :: "kctx \<Rightarrow> u32 \<Rightarrow> kern \<Rightarrow> kern" where
  "switch_in x next_pid s =
     (if deep_mode s \<and> tid_is_target next_pid s then complete_wakeup x next_pid (complete_offcpu x next_pid s) else s)"

definition on_switch :: "kctx \<Rightarrow> u32 \<Rightarrow> u32 \<Rightarrow> u32 \<Rightarrow> kern \<Rightarrow> kern" where
  "on_switch x prev_pid prev_state next_pid s =
     switch_in x next_pid
       (offcpu_fallback_stash x prev_pid prev_state
         (switch_count x prev_pid prev_state (set_running x next_pid (attribute_cpu x s))))"

definition record_wakeup :: "kctx \<Rightarrow> u32 \<Rightarrow> kern \<Rightarrow> kern" where
  "record_wakeup x pid s =
     (if \<not> deep_mode s \<or> \<not> tid_is_target pid s then s
      else s\<lparr>kx_wakeup_ts := upd_noexist 4096 pid (kc_now x) (kx_wakeup_ts s)\<rparr>)"

definition on_wakeup :: "kctx \<Rightarrow> u32 \<Rightarrow> kern \<Rightarrow> kern" where
  [simp]: "on_wakeup x pid s = record_wakeup x pid s"

definition on_wakeup_new :: "kctx \<Rightarrow> u32 \<Rightarrow> kern \<Rightarrow> kern" where
  [simp]: "on_wakeup_new x pid s = record_wakeup x pid s"

definition offcpu_schedule :: "kctx \<Rightarrow> kern \<Rightarrow> kern" where
  "offcpu_schedule x s =
     (if \<not> deep_mode s then s
      else let tid = cur_thread x in
        if \<not> tid_is_target tid s then s
        else let now = kc_now x;
                 seen = map_of (kx_offcpu_last_ts s) tid;
                 rate = kx_offcpu_rate s;
                 elapsed = (case seen of None \<Rightarrow> 0 | Some l \<Rightarrow> since now l)
             in if seen = None \<or> rate = 0 \<or> seen = Some 0 \<or> elapsed * ucast rate \<ge> 1000000000
                then let ksid = kc_kernel_stack x;
                         st = \<lparr>os_out_ts = now, os_ksid = (if ksid \<ge> 0 then of_int ksid else 0),
                               os_stack_available = (if ksid \<ge> 0 then 1 else 0)\<rparr>
                     in s\<lparr>kx_offcpu_stash := upd_any 4096 tid st (kx_offcpu_stash s),
                          kx_offcpu_last_ts := upd_any 4096 tid now (kx_offcpu_last_ts s)\<rparr>
                else s)"

definition on_process_exit :: "u32 \<Rightarrow> kern \<Rightarrow> kern" where
  "on_process_exit tid s =
     s\<lparr>kx_wakeup_ts := alist_del tid (kx_wakeup_ts s),
       kx_offcpu_stash := alist_del tid (kx_offcpu_stash s),
       kx_offcpu_last_ts := alist_del tid (kx_offcpu_last_ts s),
       kx_sys_start := alist_del tid (kx_sys_start s),
       kx_io_start := alist_del tid (kx_io_start s),
       kx_connect_start := alist_del tid (kx_connect_start s)\<rparr>"

section \<open>Block requests\<close>

text \<open>What the programs read of a request.\<close>

record request =
  rq_ptr :: u64
  rq_major :: u32
  rq_first_minor :: u32
  rq_cmd_flags :: u32

definition on_rq_insert :: "kctx \<Rightarrow> request \<Rightarrow> kern \<Rightarrow> kern" where
  "on_rq_insert x rq s =
     s\<lparr>kx_blk_req := upd_any 65536 (rq_ptr rq)
         \<lparr>rq_insert_ts = kc_now x, rq_issue_ts = j_issue_ts (kc_junk x),
          rq_dev = or (push_bit 20 (rq_major rq)) (rq_first_minor rq),
          rq_pid = cur_thread x, rq_rw = and (rq_cmd_flags rq) 0xff\<rparr> (kx_blk_req s)\<rparr>"

definition on_rq_issue :: "kctx \<Rightarrow> u64 \<Rightarrow> kern \<Rightarrow> kern" where
  "on_rq_issue x rq s = s\<lparr>kx_blk_req := through (rq_issue_ts_update (\<lambda>_. kc_now x)) rq (kx_blk_req s)\<rparr>"

definition add_io :: "u32 \<Rightarrow> u64 \<Rightarrow> BlockIoVal \<Rightarrow> BlockIoVal" where
  "add_io nr_bytes lat v = v\<lparr>bi_ops := bi_ops v + 1, bi_bytes := bi_bytes v + ucast nr_bytes,
     bi_lat_sum := bi_lat_sum v + lat, bi_hist := add_hist13 (bi_hist v) lat\<rparr>"

definition on_rq_complete :: "kctx \<Rightarrow> u64 \<Rightarrow> u32 \<Rightarrow> kern \<Rightarrow> kern" where
  "on_rq_complete x rq nr_bytes s =
     (case map_of (kx_blk_req s) rq of
        None \<Rightarrow> s
      | Some e \<Rightarrow>
          let now = kc_now x;
              lat = (if rq_issue_ts e \<noteq> 0 \<and> now > rq_issue_ts e then now - rq_issue_ts e else 0)
          in s\<lparr>kx_block_io := on_cpu (kc_cpu x) (add_io nr_bytes lat) (rq_pid e)
                                 (h_blk 4096 0 x (rq_pid e) (kx_block_io s)),
               kx_dev_io := on_cpu (kc_cpu x) (add_io nr_bytes lat) (rq_dev e)
                               (h_blk 256 1 x (rq_dev e) (kx_dev_io s)),
               kx_blk_req := alist_del rq (kx_blk_req s)\<rparr>)"

section \<open>Page faults, reclaim, killed processes\<close>

definition fault_ret :: "kctx \<Rightarrow> u64 \<Rightarrow> kern \<Rightarrow> kern" where
  "fault_ret x ret s =
     (let tid = cur_thread x in
      if \<not> tid_is_target tid s then s
      else s\<lparr>kx_faults := on_cpu (kc_cpu x)
                (\<lambda>f. if and ret 4 \<noteq> 0 then f\<lparr>fv_major := fv_major f + 1\<rparr> else f\<lparr>fv_minor := fv_minor f + 1\<rparr>)
                tid (h_flt 0 x tid (kx_faults s))\<rparr>)"

definition on_kswapd_wake :: "kern \<Rightarrow> kern" where
  "on_kswapd_wake s = s\<lparr>kx_mem_events := (kx_mem_events s)\<lparr>me_kswapd_active := 1\<rparr>\<rparr>"

definition on_kswapd_sleep :: "kern \<Rightarrow> kern" where
  "on_kswapd_sleep s = s\<lparr>kx_mem_events := (kx_mem_events s)\<lparr>me_kswapd_active := 0\<rparr>\<rparr>"

definition on_direct_reclaim_begin :: "kern \<Rightarrow> kern" where
  "on_direct_reclaim_begin s =
     s\<lparr>kx_mem_events := (kx_mem_events s)\<lparr>me_direct_reclaim := me_direct_reclaim (kx_mem_events s) + 1\<rparr>\<rparr>"

definition on_direct_reclaim_end :: "u64 \<Rightarrow> kern \<Rightarrow> kern" where
  "on_direct_reclaim_end nr_reclaimed s =
     s\<lparr>kx_mem_events := (kx_mem_events s)\<lparr>me_nr_reclaimed := me_nr_reclaimed (kx_mem_events s) + nr_reclaimed\<rparr>\<rparr>"

definition on_mark_victim :: "kctx \<Rightarrow> u32 \<Rightarrow> kern \<Rightarrow> kern" where
  "on_mark_victim x pid s =
     (let seq = kx_oom_seq s; ix = and seq 63
      in s\<lparr>kx_oom_seq := seq + 1,
           kx_oom_events := (kx_oom_events s)(ix := \<lparr>oe_ts = kc_now x, oe_pid = pid\<rparr>)\<rparr>)"

section \<open>Contended locks\<close>

definition on_contention_begin :: "kctx \<Rightarrow> u64 \<Rightarrow> u32 \<Rightarrow> kern \<Rightarrow> kern" where
  "on_contention_begin x lock flags s =
     s\<lparr>kx_lock_wait := upd_any 4096 (cur_thread x) \<lparr>lw_lock_addr = lock, lw_ts = kc_now x, lw_flags = flags\<rparr>
                         (kx_lock_wait s)\<rparr>"

definition add_hot :: "u64 \<Rightarrow> LockHotVal \<Rightarrow> LockHotVal" where
  "add_hot wait v = v\<lparr>lh_count := lh_count v + 1, lh_lat_sum := lh_lat_sum v + wait\<rparr>"

definition end_wait :: "kctx \<Rightarrow> u64 \<Rightarrow> lock_wait_t \<Rightarrow> kern \<Rightarrow> kern" where
  "end_wait x addr w s =
     (let tid = cur_thread x; wait = since (kc_now x) (lw_ts w)
      in s\<lparr>kx_lock_st := on_cpu (kc_cpu x) (add_lat wait) tid (h_lat 4096 0 x tid (kx_lock_st s)),
           kx_lock_hot := through (add_hot wait) addr (h_lock x addr (kx_lock_hot s)),
           kx_lock_wait := alist_del tid (kx_lock_wait s)\<rparr>)"

definition on_contention_end :: "kctx \<Rightarrow> u64 \<Rightarrow> kern \<Rightarrow> kern" where
  "on_contention_end x lock s =
     (case map_of (kx_lock_wait s) (cur_thread x) of None \<Rightarrow> s | Some w \<Rightarrow> end_wait x lock w s)"

text \<open>The variant for kernels without the tracepoints.\<close>

definition mutex_lock_slow :: "kctx \<Rightarrow> u64 \<Rightarrow> kern \<Rightarrow> kern" where
  "mutex_lock_slow x lock s =
     s\<lparr>kx_lock_wait := upd_any 4096 (cur_thread x) \<lparr>lw_lock_addr = lock, lw_ts = kc_now x, lw_flags = 0\<rparr>
                         (kx_lock_wait s)\<rparr>"

definition mutex_lock_slow_ret :: "kctx \<Rightarrow> kern \<Rightarrow> kern" where
  "mutex_lock_slow_ret x s =
     (case map_of (kx_lock_wait s) (cur_thread x) of None \<Rightarrow> s | Some w \<Rightarrow> end_wait x (lw_lock_addr w) w s)"

end
