(* ===== verification/KernDeep.thy ===== *)
theory KernDeep
  imports KernBase
begin

text \<open>
  The programs of the deep mode that watch system calls (\<^verbatim>\<open>bpf/etrace_x86.bpf.c\<close>, with the
  accounting in \<^verbatim>\<open>bpf/etrace_common.h\<close>), sample the running thread, and measure reads and writes
  of files.
\<close>

section \<open>System calls\<close>

definition add_sys :: "u64 \<times> int \<Rightarrow> SysLatVal \<Rightarrow> SysLatVal" where
  "add_sys d v = v\<lparr>sl_count := sl_count v + 1, sl_lat_sum := sl_lat_sum v + fst d, sl_hist := add_hist64 (sl_hist v) (fst d),
     sl_error_count := sl_error_count v + (if snd d < 0 then 1 else 0)\<rparr>"

definition syslat_account :: "kctx \<Rightarrow> u32 \<Rightarrow> u32 \<Rightarrow> bool \<Rightarrow> u64 \<Rightarrow> int \<Rightarrow> kern \<Rightarrow> kern" where
  "syslat_account x tid nr futex_wait lat ret s =
     (if futex_wait
      then s\<lparr>kx_futex_st := on_cpu (kc_cpu x) (add_lat lat) tid (h_lat 4096 0 x tid (kx_futex_st s))\<rparr>
      else let k = \<lparr>sk_tid = tid, sk_id = nr\<rparr>
           in s\<lparr>kx_sys_lat := on_cpu (kc_cpu x)
                  (add_sys (lat, ret)) k
                  (h_sys x k (kx_sys_lat s)),
                kx_sys_st := on_cpu (kc_cpu x) (add_lat lat) tid (h_lat 4096 0 x tid (kx_sys_st s))\<rparr>)"

text \<open>A futex call waits when its command, without the two flag bits, is one of the wait commands.\<close>

definition futex_waits :: "u64 \<Rightarrow> u64 \<Rightarrow> bool" where
  "futex_waits nr arg1 \<longleftrightarrow> nr = 202 \<and> (let cmd = and arg1 (not 384) in cmd = 0 \<or> cmd = 9)"

definition start_call :: "kctx \<Rightarrow> u64 \<Rightarrow> u64 \<Rightarrow> kern \<Rightarrow> kern" where
  "start_call x nr arg1 s =
     s\<lparr>kx_sys_start := upd_any 4096 (cur_thread x)
         \<lparr>ss_id = ucast nr, ss_ts = kc_now x, ss_futex_wait = futex_waits nr arg1\<rparr> (kx_sys_start s)\<rparr>"

definition end_call :: "kctx \<Rightarrow> int \<Rightarrow> kern \<Rightarrow> kern" where
  "end_call x ret s =
     (let tid = cur_thread x in
      case map_of (kx_sys_start s) tid of
        None \<Rightarrow> s
      | Some st \<Rightarrow>
          let s1 = syslat_account x tid (ss_id st) (ss_futex_wait st) (kc_now x - ss_ts st) ret s
          in s1\<lparr>kx_sys_start := alist_del tid (kx_sys_start s1)\<rparr>)"

definition fentry_sys :: "kctx \<Rightarrow> u64 \<Rightarrow> u64 \<Rightarrow> kern \<Rightarrow> kern" where
  "fentry_sys x orig_ax si s =
     (if \<not> deep_mode s then s
      else if \<not> tid_is_target (cur_thread x) s then s
      else start_call x orig_ax si s)"

definition fexit_sys :: "kctx \<Rightarrow> int \<Rightarrow> kern \<Rightarrow> kern" where
  "fexit_sys x ax s =
     (if \<not> deep_mode s then s
      else if \<not> tid_is_target (cur_thread x) s then s
      else end_call x ax s)"

text \<open>The fallback on the tracepoints does not ask for the deep mode.\<close>

definition on_sys_enter :: "kctx \<Rightarrow> int \<Rightarrow> u64 \<Rightarrow> kern \<Rightarrow> kern" where
  "on_sys_enter x nr si s =
     (if nr < 0 then s
      else if \<not> tid_is_target (cur_thread x) s then s
      else start_call x (of_int nr) si s)"

definition on_sys_exit :: "kctx \<Rightarrow> int \<Rightarrow> kern \<Rightarrow> kern" where
  "on_sys_exit x ret s = (if \<not> tid_is_target (cur_thread x) s then s else end_call x ret s)"

section \<open>The profile of running threads\<close>

definition sid :: "int \<Rightarrow> u32" where
  "sid n = (if n < 0 then 0 else of_int n)"

definition oncpu :: "kctx \<Rightarrow> kern \<Rightarrow> kern" where
  "oncpu x s =
     (if \<not> tid_is_target (cur_thread x) s then s
      else let k = \<lparr>ok_pid = cur_process x, ok_tid = cur_thread x,
                    ok_user_sid = sid (kc_user_stack x), ok_kernel_sid = sid (kc_kernel_stack x)\<rparr>
           in s\<lparr>kx_oncpu_count := through (\<lambda>c. c + 1) k (h_u64_shared 16384 k (kx_oncpu_count s))\<rparr>)"

section \<open>Reads and writes of files\<close>

text \<open>What the programs read of a file; no path when \<^verbatim>\<open>bpf_d_path\<close> fails.\<close>

record vfile =
  fl_dev :: u32
  fl_ino :: u64
  fl_path :: "string option"

text \<open>
  A string written over a buffer of 256 bytes: the bytes after its terminator stay what they were.
\<close>

definition put_str :: "string \<Rightarrow> string \<Rightarrow> string" where
  "put_str t buf = take 255 t @ [CHR 0x00] @ drop (Suc (length (take 255 t))) buf"

definition c_str :: "string \<Rightarrow> string" where
  "c_str buf = takeWhile (\<lambda>c. c \<noteq> CHR 0x00) buf"

definition iofile_sampled :: "kctx \<Rightarrow> kern \<Rightarrow> bool" where
  "iofile_sampled x s \<longleftrightarrow> kx_iofile_thresh s \<noteq> 0 \<and> kc_random x \<le> kx_iofile_thresh s"

definition start_io :: "kctx \<Rightarrow> vfile \<Rightarrow> string \<Rightarrow> kern \<Rightarrow> kern" where
  "start_io x f path s =
     (if \<not> deep_mode s then s
      else if \<not> tid_is_target (cur_thread x) s then s
      else if \<not> iofile_sampled x s then s
      else s\<lparr>kx_io_start := upd_any 4096 (cur_thread x)
               \<lparr>iv_dev = fl_dev f, iv_ino = fl_ino f, iv_path = put_str path (j_path (kc_junk x)), iv_ts = kc_now x\<rparr>
               (kx_io_start s)\<rparr>)"

definition iofile_enter :: "kctx \<Rightarrow> vfile \<Rightarrow> kern \<Rightarrow> kern" where
  "iofile_enter x f s = start_io x f (case fl_path f of None \<Rightarrow> [] | Some p \<Rightarrow> p) s"

definition iofile_enter_kprobe :: "kctx \<Rightarrow> vfile \<Rightarrow> kern \<Rightarrow> kern" where
  "iofile_enter_kprobe x f s = start_io x f [] s"

definition add_iof :: "int \<Rightarrow> u64 \<Rightarrow> IoFileVal \<Rightarrow> IoFileVal" where
  "add_iof ret lat v =
     (let v1 = (if ret > 0 then v\<lparr>fw_bytes := fw_bytes v + of_int ret, fw_ops := fw_ops v + 1\<rparr>
                else v\<lparr>fw_errors := fw_errors v + 1\<rparr>)
      in v1\<lparr>fw_lat_sum := fw_lat_sum v1 + lat, fw_hist := add_hist13 (fw_hist v1) lat\<rparr>)"

definition iofile_exit :: "kctx \<Rightarrow> int \<Rightarrow> kern \<Rightarrow> kern" where
  "iofile_exit x ret s =
     (if \<not> deep_mode s then s
      else let tid = cur_thread x in
        if \<not> tid_is_target tid s then s
        else case map_of (kx_io_start s) tid of
            None \<Rightarrow> s
          | Some st \<Rightarrow>
              let k = \<lparr>fk_dev = iv_dev st, fk_ino = iv_ino st,
                       fk_path = put_str (c_str (iv_path st)) (j_path (kc_junk x))\<rparr>
              in s\<lparr>kx_io_file := on_cpu (kc_cpu x) (add_iof ret (since (kc_now x) (iv_ts st))) k
                                   (h_iof x k (kx_io_file s)),
                   kx_io_start := alist_del tid (kx_io_start s)\<rparr>)"

text \<open>The programs behind the hooks: the tracing pair, and the probes of older kernels.\<close>

definition fentry_vfs_read :: "kctx \<Rightarrow> vfile \<Rightarrow> kern \<Rightarrow> kern" where
  [simp]: "fentry_vfs_read x f s = iofile_enter x f s"

definition fexit_vfs_read :: "kctx \<Rightarrow> int \<Rightarrow> kern \<Rightarrow> kern" where
  [simp]: "fexit_vfs_read x ret s = iofile_exit x ret s"

definition fentry_vfs_write :: "kctx \<Rightarrow> vfile \<Rightarrow> kern \<Rightarrow> kern" where
  [simp]: "fentry_vfs_write x f s = iofile_enter x f s"

definition fexit_vfs_write :: "kctx \<Rightarrow> int \<Rightarrow> kern \<Rightarrow> kern" where
  [simp]: "fexit_vfs_write x ret s = iofile_exit x ret s"

definition kprobe_vfs_read :: "kctx \<Rightarrow> vfile \<Rightarrow> kern \<Rightarrow> kern" where
  [simp]: "kprobe_vfs_read x f s = iofile_enter_kprobe x f s"

definition kretprobe_vfs_read :: "kctx \<Rightarrow> int \<Rightarrow> kern \<Rightarrow> kern" where
  [simp]: "kretprobe_vfs_read x ret s = iofile_exit x ret s"

definition kprobe_vfs_write :: "kctx \<Rightarrow> vfile \<Rightarrow> kern \<Rightarrow> kern" where
  [simp]: "kprobe_vfs_write x f s = iofile_enter_kprobe x f s"

definition kretprobe_vfs_write :: "kctx \<Rightarrow> int \<Rightarrow> kern \<Rightarrow> kern" where
  [simp]: "kretprobe_vfs_write x ret s = iofile_exit x ret s"

end
