(* ===== verification/KernNet.thy ===== *)
theory KernNet
  imports KernDeep
begin

text \<open>
  The network programs of the deep mode (\<^verbatim>\<open>bpf/etrace_common.h\<close>): ownership of sockets by the
  threads that connect or accept, flows, retransmissions and resets, dropped packets, the time in
  soft interrupts, sampled round-trip times.
\<close>

text \<open>
  What the programs read of a socket: its address, the cookie the helper returns (0 if none), the
  fields of the tuple, and of a TCP socket the next sequence number, the copied one and the smoothed
  round-trip time.
\<close>

record sock =
  sx_ptr :: u64
  sx_cookie :: u64
  sx_family :: u32
  sx_num :: u32
  sx_dport :: u32
  sx_v4_local :: u32
  sx_v4_remote :: u32
  sx_v6_local :: "u32 list"
  sx_v6_remote :: "u32 list"
  sx_netns :: u64
  sx_wmem_queued :: u64
  sx_tcp :: "(u64 \<times> u64 \<times> u64) option"

definition sock_cookie :: "sock \<Rightarrow> u64" where
  "sock_cookie sk = (if sx_cookie sk \<noteq> 0 then sx_cookie sk else sx_ptr sk)"

definition fill_tuple :: "sock \<Rightarrow> SockOwnerVal \<Rightarrow> SockOwnerVal" where
  "fill_tuple sk q =
     (let q1 = q\<lparr>so_family := sx_family sk, so_local_port := sx_num sk, so_remote_port := sx_dport sk\<rparr>;
          q2 = (if sx_family sk = 10
                then q1\<lparr>so_local_addr := sx_v6_local sk, so_remote_addr := sx_v6_remote sk\<rparr>
                else q1\<lparr>so_local_addr := (so_local_addr q1)[0 := sx_v4_local sk],
                        so_remote_addr := (so_remote_addr q1)[0 := sx_v4_remote sk]\<rparr>)
      in q2\<lparr>so_netns_ino := sx_netns sk\<rparr>)"

text \<open>The bytes queued to send, and those received and not yet read.\<close>

definition flow_bytes :: "sock \<Rightarrow> u64 \<times> u64" where
  "flow_bytes sk =
     (sx_wmem_queued sk,
      case sx_tcp sk of None \<Rightarrow> 0 | Some (nxt, cpy, _) \<Rightarrow> if nxt \<ge> cpy then nxt - cpy else 0)"

definition with_bytes :: "sock \<Rightarrow> SockOwnerVal \<Rightarrow> SockOwnerVal" where
  "with_bytes sk q = q\<lparr>so_tx_bytes := fst (flow_bytes sk), so_rx_bytes := snd (flow_bytes sk)\<rparr>"

definition put_owner :: "kctx \<Rightarrow> u64 \<Rightarrow> SockOwnerVal \<Rightarrow> kern \<Rightarrow> kern" where
  "put_owner x cookie q s = s\<lparr>kx_sock_owner := upd_lru 16384 (kc_victim x) cookie q (kx_sock_owner s)\<rparr>"

definition put_flow :: "kctx \<Rightarrow> u64 \<Rightarrow> SockOwnerVal \<Rightarrow> kern \<Rightarrow> kern" where
  "put_flow x cookie q s = s\<lparr>kx_net_flow := upd_lru 16384 (kc_victim x) cookie q (kx_net_flow s)\<rparr>"

text \<open>A flow that ends leaves the owners.\<close>

definition close_flow :: "kctx \<Rightarrow> u64 \<Rightarrow> SockOwnerVal \<Rightarrow> kern \<Rightarrow> kern" where
  "close_flow x cookie q s =
     (let s1 = put_flow x cookie q s in s1\<lparr>kx_sock_owner := alist_del cookie (kx_sock_owner s1)\<rparr>)"

definition new_owner :: "kctx \<Rightarrow> sock \<Rightarrow> SockOwnerVal" where
  "new_owner x sk =
     (fill_tuple sk ((j_owner (kc_junk x))\<lparr>so_tgid := drop_bit 32 (kc_pid_tgid x), so_tid := cur_thread x\<rparr>))
       \<lparr>so_start_ts := kc_now x\<rparr>"

definition tcp_connect_enter :: "kctx \<Rightarrow> sock \<Rightarrow> kern \<Rightarrow> kern" where
  "tcp_connect_enter x sk s =
     (if \<not> deep_mode s then s
      else if \<not> tid_is_target (cur_thread x) s then s
      else let cookie = sock_cookie sk in
        if cookie = 0 then s
        else (put_owner x cookie (new_owner x sk) s)\<lparr>kx_connect_start :=
               upd_any 4096 (cur_thread x) \<lparr>cs_cookie = cookie, cs_ts = kc_now x\<rparr> (kx_connect_start s)\<rparr>)"

definition kprobe_tcp_v4_connect :: "kctx \<Rightarrow> sock \<Rightarrow> kern \<Rightarrow> kern" where
  [simp]: "kprobe_tcp_v4_connect x sk s = tcp_connect_enter x sk s"

definition kprobe_tcp_v6_connect :: "kctx \<Rightarrow> sock \<Rightarrow> kern \<Rightarrow> kern" where
  [simp]: "kprobe_tcp_v6_connect x sk s = tcp_connect_enter x sk s"

definition kretprobe_tcp_v4_connect :: "kctx \<Rightarrow> int \<Rightarrow> kern \<Rightarrow> kern" where
  "kretprobe_tcp_v4_connect x ret s =
     (if \<not> deep_mode s then s
      else let tid = cur_thread x in
        if \<not> tid_is_target tid s then s
        else case map_of (kx_connect_start s) tid of
            None \<Rightarrow> s
          | Some cs \<Rightarrow>
              let cookie = cs_cookie cs;
                  s1 = (if ret = 0
                        then s\<lparr>kx_sock_owner := through (so_established_ts_update (\<lambda>_. kc_now x)) cookie (kx_sock_owner s)\<rparr>
                        else case map_of (kx_sock_owner s) cookie of
                            None \<Rightarrow> s
                          | Some q \<Rightarrow> close_flow x cookie (q\<lparr>so_rst_reason := of_int (- ret)\<rparr>) s)
              in s1\<lparr>kx_connect_start := alist_del tid (kx_connect_start s1)\<rparr>)"

definition kretprobe_tcp_v6_connect :: "kctx \<Rightarrow> int \<Rightarrow> kern \<Rightarrow> kern" where
  "kretprobe_tcp_v6_connect x ret s = kretprobe_tcp_v4_connect x ret s"

text \<open>
  The return value of the probed function is declared as an integer: the address of the accepted
  socket keeps its low half, sign-extended. \<open>mem\<close> is what the program reads at an address.
\<close>

definition kretprobe_inet_csk_accept :: "kctx \<Rightarrow> (u64 \<Rightarrow> sock) \<Rightarrow> u64 \<Rightarrow> kern \<Rightarrow> kern" where
  "kretprobe_inet_csk_accept x mem ret s =
     (if \<not> deep_mode s then s
      else if \<not> tid_is_target (cur_thread x) s then s
      else let sk = scast (ucast ret :: u32) :: u64 in
        if sk = 0 then s
        else let cookie = sock_cookie ((mem sk)\<lparr>sx_ptr := sk\<rparr>) in
          if cookie = 0 then s
          else put_owner x cookie ((new_owner x (mem sk))\<lparr>so_established_ts := kc_now x\<rparr>) s)"

definition net_sock_state :: "kctx \<Rightarrow> sock \<Rightarrow> int \<Rightarrow> kern \<Rightarrow> kern" where
  "net_sock_state x sk newstate s =
     (if sx_ptr sk = 0 then s
      else if \<not> deep_mode s then s
      else if newstate = 2 \<or> newstate = 1 then s
      else let cookie = sx_cookie sk in
        if cookie = 0 then s
        else if newstate = 7
        then (case map_of (kx_sock_owner s) cookie of
                Some q \<Rightarrow> close_flow x cookie (with_bytes sk q) s
              | None \<Rightarrow> put_flow x cookie
                  (with_bytes sk ((j_owner (kc_junk x))\<lparr>so_netns_ino := sx_netns sk, so_family := sx_family sk\<rparr>)) s)
        else s)"

definition net_tcp_retransmit :: "sock \<Rightarrow> kern \<Rightarrow> kern" where
  "net_tcp_retransmit sk s =
     (if sx_ptr sk = 0 then s
      else if \<not> deep_mode s then s
      else if sx_cookie sk = 0 then s
      else s\<lparr>kx_sock_owner := through (\<lambda>q. q\<lparr>so_retrans := so_retrans q + 1\<rparr>) (sx_cookie sk) (kx_sock_owner s)\<rparr>)"

definition net_tcp_send_reset :: "kctx \<Rightarrow> sock \<Rightarrow> kern \<Rightarrow> kern" where
  "net_tcp_send_reset x sk s =
     (if sx_ptr sk = 0 then s
      else if \<not> deep_mode s then s
      else if sx_cookie sk = 0 then s
      else case map_of (kx_sock_owner s) (sx_cookie sk) of
          None \<Rightarrow> s
        | Some q \<Rightarrow> close_flow x (sx_cookie sk) (with_bytes sk (q\<lparr>so_rst_reason := 1\<rparr>)) s)"

text \<open>Dropped packets: interface and name space come from the device, if the packet has one.\<close>

definition net_kfree_skb :: "kctx \<Rightarrow> (u32 \<times> u64) option \<Rightarrow> u32 \<Rightarrow> kern \<Rightarrow> kern" where
  "net_kfree_skb x dev protocol s =
     (if \<not> deep_mode s then s
      else if kx_net_rate s = 0 then s
      else let now = kc_now x; l = kx_drop_last_ts s (kc_cpu x) in
        if l \<noteq> 0 \<and> since now l * ucast (kx_net_rate s) < 1000000000 then s
        else let k = \<lparr>nd_netns_ino = (case dev of Some (_, netns) \<Rightarrow> netns | None \<Rightarrow> j_netns (kc_junk x)),
                      nd_ifindex = (case dev of Some (ifindex, _) \<Rightarrow> ifindex | None \<Rightarrow> 0), nd_reason_id = protocol\<rparr>
             in s\<lparr>kx_drop_last_ts := (kx_drop_last_ts s)(kc_cpu x := now),
                  kx_net_drop := on_cpu (kc_cpu x) (\<lambda>c. c + 1) k (h_u64 4096 x k (kx_net_drop s))\<rparr>)"

definition net_softirq_entry :: "kctx \<Rightarrow> u32 \<Rightarrow> kern \<Rightarrow> kern" where
  "net_softirq_entry x vec_nr s =
     (if \<not> deep_mode s then s
      else if vec_nr \<noteq> 3 \<and> vec_nr \<noteq> 2 then s
      else s\<lparr>kx_softirq_enter_ts := (kx_softirq_enter_ts s)(kc_cpu x := kc_now x)\<rparr>)"

definition net_softirq_exit :: "kctx \<Rightarrow> u32 \<Rightarrow> kern \<Rightarrow> kern" where
  "net_softirq_exit x vec_nr s =
     (if \<not> deep_mode s then s
      else if vec_nr \<noteq> 3 \<and> vec_nr \<noteq> 2 then s
      else let t = kx_softirq_enter_ts s (kc_cpu x) in
        if t = 0 then s
        else let k = \<lparr>nk_cpu_idx = kc_cpu x, nk_vector = vec_nr\<rparr>
             in s\<lparr>kx_softirq_enter_ts := (kx_softirq_enter_ts s)(kc_cpu x := 0),
                  kx_net_softirq := on_cpu (kc_cpu x) (add_lat (since (kc_now x) t)) k (h_lat 1024 0 x k (kx_net_softirq s))\<rparr>)"

definition kprobe_tcp_rcv_established :: "kctx \<Rightarrow> sock \<Rightarrow> kern \<Rightarrow> kern" where
  "kprobe_tcp_rcv_established x sk s =
     (if \<not> deep_mode s then s
      else let cookie = sx_cookie sk in
        if cookie = 0 then s
        else if map_of (kx_sock_owner s) cookie = None then s
        else let rate = kx_net_rate s; now = kc_now x in
          if rate = 0 then s
          else if (case map_of (kx_rtt_last s) cookie of
                     None \<Rightarrow> False | Some l \<Rightarrow> since now l * ucast rate < 1000000000) then s
          else case sx_tcp sk of
              None \<Rightarrow> s
            | Some (_, _, srtt) \<Rightarrow>
                s\<lparr>kx_sock_owner := through (\<lambda>q. q\<lparr>so_rtt_count := so_rtt_count q + 1,
                                                so_rtt_sum_us := so_rtt_sum_us q + drop_bit 3 srtt\<rparr>)
                                       cookie (kx_sock_owner s),
                  kx_rtt_last := upd_any 16384 cookie now (kx_rtt_last s)\<rparr>)"

end
