(* ===== verification/KernSnap.thy ===== *)
theory KernSnap
  imports KernNet
begin

text \<open>
  The two producers of the flight recorder (\<^verbatim>\<open>bpf/etrace_common.h\<close>): the timer that sums the
  counters of a target over the CPUs, and the sampler that records those of its own CPU. The walk
  over the targets is in the order of the entries of the map. The commit of a record is
  \<open>Recorder.rec_commit\<close>, in one step here and word by word in \<open>Seqlock\<close>.
\<close>

definition rec_ncpus :: "kern \<Rightarrow> u32" where
  "rec_ncpus s = kx_ncpus s"

definition rec_set_meta :: "kern \<Rightarrow> u32 \<Rightarrow> KernelSnapshotRec \<Rightarrow> KernelSnapshotRec" where
  "rec_set_meta s tid scr =
     (case map_of (kx_task_meta s) tid of
        None \<Rightarrow> scr\<lparr>kr_tid := tid, kr_tgid := 0\<rparr>
      | Some meta \<Rightarrow> scr\<lparr>kr_tid := tid, kr_tgid := tm_tgid meta, kr_comm := tm_comm meta\<rparr>)"

section \<open>The summing producer\<close>

definition if_found :: "('k, 'v) pmap \<Rightarrow> 'k \<Rightarrow> u32 \<Rightarrow> ('v \<Rightarrow> 'r \<Rightarrow> 'r) \<Rightarrow> 'r \<Rightarrow> 'r" where
  "if_found m k cpu f r = (case map_of m k of None \<Rightarrow> r | Some v \<Rightarrow> f (v cpu) r)"

definition sum_on_cpu :: "u64 \<Rightarrow> KernelSnapshotRec \<Rightarrow> KernelSnapshotRec" where
  "sum_on_cpu v r = r\<lparr>kr_on_cpu_ns := kr_on_cpu_ns r + v\<rparr>"

definition sum_switches :: "SwitchVal \<Rightarrow> KernelSnapshotRec \<Rightarrow> KernelSnapshotRec" where
  "sum_switches v r = r\<lparr>kr_nr_sw_vol := kr_nr_sw_vol r + sv_vol v, kr_nr_sw_invol := kr_nr_sw_invol r + sv_invol v\<rparr>"

definition sum_io :: "BlockIoVal \<Rightarrow> KernelSnapshotRec \<Rightarrow> KernelSnapshotRec" where
  "sum_io v r = r\<lparr>kr_io_ops := kr_io_ops r + bi_ops v, kr_io_bytes := kr_io_bytes r + bi_bytes v,
     kr_io_hist := add_hist (kr_io_hist r) (bi_hist v)\<rparr>"

definition sum_faults :: "FaultsVal \<Rightarrow> KernelSnapshotRec \<Rightarrow> KernelSnapshotRec" where
  "sum_faults v r = r\<lparr>kr_pf_minor := kr_pf_minor r + fv_minor v, kr_pf_major := kr_pf_major r + fv_major v\<rparr>"

definition sum_lock :: "LatStatVal13 \<Rightarrow> KernelSnapshotRec \<Rightarrow> KernelSnapshotRec" where
  "sum_lock v r = r\<lparr>kr_lock_waits := kr_lock_waits r + lv_count v, kr_lock_lat_ns := kr_lock_lat_ns r + lv_lat_sum v,
     kr_lock_hist := add_hist (kr_lock_hist r) (lv_hist v)\<rparr>"

definition sum_sys :: "LatStatVal13 \<Rightarrow> KernelSnapshotRec \<Rightarrow> KernelSnapshotRec" where
  "sum_sys v r = r\<lparr>kr_syscall_count := kr_syscall_count r + lv_count v, kr_syscall_lat_ns := kr_syscall_lat_ns r + lv_lat_sum v,
     kr_syscall_hist := add_hist (kr_syscall_hist r) (lv_hist v)\<rparr>"

definition sum_futex :: "LatStatVal13 \<Rightarrow> KernelSnapshotRec \<Rightarrow> KernelSnapshotRec" where
  "sum_futex v r = r\<lparr>kr_futex_waits := kr_futex_waits r + lv_count v, kr_futex_lat_ns := kr_futex_lat_ns r + lv_lat_sum v,
     kr_futex_hist := add_hist (kr_futex_hist r) (lv_hist v)\<rparr>"

definition sum_runq :: "LatStatVal13 \<Rightarrow> KernelSnapshotRec \<Rightarrow> KernelSnapshotRec" where
  "sum_runq v r = r\<lparr>kr_runq_wait_count := kr_runq_wait_count r + ucast (lv_count v), kr_runq_wait_ns := kr_runq_wait_ns r + lv_lat_sum v,
     kr_runq_hist := add_hist (kr_runq_hist r) (lv_hist v)\<rparr>"

definition snap_sum_cpu :: "kern \<Rightarrow> u32 \<Rightarrow> u32 \<Rightarrow> KernelSnapshotRec \<Rightarrow> KernelSnapshotRec" where
  "snap_sum_cpu s tid cpu r =
     if_found (kx_runq_st s) tid cpu sum_runq
      (if_found (kx_futex_st s) tid cpu sum_futex
       (if_found (kx_sys_st s) tid cpu sum_sys
        (if_found (kx_lock_st s) tid cpu sum_lock
         (if_found (kx_faults s) tid cpu sum_faults
          (if_found (kx_block_io s) tid cpu sum_io
           (if_found (kx_switches s) tid cpu sum_switches
            (if_found (kx_on_cpu_ns s) tid cpu sum_on_cpu r)))))))"

definition snap_record :: "kern \<Rightarrow> u32 \<Rightarrow> KernelSnapshotRec" where
  "snap_record s tid =
     rec_set_meta s tid
       (fold (snap_sum_cpu s tid) (map of_nat [0..<min (unat (rec_ncpus s)) 1024]) KernelSnapshotRec0)"

definition snap_collect_one :: "u64 \<Rightarrow> bool \<Rightarrow> u32 \<Rightarrow> kern \<Rightarrow> kern" where
  "snap_collect_one now deep tid s = s\<lparr>kx_ring := rec_commit (snap_record s tid) now deep (kx_ring s)\<rparr>"

definition snap_tick :: "kctx \<Rightarrow> kern \<Rightarrow> kern" where
  "snap_tick x s =
     (let s1 = fold (snap_collect_one (kc_now x) (deep_mode s)) (map fst (kx_targets s)) s
      in s1\<lparr>kx_timer := Some (ucast (kx_snapshot_cfg s1) * 1000000)\<rparr>)"

definition arm_snapshotter :: "kern \<Rightarrow> kern" where
  "arm_snapshotter s =
     (if kx_arm_cancel s \<noteq> 0 then s\<lparr>kx_timer := None\<rparr> else s\<lparr>kx_timer := Some (kx_arm_interval s)\<rparr>)"

section \<open>The sampling producer\<close>

text \<open>
  Each counter is created where it is missing, then copied. \<open>n\<close> is the position of the target in
  the walk: the calls of the helpers for one target follow those for the one before.
\<close>

definition h_all :: "kctx \<Rightarrow> nat \<Rightarrow> u32 \<Rightarrow> kern \<Rightarrow> kern" where
  "h_all x n tid s =
     s\<lparr>kx_on_cpu_ns := h_u64 4096 x tid (kx_on_cpu_ns s),
       kx_switches := h_sw n x tid (kx_switches s),
       kx_block_io := h_blk 4096 n x tid (kx_block_io s),
       kx_faults := h_flt n x tid (kx_faults s),
       kx_lock_st := h_lat 4096 (4 * n) x tid (kx_lock_st s),
       kx_sys_st := h_lat 4096 (4 * n + 1) x tid (kx_sys_st s),
       kx_futex_st := h_lat 4096 (4 * n + 2) x tid (kx_futex_st s),
       kx_runq_st := h_lat 4096 (4 * n + 3) x tid (kx_runq_st s)\<rparr>"

definition copy_on_cpu :: "u64 \<Rightarrow> KernelSnapshotRec \<Rightarrow> KernelSnapshotRec" where
  "copy_on_cpu v r = r\<lparr>kr_on_cpu_ns := v\<rparr>"

definition copy_switches :: "SwitchVal \<Rightarrow> KernelSnapshotRec \<Rightarrow> KernelSnapshotRec" where
  "copy_switches v r = r\<lparr>kr_nr_sw_vol := sv_vol v, kr_nr_sw_invol := sv_invol v\<rparr>"

definition copy_io :: "BlockIoVal \<Rightarrow> KernelSnapshotRec \<Rightarrow> KernelSnapshotRec" where
  "copy_io v r = r\<lparr>kr_io_ops := bi_ops v, kr_io_bytes := bi_bytes v, kr_io_hist := bi_hist v\<rparr>"

definition copy_faults :: "FaultsVal \<Rightarrow> KernelSnapshotRec \<Rightarrow> KernelSnapshotRec" where
  "copy_faults v r = r\<lparr>kr_pf_minor := fv_minor v, kr_pf_major := fv_major v\<rparr>"

definition copy_lock :: "LatStatVal13 \<Rightarrow> KernelSnapshotRec \<Rightarrow> KernelSnapshotRec" where
  "copy_lock v r = r\<lparr>kr_lock_waits := lv_count v, kr_lock_lat_ns := lv_lat_sum v, kr_lock_hist := lv_hist v\<rparr>"

definition copy_sys :: "LatStatVal13 \<Rightarrow> KernelSnapshotRec \<Rightarrow> KernelSnapshotRec" where
  "copy_sys v r = r\<lparr>kr_syscall_count := lv_count v, kr_syscall_lat_ns := lv_lat_sum v, kr_syscall_hist := lv_hist v\<rparr>"

definition copy_futex :: "LatStatVal13 \<Rightarrow> KernelSnapshotRec \<Rightarrow> KernelSnapshotRec" where
  "copy_futex v r = r\<lparr>kr_futex_waits := lv_count v, kr_futex_lat_ns := lv_lat_sum v, kr_futex_hist := lv_hist v\<rparr>"

definition copy_runq :: "LatStatVal13 \<Rightarrow> KernelSnapshotRec \<Rightarrow> KernelSnapshotRec" where
  "copy_runq v r = r\<lparr>kr_runq_wait_count := ucast (lv_count v), kr_runq_wait_ns := lv_lat_sum v, kr_runq_hist := lv_hist v\<rparr>"

definition copy_counters :: "kern \<Rightarrow> u32 \<Rightarrow> u32 \<Rightarrow> KernelSnapshotRec \<Rightarrow> KernelSnapshotRec" where
  "copy_counters s tid cpu r =
     if_found (kx_runq_st s) tid cpu copy_runq
      (if_found (kx_futex_st s) tid cpu copy_futex
       (if_found (kx_sys_st s) tid cpu copy_sys
        (if_found (kx_lock_st s) tid cpu copy_lock
         (if_found (kx_faults s) tid cpu copy_faults
          (if_found (kx_block_io s) tid cpu copy_io
           (if_found (kx_switches s) tid cpu copy_switches
            (if_found (kx_on_cpu_ns s) tid cpu copy_on_cpu r)))))))"

definition collect_tid_current_cpu :: "kctx \<Rightarrow> nat \<Rightarrow> u32 \<Rightarrow> kern \<Rightarrow> KernelSnapshotRec \<times> kern" where
  "collect_tid_current_cpu x n tid s =
     (let s1 = h_all x n tid s in (copy_counters s1 tid (kc_cpu x) KernelSnapshotRec0, s1))"

definition snap_collect_one_cpu :: "kctx \<Rightarrow> bool \<Rightarrow> nat \<times> u32 \<Rightarrow> kern \<Rightarrow> kern" where
  "snap_collect_one_cpu x deep nt s =
     (case collect_tid_current_cpu x (fst nt) (snd nt) s of (scr, s1) \<Rightarrow>
        s1\<lparr>kx_ring := rec_commit (rec_set_meta s1 (snd nt) scr) (kc_now x) deep (kx_ring s1)\<rparr>)"

definition snapshotter :: "kctx \<Rightarrow> kern \<Rightarrow> kern" where
  "snapshotter x s = fold (snap_collect_one_cpu x (deep_mode s)) (List.enumerate 0 (map fst (kx_targets s))) s"

section \<open>One run of any program\<close>

datatype kevent =
    OnSwitch u32 u32 u32
  | OnWakeup u32
  | OnWakeupNew u32
  | OffcpuSchedule
  | OnProcessExit u32
  | OnRqInsert request
  | OnRqIssue u64
  | OnRqComplete u64 u32
  | FaultRet u64
  | OnKswapdWake
  | OnKswapdSleep
  | OnDirectReclaimBegin
  | OnDirectReclaimEnd u64
  | OnMarkVictim u32
  | OnContentionBegin u64 u32
  | OnContentionEnd u64
  | MutexLockSlow u64
  | MutexLockSlowRet
  | FentrySys u64 u64
  | FexitSys int
  | OnSysEnter int u64
  | OnSysExit int
  | Oncpu
  | FentryVfsRead vfile
  | FexitVfsRead int
  | FentryVfsWrite vfile
  | FexitVfsWrite int
  | KprobeVfsRead vfile
  | KretprobeVfsRead int
  | KprobeVfsWrite vfile
  | KretprobeVfsWrite int
  | TcpV4Connect sock
  | TcpV6Connect sock
  | TcpV4ConnectRet int
  | TcpV6ConnectRet int
  | InetCskAcceptRet "u64 \<Rightarrow> sock" u64
  | NetSockState sock int
  | NetTcpRetransmit sock
  | NetTcpSendReset sock
  | NetKfreeSkb "(u32 \<times> u64) option" u32
  | NetSoftirqEntry u32
  | NetSoftirqExit u32
  | TcpRcvEstablished sock
  | SnapTick
  | ArmSnapshotter
  | Snapshotter

fun krun :: "kctx \<Rightarrow> kevent \<Rightarrow> kern \<Rightarrow> kern" where
  "krun x (OnSwitch p st n) s = on_switch x p st n s"
| "krun x (OnWakeup p) s = on_wakeup x p s"
| "krun x (OnWakeupNew p) s = on_wakeup_new x p s"
| "krun x OffcpuSchedule s = offcpu_schedule x s"
| "krun x (OnProcessExit p) s = on_process_exit p s"
| "krun x (OnRqInsert rq) s = on_rq_insert x rq s"
| "krun x (OnRqIssue rq) s = on_rq_issue x rq s"
| "krun x (OnRqComplete rq nb) s = on_rq_complete x rq nb s"
| "krun x (FaultRet ret) s = fault_ret x ret s"
| "krun x OnKswapdWake s = on_kswapd_wake s"
| "krun x OnKswapdSleep s = on_kswapd_sleep s"
| "krun x OnDirectReclaimBegin s = on_direct_reclaim_begin s"
| "krun x (OnDirectReclaimEnd n) s = on_direct_reclaim_end n s"
| "krun x (OnMarkVictim p) s = on_mark_victim x p s"
| "krun x (OnContentionBegin l f) s = on_contention_begin x l f s"
| "krun x (OnContentionEnd l) s = on_contention_end x l s"
| "krun x (MutexLockSlow l) s = mutex_lock_slow x l s"
| "krun x MutexLockSlowRet s = mutex_lock_slow_ret x s"
| "krun x (FentrySys nr a) s = fentry_sys x nr a s"
| "krun x (FexitSys r) s = fexit_sys x r s"
| "krun x (OnSysEnter nr a) s = on_sys_enter x nr a s"
| "krun x (OnSysExit r) s = on_sys_exit x r s"
| "krun x Oncpu s = oncpu x s"
| "krun x (FentryVfsRead f) s = fentry_vfs_read x f s"
| "krun x (FexitVfsRead r) s = fexit_vfs_read x r s"
| "krun x (FentryVfsWrite f) s = fentry_vfs_write x f s"
| "krun x (FexitVfsWrite r) s = fexit_vfs_write x r s"
| "krun x (KprobeVfsRead f) s = kprobe_vfs_read x f s"
| "krun x (KretprobeVfsRead r) s = kretprobe_vfs_read x r s"
| "krun x (KprobeVfsWrite f) s = kprobe_vfs_write x f s"
| "krun x (KretprobeVfsWrite r) s = kretprobe_vfs_write x r s"
| "krun x (TcpV4Connect sk) s = kprobe_tcp_v4_connect x sk s"
| "krun x (TcpV6Connect sk) s = kprobe_tcp_v6_connect x sk s"
| "krun x (TcpV4ConnectRet r) s = kretprobe_tcp_v4_connect x r s"
| "krun x (TcpV6ConnectRet r) s = kretprobe_tcp_v6_connect x r s"
| "krun x (InetCskAcceptRet mem r) s = kretprobe_inet_csk_accept x mem r s"
| "krun x (NetSockState sk st) s = net_sock_state x sk st s"
| "krun x (NetTcpRetransmit sk) s = net_tcp_retransmit sk s"
| "krun x (NetTcpSendReset sk) s = net_tcp_send_reset x sk s"
| "krun x (NetKfreeSkb dev p) s = net_kfree_skb x dev p s"
| "krun x (NetSoftirqEntry v) s = net_softirq_entry x v s"
| "krun x (NetSoftirqExit v) s = net_softirq_exit x v s"
| "krun x (TcpRcvEstablished sk) s = kprobe_tcp_rcv_established x sk s"
| "krun x SnapTick s = snap_tick x s"
| "krun x ArmSnapshotter s = arm_snapshotter s"
| "krun x Snapshotter s = snapshotter x s"

definition kruns :: "(kctx \<times> kevent) list \<Rightarrow> kern \<Rightarrow> kern" where
  "kruns es s = fold (\<lambda>(x, e). krun x e) es s"

text \<open>The maps as the kernel creates them: arrays zero, hash maps empty.\<close>

definition kern0 :: kern where
  "kern0 = \<lparr>kx_targets = [], kx_task_meta = [], kx_deep_enabled = 0, kx_ncpus = 0, kx_snapshot_cfg = 0,
     kx_offcpu_rate = 0, kx_iofile_thresh = 0, kx_net_rate = 0, kx_ring = ring0,
     kx_on_cpu_ns = [], kx_switches = [], kx_block_io = [], kx_faults = [], kx_lock_st = [], kx_dev_io = [],
     kx_mem_events = \<lparr>me_kswapd_active = 0, me_direct_reclaim = 0, me_nr_reclaimed = 0\<rparr>,
     kx_oom_events = (\<lambda>_. \<lparr>oe_ts = 0, oe_pid = 0\<rparr>), kx_oom_seq = 0,
     kx_last_run_ts = (\<lambda>_. 0), kx_cur_tid = (\<lambda>_. 0), kx_blk_req = [], kx_lock_wait = [], kx_lock_hot = [],
     kx_sys_st = [], kx_futex_st = [], kx_runq_st = [], kx_wakeup_ts = [], kx_offcpu_stash = [],
     kx_offcpu_time = [], kx_offcpu_stat = [], kx_offcpu_last_ts = [], kx_offcpu_fallback = 0,
     kx_sys_start = [], kx_sys_lat = [], kx_oncpu_count = [], kx_io_start = [], kx_io_file = [],
     kx_sock_owner = [], kx_net_flow = [], kx_connect_start = [], kx_net_drop = [], kx_net_softirq = [],
     kx_rtt_last = [], kx_softirq_enter_ts = (\<lambda>_. 0), kx_drop_last_ts = (\<lambda>_. 0),
     kx_arm_interval = 0, kx_arm_cancel = 0, kx_timer = None\<rparr>"

end
