(* ===== verification/KernLib.thy ===== *)
theory KernLib
  imports KernSnap
begin

text \<open>
  The library of the kernel programs: lookups after each operation on a map, counters that only add
  up, values that keep an invariant, the bins of the histograms, and the parts of the state each
  program leaves alone.
\<close>

section \<open>Lookups\<close>

definition room :: "nat \<Rightarrow> 'k \<Rightarrow> ('k, 'v) hmap \<Rightarrow> bool" where
  "room cap k m \<longleftrightarrow> map_of m k \<noteq> None \<or> length m < cap"

lemma map_of_upd_any: "map_of (upd_any cap k v m) = (if room cap k m then (map_of m)(k \<mapsto> v) else map_of m)"
  by (auto simp: upd_any_def room_def)

lemma map_of_upd_noexist:
  "map_of (upd_noexist cap k v m) = (if map_of m k = None \<and> room cap k m then (map_of m)(k \<mapsto> v) else map_of m)"
  by (auto simp: upd_noexist_def room_def)

lemma map_of_through [simp]: "map_of (through f k m) = (map_of m)(k := map_option f (map_of m k))"
  by (auto simp: through_def split: option.splits)

lemma upd_noexist_keeps: "map_of m k = Some v \<Longrightarrow> map_of (upd_noexist cap k' v' m) k = Some v"
  by (auto simp: map_of_upd_noexist)

lemma room_keys:
  assumes "k \<in> fst ` set ts" and "fst ` set m \<subseteq> fst ` set ts" and "distinct (map fst m)" and "length ts \<le> cap"
  shows "room cap k m"
proof (cases "map_of m k")
  case None
  then have "k \<notin> fst ` set m" by (simp add: map_of_eq_None_iff)
  with assms have "fst ` set m \<subset> fst ` set ts" by blast
  then have "card (fst ` set m) < card (fst ` set ts)" by (rule psubset_card_mono [rotated]) simp
  also have "card (fst ` set m) = length m" using assms(3) by (metis distinct_card length_map list.set_map)
  also have "card (fst ` set ts) \<le> length ts" using card_length [of "map fst ts"] by simp
  finally show ?thesis using assms(4) by (simp add: room_def)
qed (simp add: room_def)

lemma percpu_val_on_cpu:
  "percpu_val zero (on_cpu cpu f k m) k' c =
     (if k' = k \<and> c = cpu \<and> map_of m k \<noteq> None then f (percpu_val zero m k c) else percpu_val zero m k' c)"
  by (auto simp: percpu_val_def on_cpu_def split: option.splits)

lemma percpu_val_new:
  "percpu_val zero (new_percpu cap cpu z zero k m) k' c =
     (if k' = k \<and> c = cpu \<and> map_of m k = None \<and> room cap k m then z else percpu_val zero m k' c)"
  by (auto simp: percpu_val_def new_percpu_def map_of_upd_noexist split: option.splits)

lemma new_percpu_found: "map_of (new_percpu cap cpu z zero k m) k \<noteq> None \<longleftrightarrow> room cap k m"
  by (auto simp: new_percpu_def map_of_upd_noexist room_def)

text \<open>The helper followed by the store.\<close>

lemma percpu_val_bump:
  assumes "room cap k m"
  shows "percpu_val zero (on_cpu cpu f k (new_percpu cap cpu zero zero k m)) k' c =
     (if k' = k \<and> c = cpu then f (percpu_val zero m k c) else percpu_val zero m k' c)"
  proof -
  have "map_of (new_percpu cap cpu zero zero k m) k \<noteq> None" using assms by (simp only: new_percpu_found)
  then show ?thesis by (auto simp: percpu_val_on_cpu percpu_val_new) (auto simp: percpu_val_def)
qed

section \<open>Counters that add up\<close>

text \<open>
  The contract of a per-CPU counter: what one update of a value adds to a reading of it. A counter
  that starts from zero then holds the sum of its updates.
\<close>

locale tally =
  fixes zero :: "'v" and add :: "'d \<Rightarrow> 'v \<Rightarrow> 'v" and reading :: "'v \<Rightarrow> 'n :: comm_monoid_add" and weight :: "'d \<Rightarrow> 'n"
  assumes reading_zero: "reading zero = 0"
    and reading_add: "reading (add d v) = reading v + weight d"
begin

lemma bump:
  assumes "room cap k m"
  shows "reading (percpu_val zero (on_cpu cpu (add d) k (new_percpu cap cpu zero zero k m)) k' c) =
    reading (percpu_val zero m k' c) + (if k' = k \<and> c = cpu then weight d else 0)"
  using assms by (simp add: percpu_val_bump reading_add)

lemma fold_add: "reading (fold add ds v) = reading v + sum_list (map weight ds)"
  by (induction ds arbitrary: v) (simp_all add: reading_add ac_simps)

lemma fold_zero: "reading (fold add ds zero) = sum_list (map weight ds)"
  by (simp add: fold_add reading_zero)

end

interpretation cpu_time: tally "0 :: u64" "\<lambda>d v. v + d" "\<lambda>v. v" "\<lambda>d. d"
  by unfold_locales simp_all

interpretation lat_count: tally LatStat0 add_lat lv_count "\<lambda>_. 1"
  by unfold_locales (simp_all add: LatStat0_def add_lat_def)

interpretation lat_time: tally LatStat0 add_lat lv_lat_sum "\<lambda>d. d"
  by unfold_locales (simp_all add: LatStat0_def add_lat_def)

interpretation io_ops: tally BlockIoVal0 "\<lambda>(n, d). add_io n d" bi_ops "\<lambda>_. 1"
  by unfold_locales (simp_all add: BlockIoVal0_def add_io_def split_beta)

interpretation io_bytes: tally BlockIoVal0 "\<lambda>(n, d). add_io n d" bi_bytes "\<lambda>(n, d). ucast n"
  by unfold_locales (simp_all add: BlockIoVal0_def add_io_def split_beta)

interpretation io_time: tally BlockIoVal0 "\<lambda>(n, d). add_io n d" bi_lat_sum "\<lambda>(n, d). d"
  by unfold_locales (simp_all add: BlockIoVal0_def add_io_def split_beta)

section \<open>Bins\<close>

lemma u64_bound: "unat (w :: u64) < 2 ^ 64"
  by (rule order.strict_trans2 [OF unsigned_less]) simp

lemma base4_loop_eq:
  assumes "4 ^ i \<le> unat v" and "unat v < 4 ^ Suc i" and "i \<le> n"
  shows "base4_loop n v b = b + of_nat i"
  using assms
proof (induction n arbitrary: v b i)
  case (Suc n)
  have q: "unat (drop_bit 2 v) = unat v div 4" by (simp add: drop_bit_eq_div unat_div_distrib)
  have lt: "v < 4 \<longleftrightarrow> unat v < 4" by (simp add: word_less_nat_alt)
  show ?case
  proof (cases i)
    case 0
    with Suc.prems lt show ?thesis by simp
  next
    case (Suc j)
    have "4 ^ j \<le> unat v div 4" "unat v div 4 < 4 ^ Suc j"
      using Suc.prems(1,2) unfolding Suc by (simp_all add: less_mult_imp_div_less ac_simps)
    moreover have "\<not> unat v < 4"
      using Suc.prems(1) unfolding Suc by (metis le_div_geq div_less gr_zeroI le_zero_eq \<open>4 ^ j \<le> unat v div 4\<close> zero_less_numeral zero_less_power not_less)
    ultimately show ?thesis using Suc.IH [of j "drop_bit 2 v" "b + 1"] Suc.prems(3)
      by (simp add: lt q Suc)
  qed
qed simp

lemma log2l_loop_eq:
  assumes "2 ^ i \<le> unat v" and "unat v < 2 ^ Suc i" and "i \<le> n"
  shows "log2l_loop n v b = b + of_nat i"
  using assms
proof (induction n arbitrary: v b i)
  case (Suc n)
  have q: "unat (drop_bit 1 v) = unat v div 2" by (simp add: drop_bit_eq_div unat_div_distrib del: One_nat_def)
  have lt: "v < 2 \<longleftrightarrow> unat v < 2" by (simp add: word_less_nat_alt)
  show ?case
  proof (cases i)
    case 0
    with Suc.prems lt show ?thesis by simp
  next
    case (Suc j)
    have "2 ^ j \<le> unat v div 2" "unat v div 2 < 2 ^ Suc j"
      using Suc.prems(1,2) unfolding Suc by (simp_all add: less_mult_imp_div_less ac_simps)
    moreover have "\<not> unat v < 2" using \<open>2 ^ j \<le> unat v div 2\<close> by (metis div_less le_zero_eq not_less power_eq_0_iff zero_neq_numeral less_numeral_extra(3) zero_less_power zero_less_numeral)
    ultimately show ?thesis using Suc.IH [of j "drop_bit 1 v" "b + 1"] Suc.prems(3)
      by (simp add: lt q Suc del: One_nat_def)
  qed
qed simp

text \<open>The lower edge of a bin of each histogram, and the bin of a value.\<close>

definition edge13 :: "nat \<Rightarrow> nat" where
  "edge13 i = (if i = 0 then 0 else 256 * 4 ^ i)"

definition edge64 :: "nat \<Rightarrow> nat" where
  "edge64 i = (if i = 0 then 0 else 2 ^ i)"

lemma base4_bin_edges:
  "unat (base4_bin ns) < 13 \<and> edge13 (unat (base4_bin ns)) \<le> unat ns \<and>
   (unat (base4_bin ns) < 12 \<longrightarrow> unat ns < edge13 (Suc (unat (base4_bin ns))))"
proof (cases "ns < 256")
  case True
  then show ?thesis by (simp add: base4_bin_def edge13_def word_less_nat_alt)
next
  case False
  then have n: "256 \<le> unat ns" by (simp add: word_less_nat_alt)
  have v: "unat (drop_bit 8 ns) = unat ns div 256" by (simp add: drop_bit_eq_div unat_div_distrib)
  have "1 \<le> unat ns div 256" using n by simp
  from ex_power_ivl1 [OF _ this, of 4] obtain i where
    i: "4 ^ i \<le> unat ns div 256" "unat ns div 256 < 4 ^ Suc i" by auto
  have "unat ns div 256 < 2 ^ 56" using u64_bound [of ns] by simp
  with i(1) have "(4 :: nat) ^ i < 4 ^ 28" by simp
  then have i28: "i < 28" by (simp only: power_strict_increasing_iff)
  then have b: "base4_loop 30 (drop_bit 8 ns) 0 = of_nat i" using base4_loop_eq [of i "drop_bit 8 ns" 30 0] i v by simp
  have u: "unat (of_nat i :: u32) = i" using i28 by (simp add: unat_of_nat)
  have bin: "unat (base4_bin ns) = min i 12"
    using False by (simp add: base4_bin_def b u word_less_nat_alt)
  have lo: "256 * 4 ^ i \<le> unat ns" using i(1) by (metis div_times_less_eq_dividend mult.commute mult_le_mono2 order_trans)
  have hi: "unat ns < 256 * 4 ^ Suc i" using i(2) by (simp add: div_less_iff_less_mult ac_simps)
  have "(4 :: nat) ^ min i 12 \<le> 4 ^ i" by (rule power_increasing) simp_all
  with lo have "256 * 4 ^ min i 12 \<le> unat ns" by linarith
  with hi show ?thesis unfolding bin by (auto simp: edge13_def min_def)
qed

lemma log2l_bin_edges:
  "unat (log2l_bin v) < 64 \<and> edge64 (unat (log2l_bin v)) \<le> unat v \<and> unat v < edge64 (Suc (unat (log2l_bin v)))"
proof (cases "v < 2")
  case True
  then show ?thesis by (simp add: log2l_bin_def edge64_def word_less_nat_alt)
next
  case False
  then have n: "1 \<le> unat v" by (simp add: word_less_nat_alt)
  from ex_power_ivl1 [OF _ this, of 2] obtain i where i: "2 ^ i \<le> unat v" "unat v < 2 ^ Suc i" by auto
  have "(2 :: nat) ^ i < 2 ^ 64" using i(1) u64_bound [of v] by simp
  then have i64: "i < 64" by (simp only: power_strict_increasing_iff)
  then have b: "log2l_loop 63 v 0 = of_nat i" using log2l_loop_eq [of i v 63 0] i by simp
  have u: "unat (of_nat i :: u32) = i" using i64 by (simp add: unat_of_nat)
  have "unat (log2l_bin v) = i"
    using False i64 by (simp add: log2l_bin_def b u word_less_nat_alt)
  with i i64 show ?thesis by (auto simp: edge64_def)
qed

section \<open>Values that keep an invariant\<close>

definition all_percpu :: "('v \<Rightarrow> bool) \<Rightarrow> ('k, 'v) pmap \<Rightarrow> bool" where
  "all_percpu P m \<longleftrightarrow> distinct (map fst m) \<and> (\<forall>v \<in> snd ` set m. \<forall>c. P (v c))"

lemma all_percpu_Nil [simp]: "all_percpu P []"
  by (simp add: all_percpu_def)

lemma set_alist_put_subset: "set (alist_put k v m) \<subseteq> insert (k, v) (set m)"
  by (induction m) (auto split: if_splits)

lemma all_percpu_put: "all_percpu P m \<Longrightarrow> \<forall>c. P (v c) \<Longrightarrow> all_percpu P (alist_put k v m)"
  using set_alist_put_subset [of k v m] by (fastforce simp: all_percpu_def distinct_alist_put)

lemma all_percpu_val: "all_percpu P m \<Longrightarrow> P zero \<Longrightarrow> P (percpu_val zero m k c)"
  by (force simp: all_percpu_def percpu_val_def split: option.splits dest: map_of_SomeD)

text \<open>
  The contract of a per-CPU statistic: its zero satisfies the invariant and an update keeps it. Then
  so does every entry of its map, whatever the order of the updates.
\<close>

locale statistic =
  fixes zero :: "'v" and add :: "'d \<Rightarrow> 'v \<Rightarrow> 'v" and good :: "'v \<Rightarrow> bool"
  assumes good_zero: "good zero"
    and good_add: "good v \<Longrightarrow> good (add d v)"
begin

lemma new: "all_percpu good m \<Longrightarrow> all_percpu good (new_percpu cap cpu zero zero k m)"
  by (simp add: new_percpu_def upd_noexist_def all_percpu_put good_zero)

lemma bump: "all_percpu good m \<Longrightarrow> all_percpu good (on_cpu cpu (add d) k (new_percpu cap cpu zero zero k m))"
proof -
  assume "all_percpu good m"
  then have m: "all_percpu good (new_percpu cap cpu zero zero k m)" (is "all_percpu good ?m") by (rule new)
  show ?thesis
  proof (cases "map_of ?m k")
    case (Some v)
    then have "\<forall>c. good (v c)" using m by (force simp: all_percpu_def dest: map_of_SomeD)
    then show ?thesis using m Some by (simp add: on_cpu_def through_def all_percpu_put good_add)
  qed (simp add: on_cpu_def through_def m)
qed

end

end
