(* ===== verification/KernInv.thy ===== *)
theory KernInv
  imports KernLib
begin

text \<open>
  The invariant of the statistics of the kernel: every histogram has its bins and they add up to the
  number of events the statistic counts; it holds in every state the programs and the collector's own
  writes to the maps can reach, provided the structs the helpers insert are zero.
\<close>

section \<open>Good values\<close>

definition hist_ok :: "nat \<Rightarrow> u32 list \<Rightarrow> u32 \<Rightarrow> bool" where
  "hist_ok n h c \<longleftrightarrow> length h = n \<and> sum_list h = c"

definition lat_ok :: "LatStatVal13 \<Rightarrow> bool" where
  "lat_ok v \<longleftrightarrow> hist_ok 13 (lv_hist v) (ucast (lv_count v))"

definition io_ok :: "BlockIoVal \<Rightarrow> bool" where
  "io_ok v \<longleftrightarrow> hist_ok 13 (bi_hist v) (ucast (bi_ops v))"

definition sys_ok :: "SysLatVal \<Rightarrow> bool" where
  "sys_ok v \<longleftrightarrow> hist_ok 64 (sl_hist v) (ucast (sl_count v))"

definition iof_ok :: "IoFileVal \<Rightarrow> bool" where
  "iof_ok v \<longleftrightarrow> hist_ok 13 (fw_hist v) (fw_ops v + ucast (fw_errors v))"

lemma hist_ok_zero [simp]: "hist_ok n (replicate n 0) 0"
  by (simp add: hist_ok_def sum_list_replicate)

lemma sum_list_bin_inc: "i < length h \<Longrightarrow> sum_list (bin_inc i h) = sum_list h + (1 :: u32)"
proof (induction h arbitrary: i)
  case (Cons a h)
  then show ?case by (cases i) (simp_all add: bin_inc_def ac_simps)
qed simp

lemma hist_ok_add13: "hist_ok 13 h c \<Longrightarrow> hist_ok 13 (add_hist13 h d) (c + 1)"
  using base4_bin_edges [of d] by (simp add: hist_ok_def add_hist13_def sum_list_bin_inc) (simp add: bin_inc_def)

lemma hist_ok_add64: "hist_ok 64 h c \<Longrightarrow> hist_ok 64 (add_hist64 h d) (c + 1)"
  using log2l_bin_edges [of d] by (simp add: hist_ok_def add_hist64_def sum_list_bin_inc) (simp add: bin_inc_def)

lemma ucast_plus_1: "(ucast (c + 1 :: u64) :: u32) = ucast c + 1"
proof -
  have "unat (ucast (c + 1 :: u64) :: u32) = unat (ucast c + 1 :: u32)"
    by (simp add: unsigned_ucast_eq take_bit_eq_mod unat_word_ariths mod_mod_cancel mod_Suc_eq)
  then show ?thesis by (simp only: word_unat_eq_iff)
qed

lemma ucast_1_plus: "(ucast (1 + c :: u64) :: u32) = ucast c + 1"
  using ucast_plus_1 [of c] by (simp add: add.commute)

interpretation lat: statistic LatStat0 add_lat lat_ok
  by unfold_locales (simp_all add: lat_ok_def LatStat0_def add_lat_def hist_ok_add13 ucast_plus_1)

interpretation io: statistic BlockIoVal0 "\<lambda>(n, d). add_io n d" io_ok
  by unfold_locales
    (simp_all add: io_ok_def BlockIoVal0_def add_io_def hist_ok_add13 ucast_plus_1 split_beta)

interpretation sys: statistic SysLatVal0 add_sys sys_ok
  by unfold_locales
    (simp_all add: sys_ok_def SysLatVal0_def add_sys_def hist_ok_add64 ucast_plus_1)

interpretation iof: statistic IoFileVal0 "\<lambda>(ret, d). add_iof ret d" iof_ok
proof unfold_locales
  show "iof_ok IoFileVal0" by (simp add: iof_ok_def IoFileVal0_def)
  show "iof_ok ((case d of (ret, t) \<Rightarrow> add_iof ret t) v)" if "iof_ok v" for v d
    using hist_ok_add13 [of "fw_hist v" "fw_ops v + ucast (fw_errors v)" "snd d"] that
    by (auto simp: iof_ok_def add_iof_def Let_def ucast_plus_1 ac_simps ucast_1_plus split: prod.splits)
qed

section \<open>The invariant\<close>

text \<open>The structs a run of a program inserts are zero.\<close>

definition zeroed :: "kctx \<Rightarrow> bool" where
  "zeroed x \<longleftrightarrow> (\<forall>n. j_sw (kc_junk x) n = SwitchVal0 \<and> j_blk (kc_junk x) n = BlockIoVal0 \<and>
     j_flt (kc_junk x) n = FaultsVal0 \<and> j_lat (kc_junk x) n = LatStat0) \<and>
     j_sys (kc_junk x) = SysLatVal0 \<and> j_iof (kc_junk x) = IoFileVal0 \<and>
     j_lock (kc_junk x) = \<lparr>lh_count = 0, lh_lat_sum = 0\<rparr>"

definition kern_ok :: "kern \<Rightarrow> bool" where
  "kern_ok s \<longleftrightarrow>
     all_percpu io_ok (kx_block_io s) \<and> all_percpu io_ok (kx_dev_io s) \<and> all_percpu lat_ok (kx_lock_st s) \<and>
     all_percpu lat_ok (kx_sys_st s) \<and> all_percpu lat_ok (kx_futex_st s) \<and> all_percpu lat_ok (kx_runq_st s) \<and>
     all_percpu lat_ok (kx_offcpu_stat s) \<and> all_percpu sys_ok (kx_sys_lat s) \<and>
     all_percpu iof_ok (kx_io_file s) \<and> all_percpu lat_ok (kx_net_softirq s)"

lemma h_lat_zero: "zeroed x \<Longrightarrow> h_lat cap n x k m = new_percpu cap (kc_cpu x) LatStat0 LatStat0 k m"
  by (simp add: h_lat_def zeroed_def)

lemma h_blk_zero: "zeroed x \<Longrightarrow> h_blk cap n x k m = new_percpu cap (kc_cpu x) BlockIoVal0 BlockIoVal0 k m"
  by (simp add: h_blk_def zeroed_def)

lemma h_sys_zero: "zeroed x \<Longrightarrow> h_sys x k m = new_percpu 16384 (kc_cpu x) SysLatVal0 SysLatVal0 k m"
  by (simp add: h_sys_def zeroed_def)

lemma h_iof_zero: "zeroed x \<Longrightarrow> h_iof x k m = new_percpu 16384 (kc_cpu x) IoFileVal0 IoFileVal0 k m"
  by (simp add: h_iof_def zeroed_def)

lemmas h_zero = h_lat_zero h_blk_zero h_sys_zero h_iof_zero

lemma io_bump: "all_percpu io_ok m \<Longrightarrow> all_percpu io_ok (on_cpu c (add_io n d) k (new_percpu cap c BlockIoVal0 BlockIoVal0 k m))"
  using io.bump [of m c "(n, d)" k cap] by simp

lemma iof_bump: "all_percpu iof_ok m \<Longrightarrow> all_percpu iof_ok (on_cpu c (add_iof r d) k (new_percpu cap c IoFileVal0 IoFileVal0 k m))"
  using iof.bump [of m c "(r, d)" k cap] by simp

lemmas bumps = lat.bump lat.new io_bump io.new sys.bump iof_bump

text \<open>The other fields do not matter.\<close>

lemma kern_ok_other [simp]:
  "kern_ok (kx_targets_update f1 s) = kern_ok s"
  "kern_ok (kx_task_meta_update f2 s) = kern_ok s"
  "kern_ok (kx_deep_enabled_update f3 s) = kern_ok s"
  "kern_ok (kx_ncpus_update f4 s) = kern_ok s"
  "kern_ok (kx_snapshot_cfg_update f5 s) = kern_ok s"
  "kern_ok (kx_offcpu_rate_update f6 s) = kern_ok s"
  "kern_ok (kx_iofile_thresh_update f7 s) = kern_ok s"
  "kern_ok (kx_net_rate_update f8 s) = kern_ok s"
  "kern_ok (kx_ring_update f9 s) = kern_ok s"
  "kern_ok (kx_on_cpu_ns_update f10 s) = kern_ok s"
  "kern_ok (kx_switches_update f11 s) = kern_ok s"
  "kern_ok (kx_faults_update f12 s) = kern_ok s"
  "kern_ok (kx_mem_events_update f13 s) = kern_ok s"
  "kern_ok (kx_oom_events_update f14 s) = kern_ok s"
  "kern_ok (kx_oom_seq_update f15 s) = kern_ok s"
  "kern_ok (kx_last_run_ts_update f16 s) = kern_ok s"
  "kern_ok (kx_cur_tid_update f17 s) = kern_ok s"
  "kern_ok (kx_blk_req_update f18 s) = kern_ok s"
  "kern_ok (kx_lock_wait_update f19 s) = kern_ok s"
  "kern_ok (kx_lock_hot_update f20 s) = kern_ok s"
  "kern_ok (kx_wakeup_ts_update f21 s) = kern_ok s"
  "kern_ok (kx_offcpu_stash_update f22 s) = kern_ok s"
  "kern_ok (kx_offcpu_time_update f23 s) = kern_ok s"
  "kern_ok (kx_offcpu_last_ts_update f24 s) = kern_ok s"
  "kern_ok (kx_offcpu_fallback_update f25 s) = kern_ok s"
  "kern_ok (kx_sys_start_update f26 s) = kern_ok s"
  "kern_ok (kx_oncpu_count_update f27 s) = kern_ok s"
  "kern_ok (kx_io_start_update f28 s) = kern_ok s"
  "kern_ok (kx_sock_owner_update f29 s) = kern_ok s"
  "kern_ok (kx_net_flow_update f30 s) = kern_ok s"
  "kern_ok (kx_connect_start_update f31 s) = kern_ok s"
  "kern_ok (kx_net_drop_update f32 s) = kern_ok s"
  "kern_ok (kx_rtt_last_update f33 s) = kern_ok s"
  "kern_ok (kx_softirq_enter_ts_update f34 s) = kern_ok s"
  "kern_ok (kx_drop_last_ts_update f35 s) = kern_ok s"
  "kern_ok (kx_arm_interval_update f36 s) = kern_ok s"
  "kern_ok (kx_arm_cancel_update f37 s) = kern_ok s"
  "kern_ok (kx_timer_update f38 s) = kern_ok s"
  by (simp_all add: kern_ok_def)

lemma kern_ok_switch:
  assumes "kern_ok s" and "zeroed x"
  shows "kern_ok (on_switch x p st n s)"
proof -
  have 1: "kern_ok (attribute_cpu x s)" using assms(1) by (auto simp: attribute_cpu_def Let_def kern_ok_def)
  then have 2: "kern_ok (switch_count x p st (set_running x n (attribute_cpu x s)))" (is "kern_ok ?s2")
    by (simp add: switch_count_def set_running_def kern_ok_def)
  then have 3: "kern_ok (offcpu_fallback_stash x p st ?s2)" (is "kern_ok ?s3")
    by (simp add: offcpu_fallback_stash_def kern_ok_def Let_def split: option.splits)
  then have 4: "kern_ok (complete_offcpu x n ?s3)" (is "kern_ok ?s4")
    by (simp add: complete_offcpu_def kern_ok_def Let_def h_zero [OF assms(2)] bumps split: option.splits)
  then have "kern_ok (complete_wakeup x n ?s4)"
    by (simp add: complete_wakeup_def kern_ok_def Let_def h_zero [OF assms(2)] bumps split: option.splits)
  with 3 show ?thesis by (simp add: on_switch_def switch_in_def)
qed

lemma kern_ok_call:
  assumes "kern_ok s" and "zeroed x"
  shows "kern_ok (end_call x ret s)"
  using assms(1)
  by (simp add: end_call_def syslat_account_def kern_ok_def Let_def h_zero [OF assms(2)] bumps split: option.splits)

lemma kern_ok_wait:
  assumes "kern_ok s" and "zeroed x"
  shows "kern_ok (end_wait x a w s)"
  using assms(1) by (simp add: end_wait_def kern_ok_def Let_def h_zero [OF assms(2)] bumps)

lemma kern_ok_fold: "(\<And>a s. kern_ok s \<Longrightarrow> kern_ok (f a s)) \<Longrightarrow> kern_ok s \<Longrightarrow> kern_ok (fold f as s)"
  by (induction as arbitrary: s) simp_all

lemma kern_ok_sample:
  assumes "kern_ok s" and "zeroed x"
  shows "kern_ok (snap_collect_one_cpu x d nt s)"
  using assms(1)
  by (simp add: snap_collect_one_cpu_def collect_tid_current_cpu_def h_all_def kern_ok_def Let_def h_zero [OF assms(2)] bumps)

lemma kern_ok_io:
  assumes "kern_ok s" and "zeroed x"
  shows "kern_ok (on_rq_complete x rq n s)" and "kern_ok (iofile_exit x r s)"
  using assms(1)
  by (simp_all add: on_rq_complete_def iofile_exit_def kern_ok_def Let_def h_zero [OF assms(2)] bumps split: option.splits)

lemma kern_ok_softirq:
  assumes "kern_ok s" and "zeroed x"
  shows "kern_ok (net_softirq_exit x v s)"
  using assms(1) by (simp add: net_softirq_exit_def kern_ok_def Let_def h_zero [OF assms(2)] bumps)

lemmas plain_programs =
  record_wakeup_def offcpu_schedule_def on_process_exit_def on_rq_insert_def on_rq_issue_def
  fault_ret_def on_kswapd_wake_def on_kswapd_sleep_def on_direct_reclaim_begin_def on_direct_reclaim_end_def
  on_mark_victim_def on_contention_begin_def on_contention_end_def mutex_lock_slow_def mutex_lock_slow_ret_def
  fentry_sys_def fexit_sys_def on_sys_enter_def on_sys_exit_def start_call_def oncpu_def
  iofile_enter_def iofile_enter_kprobe_def start_io_def arm_snapshotter_def

lemmas network_programs =
  tcp_connect_enter_def kretprobe_tcp_v4_connect_def kretprobe_tcp_v6_connect_def kretprobe_inet_csk_accept_def
  net_sock_state_def net_tcp_retransmit_def net_tcp_send_reset_def net_kfree_skb_def net_softirq_entry_def
  kprobe_tcp_rcv_established_def put_owner_def put_flow_def close_flow_def

lemma kern_ok_run:
  assumes "kern_ok s" and "zeroed x"
  shows "kern_ok (krun x e s)"
proof (cases e)
  case SnapTick
  have "kern_ok (snap_collect_one n d t v) = kern_ok v" for n d t v by (simp add: snap_collect_one_def)
  then show ?thesis using assms(1) SnapTick by (simp add: snap_tick_def Let_def kern_ok_fold)
next
  case Snapshotter
  then show ?thesis using assms kern_ok_sample [OF _ assms(2)] by (simp add: snapshotter_def kern_ok_fold)
qed (use assms in \<open>simp_all add: kern_ok_switch kern_ok_call kern_ok_wait kern_ok_io kern_ok_softirq
    plain_programs network_programs Let_def split: option.splits prod.splits\<close>)

end
