(* ===== verification/KernHost.thy ===== *)
theory KernHost
  imports KernInv Ebpf
begin

text \<open>
  What the collector itself writes to the maps of the kernel
  (\<^verbatim>\<open>src/collect/ebpf_manager.cpp\<close>, \<^verbatim>\<open>src/collect/deep_collector.cpp\<close>), seen from the side of
  the maps, and the states that programs and collector reach together. The same calls, seen from the
  side of the collector, are in \<open>Ebpf\<close> and \<open>Deep\<close>.
\<close>

definition host_AddTarget :: "u32 \<Rightarrow> u32 \<Rightarrow> TaskMetaVal \<Rightarrow> kern \<Rightarrow> kern" where
  "host_AddTarget tid flags meta s =
     (if room 4096 tid (kx_targets s)
      then s\<lparr>kx_targets := upd_any 4096 tid flags (kx_targets s), kx_task_meta := upd_any 4096 tid meta (kx_task_meta s)\<rparr>
      else s)"

definition host_RemoveTarget :: "u32 \<Rightarrow> kern \<Rightarrow> kern" where
  "host_RemoveTarget tid s =
     s\<lparr>kx_targets := alist_del tid (kx_targets s), kx_task_meta := alist_del tid (kx_task_meta s)\<rparr>"

text \<open>The key of the map of sockets has 64 bits; \<open>upper\<close> is what lies behind the thread in memory.\<close>

definition host_ResetTidCounters :: "u32 \<Rightarrow> u32 \<Rightarrow> kern \<Rightarrow> kern" where
  "host_ResetTidCounters tid upper s =
     s\<lparr>kx_on_cpu_ns := alist_del tid (kx_on_cpu_ns s), kx_switches := alist_del tid (kx_switches s),
       kx_block_io := alist_del tid (kx_block_io s), kx_faults := alist_del tid (kx_faults s),
       kx_lock_st := alist_del tid (kx_lock_st s), kx_sys_st := alist_del tid (kx_sys_st s),
       kx_futex_st := alist_del tid (kx_futex_st s), kx_runq_st := alist_del tid (kx_runq_st s),
       kx_wakeup_ts := alist_del tid (kx_wakeup_ts s), kx_offcpu_stash := alist_del tid (kx_offcpu_stash s),
       kx_offcpu_last_ts := alist_del tid (kx_offcpu_last_ts s), kx_sys_start := alist_del tid (kx_sys_start s),
       kx_io_start := alist_del tid (kx_io_start s), kx_connect_start := alist_del tid (kx_connect_start s),
       kx_sock_owner := alist_del (or (push_bit 32 (ucast upper)) (ucast tid)) (kx_sock_owner s)\<rparr>"

text \<open>Emptying a map stops after 8192 entries.\<close>

definition host_Wipe :: "('k, 'v) hmap \<Rightarrow> ('k, 'v) hmap" where
  "host_Wipe m = drop 8192 m"

definition host_ResetEpisodeMaps :: "kern \<Rightarrow> kern" where
  "host_ResetEpisodeMaps s =
     s\<lparr>kx_sys_lat := host_Wipe (kx_sys_lat s), kx_sys_st := host_Wipe (kx_sys_st s),
       kx_futex_st := host_Wipe (kx_futex_st s), kx_runq_st := host_Wipe (kx_runq_st s),
       kx_oncpu_count := host_Wipe (kx_oncpu_count s), kx_offcpu_time := host_Wipe (kx_offcpu_time s),
       kx_offcpu_stat := host_Wipe (kx_offcpu_stat s), kx_io_file := host_Wipe (kx_io_file s),
       kx_io_start := host_Wipe (kx_io_start s), kx_dev_io := host_Wipe (kx_dev_io s),
       kx_wakeup_ts := host_Wipe (kx_wakeup_ts s), kx_offcpu_stash := host_Wipe (kx_offcpu_stash s),
       kx_offcpu_last_ts := host_Wipe (kx_offcpu_last_ts s), kx_sock_owner := host_Wipe (kx_sock_owner s),
       kx_connect_start := host_Wipe (kx_connect_start s), kx_net_flow := host_Wipe (kx_net_flow s),
       kx_net_drop := host_Wipe (kx_net_drop s), kx_net_softirq := host_Wipe (kx_net_softirq s),
       kx_rtt_last := host_Wipe (kx_rtt_last s)\<rparr>"

definition host_SetDeep :: "bool \<Rightarrow> kern \<Rightarrow> kern" where
  "host_SetDeep on s = s\<lparr>kx_deep_enabled := (if on then 1 else 0)\<rparr>"

definition host_WriteSnapshotCfg :: "u32 \<Rightarrow> kern \<Rightarrow> kern" where
  "host_WriteSnapshotCfg interval_ms s = s\<lparr>kx_snapshot_cfg := interval_ms\<rparr>"

definition host_WriteSampleRateCfg :: "u32 \<Rightarrow> u32 \<Rightarrow> u32 \<Rightarrow> kern \<Rightarrow> kern" where
  "host_WriteSampleRateCfg offcpu iofile net_rate s =
     s\<lparr>kx_offcpu_rate := offcpu, kx_iofile_thresh := (if iofile \<noteq> 0 then 0xFFFFFFFF div iofile else 0), kx_net_rate := net_rate\<rparr>"

definition host_ArmTimer :: "u64 \<Rightarrow> bool \<Rightarrow> kern \<Rightarrow> kern" where
  "host_ArmTimer interval_ms cancel s =
     arm_snapshotter (s\<lparr>kx_arm_interval := interval_ms * 1000000, kx_arm_cancel := (if cancel then 1 else 0)\<rparr>)"

definition host_WriteNcpus :: "int \<Rightarrow> kern \<Rightarrow> kern" where
  "host_WriteNcpus n s = s\<lparr>kx_ncpus := of_int (if n > 0 then n else 1)\<rparr>"

definition host_offcpu_fallback :: "u32 \<Rightarrow> kern \<Rightarrow> kern" where
  "host_offcpu_fallback v s = s\<lparr>kx_offcpu_fallback := v\<rparr>"

lemmas host_writes =
  host_AddTarget_def host_RemoveTarget_def host_SetDeep_def host_WriteSnapshotCfg_def host_WriteSampleRateCfg_def
  host_ArmTimer_def host_WriteNcpus_def host_offcpu_fallback_def

section \<open>Reachable states\<close>

text \<open>Any interleaving of program runs, whose fresh structs are zero, and of writes of the collector.\<close>

inductive kern_reach :: "kern \<Rightarrow> bool" where
  start: "kern_reach kern0"
| run: "kern_reach s \<Longrightarrow> zeroed x \<Longrightarrow> kern_reach (krun x e s)"
| add_target: "kern_reach s \<Longrightarrow> kern_reach (host_AddTarget tid flags meta s)"
| remove_target: "kern_reach s \<Longrightarrow> kern_reach (host_RemoveTarget tid s)"
| reset_tid: "kern_reach s \<Longrightarrow> kern_reach (host_ResetTidCounters tid upper s)"
| reset_episode: "kern_reach s \<Longrightarrow> kern_reach (host_ResetEpisodeMaps s)"
| set_deep: "kern_reach s \<Longrightarrow> kern_reach (host_SetDeep on s)"
| interval: "kern_reach s \<Longrightarrow> kern_reach (host_WriteSnapshotCfg ms s)"
| rates: "kern_reach s \<Longrightarrow> kern_reach (host_WriteSampleRateCfg a b c s)"
| arm: "kern_reach s \<Longrightarrow> kern_reach (host_ArmTimer ms cancel s)"
| cpus: "kern_reach s \<Longrightarrow> kern_reach (host_WriteNcpus n s)"
| fallback: "kern_reach s \<Longrightarrow> kern_reach (host_offcpu_fallback v s)"

lemma all_percpu_del: "all_percpu P m \<Longrightarrow> all_percpu P (alist_del k m)"
  using distinct_alist_del [of m k] by (auto simp: all_percpu_def alist_del_def)

lemma all_percpu_wipe: "all_percpu P m \<Longrightarrow> all_percpu P (host_Wipe m)"
  by (auto simp: all_percpu_def host_Wipe_def drop_map [symmetric] dest: in_set_dropD)

lemma reach_ok: "kern_reach s \<Longrightarrow> kern_ok s"
proof (induction rule: kern_reach.induct)
  case start
  then show ?case by (simp add: kern_ok_def kern0_def)
next
  case run
  then show ?case by (simp add: kern_ok_run)
qed (simp_all add: host_writes arm_snapshotter_def,
     simp_all add: kern_ok_def host_ResetTidCounters_def host_ResetEpisodeMaps_def all_percpu_del all_percpu_wipe)

section \<open>Names\<close>

text \<open>The program behind each event, under the name the manager attaches.\<close>

fun prog_name :: "kevent \<Rightarrow> string" where
  "prog_name (OnSwitch p st n) = ''on_switch''"
| "prog_name (OnWakeup p) = ''on_wakeup''"
| "prog_name (OnWakeupNew p) = ''on_wakeup_new''"
| "prog_name OffcpuSchedule = ''offcpu_schedule''"
| "prog_name (OnProcessExit p) = ''on_process_exit''"
| "prog_name (OnRqInsert rq) = ''on_rq_insert''"
| "prog_name (OnRqIssue rq) = ''on_rq_issue''"
| "prog_name (OnRqComplete rq n) = ''on_rq_complete''"
| "prog_name (FaultRet r) = ''fault_ret''"
| "prog_name OnKswapdWake = ''on_kswapd_wake''"
| "prog_name OnKswapdSleep = ''on_kswapd_sleep''"
| "prog_name OnDirectReclaimBegin = ''on_direct_reclaim_begin''"
| "prog_name (OnDirectReclaimEnd n) = ''on_direct_reclaim_end''"
| "prog_name (OnMarkVictim p) = ''on_mark_victim''"
| "prog_name (OnContentionBegin l f) = ''on_contention_begin''"
| "prog_name (OnContentionEnd l) = ''on_contention_end''"
| "prog_name (MutexLockSlow l) = ''mutex_lock_slow''"
| "prog_name MutexLockSlowRet = ''mutex_lock_slow_ret''"
| "prog_name (FentrySys n a) = ''fentry_sys''"
| "prog_name (FexitSys r) = ''fexit_sys''"
| "prog_name (OnSysEnter n a) = ''on_sys_enter''"
| "prog_name (OnSysExit r) = ''on_sys_exit''"
| "prog_name Oncpu = ''oncpu''"
| "prog_name (FentryVfsRead f) = ''fentry_vfs_read''"
| "prog_name (FexitVfsRead r) = ''fexit_vfs_read''"
| "prog_name (FentryVfsWrite f) = ''fentry_vfs_write''"
| "prog_name (FexitVfsWrite r) = ''fexit_vfs_write''"
| "prog_name (KprobeVfsRead f) = ''kprobe_vfs_read''"
| "prog_name (KretprobeVfsRead r) = ''kretprobe_vfs_read''"
| "prog_name (KprobeVfsWrite f) = ''kprobe_vfs_write''"
| "prog_name (KretprobeVfsWrite r) = ''kretprobe_vfs_write''"
| "prog_name (TcpV4Connect sk) = ''kprobe_tcp_v4_connect''"
| "prog_name (TcpV6Connect sk) = ''kprobe_tcp_v6_connect''"
| "prog_name (TcpV4ConnectRet r) = ''kretprobe_tcp_v4_connect''"
| "prog_name (TcpV6ConnectRet r) = ''kretprobe_tcp_v6_connect''"
| "prog_name (InetCskAcceptRet mem r) = ''kretprobe_inet_csk_accept''"
| "prog_name (NetSockState sk st) = ''net_sock_state''"
| "prog_name (NetTcpRetransmit sk) = ''net_tcp_retransmit''"
| "prog_name (NetTcpSendReset sk) = ''net_tcp_send_reset''"
| "prog_name (NetKfreeSkb d p) = ''net_kfree_skb''"
| "prog_name (NetSoftirqEntry v) = ''net_softirq_entry''"
| "prog_name (NetSoftirqExit v) = ''net_softirq_exit''"
| "prog_name (TcpRcvEstablished sk) = ''kprobe_tcp_rcv_established''"
| "prog_name SnapTick = ''snap_tick''"
| "prog_name ArmSnapshotter = ''arm_snapshotter''"
| "prog_name Snapshotter = ''snapshotter''"

end
