(* ===== verification/KernProps.thy ===== *)
theory KernProps
  imports KernHost DeepProps
begin

text \<open>
  The properties of the kernel programs: histograms that agree with their counts, nothing deep in the
  base mode, the time on the processors, the wait in the run queue, the accounting of system calls,
  what an uninitialised struct does, and the percentiles the collector reads off the histograms.
\<close>

definition ctx0 :: kctx where
  "ctx0 = \<lparr>kc_now = 0, kc_cpu = 0, kc_pid_tgid = 0, kc_user_stack = 0, kc_kernel_stack = 0, kc_random = 0,
     kc_victim = hd,
     kc_junk = \<lparr>j_sw = \<lambda>_. SwitchVal0, j_blk = \<lambda>_. BlockIoVal0, j_flt = \<lambda>_. FaultsVal0, j_lat = \<lambda>_. LatStat0,
       j_sys = SysLatVal0, j_lock = \<lparr>lh_count = 0, lh_lat_sum = 0\<rparr>, j_iof = IoFileVal0, j_issue_ts = 0,
       j_owner = \<lparr>so_tgid = 0, so_tid = 0, so_netns_ino = 0, so_family = 0, so_local_addr = replicate 4 0,
         so_remote_addr = replicate 4 0, so_local_port = 0, so_remote_port = 0, so_start_ts = 0,
         so_established_ts = 0, so_tx_bytes = 0, so_rx_bytes = 0, so_retrans = 0, so_rst_reason = 0,
         so_rtt_count = 0, so_rtt_sum_us = 0\<rparr>, j_path = replicate 256 CHR 0x00, j_netns = 0\<rparr>\<rparr>"

lemma zeroed_ctx0 [simp]: "zeroed (ctx0\<lparr>kc_now := t, kc_cpu := c, kc_pid_tgid := p\<rparr>)" "zeroed (ctx0\<lparr>kc_now := t\<rparr>)"
  "zeroed (ctx0\<lparr>kc_now := t, kc_pid_tgid := p\<rparr>)" "zeroed ctx0"
  by (simp_all add: zeroed_def ctx0_def)

lemma kc_ctx0 [simp]:
  "kc_now ctx0 = 0" "kc_cpu ctx0 = 0" "kc_pid_tgid ctx0 = 0" "kc_random ctx0 = 0"
  by (simp_all add: ctx0_def)



text \<open>The programs of the deep mode that test it.\<close>

definition deep_gated :: "string list" where
  "deep_gated = [''offcpu_schedule'', ''fentry_sys'', ''fexit_sys'', ''fentry_vfs_read'', ''fexit_vfs_read'',
     ''fentry_vfs_write'', ''fexit_vfs_write'', ''kprobe_vfs_read'', ''kretprobe_vfs_read'', ''kprobe_vfs_write'',
     ''kretprobe_vfs_write'', ''kprobe_tcp_v4_connect'', ''kprobe_tcp_v6_connect'', ''kretprobe_tcp_v4_connect'', ''kretprobe_tcp_v6_connect'',
     ''kretprobe_inet_csk_accept'', ''net_sock_state'', ''net_tcp_retransmit'', ''net_tcp_send_reset'',
     ''net_kfree_skb'', ''net_softirq_entry'', ''net_softirq_exit'', ''kprobe_tcp_rcv_established'']"

text \<open>
  Claim C12: outside the deep mode the programs that are always attached write none of the maps of the
  deep mode, and the programs of the deep mode that test it change nothing at all.
\<close>

theorem base_mode_keeps_deep_maps:
  assumes "\<not> deep_mode s"
  shows "(prog_name e \<in> set (always_on env) \<longrightarrow> kern_base.more (krun x e s) = kern_base.more s) \<and>
    (prog_name e \<in> set deep_gated \<longrightarrow> krun x e s = s)"
proof (intro conjI impI)
  assume p: "prog_name e \<in> set (always_on env)"
  have sw: "kern_base.more (on_switch x p st n s) = kern_base.more s" for p st n
    using assms(1) by (auto simp: on_switch_def switch_in_def offcpu_fallback_stash_def switch_count_def set_running_def
        attribute_cpu_def deep_mode_def Let_def)
  show "kern_base.more (krun x e s) = kern_base.more s"
    using assms p by (cases e) (simp_all add: always_on_def sw record_wakeup_def on_rq_insert_def on_rq_issue_def
      on_rq_complete_def fault_ret_def on_kswapd_wake_def on_kswapd_sleep_def on_direct_reclaim_begin_def
      on_direct_reclaim_end_def on_mark_victim_def on_contention_begin_def on_contention_end_def end_wait_def
      mutex_lock_slow_def mutex_lock_slow_ret_def Let_def split: option.splits if_splits)
next
  assume "prog_name e \<in> set deep_gated"
  then show "krun x e s = s"
    using assms by (cases e) (simp_all add: deep_gated_def offcpu_schedule_def fentry_sys_def fexit_sys_def iofile_enter_def
      iofile_enter_kprobe_def start_io_def iofile_exit_def net_softirq_exit_def network_programs)
qed

theorem base_mode_keeps_deep_maps_witness:
  "let s = kern0\<lparr>kx_targets := [(7, 1)]\<rparr>; e = OnSwitch 7 1 9 in
   kern_base.more (krun ctx0 e s) = kern_base.more s \<and> krun ctx0 e s \<noteq> s"
proof -
  let ?s = "kern0\<lparr>kx_targets := [(7, 1)]\<rparr>" and ?e = "OnSwitch 7 1 9"
  have "\<not> deep_mode ?s" by (simp add: deep_mode_def kern0_def)
  from base_mode_keeps_deep_maps [OF this, of ?e bpf_env0 ctx0]
  have "kern_base.more (krun ctx0 ?e ?s) = kern_base.more ?s" by (simp add: always_on_def)
  moreover have "kx_cur_tid (krun ctx0 ?e ?s) 0 = 9"
    by (simp add: on_switch_def switch_in_def offcpu_fallback_stash_def switch_count_def set_running_def attribute_cpu_def
        deep_mode_def kern0_def Let_def)
  then have "krun ctx0 ?e ?s \<noteq> ?s" by (auto simp: kern0_def)
  ultimately show ?thesis by (simp only: Let_def) blast
qed

section \<open>Time on the processors\<close>

text \<open>
  The switches of one CPU as times with the thread that starts to run, and the time a thread runs
  according to them: the lengths of the intervals that begin with it.
\<close>

definition switches_on :: "u32 \<Rightarrow> (kctx \<times> kevent) list \<Rightarrow> (u64 \<times> u32) list" where
  "switches_on c es = concat (map (\<lambda>(x, e). case e of OnSwitch p st n \<Rightarrow> if kc_cpu x = c then [(kc_now x, n)] else []
                                          | _ \<Rightarrow> []) es)"

fun run_time :: "u32 \<Rightarrow> (u64 \<times> u32) list \<Rightarrow> u64" where
  "run_time t ((a, p) # (b, q) # sw) = (if p = t then b - a else 0) + run_time t ((b, q) # sw)"
| "run_time t [_] = 0"
| "run_time t [] = 0"

lemma run_time_snoc:
  "run_time t (sw @ [(b, q)]) = run_time t sw + (if sw \<noteq> [] \<and> snd (last sw) = t then b - fst (last sw) else 0)"
  by (induction t sw rule: run_time.induct) (auto simp: ac_simps)

definition cpu_part :: "kern \<Rightarrow> (u32, u32) hmap \<times> (u32, u64) pmap \<times> (u32 \<Rightarrow> u32) \<times> (u32 \<Rightarrow> u64)" where
  "cpu_part s = (kx_targets s, kx_on_cpu_ns s, kx_cur_tid s, kx_last_run_ts s)"

lemma cpu_part_other:
  assumes "\<forall>p st n. e \<noteq> OnSwitch p st n" and "e \<noteq> Snapshotter"
  shows "cpu_part (krun x e s) = cpu_part s"
proof (cases e)
  case SnapTick
  have "cpu_part (fold (snap_collect_one a d) ts s) = cpu_part s" for a d ts
    by (induction ts arbitrary: s) (simp_all add: cpu_part_def snap_collect_one_def)
  then show ?thesis using SnapTick by (simp add: snap_tick_def Let_def) (simp add: cpu_part_def)
qed (use assms in \<open>simp_all add: cpu_part_def plain_programs network_programs iofile_exit_def net_softirq_exit_def
      on_rq_complete_def end_wait_def end_call_def syslat_account_def Let_def split: option.splits prod.splits\<close>)

text \<open>Every counter belongs to a target, so there is room for those of all targets.\<close>

definition cpu_room :: "kern \<Rightarrow> bool" where
  "cpu_room s \<longleftrightarrow> length (kx_targets s) \<le> 4096 \<and> distinct (map fst (kx_on_cpu_ns s)) \<and>
     fst ` set (kx_on_cpu_ns s) \<subseteq> fst ` set (kx_targets s)"

lemma cpu_room_cong: "kx_targets u = kx_targets v \<Longrightarrow> kx_on_cpu_ns u = kx_on_cpu_ns v \<Longrightarrow> cpu_room u = cpu_room v"
  by (simp add: cpu_room_def)

lemma distinct_new: "distinct (map fst m) \<Longrightarrow> distinct (map fst (new_percpu sz c z zero k m))"
  by (simp add: new_percpu_def upd_noexist_def distinct_alist_put)

lemma distinct_on_cpu: "distinct (map fst m) \<Longrightarrow> distinct (map fst (on_cpu c f k m))"
  by (simp add: on_cpu_def through_def distinct_alist_put split: option.splits)

lemma keys_new: "fst ` set (new_percpu sz c z zero k m) \<subseteq> insert k (fst ` set m)"
  by (auto simp: new_percpu_def upd_noexist_def)

lemma keys_on_cpu: "fst ` set (on_cpu c f k m) = fst ` set m"
proof (cases "map_of m k")
  case (Some v)
  then have "k \<in> fst ` set m" by (metis map_of_eq_None_iff option.distinct(1))
  with Some show ?thesis by (simp add: on_cpu_def through_def insert_absorb)
qed (simp add: on_cpu_def through_def)

lemma is_target_key: "tid_is_target t s \<longleftrightarrow> t \<in> fst ` set (kx_targets s)"
  by (simp add: tid_is_target_def map_of_eq_None_iff)

lemma snapshotter_cpu:
  assumes "cpu_room s"
  shows "cpu_room (snapshotter x s) \<and> kx_targets (snapshotter x s) = kx_targets s \<and>
    kx_cur_tid (snapshotter x s) = kx_cur_tid s \<and> kx_last_run_ts (snapshotter x s) = kx_last_run_ts s \<and>
    percpu_val 0 (kx_on_cpu_ns (snapshotter x s)) t c = percpu_val 0 (kx_on_cpu_ns s) t c"
proof -
  have "cpu_room (fold (snap_collect_one_cpu x d) nts s) \<and> kx_targets (fold (snap_collect_one_cpu x d) nts s) = kx_targets s \<and>
    kx_cur_tid (fold (snap_collect_one_cpu x d) nts s) = kx_cur_tid s \<and>
    kx_last_run_ts (fold (snap_collect_one_cpu x d) nts s) = kx_last_run_ts s \<and>
    percpu_val 0 (kx_on_cpu_ns (fold (snap_collect_one_cpu x d) nts s)) t c = percpu_val 0 (kx_on_cpu_ns s) t c"
    if "snd ` set nts \<subseteq> fst ` set (kx_targets s)" for nts d
    using that assms
  proof (induction nts arbitrary: s)
    case (Cons nt nts)
    let ?s = "snap_collect_one_cpu x d nt s"
    have f: "kx_targets ?s = kx_targets s" "kx_cur_tid ?s = kx_cur_tid s" "kx_last_run_ts ?s = kx_last_run_ts s"
      "kx_on_cpu_ns ?s = new_percpu 4096 (kc_cpu x) 0 0 (snd nt) (kx_on_cpu_ns s)"
      by (simp_all add: snap_collect_one_cpu_def collect_tid_current_cpu_def h_all_def h_u64_def Let_def)
    have "insert (snd nt) (fst ` set (kx_on_cpu_ns s)) \<subseteq> fst ` set (kx_targets s)"
      using Cons.prems by (simp add: cpu_room_def)
    then have "fst ` set (new_percpu 4096 (kc_cpu x) 0 0 (snd nt) (kx_on_cpu_ns s)) \<subseteq> fst ` set (kx_targets s)"
      by (rule order_trans [OF keys_new])
    then have "cpu_room ?s" using Cons.prems(2) by (simp add: cpu_room_def f distinct_new)
    moreover have "percpu_val 0 (kx_on_cpu_ns ?s) t c = percpu_val 0 (kx_on_cpu_ns s) t c"
      unfolding f by (simp add: percpu_val_new) (simp add: percpu_val_def)
    ultimately show ?case using Cons.IH [of ?s] Cons.prems(1) by (simp add: f)
  qed simp
  note walk = this
  have "snd ` set (List.enumerate 0 (map fst (kx_targets s))) \<subseteq> fst ` set (kx_targets s)"
    unfolding set_map [symmetric] map_snd_enumerate by simp
  from walk [OF this] show ?thesis unfolding snapshotter_def by blast
qed


lemma on_switch_cpu:
  "cpu_part (on_switch x p st n s) =
     (kx_targets s, kx_on_cpu_ns (attribute_cpu x s),
      (kx_cur_tid s)(kc_cpu x := n), (kx_last_run_ts s)(kc_cpu x := kc_now x))"
proof -
  have "cpu_part (switch_in x n v) = cpu_part v" for v
    by (simp add: cpu_part_def switch_in_def complete_offcpu_def complete_wakeup_def Let_def split: option.splits)
  moreover have "cpu_part (offcpu_fallback_stash x p st v) = cpu_part v" for v
    by (simp add: cpu_part_def offcpu_fallback_stash_def Let_def split: option.splits)
  moreover have "cpu_part (switch_count x p st v) = cpu_part v" for v
    by (simp add: cpu_part_def switch_count_def)
  ultimately show ?thesis by (simp add: on_switch_def) (simp add: cpu_part_def set_running_def attribute_cpu_def Let_def)
qed

text \<open>What is kept along a run that starts on an idle CPU.\<close>

definition cpu_inv :: "u32 \<Rightarrow> u32 \<Rightarrow> kern \<Rightarrow> (u64 \<times> u32) list \<Rightarrow> kern \<Rightarrow> bool" where
  "cpu_inv t c s sw v \<longleftrightarrow> cpu_room v \<and> kx_targets v = kx_targets s \<and>
     kx_cur_tid v c = (if sw = [] then 0 else snd (last sw)) \<and> (sw \<noteq> [] \<longrightarrow> kx_last_run_ts v c = fst (last sw)) \<and>
     percpu_val 0 (kx_on_cpu_ns v) t c = percpu_val 0 (kx_on_cpu_ns s) t c + run_time t sw"

lemma cpu_inv_switch:
  assumes inv: "cpu_inv t c s sw v" and t: "t \<noteq> 0" "tid_is_target t s"
    and inc: "sorted_wrt (<) (0 # map fst (sw @ (if kc_cpu x = c then [(kc_now x, n)] else [])))"
  shows "cpu_inv t c s (sw @ (if kc_cpu x = c then [(kc_now x, n)] else [])) (on_switch x p st n v)"
proof -
  let ?u = "attribute_cpu x v" and ?k = "kx_cur_tid v (kc_cpu x)"
  have f: "kx_targets (on_switch x p st n v) = kx_targets v" "kx_on_cpu_ns (on_switch x p st n v) = kx_on_cpu_ns ?u"
    "kx_cur_tid (on_switch x p st n v) = (kx_cur_tid v)(kc_cpu x := n)"
    "kx_last_run_ts (on_switch x p st n v) = (kx_last_run_ts v)(kc_cpu x := kc_now x)"
    using on_switch_cpu [of x p st n v] by (simp_all add: cpu_part_def)
  have r: "room 4096 k (kx_on_cpu_ns v)" if "tid_is_target k v" for k
    using that inv room_keys [of k "kx_targets v" "kx_on_cpu_ns v" 4096] by (auto simp: is_target_key cpu_inv_def cpu_room_def)
  have cr: "cpu_room v" using inv by (simp add: cpu_inv_def)
  have room: "cpu_room (on_switch x p st n v)"
  proof (cases "tid_is_target ?k v")
    case True
    then have "fst ` set (new_percpu 4096 (kc_cpu x) 0 0 ?k (kx_on_cpu_ns v)) \<subseteq> fst ` set (kx_targets v)"
      using inv unfolding is_target_key cpu_inv_def cpu_room_def by (intro order_trans [OF keys_new]) blast
    then show ?thesis using cr
      by (simp add: cpu_room_def f attribute_cpu_def h_u64_def Let_def distinct_new distinct_on_cpu keys_on_cpu)
  qed (use cr in \<open>simp add: cpu_room_def f attribute_cpu_def Let_def\<close>)
  have val: "percpu_val 0 (kx_on_cpu_ns ?u) t c = percpu_val 0 (kx_on_cpu_ns v) t c +
      (if kc_cpu x = c \<and> ?k = t \<and> kx_last_run_ts v c \<noteq> 0 \<and> kc_now x > kx_last_run_ts v c then kc_now x - kx_last_run_ts v c else 0)"
    using t inv r cpu_time.bump [of 4096 ?k "kx_on_cpu_ns v" "kc_cpu x" _ t c]
    by (auto simp: attribute_cpu_def h_u64_def Let_def tid_is_target_def cpu_inv_def)
  show ?thesis
  proof (cases "kc_cpu x = c")
    case False
    with inv room val show ?thesis by (simp add: cpu_inv_def f)
  next
    case True
    have "sw \<noteq> [] \<Longrightarrow> 0 < fst (last sw) \<and> fst (last sw) < kc_now x"
      using inc True by (auto simp: sorted_wrt_append)
    then have "kx_last_run_ts v c \<noteq> 0 \<and> kc_now x > kx_last_run_ts v c" if "sw \<noteq> []"
      using that inv by (auto simp: cpu_inv_def)
    then have "percpu_val 0 (kx_on_cpu_ns ?u) t c = percpu_val 0 (kx_on_cpu_ns v) t c +
        (if sw \<noteq> [] \<and> snd (last sw) = t then kc_now x - fst (last sw) else 0)"
      unfolding val using inv t(1) True by (auto simp: cpu_inv_def)
    then show ?thesis using inv room True by (simp add: cpu_inv_def f run_time_snoc)
  qed
qed

lemma switches_on_snoc:
  "switches_on c (es @ [(x, e)]) =
     switches_on c es @ (case e of OnSwitch p st n \<Rightarrow> if kc_cpu x = c then [(kc_now x, n)] else [] | _ \<Rightarrow> [])"
  by (simp add: switches_on_def)

lemma kruns_snoc: "kruns (es @ [(x, e)]) s = krun x e (kruns es s)"
  by (simp add: kruns_def)

text \<open>
  Claim C5: on a CPU that starts idle the counter of a target thread grows by exactly the time the
  thread ran there between its switches in and out, for every interleaving with any other programs
  on any CPUs. The times of the switches of the CPU increase; there are at most 4096 targets and
  only targets have counters.
\<close>

theorem cpu_time_attributed:
  assumes "cpu_room s" and "kx_cur_tid s c = 0" and "t \<noteq> 0" and "tid_is_target t s"
    and "sorted_wrt (<) (0 # map fst (switches_on c es))"
  shows "percpu_val 0 (kx_on_cpu_ns (kruns es s)) t c = percpu_val 0 (kx_on_cpu_ns s) t c + run_time t (switches_on c es)"
proof -
  have "cpu_inv t c s (switches_on c es) (kruns es s)" using assms(5)
  proof (induction es rule: rev_induct)
    case Nil
    then show ?case using assms by (simp add: cpu_inv_def kruns_def switches_on_def)
  next
    case (snoc xe es)
    obtain x e where xe: "xe = (x, e)" by (cases xe)
    have inv: "cpu_inv t c s (switches_on c es) (kruns es s)"
      using snoc by (auto simp: xe switches_on_snoc sorted_wrt_append)
    consider (switch) p st n where "e = OnSwitch p st n" | (sample) "e = Snapshotter"
      | (other) "\<forall>p st n. e \<noteq> OnSwitch p st n" "e \<noteq> Snapshotter" by blast
    then show ?case
    proof cases
      case switch
      then show ?thesis using cpu_inv_switch [OF inv assms(3,4), of x n p st] snoc.prems
        by (simp add: xe kruns_snoc switches_on_snoc)
    next
      case sample
      then show ?thesis using inv snapshotter_cpu [of "kruns es s" x t c]
        by (simp add: xe kruns_snoc switches_on_snoc cpu_inv_def)
    next
      case other
      then have "switches_on c (es @ [(x, e)]) = switches_on c es" by (auto simp: switches_on_snoc split: kevent.split)
      moreover have "cpu_part (krun x e (kruns es s)) = cpu_part (kruns es s)" by (rule cpu_part_other [OF other])
      ultimately show ?thesis using inv cpu_room_cong [of "krun x e (kruns es s)" "kruns es s"]
        by (simp add: xe kruns_snoc cpu_inv_def cpu_part_def)
    qed
  qed
  then show ?thesis by (simp add: cpu_inv_def)
qed

theorem cpu_time_attributed_witness:
  "percpu_val 0 (kx_on_cpu_ns (kruns [(ctx0\<lparr>kc_now := 10\<rparr>, OnSwitch 0 0 7), (ctx0\<lparr>kc_now := 12\<rparr>, FaultRet 0),
      (ctx0\<lparr>kc_now := 25\<rparr>, OnSwitch 7 1 9), (ctx0\<lparr>kc_now := 40\<rparr>, OnSwitch 9 1 7), (ctx0\<lparr>kc_now := 46\<rparr>, OnSwitch 7 0 0)]
      (kern0\<lparr>kx_targets := [(7, 1)]\<rparr>))) 7 0 = 21"
proof -
  let ?s = "kern0\<lparr>kx_targets := [(7, 1)]\<rparr>"
  let ?es = "[(ctx0\<lparr>kc_now := 10\<rparr>, OnSwitch 0 0 7), (ctx0\<lparr>kc_now := 12\<rparr>, FaultRet 0),
      (ctx0\<lparr>kc_now := 25\<rparr>, OnSwitch 7 1 9), (ctx0\<lparr>kc_now := 40\<rparr>, OnSwitch 9 1 7), (ctx0\<lparr>kc_now := 46\<rparr>, OnSwitch 7 0 0)]"
  have sw: "switches_on 0 ?es = [(10, 7), (25, 9), (40, 7), (46, 0)]" by (simp add: switches_on_def)
  have "cpu_room ?s" "kx_cur_tid ?s 0 = 0" "(7 :: u32) \<noteq> 0" "tid_is_target 7 ?s"
    by (simp_all add: cpu_room_def kern0_def tid_is_target_def)
  from cpu_time_attributed [OF this, of ?es] show ?thesis unfolding sw by (simp add: kern0_def percpu_val_def)
qed

end
