(* ===== verification/KernPairs.thy ===== *)
theory KernPairs
  imports KernProps
begin

text \<open>
  Measurements that span two programs: the wait in the run queue from the first wakeup to the switch
  in, and the latency of a system call from its entry to its exit, whatever runs in between.
\<close>

lemma kruns_keeps:
  assumes "\<And>x e s. (x, e) \<in> set es \<Longrightarrow> P s \<Longrightarrow> P (krun x e s)" and "P s"
  shows "P (kruns es s)"
  using assms
proof (induction es arbitrary: s)
  case (Cons xe es)
  obtain x e where xe: "xe = (x, e)" by (cases xe)
  have "P (krun x e s)" using Cons.prems(1) [of x e s] Cons.prems(2) by (simp add: xe)
  moreover have "P (krun y d v)" if "(y, d) \<in> set es" "P v" for y d v using Cons.prems(1) that by simp
  ultimately have "P (kruns es (krun x e s))" by (rule Cons.IH [rotated])
  then show ?case by (simp add: kruns_def xe)
qed (simp add: kruns_def)

lemma kruns_append: "kruns (es @ ds) s = kruns ds (kruns es s)"
  by (simp add: kruns_def)

lemma kruns_Cons: "kruns ((x, e) # es) s = kruns es (krun x e s)"
  by (simp add: kruns_def)

lemma kruns_Nil: "kruns [] s = s"
  by (simp add: kruns_def)

section \<open>What no program changes\<close>

lemma fold_keeps: "(\<And>a s. g (f a s) = g s) \<Longrightarrow> g (fold f as s) = g s"
  by (induction as arbitrary: s) simp_all

lemma sampler_keeps:
  assumes "\<And>nt s. g (snap_collect_one_cpu x d nt s) = g s"
  shows "g (fold (snap_collect_one_cpu x d) nts s) = g s"
  by (rule fold_keeps) (rule assms)

definition mode_part :: "kern \<Rightarrow> (u32, u32) hmap \<times> u32" where
  "mode_part s = (kx_targets s, kx_deep_enabled s)"

lemma mode_part_switch: "mode_part (on_switch x p st n s) = mode_part s"
proof -
  have "mode_part (switch_in x n v) = mode_part v" for v
    by (simp add: mode_part_def switch_in_def complete_offcpu_def complete_wakeup_def Let_def split: option.splits)
  moreover have "mode_part (offcpu_fallback_stash x p st v) = mode_part v" for v
    by (simp add: mode_part_def offcpu_fallback_stash_def Let_def split: option.splits)
  ultimately show ?thesis
    by (simp add: on_switch_def) (simp add: mode_part_def switch_count_def set_running_def attribute_cpu_def Let_def)
qed

lemmas all_programs = plain_programs network_programs iofile_exit_def net_softirq_exit_def on_rq_complete_def
  end_wait_def end_call_def syslat_account_def

lemma mode_part_run: "mode_part (krun x e s) = mode_part s"
proof (cases e)
  case SnapTick
  have "mode_part (fold (snap_collect_one a d) ts s) = mode_part s" for a d ts
    by (rule fold_keeps) (simp add: mode_part_def snap_collect_one_def)
  then show ?thesis using SnapTick by (simp add: snap_tick_def Let_def) (simp add: mode_part_def)
next
  case Snapshotter
  have "mode_part (fold (snap_collect_one_cpu x d) nts s) = mode_part s" for d nts
    by (rule fold_keeps) (simp add: mode_part_def snap_collect_one_cpu_def collect_tid_current_cpu_def h_all_def Let_def)
  then show ?thesis using Snapshotter by (simp add: snapshotter_def)
next
  case (OnSwitch p st n)
  then show ?thesis by (simp add: mode_part_switch)
qed (simp_all add: mode_part_def all_programs Let_def split: option.splits prod.splits)

lemma mode_part_runs: "mode_part (kruns es s) = mode_part s"
  by (rule kruns_keeps) (simp_all add: mode_part_run)

lemma deep_mode_part: "deep_mode s \<longleftrightarrow> snd (mode_part s) \<noteq> 0" "tid_is_target t s \<longleftrightarrow> map_of (fst (mode_part s)) t \<noteq> None"
  by (simp_all add: mode_part_def deep_mode_def tid_is_target_def)

section \<open>The run queue\<close>

lemma wakeup_stays:
  assumes "\<And>p st. e \<noteq> OnSwitch p st t" and "e \<noteq> OnProcessExit t" and w: "map_of (kx_wakeup_ts s) t = Some w"
  shows "map_of (kx_wakeup_ts (krun x e s)) t = Some w"
proof (cases e)
  case (OnSwitch p st n)
  then have "n \<noteq> t" using assms(1) by blast
  have 1: "kx_wakeup_ts (offcpu_fallback_stash x p st (switch_count x p st (set_running x n (attribute_cpu x s)))) = kx_wakeup_ts s"
    by (simp add: offcpu_fallback_stash_def switch_count_def set_running_def attribute_cpu_def Let_def split: option.splits)
  have 2: "kx_wakeup_ts (complete_offcpu x n v) = kx_wakeup_ts v" for v
    by (simp add: complete_offcpu_def Let_def split: option.splits)
  from \<open>n \<noteq> t\<close> w show ?thesis
    by (simp add: OnSwitch on_switch_def switch_in_def complete_wakeup_def 1 2 split: option.splits)
next
  case SnapTick
  have "kx_wakeup_ts (fold (snap_collect_one a d) ts s) = kx_wakeup_ts s" for a d ts
    by (rule fold_keeps) (simp add: snap_collect_one_def)
  then show ?thesis using SnapTick w by (simp add: snap_tick_def Let_def)
next
  case Snapshotter
  have "kx_wakeup_ts (fold (snap_collect_one_cpu x d) nts s) = kx_wakeup_ts s" for d nts
    by (rule fold_keeps) (simp add: snap_collect_one_cpu_def collect_tid_current_cpu_def h_all_def Let_def)
  then show ?thesis using Snapshotter w by (simp add: snapshotter_def)
qed (use assms in \<open>auto simp: upd_noexist_keeps all_programs Let_def split: option.splits prod.splits\<close>)

lemma switch_in_runq:
  assumes "deep_mode s" and "tid_is_target t s" and "map_of (kx_wakeup_ts s) t = Some w"
  shows "kx_runq_st (on_switch x p st t s) =
      on_cpu (kc_cpu x) (add_lat (kc_now x - w)) t (h_lat 4096 1 x t (kx_runq_st s)) \<and>
    map_of (kx_wakeup_ts (on_switch x p st t s)) t = None"
proof -
  let ?v = "offcpu_fallback_stash x p st (switch_count x p st (set_running x t (attribute_cpu x s)))"
  have 1: "kx_wakeup_ts ?v = kx_wakeup_ts s" "kx_runq_st ?v = kx_runq_st s"
    by (simp_all add: offcpu_fallback_stash_def switch_count_def set_running_def attribute_cpu_def Let_def split: option.splits)
  have 2: "kx_wakeup_ts (complete_offcpu x t v) = kx_wakeup_ts v" "kx_runq_st (complete_offcpu x t v) = kx_runq_st v" for v
    by (simp_all add: complete_offcpu_def Let_def split: option.splits)
  have "mode_part ?v = mode_part s"
    by (simp add: mode_part_def offcpu_fallback_stash_def switch_count_def set_running_def attribute_cpu_def Let_def split: option.splits)
  then have "deep_mode ?v \<and> tid_is_target t ?v" using assms by (simp add: deep_mode_part)
  then show ?thesis using assms(3) by (simp add: on_switch_def switch_in_def complete_wakeup_def 1 2)
qed

text \<open>The events at which a wakeup is no longer pending.\<close>

fun runs_or_exits :: "u32 \<Rightarrow> kevent \<Rightarrow> bool" where
  "runs_or_exits t (OnSwitch p st n) = (n = t)"
| "runs_or_exits t (OnProcessExit p) = (p = t)"
| "runs_or_exits t _ = False"



section \<open>System calls\<close>

text \<open>The events at which the pending system call of a thread changes.\<close>

fun touches_call :: "u32 \<Rightarrow> kctx \<times> kevent \<Rightarrow> bool" where
  "touches_call t (x, OnProcessExit p) = (p = t)"
| "touches_call t (x, FentrySys nr a) = (cur_thread x = t)"
| "touches_call t (x, FexitSys ret) = (cur_thread x = t)"
| "touches_call t (x, OnSysEnter nr a) = (cur_thread x = t)"
| "touches_call t (x, OnSysExit ret) = (cur_thread x = t)"
| "touches_call t _ = False"

lemma other_calls_stay:
  assumes "t \<noteq> cur_thread x"
  shows "map_of (kx_sys_start (start_call x nr a s)) t = map_of (kx_sys_start s) t"
    and "map_of (kx_sys_start (end_call x ret s)) t = map_of (kx_sys_start s) t"
  using assms
  by (simp_all add: start_call_def map_of_upd_any end_call_def syslat_account_def Let_def split: option.splits)

lemma switch_keeps_calls: "kx_sys_start (on_switch x p st n s) = kx_sys_start s"
proof -
  have "kx_sys_start (switch_in x n v) = kx_sys_start v" for v
    by (simp add: switch_in_def complete_offcpu_def complete_wakeup_def Let_def split: option.splits)
  moreover have "kx_sys_start (offcpu_fallback_stash x p st v) = kx_sys_start v" for v
    by (simp add: offcpu_fallback_stash_def Let_def split: option.splits)
  ultimately show ?thesis
    by (simp add: on_switch_def) (simp add: switch_count_def set_running_def attribute_cpu_def Let_def)
qed

lemma call_stays:
  assumes "\<not> touches_call t (x, e)"
  shows "map_of (kx_sys_start (krun x e s)) t = map_of (kx_sys_start s) t"
proof (cases e)
  case SnapTick
  have "kx_sys_start (fold (snap_collect_one a d) ts s) = kx_sys_start s" for a d ts
    by (rule fold_keeps) (simp add: snap_collect_one_def)
  then show ?thesis using SnapTick by (simp add: snap_tick_def Let_def)
next
  case Snapshotter
  have "kx_sys_start (fold (snap_collect_one_cpu x d) nts s) = kx_sys_start s" for d nts
    by (rule fold_keeps) (simp add: snap_collect_one_cpu_def collect_tid_current_cpu_def h_all_def Let_def)
  then show ?thesis using Snapshotter by (simp add: snapshotter_def)
next
  case (OnProcessExit p)
  then show ?thesis using assms by (simp add: on_process_exit_def)
next
  case (FentrySys nr a)
  then show ?thesis using assms by (simp add: fentry_sys_def other_calls_stay)
next
  case (FexitSys ret)
  then show ?thesis using assms by (simp add: fexit_sys_def other_calls_stay)
next
  case (OnSysEnter nr a)
  then show ?thesis using assms by (simp add: on_sys_enter_def other_calls_stay)
next
  case (OnSysExit ret)
  then show ?thesis using assms by (simp add: on_sys_exit_def other_calls_stay)
qed (simp_all add: switch_keeps_calls all_programs Let_def split: option.splits prod.splits)



section \<open>Structs the helpers do not initialise\<close>

text \<open>
  A counter that does not exist yet starts from what the stack of the program held: after the
  first completed request of a thread its statistics on that CPU are those bytes plus one request, and
  only the other CPUs start from zero.
\<close>

theorem first_event_adds_to_stack:
  assumes "map_of (kx_blk_req s) rq = Some e" and "map_of (kx_block_io s) (rq_pid e) = None" and "length (kx_block_io s) < 4096"
  shows "let v = krun x (OnRqComplete rq n) s; z = j_blk (kc_junk x) 0;
      w = \<lambda>c. percpu_val BlockIoVal0 (kx_block_io v) (rq_pid e) c in
    bi_ops (w (kc_cpu x)) = bi_ops z + 1 \<and> bi_bytes (w (kc_cpu x)) = bi_bytes z + ucast n \<and>
    (\<forall>c. c \<noteq> kc_cpu x \<longrightarrow> w c = BlockIoVal0) \<and>
    (io_ok (w (kc_cpu x)) \<longleftrightarrow> sum_list (bi_hist z) = ucast (bi_ops z) \<and> length (bi_hist z) = 13)"
proof -
  define z where "z = j_blk (kc_junk x) 0"
  define lat where "lat = (if rq_issue_ts e \<noteq> 0 \<and> kc_now x > rq_issue_ts e then kc_now x - rq_issue_ts e else 0)"
  let ?v = "krun x (OnRqComplete rq n) s"
  have r: "room 4096 (rq_pid e) (kx_block_io s)" using assms(3) by (simp add: room_def)
  have v: "kx_block_io ?v = on_cpu (kc_cpu x) (add_io n lat) (rq_pid e) (h_blk 4096 0 x (rq_pid e) (kx_block_io s))"
    using assms(1) by (simp add: on_rq_complete_def Let_def lat_def)
  have w: "percpu_val BlockIoVal0 (kx_block_io ?v) (rq_pid e) c = (if c = kc_cpu x then add_io n lat z else BlockIoVal0)" for c
    unfolding v using assms(2) r new_percpu_found [of 4096 "kc_cpu x" z BlockIoVal0 "rq_pid e" "kx_block_io s"]
    by (simp add: percpu_val_on_cpu h_blk_def z_def percpu_val_new) (simp add: percpu_val_def)
  have "length (add_hist13 h lat) = length h" for h by (simp add: add_hist13_def bin_inc_def)
  moreover have "sum_list (add_hist13 h lat) = sum_list h + 1" if "length h = 13" for h
    using that base4_bin_edges [of lat] by (simp add: add_hist13_def sum_list_bin_inc)
  ultimately have "io_ok (add_io n lat z) \<longleftrightarrow> sum_list (bi_hist z) = ucast (bi_ops z) \<and> length (bi_hist z) = 13"
    by (auto simp: io_ok_def hist_ok_def add_io_def ucast_plus_1)
  then show ?thesis unfolding Let_def w z_def [symmetric] by (simp add: add_io_def)
qed

theorem first_event_adds_to_stack_witness:
  "let x = ctx0\<lparr>kc_junk := (kc_junk ctx0)\<lparr>j_blk := \<lambda>_. BlockIoVal0\<lparr>bi_ops := 77\<rparr>\<rparr>\<rparr>;
       s = kern0\<lparr>kx_blk_req := [(5, \<lparr>rq_insert_ts = 1, rq_issue_ts = 2, rq_dev = 8, rq_pid = 7, rq_rw = 0\<rparr>)]\<rparr>;
       v = krun x (OnRqComplete 5 512) s
   in bi_ops (percpu_val BlockIoVal0 (kx_block_io v) 7 0) = 78"
proof -
  define x where "x = ctx0\<lparr>kc_junk := (kc_junk ctx0)\<lparr>j_blk := \<lambda>_. BlockIoVal0\<lparr>bi_ops := 77\<rparr>\<rparr>\<rparr>"
  let ?e = "\<lparr>rq_insert_ts = 1, rq_issue_ts = 2, rq_dev = 8, rq_pid = 7, rq_rw = 0\<rparr>"
  define s where "s = kern0\<lparr>kx_blk_req := [(5, ?e)]\<rparr>"
  have "map_of (kx_blk_req s) 5 = Some ?e" "map_of (kx_block_io s) (rq_pid ?e) = None" "length (kx_block_io s) < 4096"
    by (simp_all add: s_def kern0_def)
  from first_event_adds_to_stack [OF this, of x 512]
  have "bi_ops (percpu_val BlockIoVal0 (kx_block_io (krun x (OnRqComplete 5 512) s)) 7 (kc_cpu x)) = 77 + 1"
    unfolding Let_def by (simp add: x_def)
  then show ?thesis unfolding Let_def x_def s_def by (simp del: krun.simps)
qed

end
