(* ===== verification/KernBins.thy ===== *)
theory KernBins
  imports KernProps
begin

text \<open>
  From the latencies the kernel programs record to the percentiles the collector reports: the bins of
  the two histograms satisfy one contract, and under it the percentile read off the bins is right up to
  the width of a bin.
\<close>

lemma sorted_filter_nth:
  assumes "sorted xs" and "\<And>x y. x \<le> y \<Longrightarrow> P y \<Longrightarrow> P x" and "k < length xs"
  shows "k < length (filter P xs) \<longleftrightarrow> P (xs ! k)"
  using assms(1,3)
proof (induction xs arbitrary: k)
  case (Cons a xs)
  show ?case
  proof (cases "P a")
    case True
    with Cons show ?thesis by (cases k) simp_all
  next
    case False
    then have "\<not> P x" if "x \<in> set (a # xs)" for x using Cons.prems(1) assms(2) that by auto
    then show ?thesis using Cons.prems(2) nth_mem [of k "a # xs"] by (simp add: filter_empty_conv del: nth_mem)
  qed
qed simp

text \<open>
  A histogram with \<open>n\<close> bins of which bin \<open>i\<close> begins at \<open>base * factor ^ i\<close>; the first also takes
  what is smaller and the last what is larger.
\<close>

locale log_bins =
  fixes bin :: "u64 \<Rightarrow> u32" and n :: nat and base :: nat and factor :: nat
  assumes bin_less: "unat (bin x) < n"
    and bin_low: "0 < unat (bin x) \<Longrightarrow> base * factor ^ unat (bin x) \<le> unat x"
    and bin_high: "Suc (unat (bin x)) < n \<Longrightarrow> unat x < base * factor ^ Suc (unat (bin x))"
    and factor_pos: "0 < factor"
    and fits: "base * factor ^ (n - 1) < 2 ^ 64"
begin

definition fill :: "u64 list \<Rightarrow> u32 list \<Rightarrow> u32 list" where
  "fill ls h = fold (\<lambda>d h. bin_inc (unat (bin d)) h) ls h"

lemma length_fill [simp]: "length (fill ls h) = length h"
  unfolding fill_def by (induction ls arbitrary: h) (simp_all add: bin_inc_def)

lemma bin_mono: "x \<le> y \<Longrightarrow> unat (bin x) \<le> unat (bin y)"
proof (rule ccontr)
  assume le: "x \<le> y" and "\<not> unat (bin x) \<le> unat (bin y)"
  then have lt: "unat (bin y) < unat (bin x)" by simp
  then have "Suc (unat (bin y)) < n" using bin_less [of x] by linarith
  then have "unat y < base * factor ^ Suc (unat (bin y))" by (rule bin_high)
  also have "\<dots> \<le> base * factor ^ unat (bin x)" using lt factor_pos by (intro mult_le_mono2 power_increasing) simp_all
  also have "\<dots> \<le> unat x" using lt by (intro bin_low) simp
  finally show False using le by (simp add: word_le_nat_alt)
qed

lemma fill_nth:
  assumes "j < n" and "length h = n"
  shows "fill ls h ! j = h ! j + of_nat (length (filter (\<lambda>d. unat (bin d) = j) ls))"
  using assms(2)
proof (induction ls arbitrary: h)
  case (Cons d ls)
  have "fill (d # ls) h = fill ls (bin_inc (unat (bin d)) h)" by (simp add: fill_def)
  with Cons.IH [of "bin_inc (unat (bin d)) h"] Cons.prems show ?case
    using assms(1) bin_less [of d] by (simp add: bin_inc_def nth_list_update)
qed (simp add: fill_def)

lemma fill_count:
  assumes "j < n" and "length ls < 2 ^ 32"
  shows "unat (fill ls (replicate n 0) ! j) = length (filter (\<lambda>d. unat (bin d) = j) ls)"
proof -
  have "length (filter (\<lambda>d. unat (bin d) = j) ls) < 2 ^ 32" using assms(2) by (rule le_less_trans [OF length_filter_le])
  then show ?thesis using assms(1) by (simp add: fill_nth unat_of_nat)
qed

lemma fill_below:
  assumes "i \<le> n" and "length ls < 2 ^ 32"
  shows "sum_list (map unat (take i (fill ls (replicate n 0)))) = length (filter (\<lambda>d. unat (bin d) < i) ls)"
  using assms(1)
proof (induction i)
  case (Suc i)
  have "length (filter (\<lambda>d. unat (bin d) < Suc i) ds) =
      length (filter (\<lambda>d. unat (bin d) < i) ds) + length (filter (\<lambda>d. unat (bin d) = i) ds)" for ds
    by (induction ds) auto
  with Suc fill_count [of i ls] assms(2) show ?case by (simp add: take_Suc_conv_app_nth)
qed simp

lemma fill_total: "length ls < 2 ^ 32 \<Longrightarrow> sum_list (map unat (fill ls (replicate n 0))) = length ls"
  using fill_below [of n ls] bin_less by simp

text \<open>The percentile is the lower edge of the bin of the sample with the wanted rank.\<close>

lemma percentile_of_sample:
  assumes "ls \<noteq> []" and "length ls < 2 ^ 32" and "0 \<le> q" and "q \<le> 1"
  shows "PercentileUs (fill ls (replicate n 0)) n (of_nat base) (of_nat factor) q =
    of_nat (base * factor ^ unat (bin (sort ls ! (max 1 (nat \<lfloor>of_nat (length ls) * q\<rfloor>) - 1)))) / 1000"
proof -
  define r where "r = max 1 (nat \<lfloor>of_nat (length ls) * q\<rfloor>)"
  let ?h = "fill ls (replicate n 0)"
  have pos: "0 < r" by (simp add: r_def)
  have tot: "sum_list (map unat ?h) = length ls" by (rule fill_total [OF assms(2)])
  have "sum_list (map unat ?h) < 2 ^ 64" unfolding tot using assms(2) by simp
  from percentile_finds_rank [OF this assms(3,4), of "of_nat base" "of_nat factor"] assms(1)
  obtain i where i: "i < n" "PercentileUs ?h n (of_nat base) (of_nat factor) q = of_nat (unat (of_nat base * of_nat factor ^ i :: u64)) / 1000"
      "sum_list (map unat (take i ?h)) < r" "r \<le> sum_list (map unat (take (Suc i) ?h))"
    unfolding tot r_def by auto
  let ?P = "\<lambda>j d. unat (bin d) < j" and ?x = "sort ls ! (r - 1)"
  have cnt: "length (filter (?P j) (sort ls)) = length (filter (?P j) ls)" for j by (simp add: filter_sort)
  have "r \<le> length (filter (?P (Suc i)) ls)" using i(1,4) fill_below [of "Suc i" ls] assms(2) by simp
  also have "\<dots> \<le> length ls" by (rule length_filter_le)
  finally have len: "r - 1 < length (sort ls)" using assms(1) by (cases ls) auto
  have down: "x \<le> y \<Longrightarrow> ?P j y \<Longrightarrow> ?P j x" for j x y using bin_mono [of x y] by linarith
  have nth: "r - 1 < length (filter (?P j) ls) \<longleftrightarrow> ?P j ?x" for j
    using sorted_filter_nth [of "sort ls" "?P j", OF sorted_sort down len] by (simp only: cnt)
  have "length (filter (?P i) ls) \<le> r - 1" using i(3) fill_below [of i ls] i(1) assms(2) by simp
  then have "\<not> ?P i ?x" using nth [of i] by simp
  moreover have "r - 1 < length (filter (?P (Suc i)) ls)" using i(4) fill_below [of "Suc i" ls] i(1) assms(2) pos by simp
  then have "?P (Suc i) ?x" using nth [of "Suc i"] by simp
  ultimately have "unat (bin ?x) = i" by simp
  moreover have "base * factor ^ i < 2 ^ 64"
    using fits i(1) factor_pos by (intro le_less_trans [OF mult_le_mono2 [OF power_increasing] fits]) simp_all
  then have "unat (of_nat base * of_nat factor ^ i :: u64) = base * factor ^ i"
    by (simp add: unat_of_nat flip: of_nat_power of_nat_mult)
  ultimately show ?thesis using i(2) unfolding r_def by simp
qed

lemma percentile_bound:
  assumes "ls \<noteq> []" and "length ls < 2 ^ 32" and "0 \<le> q" and "q \<le> 1"
  defines "x \<equiv> unat (sort ls ! (max 1 (nat \<lfloor>of_nat (length ls) * q\<rfloor>) - 1))"
    and "p \<equiv> PercentileUs (fill ls (replicate n 0)) n (of_nat base) (of_nat factor) q"
  shows "(base \<le> x \<longrightarrow> 1000 * p \<le> of_nat x) \<and> (x < base * factor ^ n \<longrightarrow> of_nat x < of_nat factor * (1000 * p))"
proof -
  let ?y = "sort ls ! (max 1 (nat \<lfloor>of_nat (length ls) * q\<rfloor>) - 1)"
  have p: "1000 * p = of_nat (base * factor ^ unat (bin ?y))"
    unfolding p_def by (simp add: percentile_of_sample [OF assms(1-4)])
  have lo: "base * factor ^ unat (bin ?y) \<le> x" if "base \<le> x"
    using bin_low [of ?y] that by (cases "unat (bin ?y) = 0") (simp_all add: x_def)
  have hi: "x < factor * (base * factor ^ unat (bin ?y))" if "x < base * factor ^ n"
  proof (cases "Suc (unat (bin ?y)) < n")
    case True
    then show ?thesis using bin_high [of ?y] by (simp add: x_def ac_simps)
  next
    case False
    then have "n = Suc (unat (bin ?y))" using bin_less [of ?y] by simp
    then show ?thesis using that by (simp add: ac_simps)
  qed
  have "1000 * p \<le> of_nat x" if "base \<le> x" unfolding p using lo [OF that] by (simp only: of_nat_le_iff)
  moreover have "of_nat x < of_nat factor * (1000 * p)" if "x < base * factor ^ n"
    unfolding p of_nat_mult [symmetric] using hi [OF that] by (simp only: of_nat_less_iff)
  ultimately show ?thesis by blast
qed

end

interpretation bins13: log_bins base4_bin 13 256 4
proof unfold_locales
  fix x
  note e = base4_bin_edges [of x]
  show "unat (base4_bin x) < 13" using e by simp
  show "256 * 4 ^ unat (base4_bin x) \<le> unat x" if "0 < unat (base4_bin x)" using e that by (simp add: edge13_def)
  show "unat x < 256 * 4 ^ Suc (unat (base4_bin x))" if "Suc (unat (base4_bin x)) < 13" using e that by (simp add: edge13_def)
qed simp_all

interpretation bins64: log_bins log2l_bin 64 1 2
proof unfold_locales
  fix x
  note e = log2l_bin_edges [of x]
  show "unat (log2l_bin x) < 64" using e by simp
  show "1 * 2 ^ unat (log2l_bin x) \<le> unat x" if "0 < unat (log2l_bin x)" using e that by (simp add: edge64_def)
  show "unat x < 1 * 2 ^ Suc (unat (log2l_bin x))" if "Suc (unat (log2l_bin x)) < 64" using e that by (simp add: edge64_def)
qed simp_all

lemma hist_of_lat: "lv_hist (fold add_lat ls v) = bins13.fill ls (lv_hist v)"
  by (induction ls arbitrary: v) (simp_all add: bins13.fill_def add_lat_def add_hist13_def)

lemma hist_of_sys: "sl_hist (fold add_sys ds v) = bins64.fill (map fst ds) (sl_hist v)"
  by (induction ds arbitrary: v) (simp_all add: bins64.fill_def add_sys_def add_hist64_def)



end
