(* ===== verification/KernSum.thy ===== *)
theory KernSum
  imports KernBins
begin

text \<open>
  The two producers of the flight recorder tell the same: the records the sampler writes on every CPU,
  merged by the collector, have the counters of the record the timer would have written.
\<close>

definition lens :: "KernelSnapshotRec \<Rightarrow> bool" where
  "lens r \<longleftrightarrow> length (kr_io_hist r) = 13 \<and> length (kr_lock_hist r) = 13 \<and> length (kr_syscall_hist r) = 13 \<and>
     length (kr_futex_hist r) = 13 \<and> length (kr_runq_hist r) = 13"

lemma add_hist_zero: "length h = n \<Longrightarrow> add_hist h (replicate n 0) = h"
  by (simp add: add_hist_def list_eq_iff_nth_eq)

lemma zero_add_hist: "length h = n \<Longrightarrow> add_hist (replicate n 0) h = h"
  by (simp add: add_hist_def list_eq_iff_nth_eq)

lemma length_add_hist: "length a = n \<Longrightarrow> length b = n \<Longrightarrow> length (add_hist a b) = n"
  by (simp add: add_hist_def)

lemma if_found_val: "f zero r = r \<Longrightarrow> if_found m k c f r = f (percpu_val zero m k c) r"
  by (simp add: if_found_def percpu_val_def split: option.split)

text \<open>The values of one thread on one CPU.\<close>

record cpu_vals =
  cv_cpu :: u64
  cv_sw :: SwitchVal
  cv_io :: BlockIoVal
  cv_flt :: FaultsVal
  cv_lock :: LatStatVal13
  cv_sys :: LatStatVal13
  cv_futex :: LatStatVal13
  cv_runq :: LatStatVal13

definition vals :: "kern \<Rightarrow> u32 \<Rightarrow> u32 \<Rightarrow> cpu_vals" where
  "vals s t c = \<lparr>cv_cpu = percpu_val 0 (kx_on_cpu_ns s) t c, cv_sw = percpu_val SwitchVal0 (kx_switches s) t c,
     cv_io = percpu_val BlockIoVal0 (kx_block_io s) t c, cv_flt = percpu_val FaultsVal0 (kx_faults s) t c,
     cv_lock = percpu_val LatStat0 (kx_lock_st s) t c, cv_sys = percpu_val LatStat0 (kx_sys_st s) t c,
     cv_futex = percpu_val LatStat0 (kx_futex_st s) t c, cv_runq = percpu_val LatStat0 (kx_runq_st s) t c\<rparr>"

definition vals_lens :: "cpu_vals \<Rightarrow> bool" where
  "vals_lens v \<longleftrightarrow> length (bi_hist (cv_io v)) = 13 \<and> length (lv_hist (cv_lock v)) = 13 \<and> length (lv_hist (cv_sys v)) = 13 \<and>
     length (lv_hist (cv_futex v)) = 13 \<and> length (lv_hist (cv_runq v)) = 13"

lemma kern_ok_lens: "kern_ok s \<Longrightarrow> vals_lens (vals s t c)"
proof -
  assume k: "kern_ok s"
  have l: "length (lv_hist (percpu_val LatStat0 m t c)) = 13" if "all_percpu lat_ok m" for m :: "(u32, LatStatVal13) pmap"
    using all_percpu_val [where P = lat_ok and zero = LatStat0, OF that lat.good_zero, of t c] by (simp add: lat_ok_def hist_ok_def)
  have "length (bi_hist (percpu_val BlockIoVal0 (kx_block_io s) t c)) = 13"
    using k all_percpu_val [where P = io_ok and zero = BlockIoVal0 and m = "kx_block_io s" and k = t and c = c] io.good_zero by (simp add: kern_ok_def io_ok_def hist_ok_def)
  with k show ?thesis by (simp add: vals_lens_def vals_def kern_ok_def l)
qed

definition copied :: "cpu_vals \<Rightarrow> KernelSnapshotRec" where
  "copied v = copy_runq (cv_runq v) (copy_futex (cv_futex v) (copy_sys (cv_sys v) (copy_lock (cv_lock v)
     (copy_faults (cv_flt v) (copy_io (cv_io v) (copy_switches (cv_sw v) (copy_on_cpu (cv_cpu v) KernelSnapshotRec0)))))))"

lemmas copy_defs = copy_runq_def copy_futex_def copy_sys_def copy_lock_def copy_faults_def copy_io_def copy_switches_def copy_on_cpu_def
lemmas sum_defs = sum_runq_def sum_futex_def sum_sys_def sum_lock_def sum_faults_def sum_io_def sum_switches_def sum_on_cpu_def
lemmas zeros = SwitchVal0_def BlockIoVal0_def FaultsVal0_def LatStat0_def

lemma copy_counters_vals: "copy_counters s t c KernelSnapshotRec0 = copied (vals s t c)"
proof -
  let ?v = "vals s t c"
  let ?r1 = "copy_on_cpu (cv_cpu ?v) KernelSnapshotRec0"
  let ?r2 = "copy_switches (cv_sw ?v) ?r1"
  let ?r3 = "copy_io (cv_io ?v) ?r2"
  let ?r4 = "copy_faults (cv_flt ?v) ?r3"
  let ?r5 = "copy_lock (cv_lock ?v) ?r4"
  let ?r6 = "copy_sys (cv_sys ?v) ?r5"
  let ?r7 = "copy_futex (cv_futex ?v) ?r6"
  have "if_found (kx_on_cpu_ns s) t c copy_on_cpu KernelSnapshotRec0 = ?r1"
    by (subst if_found_val [where zero = 0]) (simp_all add: vals_def copy_defs KernelSnapshotRec0_def)
  moreover have "if_found (kx_switches s) t c copy_switches ?r1 = ?r2"
    by (subst if_found_val [where zero = SwitchVal0]) (simp_all add: vals_def copy_defs KernelSnapshotRec0_def zeros)
  moreover have "if_found (kx_block_io s) t c copy_io ?r2 = ?r3"
    by (subst if_found_val [where zero = BlockIoVal0]) (simp_all add: vals_def copy_defs KernelSnapshotRec0_def zeros)
  moreover have "if_found (kx_faults s) t c copy_faults ?r3 = ?r4"
    by (subst if_found_val [where zero = FaultsVal0]) (simp_all add: vals_def copy_defs KernelSnapshotRec0_def zeros)
  moreover have "if_found (kx_lock_st s) t c copy_lock ?r4 = ?r5"
    by (subst if_found_val [where zero = LatStat0]) (simp_all add: vals_def copy_defs KernelSnapshotRec0_def zeros)
  moreover have "if_found (kx_sys_st s) t c copy_sys ?r5 = ?r6"
    by (subst if_found_val [where zero = LatStat0]) (simp_all add: vals_def copy_defs KernelSnapshotRec0_def zeros)
  moreover have "if_found (kx_futex_st s) t c copy_futex ?r6 = ?r7"
    by (subst if_found_val [where zero = LatStat0]) (simp_all add: vals_def copy_defs KernelSnapshotRec0_def zeros)
  moreover have "if_found (kx_runq_st s) t c copy_runq ?r7 = copied ?v"
    by (subst if_found_val [where zero = LatStat0]) (simp_all add: vals_def copied_def copy_defs KernelSnapshotRec0_def zeros)
  ultimately show ?thesis by (simp only: copy_counters_def)
qed

lemma snap_sum_vals:
  assumes "lens r"
  shows "snap_sum_cpu s t c r = AddSnap r (copied (vals s t c))"
proof -
  obtain sq ts tg td cm oc vo iv io ib ih pn px lw ll lh sc sl sh fw fl fh rn rc rh fg where
    r: "r = \<lparr>kr_seq = sq, kr_ts_ns = ts, kr_tgid = tg, kr_tid = td, kr_comm = cm, kr_on_cpu_ns = oc, kr_nr_sw_vol = vo,
      kr_nr_sw_invol = iv, kr_io_ops = io, kr_io_bytes = ib, kr_io_hist = ih, kr_pf_minor = pn, kr_pf_major = px,
      kr_lock_waits = lw, kr_lock_lat_ns = ll, kr_lock_hist = lh, kr_syscall_count = sc, kr_syscall_lat_ns = sl,
      kr_syscall_hist = sh, kr_futex_waits = fw, kr_futex_lat_ns = fl, kr_futex_hist = fh, kr_runq_wait_ns = rn,
      kr_runq_wait_count = rc, kr_runq_hist = rh, kr_flags = fg\<rparr>" by (cases r)
  have l: "length ih = 13" "length lh = 13" "length sh = 13" "length fh = 13" "length rh = 13"
    using assms by (simp_all add: lens_def r)
  let ?v = "vals s t c"
  let ?r1 = "sum_on_cpu (cv_cpu ?v) r"
  let ?r2 = "sum_switches (cv_sw ?v) ?r1"
  let ?r3 = "sum_io (cv_io ?v) ?r2"
  let ?r4 = "sum_faults (cv_flt ?v) ?r3"
  let ?r5 = "sum_lock (cv_lock ?v) ?r4"
  let ?r6 = "sum_sys (cv_sys ?v) ?r5"
  let ?r7 = "sum_futex (cv_futex ?v) ?r6"
  have "if_found (kx_on_cpu_ns s) t c sum_on_cpu r = ?r1"
    by (subst if_found_val [where zero = 0]) (simp_all add: vals_def sum_defs r)
  moreover have "if_found (kx_switches s) t c sum_switches ?r1 = ?r2"
    by (subst if_found_val [where zero = SwitchVal0]) (simp_all add: vals_def sum_defs r zeros)
  moreover have "if_found (kx_block_io s) t c sum_io ?r2 = ?r3"
    by (subst if_found_val [where zero = BlockIoVal0]) (simp_all add: vals_def sum_defs r zeros l add_hist_zero)
  moreover have "if_found (kx_faults s) t c sum_faults ?r3 = ?r4"
    by (subst if_found_val [where zero = FaultsVal0]) (simp_all add: vals_def sum_defs r zeros)
  moreover have "if_found (kx_lock_st s) t c sum_lock ?r4 = ?r5"
    by (subst if_found_val [where zero = LatStat0]) (simp_all add: vals_def sum_defs r zeros l add_hist_zero)
  moreover have "if_found (kx_sys_st s) t c sum_sys ?r5 = ?r6"
    by (subst if_found_val [where zero = LatStat0]) (simp_all add: vals_def sum_defs r zeros l add_hist_zero)
  moreover have "if_found (kx_futex_st s) t c sum_futex ?r6 = ?r7"
    by (subst if_found_val [where zero = LatStat0]) (simp_all add: vals_def sum_defs r zeros l add_hist_zero)
  moreover have "if_found (kx_runq_st s) t c sum_runq ?r7 = AddSnap r (copied ?v)"
    by (subst if_found_val [where zero = LatStat0])
       (simp_all add: vals_def copied_def AddSnap_def sum_defs copy_defs KernelSnapshotRec0_def r zeros l add_hist_zero)
  ultimately show ?thesis by (simp only: snap_sum_cpu_def)
qed


section \<open>Merging what the sampler wrote\<close>

text \<open>A record without its time, its mode and its sequence number.\<close>

definition strip :: "KernelSnapshotRec \<Rightarrow> KernelSnapshotRec" where
  "strip r = r\<lparr>kr_seq := 0, kr_ts_ns := 0, kr_flags := 0\<rparr>"

definition sample :: "kern \<Rightarrow> u32 \<Rightarrow> u32 \<Rightarrow> KernelSnapshotRec" where
  "sample s c t = rec_set_meta s t (copied (vals s t c))"

lemma strip_idem: "strip (strip r) = strip r"
  by (simp add: strip_def)

lemma strip_AddSnap: "strip (AddSnap g r) = AddSnap (strip g) (strip r)"
  by (simp add: strip_def AddSnap_def)

lemma AddSnap_meta: "AddSnap g (rec_set_meta s t r) = AddSnap g r"
  by (simp add: AddSnap_def rec_set_meta_def split: option.split)

lemma meta_AddSnap: "AddSnap (rec_set_meta s t g) r = rec_set_meta s t (AddSnap g r)"
  by (simp add: AddSnap_def rec_set_meta_def split: option.split)

lemma strip_meta: "strip (rec_set_meta s t r) = rec_set_meta s t (strip r)"
  by (simp add: strip_def rec_set_meta_def split: option.split)

lemma strip_copied: "strip (copied v) = copied v"
  by (simp add: strip_def copied_def copy_defs KernelSnapshotRec0_def)

lemma strip_sample: "strip (sample s c t) = sample s c t"
  by (simp add: sample_def strip_meta strip_copied)

lemma AddSnap_first: "vals_lens v \<Longrightarrow> AddSnap KernelSnapshotRec0 (copied v) = copied v"
  by (simp add: AddSnap_def copied_def copy_defs KernelSnapshotRec0_def vals_lens_def zero_add_hist)

lemma lens_copied: "vals_lens v \<Longrightarrow> lens (copied v)"
  by (simp add: lens_def copied_def copy_defs KernelSnapshotRec0_def vals_lens_def)

lemma lens_AddSnap: "lens g \<Longrightarrow> lens r \<Longrightarrow> lens (AddSnap g r)"
  by (simp add: lens_def AddSnap_def length_add_hist)

lemma lens_zero: "lens KernelSnapshotRec0"
  by (simp add: lens_def KernelSnapshotRec0_def)

lemma sum_is_merge:
  assumes "kern_ok s" and "lens r"
  shows "fold (snap_sum_cpu s t) cs r = fold (\<lambda>c g. AddSnap g (copied (vals s t c))) cs r"
  using assms(2)
proof (induction cs arbitrary: r)
  case (Cons c cs)
  have "lens (AddSnap r (copied (vals s t c)))"
    using Cons.prems lens_copied [OF kern_ok_lens [OF assms(1)]] by (rule lens_AddSnap)
  with Cons show ?case by (simp add: snap_sum_vals)
qed simp

text \<open>Records of one thread, from the CPUs in turn, add up to the record of the timer.\<close>

lemma merged_samples:
  assumes "kern_ok s" and n: "0 < n" "n \<le> 1024" and "kx_ncpus s = of_nat n"
    and r: "\<And>c. c < n \<Longrightarrow> strip (r c) = sample s (of_nat c) t"
  shows "strip (fold (\<lambda>c g. AddSnap g (r c)) [1..<n] (r 0)) = strip (snap_record s t)"
proof -
  let ?cp = "\<lambda>c. copied (vals s t (of_nat c))"
  have fold_strip: "strip (fold (\<lambda>c g. AddSnap g (r c)) cs g) = rec_set_meta s t (fold (\<lambda>c g. AddSnap g (?cp c)) cs h)"
    if "\<forall>c \<in> set cs. c < n" and "strip g = rec_set_meta s t h" for cs g h
    using that
  proof (induction cs arbitrary: g h)
    case (Cons c cs)
    have "strip (AddSnap g (r c)) = rec_set_meta s t (AddSnap h (?cp c))"
      using Cons.prems r [of c] by (simp add: strip_AddSnap sample_def AddSnap_meta meta_AddSnap)
    with Cons show ?case by simp
  qed simp
  have "strip (r 0) = rec_set_meta s t (?cp 0)" using r [of 0] n by (simp add: sample_def)
  then have "strip (fold (\<lambda>c g. AddSnap g (r c)) [1..<n] (r 0)) = rec_set_meta s t (fold (\<lambda>c g. AddSnap g (?cp c)) [1..<n] (?cp 0))"
    by (rule fold_strip [rotated]) simp
  also have "fold (\<lambda>c g. AddSnap g (?cp c)) [1..<n] (?cp 0) = fold (\<lambda>c g. AddSnap g (?cp c)) [0..<n] KernelSnapshotRec0"
    using n by (simp add: upt_conv_Cons AddSnap_first kern_ok_lens [OF assms(1)])
  also have "\<dots> = fold (snap_sum_cpu s t) (map of_nat [0..<n]) KernelSnapshotRec0"
    unfolding sum_is_merge [OF assms(1) lens_zero] by (simp add: fold_map comp_def)
  also have "rec_set_meta s t \<dots> = snap_record s t"
    using n assms(4) by (simp add: snap_record_def rec_ncpus_def unat_of_nat min_def)
  finally have "strip (fold (\<lambda>c g. AddSnap g (r c)) [1..<n] (r 0)) = snap_record s t" .
  then show ?thesis by (metis strip_idem)
qed


lemma merge_group:
  "map_of (fold (merge_one w) recs gs) k =
     (case map_of gs k of
        Some g \<Rightarrow> Some (fold (\<lambda>r g. AddSnap g r) (filter (\<lambda>r. snap_key w r = k) recs) g)
      | None \<Rightarrow> (case filter (\<lambda>r. snap_key w r = k) recs of
                  [] \<Rightarrow> None | r # rs \<Rightarrow> Some (fold (\<lambda>r g. AddSnap g r) rs r)))"
proof (induction recs arbitrary: gs)
  case (Cons r recs)
  show ?case using Cons.IH [of "merge_one w r gs"] by (auto simp: merge_one_def split: option.splits)
qed (simp split: option.split)

lemma merged_iff:
  "g \<in> set (MergePerCpu ms recs) \<longleftrightarrow>
     map_of (fold (merge_one (ns_per_tick ms)) recs []) (snap_key (ns_per_tick ms) g) = Some g"
proof -
  let ?gs = "fold (merge_one (ns_per_tick ms)) recs []"
  have inv: "groups_inv (ns_per_tick ms) ?gs" by (rule groups_inv_fold) (simp add: groups_inv_def)
  have "g \<in> snd ` set ?gs \<longleftrightarrow> (snap_key (ns_per_tick ms) g, g) \<in> set ?gs"
    using inv by (force simp: groups_inv_def)
  also have "\<dots> \<longleftrightarrow> map_of ?gs (snap_key (ns_per_tick ms) g) = Some g"
    using inv by (simp add: groups_inv_def)
  finally show ?thesis by (simp add: MergePerCpu_def)
qed

lemma merged_key: "g \<in> set (MergePerCpu ms recs) \<Longrightarrow> snap_key (ns_per_tick ms) g \<in> snap_key (ns_per_tick ms) ` set recs"
proof -
  assume "g \<in> set (MergePerCpu ms recs)"
  then have "map_of (fold (merge_one (ns_per_tick ms)) recs []) (snap_key (ns_per_tick ms) g) = Some g"
    by (simp only: merged_iff)
  then have "snap_key (ns_per_tick ms) g \<in> fst ` set (fold (merge_one (ns_per_tick ms)) recs [])"
    by (metis domI dom_map_of_conv_image_fst)
  then show ?thesis by (simp add: merge_keys)
qed

lemma merged_group_key:
  assumes "map_of (fold (merge_one (ns_per_tick ms)) recs []) k = Some g"
  shows "snap_key (ns_per_tick ms) g = k"
proof -
  have "groups_inv (ns_per_tick ms) (fold (merge_one (ns_per_tick ms)) recs [])"
    by (rule groups_inv_fold) (simp add: groups_inv_def)
  with map_of_SomeD [OF assms] show ?thesis unfolding groups_inv_def by blast
qed

text \<open>What one run of the sampler writes, in order.\<close>

definition sampled :: "kctx \<Rightarrow> kern \<Rightarrow> KernelSnapshotRec list" where
  "sampled x s = map (\<lambda>t. (sample s (kc_cpu x) t)\<lparr>kr_ts_ns := kc_now x, kr_flags := (if deep_mode s then 1 else 0)\<rparr>)
     (map fst (kx_targets s))"

lemma vals_new:
  "percpu_val z (new_percpu n c' z z k m) t c = percpu_val z m t c"
  by (simp add: percpu_val_new) (simp add: percpu_val_def)

definition same_but_ring :: "kern \<Rightarrow> kern \<Rightarrow> bool" where
  "same_but_ring s v \<longleftrightarrow> (\<forall>t c. vals v t c = vals s t c) \<and> kx_task_meta v = kx_task_meta s \<and> kx_targets v = kx_targets s \<and>
     kx_deep_enabled v = kx_deep_enabled s"

lemma h_all_same: "zeroed x \<Longrightarrow> same_but_ring s (h_all x n t s)"
  by (simp add: same_but_ring_def vals_def h_all_def h_u64_def h_sw_def h_blk_def h_flt_def h_lat_def zeroed_def vals_new)

lemma sample_same: "same_but_ring s v \<Longrightarrow> sample v c t = sample s c t"
  by (simp add: same_but_ring_def sample_def rec_set_meta_def)

lemma commit_time:
  "rec_commit (r\<lparr>kr_ts_ns := now, kr_flags := 1\<rparr>) now True = rec_commit r now True"
  "rec_commit (r\<lparr>kr_ts_ns := now, kr_flags := 0\<rparr>) now False = rec_commit r now False"
  by (intro ext; simp add: rec_commit_def Let_def)+

lemma snap_collect_one_cpu_same:
  assumes "zeroed x" and "same_but_ring s v"
  shows "same_but_ring s (snap_collect_one_cpu x d nt v) \<and>
    kx_ring (snap_collect_one_cpu x d nt v) = rec_commit (sample s (kc_cpu x) (snd nt)) (kc_now x) d (kx_ring v)"
proof -
  let ?u = "h_all x (fst nt) (snd nt) v"
  have u: "same_but_ring s ?u" using assms h_all_same [OF assms(1), of v "fst nt" "snd nt"] by (simp add: same_but_ring_def)
  have eq: "snap_collect_one_cpu x d nt v = ?u\<lparr>kx_ring := rec_commit (sample ?u (kc_cpu x) (snd nt)) (kc_now x) d (kx_ring ?u)\<rparr>"
    by (simp add: snap_collect_one_cpu_def collect_tid_current_cpu_def Let_def copy_counters_vals sample_def)
  have "kx_ring ?u = kx_ring v" by (simp add: h_all_def)
  with u show ?thesis unfolding eq by (simp add: sample_same [OF u]) (simp add: same_but_ring_def vals_def)
qed

lemma snapshotter_same:
  assumes "zeroed x" and "same_but_ring s v"
  shows "same_but_ring s (snapshotter x v) \<and>
    kx_ring (snapshotter x v) = fold (\<lambda>r. rec_commit r (kc_now x) (deep_mode s)) (sampled x s) (kx_ring v)"
proof -
  have walk: "same_but_ring s (fold (snap_collect_one_cpu x d) nts v) \<and>
      kx_ring (fold (snap_collect_one_cpu x d) nts v) =
        fold (\<lambda>t. rec_commit (sample s (kc_cpu x) t) (kc_now x) d) (map snd nts) (kx_ring v)" for d nts
    using assms(2)
  proof (induction nts arbitrary: v)
    case (Cons nt nts)
    with snap_collect_one_cpu_same [OF assms(1) Cons.prems, of d nt] show ?case by simp
  qed simp
  have "deep_mode v = deep_mode s" "kx_targets v = kx_targets s"
    using assms(2) by (simp_all add: same_but_ring_def deep_mode_def)
  moreover have "fold (\<lambda>r. rec_commit r (kc_now x) (deep_mode s)) (sampled x s) g =
      fold (\<lambda>t. rec_commit (sample s (kc_cpu x) t) (kc_now x) (deep_mode s)) (map fst (kx_targets s)) g" for g
    by (simp add: sampled_def fold_map comp_def commit_time)
  ultimately show ?thesis using walk [of "deep_mode s" "List.enumerate 0 (map fst (kx_targets s))"]
    by (simp add: snapshotter_def)
qed

lemma snapshotters_ring:
  assumes "\<forall>c < n. zeroed (x c)"
  shows "same_but_ring s (fold (\<lambda>c. snapshotter (x c)) [0..<n] s) \<and>
    kx_ring (fold (\<lambda>c. snapshotter (x c)) [0..<n] s) =
      fold (\<lambda>c. fold (\<lambda>r. rec_commit r (kc_now (x c)) (deep_mode s)) (sampled (x c) s)) [0..<n] (kx_ring s)"
  using assms
proof (induction n)
  case (Suc n)
  then have "same_but_ring s (fold (\<lambda>c. snapshotter (x c)) [0..<n] s)" by simp
  from snapshotter_same [of "x n", OF _ this] Suc show ?case by simp
qed (simp add: same_but_ring_def)

lemma concat_singletons: "(\<And>c. c \<in> set cs \<Longrightarrow> f c = [g c]) \<Longrightarrow> concat (map f cs) = map g cs"
  by (induction cs) simp_all

lemma samples_of_thread:
  assumes "distinct (map fst (kx_targets s))" and "t \<in> fst ` set (kx_targets s)"
    and "kc_now x div w = b"
  shows "filter (\<lambda>r. snap_key w r = (t, b)) (sampled x s) =
    [(sample s (kc_cpu x) t)\<lparr>kr_ts_ns := kc_now x, kr_flags := (if deep_mode s then 1 else 0)\<rparr>]"
proof -
  have tid: "kr_tid (sample s c u) = u" for c u by (simp add: sample_def rec_set_meta_def split: option.split)
  have "filter (\<lambda>u. u = t) us = [t]" if "distinct us" "t \<in> set us" for us
    using that by (induction us) (auto simp: filter_empty_conv)
  then have "filter (\<lambda>u. u = t) (map fst (kx_targets s)) = [t]" using assms(1,2) by simp
  then show ?thesis using assms(3) by (simp only: sampled_def filter_map) (simp add: comp_def snap_key_def tid)
qed

lemma tick_ring:
  "kx_ring (snap_tick y s) = fold (\<lambda>t. rec_commit (snap_record s t) (kc_now y) (deep_mode s)) (map fst (kx_targets s)) (kx_ring s)"
proof -
  have "kx_ring (fold (snap_collect_one now d) ts v) = fold (\<lambda>t. rec_commit (snap_record s t) now d) ts (kx_ring v)"
    if "\<forall>t. snap_record v t = snap_record s t" for now d ts v
    using that
  proof (induction ts arbitrary: v)
    case (Cons u ts)
    have "snap_record (snap_collect_one now d u v) a = snap_record v a" for a
    proof -
      have "snap_sum_cpu (snap_collect_one now d u v) a = snap_sum_cpu v a"
        by (intro ext) (simp add: snap_sum_cpu_def snap_collect_one_def)
      moreover have "kx_ncpus (snap_collect_one now d u v) = kx_ncpus v" "kx_task_meta (snap_collect_one now d u v) = kx_task_meta v"
        by (simp_all add: snap_collect_one_def)
      ultimately show ?thesis by (simp only: snap_record_def rec_ncpus_def rec_set_meta_def)
    qed
    with Cons show ?case by (simp add: snap_collect_one_def)
  qed simp
  then show ?thesis
    by (simp add: snap_tick_def Let_def)
qed

lemma merged_thread:
  assumes "kern_ok s" and "0 < n" and "n \<le> 1024" and "kx_ncpus s = of_nat n"
    and "distinct (map fst (kx_targets s))" and "t \<in> fst ` set (kx_targets s)"
    and x: "\<forall>c < n. zeroed (x c) \<and> kc_cpu (x c) = of_nat c \<and> kc_now (x c) div ns_per_tick ms = b"
    and out: "out = MergePerCpu ms (concat (map (\<lambda>c. sampled (x c) s) [0..<n]))"
  shows "(\<exists>g \<in> set out. kr_tid g = t) \<and> (\<forall>g \<in> set out. kr_tid g = t \<longrightarrow> strip g = strip (snap_record s t))"
proof -
  let ?w = "ns_per_tick ms" and ?recs = "concat (map (\<lambda>c. sampled (x c) s) [0..<n])"
  let ?r = "\<lambda>c. (sample s (of_nat c) t)\<lparr>kr_ts_ns := kc_now (x c), kr_flags := (if deep_mode s then 1 else 0)\<rparr>"
  let ?gs = "fold (merge_one ?w) ?recs []"
  have one: "filter (\<lambda>r. snap_key ?w r = (t, b)) (sampled (x c) s) = [?r c]" if "c < n" for c
    using samples_of_thread [OF assms(5,6), of "x c" ?w b] x that by simp
  have "filter (\<lambda>r. snap_key ?w r = (t, b)) ?recs = map ?r [0..<n]"
    unfolding filter_concat map_map comp_def by (rule concat_singletons) (rule one, simp)
  also have "\<dots> = ?r 0 # map ?r [1..<n]" using assms(2) by (simp add: upt_conv_Cons)
  finally have grp: "map_of ?gs (t, b) = Some (fold (\<lambda>c g. AddSnap g (?r c)) [1..<n] (?r 0))"
    by (simp add: merge_group fold_map comp_def)
  let ?g = "fold (\<lambda>c g. AddSnap g (?r c)) [1..<n] (?r 0)"
  have "strip (?r c) = sample s (of_nat c) t" for c
    using strip_sample [of s "of_nat c" t] by (simp add: strip_def)
  then have st: "strip ?g = strip (snap_record s t)" by (intro merged_samples [OF assms(1-4)]) simp
  obtain g0 where g0: "map_of ?gs (t, b) = Some g0" "strip g0 = strip (snap_record s t)" using grp st by blast
  have key: "snap_key ?w g0 = (t, b)" by (rule merged_group_key [OF g0(1)])
  have "g0 \<in> set (MergePerCpu ms ?recs)" unfolding merged_iff key by (rule g0(1))
  moreover have tid: "kr_tid g0 = t" using key by (simp only: snap_key_def prod.inject)
  moreover have "strip g = strip (snap_record s t)" if g: "g \<in> set (MergePerCpu ms ?recs)" "kr_tid g = t" for g
  proof -
    have "snd (snap_key ?w r) = b" if "r \<in> set ?recs" for r
      using that x by (auto simp: sampled_def snap_key_def)
    then have "snd (snap_key ?w g) = b" using merged_key [OF g(1)] by (metis imageE)
    then have k: "snap_key ?w g = (t, b)" using g(2) by (simp add: snap_key_def)
    have "Some g = Some g0" using g(1) unfolding merged_iff k g0(1) by (rule sym)
    then show ?thesis using g0(2) by (simp only: option.inject)
  qed
  ultimately show ?thesis unfolding out by blast
qed



end
