(* ===== verification/KernRows.thy ===== *)
theory KernRows
  imports KernHost DeepProps
begin

text \<open>
  From the maps of the kernel programs to the rows the deep collector writes. The structs are laid out
  as bytes the way the C compiler does (\<^verbatim>\<open>bpf/etrace_common.h\<close>), the collector reads them at the
  offsets of its own declarations (\<^verbatim>\<open>src/collect/bpf_values.h\<close>), sums them over the CPUs and makes
  one row per entry. The layouts share one contract, and under it the rows of a dump are those of the
  kernel's entries as long as no thread was counted on two CPUs.
\<close>

section \<open>The structs as bytes\<close>

definition u64_enc :: "u64 \<Rightarrow> bytes" where
  "u64_enc v = le_bytes 8 (unat v)"

definition u32_enc :: "u32 \<Rightarrow> bytes" where
  "u32_enc v = le_bytes 4 (unat v)"

definition u32s_enc :: "u32 list \<Rightarrow> bytes" where
  "u32s_enc vs = concat (map u32_enc vs)"

definition lat_stat_enc :: "LatStatVal13 \<Rightarrow> bytes" where
  "lat_stat_enc v = u64_enc (lv_count v) @ u64_enc (lv_lat_sum v) @ u32s_enc (lv_hist v) @ replicate 4 0"

definition blk_io_enc :: "BlockIoVal \<Rightarrow> bytes" where
  "blk_io_enc v = u64_enc (bi_ops v) @ u64_enc (bi_bytes v) @ u64_enc (bi_lat_sum v) @ u32s_enc (bi_hist v) @ replicate 4 0"

definition sys_lat_key_enc :: "SysLatKey \<Rightarrow> bytes" where
  "sys_lat_key_enc k = u32_enc (sk_tid k) @ u32_enc (sk_id k)"

definition sys_lat_val_enc :: "SysLatVal \<Rightarrow> bytes" where
  "sys_lat_val_enc v = u64_enc (sl_count v) @ u64_enc (sl_lat_sum v) @ u64_enc (sl_error_count v) @ u32s_enc (sl_hist v)"

definition net_softirq_key_enc :: "NetSoftirqKeyVal \<Rightarrow> bytes" where
  "net_softirq_key_enc k = u32_enc (nk_cpu_idx k) @ u32_enc (nk_vector k)"

lemma enc_length [simp]:
  "length (u64_enc v) = 8" "length (u32_enc w) = 4" "length (u32s_enc ws) = 4 * length ws"
  by (simp_all add: u64_enc_def u32_enc_def u32s_enc_def length_concat comp_def sum_list_triv)

text \<open>Reading a member behind the members before it.\<close>

lemma rd_u64_enc: "length xs = off \<Longrightarrow> rd_u64 (xs @ u64_enc v @ ys) off = v"
  using rd_u64_le_bytes [of off xs v ys] by (simp add: u64_enc_def)

lemma rd_u32_enc: "length xs = off \<Longrightarrow> rd_u32 (xs @ u32_enc v @ ys) off = v"
  using rd_u32_le_bytes [of off xs v ys] by (simp add: u32_enc_def)

lemma u32s_enc_split: "i < length vs \<Longrightarrow>
  u32s_enc vs = u32s_enc (take i vs) @ u32_enc (vs ! i) @ u32s_enc (drop (Suc i) vs)"
  by (subst id_take_nth_drop [of i vs]) (simp_all add: u32s_enc_def)

lemma rd_u32s_enc:
  assumes "length xs = off" and "length vs = n"
  shows "rd_u32s (xs @ u32s_enc vs @ ys) off n = vs"
proof (rule nth_equalityI)
  fix i assume i: "i < length (rd_u32s (xs @ u32s_enc vs @ ys) off n)"
  then have i: "i < length vs" using assms(2) by (simp add: rd_u32s_def)
  have "rd_u32 ((xs @ u32s_enc (take i vs)) @ u32_enc (vs ! i) @ u32s_enc (drop (Suc i) vs) @ ys) (off + 4 * i) = vs ! i"
    using i assms(1) by (intro rd_u32_enc) simp
  then show "rd_u32s (xs @ u32s_enc vs @ ys) off n ! i = vs ! i"
    using i assms(2) by (subst u32s_enc_split [OF i]) (simp add: rd_u32s_def)
qed (simp add: rd_u32s_def assms(2))

text \<open>The members at the offsets of the four structs.\<close>

lemma rd_u64s:
  "rd_u64 (u64_enc a @ ys) 0 = a" "rd_u64 (u64_enc a @ u64_enc b @ ys) 8 = b"
  "rd_u64 (u64_enc a @ u64_enc b @ u64_enc c @ ys) 16 = c"
  using rd_u64_enc [of "[]" 0 a ys] rd_u64_enc [of "u64_enc a" 8 b ys] rd_u64_enc [of "u64_enc a @ u64_enc b" 16 c ys]
  by simp_all

lemma rd_hists:
  "length h = n \<Longrightarrow> rd_u32s (u64_enc a @ u64_enc b @ u32s_enc h @ ys) 16 n = h"
  "length h = n \<Longrightarrow> rd_u32s (u64_enc a @ u64_enc b @ u64_enc c @ u32s_enc h @ ys) 24 n = h"
  using rd_u32s_enc [of "u64_enc a @ u64_enc b" 16 h n ys] rd_u32s_enc [of "u64_enc a @ u64_enc b @ u64_enc c" 24 h n ys]
  by simp_all

lemma rd_u32_pair: "rd_u32 (u32_enc a @ ys) 0 = a" "rd_u32 (u32_enc a @ u32_enc b @ ys) 4 = b"
  "rd_u32 (u32_enc a) 0 = a" "rd_u32 (u32_enc a @ u32_enc b) 4 = b"
  using rd_u32_enc [of "[]" 0 a ys] rd_u32_enc [of "u32_enc a" 4 b ys] rd_u32_enc [of "[]" 0 a "[]"] rd_u32_enc [of "u32_enc a" 4 b "[]"]
  by simp_all

lemma le_bytes_zero: "le_bytes n 0 = replicate n 0"
  by (induction n) (simp_all add: le_bytes_Suc, simp add: le_bytes_def)

lemma enc_zero: "u64_enc 0 = replicate 8 0" "u32s_enc (replicate n 0) = replicate (4 * n) 0"
  by (simp_all add: u64_enc_def u32s_enc_def u32_enc_def le_bytes_zero concat_replicate_trivial)
     (induction n, simp_all add: replicate_add [symmetric])

section \<open>The contract of a layout\<close>

text \<open>
  A layout of a key or a value: its size, the values it is for, and the reader that gives them back.
\<close>

locale layout =
  fixes enc :: "'a \<Rightarrow> bytes" and dec :: "bytes \<Rightarrow> 'a" and size_of :: nat and fits :: "'a \<Rightarrow> bool"
  assumes enc_size: "fits v \<Longrightarrow> length (enc v) = size_of"
    and dec_enc: "fits v \<Longrightarrow> dec (enc v) = v"
begin

lemma enc_inj: "fits v \<Longrightarrow> fits v' \<Longrightarrow> enc v = enc v' \<Longrightarrow> v = v'"
  using dec_enc by metis

end

text \<open>The layout of a value the programs count in: zero is all zero bytes, and the size needs no padding.\<close>

locale counter_layout = layout enc dec size_of fits
  for enc :: "'v \<Rightarrow> bytes" and dec :: "bytes \<Rightarrow> 'v" and size_of :: nat and fits :: "'v \<Rightarrow> bool" +
  fixes zero :: 'v
  assumes fits_zero: "fits zero" and enc_zero_bytes: "enc zero = replicate size_of 0"
    and aligned: "unat (RoundUp8 (of_nat size_of)) = size_of"

section \<open>Per-CPU maps\<close>

text \<open>What a lookup copies: the values of the CPUs one behind the other.\<close>

definition percpu_bytes :: "nat \<Rightarrow> ('v \<Rightarrow> bytes) \<Rightarrow> (u32 \<Rightarrow> 'v) \<Rightarrow> bytes" where
  "percpu_bytes n enc f = concat (map (\<lambda>c. enc (f (of_nat c))) [0..<n])"

definition percpu_hash :: "nat \<Rightarrow> ('k \<Rightarrow> bytes) \<Rightarrow> ('v \<Rightarrow> bytes) \<Rightarrow> ('k, 'v) pmap \<Rightarrow> kmap" where
  "percpu_hash n ek ev m = Kmap (map (\<lambda>(k, f). (ek k, percpu_bytes n ev f)) m)"

text \<open>The CPUs an entry was counted on; the value of the only one.\<close>

definition counted_on :: "nat \<Rightarrow> 'v \<Rightarrow> (u32 \<Rightarrow> 'v) \<Rightarrow> nat list" where
  "counted_on n zero f = filter (\<lambda>c. f (of_nat c) \<noteq> zero) [0..<n]"

definition stays :: "nat \<Rightarrow> 'v \<Rightarrow> (u32 \<Rightarrow> 'v) \<Rightarrow> bool" where
  "stays n zero f \<longleftrightarrow> length (counted_on n zero f) \<le> 1"

definition held :: "nat \<Rightarrow> 'v \<Rightarrow> (u32 \<Rightarrow> 'v) \<Rightarrow> 'v" where
  "held n zero f = (case counted_on n zero f of [] \<Rightarrow> zero | c # _ \<Rightarrow> f (of_nat c))"

lemma concat_slice:
  assumes "\<forall>x \<in> set xs. length x = l" and "i < length xs"
  shows "take l (drop (i * l) (concat xs)) = xs ! i"
  using assms
proof (induction xs arbitrary: i)
  case (Cons x xs)
  then show ?case by (cases i) simp_all
qed simp

lemma add_zeros: "length v = n \<Longrightarrow> map2 (+) (replicate n 0) v = (v :: bytes)" "length v = n \<Longrightarrow> map2 (+) v (replicate n 0) = v"
  by (induction v arbitrary: n; case_tac n; simp)+

lemma fold_no_slices:
  assumes "\<forall>c \<in> set cs. sl c = replicate n (0 :: u8)" and "length d = n"
  shows "fold (\<lambda>c d. map2 (+) d (sl c)) cs d = d"
  using assms by (induction cs) (simp_all add: add_zeros)

lemma fold_one_slice:
  assumes "\<forall>c \<in> set cs. length (sl c) = n" and "length d = n"
    and "filter (\<lambda>c. sl c \<noteq> replicate n (0 :: u8)) cs = [x]"
  shows "fold (\<lambda>c d. map2 (+) d (sl c)) cs d = map2 (+) d (sl x)"
  using assms
proof (induction cs arbitrary: d)
  case (Cons c cs)
  show ?case
  proof (cases "sl c = replicate n 0")
    case True
    then show ?thesis using Cons by (simp add: add_zeros)
  next
    case False
    then have "c = x" and "\<forall>c \<in> set cs. sl c = replicate n 0"
      using Cons.prems(3) by (auto simp: filter_empty_conv)
    moreover have "fold (\<lambda>c d. map2 (+) d (sl c)) cs (map2 (+) d (sl x)) = map2 (+) d (sl x)"
      using calculation Cons.prems(1,2) by (intro fold_no_slices [where n = n]) simp_all
    ultimately show ?thesis by simp
  qed
qed simp

context counter_layout
begin

definition slice_for :: "MapSlice \<Rightarrow> nat \<Rightarrow> bool" where
  "slice_for s n \<longleftrightarrow> ms_percpu s \<and> ms_value_size s = size_of \<and> ms_aligned s = size_of \<and> ms_ncpus s = int n"

lemma percpu_slice:
  assumes "slice_for s n" and "\<forall>c. fits (f c)" and "c < n"
  shows "cpu_slice s (percpu_bytes n enc f) c = enc (f (of_nat c))"
  using assms concat_slice [of "map (\<lambda>c. enc (f (of_nat c))) [0..<n]" size_of c]
  by (simp add: slice_for_def cpu_slice_def percpu_bytes_def enc_size)

lemma zero_iff: "fits v \<Longrightarrow> enc v = replicate size_of 0 \<longleftrightarrow> v = zero"
  using enc_inj [of v zero] fits_zero enc_zero_bytes by auto

lemma sum_held:
  assumes s: "slice_for s n" and fit: "\<forall>c. fits (f c)" and one: "stays n zero f"
  shows "seen_value s (percpu_bytes n enc f) = enc (held n zero f)"
proof -
  let ?sl = "cpu_slice s (percpu_bytes n enc f)"
  have sl: "?sl c = enc (f (of_nat c))" if "c \<in> set [0..<n]" for c using percpu_slice [OF s fit] that by simp
  have on: "filter (\<lambda>c. ?sl c \<noteq> replicate size_of 0) [0..<n] = counted_on n zero f"
    unfolding counted_on_def using fit by (intro filter_cong refl) (simp add: sl zero_iff)
  have len: "\<forall>c \<in> set [0..<n]. length (?sl c) = size_of" using fit by (simp add: sl enc_size)
  have sum: "seen_value s (percpu_bytes n enc f) = fold (\<lambda>c d. map2 (+) d (?sl c)) [0..<n] (replicate size_of 0)"
    using s by (simp add: seen_value_def sum_cpus_def slice_for_def)
  show ?thesis
  proof (cases "counted_on n zero f")
    case Nil
    then have "\<forall>c \<in> set [0..<n]. ?sl c = replicate size_of 0" using on by (simp add: filter_empty_conv)
    then show ?thesis using fold_no_slices [of "[0..<n]" ?sl size_of "replicate size_of 0"]
      by (simp add: sum held_def Nil enc_zero_bytes)
  next
    case (Cons c cs)
    then have c: "counted_on n zero f = [c]" using one by (simp add: stays_def)
    then have "c \<in> set [0..<n]" using counted_on_def [of n zero f] by (metis filter_is_subset list.set_intros(1) subsetD)
    then show ?thesis
      using fold_one_slice [OF len _ on [unfolded c], of "replicate size_of 0"] sl [of c] fit
      by (simp add: sum held_def c add_zeros enc_size)
  qed
qed

lemma held_fits: "\<forall>c. fits (f c) \<Longrightarrow> fits (held n zero f)"
  by (simp add: held_def fits_zero split: list.split)

end

text \<open>A map from keys with one layout to counters with another.\<close>

locale counted_map = key: layout ek dk ks kfits + val: counter_layout ev dv vs vfits zero
  for ek :: "'k \<Rightarrow> bytes" and dk ks kfits and ev :: "'v \<Rightarrow> bytes" and dv vs vfits zero
begin

lemma for_each_counted:
  assumes m: "kn_maps (dw_kernel w) name = percpu_hash n ek ev m"
    and sl: "val.slice_for (kn_slice (dw_kernel w) name) n" "0 \<le> ms_fd (kn_slice (dw_kernel w) name)"
    and good: "distinct (map fst m)" "\<forall>k \<in> fst ` set m. kfits k" "\<forall>f \<in> snd ` set m. \<forall>c. vfits (f c)"
    and one: "list_all (\<lambda>(k, f). stays n zero f) m"
  shows "for_each name w = map (\<lambda>(k, f). (ek k, ev (held n zero f))) m"
proof -
  let ?es = "map (\<lambda>(k, f). (ek k, percpu_bytes n ev f)) m"
  have "inj_on ek (fst ` set m)" using good(2) by (intro inj_onI) (meson key.enc_inj)
  then have d: "distinct (map fst ?es)" using good(1)
    by (simp add: comp_def split_def distinct_map) (simp add: inj_on_def image_image)
  then have e: "entries (percpu_hash n ek ev m) = ?es" unfolding percpu_hash_def by (intro Kmap_inverse) simp
  have seen: "km.entry (kn_slice (dw_kernel w) name) (percpu_hash n ek ev m) (ek k) = (ek k, ev (held n zero f))"
    if "(k, f) \<in> set m" for k f
  proof -
    have "(ek k, percpu_bytes n ev f) \<in> set ?es" using that by force
    then have "map_of ?es (ek k) = Some (percpu_bytes n ev f)" using d by (simp add: map_of_eq_Some_iff)
    moreover have "\<forall>c. vfits (f c)" "stays n zero f" using that good(3) one by (force simp: list_all_iff)+
    ultimately show ?thesis
      using val.sum_held [OF sl(1)] by (simp add: km.entry_def) (simp add: kmap_calls_def e)
  qed
  have "ForEach (Suc (length (kmap_keys (percpu_hash n ek ev m)))) kmap_calls (kn_slice (dw_kernel w) name)
      (percpu_hash n ek ev m) = Some (map (km.entry (kn_slice (dw_kernel w) name) (percpu_hash n ek ev m)) (kmap_keys (percpu_hash n ek ev m)))"
    using sl(2) by (intro km.ForEach_all) simp_all
  then have "for_each name w = map (km.entry (kn_slice (dw_kernel w) name) (percpu_hash n ek ev m)) (map fst ?es)"
    by (simp add: for_each_def m kmap_keys_def e Let_def del: map_map)
  also have "\<dots> = map (\<lambda>(k, f). (ek k, ev (held n zero f))) m"
    using seen by (simp add: comp_def split_def)
  finally show ?thesis .
qed

end

section \<open>The layouts of the four statistics\<close>

lemma RoundUp8_sizes: "unat (RoundUp8 72) = 72" "unat (RoundUp8 80) = 80" "unat (RoundUp8 280) = 280"
  by (simp_all add: RoundUp8_def)

interpretation u32_key: layout u32_enc "\<lambda>b. rd_u32 b 0" 4 "\<lambda>_. True"
  by unfold_locales (simp_all add: rd_u32_pair)

interpretation sys_lat_key: layout sys_lat_key_enc SysLatKey_of 8 "\<lambda>_. True"
  by unfold_locales (simp_all add: sys_lat_key_enc_def SysLatKey_of_def rd_u32_pair)

interpretation softirq_key: layout net_softirq_key_enc NetSoftirqKeyVal_of 8 "\<lambda>_. True"
  by unfold_locales (simp_all add: net_softirq_key_enc_def NetSoftirqKeyVal_of_def rd_u32_pair)

interpretation lat_val: counter_layout lat_stat_enc LatStatVal13_of 72 "\<lambda>v. length (lv_hist v) = 13" LatStat0
  by unfold_locales
    (simp_all add: lat_stat_enc_def LatStatVal13_of_def rd_u64s rd_hists LatStat0_def enc_zero RoundUp8_sizes replicate_add [symmetric])

interpretation blk_val: counter_layout blk_io_enc BlockIoVal_of 80 "\<lambda>v. length (bi_hist v) = 13" BlockIoVal0
  by unfold_locales
    (simp_all add: blk_io_enc_def BlockIoVal_of_def rd_u64s rd_hists BlockIoVal0_def enc_zero RoundUp8_sizes replicate_add [symmetric])

lemma sys_lat_fields:
  "length h = 64 \<Longrightarrow> rd_u32s (u64_enc a @ u64_enc b @ u64_enc c @ u32s_enc h) 24 64 = h"
  using rd_hists(2) [of h 64 a b c "[]"] by simp

interpretation sys_val: counter_layout sys_lat_val_enc SysLatVal_of 280 "\<lambda>v. length (sl_hist v) = 64" SysLatVal0
  by unfold_locales
    (simp_all add: sys_lat_val_enc_def SysLatVal_of_def rd_u64s sys_lat_fields SysLatVal0_def enc_zero RoundUp8_sizes replicate_add [symmetric])

interpretation sys_lat_map: counted_map sys_lat_key_enc SysLatKey_of 8 "\<lambda>_. True" sys_lat_val_enc SysLatVal_of 280
    "\<lambda>v. length (sl_hist v) = 64" SysLatVal0 by unfold_locales

interpretation offcpu_map: counted_map u32_enc "\<lambda>b. rd_u32 b 0" 4 "\<lambda>_. True" lat_stat_enc LatStatVal13_of 72
    "\<lambda>v. length (lv_hist v) = 13" LatStat0 by unfold_locales

interpretation dev_io_map: counted_map u32_enc "\<lambda>b. rd_u32 b 0" 4 "\<lambda>_. True" blk_io_enc BlockIoVal_of 80
    "\<lambda>v. length (bi_hist v) = 13" BlockIoVal0 by unfold_locales

interpretation softirq_map: counted_map net_softirq_key_enc NetSoftirqKeyVal_of 8 "\<lambda>_. True" lat_stat_enc LatStatVal13_of 72
    "\<lambda>v. length (lv_hist v) = 13" LatStat0 by unfold_locales

end
