(* ===== verification/KernDump.thy ===== *)
theory KernDump
  imports KernRows KernProps
begin

text \<open>
  The dump at the end of an episode, across the boundary of the kernel: what the programs counted is
  what the rows say.
\<close>

section \<open>A collector that reads the maps of a kernel state\<close>

text \<open>
  The map of a name holds the entries of the kernel in its layout, and the slice made for it has the sizes
  libbpf reports for the struct.
\<close>

definition shares :: "nat \<Rightarrow> string \<Rightarrow> nat \<Rightarrow> nat \<Rightarrow> kmap \<Rightarrow> deep_world \<Rightarrow> bool" where
  "shares n name ks vs m w \<longleftrightarrow>
     kn_maps (dw_kernel w) name = m \<and>
     (let s = kn_slice (dw_kernel w) name
      in 0 \<le> ms_fd s \<and>
         s = MapSlice_make (Some \<lparr>bm_fd = ms_fd s, bm_key_size = ks, bm_value_size = vs, bm_type = PercpuHash\<rparr>) (int n))"

definition reads_kernel :: "nat \<Rightarrow> kern \<Rightarrow> deep_world \<Rightarrow> bool" where
  "reads_kernel n s w \<longleftrightarrow>
     shares n ''sys_lat'' 8 280 (percpu_hash n sys_lat_key_enc sys_lat_val_enc (kx_sys_lat s)) w \<and>
     shares n ''offcpu_stat'' 4 72 (percpu_hash n u32_enc lat_stat_enc (kx_offcpu_stat s)) w \<and>
     shares n ''dev_io'' 4 80 (percpu_hash n u32_enc blk_io_enc (kx_dev_io s)) w \<and>
     shares n ''net_softirq'' 8 72 (percpu_hash n net_softirq_key_enc lat_stat_enc (kx_net_softirq s)) w"

text \<open>No entry of the four statistics was counted on two CPUs.\<close>

definition one_cpu_each :: "nat \<Rightarrow> kern \<Rightarrow> bool" where
  "one_cpu_each n s \<longleftrightarrow>
     list_all (\<lambda>(k, f). stays n SysLatVal0 f) (kx_sys_lat s) \<and> list_all (\<lambda>(k, f). stays n LatStat0 f) (kx_offcpu_stat s) \<and>
     list_all (\<lambda>(k, f). stays n BlockIoVal0 f) (kx_dev_io s) \<and> list_all (\<lambda>(k, f). stays n LatStat0 f) (kx_net_softirq s)"

section \<open>What a row should say\<close>

definition syscall_report :: "SysLatKey \<Rightarrow> SysLatVal \<Rightarrow> row" where
  "syscall_report k v = DeepSyscall (sk_tid k) (sk_id k) (sl_count v)
     (if sl_count v \<noteq> 0 then of_nat (unat (sl_lat_sum v)) / of_nat (unat (sl_count v)) / 1000 else 0)
     (PercentileUs (sl_hist v) 64 1 2 p50) (PercentileUs (sl_hist v) 64 1 2 p99) (sl_error_count v)"

definition offcpu_report :: "i32 \<Rightarrow> (u32 \<times> u32) list \<Rightarrow> (u32 \<times> string) list \<Rightarrow> u32 \<Rightarrow> LatStatVal13 \<Rightarrow> row" where
  "offcpu_report n tgids comms tid v = DeepOffcpu (DeepOffcpuRow0\<lparr>dq_ordinal := n, dq_tid := tid,
     dq_tgid := (case map_of tgids tid of None \<Rightarrow> 0 | Some g \<Rightarrow> g), dq_comm := comm_of comms tid,
     dq_dwell_ns := lv_lat_sum v, dq_count := lv_count v, dq_stack_available := 0\<rparr>)"

definition device_report :: "i32 \<Rightarrow> u32 \<Rightarrow> BlockIoVal \<Rightarrow> row" where
  "device_report n dev v = DeepIoDevice \<lparr>di_ordinal = n, di_dev = dev, di_ops = bi_ops v, di_bytes = bi_bytes v,
     di_lat_sum = bi_lat_sum v, di_hist = bi_hist v, di_p50_us = PercentileUs (bi_hist v) 13 256 4 p50,
     di_p99_us = PercentileUs (bi_hist v) 13 256 4 p99\<rparr>"

definition softirq_report :: "i32 \<Rightarrow> NetSoftirqKeyVal \<Rightarrow> LatStatVal13 \<Rightarrow> row" where
  "softirq_report n k v = DeepNetSoftirq (DeepNetSoftirqRow0\<lparr>dn_ordinal := n, dn_cpu_idx := nk_cpu_idx k,
     dn_vector := nk_vector k,
     dn_vector_name := (if nk_vector k = 3 then ''NET_RX'' else if nk_vector k = 2 then ''NET_TX'' else ''other''),
     dn_count := lv_count v, dn_time_ns := lv_lat_sum v, dn_hist := ''['' @ join_nats (lv_hist v) @ '']''\<rparr>)"

fun is_stat :: "row \<Rightarrow> bool" where
  "is_stat (DeepSyscall _ _ _ _ _ _ _) = True"
| "is_stat (DeepOffcpu _) = True"
| "is_stat (DeepIoDevice _) = True"
| "is_stat (DeepNetSoftirq _) = True"
| "is_stat _ = False"

lemma row_of_bytes:
  "length (sl_hist v) = 64 \<Longrightarrow> syscall_row (sys_lat_key_enc k, sys_lat_val_enc v) = syscall_report k v"
  "length (lv_hist u) = 13 \<Longrightarrow> offstat_row n tgids comms (u32_enc t, lat_stat_enc u) = offcpu_report n tgids comms t u"
  "length (bi_hist b) = 13 \<Longrightarrow> iodevice_row n (u32_enc t, blk_io_enc b) = device_report n t b"
  "length (lv_hist u) = 13 \<Longrightarrow> softirq_row n (net_softirq_key_enc q, lat_stat_enc u) = softirq_report n q u"
  by (simp_all add: syscall_row_def syscall_report_def sys_lat_key.dec_enc sys_val.dec_enc offstat_row_def offcpu_report_def
      u32_key.dec_enc lat_val.dec_enc iodevice_row_def device_report_def blk_val.dec_enc softirq_row_def softirq_report_def
      softirq_key.dec_enc Let_def)

lemma shares_slice:
  assumes "shares n name ks vs m w" and "unat (RoundUp8 (of_nat vs)) = vs"
  shows "kn_maps (dw_kernel w) name = m" "0 \<le> ms_fd (kn_slice (dw_kernel w) name)"
    "ms_percpu (kn_slice (dw_kernel w) name)" "ms_value_size (kn_slice (dw_kernel w) name) = vs"
    "ms_aligned (kn_slice (dw_kernel w) name) = vs" "ms_ncpus (kn_slice (dw_kernel w) name) = int n"
proof -
  let ?s = "kn_slice (dw_kernel w) name"
  have e: "?s = MapSlice_make (Some \<lparr>bm_fd = ms_fd ?s, bm_key_size = ks, bm_value_size = vs, bm_type = PercpuHash\<rparr>) (int n)"
    using assms(1) by (simp add: shares_def Let_def)
  show "kn_maps (dw_kernel w) name = m" "0 \<le> ms_fd ?s" using assms(1) by (simp_all add: shares_def Let_def)
  show "ms_percpu ?s" "ms_value_size ?s = vs" "ms_aligned ?s = vs" "ms_ncpus ?s = int n"
    by (subst e, simp add: MapSlice_make_def assms(2) Let_def)+
qed

lemma stats_of_maps:
  assumes "kern_reach s" and "reads_kernel n s w" and "one_cpu_each n s"
  shows "map syscall_row (for_each ''sys_lat'' w) = map (\<lambda>(k, f). syscall_report k (held n SysLatVal0 f)) (kx_sys_lat s)"
    and "map (offstat_row o' tgids comms) (for_each ''offcpu_stat'' w) =
      map (\<lambda>(t, f). offcpu_report o' tgids comms t (held n LatStat0 f)) (kx_offcpu_stat s)"
    and "map (iodevice_row o') (for_each ''dev_io'' w) = map (\<lambda>(t, f). device_report o' t (held n BlockIoVal0 f)) (kx_dev_io s)"
    and "map (softirq_row o') (for_each ''net_softirq'' w) =
      map (\<lambda>(k, f). softirq_report o' k (held n LatStat0 f)) (kx_net_softirq s)"
proof -
  note ok = reach_ok [OF assms(1), unfolded kern_ok_def]
  have lat: "\<forall>c. length (lv_hist (f c)) = 13" if "all_percpu lat_ok m" "(k, f) \<in> set m" for m :: "('a, LatStatVal13) pmap" and k f
    using that by (force simp: all_percpu_def lat_ok_def hist_ok_def)
  have io: "\<forall>c. length (bi_hist (f c)) = 13" if "(k, f) \<in> set (kx_dev_io s)" for k f
    using that ok by (force simp: all_percpu_def io_ok_def hist_ok_def)
  have sys: "\<forall>c. length (sl_hist (f c)) = 64" if "(k, f) \<in> set (kx_sys_lat s)" for k f
    using that ok by (force simp: all_percpu_def sys_ok_def hist_ok_def)
  have dist: "distinct (map fst (kx_sys_lat s))" "distinct (map fst (kx_offcpu_stat s))" "distinct (map fst (kx_dev_io s))"
    "distinct (map fst (kx_net_softirq s))" using ok by (simp_all add: all_percpu_def)
  note sh = assms(2) [unfolded reads_kernel_def]
  note one = assms(3) [unfolded one_cpu_each_def]
  have 1: "for_each ''sys_lat'' w = map (\<lambda>(k, f). (sys_lat_key_enc k, sys_lat_val_enc (held n SysLatVal0 f))) (kx_sys_lat s)"
    using shares_slice [of n "''sys_lat''" 8 280] sh one dist sys
    by (intro sys_lat_map.for_each_counted) (auto simp: sys_val.slice_for_def RoundUp8_sizes)
  show "map syscall_row (for_each ''sys_lat'' w) = map (\<lambda>(k, f). syscall_report k (held n SysLatVal0 f)) (kx_sys_lat s)"
    using sys sys_val.held_fits by (auto simp: 1 row_of_bytes)
  have 2: "for_each ''offcpu_stat'' w = map (\<lambda>(t, f). (u32_enc t, lat_stat_enc (held n LatStat0 f))) (kx_offcpu_stat s)"
    using shares_slice [of n "''offcpu_stat''" 4 72] sh one dist lat [of "kx_offcpu_stat s"] ok
    by (intro offcpu_map.for_each_counted) (auto simp: lat_val.slice_for_def RoundUp8_sizes)
  show "map (offstat_row o' tgids comms) (for_each ''offcpu_stat'' w) =
      map (\<lambda>(t, f). offcpu_report o' tgids comms t (held n LatStat0 f)) (kx_offcpu_stat s)"
    using lat [of "kx_offcpu_stat s"] ok lat_val.held_fits by (auto simp: 2 row_of_bytes)
  have 3: "for_each ''dev_io'' w = map (\<lambda>(t, f). (u32_enc t, blk_io_enc (held n BlockIoVal0 f))) (kx_dev_io s)"
    using shares_slice [of n "''dev_io''" 4 80] sh one dist io
    by (intro dev_io_map.for_each_counted) (auto simp: blk_val.slice_for_def RoundUp8_sizes)
  show "map (iodevice_row o') (for_each ''dev_io'' w) = map (\<lambda>(t, f). device_report o' t (held n BlockIoVal0 f)) (kx_dev_io s)"
    using io blk_val.held_fits by (auto simp: 3 row_of_bytes)
  have 4: "for_each ''net_softirq'' w = map (\<lambda>(k, f). (net_softirq_key_enc k, lat_stat_enc (held n LatStat0 f))) (kx_net_softirq s)"
    using shares_slice [of n "''net_softirq''" 8 72] sh one dist lat [of "kx_net_softirq s"] ok
    by (intro softirq_map.for_each_counted) (auto simp: lat_val.slice_for_def RoundUp8_sizes)
  show "map (softirq_row o') (for_each ''net_softirq'' w) =
      map (\<lambda>(k, f). softirq_report o' k (held n LatStat0 f)) (kx_net_softirq s)"
    using lat [of "kx_net_softirq s"] ok lat_val.held_fits by (auto simp: 4 row_of_bytes)
qed

section \<open>The dump\<close>

lemma Folded_rows: "dw_rows (snd (Folded stack pid user w)) = dw_rows w"
  by (simp add: Folded_def Let_def split: option.split)

lemma folded_rows_stats:
  "filter is_stat (dw_rows (oncpu_row comms e w)) = filter is_stat (dw_rows w)"
  "filter is_stat (dw_rows (offcpu_row tgids comms e w)) = filter is_stat (dw_rows w)"
  using Folded_rows by (simp_all add: oncpu_row_def offcpu_row_def Let_def split_def)

lemma fold_keeps_stats:
  "(\<And>e w. filter is_stat (dw_rows (f e w)) = filter is_stat (dw_rows w)) \<Longrightarrow>
   filter is_stat (dw_rows (fold f es w)) = filter is_stat (dw_rows w)"
  by (induction es arbitrary: w) simp_all

lemma stat_rows:
  "list_all is_stat (map syscall_row es)" "list_all is_stat (map (offstat_row n tgids comms) es)"
  "list_all is_stat (map (iodevice_row n) es)" "list_all is_stat (map (softirq_row n) es)"
  "filter is_stat (concat (map (lock_row base resolve) es)) = []" "filter is_stat (map iofile_row es) = []"
  "filter is_stat (map (flow_row n b) es) = []" "filter is_stat (map (drop_row n) es) = []"
  by (auto simp: list_all_iff filter_empty_conv syscall_row_def offstat_row_def iodevice_row_def softirq_row_def lock_row_def
      iofile_row_def flow_row_def drop_row_def Let_def split: if_splits)

lemma filter_all: "list_all P xs \<Longrightarrow> filter P xs = xs"
  by (simp add: list_all_iff)

lemma dump_stats:
  "filter is_stat (dw_rows (DumpDeepMaps w)) = filter is_stat (dw_rows w) @ map syscall_row (for_each ''sys_lat'' w) @
     map (offstat_row (dc_ordinal (dw_dc w)) (tid_tgid w) (tid_comm w)) (for_each ''offcpu_stat'' w) @
     map (iodevice_row (dc_ordinal (dw_dc w))) (for_each ''dev_io'' w) @
     map (softirq_row (dc_ordinal (dw_dc w))) (for_each ''net_softirq'' w)"
  by (simp add: DumpDeepMaps_def Let_def stat_rows fold_keeps_stats folded_rows_stats filter_all [OF stat_rows(1)]
      filter_all [OF stat_rows(2)] filter_all [OF stat_rows(3)] filter_all [OF stat_rows(4)])


text \<open>One request of 4096 bytes to one device, dumped on a machine with two CPUs.\<close>

definition dump_state1 :: kern where
  "dump_state1 = krun (ctx0\<lparr>kc_now := 900\<rparr>) (OnRqComplete 7 4096)
     (krun ctx0 (OnRqInsert \<lparr>rq_ptr = 7, rq_major = 8, rq_first_minor = 0, rq_cmd_flags = 0\<rparr>) kern0)"

definition hash_slice :: "nat \<Rightarrow> nat \<Rightarrow> nat \<Rightarrow> MapSlice" where
  "hash_slice n ks vs = MapSlice_make (Some \<lparr>bm_fd = 3, bm_key_size = ks, bm_value_size = vs, bm_type = PercpuHash\<rparr>) (int n)"

definition dump_world1 :: deep_world where
  "dump_world1 = deep_world0\<lparr>dw_kernel := kernel0\<lparr>
     kn_maps := (\<lambda>_. kmap_empty)(
       ''sys_lat'' := percpu_hash 2 sys_lat_key_enc sys_lat_val_enc (kx_sys_lat dump_state1),
       ''offcpu_stat'' := percpu_hash 2 u32_enc lat_stat_enc (kx_offcpu_stat dump_state1),
       ''dev_io'' := percpu_hash 2 u32_enc blk_io_enc (kx_dev_io dump_state1),
       ''net_softirq'' := percpu_hash 2 net_softirq_key_enc lat_stat_enc (kx_net_softirq dump_state1)),
     kn_slice := (kn_slice kernel0)(''sys_lat'' := hash_slice 2 8 280, ''offcpu_stat'' := hash_slice 2 4 72,
       ''dev_io'' := hash_slice 2 4 80, ''net_softirq'' := hash_slice 2 8 72)\<rparr>\<rparr>"

lemma hash_slice_self: "hash_slice n ks vs =
    MapSlice_make (Some \<lparr>bm_fd = ms_fd (hash_slice n ks vs), bm_key_size = ks, bm_value_size = vs, bm_type = PercpuHash\<rparr>) (int n)"
  "0 \<le> ms_fd (hash_slice n ks vs)"
  by (simp_all add: hash_slice_def MapSlice_make_def Let_def)

lemma dump_world1_reads: "reads_kernel 2 dump_state1 dump_world1"
proof -
  have h: "hash_slice 2 ks vs = MapSlice_make (Some \<lparr>bm_fd = ms_fd (hash_slice 2 ks vs), bm_key_size = ks,
      bm_value_size = vs, bm_type = PercpuHash\<rparr>) 2" for ks vs
    using hash_slice_self(1) [of 2 ks vs] by simp
  show ?thesis
    unfolding reads_kernel_def shares_def Let_def
    by (simp add: dump_world1_def hash_slice_self(2)) (intro conjI h)
qed

lemma dump_state1_maps:
  "kx_dev_io dump_state1 = [(0x800000, (\<lambda>_. BlockIoVal0)(0 := add_io 4096 0 BlockIoVal0))]"
  "kx_sys_lat dump_state1 = []" "kx_offcpu_stat dump_state1 = []" "kx_net_softirq dump_state1 = []"
  by (simp_all add: dump_state1_def on_rq_complete_def on_rq_insert_def kern0_def upd_any_def h_blk_def new_percpu_def
      upd_noexist_def on_cpu_def through_def ctx0_def Let_def)


end
