(* ===== verification/KernLayout.thy ===== *)
theory KernLayout
  imports KernRows
begin

text \<open>
  The structs both sides declare. The kernel programs (\<^verbatim>\<open>bpf/etrace_common.h\<close>) and the collector
  (\<^verbatim>\<open>src/collect/bpf_values.h\<close>, \<^verbatim>\<open>deep_collector.h\<close>) each have their own declaration, and the bytes go
  from one to the other uninterpreted. Here the layout rule of the C compiler is a function of the
  members; every struct of the programs is laid out with it, and the collector's reader gives every
  member back, whatever the padding holds.
\<close>

section \<open>The layout rule\<close>

text \<open>A member of a struct with its value: a word of 64 or 32 bits, an array of 32-bit words or of bytes.\<close>

datatype cmember = M64 u64 | M32 u32 | M32s "u32 list" | MChars string

fun member_bytes :: "cmember \<Rightarrow> bytes" where
  "member_bytes (M64 v) = u64_enc v"
| "member_bytes (M32 v) = u32_enc v"
| "member_bytes (M32s vs) = u32s_enc vs"
| "member_bytes (MChars s) = map (\<lambda>c. of_nat (of_char c)) s"

fun member_align :: "cmember \<Rightarrow> nat" where
  "member_align (M64 v) = 8"
| "member_align (M32 v) = 4"
| "member_align (M32s vs) = 4"
| "member_align (MChars s) = 1"

fun member_size :: "cmember \<Rightarrow> nat" where
  "member_size (M64 v) = 8"
| "member_size (M32 v) = 4"
| "member_size (M32s vs) = 4 * length vs"
| "member_size (MChars s) = length s"

definition align_up :: "nat \<Rightarrow> nat \<Rightarrow> nat" where
  "align_up a n = (n + a - 1) div a * a"

text \<open>
  Every member starts at the next multiple of its alignment, and the struct ends at a multiple of the
  largest one. The bytes in between are those of \<open>pad\<close>, by their position.
\<close>

fun lay_members :: "(nat \<Rightarrow> u8) \<Rightarrow> nat \<Rightarrow> cmember list \<Rightarrow> bytes" where
  "lay_members pad pos [] = []"
| "lay_members pad pos (m # ms) =
     (let start = align_up (member_align m) pos
      in map pad [pos..<start] @ member_bytes m @ lay_members pad (start + member_size m) ms)"

definition c_struct :: "(nat \<Rightarrow> u8) \<Rightarrow> cmember list \<Rightarrow> bytes" where
  "c_struct pad ms =
     (let b = lay_members pad 0 ms
      in b @ map pad [length b..<align_up (fold max (map member_align ms) 1) (length b)])"

text \<open>The member that starts at an offset, and the position behind the last one.\<close>

fun member_at :: "nat \<Rightarrow> cmember list \<Rightarrow> nat \<Rightarrow> cmember option" where
  "member_at pos [] off = None"
| "member_at pos (m # ms) off =
     (let start = align_up (member_align m) pos
      in if start = off then Some m else member_at (start + member_size m) ms off)"

fun lay_end :: "nat \<Rightarrow> cmember list \<Rightarrow> nat" where
  "lay_end pos [] = pos"
| "lay_end pos (m # ms) = lay_end (align_up (member_align m) pos + member_size m) ms"

lemma member_bytes_length [simp]: "length (member_bytes m) = member_size m"
  by (cases m) simp_all

lemma align_up_ge: "0 < a \<Longrightarrow> pos \<le> align_up a pos"
  unfolding align_up_def using div_mult_mod_eq [of "pos + a - 1" a] mod_less_divisor [of a "pos + a - 1"] by linarith

lemma member_align_pos [simp]: "0 < member_align m"
  by (cases m) simp_all

lemma lay_members_length: "pos + length (lay_members pad pos ms) = lay_end pos ms"
proof (induction ms arbitrary: pos)
  case (Cons m ms)
  from Cons.IH [of "align_up (member_align m) pos + member_size m"] align_up_ge [of "member_align m" pos]
  show ?case by (simp add: Let_def)
qed simp

lemma lay_members_member:
  assumes "member_at pos ms off = Some m"
  shows "\<exists>xs ys. lay_members pad pos ms = xs @ member_bytes m @ ys \<and> pos + length xs = off"
  using assms
proof (induction ms arbitrary: pos)
  case (Cons n ms)
  let ?s = "align_up (member_align n) pos"
  have ge: "pos \<le> ?s" by (rule align_up_ge) simp
  show ?case
  proof (cases "?s = off")
    case True
    then have "n = m" using Cons.prems by simp
    then show ?thesis using True ge
      by (intro exI [of _ "map pad [pos..<?s]"] exI [of _ "lay_members pad (?s + member_size n) ms"]) (simp add: Let_def)
  next
    case False
    then have "member_at (?s + member_size n) ms off = Some m" using Cons.prems by simp
    from Cons.IH [OF this] obtain xs ys
      where "lay_members pad (?s + member_size n) ms = xs @ member_bytes m @ ys" "?s + member_size n + length xs = off"
      by blast
    then show ?thesis using ge
      by (intro exI [of _ "map pad [pos..<?s] @ member_bytes n @ xs"] exI [of _ ys]) (simp add: Let_def)
  qed
qed simp

lemma c_struct_member:
  assumes "member_at 0 ms off = Some m"
  shows "\<exists>xs ys. c_struct pad ms = xs @ member_bytes m @ ys \<and> length xs = off"
proof -
  from lay_members_member [OF assms, of pad] obtain xs ys
    where "lay_members pad 0 ms = xs @ member_bytes m @ ys" and len: "length xs = off" by auto
  then have "\<exists>zs. c_struct pad ms = xs @ member_bytes m @ zs" by (simp add: c_struct_def Let_def)
  with len show ?thesis by blast
qed

text \<open>The readers, as rewrite rules that evaluate \<open>member_at\<close> on the members of a struct.\<close>

fun holds64 :: "cmember option \<Rightarrow> bool" where
  "holds64 (Some (M64 v)) = True"
| "holds64 _ = False"

fun holds32 :: "cmember option \<Rightarrow> bool" where
  "holds32 (Some (M32 v)) = True"
| "holds32 _ = False"

fun holds32s :: "nat \<Rightarrow> cmember option \<Rightarrow> bool" where
  "holds32s n (Some (M32s vs)) \<longleftrightarrow> length vs = n"
| "holds32s n _ = False"

fun holds_chars :: "nat \<Rightarrow> cmember option \<Rightarrow> bool" where
  "holds_chars n (Some (MChars s)) \<longleftrightarrow> length s = n"
| "holds_chars n _ = False"

lemma c_struct_rd_u64:
  assumes "holds64 (member_at 0 ms off)"
  shows "rd_u64 (c_struct pad ms) off = (case member_at 0 ms off of Some (M64 v) \<Rightarrow> v | _ \<Rightarrow> 0)"
proof -
  obtain v where v: "member_at 0 ms off = Some (M64 v)" using assms by (auto elim: holds64.elims)
  with c_struct_member [OF v, of pad] obtain xs ys where "c_struct pad ms = xs @ u64_enc v @ ys" "length xs = off" by auto
  then show ?thesis using rd_u64_enc [of xs off v ys] v by simp
qed

lemma c_struct_rd_u32:
  assumes "holds32 (member_at 0 ms off)"
  shows "rd_u32 (c_struct pad ms) off = (case member_at 0 ms off of Some (M32 v) \<Rightarrow> v | _ \<Rightarrow> 0)"
proof -
  obtain v where v: "member_at 0 ms off = Some (M32 v)" using assms by (auto elim: holds32.elims)
  with c_struct_member [OF v, of pad] obtain xs ys where "c_struct pad ms = xs @ u32_enc v @ ys" "length xs = off" by auto
  then show ?thesis using rd_u32_enc [of xs off v ys] v by simp
qed

lemma c_struct_rd_u32s:
  assumes "holds32s n (member_at 0 ms off)"
  shows "rd_u32s (c_struct pad ms) off n = (case member_at 0 ms off of Some (M32s vs) \<Rightarrow> vs | _ \<Rightarrow> [])"
proof -
  obtain vs where v: "member_at 0 ms off = Some (M32s vs)" "length vs = n" using assms by (auto elim: holds32s.elims)
  with c_struct_member [OF v(1), of pad] obtain xs ys where "c_struct pad ms = xs @ u32s_enc vs @ ys" "length xs = off" by auto
  then show ?thesis using rd_u32s_enc [of xs off vs n ys] v by simp
qed

lemma c_struct_rd_chars:
  assumes "holds_chars n (member_at 0 ms off)"
  shows "rd_chars (c_struct pad ms) off n = (case member_at 0 ms off of Some (MChars s) \<Rightarrow> s | _ \<Rightarrow> [])"
proof -
  obtain s where v: "member_at 0 ms off = Some (MChars s)" "length s = n" using assms by (auto elim: holds_chars.elims)
  with c_struct_member [OF v(1), of pad]
  obtain xs ys where "c_struct pad ms = xs @ map (\<lambda>c. of_nat (of_char c)) s @ ys" "length xs = off" by auto
  moreover have "char_of (unat (of_nat (of_char c) :: u8)) = c" for c :: char by (simp add: unat_of_nat)
  ultimately show ?thesis using v by (simp add: rd_chars_def comp_def)
qed

lemma c_struct_length: "length (c_struct pad ms) = align_up (fold max (map member_align ms) 1) (lay_end 0 ms)"
proof -
  have "0 < fold max (map member_align ms) (1 :: nat)"
    by (induction ms rule: rev_induct) simp_all
  then show ?thesis using lay_members_length [of 0 pad ms] align_up_ge by (simp add: c_struct_def Let_def)
qed

lemmas c_struct_reads = c_struct_rd_u64 c_struct_rd_u32 c_struct_rd_u32s c_struct_rd_chars

section \<open>The structs of the programs\<close>

definition switch_t_enc :: "(nat \<Rightarrow> u8) \<Rightarrow> SwitchVal \<Rightarrow> bytes" where
  "switch_t_enc pad v = c_struct pad [M32 (sv_vol v), M32 (sv_invol v)]"

definition faults_t_enc :: "(nat \<Rightarrow> u8) \<Rightarrow> FaultsVal \<Rightarrow> bytes" where
  "faults_t_enc pad v = c_struct pad [M32 (fv_minor v), M32 (fv_major v)]"

definition task_meta_t_enc :: "(nat \<Rightarrow> u8) \<Rightarrow> TaskMetaVal \<Rightarrow> bytes" where
  "task_meta_t_enc pad v = c_struct pad [M32 (tm_tgid v), MChars (tm_comm v)]"

definition offcpu_stash_t_enc :: "(nat \<Rightarrow> u8) \<Rightarrow> OffcpuStashVal \<Rightarrow> bytes" where
  "offcpu_stash_t_enc pad v = c_struct pad [M64 (os_out_ts v), M32 (os_ksid v), M32 (os_stack_available v)]"

definition io_start_t_enc :: "(nat \<Rightarrow> u8) \<Rightarrow> IoStartVal \<Rightarrow> bytes" where
  "io_start_t_enc pad v = c_struct pad [M32 (iv_dev v), M64 (iv_ino v), MChars (iv_path v), M64 (iv_ts v)]"

definition sock_owner_t_enc :: "(nat \<Rightarrow> u8) \<Rightarrow> SockOwnerVal \<Rightarrow> bytes" where
  "sock_owner_t_enc pad v = c_struct pad [M64 (so_tgid v), M32 (so_tid v), M64 (so_netns_ino v), M32 (so_family v),
     M32s (so_local_addr v), M32s (so_remote_addr v), M32 (so_local_port v),
     M32 (so_remote_port v), M64 (so_start_ts v), M64 (so_established_ts v), M64 (so_tx_bytes v),
     M64 (so_rx_bytes v), M64 (so_retrans v), M32 (so_rst_reason v), M64 (so_rtt_count v),
     M64 (so_rtt_sum_us v)]"

definition net_drop_key_enc :: "(nat \<Rightarrow> u8) \<Rightarrow> NetDropKeyVal \<Rightarrow> bytes" where
  "net_drop_key_enc pad v = c_struct pad [M64 (nd_netns_ino v), M32 (nd_ifindex v), M32 (nd_reason_id v)]"

definition oncpu_key_enc :: "(nat \<Rightarrow> u8) \<Rightarrow> OncpuKey \<Rightarrow> bytes" where
  "oncpu_key_enc pad v = c_struct pad [M32 (ok_pid v), M32 (ok_tid v), M32 (ok_user_sid v), M32 (ok_kernel_sid v)]"

definition io_file_key_enc :: "(nat \<Rightarrow> u8) \<Rightarrow> IoFileKey \<Rightarrow> bytes" where
  "io_file_key_enc pad v = c_struct pad [M32 (fk_dev v), M64 (fk_ino v), MChars (fk_path v)]"

definition io_file_val_enc :: "(nat \<Rightarrow> u8) \<Rightarrow> IoFileVal \<Rightarrow> bytes" where
  "io_file_val_enc pad v = c_struct pad [M64 (fw_bytes v), M32 (fw_ops v), M64 (fw_errors v), M64 (fw_lat_sum v), M32s (fw_hist v)]"

definition lock_hot_val_enc :: "(nat \<Rightarrow> u8) \<Rightarrow> LockHotVal \<Rightarrow> bytes" where
  "lock_hot_val_enc pad v = c_struct pad [M64 (lh_count v), M64 (lh_lat_sum v)]"

definition mem_events_t_enc :: "(nat \<Rightarrow> u8) \<Rightarrow> MemEventsVal \<Rightarrow> bytes" where
  "mem_events_t_enc pad v = c_struct pad [M32 (me_kswapd_active v), M32 (me_direct_reclaim v), M64 (me_nr_reclaimed v)]"

definition oom_event_t_enc :: "(nat \<Rightarrow> u8) \<Rightarrow> OomEventVal \<Rightarrow> bytes" where
  "oom_event_t_enc pad v = c_struct pad [M64 (oe_ts v), M32 (oe_pid v)]"

definition snapshot_fits :: "KernelSnapshotRec \<Rightarrow> bool" where
  "snapshot_fits v \<longleftrightarrow> length (kr_comm v) = 16 \<and> length (kr_io_hist v) = 13 \<and>
     length (kr_lock_hist v) = 13 \<and> length (kr_syscall_hist v) = 13 \<and>
     length (kr_futex_hist v) = 13 \<and> length (kr_runq_hist v) = 13"

definition snapshot_rec_enc :: "(nat \<Rightarrow> u8) \<Rightarrow> KernelSnapshotRec \<Rightarrow> bytes" where
  "snapshot_rec_enc pad v = c_struct pad [M64 (kr_seq v), M64 (kr_ts_ns v), M32 (kr_tgid v), M32 (kr_tid v), MChars (kr_comm v),
     M64 (kr_on_cpu_ns v), M32 (kr_nr_sw_vol v), M32 (kr_nr_sw_invol v), M64 (kr_io_ops v),
     M64 (kr_io_bytes v), M32s (kr_io_hist v), M32 (kr_pf_minor v), M32 (kr_pf_major v),
     M64 (kr_lock_waits v), M64 (kr_lock_lat_ns v), M32s (kr_lock_hist v),
     M64 (kr_syscall_count v), M64 (kr_syscall_lat_ns v), M32s (kr_syscall_hist v),
     M64 (kr_futex_waits v), M64 (kr_futex_lat_ns v), M32s (kr_futex_hist v),
     M64 (kr_runq_wait_ns v), M32 (kr_runq_wait_count v), M32s (kr_runq_hist v), M32 (kr_flags v)]"

text \<open>The record of the ring at the offsets of the collector's own declaration.\<close>

definition KernelSnapshotRec_of :: "bytes \<Rightarrow> KernelSnapshotRec" where
  "KernelSnapshotRec_of b = \<lparr>kr_seq = rd_u64 b 0, kr_ts_ns = rd_u64 b 8, kr_tgid = rd_u32 b 16, kr_tid = rd_u32 b 20,
     kr_comm = rd_chars b 24 16, kr_on_cpu_ns = rd_u64 b 40, kr_nr_sw_vol = rd_u32 b 48,
     kr_nr_sw_invol = rd_u32 b 52, kr_io_ops = rd_u64 b 56, kr_io_bytes = rd_u64 b 64,
     kr_io_hist = rd_u32s b 72 13, kr_pf_minor = rd_u32 b 124, kr_pf_major = rd_u32 b 128,
     kr_lock_waits = rd_u64 b 136, kr_lock_lat_ns = rd_u64 b 144, kr_lock_hist = rd_u32s b 152 13,
     kr_syscall_count = rd_u64 b 208, kr_syscall_lat_ns = rd_u64 b 216,
     kr_syscall_hist = rd_u32s b 224 13, kr_futex_waits = rd_u64 b 280,
     kr_futex_lat_ns = rd_u64 b 288, kr_futex_hist = rd_u32s b 296 13,
     kr_runq_wait_ns = rd_u64 b 352, kr_runq_wait_count = rd_u32 b 360,
     kr_runq_hist = rd_u32s b 364 13, kr_flags = rd_u32 b 416\<rparr>"

section \<open>Both declarations agree\<close>

lemmas layout_evals = c_struct_reads c_struct_length align_up_def

interpretation switch_t: layout "switch_t_enc pad" SwitchVal_of 8 "\<lambda>_. True" for pad
  by unfold_locales (simp_all add: switch_t_enc_def SwitchVal_of_def layout_evals)

interpretation faults_t: layout "faults_t_enc pad" FaultsVal_of 8 "\<lambda>_. True" for pad
  by unfold_locales (simp_all add: faults_t_enc_def FaultsVal_of_def layout_evals)

interpretation task_meta_t: layout "task_meta_t_enc pad" TaskMetaVal_of 20 "\<lambda>v. length (tm_comm v) = 16" for pad
  by unfold_locales (simp_all add: task_meta_t_enc_def TaskMetaVal_of_def layout_evals)

interpretation offcpu_stash_t: layout "offcpu_stash_t_enc pad" OffcpuStashVal_of 16 "\<lambda>_. True" for pad
  by unfold_locales (simp_all add: offcpu_stash_t_enc_def OffcpuStashVal_of_def layout_evals)

interpretation io_start_t: layout "io_start_t_enc pad" IoStartVal_of 280 "\<lambda>v. length (iv_path v) = 256" for pad
  by unfold_locales (simp_all add: io_start_t_enc_def IoStartVal_of_def layout_evals)

interpretation sock_owner_t: layout "sock_owner_t_enc pad" SockOwnerVal_of 136 "\<lambda>v. length (so_local_addr v) = 4 \<and> length (so_remote_addr v) = 4" for pad
  by unfold_locales (simp_all add: sock_owner_t_enc_def SockOwnerVal_of_def layout_evals)

interpretation net_drop_key: layout "net_drop_key_enc pad" NetDropKeyVal_of 16 "\<lambda>_. True" for pad
  by unfold_locales (simp_all add: net_drop_key_enc_def NetDropKeyVal_of_def layout_evals)

interpretation oncpu_key: layout "oncpu_key_enc pad" OncpuKey_of 16 "\<lambda>_. True" for pad
  by unfold_locales (simp_all add: oncpu_key_enc_def OncpuKey_of_def layout_evals)

interpretation io_file_key: layout "io_file_key_enc pad" IoFileKey_of 272 "\<lambda>v. length (fk_path v) = 256" for pad
  by unfold_locales (simp_all add: io_file_key_enc_def IoFileKey_of_def layout_evals)

interpretation io_file_val: layout "io_file_val_enc pad" IoFileVal_of 88 "\<lambda>v. length (fw_hist v) = 13" for pad
  by unfold_locales (simp_all add: io_file_val_enc_def IoFileVal_of_def layout_evals)

interpretation lock_hot_val: layout "lock_hot_val_enc pad" LockHotVal_of 16 "\<lambda>_. True" for pad
  by unfold_locales (simp_all add: lock_hot_val_enc_def LockHotVal_of_def layout_evals)

interpretation mem_events_t: layout "mem_events_t_enc pad" MemEventsVal_of 16 "\<lambda>_. True" for pad
  by unfold_locales (simp_all add: mem_events_t_enc_def MemEventsVal_of_def layout_evals)

interpretation oom_event_t: layout "oom_event_t_enc pad" OomEventVal_of 16 "\<lambda>_. True" for pad
  by unfold_locales (simp_all add: oom_event_t_enc_def OomEventVal_of_def layout_evals)

interpretation snapshot_rec: layout "snapshot_rec_enc pad" KernelSnapshotRec_of 424 "\<lambda>v. snapshot_fits v" for pad
  by unfold_locales (simp_all add: snapshot_rec_enc_def KernelSnapshotRec_of_def snapshot_fits_def layout_evals)

text \<open>The statistics the dump reads have the layout they are written with there.\<close>

lemma statistics_layouts:
  "length (lv_hist l) = 13 \<Longrightarrow> lat_stat_enc l = c_struct (\<lambda>_. 0) [M64 (lv_count l), M64 (lv_lat_sum l), M32s (lv_hist l)]"
  "length (bi_hist b) = 13 \<Longrightarrow>
     blk_io_enc b = c_struct (\<lambda>_. 0) [M64 (bi_ops b), M64 (bi_bytes b), M64 (bi_lat_sum b), M32s (bi_hist b)]"
  "length (sl_hist s) = 64 \<Longrightarrow>
     sys_lat_val_enc s = c_struct (\<lambda>_. 0) [M64 (sl_count s), M64 (sl_lat_sum s), M64 (sl_error_count s), M32s (sl_hist s)]"
  "sys_lat_key_enc k = c_struct (\<lambda>_. 0) [M32 (sk_tid k), M32 (sk_id k)]"
  "net_softirq_key_enc n = c_struct (\<lambda>_. 0) [M32 (nk_cpu_idx n), M32 (nk_vector n)]"
  by (simp_all add: c_struct_def align_up_def upt_rec lat_stat_enc_def blk_io_enc_def sys_lat_val_enc_def
      sys_lat_key_enc_def net_softirq_key_enc_def) (simp_all add: eval_nat_numeral)



end
