(* ===== verification/Spec2Isabelle.thy ===== *)
theory Spec2Isabelle
  imports DeepProps GpuProps SelectorProps HostProps WsProps WriterProps WriterState EvidenceProps NetworkProps Log KernPairs KernSum KernDump KernLayout
begin

text \<open>
  \<^bold>\<open>A verification development of the collector of eTrace-Diag.\<close>

  eTrace-Diag watches a Linux host. The collector (\<^verbatim>\<open>src/\<close>, C++) reads the files of \<^verbatim>\<open>/proc\<close> and
  \<^verbatim>\<open>/sys\<close>, netlink and the GPUs, selects the threads worth watching, asks a model whether the host
  behaves anomalously, and writes everything to one SQLite database per session. Its kernel programs
  (\<^verbatim>\<open>bpf/\<close>, C compiled to eBPF) count per thread; while an anomaly lasts (the phase DEEP) more of them
  are attached. This development translates both sides into HOL functions and proves what makes
  them correct, together with what they get wrong.

  \<^bold>\<open>How the parts interact.\<close> \<^verbatim>\<open>main\<close> merges the configuration (default, file, environment, command
  line), sanitises it and runs \<^verbatim>\<open>RunCollector\<close>. An iteration of its loop reloads the configuration when
  asked to, takes the host, network and GPU rows, evaluates the target selector (which keeps the
  \<^verbatim>\<open>targets\<close> map of the kernel equal to its members), gathers the features, asks the model, and feeds
  the verdict to the phase manager. The phase manager opens and closes episodes: it enters and leaves
  the deep collector, which attaches the deep programs through the eBPF manager, copies the
  pre-window of the flight recorder, follows the post-window and drains the deep maps into the
  writer; at the end the writer hands the evidence bundle to the diagnosis model. All writes of an
  iteration lie in one batch.

  \<^bold>\<open>Theories, in the order of the code.\<close> Functions keep the source's names where HOL allows it.

  \<^item> \<open>Prelude\<close>: fixed-width integers, the C and C++ string functions the code uses, association lists.
    \<open>Json\<close>: JSON values, conversions with their type errors, merge patches. \<open>Metrics\<close>: the rows of
    \<^verbatim>\<open>include/etrace_diag/metrics.h\<close> with their default values and JSON forms.
  \<^item> \<open>Config\<close>: \<^verbatim>\<open>config.h\<close>, \<^verbatim>\<open>config.cpp\<close> and the part of \<^verbatim>\<open>main.cpp\<close> that puts a configuration together.
  \<^item> \<open>Phase\<close>: \<^verbatim>\<open>phase_manager.cpp\<close>, one function per method; calls on other components are recorded.
  \<^item> \<open>MapReader\<close>, \<open>Recorder\<close>, \<open>BpfValues\<close>, \<open>Seqlock\<close>: \<^verbatim>\<open>map_reader.cpp\<close> and \<^verbatim>\<open>bpf_values.h\<close>: walks
    of kernel maps, sums over CPUs, the record of the flight recorder and its byte layout, and its
    sequence lock as interleaved steps of a producer and a reader.
  \<^item> \<open>Deep\<close>, \<open>DeepProps\<close>: \<^verbatim>\<open>deep_collector.cpp\<close>. \<open>Symbols\<close>, \<open>Ebpf\<close>, \<open>ProcTable\<close>: \<^verbatim>\<open>ebpf_manager.cpp\<close>.
  \<^item> \<open>Host\<close>, \<open>HostProps\<close>: \<^verbatim>\<open>host_metrics.cpp\<close>. \<open>Network\<close>, \<open>NetworkProps\<close>: \<^verbatim>\<open>network_metrics.cpp\<close>.
    \<open>Gpu\<close>, \<open>GpuProps\<close>: \<^verbatim>\<open>gpu_metrics.cpp\<close>.
  \<^item> \<open>Selector\<close>, \<open>SelectorProps\<close>: \<^verbatim>\<open>target_selector.cpp\<close>.
  \<^item> \<open>Model\<close>, \<open>Ws\<close>, \<open>WsProps\<close>: \<^verbatim>\<open>src/model/\<close>: features, replies, the clients and the WebSocket protocol.
  \<^item> \<open>Schema\<close>, \<open>Writer\<close>, \<open>WriterProps\<close>, \<open>WriterState\<close>, \<open>Evidence\<close>, \<open>EvidenceProps\<close>:
    \<^verbatim>\<open>output/writer.cpp\<close>, \<^verbatim>\<open>output_writer.h\<close> and the part of \<^verbatim>\<open>logging.cpp\<close> that writes to the database.
  \<^item> \<open>AppParts\<close>, \<open>App\<close>, \<open>AppProps\<close>: \<^verbatim>\<open>app.cpp\<close>. \<open>Cli\<close>, \<open>CliProps\<close>: \<^verbatim>\<open>main.cpp\<close> and the whole process.
    \<open>Log\<close>: the logger of \<^verbatim>\<open>logging.cpp\<close> as an object, and how a process uses it.
  \<^item> \<open>Kern\<close>, \<open>KernBase\<close>, \<open>KernDeep\<close>, \<open>KernNet\<close>, \<open>KernSnap\<close>: \<^verbatim>\<open>bpf/etrace_common.h\<close> and
    \<^verbatim>\<open>bpf/etrace_x86.bpf.c\<close>, one function per program over a record of the kernel's maps. \<open>KernLib\<close>,
    \<open>KernInv\<close>, \<open>KernHost\<close>, \<open>KernProps\<close>, \<open>KernPairs\<close>, \<open>KernBins\<close>, \<open>KernSum\<close>: their library,
    invariant, the collector's own writes to the maps, and the properties. \<open>KernRows\<close>, \<open>KernDump\<close>: the
    structs as bytes and the dump of an episode, from the kernel's counters to the collector's rows.
    \<open>KernLayout\<close>: the layout rule of the C compiler and every struct both sides declare.

  \<^bold>\<open>What the groups of lemmas show.\<close> Configuration: bounds, round trip, which source wins. Phase:
  episodes are bracketed, end by the debounced verdict or the deadline. Selector: members bounded,
  pinned threads kept, the kernel's map in step. Deep collector: attachment degrades or rolls back,
  percentiles, and which records of the recorder are read, lost or torn. Writer: statements fit the
  schema, rows their columns, batches are atomic, evidence belongs to the open episode. Evidence: the
  nested accumulation is the direct sum. WebSocket: framing round trip and pings. Host, network, GPU
  and process table: what is read is what the kernel printed, with the exceptions stated. Kernel
  programs: processor time, run-queue waits and system calls are attributed to the right thread once,
  whatever is interleaved; histograms agree with counts in every reachable state; the two producers of
  the recorder agree. Main loop and process: batches, pacing, intervals and sums, the configuration in
  force, and which iteration sees a signal. GPU: the library is taken and given up in order, and a
  clear bit of the mask is a zero field.

  \<^bold>\<open>Interfaces.\<close> Locales state contracts several components share and each is interpreted on the
  code's own definitions: among them \<open>tally\<close> (a per-CPU counter under updates), \<open>statistic\<close> (a count
  with its histogram) and \<open>log_bins\<close> (bins with edges) for the kernel maps, \<open>layout\<close>, \<open>counter_layout\<close> and
  \<open>counted_map\<close> (a struct as bytes, a counter, a map of counters) for what crosses the boundary.

  \<^bold>\<open>Modelling choices.\<close> Integers keep their width and wrap. Doubles are rationals: rounding, infinities
  and NaN are not modelled. Errors, early returns and exceptions are values. A kernel map is a list of
  entries with a capacity; what \<^verbatim>\<open>bpf_map_lookup_elem\<close> and \<^verbatim>\<open>bpf_map_update_elem\<close> promise is written
  out. Structs a program never initialises take their content from an argument (\<open>junk\<close>). The SQL text
  is not interpreted: a statement is its table, its columns and its bindings, transcribed from the text,
  and SQLite decides through arguments which calls succeed. Walks of maps stop after 8192 entries as in
  the code; \<open>ForEach\<close>, which has no such bound there, runs on fuel and returns whenever the fuel exceeds the
  number of entries (\<open>MapReader.ForEach_visits_all\<close>). The sequence lock is sequentially consistent, so what it shows
  torn is torn on weaker memory as well.

  \<^bold>\<open>Not modelled.\<close> The JSON parser, SQLite, libbpf, the ONNX runtime and NVML are not part of the
  sources: they are arguments. Formatting for the terminal and the installation of
  handlers are glue. The kernel's verifier and weak memory are left out. \<^verbatim>\<open>bpf/etrace.bpf.c\<close> is a copy of the
  kernel programs the build does not use; the programs of other architectures repeat those of x86-64
  with other register names. The viewer, the scripts, the models and the tests are not part of the
  collector.
\<close>

end
